(* ===== verification/Prelude.thy ===== *)
theory Prelude
  imports Main
begin

text \<open>
  Shared vocabulary of the development: errors as values, tables as lists of rows,
  the clock, JSON values as the settings hold them, the Python idioms the code uses
  (\<open>x or y\<close>, \<open>strip\<close>, slicing, clamping with \<open>max\<close> and \<open>min\<close>), and the
  lemmas on them that every component uses.
\<close>

named_theorems table_simps
  "find, update and sum over the rows of a table"

section \<open>Errors\<close>

text \<open>
  What a function of the source can raise. A \<open>BusinessError\<close> carries its HTTP status
  and its stable code, an \<open>HTTPException\<close> its status and a short key for the detail
  text; the texts themselves are for display and are not modelled.
\<close>

datatype error =
    BusinessError int string
  | HTTPException int string
  | IntegrityError
  | RedisUnavailableError
  | RedisConnectionError
  | RuntimeError string
  | TypeError string
  | ValueError string

type_synonym 'a result = "error + 'a"

section \<open>The clock\<close>

text \<open>
  A \<open>datetime\<close> and a reading of \<open>time.time()\<close> are counts of microseconds. An operation
  reads the clock once and keeps that reading as \<open>now\<close>.
\<close>

type_synonym time = int

definition seconds :: "int \<Rightarrow> time" where
  "seconds n = n * 1000000"

definition days :: "int \<Rightarrow> time" where
  "days n = seconds (n * 86400)"

lemma seconds_mono [simp]: "seconds a \<le> seconds b \<longleftrightarrow> a \<le> b"
  by (simp add: seconds_def)

lemma seconds_pos [simp]: "0 < seconds n \<longleftrightarrow> 0 < n"
  by (simp add: seconds_def)

lemma days_pos [simp]: "0 < days n \<longleftrightarrow> 0 < n"
  by (simp add: days_def)

section \<open>Tables\<close>

text \<open>
  A table is the list of its rows in insertion order. \<open>find_by key k\<close> is
  \<open>db.get\<close> / \<open>db.scalar(select(T).where(T.key == k))\<close>; \<open>update_by key k f\<close> writes
  the attributes of the row with that key; \<open>fresh_id\<close> is the primary key a flush
  assigns to a new row.
\<close>

definition find_by :: "('r \<Rightarrow> 'k) \<Rightarrow> 'k \<Rightarrow> 'r list \<Rightarrow> 'r option" where
  "find_by key k rows = List.find (\<lambda>r. key r = k) rows"

definition update_by :: "('r \<Rightarrow> 'k) \<Rightarrow> 'k \<Rightarrow> ('r \<Rightarrow> 'r) \<Rightarrow> 'r list \<Rightarrow> 'r list" where
  "update_by key k f rows = map (\<lambda>r. if key r = k then f r else r) rows"

definition fresh_id :: "('r \<Rightarrow> int) \<Rightarrow> 'r list \<Rightarrow> int" where
  "fresh_id key rows = foldr (\<lambda>r m. max (key r) m) rows 0 + 1"

definition sum_where :: "('r \<Rightarrow> bool) \<Rightarrow> ('r \<Rightarrow> int) \<Rightarrow> 'r list \<Rightarrow> int" where
  "sum_where P f rows = sum_list (map f (filter P rows))"

lemma find_by_Nil [table_simps, simp]: "find_by key k [] = None"
  by (simp add: find_by_def)

lemma find_by_Cons [table_simps]:
  "find_by key k (r # rows) = (if key r = k then Some r else find_by key k rows)"
  by (simp add: find_by_def)

lemma find_by_append [table_simps]:
  "find_by key k (xs @ ys) = (case find_by key k xs of Some r \<Rightarrow> Some r | None \<Rightarrow> find_by key k ys)"
  by (induction xs) (auto simp: find_by_Cons)

lemma find_by_SomeD: "find_by key k rows = Some r \<Longrightarrow> r \<in> set rows \<and> key r = k"
  by (induction rows) (auto simp: find_by_Cons split: if_splits)

lemma find_by_key: "find_by key k rows = Some r \<Longrightarrow> key r = k"
  by (blast dest: find_by_SomeD)

lemma find_by_mem: "find_by key k rows = Some r \<Longrightarrow> r \<in> set rows"
  by (blast dest: find_by_SomeD)

lemma find_by_None_iff: "find_by key k rows = None \<longleftrightarrow> k \<notin> key ` set rows"
  by (induction rows) (auto simp: find_by_Cons)

lemma find_by_distinct:
  "distinct (map key rows) \<Longrightarrow> r \<in> set rows \<Longrightarrow> find_by key (key r) rows = Some r"
  by (induction rows) (auto simp: find_by_Cons)

lemma update_by_Nil [table_simps, simp]: "update_by key k f [] = []"
  by (simp add: update_by_def)

lemma update_by_Cons [table_simps]:
  "update_by key k f (r # rows) = (if key r = k then f r else r) # update_by key k f rows"
  by (simp add: update_by_def)

lemma update_by_append [table_simps]:
  "update_by key k f (xs @ ys) = update_by key k f xs @ update_by key k f ys"
  by (simp add: update_by_def)

lemma length_update_by [simp]: "length (update_by key k f rows) = length rows"
  by (simp add: update_by_def)

lemma set_update_by:
  "set (update_by key k f rows) = (\<lambda>r. if key r = k then f r else r) ` set rows"
  by (simp add: update_by_def)

lemma update_by_id: "k \<notin> key ` set rows \<Longrightarrow> update_by key k f rows = rows"
  by (induction rows) (auto simp: update_by_Cons)

lemma map_key_update_by:
  "(\<And>r. key' (f r) = key' r) \<Longrightarrow> map key' (update_by key k f rows) = map key' rows"
  by (simp add: update_by_def)

lemma find_by_update_by:
  assumes "\<And>r. key (f r) = key r"
  shows "find_by key j (update_by key k f rows) =
    (if j = k then map_option f (find_by key k rows) else find_by key j rows)"
  using assms by (induction rows) (auto simp: find_by_Cons update_by_Cons)

lemma find_by_update_other:
  assumes "\<And>r. key' (f r) = key' r" and "\<And>r. key r = k \<Longrightarrow> key' r \<noteq> j"
  shows "find_by key' j (update_by key k f rows) = find_by key' j rows"
  using assms by (induction rows) (auto simp: find_by_Cons update_by_Cons)

lemma fresh_id_above: "r \<in> set rows \<Longrightarrow> key r < fresh_id key rows"
proof (induction rows)
  case (Cons x rows)
  then show ?case by (auto simp: fresh_id_def)
qed simp

lemma fresh_id_new: "fresh_id key rows \<notin> key ` set rows"
  by (auto dest: fresh_id_above [of _ _ key])

lemma fresh_id_pos: "0 < fresh_id key rows"
proof -
  have "0 \<le> foldr (\<lambda>r m. max (key r) m) rows 0"
    by (induction rows) auto
  then show ?thesis by (simp add: fresh_id_def)
qed

lemma find_by_fresh [simp]: "find_by key (fresh_id key rows) rows = None"
  by (simp add: find_by_None_iff fresh_id_new)

lemma sum_where_Nil [table_simps, simp]: "sum_where P f [] = 0"
  by (simp add: sum_where_def)

lemma sum_where_Cons [table_simps]:
  "sum_where P f (r # rows) = (if P r then f r else 0) + sum_where P f rows"
  by (simp add: sum_where_def)

lemma sum_where_append [table_simps]:
  "sum_where P f (xs @ ys) = sum_where P f xs + sum_where P f ys"
  by (simp add: sum_where_def)

lemma sum_where_nonneg: "(\<And>r. r \<in> set rows \<Longrightarrow> P r \<Longrightarrow> 0 \<le> f r) \<Longrightarrow> 0 \<le> sum_where P f rows"
  by (induction rows) (auto simp: sum_where_Cons)

lemma sum_where_none: "(\<And>r. r \<in> set rows \<Longrightarrow> P r \<Longrightarrow> f r = 0) \<Longrightarrow> sum_where P f rows = 0"
  by (induction rows) (auto simp: sum_where_Cons)

lemma sum_where_cong:
  "(\<And>r. r \<in> set rows \<Longrightarrow> P r = Q r \<and> (P r \<longrightarrow> f r = g r)) \<Longrightarrow> sum_where P f rows = sum_where Q g rows"
  by (induction rows) (auto simp: sum_where_Cons)

lemma sum_where_mem_le:
  "r \<in> set rows \<Longrightarrow> P r \<Longrightarrow> (\<And>x. x \<in> set rows \<Longrightarrow> P x \<Longrightarrow> 0 \<le> f x) \<Longrightarrow> f r \<le> sum_where P f rows"
proof (induction rows)
  case (Cons x rows)
  have "0 \<le> sum_where P f rows"
    using Cons.prems(3) by (intro sum_where_nonneg) simp
  then show ?case
    using Cons by (auto simp: sum_where_Cons intro: add_increasing)
qed simp

lemma sum_where_split:
  "sum_where P f rows = sum_where (\<lambda>r. P r \<and> Q r) f rows + sum_where (\<lambda>r. P r \<and> \<not> Q r) f rows"
  by (induction rows) (auto simp: sum_where_Cons)

text \<open>One row of a table with distinct keys changes: the sum changes by that row's part.\<close>

lemma sum_where_update_by:
  assumes "distinct (map key rows)" and "find_by key k rows = Some r"
  shows "sum_where P f (update_by key k g rows) =
    sum_where P f rows - (if P r then f r else 0) + (if P (g r) then f (g r) else 0)"
  using assms
proof (induction rows)
  case (Cons x rows)
  show ?case
  proof (cases "key x = k")
    case True
    then have "update_by key k g rows = rows"
      using Cons.prems by (intro update_by_id) auto
    then show ?thesis
      using True Cons.prems by (simp add: table_simps)
  next
    case False
    then show ?thesis
      using Cons by (simp add: table_simps)
  qed
qed simp

lemma sum_where_update_same:
  assumes "\<And>r. key r = k \<Longrightarrow> P (g r) = P r \<and> (P r \<longrightarrow> f (g r) = f r)"
  shows "sum_where P f (update_by key k g rows) = sum_where P f rows"
  using assms by (induction rows) (auto simp: table_simps)

lemma map_sum_eq_Inr: "map_sum f g r = Inr y \<longleftrightarrow> (\<exists>x. r = Inr x \<and> y = g x)"
  by (cases r) auto

lemma sort_key_Nil: "sort_key f xs = [] \<longleftrightarrow> xs = []"
  by (metis length_0_conv length_sort)

section \<open>Python idioms\<close>

text \<open>\<open>max(lo, min(hi, x))\<close>.\<close>

definition clamp :: "int \<Rightarrow> int \<Rightarrow> int \<Rightarrow> int" where
  "clamp lo hi x = max lo (min hi x)"

lemma clamp_bounds: "lo \<le> hi \<Longrightarrow> lo \<le> clamp lo hi x \<and> clamp lo hi x \<le> hi"
  by (auto simp: clamp_def)

lemma clamp_id: "lo \<le> x \<Longrightarrow> x \<le> hi \<Longrightarrow> clamp lo hi x = x"
  by (auto simp: clamp_def)

text \<open>\<open>a or b\<close> on strings and integers: the first operand unless it is falsy.\<close>

definition str_or :: "string \<Rightarrow> string \<Rightarrow> string" where
  "str_or a b = (if a = [] then b else a)"

definition int_or :: "int \<Rightarrow> int \<Rightarrow> int" where
  "int_or a b = (if a = 0 then b else a)"

text \<open>\<open>s.strip()\<close> on the ASCII white space.\<close>

definition is_space :: "char \<Rightarrow> bool" where
  "is_space c \<longleftrightarrow> c \<in> {CHR '' '', CHR 0x09, CHR 0x0A, CHR 0x0B, CHR 0x0C, CHR 0x0D,
                       CHR 0x1C, CHR 0x1D, CHR 0x1E, CHR 0x1F}"

definition lstrip :: "string \<Rightarrow> string" where
  "lstrip s = dropWhile is_space s"

definition strip :: "string \<Rightarrow> string" where
  "strip s = rev (lstrip (rev (lstrip s)))"

lemma strip_Nil [simp]: "strip [] = []"
  by (simp add: strip_def lstrip_def)

lemma dropWhile_fixed: "xs = [] \<or> \<not> P (hd xs) \<Longrightarrow> dropWhile P xs = xs"
  by (cases xs) auto

lemma last_lstrip: "lstrip s \<noteq> [] \<Longrightarrow> last (lstrip s) = last s"
  unfolding lstrip_def by (metis append_Nil2 last_appendR takeWhile_dropWhile_id)

lemma hd_strip: "strip s \<noteq> [] \<Longrightarrow> \<not> is_space (hd (strip s))"
proof -
  assume ne: "strip s \<noteq> []"
  then have r: "lstrip (rev (lstrip s)) \<noteq> []" by (simp add: strip_def)
  then have l: "lstrip s \<noteq> []" unfolding lstrip_def by (metis dropWhile.simps(1) rev.simps(1))
  have "hd (strip s) = last (lstrip (rev (lstrip s)))"
    using r by (simp add: strip_def hd_rev)
  also have "\<dots> = hd (lstrip s)"
    using r l by (simp add: last_lstrip last_rev)
  finally show ?thesis
    using l by (simp add: lstrip_def hd_dropWhile)
qed

lemma last_strip: "strip s \<noteq> [] \<Longrightarrow> \<not> is_space (last (strip s))"
proof -
  assume "strip s \<noteq> []"
  then have "lstrip (rev (lstrip s)) \<noteq> []" by (simp add: strip_def)
  then show ?thesis
    by (simp add: strip_def last_rev lstrip_def hd_dropWhile)
qed

lemma strip_strip [simp]: "strip (strip s) = strip s"
proof (cases "strip s = []")
  case False
  have "lstrip (strip s) = strip s"
    using hd_strip [OF False] by (simp add: lstrip_def dropWhile_fixed)
  moreover have "lstrip (rev (strip s)) = rev (strip s)"
    using last_strip [OF False] False by (simp add: lstrip_def dropWhile_fixed hd_rev)
  ultimately show ?thesis
    by (simp add: strip_def [of "strip s"])
qed simp

text \<open>
  A JSON value as a settings row or a cache entry holds it. \<open>JDec c s\<close> is the number
  \<open>c / 10 ^ s\<close> written with a decimal point.
\<close>

datatype json =
    JNull
  | JBool bool
  | JInt int
  | JDec int nat
  | JStr string
  | JList "json list"
  | JObj "(string \<times> json) list"

text \<open>\<open>value.get(key)\<close>: \<open>JNull\<close> stands for the missing value \<open>None\<close>.\<close>

fun jget :: "json \<Rightarrow> string \<Rightarrow> json" where
  "jget (JObj kvs) k = (case map_of kvs k of Some v \<Rightarrow> v | None \<Rightarrow> JNull)"
| "jget _ k = JNull"

text \<open>\<open>value.get(key, default)\<close> on an object: a present null is not replaced.\<close>

definition jget_or :: "(string \<times> json) list \<Rightarrow> string \<Rightarrow> json \<Rightarrow> json" where
  "jget_or kvs k dflt = (case map_of kvs k of Some v \<Rightarrow> v | None \<Rightarrow> dflt)"

fun truthy :: "json \<Rightarrow> bool" where
  "truthy JNull = False"
| "truthy (JBool b) = b"
| "truthy (JInt n) = (n \<noteq> 0)"
| "truthy (JDec c s) = (c \<noteq> 0)"
| "truthy (JStr s) = (s \<noteq> [])"
| "truthy (JList xs) = (xs \<noteq> [])"
| "truthy (JObj kvs) = (kvs \<noteq> [])"

definition json_or :: "json \<Rightarrow> json \<Rightarrow> json" where
  "json_or a b = (if truthy a then a else b)"

section \<open>Runs of a step relation\<close>

text \<open>
  The interface a state machine offers: an initial predicate, a step relation and an
  invariant its steps keep. What follows for every reachable state is proved once here.
\<close>

inductive runs :: "('s \<Rightarrow> 's \<Rightarrow> bool) \<Rightarrow> 's \<Rightarrow> 's \<Rightarrow> bool" for step where
  runs_refl: "runs step s s"
| runs_step: "runs step s t \<Longrightarrow> step t u \<Longrightarrow> runs step s u"

locale machine =
  fixes init :: "'s \<Rightarrow> bool"
    and step :: "'s \<Rightarrow> 's \<Rightarrow> bool"
    and inv :: "'s \<Rightarrow> bool"
  assumes init_inv: "init s \<Longrightarrow> inv s"
    and step_inv: "inv s \<Longrightarrow> step s t \<Longrightarrow> inv t"
begin

lemma runs_inv: "runs step s t \<Longrightarrow> inv s \<Longrightarrow> inv t"
  by (induction rule: runs.induct) (auto intro: step_inv)

lemma reachable_inv: "init s \<Longrightarrow> runs step s t \<Longrightarrow> inv t"
  using init_inv runs_inv by blast

end

end
