(* ===== verification/Order_Status.thy ===== *)
theory Order_Status
  imports Prelude
begin

text \<open>
  The enumerations of \<open>app/core/order_status.py\<close>. Each \<open>StrEnum\<close> is a datatype with
  its string values (\<open>..._value\<close>) and the parser a value passes through when it is read
  back (\<open>..._of\<close>); \<open>status_label\<close> is the display lookup.
\<close>

datatype payment_status = PayPending | PayPaid | PayCanceled | PayRefunded

datatype order_status = OrdPending | OrdPaid | OrdCanceled

datatype travel_status = TravelCreated | TravelCompleted | TravelCancelled

datatype review_status = RevPending | RevApproved | RevRejected

datatype contract_status = ConUnsigned | ConPending | ConApproved | ConRejected

datatype fulfillment =
    CONTRACT_PENDING
  | CONTRACT_REVIEWING
  | CONTRACT_REJECTED
  | INFO_PENDING
  | INFO_SUBMITTED
  | PICKUP_CONFIRMED
  | USER_CONFIRMED
  | QR_ISSUED
  | CHECKED_IN
  | IN_TRIP
  | COMPLETED
  | EXCEPTION
  | CANCELLED

fun payment_value :: "payment_status \<Rightarrow> string" where
  "payment_value PayPending = ''pending''"
| "payment_value PayPaid = ''paid''"
| "payment_value PayCanceled = ''canceled''"
| "payment_value PayRefunded = ''refunded''"

fun order_value :: "order_status \<Rightarrow> string" where
  "order_value OrdPending = ''pending''"
| "order_value OrdPaid = ''paid''"
| "order_value OrdCanceled = ''canceled''"

fun travel_value :: "travel_status \<Rightarrow> int" where
  "travel_value TravelCreated = 0"
| "travel_value TravelCompleted = 1"
| "travel_value TravelCancelled = 2"

fun review_value :: "review_status \<Rightarrow> string" where
  "review_value RevPending = ''pending''"
| "review_value RevApproved = ''approved''"
| "review_value RevRejected = ''rejected''"

fun contract_value :: "contract_status \<Rightarrow> string" where
  "contract_value ConUnsigned = ''unsigned''"
| "contract_value ConPending = ''pending''"
| "contract_value ConApproved = ''approved''"
| "contract_value ConRejected = ''rejected''"

fun fulfillment_value :: "fulfillment \<Rightarrow> string" where
  "fulfillment_value CONTRACT_PENDING = ''contract_pending''"
| "fulfillment_value CONTRACT_REVIEWING = ''contract_reviewing''"
| "fulfillment_value CONTRACT_REJECTED = ''contract_rejected''"
| "fulfillment_value INFO_PENDING = ''info_pending''"
| "fulfillment_value INFO_SUBMITTED = ''info_submitted''"
| "fulfillment_value PICKUP_CONFIRMED = ''pickup_confirmed''"
| "fulfillment_value USER_CONFIRMED = ''user_confirmed''"
| "fulfillment_value QR_ISSUED = ''qr_issued''"
| "fulfillment_value CHECKED_IN = ''checked_in''"
| "fulfillment_value IN_TRIP = ''in_trip''"
| "fulfillment_value COMPLETED = ''completed''"
| "fulfillment_value EXCEPTION = ''exception''"
| "fulfillment_value CANCELLED = ''cancelled''"

text \<open>All members, in the order of the source: iterating over the enumeration.\<close>

definition all_payment :: "payment_status list" where
  "all_payment = [PayPending, PayPaid, PayCanceled, PayRefunded]"

definition all_fulfillment :: "fulfillment list" where
  "all_fulfillment = [CONTRACT_PENDING, CONTRACT_REVIEWING, CONTRACT_REJECTED, INFO_PENDING,
     INFO_SUBMITTED, PICKUP_CONFIRMED, USER_CONFIRMED, QR_ISSUED, CHECKED_IN, IN_TRIP,
     COMPLETED, EXCEPTION, CANCELLED]"

text \<open>\<open>TravelFulfillmentStatus(text)\<close>: the member with that value.\<close>

definition payment_of :: "string \<Rightarrow> payment_status option" where
  "payment_of s = List.find (\<lambda>m. payment_value m = s) all_payment"

definition fulfillment_of :: "string \<Rightarrow> fulfillment option" where
  "fulfillment_of s = List.find (\<lambda>m. fulfillment_value m = s) all_fulfillment"

lemma payment_of_value: "payment_of (payment_value m) = Some m"
  by (cases m) (simp_all add: payment_of_def all_payment_def)

lemma fulfillment_of_value: "fulfillment_of (fulfillment_value m) = Some m"
  by (cases m) (simp_all add: fulfillment_of_def all_fulfillment_def)

text \<open>
  \<open>mapping.get(value) or mapping.get(str(value or "")) or default\<close>; an enumeration member
  hashes and compares as its string, so both lookups use the string, and \<open>None\<close> is
  looked up as itself first, which no table has as a key.
\<close>

definition status_label :: "(string \<times> string) list \<Rightarrow> string option \<Rightarrow> string \<Rightarrow> string" where
  "status_label mapping value dflt =
    (let first = (case value of None \<Rightarrow> None | Some v \<Rightarrow> map_of mapping v);
         text = (case value of None \<Rightarrow> [] | Some v \<Rightarrow> v);
         second = map_of mapping text
     in case first of
          Some (c # cs) \<Rightarrow> c # cs
        | _ \<Rightarrow> (case second of Some (c # cs) \<Rightarrow> c # cs | _ \<Rightarrow> dflt))"

end
