(* ===== verification/Entities.thy ===== *)
theory Entities
  imports Order_Status
begin

text \<open>
  The tables of \<open>app/models/entities.py\<close> the modelled operations read or write: one
  record per mapped class, one field per column (\<open>server_default\<close> time stamps only
  where code reads them). Amounts in \<open>Numeric(10, 2)\<close> columns are integers counting
  cents, JSON columns are of type \<open>json\<close> or lists, status columns are the enumerations.
  \<open>db\<close> is the database as one session sees it.
\<close>

type_synonym cents = int

record user_account =
  ua_id :: int
  ua_user_no :: string
  ua_phone :: string
  ua_wechat_openid :: "string option"
  ua_nickname :: string
  ua_password_hash :: string
  ua_role :: string
  ua_status :: string
  ua_avatar :: string
  ua_points :: int
  ua_balance :: cents
  ua_exam_status :: string
  ua_vip_enabled :: bool
  ua_vip_type :: string
  ua_vip_started_at :: "time option"
  ua_vip_expires_at :: "time option"
  ua_vip_remark :: string
  ua_is_registered :: bool
  ua_last_login_at :: "time option"

record user_session =
  us_token :: string
  us_user_id :: int
  us_role :: string
  us_expires_at :: time
  us_last_seen_at :: "time option"

datatype direction = Income | Expense

record wallet_transaction =
  wt_id :: int
  wt_user_id :: int
  wt_user_no :: string
  wt_transaction_no :: string
  wt_direction :: direction
  wt_amount :: cents
  wt_balance_before :: cents
  wt_balance_after :: cents
  wt_biz_type :: string
  wt_biz_id :: int
  wt_biz_no :: string
  wt_remark :: string

record travel_route =
  tr_id :: int
  tr_school_id :: int
  tr_name :: string
  tr_category :: string
  tr_days :: string
  tr_price :: cents
  tr_stock :: int
  tr_agency :: string
  tr_image :: string
  tr_description :: string
  tr_display_weight :: int
  tr_review_status :: review_status
  tr_reject_reason :: string
  tr_status :: bool

record point_rule =
  pr_invite_score :: int
  pr_checkin_score :: int
  pr_purchase_score :: int
  pr_vip_purchase_score :: int
  pr_exchange_score :: int
  pr_valid_days :: int
  pr_yearly_limit :: int
  pr_monthly_stock :: int
  pr_invite_enabled :: bool
  pr_checkin_enabled :: bool
  pr_purchase_enabled :: bool
  pr_vip_purchase_enabled :: bool
  pr_enabled :: bool

record point_ledger =
  pl_id :: int
  pl_transaction_no :: string
  pl_user_id :: int
  pl_user_no :: string
  pl_direction :: direction
  pl_amount :: int
  pl_balance_before :: int
  pl_balance_after :: int
  pl_biz_type :: string
  pl_biz_id :: int
  pl_biz_no :: string
  pl_idempotency_key :: string
  pl_remark :: string

datatype lot_status = LotActive | LotConsumed | LotExpired | LotRevoked

record point_lot =
  lot_id :: int
  lot_user_id :: int
  lot_source_ledger_id :: int
  lot_original_amount :: int
  lot_remaining_amount :: int
  lot_expires_at :: "time option"
  lot_status :: lot_status

record point_allocation =
  al_id :: int
  al_expense_ledger_id :: int
  al_lot_id :: int
  al_amount :: int
  al_restored_amount :: int

record study_product =
  sp_id :: int
  sp_school_id :: int
  sp_name :: string
  sp_product_type :: string
  sp_subtitle :: string
  sp_description :: string
  sp_price :: cents
  sp_original_price :: cents
  sp_billing_cycle :: string
  sp_cover :: string
  sp_benefits :: "string list"
  sp_trial_minutes :: int
  sp_stock :: int
  sp_sales :: int
  sp_featured :: bool
  sp_installment_enabled :: bool
  sp_installment_count :: int
  sp_status :: bool
  sp_review_status :: review_status
  sp_reject_reason :: string

record study_order =
  so_id :: int
  so_order_no :: string
  so_user_id :: int
  so_school_id :: int
  so_product_id :: int
  so_product_name :: string
  so_product_type :: string
  so_amount :: cents
  so_payment_method :: string
  so_payment_status :: payment_status
  so_transaction_id :: string
  so_installment_no :: int
  so_installment_count :: int
  so_paid_at :: "time option"

record commerce_order =
  co_id :: int
  co_order_no :: string
  co_user_id :: int
  co_school_id :: int
  co_total_amount :: cents
  co_payable_amount :: cents
  co_payment_method :: string
  co_payment_status :: payment_status
  co_status :: order_status
  co_idempotency_key :: string
  co_transaction_id :: string
  co_refund_no :: "string option"
  co_refund_id :: string
  co_refund_status :: string
  co_refund_reason :: string
  co_timeout_job_scheduled :: bool
  co_paid_at :: "time option"
  co_refund_requested_at :: "time option"
  co_refunded_at :: "time option"
  co_canceled_at :: "time option"
  co_cancel_reason :: string
  co_created_at :: time

record order_item =
  oi_id :: int
  oi_order_id :: int
  oi_order_no :: string
  oi_product_id :: int
  oi_product_name :: string
  oi_product_type :: string
  oi_school_id :: int
  oi_unit_price :: cents
  oi_quantity :: int
  oi_total_amount :: cents
  oi_installment_count :: int
  oi_stock_deducted :: bool
  oi_status :: order_status

record entitlement =
  ue_id :: int
  ue_user_id :: int
  ue_product_id :: int
  ue_order_id :: int
  ue_entitlement_type :: string
  ue_starts_at :: time
  ue_expires_at :: "time option"
  ue_progress :: int
  ue_status :: string

record learning_profile =
  lp_user_id :: int
  lp_target_exam :: string
  lp_current_stage :: string
  lp_school_major_status :: string
  lp_interest_tags :: "string list"
  lp_onboarding_version :: int
  lp_onboarding_answers :: json
  lp_onboarding_completed_at :: "time option"
  lp_total_minutes :: int
  lp_checkin_days :: int
  lp_last_checkin_at :: "time option"
  lp_advisor_notes :: string

record checkin_record =
  lc_id :: int
  lc_user_id :: int
  lc_checkin_date :: string
  lc_checkin_at :: time
  lc_checkin_days :: int
  lc_note :: string

record invite_relation =
  ir_id :: int
  ir_inviter_id :: string
  ir_invitee_phone :: string
  ir_device_id :: string
  ir_score_granted :: bool
  ir_abnormal :: bool
  ir_frozen :: bool

record system_setting =
  ss_key :: string
  ss_value :: json
  ss_remark :: string

record contract_snapshot =
  cs_id :: int
  cs_version :: int
  cs_title :: string
  cs_content :: string
  cs_travel_date_days :: int
  cs_content_hash :: string

record travel_order =
  to_id :: int
  to_order_no :: string
  to_user_id :: int
  to_user_no :: string
  to_route_id :: int
  to_order_type :: string
  to_title :: string
  to_user_name :: string
  to_phone :: string
  to_travel_date :: string
  to_agency :: string
  to_amount_text :: string
  to_cover :: "string option"
  to_idempotency_key :: string
  to_points_cost :: int
  to_points_refunded :: bool
  to_stock_restored :: bool
  to_status :: travel_status
  to_reject_reason :: string
  to_contract_status :: contract_status
  to_contract_signer_name :: string
  to_contract_signer_phone :: string
  to_contract_id_no :: string
  to_contract_template_version :: int
  to_contract_template_snapshot_id :: int
  to_contract_signature_data :: "string option"
  to_contract_signature_url :: "string option"
  to_contract_signed_at :: "time option"
  to_contract_reviewed_at :: "time option"
  to_contract_reject_reason :: string
  to_fulfillment_status :: "fulfillment option"
  to_pickup_address :: string
  to_pickup_detail :: string
  to_traveler_count :: int
  to_emergency_contact :: string
  to_emergency_phone :: string
  to_luggage_count :: int
  to_pickup_note :: string
  to_pickup_time :: string
  to_pickup_location :: string
  to_driver_name :: string
  to_driver_phone :: string
  to_vehicle_no :: string
  to_pickup_notice :: string
  to_pickup_confirmed_at :: "time option"
  to_qr_token :: string
  to_qr_issued_at :: "time option"
  to_qr_expires_at :: "time option"
  to_checked_in_at :: "time option"
  to_completed_at :: "time option"
  to_cancelled_at :: "time option"
  to_cancel_reason :: string
  to_exception_reason :: string
  to_created_at :: time

record travel_audit =
  ta_id :: int
  ta_order_id :: int
  ta_order_no :: string
  ta_event_type :: string
  ta_from_status :: string
  ta_to_status :: string
  ta_actor_role :: string
  ta_actor_id :: int
  ta_actor_name :: string
  ta_reason :: string
  ta_evidence :: json

record verification_record =
  vr_id :: int
  vr_order_id :: int
  vr_order_no :: string
  vr_action :: string
  vr_token_hash :: string
  vr_result :: string
  vr_operator_role :: string
  vr_operator_id :: int
  vr_operator_name :: string
  vr_device :: string
  vr_location :: string
  vr_reason :: string

record route_review =
  rr_id :: int
  rr_route_id :: int
  rr_order_id :: int
  rr_order_no :: string
  rr_user_id :: int
  rr_user_no :: string
  rr_user_name :: string
  rr_rating :: int
  rr_content :: string
  rr_images :: "string list"
  rr_status :: string
  rr_created_at :: time

record uploaded_asset =
  as_id :: int
  as_source :: string
  as_storage :: string
  as_bucket :: string
  as_object_key :: string
  as_path :: string
  as_url :: string
  as_filename :: string
  as_original_name :: string
  as_mime_type :: string
  as_size :: int
  as_uploader_role :: string
  as_user_id :: "int option"
  as_conversation_id :: string

record custom_request =
  cu_id :: int
  cu_request_no :: string
  cu_user_id :: int
  cu_user_no :: string
  cu_user_name :: string
  cu_phone :: string
  cu_destination :: string
  cu_travel_time :: string
  cu_days :: string
  cu_budget :: string
  cu_people_count :: string
  cu_special_tags :: "string list"
  cu_note :: string
  cu_status :: review_status
  cu_reject_reason :: string
  cu_plan_title :: string
  cu_plan_summary :: string
  cu_plan_price :: string
  cu_plan_itinerary :: "string list"
  cu_plan_includes :: "string list"
  cu_plan_tips :: string
  cu_reviewed_at :: "time option"
  cu_reviewed_by :: "int option"
  cu_created_at :: time

record school_site =
  sc_id :: int
  sc_name :: string
  sc_short_name :: string
  sc_city :: string
  sc_district :: string
  sc_logo :: string
  sc_status :: bool
  sc_current :: bool
  sc_review_status :: review_status
  sc_reject_reason :: string
  sc_merchant_account :: "string option"
  sc_merchant_password_hash :: string
  sc_display_weight :: int
  sc_sort_order :: int
  sc_description :: string

record school_session =
  sm_token :: string
  sm_school_id :: int
  sm_expires_at :: time
  sm_last_seen_at :: "time option"

record study_content =
  sn_id :: int
  sn_product_id :: int
  sn_title :: string
  sn_content_type :: string
  sn_summary :: string
  sn_resource_url :: string
  sn_duration_minutes :: int
  sn_preview :: bool
  sn_sort_order :: int
  sn_status :: bool

record travel_goal =
  tg_id :: int
  tg_user_id :: int
  tg_request_key :: string
  tg_title :: string
  tg_location :: string
  tg_place_count :: int
  tg_criteria :: json
  tg_result_snapshot :: "json list"

record certification =
  gc_id :: int
  gc_user_id :: int
  gc_real_name :: string
  gc_school_name :: string
  gc_major_name :: string
  gc_graduation_date :: string
  gc_certificate_no :: string
  gc_certificate_image :: string
  gc_status :: review_status
  gc_reject_reason :: string
  gc_reviewed_by :: "int option"
  gc_reviewed_at :: "time option"

record preference_event =
  pe_id :: int
  pe_user_id :: string
  pe_user_name :: string
  pe_preference_type :: string
  pe_target_key :: string
  pe_target_name :: string
  pe_action :: string
  pe_score :: int
  pe_created_at :: time

record decoration =
  dc_id :: int
  dc_status :: string
  dc_version :: int
  dc_content :: json
  dc_published_at :: "time option"

text \<open>Announcements, articles and conversations are listed by their last change.\<close>

record announcement =
  an_id :: int
  an_title :: string
  an_summary :: string
  an_content :: string
  an_tag :: string
  an_pinned :: bool
  an_status :: bool
  an_published_at :: "time option"
  an_start_at :: "time option"
  an_end_at :: "time option"
  an_updated_at :: time

record article =
  ar_id :: int
  ar_title :: string
  ar_slug :: string
  ar_summary :: string
  ar_content :: string
  ar_category :: string
  ar_cover :: string
  ar_pinned :: bool
  ar_vip_only :: bool
  ar_status :: bool
  ar_sort_order :: int
  ar_published_at :: "time option"
  ar_updated_at :: time

record conversation =
  cv_id :: string
  cv_user_id :: string
  cv_user_name :: string
  cv_status :: string
  cv_last_message :: string
  cv_unread_admin :: int
  cv_unread_user :: int
  cv_unread_merchant :: int
  cv_conversation_type :: string
  cv_order_id :: int
  cv_order_no :: string
  cv_product_id :: int
  cv_product_name :: string
  cv_school_id :: int
  cv_school_name :: string
  cv_user_online :: bool
  cv_admin_online :: bool
  cv_merchant_online :: bool
  cv_last_user_online_at :: "time option"
  cv_last_admin_online_at :: "time option"
  cv_last_merchant_online_at :: "time option"
  cv_updated_at :: time

record support_message =
  sg_id :: int
  sg_conversation_id :: string
  sg_sender_role :: string
  sg_sender_name :: string
  sg_content :: string
  sg_message_type :: string
  sg_extra :: json
  sg_image_url :: string
  sg_image_thumb_url :: string
  sg_created_at :: time

text \<open>
  The database, and with it the source of order and transaction numbers:
  \<open>numbers p n\<close> is the string that the \<open>n\<close>-th call of \<open>next_order_no(p)\<close> returns and
  \<open>drawn\<close> counts the calls.
\<close>

record db =
  users :: "user_account list"
  sessions :: "user_session list"
  wallet :: "wallet_transaction list"
  routes :: "travel_route list"
  rule :: "point_rule option"
  ledgers :: "point_ledger list"
  lots :: "point_lot list"
  allocations :: "point_allocation list"
  products :: "study_product list"
  study_orders :: "study_order list"
  orders :: "commerce_order list"
  items :: "order_item list"
  entitlements :: "entitlement list"
  profiles :: "learning_profile list"
  checkins :: "checkin_record list"
  invites :: "invite_relation list"
  settings_rows :: "system_setting list"
  snapshots :: "contract_snapshot list"
  travel_orders :: "travel_order list"
  audits :: "travel_audit list"
  verifications :: "verification_record list"
  route_reviews :: "route_review list"
  assets :: "uploaded_asset list"
  custom_requests :: "custom_request list"
  schools :: "school_site list"
  school_sessions :: "school_session list"
  study_contents :: "study_content list"
  travel_goals :: "travel_goal list"
  certifications :: "certification list"
  preferences :: "preference_event list"
  decorations :: "decoration list"
  announcements :: "announcement list"
  articles :: "article list"
  conversations :: "conversation list"
  messages :: "support_message list"
  numbers :: "string \<Rightarrow> nat \<Rightarrow> string"
  drawn :: nat

text \<open>\<open>snowflake.next_order_no(prefix)\<close> as the services call it.\<close>

definition draw_no :: "string \<Rightarrow> db \<Rightarrow> string \<times> db" where
  "draw_no prefix d = (numbers d prefix (drawn d), d\<lparr>drawn := Suc (drawn d)\<rparr>)"

end
