(* ===== verification/Py_Text.thy ===== *)
theory Py_Text
  imports Prelude
begin

text \<open>
  \<open>str(n)\<close> and \<open>int(s)\<close> of Python on the decimal integers the code formats into keys
  and numbers and parses back out of tokens and headers, with the round trip between
  them. \<open>int\<close> also accepts \<open>_\<close> between digits and non-ASCII digits in Python; no
  string the modelled code parses relies on these, and \<open>int_of\<close> rejects them.
\<close>

definition digit :: "nat \<Rightarrow> char" where
  "digit d = ''0123456789'' ! d"

definition digit_val :: "char \<Rightarrow> nat option" where
  "digit_val c = map_of (zip ''0123456789'' [0, 1, 2, 3, 4, 5, 6, 7, 8, 9]) c"

fun show_nat :: "nat \<Rightarrow> string" where
  "show_nat n = (if n < 10 then [digit n] else show_nat (n div 10) @ [digit (n mod 10)])"

declare show_nat.simps [simp del]

definition str_int :: "int \<Rightarrow> string" where
  "str_int i = (if i < 0 then ''-'' @ show_nat (nat (- i)) else show_nat (nat i))"

fun parse_digits :: "nat \<Rightarrow> string \<Rightarrow> nat option" where
  "parse_digits acc [] = Some acc"
| "parse_digits acc (c # cs) =
     (case digit_val c of None \<Rightarrow> None | Some d \<Rightarrow> parse_digits (acc * 10 + d) cs)"

definition parse_nat :: "string \<Rightarrow> nat option" where
  "parse_nat s = (if s = [] then None else parse_digits 0 s)"

definition int_of :: "string \<Rightarrow> int option" where
  "int_of s =
    (case strip s of
       [] \<Rightarrow> None
     | c # cs \<Rightarrow>
         if c = CHR ''-'' then map_option (\<lambda>n. - int n) (parse_nat cs)
         else if c = CHR ''+'' then map_option int (parse_nat cs)
         else map_option int (parse_nat (c # cs)))"

lemma digit_val_digit [simp]: "d < 10 \<Longrightarrow> digit_val (digit d) = Some d"
proof -
  assume "d < 10"
  then have "d \<in> {0, 1, 2, 3, 4, 5, 6, 7, 8, 9}" by auto
  then show ?thesis by (auto simp: digit_val_def digit_def)
qed

lemma digit_plain: "d < 10 \<Longrightarrow> \<not> is_space (digit d) \<and> digit d \<noteq> CHR ''-'' \<and> digit d \<noteq> CHR ''+''"
proof -
  assume "d < 10"
  then have "d \<in> {0, 1, 2, 3, 4, 5, 6, 7, 8, 9}" by auto
  then show ?thesis by (auto simp: digit_def is_space_def)
qed

lemma parse_digits_append:
  "parse_digits acc (xs @ ys) = (case parse_digits acc xs of None \<Rightarrow> None | Some m \<Rightarrow> parse_digits m ys)"
  by (induction xs arbitrary: acc) (auto split: option.splits)

lemma show_nat_nonempty [simp]: "show_nat n \<noteq> []"
  by (subst show_nat.simps) simp

lemma parse_show_digits: "parse_digits 0 (show_nat n) = Some n"
proof (induction n rule: show_nat.induct)
  case (1 n)
  then show ?case
    by (subst show_nat.simps) (auto simp: parse_digits_append)
qed

lemma parse_show_nat [simp]: "parse_nat (show_nat n) = Some n"
  by (simp add: parse_nat_def parse_show_digits)

lemma show_nat_inj: "show_nat m = show_nat n \<Longrightarrow> m = n"
  by (metis option.inject parse_show_nat)

lemma show_nat_plain:
  "c \<in> set (show_nat n) \<Longrightarrow> \<not> is_space c \<and> c \<noteq> CHR ''-'' \<and> c \<noteq> CHR ''+''"
proof (induction n rule: show_nat.induct)
  case (1 n)
  show ?case
  proof (cases "n < 10")
    case True
    with 1 show ?thesis by (subst (asm) show_nat.simps) (auto simp: digit_plain)
  next
    case False
    with 1 show ?thesis
      by (subst (asm) (2) show_nat.simps) (auto simp: digit_plain)
  qed
qed

lemma strip_plain: "(\<And>c. c \<in> set s \<Longrightarrow> \<not> is_space c) \<Longrightarrow> strip s = s"
  unfolding strip_def lstrip_def by (cases "s = []") (simp_all add: dropWhile_fixed hd_rev)

lemma str_int_nonempty [simp]: "str_int i \<noteq> []"
  by (simp add: str_int_def)

lemma str_int_plain: "c \<in> set (str_int i) \<Longrightarrow> \<not> is_space c"
  by (auto simp: str_int_def is_space_def dest: show_nat_plain split: if_splits)

lemma strip_str_int [simp]: "strip (str_int i) = str_int i"
  by (rule strip_plain) (rule str_int_plain)

lemma int_of_str [simp]: "int_of (str_int i) = Some i"
proof (cases "i < 0")
  case True
  then have "str_int i = CHR ''-'' # show_nat (nat (- i))" by (simp add: str_int_def)
  moreover have "strip (str_int i) = str_int i" by simp
  ultimately show ?thesis
    using True by (simp add: int_of_def del: strip_str_int)
next
  case False
  obtain c cs where c: "show_nat (nat i) = c # cs"
    by (cases "show_nat (nat i)") simp_all
  then have "c \<noteq> CHR ''-'' \<and> c \<noteq> CHR ''+''"
    using show_nat_plain [of c "nat i"] by simp
  moreover have "str_int i = c # cs"
    using False c by (simp add: str_int_def)
  moreover have "parse_nat (c # cs) = Some (nat i)"
    using c parse_show_nat [of "nat i"] by simp
  moreover have "strip (str_int i) = str_int i" by simp
  ultimately show ?thesis
    using False by (simp add: int_of_def del: strip_str_int)
qed

lemma str_int_inj: "str_int i = str_int j \<Longrightarrow> i = j"
  by (metis int_of_str option.inject)

end
