(* ===== verification/Points.thy ===== *)
theory Points
  imports Entities Py_Text "HOL-Library.Product_Lexorder"
begin

text \<open>
  \<open>app/services/point_service.py\<close>: every change of a user's points together with its
  ledger row, the lots that carry the unspent points and the allocations that say which
  lots an expense used. An error
  result means that the request's session is closed without a commit, so the caller's
  database is unchanged. The account is named by the id of the locked user row.
\<close>

section \<open>Rows\<close>

text \<open>
  A rollback expires the attributes of every row the session has loaded. Reading one of them
  afterwards would load it again outside an \<open>await\<close>, which SQLAlchemy's asyncio session refuses.
\<close>

definition expired_attribute :: error where
  "expired_attribute = RuntimeError ''MissingGreenlet''"

definition find_user :: "db \<Rightarrow> int \<Rightarrow> user_account option" where
  "find_user d uid = find_by ua_id uid (users d)"

definition points_of :: "db \<Rightarrow> int \<Rightarrow> int" where
  "points_of d uid = (case find_user d uid of None \<Rightarrow> 0 | Some u \<Rightarrow> ua_points u)"

definition user_no_of :: "db \<Rightarrow> int \<Rightarrow> string" where
  "user_no_of d uid = (case find_user d uid of None \<Rightarrow> [] | Some u \<Rightarrow> ua_user_no u)"

definition set_points :: "int \<Rightarrow> int \<Rightarrow> db \<Rightarrow> db" where
  "set_points uid p d = d\<lparr>users := update_by ua_id uid (\<lambda>u. u\<lparr>ua_points := p\<rparr>) (users d)\<rparr>"

definition write_lot :: "int \<Rightarrow> (point_lot \<Rightarrow> point_lot) \<Rightarrow> db \<Rightarrow> db" where
  "write_lot lid f d = d\<lparr>lots := update_by lot_id lid f (lots d)\<rparr>"

definition add_lot :: "int \<Rightarrow> int \<Rightarrow> int \<Rightarrow> time option \<Rightarrow> db \<Rightarrow> db" where
  "add_lot uid ledger_id amount expires_at d =
    d\<lparr>lots := lots d @
      [\<lparr>lot_id = fresh_id lot_id (lots d), lot_user_id = uid, lot_source_ledger_id = ledger_id,
        lot_original_amount = amount, lot_remaining_amount = amount,
        lot_expires_at = expires_at, lot_status = LotActive\<rparr>]\<rparr>"

definition add_allocation :: "int \<Rightarrow> int \<Rightarrow> int \<Rightarrow> db \<Rightarrow> db" where
  "add_allocation ledger_id lid amount d =
    d\<lparr>allocations := allocations d @
      [\<lparr>al_id = fresh_id al_id (allocations d), al_expense_ledger_id = ledger_id,
        al_lot_id = lid, al_amount = amount, al_restored_amount = 0\<rparr>]\<rparr>"

text \<open>The business fields of a ledger row.\<close>

record entry =
  e_biz_type :: string
  e_biz_id :: int
  e_biz_no :: string
  e_key :: string
  e_remark :: string

section \<open>Operations\<close>

definition lock_user :: "db \<Rightarrow> int \<Rightarrow> user_account result" where
  "lock_user d uid =
    (case find_user d uid of
       None \<Rightarrow> Inl (BusinessError 404 ''USER_NOT_FOUND'')
     | Some u \<Rightarrow> Inr u)"

definition find_ledger :: "db \<Rightarrow> int \<Rightarrow> string \<Rightarrow> point_ledger option" where
  "find_ledger d uid key =
    List.find (\<lambda>l. pl_user_id l = uid \<and> pl_idempotency_key l = key) (ledgers d)"

definition new_ledger :: "db \<Rightarrow> int \<Rightarrow> direction \<Rightarrow> int \<Rightarrow> int \<Rightarrow> int \<Rightarrow> entry \<Rightarrow> point_ledger \<times> db" where
  "new_ledger d uid dir amount prior after e =
    (case draw_no ''PL'' d of
       (no, d1) \<Rightarrow>
         (\<lparr>pl_id = fresh_id pl_id (ledgers d), pl_transaction_no = no, pl_user_id = uid,
           pl_user_no = user_no_of d uid, pl_direction = dir, pl_amount = amount,
           pl_balance_before = prior, pl_balance_after = after,
           pl_biz_type = e_biz_type e, pl_biz_id = e_biz_id e, pl_biz_no = e_biz_no e,
           pl_idempotency_key = take 160 (e_key e), pl_remark = take 255 (e_remark e)\<rparr>, d1))"

text \<open>
  \<open>db.add(ledger)\<close> and the flush: the unique constraints are
  \<open>(user_id, idempotency_key)\<close> and \<open>transaction_no\<close>.
\<close>

definition flush_ledger :: "point_ledger \<Rightarrow> db \<Rightarrow> db result" where
  "flush_ledger l d =
    (if list_ex (\<lambda>r. pl_user_id r = pl_user_id l \<and> pl_idempotency_key r = pl_idempotency_key l
                   \<or> pl_transaction_no r = pl_transaction_no l) (ledgers d)
     then Inl IntegrityError
     else Inr (d\<lparr>ledgers := ledgers d @ [l]\<rparr>))"

definition credit_locked ::
  "db \<Rightarrow> int \<Rightarrow> int \<Rightarrow> entry \<Rightarrow> time option \<Rightarrow> (point_ledger \<times> db) result" where
  "credit_locked d uid amount e expires_at =
    (if amount \<le> 0 then Inl (BusinessError 400 ''INVALID_POINT_AMOUNT'')
     else case find_ledger d uid (e_key e) of
       Some l \<Rightarrow> Inr (l, d)
     | None \<Rightarrow>
         (let prior = points_of d uid; after = prior + amount in
          case new_ledger d uid Income amount prior after e of
            (l, d1) \<Rightarrow>
              (case flush_ledger l (set_points uid after d1) of
                 Inl _ \<Rightarrow> Inl expired_attribute
               | Inr d2 \<Rightarrow> Inr (l, add_lot uid (pl_id l) amount expires_at d2))))"

definition revoke_credit_locked ::
  "db \<Rightarrow> int \<Rightarrow> string \<Rightarrow> entry \<Rightarrow> (point_ledger option \<times> db) result" where
  "revoke_credit_locked d uid credit_key e =
    (case find_ledger d uid (e_key e) of
       Some l \<Rightarrow> Inr (Some l, d)
     | None \<Rightarrow>
         (case find_ledger d uid credit_key of
            None \<Rightarrow> Inr (None, d)
          | Some original \<Rightarrow>
              if pl_direction original \<noteq> Income then Inr (None, d)
              else case find_by lot_source_ledger_id (pl_id original) (lots d) of
                None \<Rightarrow> Inr (None, d)
              | Some lot \<Rightarrow>
                  if lot_status lot = LotRevoked then Inr (None, d)
                  else
                    (let amount = min (lot_remaining_amount lot) (points_of d uid);
                         left = max 0 (lot_remaining_amount lot - amount);
                         d1 = write_lot (lot_id lot)
                                (\<lambda>l. l\<lparr>lot_remaining_amount := left,
                                       lot_status := (if left = 0 \<or> amount \<le> 0 then LotRevoked else lot_status l)\<rparr>) d
                     in if amount \<le> 0 then Inr (None, d1)
                        else
                          (let prior = points_of d uid in
                           case new_ledger d1 uid Expense amount prior (prior - amount) e of
                             (l, d2) \<Rightarrow>
                               (case flush_ledger l (set_points uid (prior - amount) d2) of
                                  Inl err \<Rightarrow> Inl err
                                | Inr d3 \<Rightarrow> Inr (Some l, d3))))))"

text \<open>Lots of \<open>expire_due_locked\<close>: active, not empty and past their expiry, by id.\<close>

definition due_lot :: "int \<Rightarrow> time \<Rightarrow> point_lot \<Rightarrow> bool" where
  "due_lot uid now l \<longleftrightarrow> lot_user_id l = uid \<and> lot_status l = LotActive \<and> 0 < lot_remaining_amount l
     \<and> (case lot_expires_at l of None \<Rightarrow> False | Some t \<Rightarrow> t \<le> now)"

definition due_lots :: "db \<Rightarrow> int \<Rightarrow> time \<Rightarrow> point_lot list" where
  "due_lots d uid now = sort_key lot_id (filter (due_lot uid now) (lots d))"

definition expire_lot :: "point_lot \<Rightarrow> point_lot" where
  "expire_lot l = l\<lparr>lot_remaining_amount := 0, lot_status := LotExpired\<rparr>"

fun expire_lots :: "int \<Rightarrow> int \<Rightarrow> point_lot list \<Rightarrow> db \<Rightarrow> db" where
  "expire_lots ledger_id remaining [] d = d"
| "expire_lots ledger_id remaining (lot # ls) d =
     (let gone = lot_remaining_amount lot;
          d1 = write_lot (lot_id lot) expire_lot d
      in if 0 < remaining then
           (let allocated = min gone remaining in
            expire_lots ledger_id (remaining - allocated) ls
              (add_allocation ledger_id (lot_id lot) allocated d1))
         else expire_lots ledger_id remaining ls d1)"

definition expire_due_locked :: "db \<Rightarrow> int \<Rightarrow> time \<Rightarrow> (point_ledger option \<times> db) result" where
  "expire_due_locked d uid now =
    (let ls = due_lots d uid now in
     if ls = [] then Inr (None, d)
     else
       (let amount = min (sum_list (map lot_remaining_amount ls)) (points_of d uid) in
        if amount \<le> 0 then
          Inr (None, fold (\<lambda>lot. write_lot (lot_id lot) expire_lot) ls d)
        else
          (let prior = points_of d uid;
               top = foldr max (map lot_id ls) 0
           in case new_ledger d uid Expense amount prior (prior - amount)
                  \<lparr>e_biz_type = ''points_expired'', e_biz_id = top, e_biz_no = str_int top,
                   e_key = ''points-expired:'' @ str_int uid @ '':'' @ str_int top,
                   e_remark = ''points expired''\<rparr> of
                (l, d1) \<Rightarrow>
                  (case flush_ledger l (set_points uid (prior - amount) d1) of
                     Inl err \<Rightarrow> Inl err
                   | Inr d2 \<Rightarrow> Inr (Some l, expire_lots (pl_id l) amount ls d2)))))"

text \<open>Lots a debit may use: active, not empty and not past their expiry.\<close>

definition usable_lot :: "int \<Rightarrow> time \<Rightarrow> point_lot \<Rightarrow> bool" where
  "usable_lot uid now l \<longleftrightarrow> lot_user_id l = uid \<and> lot_status l = LotActive \<and> 0 < lot_remaining_amount l
     \<and> (case lot_expires_at l of None \<Rightarrow> True | Some t \<Rightarrow> now < t)"

definition covered :: "db \<Rightarrow> int \<Rightarrow> time \<Rightarrow> int" where
  "covered d uid now = sum_where (usable_lot uid now) lot_remaining_amount (lots d)"

definition ensure_lot_coverage :: "db \<Rightarrow> int \<Rightarrow> time \<Rightarrow> db result" where
  "ensure_lot_coverage d uid now =
    (let have = covered d uid now; balance = points_of d uid in
     if balance \<le> have then Inr d
     else
       (let missing = balance - have in
        case new_ledger d uid Income missing have balance
               \<lparr>e_biz_type = ''legacy_opening'', e_biz_id = uid, e_biz_no = user_no_of d uid,
                e_key = ''legacy-opening:'' @ str_int uid, e_remark = ''opening balance''\<rparr> of
          (l, d1) \<Rightarrow>
            (case flush_ledger l d1 of
               Inl err \<Rightarrow> Inl err
             | Inr d2 \<Rightarrow> Inr (add_lot uid (pl_id l) missing None d2))))"

text \<open>Lots with an expiry first, soonest first, then those without, by id.\<close>

definition spend_key :: "point_lot \<Rightarrow> int \<times> time \<times> int" where
  "spend_key l = (case lot_expires_at l of
      None \<Rightarrow> (1, 0, lot_id l)
    | Some t \<Rightarrow> (0, t, lot_id l))"

definition spend_order :: "db \<Rightarrow> int \<Rightarrow> time \<Rightarrow> point_lot list" where
  "spend_order d uid now = sort_key spend_key (filter (usable_lot uid now) (lots d))"

definition consume_lot :: "int \<Rightarrow> point_lot \<Rightarrow> point_lot" where
  "consume_lot used l =
    (let left = lot_remaining_amount l - used in
     l\<lparr>lot_remaining_amount := left,
       lot_status := (if left = 0 then LotConsumed else lot_status l)\<rparr>)"

fun consume_lots :: "int \<Rightarrow> int \<Rightarrow> point_lot list \<Rightarrow> db \<Rightarrow> db" where
  "consume_lots ledger_id remaining [] d = d"
| "consume_lots ledger_id remaining (lot # ls) d =
     (if remaining \<le> 0 then d
      else
        (let used = min (lot_remaining_amount lot) remaining in
         consume_lots ledger_id (remaining - used) ls
           (add_allocation ledger_id (lot_id lot) used
             (write_lot (lot_id lot) (consume_lot used) d))))"

definition debit_locked ::
  "db \<Rightarrow> int \<Rightarrow> int \<Rightarrow> entry \<Rightarrow> time \<Rightarrow> (point_ledger \<times> db) result" where
  "debit_locked d uid amount e now =
    (if amount \<le> 0 then Inl (BusinessError 400 ''INVALID_POINT_AMOUNT'')
     else case find_ledger d uid (e_key e) of
       Some l \<Rightarrow> Inr (l, d)
     | None \<Rightarrow>
         (case expire_due_locked d uid now of
            Inl err \<Rightarrow> Inl err
          | Inr (_, d1) \<Rightarrow>
              (let prior = points_of d1 uid in
               if prior < amount then Inl (BusinessError 400 ''INSUFFICIENT_POINTS'')
               else case ensure_lot_coverage d1 uid now of
                 Inl err \<Rightarrow> Inl err
               | Inr d2 \<Rightarrow>
                   (let ls = spend_order d2 uid now in
                    if sum_list (map lot_remaining_amount ls) < amount
                    then Inl (BusinessError 409 ''POINT_LEDGER_MISMATCH'')
                    else case new_ledger d2 uid Expense amount prior (prior - amount) e of
                      (l, d3) \<Rightarrow>
                        (case flush_ledger l (set_points uid (prior - amount) d3) of
                           Inl err \<Rightarrow> Inl err
                         | Inr d4 \<Rightarrow> Inr (l, consume_lots (pl_id l) amount ls d4))))))"

text \<open>The loop of \<open>refund_locked\<close>: the allocations of the original expense, by id.\<close>

definition restore_lot :: "int \<Rightarrow> time \<Rightarrow> time option \<Rightarrow> point_lot \<Rightarrow> point_lot" where
  "restore_lot n now fallback l =
    l\<lparr>lot_remaining_amount := lot_remaining_amount l + n, lot_status := LotActive,
      lot_expires_at := (case lot_expires_at l of
          None \<Rightarrow> None
        | Some t \<Rightarrow> if t \<le> now then fallback else Some t)\<rparr>"

definition restore_allocation :: "int \<Rightarrow> point_allocation \<Rightarrow> point_allocation" where
  "restore_allocation n a = a\<lparr>al_restored_amount := al_restored_amount a + n\<rparr>"

definition write_allocation :: "int \<Rightarrow> (point_allocation \<Rightarrow> point_allocation) \<Rightarrow> db \<Rightarrow> db" where
  "write_allocation aid f d = d\<lparr>allocations := update_by al_id aid f (allocations d)\<rparr>"

fun restore_lots :: "time \<Rightarrow> time option \<Rightarrow> point_allocation list \<Rightarrow> db \<Rightarrow> int \<times> db" where
  "restore_lots now fallback [] d = (0, d)"
| "restore_lots now fallback (a # as) d =
     (let restorable = al_amount a - al_restored_amount a in
      if restorable \<le> 0 then restore_lots now fallback as d
      else case find_by lot_id (al_lot_id a) (lots d) of
        None \<Rightarrow> restore_lots now fallback as d
      | Some lot \<Rightarrow>
          (case restore_lots now fallback as
                  (write_allocation (al_id a) (restore_allocation restorable)
                    (write_lot (lot_id lot) (restore_lot restorable now fallback) d)) of
             (n, d') \<Rightarrow> (restorable + n, d')))"

definition allocations_of :: "db \<Rightarrow> int \<Rightarrow> point_allocation list" where
  "allocations_of d lid = sort_key al_id (filter (\<lambda>a. al_expense_ledger_id a = lid) (allocations d))"

definition refund_locked ::
  "db \<Rightarrow> int \<Rightarrow> string \<Rightarrow> entry \<Rightarrow> time option \<Rightarrow> time \<Rightarrow> (point_ledger \<times> db) result" where
  "refund_locked d uid original_biz_type e fallback now =
    (case find_ledger d uid (e_key e) of
       Some l \<Rightarrow> Inr (l, d)
     | None \<Rightarrow>
         (case List.find (\<lambda>l. pl_user_id l = uid \<and> pl_biz_type l = original_biz_type
                 \<and> pl_biz_no l = e_biz_no e \<and> pl_direction l = Expense) (ledgers d) of
            None \<Rightarrow> Inl (BusinessError 409 ''POINT_DEBIT_NOT_FOUND'')
          | Some original \<Rightarrow>
              (let amount = pl_amount original; prior = points_of d uid in
               case new_ledger d uid Income amount prior (prior + amount) e of
                 (l, d1) \<Rightarrow>
                   (case flush_ledger l (set_points uid (prior + amount) d1) of
                      Inl err \<Rightarrow> Inl err
                    | Inr d2 \<Rightarrow>
                        (case restore_lots now fallback (allocations_of d2 (pl_id original)) d2 of
                           (restored, d3) \<Rightarrow>
                             Inr (l, if restored < amount
                                     then add_lot uid (pl_id l) (amount - restored) fallback d3
                                     else d3))))))"

end
