(* ===== verification/Points_Laws.thy ===== *)
theory Points_Laws
  imports Points
begin

text \<open>
  What every operation of the points service keeps: the books (lots, ledger and
  allocations fit together) and the balance (the unspent points of the lots never
  exceed the user's points). The operations' effects on balance, lots and allocations
  are stated once here and combined in \<open>Points_Props\<close>.
\<close>

section \<open>The books\<close>

definition lots_ok :: "db \<Rightarrow> bool" where
  "lots_ok d \<longleftrightarrow> distinct (map lot_id (lots d)) \<and>
    (\<forall>l\<in>set (lots d). 0 \<le> lot_remaining_amount l \<and>
       (lot_status l \<noteq> LotActive \<longrightarrow> lot_remaining_amount l = 0))"

definition ledgers_ok :: "db \<Rightarrow> bool" where
  "ledgers_ok d \<longleftrightarrow> distinct (map pl_id (ledgers d)) \<and> (\<forall>l\<in>set (ledgers d). 0 < pl_amount l)"

definition linked :: "db \<Rightarrow> point_allocation \<Rightarrow> bool" where
  "linked d a \<longleftrightarrow> (\<exists>l\<in>set (ledgers d). \<exists>lot\<in>set (lots d). pl_id l = al_expense_ledger_id a
     \<and> lot_id lot = al_lot_id a \<and> lot_user_id lot = pl_user_id l)"

definition allocs_ok :: "db \<Rightarrow> bool" where
  "allocs_ok d \<longleftrightarrow> distinct (map al_id (allocations d)) \<and>
    (\<forall>a\<in>set (allocations d). 0 \<le> al_restored_amount a \<and> al_restored_amount a \<le> al_amount a \<and> linked d a)"

definition alloc_total :: "db \<Rightarrow> int \<Rightarrow> int" where
  "alloc_total d lid = sum_where (\<lambda>a. al_expense_ledger_id a = lid) al_amount (allocations d)"

definition spent_ok :: "db \<Rightarrow> bool" where
  "spent_ok d \<longleftrightarrow> (\<forall>l\<in>set (ledgers d). alloc_total d (pl_id l) \<le> pl_amount l)"

text \<open>Every lot comes from a ledger row of its user.\<close>

definition sources_ok :: "db \<Rightarrow> bool" where
  "sources_ok d \<longleftrightarrow> (\<forall>lot\<in>set (lots d). \<exists>l\<in>set (ledgers d).
     pl_id l = lot_source_ledger_id lot \<and> pl_user_id l = lot_user_id lot)"

definition books_ok :: "db \<Rightarrow> bool" where
  "books_ok d \<longleftrightarrow> lots_ok d \<and> ledgers_ok d \<and> allocs_ok d \<and> spent_ok d \<and> sources_ok d"

definition lot_total :: "db \<Rightarrow> int \<Rightarrow> int" where
  "lot_total d uid = sum_where (\<lambda>l. lot_user_id l = uid) lot_remaining_amount (lots d)"

definition points_ok :: "db \<Rightarrow> bool" where
  "points_ok d \<longleftrightarrow> books_ok d \<and> (\<forall>uid. lot_total d uid \<le> points_of d uid)"

definition user_in :: "db \<Rightarrow> int \<Rightarrow> bool" where
  "user_in d uid \<longleftrightarrow> find_user d uid \<noteq> None"

definition due_total :: "db \<Rightarrow> int \<Rightarrow> time \<Rightarrow> int" where
  "due_total d uid now = sum_where (due_lot uid now) lot_remaining_amount (lots d)"

named_theorems books_simps "how the writers of the points service move the tables"

section \<open>Single writes\<close>

lemma set_points_frame [books_simps]:
  "lots (set_points uid p d) = lots d" "ledgers (set_points uid p d) = ledgers d"
  "allocations (set_points uid p d) = allocations d"
  by (simp_all add: set_points_def)

lemma find_user_set_points [books_simps]:
  "find_user (set_points uid p d) u =
    (if u = uid then map_option (\<lambda>r. r\<lparr>ua_points := p\<rparr>) (find_user d u) else find_user d u)"
  by (simp add: find_user_def set_points_def find_by_update_by)

lemma points_of_set_points [books_simps]:
  "user_in d uid \<Longrightarrow> points_of (set_points uid p d) u = (if u = uid then p else points_of d u)"
  by (auto simp: points_of_def find_user_set_points user_in_def)

lemma user_in_set_points [books_simps]: "user_in (set_points uid p d) u = user_in d u"
  by (simp add: user_in_def find_user_set_points)

lemma new_ledger_eq:
  "new_ledger d uid dir amount prior after e = (l, d1) \<longleftrightarrow>
    d1 = d\<lparr>drawn := Suc (drawn d)\<rparr> \<and>
    l = \<lparr>pl_id = fresh_id pl_id (ledgers d), pl_transaction_no = numbers d ''PL'' (drawn d),
         pl_user_id = uid, pl_user_no = user_no_of d uid, pl_direction = dir, pl_amount = amount,
         pl_balance_before = prior, pl_balance_after = after,
         pl_biz_type = e_biz_type e, pl_biz_id = e_biz_id e, pl_biz_no = e_biz_no e,
         pl_idempotency_key = take 160 (e_key e), pl_remark = take 255 (e_remark e)\<rparr>"
  by (auto simp: new_ledger_def draw_no_def)

lemma flush_new_ledger:
  assumes "new_ledger d uid dir amount prior after e = (l, d1)"
  shows "flush_ledger l (set_points uid p d1) = Inr d2 \<Longrightarrow> d2 = set_points uid p d1\<lparr>ledgers := ledgers d @ [l]\<rparr>"
    and "flush_ledger l d1 = Inr d2 \<Longrightarrow> d2 = d1\<lparr>ledgers := ledgers d @ [l]\<rparr>"
  using assms by (auto simp: new_ledger_eq flush_ledger_def set_points_def split: if_splits)

lemma flush_ledger_Inr:
  "flush_ledger l d = Inr d' \<longleftrightarrow> d' = d\<lparr>ledgers := ledgers d @ [l]\<rparr> \<and>
    \<not> list_ex (\<lambda>r. pl_user_id r = pl_user_id l \<and> pl_idempotency_key r = pl_idempotency_key l
         \<or> pl_transaction_no r = pl_transaction_no l) (ledgers d)"
  by (auto simp: flush_ledger_def)

text \<open>A flushed ledger row, alone and with the new balance of its user.\<close>

definition append_ledger :: "point_ledger \<Rightarrow> db \<Rightarrow> db" where
  "append_ledger l d = d\<lparr>drawn := Suc (drawn d), ledgers := ledgers d @ [l]\<rparr>"

definition post_ledger :: "int \<Rightarrow> int \<Rightarrow> point_ledger \<Rightarrow> db \<Rightarrow> db" where
  "post_ledger uid p l d = set_points uid p (append_ledger l d)"

lemma append_ledger_frame [books_simps]:
  "lots (append_ledger l d) = lots d" "ledgers (append_ledger l d) = ledgers d @ [l]"
  "allocations (append_ledger l d) = allocations d" "users (append_ledger l d) = users d"
  by (simp_all add: append_ledger_def)

lemma post_ledger_frame [books_simps]:
  "lots (post_ledger uid p l d) = lots d" "ledgers (post_ledger uid p l d) = ledgers d @ [l]"
  "allocations (post_ledger uid p l d) = allocations d"
  by (simp_all add: post_ledger_def set_points_frame append_ledger_frame)

lemma find_user_frame [books_simps]:
  "find_user (d\<lparr>drawn := n\<rparr>) u = find_user d u" "find_user (d\<lparr>ledgers := ls\<rparr>) u = find_user d u"
  "find_user (d\<lparr>lots := xs\<rparr>) u = find_user d u" "find_user (d\<lparr>allocations := as\<rparr>) u = find_user d u"
  by (simp_all add: find_user_def)

lemma points_of_frame [books_simps]:
  "points_of (d\<lparr>drawn := n\<rparr>) u = points_of d u" "points_of (d\<lparr>ledgers := ls\<rparr>) u = points_of d u"
  "points_of (d\<lparr>lots := xs\<rparr>) u = points_of d u" "points_of (d\<lparr>allocations := as\<rparr>) u = points_of d u"
  by (simp_all add: points_of_def books_simps)

lemma user_in_frame [books_simps]:
  "user_in (d\<lparr>drawn := n\<rparr>) u = user_in d u" "user_in (d\<lparr>ledgers := ls\<rparr>) u = user_in d u"
  "user_in (d\<lparr>lots := xs\<rparr>) u = user_in d u" "user_in (d\<lparr>allocations := as\<rparr>) u = user_in d u"
  by (simp_all add: user_in_def books_simps)

lemma append_ledger_users [books_simps]:
  "points_of (append_ledger l d) u = points_of d u" "user_in (append_ledger l d) u = user_in d u"
  by (simp_all add: points_of_def user_in_def find_user_def append_ledger_frame)

lemma post_ledger_users [books_simps]:
  "user_in d uid \<Longrightarrow> points_of (post_ledger uid p l d) u = (if u = uid then p else points_of d u)"
  "user_in (post_ledger uid p l d) u = user_in d u"
  by (simp_all add: post_ledger_def books_simps)

lemma write_lot_frame [books_simps]:
  "ledgers (write_lot lid f d) = ledgers d" "allocations (write_lot lid f d) = allocations d"
  "points_of (write_lot lid f d) u = points_of d u" "user_in (write_lot lid f d) u = user_in d u"
  by (simp_all add: write_lot_def books_simps)

lemma lots_write_lot: "lots (write_lot k f d) = update_by lot_id k f (lots d)"
  by (simp add: write_lot_def)

lemma add_lot_frame [books_simps]:
  "ledgers (add_lot uid lid n x d) = ledgers d" "allocations (add_lot uid lid n x d) = allocations d"
  "points_of (add_lot uid lid n x d) u = points_of d u" "user_in (add_lot uid lid n x d) u = user_in d u"
  by (simp_all add: add_lot_def books_simps)

lemma add_allocation_frame [books_simps]:
  "ledgers (add_allocation lid k n d) = ledgers d" "lots (add_allocation lid k n d) = lots d"
  "points_of (add_allocation lid k n d) u = points_of d u"
  "user_in (add_allocation lid k n d) u = user_in d u"
  by (simp_all add: add_allocation_def books_simps)

lemma write_allocation_frame [books_simps]:
  "ledgers (write_allocation k f d) = ledgers d" "lots (write_allocation k f d) = lots d"
  "points_of (write_allocation k f d) u = points_of d u"
  "user_in (write_allocation k f d) u = user_in d u"
  by (simp_all add: write_allocation_def books_simps)

section \<open>Totals\<close>

lemma lot_total_same_lots: "lots d' = lots d \<Longrightarrow> lot_total d' u = lot_total d u"
  by (simp add: lot_total_def)

lemma alloc_total_same: "allocations d' = allocations d \<Longrightarrow> alloc_total d' lid = alloc_total d lid"
  by (simp add: alloc_total_def)

lemma lot_total_add_lot [books_simps]:
  "lot_total (add_lot uid lid n x d) u = lot_total d u + (if u = uid then n else 0)"
  by (simp add: lot_total_def add_lot_def table_simps)

lemma lot_total_write_lot:
  assumes "lots_ok d" and "find_by lot_id k (lots d) = Some lot"
    and "\<And>l. lot_user_id (f l) = lot_user_id l"
  shows "lot_total (write_lot k f d) u = lot_total d u +
    (if u = lot_user_id lot then lot_remaining_amount (f lot) - lot_remaining_amount lot else 0)"
  using assms sum_where_update_by [of lot_id "lots d" k lot "\<lambda>l. lot_user_id l = u" lot_remaining_amount f]
  by (auto simp: lot_total_def write_lot_def lots_ok_def)

lemma alloc_total_add [books_simps]:
  "alloc_total (add_allocation lid k n d) i = alloc_total d i + (if i = lid then n else 0)"
  by (simp add: alloc_total_def add_allocation_def table_simps)

lemma lot_total_add_allocation [books_simps]: "lot_total (add_allocation lid k n d) u = lot_total d u"
  by (simp add: lot_total_def books_simps)

lemma alloc_total_write_lot [books_simps]: "alloc_total (write_lot k f d) i = alloc_total d i"
  by (simp add: alloc_total_def books_simps)

lemma alloc_total_add_lot [books_simps]: "alloc_total (add_lot uid lid n x d) i = alloc_total d i"
  by (simp add: alloc_total_def books_simps)

lemma totals_append_ledger [books_simps]:
  "lot_total (append_ledger l d) u = lot_total d u"
  "alloc_total (append_ledger l d) i = alloc_total d i"
  by (simp_all add: lot_total_def alloc_total_def books_simps)

lemma totals_post_ledger [books_simps]:
  "lot_total (post_ledger uid p l d) u = lot_total d u"
  "alloc_total (post_ledger uid p l d) i = alloc_total d i"
  by (simp_all add: lot_total_def alloc_total_def books_simps)

lemma lot_total_nonneg: "lots_ok d \<Longrightarrow> 0 \<le> lot_total d u"
  by (auto simp: lot_total_def lots_ok_def intro: sum_where_nonneg)

text \<open>The points of a user's lots are the usable ones and the due ones: the rest are empty.\<close>

lemma lot_total_parts:
  assumes "lots_ok d"
  shows "lot_total d uid = covered d uid now + due_total d uid now"
proof -
  have *: "\<forall>l\<in>set (lots d). 0 \<le> lot_remaining_amount l \<and>
       (lot_status l \<noteq> LotActive \<longrightarrow> lot_remaining_amount l = 0)"
    using assms by (simp add: lots_ok_def)
  have "sum_where (\<lambda>l. lot_user_id l = uid) lot_remaining_amount xs =
      sum_where (usable_lot uid now) lot_remaining_amount xs +
      sum_where (due_lot uid now) lot_remaining_amount xs"
    if "set xs \<subseteq> set (lots d)" for xs
    using that
  proof (induction xs)
    case (Cons l xs)
    then have "0 \<le> lot_remaining_amount l" "lot_status l \<noteq> LotActive \<longrightarrow> lot_remaining_amount l = 0"
      using * by auto
    then show ?case
      using Cons by (auto simp: sum_where_Cons usable_lot_def due_lot_def split: option.splits)
  qed simp
  then show ?thesis
    by (simp add: lot_total_def covered_def due_total_def)
qed

section \<open>The books are kept\<close>

lemma linked_mono:
  assumes "linked d a" and "set (ledgers d) \<subseteq> set (ledgers d')"
    and "\<And>lot. lot \<in> set (lots d) \<Longrightarrow>
        \<exists>lot'\<in>set (lots d'). lot_id lot' = lot_id lot \<and> lot_user_id lot' = lot_user_id lot"
  shows "linked d' a"
proof -
  obtain l lot where "l \<in> set (ledgers d)" "lot \<in> set (lots d)" "pl_id l = al_expense_ledger_id a"
      "lot_id lot = al_lot_id a" "lot_user_id lot = pl_user_id l"
    using assms(1) by (auto simp: linked_def)
  moreover obtain lot' where "lot' \<in> set (lots d')" "lot_id lot' = lot_id lot"
      "lot_user_id lot' = lot_user_id lot"
    using assms(3) calculation(2) by blast
  ultimately show ?thesis
    using assms(2) unfolding linked_def by (metis subsetD)
qed

lemma books_append_ledger:
  assumes "books_ok d" and "pl_id l = fresh_id pl_id (ledgers d)" and "0 < pl_amount l"
  shows "books_ok (append_ledger l d)"
proof -
  let ?d = "append_ledger l d"
  have d: "lots_ok d" "ledgers_ok d" "allocs_ok d" "spent_ok d" "sources_ok d"
    using assms(1) by (auto simp: books_ok_def)
  have new: "pl_id l \<notin> pl_id ` set (ledgers d)"
    using assms(2) fresh_id_new [of pl_id "ledgers d"] by simp
  have "linked ?d a" if "linked d a" for a
    by (rule linked_mono [OF that]) (auto simp: books_simps)
  then have "allocs_ok ?d"
    using d(3) by (auto simp: allocs_ok_def books_simps)
  moreover have "alloc_total d (pl_id l) = 0"
    unfolding alloc_total_def
  proof (rule sum_where_none)
    fix a assume "a \<in> set (allocations d)" "al_expense_ledger_id a = pl_id l"
    then have "linked d a" using d(3) by (simp add: allocs_ok_def)
    then show "al_amount a = 0"
      using new \<open>al_expense_ledger_id a = pl_id l\<close> unfolding linked_def by (metis imageI)
  qed
  then have "spent_ok ?d"
    using d(4) assms(3)
    by (auto simp: spent_ok_def books_simps alloc_total_same [of ?d d])
  ultimately show ?thesis
    using d new assms(3)
    by (auto simp: books_ok_def lots_ok_def ledgers_ok_def sources_ok_def books_simps)
qed

lemma books_set_points [books_simps]: "books_ok (set_points uid p d) = books_ok d"
  by (simp add: books_ok_def lots_ok_def ledgers_ok_def allocs_ok_def spent_ok_def sources_ok_def
      linked_def alloc_total_def books_simps)

lemma books_post_ledger:
  assumes "books_ok d" and "pl_id l = fresh_id pl_id (ledgers d)" and "0 < pl_amount l"
  shows "books_ok (post_ledger uid p l d)"
  using books_append_ledger [OF assms] by (simp add: post_ledger_def books_simps)

lemma books_add_lot:
  assumes "books_ok d" and "0 \<le> n" and "l \<in> set (ledgers d)" "pl_id l = lid" "pl_user_id l = uid"
  shows "books_ok (add_lot uid lid n x d)"
proof -
  have "linked (add_lot uid lid n x d) a" if "linked d a" for a
    by (rule linked_mono [OF that]) (auto simp: books_simps add_lot_def)
  then show ?thesis
    using assms fresh_id_new [of lot_id "lots d"]
    by (auto simp: books_ok_def lots_ok_def ledgers_ok_def allocs_ok_def spent_ok_def sources_ok_def
        books_simps alloc_total_def add_lot_def)
qed

lemma books_write_lot:
  assumes "books_ok d" and "find_by lot_id k (lots d) = Some lot"
    and "\<And>l. lot_id (f l) = lot_id l" and "\<And>l. lot_user_id (f l) = lot_user_id l"
    and "\<And>l. lot_source_ledger_id (f l) = lot_source_ledger_id l"
    and "0 \<le> lot_remaining_amount (f lot)"
    and "lot_status (f lot) \<noteq> LotActive \<longrightarrow> lot_remaining_amount (f lot) = 0"
  shows "books_ok (write_lot k f d)"
proof -
  have d: "lots_ok d" "ledgers_ok d" "allocs_ok d" "spent_ok d" "sources_ok d"
    using assms(1) by (auto simp: books_ok_def)
  have "linked (write_lot k f d) a" if "linked d a" for a
  proof (rule linked_mono [OF that])
    fix l assume "l \<in> set (lots d)"
    then show "\<exists>lot'\<in>set (lots (write_lot k f d)). lot_id lot' = lot_id l \<and> lot_user_id lot' = lot_user_id l"
      using assms(3,4) by (intro bexI [of _ "if lot_id l = k then f l else l"])
        (auto simp: write_lot_def set_update_by)
  qed (simp add: books_simps)
  moreover have "l = lot" if "l \<in> set (lots d)" "lot_id l = k" for l
    using find_by_distinct [of lot_id "lots d" l] that d(1) assms(2) by (simp add: lots_ok_def)
  then have "lots_ok (write_lot k f d)"
    using d(1) assms(3,6,7) by (auto simp: lots_ok_def write_lot_def set_update_by map_key_update_by)
  moreover have "sources_ok (write_lot k f d)"
    using d(5) assms(4,5) by (auto simp: sources_ok_def write_lot_def set_update_by)
  ultimately show ?thesis
    using d by (auto simp: books_ok_def ledgers_ok_def allocs_ok_def spent_ok_def alloc_total_def books_simps)
qed

lemma books_add_allocation:
  assumes "books_ok d" and "0 \<le> n"
    and "l \<in> set (ledgers d)" "pl_id l = lid" "alloc_total d lid + n \<le> pl_amount l"
    and "lot \<in> set (lots d)" "lot_id lot = k" "lot_user_id lot = pl_user_id l"
  shows "books_ok (add_allocation lid k n d)"
proof -
  let ?d = "add_allocation lid k n d"
  have d: "lots_ok d" "ledgers_ok d" "allocs_ok d" "spent_ok d" "sources_ok d"
    using assms(1) by (auto simp: books_ok_def)
  have "linked ?d a" if "linked d a" for a
    by (rule linked_mono [OF that]) (auto simp: books_simps)
  moreover have "linked ?d \<lparr>al_id = i, al_expense_ledger_id = lid, al_lot_id = k, al_amount = n,
      al_restored_amount = 0\<rparr>" for i
    using assms(3-8) by (auto simp: linked_def books_simps)
  ultimately have "allocs_ok ?d"
    using d(3) assms(2) fresh_id_new [of al_id "allocations d"]
    by (auto simp: allocs_ok_def add_allocation_def)
  moreover have "l' = l" if "l' \<in> set (ledgers d)" "pl_id l' = lid" for l'
    using that assms(3,4) d(2) by (metis distinct_map inj_onD ledgers_ok_def)
  then have "spent_ok ?d"
    using d(4) assms(5) by (auto simp: spent_ok_def books_simps)
  ultimately show ?thesis
    using d by (auto simp: books_ok_def lots_ok_def ledgers_ok_def sources_ok_def books_simps)
qed

section \<open>The loop that consumes lots\<close>

text \<open>A list of lots as the query returned it: distinct rows of the table, all of one user.\<close>

definition rows_of :: "db \<Rightarrow> int \<Rightarrow> point_lot list \<Rightarrow> bool" where
  "rows_of d uid ls \<longleftrightarrow> distinct (map lot_id ls) \<and>
    (\<forall>l\<in>set ls. find_by lot_id (lot_id l) (lots d) = Some l \<and> lot_user_id l = uid \<and> 0 \<le> lot_remaining_amount l)"

lemma rows_of_sorted_filter:
  assumes "lots_ok d" and "\<And>l. P l \<Longrightarrow> lot_user_id l = uid"
  shows "rows_of d uid (sort_key k (filter P (lots d)))"
proof -
  have d: "distinct (map lot_id (lots d))"
    using assms(1) by (simp add: lots_ok_def)
  then have "distinct (map lot_id (filter P (lots d)))"
    by (simp add: distinct_map inj_on_subset [of lot_id "set (lots d)"])
  then have "distinct (map lot_id (sort_key k (filter P (lots d))))"
    by (simp add: distinct_map)
  then show ?thesis
    using assms d by (auto simp: rows_of_def lots_ok_def find_by_distinct)
qed

lemma rows_of_mem:
  "rows_of d uid ls \<Longrightarrow> l \<in> set ls \<Longrightarrow>
    find_by lot_id (lot_id l) (lots d) = Some l \<and> lot_user_id l = uid \<and> 0 \<le> lot_remaining_amount l"
  unfolding rows_of_def by blast

lemma rows_of_head: "rows_of d uid (l # ls) \<Longrightarrow> lot_id l \<notin> lot_id ` set ls"
  unfolding rows_of_def by simp

lemma rows_of_write:
  assumes "rows_of d uid (l # ls)" and "\<And>l. lot_id (f l) = lot_id l"
  shows "rows_of (write_lot (lot_id l) f d) uid ls"
proof -
  have r: "distinct (map lot_id (l # ls))"
    "\<forall>m\<in>set (l # ls). find_by lot_id (lot_id m) (lots d) = Some m \<and> lot_user_id m = uid
       \<and> 0 \<le> lot_remaining_amount m"
    using assms(1) unfolding rows_of_def by blast+
  have "find_by lot_id (lot_id m) (lots (write_lot (lot_id l) f d)) = Some m" if "m \<in> set ls" for m
  proof -
    have "lot_id m \<noteq> lot_id l"
      using r(1) that by (metis distinct.simps(2) image_eqI list.simps(9) set_map)
    then show ?thesis
      unfolding lots_write_lot find_by_update_by [of lot_id f, OF assms(2)] using r(2) that by simp
  qed
  with r show ?thesis
    unfolding rows_of_def by simp
qed

lemma rows_of_same: "lots d' = lots d \<Longrightarrow> rows_of d' uid ls = rows_of d uid ls"
  by (simp add: rows_of_def)

lemma consume_lot_fields [simp]:
  "lot_id (consume_lot n l) = lot_id l" "lot_user_id (consume_lot n l) = lot_user_id l"
  "lot_remaining_amount (consume_lot n l) = lot_remaining_amount l - n"
  "lot_expires_at (consume_lot n l) = lot_expires_at l"
  "lot_source_ledger_id (consume_lot n l) = lot_source_ledger_id l"
  by (simp_all add: consume_lot_def Let_def)

lemma expire_lot_fields [simp]:
  "lot_id (expire_lot l) = lot_id l" "lot_user_id (expire_lot l) = lot_user_id l"
  "lot_remaining_amount (expire_lot l) = 0" "lot_status (expire_lot l) = LotExpired"
  "lot_expires_at (expire_lot l) = lot_expires_at l"
  "lot_source_ledger_id (expire_lot l) = lot_source_ledger_id l"
  by (simp_all add: expire_lot_def)

lemma consume_lots_frame [books_simps]:
  "ledgers (consume_lots lid r ls d) = ledgers d"
  "points_of (consume_lots lid r ls d) u = points_of d u"
  "user_in (consume_lots lid r ls d) u = user_in d u"
  by (induction lid r ls d rule: consume_lots.induct) (simp_all add: Let_def books_simps)

lemma sum_list_nonneg_rows: "rows_of d uid ls \<Longrightarrow> 0 \<le> sum_list (map lot_remaining_amount ls)"
  by (intro sum_list_nonneg) (auto simp: rows_of_def)

lemma consume_lots_effect:
  assumes "books_ok d" and "rows_of d uid ls" and "0 \<le> r"
    and "l \<in> set (ledgers d)" "pl_id l = lid" "pl_user_id l = uid" "alloc_total d lid + r \<le> pl_amount l"
  shows "books_ok (consume_lots lid r ls d) \<and>
    lot_total (consume_lots lid r ls d) uid =
      lot_total d uid - min r (sum_list (map lot_remaining_amount ls)) \<and>
    alloc_total (consume_lots lid r ls d) lid =
      alloc_total d lid + min r (sum_list (map lot_remaining_amount ls)) \<and>
    (\<forall>u. u \<noteq> uid \<longrightarrow> lot_total (consume_lots lid r ls d) u = lot_total d u)"
  using assms
proof (induction ls arbitrary: r d)
  case Nil
  then show ?case by simp
next
  case (Cons lot ls)
  show ?case
  proof (cases "r \<le> 0")
    case True
    then show ?thesis
      using Cons.prems(1,3) sum_list_nonneg_rows [OF Cons.prems(2)] by simp
  next
    case False
    define used where "used = min (lot_remaining_amount lot) r"
    define d1 where "d1 = write_lot (lot_id lot) (consume_lot used) d"
    define d2 where "d2 = add_allocation lid (lot_id lot) used d1"
    have row: "find_by lot_id (lot_id lot) (lots d) = Some lot" "lot_user_id lot = uid"
        "0 \<le> lot_remaining_amount lot"
      using Cons.prems(2) by (auto simp: rows_of_def)
    have lots: "lots_ok d" using Cons.prems(1) by (simp add: books_ok_def)
    have active: "lot_status lot \<noteq> LotActive \<Longrightarrow> lot_remaining_amount lot = 0"
      using lots find_by_mem [OF row(1)] by (auto simp: lots_ok_def)
    have u: "0 \<le> used" "used \<le> lot_remaining_amount lot" "used \<le> r"
      using row(3) False by (auto simp: used_def)
    have b1: "books_ok d1" unfolding d1_def
      using u active by (intro books_write_lot [OF Cons.prems(1) row(1)])
        (auto simp: consume_lot_def Let_def)
    have "find_by lot_id (lot_id lot) (lots d1) = Some (consume_lot used lot)"
      using row(1) by (simp add: d1_def write_lot_def find_by_update_by)
    from find_by_mem [OF this] have "consume_lot used lot \<in> set (lots d1)" .
    then have b2: "books_ok d2" unfolding d2_def
      using b1 u(1,3) Cons.prems(4-7) row(2)
      by (intro books_add_allocation [where l = l and lot = "consume_lot used lot"])
        (auto simp: d1_def books_simps)
    have rows: "rows_of d2 uid ls"
      using rows_of_write [OF Cons.prems(2), of "consume_lot used"]
      by (simp add: d2_def d1_def rows_of_def books_simps)
    have tot: "lot_total d2 v = lot_total d v - (if v = uid then used else 0)" for v
      using lot_total_write_lot [OF lots row(1), of "consume_lot used" v] row(2)
      by (simp add: d2_def d1_def books_simps)
    have al: "alloc_total d2 lid = alloc_total d lid + used"
      by (simp add: d2_def d1_def books_simps)
    have led: "ledgers d2 = ledgers d" by (simp add: d2_def d1_def books_simps)
    have step: "consume_lots lid r (lot # ls) d = consume_lots lid (r - used) ls d2"
      using False by (simp add: used_def d2_def d1_def Let_def)
    have sum: "0 \<le> sum_list (map lot_remaining_amount ls)"
      by (rule sum_list_nonneg_rows [OF rows])
    have "used + min (r - used) (sum_list (map lot_remaining_amount ls)) =
        min r (sum_list (map lot_remaining_amount (lot # ls)))"
      using sum by (auto simp: used_def)
    then show ?thesis
      using Cons.IH [OF b2 rows, of "r - used"] Cons.prems(4-7) u step led al tot by auto
  qed
qed

lemma expire_lots_frame [books_simps]:
  "ledgers (expire_lots lid r ls d) = ledgers d"
  "points_of (expire_lots lid r ls d) u = points_of d u"
  "user_in (expire_lots lid r ls d) u = user_in d u"
  by (induction lid r ls d rule: expire_lots.induct) (simp_all add: Let_def books_simps)

text \<open>The closed form of the lots after the expiry loop.\<close>

lemma write_lots_closed:
  assumes "rows_of d uid ls"
  shows "lots (expire_lots lid r ls d) =
    map (\<lambda>l. if lot_id l \<in> lot_id ` set ls then expire_lot l else l) (lots d)"
proof -
  have "lots (expire_lots lid r ls d) =
      map (\<lambda>l. if lot_id l \<in> lot_id ` set ls then expire_lot l else l) (lots d)" for r d
  proof (induction ls arbitrary: r d)
    case (Cons lot ls)
    have *: "(if lot_id (if lot_id l = lot_id lot then expire_lot l else l) \<in> lot_id ` set ls
         then expire_lot (if lot_id l = lot_id lot then expire_lot l else l)
         else (if lot_id l = lot_id lot then expire_lot l else l)) =
        (if lot_id l \<in> lot_id ` set (lot # ls) then expire_lot l else l)" for l
      by (auto simp: expire_lot_def)
    show ?case
      by (simp add: Let_def Cons.IH books_simps lots_write_lot update_by_def * comp_def del: if_split)
  qed simp
  then show ?thesis .
qed

lemma fold_expire_closed:
  "lots (fold (\<lambda>lot. write_lot (lot_id lot) expire_lot) ls d) =
    map (\<lambda>l. if lot_id l \<in> lot_id ` set ls then expire_lot l else l) (lots d)"
proof (induction ls arbitrary: d)
  case (Cons lot ls)
  have *: "(if lot_id (if lot_id l = lot_id lot then expire_lot l else l) \<in> lot_id ` set ls
       then expire_lot (if lot_id l = lot_id lot then expire_lot l else l)
       else (if lot_id l = lot_id lot then expire_lot l else l)) =
      (if lot_id l \<in> lot_id ` set (lot # ls) then expire_lot l else l)" for l
    by (auto simp: expire_lot_def)
  show ?case
    by (simp add: Cons.IH lots_write_lot update_by_def * comp_def del: if_split)
qed simp

lemma expire_lots_effect:
  assumes "books_ok d" and "rows_of d uid ls" and "0 \<le> r"
    and "l \<in> set (ledgers d)" "pl_id l = lid" "pl_user_id l = uid" "alloc_total d lid + r \<le> pl_amount l"
  shows "books_ok (expire_lots lid r ls d) \<and>
    alloc_total (expire_lots lid r ls d) lid =
      alloc_total d lid + min r (sum_list (map lot_remaining_amount ls))"
  using assms
proof (induction ls arbitrary: r d)
  case Nil
  then show ?case by simp
next
  case (Cons lot ls)
  define d1 where "d1 = write_lot (lot_id lot) expire_lot d"
  have row: "find_by lot_id (lot_id lot) (lots d) = Some lot" "lot_user_id lot = uid"
      "0 \<le> lot_remaining_amount lot"
    using Cons.prems(2) by (auto simp: rows_of_def)
  have b1: "books_ok d1" unfolding d1_def
    by (intro books_write_lot [OF Cons.prems(1) row(1)]) simp_all
  have rows: "rows_of d1 uid ls"
    using rows_of_write [OF Cons.prems(2), of expire_lot] by (simp add: d1_def)
  have sum: "0 \<le> sum_list (map lot_remaining_amount ls)"
    by (rule sum_list_nonneg_rows [OF rows])
  have led: "ledgers d1 = ledgers d" and al: "alloc_total d1 lid = alloc_total d lid"
    by (simp_all add: d1_def books_simps)
  show ?case
  proof (cases "0 < r")
    case False
    then show ?thesis
      using Cons.IH [OF b1 rows Cons.prems(3)] Cons.prems(3-7) led al sum row(3)
      by (auto simp: d1_def Let_def)
  next
    case True
    define used where "used = min (lot_remaining_amount lot) r"
    define d2 where "d2 = add_allocation lid (lot_id lot) used d1"
    have u: "0 \<le> used" "used \<le> r" using row(3) True by (auto simp: used_def)
    have "find_by lot_id (lot_id lot) (lots d1) = Some (expire_lot lot)"
      using row(1) by (simp add: d1_def write_lot_def find_by_update_by)
    from find_by_mem [OF this] have "expire_lot lot \<in> set (lots d1)" .
    then have b2: "books_ok d2" unfolding d2_def
      using b1 u Cons.prems(4-7) row(2) led al
      by (intro books_add_allocation [where l = l and lot = "expire_lot lot"]) auto
    have rows2: "rows_of d2 uid ls"
      using rows by (simp add: d2_def rows_of_def books_simps)
    have al2: "alloc_total d2 lid = alloc_total d lid + used"
      using al by (simp add: d2_def books_simps)
    have led2: "ledgers d2 = ledgers d" using led by (simp add: d2_def books_simps)
    have "used + min (r - used) (sum_list (map lot_remaining_amount ls)) =
        min r (sum_list (map lot_remaining_amount (lot # ls)))"
      using sum row(3) True by (auto simp: used_def)
    moreover have "expire_lots lid r (lot # ls) d = expire_lots lid (r - used) ls d2"
      using True by (simp add: used_def d2_def d1_def Let_def)
    ultimately show ?thesis
      using Cons.IH [OF b2 rows2, of "r - used"] Cons.prems(4-7) u led2 al2 by auto
  qed
qed

end
