(* ===== verification/Py_Decimal.thy ===== *)
theory Py_Decimal
  imports Py_Text
begin

text \<open>
  \<open>decimal.Decimal\<close> as the code uses it: \<open>(c, e)\<close> is \<open>c * 10 ^ e\<close>. \<open>quantize\<close> to
  cents rounds half to even and raises \<open>InvalidOperation\<close> when the result has more than
  28 digits, the precision of the default context. A JSON number that is not an integer
  is the decimal its \<open>repr\<close> shows. Also here: \<open>str\<close> and \<open>int\<close> of JSON values.
  The special texts \<open>nan\<close> and \<open>inf\<close> are rejected by \<open>parse_decimal\<close>.
\<close>

type_synonym decimal = "int \<times> int"

section \<open>Rounding\<close>

definition half_even :: "int \<Rightarrow> int \<Rightarrow> int" where
  "half_even n d =
    (let q = \<bar>n\<bar> div d; r = \<bar>n\<bar> mod d;
         up = (if d < 2 * r \<or> (2 * r = d \<and> q mod 2 = 1) then 1 else 0)
     in (if n < 0 then - (q + up) else q + up))"

definition half_up :: "int \<Rightarrow> int \<Rightarrow> int" where
  "half_up n d =
    (let q = \<bar>n\<bar> div d; r = \<bar>n\<bar> mod d; up = (if d \<le> 2 * r then 1 else 0)
     in (if n < 0 then - (q + up) else q + up))"

lemma round_near:
  fixes n d up :: int
  assumes "0 < d" and "up = 0 \<and> 2 * (\<bar>n\<bar> mod d) \<le> d \<or> up = 1 \<and> d \<le> 2 * (\<bar>n\<bar> mod d)"
  shows "2 * \<bar>(if n < 0 then - (\<bar>n\<bar> div d + up) else \<bar>n\<bar> div d + up) * d - n\<bar> \<le> d"
proof -
  define q r where "q = \<bar>n\<bar> div d" and "r = \<bar>n\<bar> mod d"
  have "\<bar>n\<bar> = q * d + r" unfolding q_def r_def by (rule div_mult_mod_eq [symmetric])
  then have "(if n < 0 then - (q + up) else q + up) * d - n = (if n < 0 then r - up * d else up * d - r)"
    by (auto simp: algebra_simps abs_if split: if_splits)
  moreover have "0 \<le> r" "r < d" using assms(1) by (simp_all add: r_def)
  moreover have "up = 0 \<and> 2 * r \<le> d \<or> up = 1 \<and> d \<le> 2 * r" using assms(2) by (simp add: r_def)
  ultimately show ?thesis
    unfolding q_def [symmetric] by auto
qed

lemma half_even_near: "0 < d \<Longrightarrow> 2 * \<bar>half_even n d * d - n\<bar> \<le> d"
  using round_near [of d 0 n] round_near [of d 1 n] by (auto simp: half_even_def Let_def)

lemma half_up_near: "0 < d \<Longrightarrow> 2 * \<bar>half_up n d * d - n\<bar> \<le> d"
  using round_near [of d 0 n] round_near [of d 1 n] by (auto simp: half_up_def Let_def)

lemma abs_mult_div [simp]: "0 < d \<Longrightarrow> \<bar>m * d\<bar> div d = \<bar>m\<bar>" "0 < d \<Longrightarrow> \<bar>m * d\<bar> mod d = 0" for d m :: int
  by (simp_all add: abs_mult)

lemma half_even_exact [simp]: "0 < d \<Longrightarrow> half_even (m * d) d = m"
  unfolding half_even_def Let_def by (simp del: abs_mult_pos' add: mult_less_0_iff)

lemma half_up_exact [simp]: "0 < d \<Longrightarrow> half_up (m * d) d = m"
  unfolding half_up_def Let_def by (simp del: abs_mult_pos' add: mult_less_0_iff)

lemma half_even_1 [simp]: "half_even n 1 = n"
  using half_even_exact [of 1 n] by simp

text \<open>\<open>d.quantize(Decimal("0.01"))\<close> in cents; \<open>None\<close> is \<open>InvalidOperation\<close>.\<close>

definition quantize_cents :: "decimal \<Rightarrow> int option" where
  "quantize_cents x =
    (case x of (c, e) \<Rightarrow>
       (let n = (if -2 \<le> e then c * 10 ^ nat (e + 2) else half_even c (10 ^ nat (- e - 2)))
        in if \<bar>n\<bar> < 10 ^ 28 then Some n else None))"

lemma quantize_cents_id: "\<bar>n\<bar> < 10 ^ 28 \<Longrightarrow> quantize_cents (n, -2) = Some n"
  by (simp add: quantize_cents_def)

section \<open>Texts\<close>

definition split_at :: "(char \<Rightarrow> bool) \<Rightarrow> string \<Rightarrow> string \<times> string option" where
  "split_at P s =
    (case dropWhile (\<lambda>c. \<not> P c) s of
       [] \<Rightarrow> (s, None)
     | c # rest \<Rightarrow> (takeWhile (\<lambda>c. \<not> P c) s, Some rest))"

definition parse_signed :: "string \<Rightarrow> int option" where
  "parse_signed s =
    (case s of
       [] \<Rightarrow> None
     | c # cs \<Rightarrow>
         if c = CHR ''-'' then map_option (\<lambda>n. - int n) (parse_nat cs)
         else if c = CHR ''+'' then map_option int (parse_nat cs)
         else map_option int (parse_nat (c # cs)))"

definition parse_mantissa :: "string \<Rightarrow> decimal option" where
  "parse_mantissa s =
    (case split_at (\<lambda>c. c = CHR ''.'') s of
       (whole, frac) \<Rightarrow>
         (let ds = (case frac of None \<Rightarrow> [] | Some f \<Rightarrow> f) in
          map_option (\<lambda>n. (int n, - int (length ds))) (parse_nat (whole @ ds))))"

text \<open>\<open>Decimal(text)\<close>; \<open>None\<close> is \<open>InvalidOperation\<close>.\<close>

definition parse_decimal :: "string \<Rightarrow> decimal option" where
  "parse_decimal text =
    (let s = strip text;
         neg = (case s of c # _ \<Rightarrow> c = CHR ''-'' | [] \<Rightarrow> False);
         body = (case s of c # cs \<Rightarrow> if c = CHR ''-'' \<or> c = CHR ''+'' then cs else s | [] \<Rightarrow> []) in
     case split_at (\<lambda>c. c = CHR ''e'' \<or> c = CHR ''E'') body of
       (m, x) \<Rightarrow>
         (case (parse_mantissa m, case x of None \<Rightarrow> Some 0 | Some t \<Rightarrow> parse_signed t) of
            (Some (c, e), Some k) \<Rightarrow> Some (if neg then - c else c, e + k)
          | _ \<Rightarrow> None))"

section \<open>Conversions of JSON values\<close>

text \<open>\<open>int(value)\<close> for a JSON value: \<open>None\<close> is \<open>TypeError\<close> or \<open>ValueError\<close>.\<close>

fun json_int :: "json \<Rightarrow> int option" where
  "json_int (JBool b) = Some (if b then 1 else 0)"
| "json_int (JInt n) = Some n"
| "json_int (JDec c s) = Some (if c < 0 then - (\<bar>c\<bar> div 10 ^ s) else c div 10 ^ s)"
| "json_int (JStr s) = int_of s"
| "json_int _ = None"

text \<open>\<open>Decimal(str(value))\<close>.\<close>

fun json_decimal :: "json \<Rightarrow> decimal option" where
  "json_decimal (JInt n) = Some (n, 0)"
| "json_decimal (JDec c s) = Some (c, - int s)"
| "json_decimal (JStr s) = parse_decimal s"
| "json_decimal _ = None"

text \<open>\<open>str(value)\<close>, with \<open>repr\<close> for what lists and objects contain.\<close>

definition escape_char :: "char \<Rightarrow> char \<Rightarrow> string" where
  "escape_char quote c =
    (let hex = ''0123456789abcdef'' in
     if c = quote \<or> c = CHR 0x5C then [CHR 0x5C, c]
     else if c = CHR 0x0A then [CHR 0x5C, CHR ''n'']
     else if c = CHR 0x0D then [CHR 0x5C, CHR ''r'']
     else if c = CHR 0x09 then [CHR 0x5C, CHR ''t'']
     else if of_char c < (32 :: nat) \<or> of_char c = (127 :: nat)
       then [CHR 0x5C, CHR ''x'', hex ! (of_char c div 16), hex ! (of_char c mod 16)]
     else [c])"

definition repr_str :: "string \<Rightarrow> string" where
  "repr_str s =
    (let quote = (if CHR 0x27 \<in> set s \<and> CHR 0x22 \<notin> set s then CHR 0x22 else CHR 0x27)
     in [quote] @ concat (map (escape_char quote) s) @ [quote])"

definition str_dec :: "int \<Rightarrow> nat \<Rightarrow> string" where
  "str_dec c s =
    (let ds = show_nat (nat \<bar>c\<bar>);
         padded = replicate (s + 1 - length ds) CHR ''0'' @ ds;
         k = length padded - s
     in (if c < 0 then ''-'' else []) @ take k padded @ ''.'' @ (if s = 0 then ''0'' else drop k padded))"

fun repr_json :: "json \<Rightarrow> string" where
  "repr_json JNull = ''None''"
| "repr_json (JBool b) = (if b then ''True'' else ''False'')"
| "repr_json (JInt n) = str_int n"
| "repr_json (JDec c s) = str_dec c s"
| "repr_json (JStr s) = repr_str s"
| "repr_json (JList xs) =
     ''['' @ concat (case map repr_json xs of [] \<Rightarrow> [] | t # ts \<Rightarrow> t # map (\<lambda>u. '', '' @ u) ts) @ '']''"
| "repr_json (JObj kvs) =
     ''{'' @ concat (case map (\<lambda>kv. repr_str (fst kv) @ '': '' @ repr_json (snd kv)) kvs of
         [] \<Rightarrow> [] | t # ts \<Rightarrow> t # map (\<lambda>u. '', '' @ u) ts) @ ''}''"

definition str_json :: "json \<Rightarrow> string" where
  "str_json v = (case v of JStr s \<Rightarrow> s | _ \<Rightarrow> repr_json v)"

text \<open>\<open>str(value or "").strip()[:limit]\<close>.\<close>

definition text_limit :: "json \<Rightarrow> nat \<Rightarrow> string" where
  "text_limit v limit = take limit (strip (str_json (json_or v (JStr []))))"

lemma text_limit_length: "length (text_limit v n) \<le> n"
  by (simp add: text_limit_def)

lemma text_limit_JStr: "text_limit (JStr s) n = take n (strip s)"
  by (cases s) (simp_all add: text_limit_def json_or_def str_json_def)

text \<open>\<open>text.splitlines()\<close>.\<close>

definition line_break :: "char \<Rightarrow> bool" where
  "line_break c \<longleftrightarrow> c \<in> {CHR 0x0A, CHR 0x0B, CHR 0x0C, CHR 0x0D, CHR 0x1C, CHR 0x1D, CHR 0x1E}"

fun split_lines_acc :: "bool \<Rightarrow> string \<Rightarrow> string \<Rightarrow> string list" where
  "split_lines_acc after_cr acc [] = (if acc = [] then [] else [rev acc])"
| "split_lines_acc after_cr acc (c # cs) =
     (if after_cr \<and> c = CHR 0x0A then split_lines_acc False acc cs
      else if line_break c then rev acc # split_lines_acc (c = CHR 0x0D) [] cs
      else split_lines_acc False (c # acc) cs)"

definition splitlines :: "string \<Rightarrow> string list" where
  "splitlines s = split_lines_acc False [] s"

end
