(* ===== verification/Settings.thy ===== *)
theory Settings
  imports Entities Py_Decimal
begin

text \<open>
  Rows of the settings table and the two small groups of settings kept there:
  the upload limit (\<open>app/core/upload_settings.py\<close>) and the word lists and weights of the
  travel matcher (\<open>app/core/travel_match_settings.py\<close>). Both are read through a
  normalisation that turns any stored JSON into bounded values. Labels and keywords of
  the defaults are ASCII stand-ins.
\<close>

definition save_setting :: "string \<Rightarrow> json \<Rightarrow> string \<Rightarrow> db \<Rightarrow> db" where
  "save_setting key value remark d =
    d\<lparr>settings_rows :=
      (if find_by ss_key key (settings_rows d) = None
       then settings_rows d @ [\<lparr>ss_key = key, ss_value = value, ss_remark = remark\<rparr>]
       else update_by ss_key key (\<lambda>r. r\<lparr>ss_value := value, ss_remark := remark\<rparr>) (settings_rows d))\<rparr>"

definition setting_value :: "string \<Rightarrow> db \<Rightarrow> json option" where
  "setting_value key d = map_option ss_value (find_by ss_key key (settings_rows d))"

lemma setting_value_save:
  "setting_value k (save_setting key value remark d) = (if k = key then Some value else setting_value k d)"
  by (auto simp: setting_value_def save_setting_def find_by_append find_by_update_by find_by_Cons
      split: option.splits)

lemma save_setting_frame [simp]:
  "users (save_setting k v r d) = users d" "snapshots (save_setting k v r d) = snapshots d"
  "travel_orders (save_setting k v r d) = travel_orders d" "routes (save_setting k v r d) = routes d"
  "audits (save_setting k v r d) = audits d" "verifications (save_setting k v r d) = verifications d"
  "numbers (save_setting k v r d) = numbers d" "drawn (save_setting k v r d) = drawn d"
  by (simp_all add: save_setting_def)

text \<open>\<open>s.lower()\<close> on ASCII.\<close>

definition to_lower :: "string \<Rightarrow> string" where
  "to_lower s =
    map (\<lambda>c. let n = of_char c :: nat in if 65 \<le> n \<and> n \<le> 90 then char_of (n + 32) else c) s"

section \<open>The upload limit\<close>

definition upload_key :: string where "upload_key = ''upload.image''"

text \<open>
  \<open>int(float(value))\<close>; \<open>None\<close> is \<open>TypeError\<close> or \<open>ValueError\<close>. The clamping that follows
  hides the rounding of large or long numbers to a float. Infinities (the texts for them and
  numbers beyond the range of a float), on which \<open>int\<close> raises \<open>OverflowError\<close>, are left out.
\<close>

definition json_trunc :: "json \<Rightarrow> int option" where
  "json_trunc v =
    (case v of
       JBool b \<Rightarrow> Some (if b then 1 else 0)
     | _ \<Rightarrow> (case json_decimal v of
         None \<Rightarrow> None
       | Some (c, e) \<Rightarrow>
           Some (if 0 \<le> e then c * 10 ^ nat e
                 else sgn c * (\<bar>c\<bar> div 10 ^ nat (- e)))))"

definition normalize_max_image_mb :: "json \<Rightarrow> int" where
  "normalize_max_image_mb v = clamp 1 50 (case json_trunc v of Some n \<Rightarrow> n | None \<Rightarrow> 8)"

definition get_upload_setting :: "db \<Rightarrow> int \<times> int" where
  "get_upload_setting d =
    (let mb = normalize_max_image_mb
           (case setting_value upload_key d of Some (JObj kvs) \<Rightarrow> jget (JObj kvs) ''max_image_mb'' | _ \<Rightarrow> JNull)
     in (mb, mb * 1024 * 1024))"

definition save_upload_setting :: "db \<Rightarrow> json \<Rightarrow> (int \<times> int) \<times> db" where
  "save_upload_setting d v =
    (let d1 = save_setting upload_key (JObj [(''max_image_mb'', JInt (normalize_max_image_mb v))])
                ''upload image limit'' d
     in (get_upload_setting d1, d1))"

section \<open>The travel matcher\<close>

record term_row =
  mt_label :: string
  mt_keywords :: "string list"
  mt_weight :: int
  mt_enabled :: bool

record match_settings =
  ms_destinations :: "term_row list"
  ms_themes :: "term_row list"
  ms_weights :: "(string \<times> int) list"

definition match_key :: string where "match_key = ''travel.match_settings''"

definition default_term :: "int \<Rightarrow> string \<Rightarrow> string list \<Rightarrow> term_row" where
  "default_term w label keywords = \<lparr>mt_label = label, mt_keywords = keywords, mt_weight = w, mt_enabled = True\<rparr>"

definition default_match_settings :: match_settings where
  "default_match_settings =
    \<lparr>ms_destinations = [
        default_term 38 ''southwest'' [''southwest'', ''west sichuan'', ''sichuan'', ''chengdu'', ''yunnan'', ''guizhou'', ''chongqing'', ''snow mountain'', ''hidden land'', ''tibet'', ''plateau''],
        default_term 38 ''seaside city'' [''seaside'', ''sea breeze'', ''coast'', ''qingdao'', ''quanzhou'', ''xiamen'', ''sanya'', ''island'', ''shore'', ''sea''],
        default_term 38 ''northwest'' [''northwest'', ''qinghai'', ''gansu'', ''xinjiang'', ''dunhuang'', ''desert'', ''gobi'', ''wilderness'', ''qilian''],
        default_term 38 ''jiangnan'' [''jiangnan'', ''old town'', ''suzhou'', ''hangzhou'', ''wuzhen'', ''water town'', ''huizhou'', ''shaoxing'']],
     ms_themes = [
        default_term 28 ''hiking'' [''outdoor'', ''hiking'', ''snow mountain'', ''light hiking'', ''mountain'', ''camping''],
        default_term 28 ''culture'' [''culture'', ''study'', ''heritage'', ''civilisation'', ''museum'', ''practice''],
        default_term 28 ''food'' [''food'', ''snack'', ''street'', ''taste'', ''heritage''],
        default_term 28 ''photography'' [''travel photo'', ''picture'', ''photography'', ''sea breeze'', ''snow mountain'', ''old town''],
        default_term 28 ''graduation'' [''graduation'', ''team'', ''youth'', ''holiday'', ''classmate''],
        default_term 28 ''family'' [''parent'', ''family'', ''child'', ''study'']],
     ms_weights = [
        (''destination_miss_penalty'', -18), (''theme_miss_penalty'', -6), (''day_match'', 20),
        (''day_near'', 8), (''day_miss_penalty'', -8), (''budget_good'', 18), (''budget_ok'', 13),
        (''budget_low'', 7), (''budget_over_near'', 3), (''budget_over_penalty'', -22),
        (''stock_available'', 8), (''stock_empty_penalty'', -24), (''display_weight_cap'', 6),
        (''min_score'', 42)]\<rparr>"

fun split_on :: "char \<Rightarrow> string \<Rightarrow> string list" where
  "split_on c [] = [[]]"
| "split_on c (x # xs) =
     (if x = c then [] # split_on c xs
      else case split_on c xs of [] \<Rightarrow> [[x]] | w # ws \<Rightarrow> (x # w) # ws)"

definition keyword_values :: "json \<Rightarrow> json list result" where
  "keyword_values v =
    (case json_or v (JList []) of
       JStr s \<Rightarrow> Inr (map (JStr \<circ> strip) (split_on CHR '','' s))
     | JList xs \<Rightarrow> Inr xs
     | JObj kvs \<Rightarrow> Inr (map (JStr \<circ> fst) kvs)
     | _ \<Rightarrow> Inl (TypeError ''not iterable''))"

text \<open>One turn of the loop of \<open>_normalize_terms\<close>: \<open>Inr None\<close> is \<open>continue\<close>.\<close>

definition normalize_term :: "json \<Rightarrow> term_row option result" where
  "normalize_term item =
    (case item of
       JObj kvs \<Rightarrow>
         (let label = strip (str_json (json_or (jget item ''label'') (JStr []))) in
          if label = [] then Inr None
          else case keyword_values (jget item ''keywords'') of
            Inl e \<Rightarrow> Inl e
          | Inr ks \<Rightarrow>
              (case json_int (json_or (jget item ''weight'') (JInt 0)) of
                 None \<Rightarrow> Inl (ValueError ''int'')
               | Some w \<Rightarrow>
                   Inr (Some
                     \<lparr>mt_label = take 30 label,
                      mt_keywords = take 30 (map (take 30)
                        (filter (\<lambda>k. k \<noteq> []) (map (\<lambda>k. strip (str_json k)) ks))),
                      mt_weight = clamp 0 100 w,
                      mt_enabled = (jget item ''enabled'' \<noteq> JBool False)\<rparr>)))
     | _ \<Rightarrow> Inr None)"

fun normalize_rows :: "json list \<Rightarrow> term_row list result" where
  "normalize_rows [] = Inr []"
| "normalize_rows (x # xs) =
     (case normalize_term x of
        Inl e \<Rightarrow> Inl e
      | Inr None \<Rightarrow> normalize_rows xs
      | Inr (Some t) \<Rightarrow> map_sum id (Cons t) (normalize_rows xs))"

definition normalize_terms :: "json \<Rightarrow> term_row list \<Rightarrow> term_row list result" where
  "normalize_terms v fallback =
    map_sum id (\<lambda>ts. if ts = [] then fallback else ts)
      (normalize_rows (case v of JList xs \<Rightarrow> xs | _ \<Rightarrow> []))"

definition normalize_weights :: "json \<Rightarrow> (string \<times> int) list" where
  "normalize_weights v =
    map (\<lambda>(k, dflt). (k, case v of
        JObj kvs \<Rightarrow> (case json_int (jget_or kvs k (JInt dflt)) of Some n \<Rightarrow> n | None \<Rightarrow> dflt)
      | _ \<Rightarrow> dflt)) (ms_weights default_match_settings)"

definition normalize_match_settings :: "json \<Rightarrow> match_settings result" where
  "normalize_match_settings value =
    (let raw = (case value of JObj kvs \<Rightarrow> value | _ \<Rightarrow> JObj []) in
     case normalize_terms (jget raw ''destinations'') (ms_destinations default_match_settings) of
       Inl e \<Rightarrow> Inl e
     | Inr ds \<Rightarrow>
         (case normalize_terms (jget raw ''themes'') (ms_themes default_match_settings) of
            Inl e \<Rightarrow> Inl e
          | Inr ts \<Rightarrow> Inr \<lparr>ms_destinations = ds, ms_themes = ts,
                          ms_weights = normalize_weights (jget raw ''weights'')\<rparr>))"

definition term_json :: "term_row \<Rightarrow> json" where
  "term_json t = JObj
    [(''label'', JStr (mt_label t)), (''keywords'', JList (map JStr (mt_keywords t))),
     (''weight'', JInt (mt_weight t)), (''enabled'', JBool (mt_enabled t))]"

definition match_json :: "match_settings \<Rightarrow> json" where
  "match_json m = JObj
    [(''destinations'', JList (map term_json (ms_destinations m))),
     (''themes'', JList (map term_json (ms_themes m))),
     (''weights'', JObj (map (\<lambda>(k, n). (k, JInt n)) (ms_weights m)))]"

definition get_travel_match_settings :: "db \<Rightarrow> match_settings result" where
  "get_travel_match_settings d =
    normalize_match_settings (case setting_value match_key d of Some v \<Rightarrow> v | None \<Rightarrow> JNull)"

definition save_travel_match_settings :: "db \<Rightarrow> json \<Rightarrow> (match_settings \<times> db) result" where
  "save_travel_match_settings d v =
    map_sum id (\<lambda>m. (m, save_setting match_key (match_json m) ''travel match settings'' d))
      (normalize_match_settings v)"

end
