(* ===== verification/Vip.thy ===== *)
theory Vip
  imports Points Settings
begin

text \<open>
  \<open>app/core/vip.py\<close>: membership plans as a settings row holds them, their
  normalisation on every read and write, and the membership test. The default plans keep
  their numbers; their display texts are replaced by short ASCII ones. A type error that
  the code does not catch is an \<open>Inl\<close> result.
\<close>

record plan =
  vp_id :: int
  vp_name :: string
  vp_vip_type :: string
  vp_price :: cents
  vp_duration_days :: int
  vp_note :: string
  vp_badge :: string
  vp_benefits :: "string list"
  vp_enabled :: bool
  vp_sort_order :: int

definition default_benefits :: "string list" where
  "default_benefits = [''all features'', ''vip badge'', ''member benefits'']"

definition default_plans :: "plan list" where
  "default_plans =
    [\<lparr>vp_id = 1, vp_name = ''weekly'', vp_vip_type = ''weekly VIP'', vp_price = 900,
      vp_duration_days = 7, vp_note = ''short trial'', vp_badge = ''trial'',
      vp_benefits = default_benefits, vp_enabled = True, vp_sort_order = 10\<rparr>,
     \<lparr>vp_id = 2, vp_name = ''monthly'', vp_vip_type = ''monthly VIP'', vp_price = 1200,
      vp_duration_days = 30, vp_note = ''0.4 a day'', vp_badge = ''popular'',
      vp_benefits = default_benefits, vp_enabled = True, vp_sort_order = 20\<rparr>,
     \<lparr>vp_id = 3, vp_name = ''yearly'', vp_vip_type = ''yearly VIP'', vp_price = 8800,
      vp_duration_days = 365, vp_note = ''best value'', vp_badge = ''saver'',
      vp_benefits = default_benefits, vp_enabled = True, vp_sort_order = 30\<rparr>]"

definition is_vip_active :: "user_account \<Rightarrow> time \<Rightarrow> bool" where
  "is_vip_active u now =
    (if \<not> ua_vip_enabled u then False
     else case ua_vip_expires_at u of None \<Rightarrow> True | Some t \<Rightarrow> now < t)"

text \<open>
  \<open>_price\<close>, in cents. A text that \<open>Decimal\<close> reads as a quiet NaN survives \<open>quantize\<close>, and the
  comparison in \<open>min\<close> then raises \<open>InvalidOperation\<close> outside the \<open>try\<close>; a signalling NaN and an
  infinity are refused by \<open>quantize\<close> like any other text that is no number.
\<close>

definition nan_price :: "json \<Rightarrow> bool" where
  "nan_price v =
    (case v of
       JStr s \<Rightarrow>
         (let t = to_lower (strip s);
              body = (case t of c # cs \<Rightarrow> if c = CHR ''-'' \<or> c = CHR ''+'' then cs else t | [] \<Rightarrow> [])
          in take 3 body = ''nan'' \<and> list_all (\<lambda>c. digit_val c \<noteq> None) (drop 3 body))
     | _ \<Rightarrow> False)"

definition plan_price :: "json \<Rightarrow> cents \<Rightarrow> cents" where
  "plan_price v fallback =
    (let price = (case Option.bind (json_decimal v) quantize_cents of Some p \<Rightarrow> p | None \<Rightarrow> fallback)
     in clamp 1 9999999 price)"

text \<open>
  The list the benefits loop runs over: a text is cut into lines, a list gives its
  elements, an object its keys; a true value of another type cannot be iterated.
\<close>

definition benefit_values :: "json \<Rightarrow> string list option \<Rightarrow> json list result" where
  "benefit_values v fallback =
    (let v' = (case v of JStr s \<Rightarrow> JList (map JStr (splitlines s)) | _ \<Rightarrow> v) in
     if truthy v' then
       (case v' of
          JList xs \<Rightarrow> Inr xs
        | JObj kvs \<Rightarrow> Inr (map (JStr \<circ> fst) kvs)
        | _ \<Rightarrow> Inl (TypeError ''not iterable''))
     else case fallback of
       Some (b # bs) \<Rightarrow> Inr (map JStr (b # bs))
     | _ \<Rightarrow> Inr (map JStr default_benefits))"

definition clean_benefits :: "json list \<Rightarrow> string list" where
  "clean_benefits xs =
    (let bs = take 12 (filter (\<lambda>b. b \<noteq> []) (map (\<lambda>x. text_limit x 100) xs))
     in if bs = [] then default_benefits else bs)"

text \<open>The \<open>or\<close> chains over the item and the default plan with its id.\<close>

definition text_or :: "json \<Rightarrow> string option \<Rightarrow> json" where
  "text_or v fallback = json_or v (case fallback of Some t \<Rightarrow> JStr t | None \<Rightarrow> JNull)"

definition number_or :: "json \<Rightarrow> int option \<Rightarrow> int \<Rightarrow> json" where
  "number_or v fallback dflt =
    json_or v (json_or (case fallback of Some n \<Rightarrow> JInt n | None \<Rightarrow> JNull) (JInt dflt))"

text \<open>The texts of an item, and its days and position: one bad number gives both defaults.\<close>

definition plan_name :: "json \<Rightarrow> plan option \<Rightarrow> string" where
  "plan_name item fallback = text_limit (text_or (jget item ''name'') (map_option vp_name fallback)) 40"

definition plan_type :: "json \<Rightarrow> plan option \<Rightarrow> string \<Rightarrow> string" where
  "plan_type item fallback name =
    text_limit (json_or (jget item ''vip_type'')
      (text_or (case fallback of Some p \<Rightarrow> JStr (vp_vip_type p) | None \<Rightarrow> JNull) (Some name))) 30"

definition plan_numbers :: "json \<Rightarrow> plan option \<Rightarrow> int \<Rightarrow> int \<times> int" where
  "plan_numbers item fallback index =
    (case (json_int (number_or (jget item ''duration_days'') (map_option vp_duration_days fallback) 30),
           json_int (number_or (jget item ''sort_order'') (map_option vp_sort_order fallback) ((index + 1) * 10))) of
       (Some a, Some b) \<Rightarrow> (clamp 1 3650 a, clamp 0 9999 b)
     | _ \<Rightarrow> (case fallback of Some p \<Rightarrow> vp_duration_days p | None \<Rightarrow> 30,
            case fallback of Some p \<Rightarrow> vp_sort_order p | None \<Rightarrow> (index + 1) * 10))"

definition plan_of_item :: "json \<Rightarrow> plan option \<Rightarrow> int \<Rightarrow> int \<Rightarrow> json list \<Rightarrow> plan" where
  "plan_of_item item fallback index pid bs =
    \<lparr>vp_id = pid, vp_name = plan_name item fallback,
     vp_vip_type = plan_type item fallback (plan_name item fallback),
     vp_price = plan_price (jget item ''price'') (case fallback of Some p \<Rightarrow> vp_price p | None \<Rightarrow> 100),
     vp_duration_days = fst (plan_numbers item fallback index),
     vp_note = text_limit (text_or (jget item ''note'') (map_option vp_note fallback)) 100,
     vp_badge = text_limit (text_or (jget item ''badge'') (map_option vp_badge fallback)) 16,
     vp_benefits = clean_benefits bs, vp_enabled = (jget item ''enabled'' \<noteq> JBool False),
     vp_sort_order = snd (plan_numbers item fallback index)\<rparr>"

text \<open>One turn of the loop: \<open>Inr None\<close> is \<open>continue\<close>.\<close>

definition normalize_plan :: "int set \<Rightarrow> int \<Rightarrow> json \<Rightarrow> plan option result" where
  "normalize_plan used index item =
    (case item of
       JObj kvs \<Rightarrow>
         (case json_int (json_or (jget item ''id'') (JInt (index + 1))) of
            None \<Rightarrow> Inr None
          | Some pid \<Rightarrow>
              if pid \<le> 0 \<or> pid \<in> used then Inr None
              else
                (let fallback = find_by vp_id pid default_plans; name = plan_name item fallback in
                 if name = [] \<or> plan_type item fallback name = [] then Inr None
                 else (case benefit_values (jget item ''benefits'') (map_option vp_benefits fallback) of
                     Inl e \<Rightarrow> Inl e
                   | Inr bs \<Rightarrow>
                       if nan_price (jget item ''price'') then Inl (RuntimeError ''InvalidOperation'')
                       else Inr (Some (plan_of_item item fallback index pid bs)))))
     | _ \<Rightarrow> Inr None)"

fun normalize_loop :: "int set \<Rightarrow> int \<Rightarrow> json list \<Rightarrow> plan list result" where
  "normalize_loop used index [] = Inr []"
| "normalize_loop used index (item # rows) =
     (case normalize_plan used index item of
        Inl e \<Rightarrow> Inl e
      | Inr None \<Rightarrow> normalize_loop used (index + 1) rows
      | Inr (Some p) \<Rightarrow> map_sum id (Cons p) (normalize_loop (insert (vp_id p) used) (index + 1) rows))"

definition plan_json :: "plan \<Rightarrow> json" where
  "plan_json p = JObj
    [(''id'', JInt (vp_id p)), (''name'', JStr (vp_name p)), (''vip_type'', JStr (vp_vip_type p)),
     (''price'', JDec (vp_price p) 2), (''duration_days'', JInt (vp_duration_days p)),
     (''note'', JStr (vp_note p)), (''badge'', JStr (vp_badge p)),
     (''benefits'', JList (map JStr (vp_benefits p))), (''enabled'', JBool (vp_enabled p)),
     (''sort_order'', JInt (vp_sort_order p))]"

definition plan_order :: "plan \<Rightarrow> int \<times> int" where
  "plan_order p = (vp_sort_order p, vp_id p)"

definition normalize_vip_plans :: "json \<Rightarrow> plan list result" where
  "normalize_vip_plans value =
    (let raw = (case value of JObj kvs \<Rightarrow> jget value ''plans'' | _ \<Rightarrow> value);
         rows = (case raw of JList xs \<Rightarrow> xs | _ \<Rightarrow> map plan_json default_plans)
     in map_sum id (\<lambda>ps. sort_key plan_order (if ps = [] then default_plans else ps))
          (normalize_loop {} 0 rows))"

definition vip_key :: string where "vip_key = ''vip.plans''"

definition get_vip_plans :: "db \<Rightarrow> bool \<Rightarrow> plan list result" where
  "get_vip_plans d include_disabled =
    map_sum id (\<lambda>ps. if include_disabled then ps else filter vp_enabled ps)
      (normalize_vip_plans (case find_by ss_key vip_key (settings_rows d) of
          Some row \<Rightarrow> ss_value row | None \<Rightarrow> JNull))"

definition get_vip_plan :: "db \<Rightarrow> int \<Rightarrow> bool \<Rightarrow> plan option result" where
  "get_vip_plan d pid include_disabled =
    map_sum id (find_by vp_id pid) (get_vip_plans d include_disabled)"

definition plans_payload :: "plan list \<Rightarrow> json" where
  "plans_payload ps = JObj [(''plans'', JList (map plan_json ps))]"

definition save_vip_plans :: "db \<Rightarrow> json \<Rightarrow> (plan list \<times> db) result" where
  "save_vip_plans d value =
    map_sum id (\<lambda>ps. (ps, save_setting vip_key (plans_payload ps) ''vip plans'' d))
      (normalize_vip_plans value)"

end
