(* ===== verification/Cache.thy ===== *)
theory Cache
  imports Py_Text
begin

text \<open>
  \<open>app/core/cache.py\<close>: the in-process substitute \<open>_MemoryRedis\<close> with its pipeline, the
  swallowing helpers \<open>cache_get_json\<close> / \<open>cache_set_json\<close> / \<open>cache_delete\<close>, and the
  wrapper \<open>RedisClient\<close> that the order flow uses. A stored value is the text the code
  writes: \<open>SInt n\<close> is \<open>str(n)\<close>, \<open>SJson j\<close> is \<open>json.dumps(j)\<close>, \<open>SStr s\<close> any other text.
  The list \<open>faults\<close> says for each coming command whether the connection fails; the
  empty list is a healthy connection.
\<close>

datatype stored = SInt int | SStr string | SJson json

type_synonym store = "string \<Rightarrow> (stored \<times> time option) option"

section \<open>The memory client\<close>

definition expired :: "time option \<Rightarrow> time \<Rightarrow> bool" where
  "expired e now = (case e of None \<Rightarrow> False | Some t \<Rightarrow> t \<le> now)"

definition purge :: "time \<Rightarrow> string \<Rightarrow> store \<Rightarrow> store" where
  "purge now key st =
    (case st key of
       Some (v, e) \<Rightarrow> if expired e now then st(key := None) else st
     | None \<Rightarrow> st)"

definition mem_get :: "time \<Rightarrow> string \<Rightarrow> store \<Rightarrow> stored option \<times> store" where
  "mem_get now key st =
    (let st' = purge now key st in (map_option fst (st' key), st'))"

definition mem_set ::
  "time \<Rightarrow> string \<Rightarrow> stored \<Rightarrow> int option \<Rightarrow> bool \<Rightarrow> store \<Rightarrow> bool \<times> store" where
  "mem_set now key v ex nx st =
    (let st' = purge now key st in
     if nx \<and> st' key \<noteq> None then (False, st')
     else
       (let expires_at = (case ex of None \<Rightarrow> None
                          | Some n \<Rightarrow> if n = 0 then None else Some (now + seconds n))
        in (True, st'(key \<mapsto> (v, expires_at)))))"

fun mem_delete :: "string list \<Rightarrow> store \<Rightarrow> int \<times> store" where
  "mem_delete [] st = (0, st)"
| "mem_delete (key # keys) st =
     (if st key \<noteq> None
      then (let (n, st') = mem_delete keys (st(key := None)) in (n + 1, st'))
      else mem_delete keys st)"

definition mem_ttl :: "time \<Rightarrow> string \<Rightarrow> store \<Rightarrow> int \<times> store" where
  "mem_ttl now key st =
    (let st' = purge now key st in
     case st' key of
       None \<Rightarrow> (-2, st')
     | Some (v, None) \<Rightarrow> (-1, st')
     | Some (v, Some t) \<Rightarrow> (max 0 ((t - now) div 1000000), st'))"

definition mem_expire :: "time \<Rightarrow> string \<Rightarrow> int \<Rightarrow> store \<Rightarrow> bool \<times> store" where
  "mem_expire now key n st =
    (let st' = purge now key st in
     case st' key of
       None \<Rightarrow> (False, st')
     | Some (v, e) \<Rightarrow> (True, st'(key \<mapsto> (v, Some (now + seconds n)))))"

text \<open>\<open>int(value or 0)\<close> on the text of a stored value.\<close>

fun stored_int :: "stored option \<Rightarrow> int result" where
  "stored_int None = Inr 0"
| "stored_int (Some (SInt n)) = Inr n"
| "stored_int (Some (SJson (JInt n))) = Inr n"
| "stored_int (Some (SJson j)) = Inl (ValueError ''int'')"
| "stored_int (Some (SStr s)) =
     (if s = [] then Inr 0
      else case int_of s of Some n \<Rightarrow> Inr n | None \<Rightarrow> Inl (ValueError ''int''))"

definition mem_incrby :: "time \<Rightarrow> string \<Rightarrow> int \<Rightarrow> store \<Rightarrow> int result \<times> store" where
  "mem_incrby now key amount st =
    (case mem_get now key st of
       (v, st1) \<Rightarrow>
         (case stored_int v of
            Inl e \<Rightarrow> (Inl e, st1)
          | Inr n \<Rightarrow>
              (case mem_set now key (SInt (n + amount)) None False st1 of
                 (_, st2) \<Rightarrow> (Inr (n + amount), st2))))"

definition mem_decrby :: "time \<Rightarrow> string \<Rightarrow> int \<Rightarrow> store \<Rightarrow> int result \<times> store" where
  "mem_decrby now key amount st = mem_incrby now key (- amount) st"

datatype pipeline_op = PIncr string | PExpire string int

fun pipeline_execute :: "time \<Rightarrow> pipeline_op list \<Rightarrow> store \<Rightarrow> int list result \<times> store" where
  "pipeline_execute now [] st = (Inr [], st)"
| "pipeline_execute now (PIncr key # ops) st =
     (case mem_incrby now key 1 st of
        (Inl e, st1) \<Rightarrow> (Inl e, st1)
      | (Inr n, st1) \<Rightarrow>
          (case pipeline_execute now ops st1 of
             (Inl e, st2) \<Rightarrow> (Inl e, st2)
           | (Inr ns, st2) \<Rightarrow> (Inr (n # ns), st2)))"
| "pipeline_execute now (PExpire key n # ops) st =
     (case mem_expire now key n st of
        (b, st1) \<Rightarrow>
          (case pipeline_execute now ops st1 of
             (Inl e, st2) \<Rightarrow> (Inl e, st2)
           | (Inr ns, st2) \<Rightarrow> (Inr ((if b then 1 else 0) # ns), st2)))"

section \<open>The store as a map with expiry\<close>

text \<open>The abstraction: what a read at time \<open>now\<close> can still see.\<close>

definition view :: "time \<Rightarrow> store \<Rightarrow> string \<Rightarrow> (stored \<times> time option) option" where
  "view now st key =
    (case st key of
       Some (v, e) \<Rightarrow> if expired e now then None else Some (v, e)
     | None \<Rightarrow> None)"

lemma purge_key [simp]: "purge now key st key = view now st key"
  by (auto simp: purge_def view_def split: option.splits)

lemma purge_other: "k \<noteq> key \<Longrightarrow> purge now key st k = st k"
  by (auto simp: purge_def split: option.splits)

lemma view_purge [simp]: "view now (purge now key st) = view now st"
  by (rule ext) (auto simp: purge_def view_def split: option.splits)

lemma mem_get_view: "fst (mem_get now key st) = map_option fst (view now st key)"
  by (simp add: mem_get_def)

lemma view_mem_get [simp]: "view now (snd (mem_get now key st)) = view now st"
  by (simp add: mem_get_def)

lemma expired_mono: "expired e t \<Longrightarrow> t \<le> t' \<Longrightarrow> expired e t'"
  by (auto simp: expired_def split: option.splits)

lemma view_None_mono: "view t st key = None \<Longrightarrow> t \<le> t' \<Longrightarrow> view t' st key = None"
  by (auto simp: view_def split: option.splits if_splits dest: expired_mono)

lemma view_Some_later:
  "view t st key = Some (v, e) \<Longrightarrow> t \<le> t' \<Longrightarrow>
   view t' st key = (if expired e t' then None else Some (v, e))"
  by (auto simp: view_def split: option.splits if_splits)

lemma view_upd:
  "view now (st(key := x)) k = (if k = key then view now (\<lambda>_. x) key else view now st k)"
  by (simp add: view_def)

text \<open>Reads and writes the clients build on, as an interface with its laws.\<close>

definition put :: "string \<Rightarrow> stored \<Rightarrow> time option \<Rightarrow> store \<Rightarrow> store" where
  "put key v e st = st(key \<mapsto> (v, e))"

definition drop_key :: "string \<Rightarrow> store \<Rightarrow> store" where
  "drop_key key st = st(key := None)"

locale ttl_store =
  fixes look :: "time \<Rightarrow> 's \<Rightarrow> string \<Rightarrow> ('v \<times> time option) option"
    and assign :: "string \<Rightarrow> 'v \<Rightarrow> time option \<Rightarrow> 's \<Rightarrow> 's"
    and remove :: "string \<Rightarrow> 's \<Rightarrow> 's"
  assumes look_write: "look now (assign k v e s) k' =
      (if k' = k then (if expired e now then None else Some (v, e)) else look now s k')"
    and look_remove: "look now (remove k s) k' = (if k' = k then None else look now s k')"
    and look_later: "look t s k = Some (v, e) \<Longrightarrow> t \<le> t' \<Longrightarrow>
      look t' s k = (if expired e t' then None else Some (v, e))"
    and look_gone: "look t s k = None \<Longrightarrow> t \<le> t' \<Longrightarrow> look t' s k = None"
begin

text \<open>A value written with an expiry is seen until it, and not from it on.\<close>

lemma write_lives: "t' < x \<Longrightarrow> look t' (assign k v (Some x) s) k = Some (v, Some x)"
  by (simp add: look_write expired_def)

lemma write_dies: "x \<le> t' \<Longrightarrow> look t' (assign k v (Some x) s) k = None"
  by (simp add: look_write expired_def)

text \<open>A removed key stays gone, whatever is written under other keys.\<close>

lemma remove_stays: "look t' (fold (\<lambda>(k', v, e). assign k' v e) ws (remove k s)) k = None"
  if "\<forall>(k', v, e) \<in> set ws. k' \<noteq> k"
proof -
  have "look t' s' k = None \<Longrightarrow> look t' (fold (\<lambda>(k', v, e). assign k' v e) ws s') k = None" for s'
    using that by (induction ws arbitrary: s') (auto simp: look_write)
  then show ?thesis by (simp add: look_remove)
qed

end

interpretation mem: ttl_store view put drop_key
proof
  show "view now (put k v e s) k' =
      (if k' = k then (if expired e now then None else Some (v, e)) else view now s k')"
    for now k v e s k'
    by (simp add: put_def view_def)
  show "view now (drop_key k s) k' = (if k' = k then None else view now s k')" for now k s k'
    by (simp add: drop_key_def view_def)
  show "view t s k = Some (v, e) \<Longrightarrow> t \<le> t' \<Longrightarrow>
      view t' s k = (if expired e t' then None else Some (v, e))" for t s k v e t'
    by (rule view_Some_later)
  show "view t s k = None \<Longrightarrow> t \<le> t' \<Longrightarrow> view t' s k = None" for t s k t'
    by (rule view_None_mono)
qed

lemma purge_idem [simp]: "purge now key (purge now key st) = purge now key st"
  by (auto simp: purge_def split: option.splits if_splits)

lemma mem_set_view:
  "view t (snd (mem_set now key v ex nx st)) k =
    (if nx \<and> view now st key \<noteq> None then view t (purge now key st) k
     else view t (put key v (case ex of None \<Rightarrow> None | Some n \<Rightarrow>
            if n = 0 then None else Some (now + seconds n)) (purge now key st)) k)"
  by (cases "view now st key") (simp_all add: mem_set_def put_def Let_def)

lemma mem_set_created: "fst (mem_set now key v ex nx st) = (\<not> nx \<or> view now st key = None)"
  by (cases "view now st key") (simp_all add: mem_set_def Let_def)

lemma mem_delete_Cons: "snd (mem_delete (key # keys) st) = snd (mem_delete keys (st(key := None)))"
proof (cases "st key = None")
  case True
  then have "st(key := None) = st" by auto
  with True show ?thesis by simp
qed (simp split: prod.splits)

lemma mem_delete_store: "snd (mem_delete keys st) = (\<lambda>k. if k \<in> set keys then None else st k)"
proof (induction keys arbitrary: st)
  case (Cons key keys)
  then show ?case by (auto simp: mem_delete_Cons fun_eq_iff simp del: mem_delete.simps)
qed simp

lemma mem_incrby_value:
  assumes "stored_int (map_option fst (view now st key)) = Inr n"
  shows "fst (mem_incrby now key a st) = Inr (n + a) \<and>
    snd (mem_incrby now key a st) = put key (SInt (n + a)) None (purge now key st)"
  using assms
  by (auto simp: mem_incrby_def mem_get_def mem_set_def put_def Let_def split: prod.splits)

section \<open>The wrapper of the order flow\<close>

record redis =
  enabled :: bool
  rstore :: store
  faults :: "bool list"

text \<open>\<open>await self.raw.command(...)\<close>: raises when disabled or when the connection fails.\<close>

definition raw_call :: "(store \<Rightarrow> 'a result \<times> store) \<Rightarrow> redis \<Rightarrow> 'a result \<times> redis" where
  "raw_call f r =
    (if \<not> enabled r then (Inl RedisUnavailableError, r)
     else if faults r \<noteq> [] \<and> hd (faults r) then
       (Inl RedisConnectionError, r\<lparr>faults := tl (faults r)\<rparr>)
     else (case f (rstore r) of (x, st) \<Rightarrow> (x, r\<lparr>rstore := st, faults := tl (faults r)\<rparr>)))"

definition redis_setnx :: "time \<Rightarrow> string \<Rightarrow> string \<Rightarrow> int \<Rightarrow> redis \<Rightarrow> bool result \<times> redis" where
  "redis_setnx now key v ttl r =
    (case raw_call (\<lambda>st. case mem_set now key (SStr v) (Some ttl) True st of (b, st') \<Rightarrow> (Inr b, st')) r of
       (Inl e, r') \<Rightarrow> (Inl RedisUnavailableError, r')
     | (Inr b, r') \<Rightarrow> (Inr b, r'))"

definition redis_set_json :: "time \<Rightarrow> string \<Rightarrow> json \<Rightarrow> int \<Rightarrow> redis \<Rightarrow> unit result \<times> redis" where
  "redis_set_json now key j ttl r =
    raw_call (\<lambda>st. case mem_set now key (SJson j) (Some ttl) False st of (_, st') \<Rightarrow> (Inr (), st')) r"

text \<open>\<open>json.loads(value) if value else None\<close>.\<close>

fun loads_or_none :: "stored option \<Rightarrow> json option result" where
  "loads_or_none None = Inr None"
| "loads_or_none (Some (SJson j)) = Inr (Some j)"
| "loads_or_none (Some (SInt n)) = Inr (Some (JInt n))"
| "loads_or_none (Some (SStr s)) = (if s = [] then Inr None else Inl (ValueError ''json''))"

definition redis_get_json :: "time \<Rightarrow> string \<Rightarrow> redis \<Rightarrow> json option result \<times> redis" where
  "redis_get_json now key r =
    raw_call (\<lambda>st. case mem_get now key st of (v, st') \<Rightarrow> (loads_or_none v, st')) r"

definition redis_delete :: "string list \<Rightarrow> redis \<Rightarrow> unit result \<times> redis" where
  "redis_delete keys r =
    (if keys = [] then (Inr (), r)
     else raw_call (\<lambda>st. case mem_delete keys st of (_, st') \<Rightarrow> (Inr (), st')) r)"

definition stock_key :: "int \<Rightarrow> string" where
  "stock_key pid = ''stock:study_product:'' @ str_int pid"

definition set_stock_if_absent :: "time \<Rightarrow> int \<Rightarrow> int \<Rightarrow> redis \<Rightarrow> unit result \<times> redis" where
  "set_stock_if_absent now pid n r =
    raw_call (\<lambda>st. case mem_set now (stock_key pid) (SInt n) None True st of (_, st') \<Rightarrow> (Inr (), st')) r"

text \<open>\<open>raw.set(..., xx=True)\<close>: the memory client has no parameter \<open>xx\<close>.\<close>

definition sync_stock :: "time \<Rightarrow> int \<Rightarrow> int \<Rightarrow> redis \<Rightarrow> unit result \<times> redis" where
  "sync_stock now pid n r = raw_call (\<lambda>st. (Inl (TypeError ''xx''), st)) r"

definition get_stock :: "time \<Rightarrow> int \<Rightarrow> redis \<Rightarrow> int option result \<times> redis" where
  "get_stock now pid r =
    raw_call (\<lambda>st. case mem_get now (stock_key pid) st of
        (None, st') \<Rightarrow> (Inr None, st')
      | (Some v, st') \<Rightarrow> (map_sum id Some (stored_int (Some v)), st')) r"

definition decr_stock :: "time \<Rightarrow> int \<Rightarrow> int \<Rightarrow> redis \<Rightarrow> int result \<times> redis" where
  "decr_stock now pid q r = raw_call (mem_decrby now (stock_key pid) q) r"

definition incr_stock :: "time \<Rightarrow> int \<Rightarrow> int \<Rightarrow> redis \<Rightarrow> int result \<times> redis" where
  "incr_stock now pid q r = raw_call (mem_incrby now (stock_key pid) q) r"

section \<open>The swallowing helpers\<close>

text \<open>Every exception, a disabled client included, is a cache miss or a lost write.\<close>

definition cache_get_json :: "time \<Rightarrow> string \<Rightarrow> redis \<Rightarrow> json option \<times> redis" where
  "cache_get_json now key r =
    (if \<not> enabled r then (None, r)
     else case redis_get_json now key r of (Inl e, r') \<Rightarrow> (None, r') | (Inr v, r') \<Rightarrow> (v, r'))"

definition cache_set_json :: "time \<Rightarrow> string \<Rightarrow> json \<Rightarrow> int \<Rightarrow> redis \<Rightarrow> redis" where
  "cache_set_json now key j ttl r =
    (if \<not> enabled r then r else snd (redis_set_json now key j ttl r))"

definition cache_delete :: "string \<Rightarrow> redis \<Rightarrow> redis" where
  "cache_delete key r = (if \<not> enabled r then r else snd (redis_delete [key] r))"

section \<open>Lemmas on the wrapper\<close>

definition healthy :: "redis \<Rightarrow> bool" where
  "healthy r \<longleftrightarrow> enabled r \<and> faults r = []"

lemma stock_key_inj [simp]: "stock_key a = stock_key b \<longleftrightarrow> a = b"
  by (auto simp: stock_key_def dest: str_int_inj)

lemma raw_call_healthy:
  "healthy r \<Longrightarrow> raw_call f r = (case f (rstore r) of (x, st) \<Rightarrow> (x, r\<lparr>rstore := st\<rparr>))"
  by (cases r) (auto simp: raw_call_def healthy_def split: prod.splits)

lemma raw_call_disabled: "\<not> enabled r \<Longrightarrow> raw_call f r = (Inl RedisUnavailableError, r)"
  by (simp add: raw_call_def)

lemma healthy_rstore [simp]: "healthy (r\<lparr>rstore := st\<rparr>) = healthy r"
  by (simp add: healthy_def)

text \<open>The stock a product has in the cache: \<open>None\<close> when its key is absent.\<close>

definition stock_in :: "time \<Rightarrow> redis \<Rightarrow> int \<Rightarrow> int option" where
  "stock_in now r pid =
    (case view now (rstore r) (stock_key pid) of
       Some (SInt n, e) \<Rightarrow> Some n
     | _ \<Rightarrow> None)"

text \<open>Stock keys hold integers without expiry: nothing else is written under them.\<close>

definition stock_keys_ok :: "redis \<Rightarrow> bool" where
  "stock_keys_ok r \<longleftrightarrow> (\<forall>pid. case rstore r (stock_key pid) of
      None \<Rightarrow> True | Some (SInt n, None) \<Rightarrow> True | _ \<Rightarrow> False)"

lemma stock_ok_cases:
  assumes "stock_keys_ok r"
  obtains "rstore r (stock_key pid) = None" "stock_in now r pid = None"
  | n where "rstore r (stock_key pid) = Some (SInt n, None)" "stock_in now r pid = Some n"
proof -
  have "case rstore r (stock_key pid) of
      None \<Rightarrow> True | Some (SInt n, None) \<Rightarrow> True | _ \<Rightarrow> False"
    using assms by (simp add: stock_keys_ok_def)
  then show thesis
    using that by (auto simp: stock_in_def view_def expired_def split: option.splits stored.splits prod.splits)
qed

end
