(* ===== verification/Wechat.thy ===== *)
theory Wechat
  imports Entities Py_Decimal
begin

text \<open>
  \<open>app/services/wechat_pay_service.py\<close>: signing requests, checking the provider's
  signatures, and deciding whether a transaction or a refund the provider reports belongs
  to an order. The HTTP exchange, the RSA and AES primitives, the file system and the JSON
  parser are the fields of \<open>provider\<close>. A missing attribute (\<open>AttributeError\<close>) is
  \<open>RuntimeError ''AttributeError''\<close>. Responses carry their body as text and as the JSON
  value it parses to, if any.
\<close>

section \<open>Settings and the outside world\<close>

record wx_settings =
  wx_app_id :: string
  wx_mch_id :: string
  wx_api_v3_key :: string
  wx_notify_url :: string
  wx_serial_no :: string
  wx_private_key_path :: string
  wx_public_key_id :: string
  wx_public_key_path :: string
  wx_refund_notify_url :: string

type_synonym headers = "(string \<times> string) list"

record request =
  rq_method :: string
  rq_url :: string
  rq_body :: string
  rq_authorization :: string

record response =
  rs_status :: int
  rs_headers :: headers
  rs_text :: string
  rs_json :: "json option"

record 'k provider =
  pv_read_file :: "string \<Rightarrow> string option"
  pv_private_key :: "string \<Rightarrow> 'k option"
  pv_public_key :: "string \<Rightarrow> 'k option"
  pv_sign :: "'k \<Rightarrow> string \<Rightarrow> string"
  pv_verify :: "'k \<Rightarrow> string \<Rightarrow> string \<Rightarrow> bool"
  pv_b64encode :: "string \<Rightarrow> string"
  pv_b64decode :: "string \<Rightarrow> string option"
  pv_decrypt :: "string \<Rightarrow> string \<Rightarrow> string \<Rightarrow> string \<Rightarrow> string option"
  pv_loads :: "string \<Rightarrow> json option"
  pv_dumps :: "json \<Rightarrow> string"
  pv_quote :: "string \<Rightarrow> string"
  pv_send :: "request \<Rightarrow> response option"

definition is_wechat_pay_configured :: "wx_settings \<Rightarrow> bool" where
  "is_wechat_pay_configured w \<longleftrightarrow>
    (wx_app_id w \<noteq> [] \<and> wx_mch_id w \<noteq> [] \<and> wx_api_v3_key w \<noteq> [] \<and> wx_notify_url w \<noteq> []
      \<and> wx_serial_no w \<noteq> [] \<and> wx_private_key_path w \<noteq> [])
    \<and> (wx_public_key_id w \<noteq> [] \<and> wx_public_key_path w \<noteq> [])"

definition ensure_wechat_pay_configured :: "wx_settings \<Rightarrow> unit result" where
  "ensure_wechat_pay_configured w =
    (if is_wechat_pay_configured w then Inr () else Inl (BusinessError 503 ''WECHAT_PAY_NOT_CONFIGURED''))"

section \<open>Amounts\<close>

definition yuan_to_fen :: "decimal \<Rightarrow> int result" where
  "yuan_to_fen x =
    (case x of (c, e) \<Rightarrow>
       (let bad = Inl (BusinessError 400 ''INVALID_WECHAT_PAY_AMOUNT'');
            scaled = e + 2 in
        if 0 \<le> scaled then
          (let n = c * 10 ^ nat scaled in if n < 1 then bad else Inr n)
        else if c mod 10 ^ nat (- scaled) \<noteq> 0 then bad
        else (let n = c div 10 ^ nat (- scaled) in if n < 1 then bad else Inr n)))"

definition order_fen :: "commerce_order \<Rightarrow> int result" where
  "order_fen order = yuan_to_fen (co_payable_amount order, -2)"

section \<open>Signatures\<close>

definition newline :: string where "newline = [CHR 0x0A]"

definition read_required_file :: "'k provider \<Rightarrow> string \<Rightarrow> string result" where
  "read_required_file pv path =
    (case pv_read_file pv path of
       None \<Rightarrow> Inl (BusinessError 503 ''WECHAT_PAY_CERTIFICATE_ERROR'')
     | Some raw \<Rightarrow> Inr raw)"

definition merchant_private_key :: "'k provider \<Rightarrow> wx_settings \<Rightarrow> 'k result" where
  "merchant_private_key pv w =
    (case read_required_file pv (wx_private_key_path w) of
       Inl e \<Rightarrow> Inl e
     | Inr raw \<Rightarrow>
         (case pv_private_key pv raw of
            None \<Rightarrow> Inl (BusinessError 503 ''WECHAT_PAY_CERTIFICATE_ERROR'')
          | Some k \<Rightarrow> Inr k))"

definition notification_public_key :: "'k provider \<Rightarrow> wx_settings \<Rightarrow> string \<Rightarrow> 'k result" where
  "notification_public_key pv w serial =
    (if serial \<noteq> wx_public_key_id w then Inl (BusinessError 400 ''WECHAT_PAY_INVALID_SIGNATURE'')
     else case read_required_file pv (wx_public_key_path w) of
       Inl e \<Rightarrow> Inl e
     | Inr raw \<Rightarrow>
         (case pv_public_key pv raw of
            None \<Rightarrow> Inl (BusinessError 503 ''WECHAT_PAY_CERTIFICATE_ERROR'')
          | Some k \<Rightarrow> Inr k))"

definition rsa_sign :: "'k provider \<Rightarrow> wx_settings \<Rightarrow> string \<Rightarrow> string result" where
  "rsa_sign pv w message =
    map_sum id (\<lambda>k. pv_b64encode pv (pv_sign pv k message)) (merchant_private_key pv w)"

definition build_authorization ::
  "'k provider \<Rightarrow> wx_settings \<Rightarrow> string \<Rightarrow> string \<Rightarrow> string \<Rightarrow> string \<Rightarrow> string \<Rightarrow> string result" where
  "build_authorization pv w meth url body timestamp nonce =
    map_sum id (\<lambda>signature.
        ''WECHATPAY2-SHA256-RSA2048 '' @
        ''mchid='' @ [CHR 0x22] @ wx_mch_id w @ [CHR 0x22] @ '','' @
        ''nonce_str='' @ [CHR 0x22] @ nonce @ [CHR 0x22] @ '','' @
        ''timestamp='' @ [CHR 0x22] @ timestamp @ [CHR 0x22] @ '','' @
        ''serial_no='' @ [CHR 0x22] @ wx_serial_no w @ [CHR 0x22] @ '','' @
        ''signature='' @ [CHR 0x22] @ signature @ [CHR 0x22])
      (rsa_sign pv w (meth @ newline @ url @ newline @ timestamp @ newline @ nonce @ newline @ body @ newline))"

definition build_mini_program_payment_params ::
  "'k provider \<Rightarrow> wx_settings \<Rightarrow> int \<Rightarrow> string \<Rightarrow> string \<Rightarrow> (string \<times> string) list result" where
  "build_mini_program_payment_params pv w now_s nonce prepay_id =
    (let timestamp = str_int now_s; package = ''prepay_id='' @ prepay_id in
     map_sum id (\<lambda>sign. [(''timeStamp'', timestamp), (''nonceStr'', nonce), (''package'', package),
         (''signType'', ''RSA''), (''paySign'', sign)])
       (rsa_sign pv w (wx_app_id w @ newline @ timestamp @ newline @ nonce @ newline @ package @ newline)))"

text \<open>
  \<open>headers.get("Wechatpay-X") or headers.get("wechatpay-x")\<close>. \<open>now_s\<close> is the clock in
  seconds.
\<close>

definition header :: "headers \<Rightarrow> string \<Rightarrow> string \<Rightarrow> string" where
  "header hs a b = str_or (case map_of hs a of Some v \<Rightarrow> v | None \<Rightarrow> [])
     (case map_of hs b of Some v \<Rightarrow> v | None \<Rightarrow> [])"

definition verify_notification_signature ::
  "'k provider \<Rightarrow> wx_settings \<Rightarrow> headers \<Rightarrow> string \<Rightarrow> int \<Rightarrow> unit result" where
  "verify_notification_signature pv w hs body now_s =
    (let invalid = Inl (BusinessError 400 ''WECHAT_PAY_INVALID_SIGNATURE'') in
     case ensure_wechat_pay_configured w of
       Inl e \<Rightarrow> Inl e
     | Inr _ \<Rightarrow>
         (let timestamp = header hs ''Wechatpay-Timestamp'' ''wechatpay-timestamp'';
              nonce = header hs ''Wechatpay-Nonce'' ''wechatpay-nonce'';
              signature = header hs ''Wechatpay-Signature'' ''wechatpay-signature'';
              serial = header hs ''Wechatpay-Serial'' ''wechatpay-serial''
          in if timestamp = [] \<or> nonce = [] \<or> signature = [] \<or> serial = [] then invalid
             else case int_of timestamp of
               None \<Rightarrow> invalid
             | Some callback_time \<Rightarrow>
                 if 300 < \<bar>now_s - callback_time\<bar> then invalid
                 else case notification_public_key pv w serial of
                   Inl e \<Rightarrow> Inl e
                 | Inr k \<Rightarrow>
                     (case pv_b64decode pv signature of
                        None \<Rightarrow> invalid
                      | Some raw \<Rightarrow>
                          if pv_verify pv k raw (timestamp @ newline @ nonce @ newline @ body @ newline)
                          then Inr () else invalid)))"

section \<open>Requests to the provider\<close>

definition json_text :: "json \<Rightarrow> string" where
  "json_text v = str_json (json_or v (JStr []))"

definition request_json ::
  "'k provider \<Rightarrow> wx_settings \<Rightarrow> int \<Rightarrow> string \<Rightarrow> string \<Rightarrow> string \<Rightarrow> json option \<Rightarrow> int list \<Rightarrow> json result" where
  "request_json pv w now_s nonce meth url payload expected =
    (case ensure_wechat_pay_configured w of
       Inl e \<Rightarrow> Inl e
     | Inr _ \<Rightarrow>
         (let body = (case payload of None \<Rightarrow> [] | Some j \<Rightarrow> pv_dumps pv j) in
          case build_authorization pv w meth url body (str_int now_s) nonce of
            Inl e \<Rightarrow> Inl e
          | Inr auth \<Rightarrow>
              (case pv_send pv \<lparr>rq_method = meth, rq_url = ''https://api.mch.weixin.qq.com'' @ url,
                      rq_body = body, rq_authorization = auth\<rparr> of
                 None \<Rightarrow> Inl (BusinessError 502 ''WECHAT_PAY_UNAVAILABLE'')
               | Some rs \<Rightarrow>
                   (case verify_notification_signature pv w (rs_headers rs) (rs_text rs) now_s of
                      Inl e \<Rightarrow> Inl e
                    | Inr _ \<Rightarrow>
                        if rs_status rs \<notin> set expected then
                          (case rs_json rs of
                             Some (JObj kvs) \<Rightarrow> Inl (BusinessError 502 (''WECHAT_PAY_'' @
                               str_json (json_or (jget (JObj kvs) ''code'') (JStr ''REQUEST_FAILED''))))
                           | None \<Rightarrow> Inl (BusinessError 502 ''WECHAT_PAY_REQUEST_FAILED'')
                           | Some _ \<Rightarrow> Inl (RuntimeError ''AttributeError''))
                        else if rs_text rs = [] then Inr (JObj [])
                        else case rs_json rs of
                          Some j \<Rightarrow> Inr j
                        | None \<Rightarrow> Inl (BusinessError 502 ''WECHAT_PAY_INVALID_RESPONSE'')))))"

definition create_jsapi_payment ::
  "'k provider \<Rightarrow> wx_settings \<Rightarrow> int \<Rightarrow> string \<Rightarrow> string \<Rightarrow> commerce_order \<Rightarrow> string \<Rightarrow> string \<Rightarrow>
    (string \<times> string) list result" where
  "create_jsapi_payment pv w now_s nonce nonce2 order description openid =
    (case ensure_wechat_pay_configured w of
       Inl e \<Rightarrow> Inl e
     | Inr _ \<Rightarrow>
         if openid = [] then Inl (BusinessError 400 ''WECHAT_OPENID_REQUIRED'')
         else case order_fen order of
           Inl e \<Rightarrow> Inl e
         | Inr fen \<Rightarrow>
             (case request_json pv w now_s nonce ''POST'' ''/v3/pay/transactions/jsapi''
                     (Some (JObj
                       [(''appid'', JStr (wx_app_id w)), (''mchid'', JStr (wx_mch_id w)),
                        (''description'', JStr (str_or (take 127 (strip description)) ''learning service'')),
                        (''out_trade_no'', JStr (co_order_no order)), (''notify_url'', JStr (wx_notify_url w)),
                        (''amount'', JObj [(''total'', JInt fen), (''currency'', JStr ''CNY'')]),
                        (''payer'', JObj [(''openid'', JStr openid)])])) [200] of
                Inl e \<Rightarrow> Inl e
              | Inr (JObj kvs) \<Rightarrow>
                  (case map_of kvs ''prepay_id'' of
                     Some p \<Rightarrow> build_mini_program_payment_params pv w now_s nonce2 (str_json p)
                   | None \<Rightarrow> Inl (BusinessError 502 ''WECHAT_PAY_INVALID_RESPONSE''))
              | Inr _ \<Rightarrow> Inl (BusinessError 502 ''WECHAT_PAY_INVALID_RESPONSE'')))"

definition query_transaction ::
  "'k provider \<Rightarrow> wx_settings \<Rightarrow> int \<Rightarrow> string \<Rightarrow> string \<Rightarrow> json result" where
  "query_transaction pv w now_s nonce order_no =
    request_json pv w now_s nonce ''GET''
      (''/v3/pay/transactions/out-trade-no/'' @ pv_quote pv order_no @ ''?mchid='' @ pv_quote pv (wx_mch_id w))
      None [200]"

definition close_transaction ::
  "'k provider \<Rightarrow> wx_settings \<Rightarrow> int \<Rightarrow> string \<Rightarrow> string \<Rightarrow> unit result" where
  "close_transaction pv w now_s nonce order_no =
    map_sum id (\<lambda>_. ()) (request_json pv w now_s nonce ''POST''
      (''/v3/pay/transactions/out-trade-no/'' @ pv_quote pv order_no @ ''/close'')
      (Some (JObj [(''mchid'', JStr (wx_mch_id w))])) [204])"

definition create_refund ::
  "'k provider \<Rightarrow> wx_settings \<Rightarrow> int \<Rightarrow> string \<Rightarrow> commerce_order \<Rightarrow> string \<Rightarrow> string \<Rightarrow> json result" where
  "create_refund pv w now_s nonce order refund_no reason =
    (if wx_refund_notify_url w = [] then Inl (BusinessError 503 ''WECHAT_REFUND_NOT_CONFIGURED'')
     else case order_fen order of
       Inl e \<Rightarrow> Inl e
     | Inr fen \<Rightarrow>
         request_json pv w now_s nonce ''POST'' ''/v3/refund/domestic/refunds''
           (Some (JObj
             [(''out_trade_no'', JStr (co_order_no order)), (''out_refund_no'', JStr refund_no),
              (''reason'', JStr (str_or (take 80 (strip reason)) ''refund'')),
              (''notify_url'', JStr (wx_refund_notify_url w)),
              (''amount'', JObj [(''refund'', JInt fen), (''total'', JInt fen), (''currency'', JStr ''CNY'')])]))
           [200])"

definition query_refund ::
  "'k provider \<Rightarrow> wx_settings \<Rightarrow> int \<Rightarrow> string \<Rightarrow> string \<Rightarrow> json result" where
  "query_refund pv w now_s nonce refund_no =
    request_json pv w now_s nonce ''GET'' (''/v3/refund/domestic/refunds/'' @ pv_quote pv refund_no) None [200]"

section \<open>Whose payment, whose refund\<close>

text \<open>
  \<open>amount = report.get("amount") or \<lbrace>\<rbrace>\<close> and \<open>int(amount.get(field, -1))\<close>; an amount
  that is neither falsy nor an object has no \<open>get\<close>.
\<close>

definition amount_fields :: "json \<Rightarrow> (string \<times> json) list result" where
  "amount_fields report =
    (case json_or (jget report ''amount'') (JObj []) of
       JObj kvs \<Rightarrow> Inr kvs
     | _ \<Rightarrow> Inl (RuntimeError ''AttributeError''))"

definition validate_successful_transaction ::
  "wx_settings \<Rightarrow> commerce_order \<Rightarrow> json \<Rightarrow> string result" where
  "validate_successful_transaction w order t =
    (let mismatch = Inl (BusinessError 400 ''WECHAT_PAY_ORDER_MISMATCH'');
         amount_mismatch = Inl (BusinessError 400 ''WECHAT_PAY_AMOUNT_MISMATCH'') in
     if jget t ''trade_state'' \<noteq> JStr ''SUCCESS'' then Inl (BusinessError 409 ''WECHAT_PAY_NOT_SUCCESS'')
     else if jget t ''mchid'' \<noteq> JStr (wx_mch_id w) then mismatch
     else if jget t ''appid'' \<noteq> JStr (wx_app_id w) then mismatch
     else if json_text (jget t ''out_trade_no'') \<noteq> co_order_no order then mismatch
     else case amount_fields t of
       Inl e \<Rightarrow> Inl e
     | Inr amount \<Rightarrow>
         (case json_int (jget_or amount ''total'' (JInt (-1))) of
            None \<Rightarrow> amount_mismatch
          | Some paid_total \<Rightarrow>
              if jget_or amount ''currency'' (JStr ''CNY'') \<noteq> JStr ''CNY'' then amount_mismatch
              else case order_fen order of
                Inl e \<Rightarrow> Inl e
              | Inr fen \<Rightarrow>
                  if paid_total \<noteq> fen then amount_mismatch
                  else
                    (let transaction_id = json_text (jget t ''transaction_id'') in
                     if transaction_id = [] then mismatch else Inr transaction_id)))"

definition to_upper :: "string \<Rightarrow> string" where
  "to_upper s =
    map (\<lambda>c. let n = (of_char c :: nat) in if 97 \<le> n \<and> n \<le> 122 then char_of (n - 32) else c) s"

definition validate_refund_result ::
  "commerce_order \<Rightarrow> json \<Rightarrow> string \<Rightarrow> (string \<times> string) result" where
  "validate_refund_result order refund refund_no =
    (let mismatch = Inl (BusinessError 400 ''WECHAT_REFUND_ORDER_MISMATCH'');
         amount_mismatch = Inl (BusinessError 400 ''WECHAT_REFUND_AMOUNT_MISMATCH'') in
     if str_json (json_or (jget refund ''out_trade_no'') (JStr (co_order_no order))) \<noteq> co_order_no order then mismatch
     else if json_text (jget refund ''out_refund_no'') \<noteq> refund_no then mismatch
     else case amount_fields refund of
       Inl e \<Rightarrow> Inl e
     | Inr amount \<Rightarrow>
         (case json_int (jget_or amount ''refund'' (JInt (-1))) of
            None \<Rightarrow> amount_mismatch
          | Some refund_total \<Rightarrow>
              (case order_fen order of
                 Inl e \<Rightarrow> Inl e
               | Inr fen \<Rightarrow>
                   if refund_total \<noteq> fen then amount_mismatch
                   else Inr (to_upper (str_json (json_or (jget refund ''refund_status'')
                               (json_or (jget refund ''status'') (JStr ''PROCESSING'')))),
                             json_text (jget refund ''refund_id'')))))"

text \<open>
  \<open>decrypt_notification\<close>: a missing key, a value of the wrong type, bad base64, a failed
  authentication and bad JSON are one error; a nonce or associated data that is not text
  has no \<open>encode\<close>.
\<close>

definition decrypt_notification :: "'k provider \<Rightarrow> wx_settings \<Rightarrow> string \<Rightarrow> json result" where
  "decrypt_notification pv w body =
    (let failed = Inl (BusinessError 400 ''WECHAT_PAY_DECRYPT_FAILED'') in
     case pv_loads pv body of
       Some (JObj envelope) \<Rightarrow>
         (case map_of envelope ''resource'' of
            Some (JObj resource) \<Rightarrow>
              (case map_of resource ''ciphertext'' of
                 Some (JStr ct) \<Rightarrow>
                   (case (pv_b64decode pv ct, map_of resource ''nonce'') of
                      (Some raw, Some (JStr nonce)) \<Rightarrow>
                        (case json_or (jget (JObj resource) ''associated_data'') (JStr []) of
                           JStr aad \<Rightarrow>
                             (case pv_decrypt pv (wx_api_v3_key w) nonce raw aad of
                                None \<Rightarrow> failed
                              | Some plain \<Rightarrow> (case pv_loads pv plain of Some j \<Rightarrow> Inr j | None \<Rightarrow> failed))
                         | _ \<Rightarrow> Inl (RuntimeError ''AttributeError''))
                    | (Some raw, Some _) \<Rightarrow> Inl (RuntimeError ''AttributeError'')
                    | _ \<Rightarrow> failed)
               | _ \<Rightarrow> failed)
          | _ \<Rightarrow> failed)
     | _ \<Rightarrow> failed)"

end
