(* ===== verification/Orders.thy ===== *)
theory Orders
  imports Vip Cache Wechat
begin

text \<open>
  \<open>app/services/order_service.py\<close> and the request models of \<open>app/schemas/order.py\<close>:
  creating an order against the two stock stores (the \<open>products\<close> table and the counters
  in Redis), paying it, cancelling it and refunding it. An operation on the database
  returns the new database or an error; an error closes the session without a commit. An
  operation that also talks to Redis returns the new client with either, since Redis has no
  rollback. \<open>now\<close> is read once per operation.
\<close>

section \<open>Requests\<close>

record create_item =
  ci_product_id :: int
  ci_quantity :: int
  ci_installment_count :: int

record create_request =
  cr_items :: "create_item list"
  cr_payment_method :: string
  cr_idempotency_key :: string

text \<open>The constraints of the request model's fields.\<close>

definition create_item_ok :: "create_item \<Rightarrow> bool" where
  "create_item_ok i \<longleftrightarrow> 0 < ci_product_id i \<and> 1 \<le> ci_quantity i \<and> ci_quantity i \<le> 99 \<and>
    1 \<le> ci_installment_count i \<and> ci_installment_count i \<le> 24"

definition create_request_ok :: "create_request \<Rightarrow> bool" where
  "create_request_ok q \<longleftrightarrow> 1 \<le> length (cr_items q) \<and> length (cr_items q) \<le> 20 \<and>
    list_all create_item_ok (cr_items q) \<and> cr_payment_method q \<in> {''wechat'', ''balance''} \<and>
    8 \<le> length (cr_idempotency_key q) \<and> length (cr_idempotency_key q) \<le> 120"

section \<open>Rows\<close>

definition set_order :: "int \<Rightarrow> (commerce_order \<Rightarrow> commerce_order) \<Rightarrow> db \<Rightarrow> db" where
  "set_order oid f d = d\<lparr>orders := update_by co_id oid f (orders d)\<rparr>"

definition set_item :: "int \<Rightarrow> (order_item \<Rightarrow> order_item) \<Rightarrow> db \<Rightarrow> db" where
  "set_item iid f d = d\<lparr>items := update_by oi_id iid f (items d)\<rparr>"

definition set_product :: "int \<Rightarrow> (study_product \<Rightarrow> study_product) \<Rightarrow> db \<Rightarrow> db" where
  "set_product pid f d = d\<lparr>products := update_by sp_id pid f (products d)\<rparr>"

definition set_user :: "int \<Rightarrow> (user_account \<Rightarrow> user_account) \<Rightarrow> db \<Rightarrow> db" where
  "set_user uid f d = d\<lparr>users := update_by ua_id uid f (users d)\<rparr>"

definition find_order :: "db \<Rightarrow> int \<Rightarrow> commerce_order option" where
  "find_order d oid = find_by co_id oid (orders d)"

definition get_order_by_no :: "db \<Rightarrow> string \<Rightarrow> commerce_order option" where
  "get_order_by_no d no = find_by co_order_no no (orders d)"

text \<open>The newest order of the user with that key.\<close>

definition get_order_by_idempotency_key :: "db \<Rightarrow> int \<Rightarrow> string \<Rightarrow> commerce_order option" where
  "get_order_by_idempotency_key d uid key =
    (case rev (sort_key co_id (filter (\<lambda>o1. co_user_id o1 = uid \<and> co_idempotency_key o1 = key) (orders d))) of
       [] \<Rightarrow> None | o1 # _ \<Rightarrow> Some o1)"

definition get_order_items :: "db \<Rightarrow> int \<Rightarrow> order_item list" where
  "get_order_items d oid = sort_key oi_id (filter (\<lambda>i. oi_order_id i = oid) (items d))"

text \<open>\<open>result.setdefault(item.order_id, []).append(item)\<close> over the rows, by item id.\<close>

fun add_to_group :: "int \<Rightarrow> 'a \<Rightarrow> (int \<times> 'a list) list \<Rightarrow> (int \<times> 'a list) list" where
  "add_to_group k x [] = [(k, [x])]"
| "add_to_group k x ((j, xs) # gs) = (if j = k then (j, xs @ [x]) # gs else (j, xs) # add_to_group k x gs)"

definition get_order_items_map :: "db \<Rightarrow> int list \<Rightarrow> (int \<times> order_item list) list" where
  "get_order_items_map d ids =
    (if ids = [] then []
     else fold (\<lambda>i. add_to_group (oi_order_id i) i)
       (sort_key oi_id (filter (\<lambda>i. oi_order_id i \<in> set ids) (items d))) [])"

section \<open>Creating an order\<close>

fun add_quantity :: "int \<Rightarrow> int \<Rightarrow> (int \<times> int) list \<Rightarrow> (int \<times> int) list" where
  "add_quantity pid q [] = [(pid, q)]"
| "add_quantity pid q ((p, n) # m) = (if p = pid then (p, n + q) # m else (p, n) # add_quantity pid q m)"

definition merge_items :: "create_request \<Rightarrow> (int \<times> int) list" where
  "merge_items req = fold (\<lambda>i. add_quantity (ci_product_id i) (ci_quantity i)) (cr_items req) []"

definition load_products :: "db \<Rightarrow> (int \<times> int) list \<Rightarrow> study_product list" where
  "load_products d qm = filter (\<lambda>p. sp_id p \<in> fst ` set qm) (products d)"

fun validate_products :: "study_product list \<Rightarrow> (int \<times> int) list \<Rightarrow> unit result" where
  "validate_products ps [] = Inr ()"
| "validate_products ps ((pid, q) # qm) =
     (case find_by sp_id pid ps of
        None \<Rightarrow> Inl (BusinessError 404 ''PRODUCT_NOT_AVAILABLE'')
      | Some p \<Rightarrow>
          if \<not> sp_status p \<or> sp_review_status p \<noteq> RevApproved
          then Inl (BusinessError 404 ''PRODUCT_NOT_AVAILABLE'')
          else if 0 \<le> sp_stock p \<and> sp_stock p < q then Inl (BusinessError 409 ''INSUFFICIENT_STOCK'')
          else validate_products ps qm)"

text \<open>
  \<open>_rollback_redis_stock\<close>: in reverse order; only \<open>RedisUnavailableError\<close> is caught, any
  other failure of the client leaves the loop. The list of deductions is cleared at the end.
\<close>

fun restore_redis :: "time \<Rightarrow> (int \<times> int) list \<Rightarrow> redis \<Rightarrow> unit result \<times> redis" where
  "restore_redis now [] r = (Inr (), r)"
| "restore_redis now ((pid, q) # ds) r =
     (case incr_stock now pid q r of
        (Inr _, r1) \<Rightarrow> restore_redis now ds r1
      | (Inl e, r1) \<Rightarrow> if e = RedisUnavailableError then restore_redis now ds r1 else (Inl e, r1))"

definition rollback_redis_stock ::
  "time \<Rightarrow> (int \<times> int) list \<Rightarrow> redis \<Rightarrow> unit result \<times> (int \<times> int) list \<times> redis" where
  "rollback_redis_stock now deducted r =
    (case restore_redis now (rev deducted) r of
       (Inr _, r1) \<Rightarrow> (Inr (), [], r1)
     | (Inl e, r1) \<Rightarrow> (Inl e, deducted, r1))"

definition redis_required :: "error \<Rightarrow> error" where
  "redis_required e = (if e = RedisUnavailableError then BusinessError 503 ''REDIS_REQUIRED'' else e)"

fun pre_deduct_stock ::
  "time \<Rightarrow> study_product list \<Rightarrow> (int \<times> int) list \<Rightarrow> (int \<times> int) list \<Rightarrow> redis \<Rightarrow>
    unit result \<times> (int \<times> int) list \<times> redis" where
  "pre_deduct_stock now ps [] deducted r = (Inr (), deducted, r)"
| "pre_deduct_stock now ps ((pid, q) # qm) deducted r =
     (case find_by sp_id pid ps of
        None \<Rightarrow> (Inl (RuntimeError ''KeyError''), deducted, r)
      | Some p \<Rightarrow>
          if sp_stock p < 0 then pre_deduct_stock now ps qm deducted r
          else
            (case set_stock_if_absent now pid (sp_stock p) r of
               (Inl e, r1) \<Rightarrow> (Inl (redis_required e), deducted, r1)
             | (Inr _, r1) \<Rightarrow>
                 (case decr_stock now pid q r1 of
                    (Inl e, r2) \<Rightarrow> (Inl (redis_required e), deducted, r2)
                  | (Inr remaining, r2) \<Rightarrow>
                      if remaining < 0 then
                        (case rollback_redis_stock now (deducted @ [(pid, q)]) r2 of
                           (Inl e, ds, r3) \<Rightarrow> (Inl e, ds, r3)
                         | (Inr _, ds, r3) \<Rightarrow> (Inl (BusinessError 409 ''INSUFFICIENT_STOCK''), ds, r3))
                      else pre_deduct_stock now ps qm (deducted @ [(pid, q)]) r2)))"

text \<open>\<open>db.add(order)\<close> and the flush: \<open>(user_id, idempotency_key)\<close> and \<open>order_no\<close> are unique.\<close>

definition flush_order :: "commerce_order \<Rightarrow> db \<Rightarrow> db result" where
  "flush_order o1 d =
    (if list_ex (\<lambda>r. co_user_id r = co_user_id o1 \<and> co_idempotency_key r = co_idempotency_key o1
                   \<or> co_order_no r = co_order_no o1) (orders d)
     then Inl IntegrityError
     else Inr (d\<lparr>orders := orders d @ [o1]\<rparr>))"

definition order_total :: "study_product list \<Rightarrow> (int \<times> int) list \<Rightarrow> cents" where
  "order_total ps qm =
    sum_list (map (\<lambda>(pid, q). (case find_by sp_id pid ps of Some p \<Rightarrow> sp_price p * q | None \<Rightarrow> 0)) qm)"

definition order_school :: "study_product list \<Rightarrow> (int \<times> int) list \<Rightarrow> int" where
  "order_school ps qm =
    (case remdups (map (\<lambda>(pid, q). case find_by sp_id pid ps of Some p \<Rightarrow> sp_school_id p | None \<Rightarrow> 0) qm) of
       [s] \<Rightarrow> s | _ \<Rightarrow> 0)"

definition new_order :: "db \<Rightarrow> string \<Rightarrow> int \<Rightarrow> create_request \<Rightarrow> cents \<Rightarrow> int \<Rightarrow> time \<Rightarrow> commerce_order" where
  "new_order d no uid req amount school now =
    \<lparr>co_id = fresh_id co_id (orders d), co_order_no = no, co_user_id = uid, co_school_id = school,
     co_total_amount = amount, co_payable_amount = amount, co_payment_method = cr_payment_method req,
     co_payment_status = PayPending, co_status = OrdPending,
     co_idempotency_key = cr_idempotency_key req, co_transaction_id = [], co_refund_no = None,
     co_refund_id = [], co_refund_status = [], co_refund_reason = [],
     co_timeout_job_scheduled = True, co_paid_at = None, co_refund_requested_at = None,
     co_refunded_at = None, co_canceled_at = None, co_cancel_reason = [], co_created_at = now\<rparr>"

definition new_item :: "db \<Rightarrow> int \<Rightarrow> string \<Rightarrow> study_product \<Rightarrow> int \<Rightarrow> bool \<Rightarrow> order_item" where
  "new_item d oid no p q deducted =
    \<lparr>oi_id = fresh_id oi_id (items d), oi_order_id = oid, oi_order_no = no,
     oi_product_id = sp_id p, oi_product_name = sp_name p, oi_product_type = sp_product_type p,
     oi_school_id = sp_school_id p, oi_unit_price = sp_price p, oi_quantity = q,
     oi_total_amount = sp_price p * q, oi_installment_count = 1,
     oi_stock_deducted = deducted, oi_status = OrdPending\<rparr>"

definition add_item :: "int \<Rightarrow> string \<Rightarrow> study_product list \<Rightarrow> int \<times> int \<Rightarrow> db \<Rightarrow> db" where
  "add_item oid no ps pq d =
    (case pq of (pid, q) \<Rightarrow>
       (case find_by sp_id pid ps of
          None \<Rightarrow> d
        | Some p \<Rightarrow>
            (let limited = 0 \<le> sp_stock p;
                 d1 = (if limited then set_product pid (\<lambda>r. r\<lparr>sp_stock := sp_stock p - q\<rparr>) d else d)
             in d1\<lparr>items := items d1 @ [new_item d1 oid no p q limited]\<rparr>)))"

definition persist_order ::
  "time \<Rightarrow> db \<Rightarrow> int \<Rightarrow> create_request \<Rightarrow> study_product list \<Rightarrow> (int \<times> int) list \<Rightarrow> (commerce_order \<times> db) result" where
  "persist_order now d uid req ps qm =
    (case draw_no ''XO'' d of
       (no, d1) \<Rightarrow>
         (let amount = order_total ps qm in
          if amount < 0 then Inl (BusinessError 400 ''INVALID_ORDER_AMOUNT'')
          else
            (let o1 = new_order d1 no uid req amount (order_school ps qm) now in
             case flush_order o1 d1 of
               Inl e \<Rightarrow> Inl e
             | Inr d2 \<Rightarrow> Inr (o1, fold (add_item (co_id o1) no ps) qm d2))))"

text \<open>
  \<open>create_order\<close>. \<open>others\<close> is what other sessions commit between the first look-up of the
  idempotency key and the locking reads of this session. The result carries the
  committed database: a failure leaves it as the others have it.
\<close>

definition idem_key :: "int \<Rightarrow> string \<Rightarrow> string" where
  "idem_key uid key = ''idem:order:'' @ str_int uid @ '':'' @ key"

definition result_key :: "int \<Rightarrow> string \<Rightarrow> string" where
  "result_key uid key = idem_key uid key @ '':result''"

text \<open>Giving back the deductions and the key, in both error handlers.\<close>

definition undo_reservation ::
  "time \<Rightarrow> string \<Rightarrow> (int \<times> int) list \<Rightarrow> redis \<Rightarrow> unit result \<times> (int \<times> int) list \<times> redis" where
  "undo_reservation now key deducted r =
    (case rollback_redis_stock now deducted r of
       (Inl e, ds, r1) \<Rightarrow> (Inl e, ds, r1)
     | (Inr _, ds, r1) \<Rightarrow>
         (case redis_delete [key] r1 of
            (Inl e, r2) \<Rightarrow> if e = RedisUnavailableError then (Inr (), ds, r2) else (Inl e, ds, r2)
          | (Inr _, r2) \<Rightarrow> (Inr (), ds, r2)))"

text \<open>
  The outer \<open>except Exception\<close>. Its last line before \<open>raise\<close> logs \<open>user.id\<close>, which the rollback has
  expired: whatever the error was, this one leaves the method, unless the clean-up fails
  before.
\<close>

definition abandon ::
  "time \<Rightarrow> string \<Rightarrow> (int \<times> int) list \<Rightarrow> db \<Rightarrow> redis \<Rightarrow> commerce_order result \<times> db \<times> redis" where
  "abandon now key deducted d r =
    (case undo_reservation now key deducted r of
       (Inl e, _, r1) \<Rightarrow> (Inl e, d, r1)
     | (Inr _, _, r1) \<Rightarrow> (Inl expired_attribute, d, r1))"

definition create_locked ::
  "time \<Rightarrow> int \<Rightarrow> db \<Rightarrow> int \<Rightarrow> create_request \<Rightarrow> redis \<Rightarrow> commerce_order result \<times> db \<times> redis" where
  "create_locked now ttl d uid req r =
    (let key = idem_key uid (cr_idempotency_key req);
         qm = merge_items req;
         ps = load_products d qm in
     case validate_products ps qm of
       Inl e \<Rightarrow> abandon now key [] d r
     | Inr _ \<Rightarrow>
         (case pre_deduct_stock now ps qm [] r of
            (Inl e, ds, r1) \<Rightarrow> abandon now key ds d r1
          | (Inr _, ds, r1) \<Rightarrow>
              (case persist_order now d uid req ps qm of
                 Inr (o1, d1) \<Rightarrow>
                   (Inr o1, d1, snd (redis_set_json now (result_key uid (cr_idempotency_key req))
                      (JObj [(''order_no'', JStr (co_order_no o1))]) ttl r1))
               | Inl IntegrityError \<Rightarrow>
                   (case undo_reservation now key ds r1 of
                      (_, ds', r2) \<Rightarrow> abandon now key ds' d r2)
               | Inl e \<Rightarrow> abandon now key ds d r1)))"

text \<open>\<open>existing and existing.get("order_no")\<close>: only an object has \<open>get\<close>.\<close>

definition cached_order :: "db \<Rightarrow> json option \<Rightarrow> commerce_order option result" where
  "cached_order d existing =
    (case existing of
       None \<Rightarrow> Inr None
     | Some j \<Rightarrow>
         if \<not> truthy j then Inr None
         else case j of
           JObj kvs \<Rightarrow>
             (case jget j ''order_no'' of
                JStr no \<Rightarrow> Inr (if no = [] then None else get_order_by_no d no)
              | _ \<Rightarrow> Inr None)
         | _ \<Rightarrow> Inl (RuntimeError ''AttributeError''))"

definition create_order ::
  "time \<Rightarrow> int \<Rightarrow> db \<Rightarrow> (db \<Rightarrow> db) \<Rightarrow> int \<Rightarrow> create_request \<Rightarrow> redis \<Rightarrow> commerce_order result \<times> db \<times> redis" where
  "create_order now ttl d others uid req r =
    (case get_order_by_idempotency_key d uid (cr_idempotency_key req) of
       Some o1 \<Rightarrow> (Inr o1, d, r)
     | None \<Rightarrow>
         (case redis_get_json now (result_key uid (cr_idempotency_key req)) r of
            (Inl e, r1) \<Rightarrow> (Inl (redis_required e), d, r1)
          | (Inr existing, r1) \<Rightarrow>
              (case cached_order d existing of
                 Inl e \<Rightarrow> (Inl e, d, r1)
               | Inr (Some o1) \<Rightarrow> (Inr o1, d, r1)
               | Inr None \<Rightarrow>
                   (case redis_setnx now (idem_key uid (cr_idempotency_key req)) ''processing'' ttl r1 of
                      (Inl e, r2) \<Rightarrow> (Inl (redis_required e), d, r2)
                    | (Inr False, r2) \<Rightarrow> (Inl (BusinessError 409 ''IDEMPOTENCY_CONFLICT''), d, r2)
                    | (Inr True, r2) \<Rightarrow> create_locked now ttl (others d) uid req r2))))"

end
