(* ===== verification/Samples.thy ===== *)
theory Samples
  imports Orders
begin

text \<open>
  The concrete databases, clients and requests on which the properties are run: a user, an
  empty database whose order numbers are the prefix with the draw's count, a shop with a
  limited and an unlimited product, and a Redis without keys.
\<close>

definition sample_user :: "int \<Rightarrow> int \<Rightarrow> int \<Rightarrow> user_account" where
  "sample_user uid p bal = \<lparr>ua_id = uid, ua_user_no = ''U1'', ua_phone = ''1'', ua_wechat_openid = None,
    ua_nickname = ''n'', ua_password_hash = [], ua_role = ''user'', ua_status = ''active'',
    ua_avatar = [], ua_points = p, ua_balance = bal, ua_exam_status = [], ua_vip_enabled = False,
    ua_vip_type = [], ua_vip_started_at = None, ua_vip_expires_at = None, ua_vip_remark = [],
    ua_is_registered = True, ua_last_login_at = None\<rparr>"

definition empty_db :: db where
  "empty_db = \<lparr>users = [], sessions = [], wallet = [], routes = [], rule = None, ledgers = [],
    lots = [], allocations = [], products = [], study_orders = [], orders = [], items = [],
    entitlements = [], profiles = [], checkins = [], invites = [], settings_rows = [],
    snapshots = [], travel_orders = [], audits = [], verifications = [],
    route_reviews = [], assets = [], custom_requests = [], schools = [], school_sessions = [],
    study_contents = [], travel_goals = [], certifications = [], preferences = [],
    decorations = [], announcements = [], articles = [], conversations = [], messages = [],
    numbers = (\<lambda>p n. p @ str_int (int n)), drawn = 0\<rparr>"

lemma not_isl_ex: "\<not> isl r \<Longrightarrow> \<exists>a b. r = Inr (a, b)"
  by (cases r) auto

definition after_run :: "'b \<Rightarrow> ('a \<times> 'b) result \<Rightarrow> 'b" where
  "after_run d r = (case r of Inr (_, d') \<Rightarrow> d' | Inl _ \<Rightarrow> d)"

definition sample_product :: "int \<Rightarrow> int \<Rightarrow> int \<Rightarrow> study_product" where
  "sample_product pid price stock =
    \<lparr>sp_id = pid, sp_school_id = 3, sp_name = ''p'', sp_product_type = ''package'', sp_subtitle = [],
     sp_description = [], sp_price = price, sp_original_price = price, sp_billing_cycle = ''month'',
     sp_cover = [], sp_benefits = [], sp_trial_minutes = 0, sp_stock = stock, sp_sales = 0,
     sp_featured = False, sp_installment_enabled = False, sp_installment_count = 1, sp_status = True,
     sp_review_status = RevApproved, sp_reject_reason = []\<rparr>"

definition shop_db :: db where
  "shop_db = empty_db\<lparr>users := [sample_user 1 7 5000],
     products := [sample_product 1 1000 5, sample_product 2 250 (-1)]\<rparr>"

definition idle_redis :: redis where
  "idle_redis = \<lparr>enabled = True, rstore = (\<lambda>k. None), faults = []\<rparr>"

definition sample_request :: "(int \<times> int) list \<Rightarrow> create_request" where
  "sample_request ps =
    \<lparr>cr_items = map (\<lambda>(p, q). \<lparr>ci_product_id = p, ci_quantity = q, ci_installment_count = 1\<rparr>) ps,
     cr_payment_method = ''balance'', cr_idempotency_key = ''key-0001''\<rparr>"

end
