(* ===== verification/Points_Props.thy ===== *)
theory Points_Props
  imports Points_Laws Samples "HOL-Library.Multiset"
begin

text \<open>
  The properties of the points service: each operation's effect on balance, lots and
  ledger, replay of an idempotency key, first-expiring-first consumption, the refund
  that undoes a debit, and the invariant over every sequence of operations.
\<close>

section \<open>Posting a ledger row\<close>

lemma post_new_ledger:
  assumes "new_ledger d uid dir amount prior after e = (l, d1)"
    and "flush_ledger l (set_points uid p d1) = Inr d2"
  shows "d2 = post_ledger uid p l d"
  using assms by (auto simp: new_ledger_eq flush_ledger_def set_points_def post_ledger_def
      append_ledger_def split: if_splits)

lemma append_new_ledger:
  assumes "new_ledger d uid dir amount prior after e = (l, d1)"
    and "flush_ledger l d1 = Inr d2"
  shows "d2 = append_ledger l d"
  using assms by (auto simp: new_ledger_eq flush_ledger_def append_ledger_def split: if_splits)

lemma new_ledger_fields:
  assumes "new_ledger d uid dir amount prior after e = (l, d1)"
  shows "pl_id l = fresh_id pl_id (ledgers d)" "pl_amount l = amount" "pl_user_id l = uid"
    "pl_direction l = dir" "pl_balance_before l = prior" "pl_balance_after l = after"
    "pl_idempotency_key l = take 160 (e_key e)" "pl_biz_type l = e_biz_type e"
    "pl_biz_no l = e_biz_no e"
  using assms by (simp_all add: new_ledger_eq)

lemma alloc_total_fresh: "books_ok d \<Longrightarrow> alloc_total d (fresh_id pl_id (ledgers d)) = 0"
  unfolding alloc_total_def
proof (rule sum_where_none)
  fix a
  assume b: "books_ok d" and a: "a \<in> set (allocations d)"
    "al_expense_ledger_id a = fresh_id pl_id (ledgers d)"
  then have "linked d a" by (simp add: books_ok_def allocs_ok_def)
  then show "al_amount a = 0"
    using a(2) fresh_id_new [of pl_id "ledgers d"] unfolding linked_def by (metis imageI)
qed

section \<open>Expiry\<close>

lemma set_due_lots: "set (due_lots d uid now) = {l \<in> set (lots d). due_lot uid now l}"
  by (auto simp: due_lots_def)

lemma sum_list_sort_key: "sum_list (map f (sort_key k xs)) = (sum_list (map f xs) :: int)"
proof -
  have "mset (map f (sort_key k xs)) = mset (map f xs)" by simp
  then show ?thesis by (metis sum_mset_sum_list)
qed

lemma due_lots_sum: "sum_list (map lot_remaining_amount (due_lots d uid now)) = due_total d uid now"
  by (simp add: due_lots_def due_total_def sum_where_def sum_list_sort_key)

lemma due_lots_rows: "lots_ok d \<Longrightarrow> rows_of d uid (due_lots d uid now)"
  unfolding due_lots_def by (rule rows_of_sorted_filter) (simp_all add: due_lot_def)

lemma due_ids: "lots_ok d \<Longrightarrow> l \<in> set (lots d) \<Longrightarrow>
    lot_id l \<in> lot_id ` set (due_lots d uid now) \<longleftrightarrow> due_lot uid now l"
  using set_due_lots [of d uid now] by (auto simp: lots_ok_def distinct_map dest: inj_onD)

lemma due_total_nonneg: "0 \<le> due_total d uid now"
  by (auto simp: due_total_def due_lot_def intro: sum_where_nonneg)

lemma due_total_pos: "due_lots d uid now \<noteq> [] \<Longrightarrow> 0 < due_total d uid now"
proof -
  assume "due_lots d uid now \<noteq> []"
  then obtain l where "l \<in> set (due_lots d uid now)" by (cases "due_lots d uid now") auto
  then have l: "l \<in> set (lots d)" "due_lot uid now l" by (auto simp: set_due_lots)
  then have "lot_remaining_amount l \<le> due_total d uid now"
    unfolding due_total_def by (rule sum_where_mem_le) (simp add: due_lot_def)
  with l show ?thesis by (simp add: due_lot_def)
qed

text \<open>After the sweep nothing is due and the lots have lost exactly the due points.\<close>

lemma swept_lots:
  assumes "lots_ok d"
    and "lots d' = map (\<lambda>l. if lot_id l \<in> lot_id ` set (due_lots d uid now) then expire_lot l else l) (lots d)"
  shows "due_total d' uid now = 0 \<and> covered d' uid now = covered d uid now \<and>
    (\<forall>u. lot_total d' u = lot_total d u - (if u = uid then due_total d uid now else 0))"
proof -
  have l: "lots d' = map (\<lambda>l. if due_lot uid now l then expire_lot l else l) (lots d)"
    unfolding assms(2)
  proof (rule map_cong [OF refl])
    fix l assume "l \<in> set (lots d)"
    from due_ids [OF assms(1) this, of uid now]
    show "(if lot_id l \<in> lot_id ` set (due_lots d uid now) then expire_lot l else l) =
        (if due_lot uid now l then expire_lot l else l)" by (simp only: )
  qed
  have "sum_where (due_lot uid now) lot_remaining_amount
      (map (\<lambda>l. if due_lot uid now l then expire_lot l else l) xs) = 0" for xs
    by (induction xs) (simp_all add: sum_where_Cons due_lot_def)
  then have "due_total d' uid now = 0"
    by (simp add: due_total_def l)
  moreover have "sum_where (usable_lot uid now) lot_remaining_amount
      (map (\<lambda>l. if due_lot uid now l then expire_lot l else l) xs) =
      sum_where (usable_lot uid now) lot_remaining_amount xs" for xs
    by (induction xs) (auto simp: sum_where_Cons usable_lot_def due_lot_def split: option.splits)
  then have "covered d' uid now = covered d uid now"
    by (simp add: covered_def l)
  moreover have "sum_where (\<lambda>l. lot_user_id l = u) lot_remaining_amount
      (map (\<lambda>l. if due_lot uid now l then expire_lot l else l) xs) =
      sum_where (\<lambda>l. lot_user_id l = u) lot_remaining_amount xs -
      (if u = uid then sum_where (due_lot uid now) lot_remaining_amount xs else 0)" for u xs
    by (induction xs) (auto simp: sum_where_Cons due_lot_def)
  then have "\<forall>u. lot_total d' u = lot_total d u - (if u = uid then due_total d uid now else 0)"
    by (simp add: lot_total_def due_total_def l)
  ultimately show ?thesis by blast
qed

lemma due_le_points: "points_ok d \<Longrightarrow> due_total d uid now \<le> points_of d uid"
proof -
  assume d: "points_ok d"
  have "0 \<le> covered d uid now"
    by (auto simp: covered_def usable_lot_def intro: sum_where_nonneg)
  then have "due_total d uid now \<le> lot_total d uid"
    using d lot_total_parts [of d uid now] by (simp add: points_ok_def books_ok_def)
  also have "\<dots> \<le> points_of d uid" using d by (simp add: points_ok_def)
  finally show ?thesis .
qed

lemma expire_effect:
  assumes ok: "points_ok d" and u: "user_in d uid" and e: "expire_due_locked d uid now = Inr (r, d1)"
  shows "points_ok d1 \<and> user_in d1 uid \<and> points_of d1 uid = points_of d uid - due_total d uid now \<and>
    due_total d1 uid now = 0 \<and> (\<forall>v. v \<noteq> uid \<longrightarrow> points_of d1 v = points_of d v)"
proof (cases "due_lots d uid now = []")
  case True
  then have "due_total d uid now = 0" using due_lots_sum [of d uid now] by simp
  then show ?thesis using True e ok u by (simp add: expire_due_locked_def)
next
  case False
  have books: "books_ok d" and lots: "lots_ok d"
    using ok by (auto simp: points_ok_def books_ok_def)
  let ?ls = "due_lots d uid now" and ?n = "due_total d uid now" and ?b = "points_of d uid"
  have n: "0 < ?n" "min (sum_list (map lot_remaining_amount ?ls)) ?b = ?n"
    using due_total_pos [OF False] due_le_points [OF ok, of uid now] by (simp_all add: due_lots_sum)
  define en where "en = \<lparr>e_biz_type = ''points_expired'', e_biz_id = foldr max (map lot_id ?ls) 0,
      e_biz_no = str_int (foldr max (map lot_id ?ls) 0),
      e_key = ''points-expired:'' @ str_int uid @ '':'' @ str_int (foldr max (map lot_id ?ls) 0),
      e_remark = ''points expired''\<rparr>"
  obtain l dn where nl: "new_ledger d uid Expense ?n ?b (?b - ?n) en = (l, dn)"
    by (metis surj_pair)
  then obtain d2 where f: "flush_ledger l (set_points uid (?b - ?n) dn) = Inr d2"
      and d1: "d1 = expire_lots (pl_id l) ?n ?ls d2"
    using e False n by (auto simp: expire_due_locked_def Let_def en_def split: sum.splits)
  have d2: "d2 = post_ledger uid (?b - ?n) l d" by (rule post_new_ledger [OF nl f])
  note lf = new_ledger_fields [OF nl]
  have b2: "books_ok d2"
    unfolding d2 using books lf n(1) by (intro books_post_ledger) simp_all
  have rows: "rows_of d2 uid ?ls"
    using due_lots_rows [OF lots] by (simp add: d2 rows_of_def books_simps)
  have "alloc_total d2 (pl_id l) = 0"
    using alloc_total_fresh [OF books] lf by (simp add: d2 books_simps)
  then have b1: "books_ok d1"
    unfolding d1 using expire_lots_effect [OF b2 rows, of ?n l "pl_id l"] lf n(1)
    by (simp add: d2 books_simps)
  have "lots d1 = map (\<lambda>l. if lot_id l \<in> lot_id ` set ?ls then expire_lot l else l) (lots d)"
    unfolding d1 write_lots_closed [OF rows] by (simp add: d2 books_simps)
  from swept_lots [OF lots this] have s: "due_total d1 uid now = 0"
    "\<And>v. lot_total d1 v = lot_total d v - (if v = uid then ?n else 0)" by auto
  have p: "points_of d1 v = (if v = uid then ?b - ?n else points_of d v)" for v
    using u by (simp add: d1 d2 books_simps)
  have "lot_total d1 v \<le> points_of d1 v" for v
    using ok p s(2) by (simp add: points_ok_def)
  then show ?thesis
    using b1 s(1) p u by (simp add: points_ok_def d1 d2 books_simps)
qed

section \<open>Credit\<close>

lemma credit_effect:
  assumes ok: "points_ok d" and u: "user_in d uid" and n: "0 < n"
    and new: "find_ledger d uid (e_key e) = None"
    and c: "credit_locked d uid n e x = Inr (l, d')"
  shows "points_ok d' \<and> ledgers d' = ledgers d @ [l] \<and> pl_amount l = n \<and> pl_direction l = Income \<and>
    pl_user_id l = uid \<and> pl_idempotency_key l = take 160 (e_key e) \<and>
    pl_balance_before l = points_of d uid \<and> pl_balance_after l = points_of d' uid \<and>
    (\<forall>v. points_of d' v = points_of d v + (if v = uid then n else 0)) \<and>
    (\<forall>v. lot_total d' v = lot_total d v + (if v = uid then n else 0)) \<and> user_in d' uid"
proof -
  let ?b = "points_of d uid"
  obtain l0 dn where nl: "new_ledger d uid Income n ?b (?b + n) e = (l0, dn)"
    by (metis surj_pair)
  then obtain d2 where f: "flush_ledger l0 (set_points uid (?b + n) dn) = Inr d2"
      and l: "l = l0" and d': "d' = add_lot uid (pl_id l) n x d2"
    using c n new by (auto simp: credit_locked_def Let_def split: sum.splits option.splits)
  have d2: "d2 = post_ledger uid (?b + n) l d" using post_new_ledger [OF nl f] l by simp
  note lf = new_ledger_fields [OF nl, folded l]
  have books: "books_ok d" using ok by (simp add: points_ok_def)
  have "books_ok d2" unfolding d2 using books lf n by (intro books_post_ledger) simp_all
  then have "books_ok d'" unfolding d' using n lf d2 by (intro books_add_lot [where l = l]) (auto simp: books_simps)
  moreover have p: "points_of d' v = points_of d v + (if v = uid then n else 0)" for v
    using u by (simp add: d' d2 books_simps)
  moreover have t: "lot_total d' v = lot_total d v + (if v = uid then n else 0)" for v
    by (simp add: d' d2 books_simps)
  moreover have "lot_total d' v \<le> points_of d' v" for v
    using ok p t by (simp add: points_ok_def)
  ultimately show ?thesis
    using lf u by (simp add: points_ok_def d' d2 books_simps)
qed

section \<open>Opening lot and debit\<close>

lemma covered_add_lot:
  "covered (add_lot uid lid n None d) uid now = covered d uid now + (if 0 < n then n else 0)"
  by (simp add: covered_def add_lot_def table_simps usable_lot_def)

lemma due_add_lot: "due_total (add_lot uid lid n None d) u now = due_total d u now"
  by (simp add: due_total_def add_lot_def table_simps due_lot_def)

lemma ensure_effect:
  assumes ok: "points_ok d" and u: "user_in d uid" and due: "due_total d uid now = 0"
    and c: "ensure_lot_coverage d uid now = Inr d2"
  shows "points_ok d2 \<and> (\<forall>v. points_of d2 v = points_of d v) \<and> user_in d2 uid \<and>
    covered d2 uid now = points_of d uid \<and> lot_total d2 uid = points_of d uid"
proof -
  have books: "books_ok d" "lots_ok d" using ok by (auto simp: points_ok_def books_ok_def)
  have tot: "lot_total d uid = covered d uid now"
    using lot_total_parts [OF books(2), of uid now] due by simp
  have le: "lot_total d v \<le> points_of d v" for v using ok by (simp add: points_ok_def)
  show ?thesis
  proof (cases "points_of d uid \<le> covered d uid now")
    case True
    then have "d2 = d" using c by (simp add: ensure_lot_coverage_def)
    then show ?thesis using True ok u tot le [of uid] by simp
  next
    case False
    define n where "n = points_of d uid - covered d uid now"
    define en where "en = \<lparr>e_biz_type = ''legacy_opening'', e_biz_id = uid, e_biz_no = user_no_of d uid,
        e_key = ''legacy-opening:'' @ str_int uid, e_remark = ''opening balance''\<rparr>"
    obtain l dn where nl: "new_ledger d uid Income n (covered d uid now) (points_of d uid) en = (l, dn)"
      by (metis surj_pair)
    then obtain d1 where f: "flush_ledger l dn = Inr d1" and d2: "d2 = add_lot uid (pl_id l) n None d1"
      using c False by (auto simp: ensure_lot_coverage_def Let_def n_def en_def split: sum.splits)
    have d1: "d1 = append_ledger l d" by (rule append_new_ledger [OF nl f])
    note lf = new_ledger_fields [OF nl]
    have n: "0 < n" using False by (simp add: n_def)
    have "books_ok d1" unfolding d1 using books lf n by (intro books_append_ledger) simp_all
    then have b2: "books_ok d2"
      unfolding d2 using n lf d1 by (intro books_add_lot [where l = l]) (auto simp: books_simps)
    have t: "lot_total d2 v = lot_total d v + (if v = uid then n else 0)" for v
      by (simp add: d2 d1 books_simps)
    have p: "points_of d2 v = points_of d v" for v by (simp add: d2 d1 books_simps)
    have "lot_total d2 v \<le> points_of d2 v" for v
      using le [of v] t [of v] p [of v] tot by (auto simp: n_def)
    moreover have "covered d2 uid now = points_of d uid"
      using n by (simp add: d2 d1 covered_add_lot) (simp add: covered_def books_simps n_def)
    moreover have "user_in d2 uid" using u by (simp add: d2 d1 books_simps)
    ultimately show ?thesis
      using b2 t [of uid] p tot by (simp add: points_ok_def n_def)
  qed
qed

lemma spend_order_sum: "sum_list (map lot_remaining_amount (spend_order d uid now)) = covered d uid now"
  by (simp add: spend_order_def covered_def sum_where_def sum_list_sort_key)

lemma spend_order_rows: "lots_ok d \<Longrightarrow> rows_of d uid (spend_order d uid now)"
  unfolding spend_order_def by (rule rows_of_sorted_filter) (simp_all add: usable_lot_def)

lemma debit_effect:
  assumes ok: "points_ok d" and u: "user_in d uid"
    and new: "find_ledger d uid (e_key e) = None"
    and c: "debit_locked d uid n e now = Inr (l, d')"
  shows "points_ok d' \<and> user_in d' uid \<and> 0 < n \<and> 0 \<le> points_of d' uid \<and>
    points_of d' uid = points_of d uid - due_total d uid now - n \<and>
    (\<forall>v. v \<noteq> uid \<longrightarrow> points_of d' v = points_of d v) \<and>
    lot_total d' uid = points_of d' uid \<and> alloc_total d' (pl_id l) = n \<and>
    l \<in> set (ledgers d') \<and> pl_amount l = n \<and> pl_user_id l = uid \<and> pl_direction l = Expense \<and>
    pl_biz_type l = e_biz_type e \<and> pl_biz_no l = e_biz_no e \<and>
    pl_balance_before l = points_of d uid - due_total d uid now \<and> pl_balance_after l = points_of d' uid"
proof -
  have n: "0 < n" using c by (auto simp: debit_locked_def split: if_splits)
  then obtain r d1 where x: "expire_due_locked d uid now = Inr (r, d1)"
    using c new by (auto simp: debit_locked_def split: sum.splits)
  let ?b = "points_of d1 uid"
  obtain d2 where en: "ensure_lot_coverage d1 uid now = Inr d2" and b: "n \<le> ?b"
    using c n new x by (auto simp: debit_locked_def Let_def split: sum.splits if_splits)
  have e1: "points_ok d1" "user_in d1 uid" "?b = points_of d uid - due_total d uid now"
      "due_total d1 uid now = 0" "\<And>v. v \<noteq> uid \<Longrightarrow> points_of d1 v = points_of d v"
    using expire_effect [OF ok u x] by auto
  have e2: "points_ok d2" "\<And>v. points_of d2 v = points_of d1 v" "user_in d2 uid"
      "covered d2 uid now = ?b" "lot_total d2 uid = ?b"
    using ensure_effect [OF e1(1,2,4) en] by auto
  have books: "books_ok d2" "lots_ok d2" using e2(1) by (auto simp: points_ok_def books_ok_def)
  let ?ls = "spend_order d2 uid now"
  obtain l0 dn where nl: "new_ledger d2 uid Expense n ?b (?b - n) e = (l0, dn)"
    by (metis surj_pair)
  then obtain d4 where f: "flush_ledger l0 (set_points uid (?b - n) dn) = Inr d4" and l: "l = l0"
      and d': "d' = consume_lots (pl_id l) n ?ls d4"
    using c n new x en by (auto simp: debit_locked_def Let_def split: sum.splits if_splits)
  have d4: "d4 = post_ledger uid (?b - n) l d2" using post_new_ledger [OF nl f] l by simp
  note lf = new_ledger_fields [OF nl, folded l]
  have b4: "books_ok d4" unfolding d4 using books lf n by (intro books_post_ledger) simp_all
  have rows: "rows_of d4 uid ?ls"
    using spend_order_rows [OF books(2)] by (simp add: d4 rows_of_def books_simps)
  have al: "alloc_total d4 (pl_id l) = 0"
    using alloc_total_fresh [OF books(1)] lf by (simp add: d4 books_simps)
  have m: "min n (sum_list (map lot_remaining_amount ?ls)) = n"
    using b e2(4) by (simp add: spend_order_sum)
  have t4: "lot_total d4 v = lot_total d2 v" for v by (simp add: d4 books_simps)
  have fx: "books_ok d'" "lot_total d' uid = ?b - n" "alloc_total d' (pl_id l) = n"
      "\<And>v. v \<noteq> uid \<Longrightarrow> lot_total d' v = lot_total d2 v"
    using consume_lots_effect [OF b4 rows, of n l "pl_id l"] lf n al m e2(5) t4
    unfolding d' by (simp_all add: d4 books_simps)
  have p: "points_of d' v = (if v = uid then ?b - n else points_of d v)" for v
    using e2(2,3) e1(5) by (simp add: d' d4 books_simps)
  have "lot_total d' v \<le> points_of d' v" for v
  proof (cases "v = uid")
    case False
    have "lot_total d2 v \<le> points_of d1 v" using e2(1,2) by (simp add: points_ok_def)
    then show ?thesis using False fx(4) p e1(5) by simp
  qed (simp add: fx(2) p)
  moreover have "l \<in> set (ledgers d')" "user_in d' uid"
    using e2(3) by (simp_all add: d' d4 books_simps)
  moreover have "\<forall>v. v \<noteq> uid \<longrightarrow> points_of d' v = points_of d v" by (simp add: p)
  ultimately show ?thesis
    using fx(1-3) lf n b p [of uid] e1(3) by (simp add: points_ok_def)
qed

section \<open>Which lots a debit uses\<close>

lemma consume_lots_other:
  "k \<notin> lot_id ` set ls \<Longrightarrow>
    find_by lot_id k (lots (consume_lots lid r ls d)) = find_by lot_id k (lots d)"
  by (induction lid r ls d rule: consume_lots.induct)
    (auto simp: Let_def books_simps lots_write_lot find_by_update_by)

lemma consume_lots_first:
  assumes "rows_of d uid ls" and "sorted (map spend_key ls)" and "0 \<le> r"
    and "a \<in> set ls" "b \<in> set ls" "spend_key a < spend_key b"
  shows "find_by lot_id (lot_id b) (lots (consume_lots lid r ls d)) = Some b \<or>
    (\<exists>a'. find_by lot_id (lot_id a) (lots (consume_lots lid r ls d)) = Some a' \<and>
       lot_remaining_amount a' = 0)"
  using assms
proof (induction ls arbitrary: r d)
  case (Cons lot ls)
  have row: "find_by lot_id (lot_id lot) (lots d) = Some lot" "0 \<le> lot_remaining_amount lot"
      "lot_id lot \<notin> lot_id ` set ls"
      "find_by lot_id (lot_id b) (lots d) = Some b"
    using rows_of_mem [OF Cons.prems(1)] rows_of_head [OF Cons.prems(1)] Cons.prems(5) by simp_all
  define used where "used = min (lot_remaining_amount lot) r"
  define d2 where "d2 = add_allocation lid (lot_id lot) used (write_lot (lot_id lot) (consume_lot used) d)"
  have rows: "rows_of d2 uid ls"
    using rows_of_write [OF Cons.prems(1), of "consume_lot used"]
    by (simp add: d2_def rows_of_def books_simps)
  have step: "consume_lots lid r (lot # ls) d = (if r \<le> 0 then d else consume_lots lid (r - used) ls d2)"
    by (simp add: used_def d2_def Let_def)
  have at: "find_by lot_id k (lots d2) =
      (if k = lot_id lot then Some (consume_lot used lot) else find_by lot_id k (lots d))" for k
    using row(1) by (simp add: d2_def books_simps lots_write_lot find_by_update_by)
  have nb: "b \<noteq> lot" if "a \<in> set ls"
    using Cons.prems(2,6) that by auto
  consider (stop) "r \<le> 0" | (first) "0 < r" "a = lot" | (later) "0 < r" "a \<noteq> lot" by fastforce
  then show ?case
  proof cases
    case stop
    then show ?thesis using row(4) step by simp
  next
    case first
    have b: "lot_id b \<noteq> lot_id lot"
      using row(1,4) first(2) Cons.prems(6) by (metis less_irrefl option.inject)
    show ?thesis
    proof (cases "used = lot_remaining_amount lot")
      case True
      have "find_by lot_id (lot_id a) (lots (consume_lots lid (r - used) ls d2)) = Some (consume_lot used lot)"
        using consume_lots_other [OF row(3)] at first(2) by simp
      then show ?thesis using step first(1) True by simp
    next
      case False
      then have "r - used = 0" by (auto simp: used_def)
      then have "consume_lots lid (r - used) ls d2 = d2" by (cases ls) simp_all
      then show ?thesis using step first(1) at [of "lot_id b"] b row(4) by simp
    qed
  next
    case later
    then have "a \<in> set ls" using Cons.prems(4) by simp
    moreover have "b \<in> set ls" using Cons.prems(5) nb [OF calculation] by simp
    moreover have "0 \<le> r - used" by (simp add: used_def)
    ultimately show ?thesis
      using Cons.IH [OF rows, of "r - used"] Cons.prems(2,6) step later(1) by simp
  qed
qed simp

text \<open>Neither the sweep nor the opening lot touches a usable lot.\<close>

lemma usable_lot_survives:
  assumes ok: "points_ok d" and x: "expire_due_locked d uid now = Inr (r, d1)"
    and en: "ensure_lot_coverage d1 uid now = Inr d2"
    and m: "m \<in> set (lots d)" "usable_lot uid now m"
  shows "m \<in> set (lots d2)"
proof -
  have lots: "lots_ok d" using ok by (simp add: points_ok_def books_ok_def)
  have nd: "\<not> due_lot uid now m"
    using m(2) by (auto simp: usable_lot_def due_lot_def split: option.splits)
  then have keep: "(if lot_id m \<in> lot_id ` set (due_lots d uid now) then expire_lot m else m) = m"
    using due_ids [OF lots m(1)] by simp
  have "m \<in> set (lots d1)"
  proof (cases "lots d1 = lots d")
    case False
    then have "lots d1 = map (\<lambda>l. if lot_id l \<in> lot_id ` set (due_lots d uid now) then expire_lot l else l) (lots d)"
      using x
      by (auto simp: expire_due_locked_def Let_def fold_expire_closed new_ledger_eq flush_ledger_def
          write_lots_closed [OF due_lots_rows [OF lots, THEN rows_of_same [THEN iffD2, rotated]]] books_simps
          split: if_splits prod.splits)
    then have eq: "set (lots d1) =
        (\<lambda>l. if lot_id l \<in> lot_id ` set (due_lots d uid now) then expire_lot l else l) ` set (lots d)"
      by (simp only: set_map)
    show ?thesis unfolding eq by (rule image_eqI [where x = m]) (rule keep [symmetric], rule m(1))
  qed (use m in simp)
  then show ?thesis
    using en by (auto simp: ensure_lot_coverage_def Let_def new_ledger_eq flush_ledger_def add_lot_def
        split: if_splits prod.splits)
qed

section \<open>Revoking a credit\<close>

lemma find_ledger_SomeD:
  "find_ledger d uid key = Some l \<Longrightarrow> l \<in> set (ledgers d) \<and> pl_user_id l = uid \<and> pl_idempotency_key l = key"
  by (auto simp: find_ledger_def find_Some_iff)

lemma revoke_effect:
  assumes ok: "points_ok d" and u: "user_in d uid"
    and c: "revoke_credit_locked d uid ck e = Inr (r, d')"
  shows "points_ok d' \<and> user_in d' uid \<and>
    (\<exists>n\<ge>0. points_of d' uid = points_of d uid - n \<and> 0 \<le> points_of d uid - n \<and>
       (\<forall>v. v \<noteq> uid \<longrightarrow> points_of d' v = points_of d v))"
proof -
  have books: "books_ok d" "lots_ok d" "sources_ok d" "ledgers_ok d"
    using ok by (auto simp: points_ok_def books_ok_def)
  have pos: "0 \<le> points_of d uid"
    using ok lot_total_nonneg [OF books(2), of uid] by (simp add: points_ok_def order_trans)
  have same: ?thesis if "d' = d" using that ok u pos by (intro conjI exI [of _ 0]) auto
  show ?thesis
  proof (cases "d' = d")
    case False
    then obtain orig lot where o: "find_ledger d uid (e_key e) = None" "find_ledger d uid ck = Some orig"
        "find_by lot_source_ledger_id (pl_id orig) (lots d) = Some lot" "lot_status lot \<noteq> LotRevoked"
        "pl_direction orig = Income"
      using c by (auto simp: revoke_credit_locked_def split: option.splits if_splits)
    define n where "n = min (lot_remaining_amount lot) (points_of d uid)"
    define left where "left = max 0 (lot_remaining_amount lot - n)"
    define f where "f = (\<lambda>l :: point_lot. l\<lparr>lot_remaining_amount := left,
        lot_status := (if left = 0 \<or> n \<le> 0 then LotRevoked else lot_status l)\<rparr>)"
    define d1 where "d1 = write_lot (lot_id lot) f d"
    have lot: "lot \<in> set (lots d)" "lot_source_ledger_id lot = pl_id orig"
      using find_by_SomeD [OF o(3)] by auto
    have orig: "orig \<in> set (ledgers d)" "pl_user_id orig = uid"
      using find_ledger_SomeD [OF o(2)] by auto
    have row: "find_by lot_id (lot_id lot) (lots d) = Some lot"
      using books(2) lot(1) by (simp add: lots_ok_def find_by_distinct)
    have user: "lot_user_id lot = uid"
    proof -
      obtain l where "l \<in> set (ledgers d)" "pl_id l = pl_id orig" "pl_user_id l = lot_user_id lot"
        using books(3) lot by (force simp: sources_ok_def)
      then show ?thesis using orig books(4) by (metis distinct_map inj_onD ledgers_ok_def)
    qed
    have rem: "0 \<le> lot_remaining_amount lot"
      "lot_status lot \<noteq> LotActive \<Longrightarrow> lot_remaining_amount lot = 0"
      using books(2) lot(1) by (auto simp: lots_ok_def)
    have "lot_remaining_amount lot \<le> lot_total d uid"
      unfolding lot_total_def using lot(1) user books(2)
      by (intro sum_where_mem_le) (auto simp: lots_ok_def)
    then have "lot_remaining_amount lot \<le> points_of d uid"
      using ok unfolding points_ok_def by (blast intro: order_trans)
    then have n: "n = lot_remaining_amount lot" "left = 0"
      by (simp_all add: n_def left_def)
    have b1: "books_ok d1"
      unfolding d1_def by (intro books_write_lot [OF books(1) row]) (auto simp: f_def n(2))
    have t1: "lot_total d1 v = lot_total d v - (if v = uid then n else 0)" for v
      unfolding d1_def using lot_total_write_lot [OF books(2) row, of f v] user n by (simp add: f_def)
    have le: "lot_total d v \<le> points_of d v" for v using ok by (simp add: points_ok_def)
    have p1: "points_of d1 v = points_of d v" "user_in d1 uid" for v using u by (simp_all add: d1_def books_simps)
    show ?thesis
    proof (cases "n \<le> 0")
      case True
      then have "d' = d1"
        using c o by (auto simp: revoke_credit_locked_def Let_def d1_def f_def n_def left_def)
      moreover have "n = 0" using True n(1) rem by simp
      ultimately show ?thesis using b1 t1 p1 le pos by (intro conjI exI [of _ 0]) (auto simp: points_ok_def)
    next
      case False
      let ?b = "points_of d uid"
      obtain l dn where nl: "new_ledger d1 uid Expense n ?b (?b - n) e = (l, dn)" by (metis surj_pair)
      then obtain d3 where fl: "flush_ledger l (set_points uid (?b - n) dn) = Inr d3" and d': "d' = d3"
        using c o False by (auto simp: revoke_credit_locked_def Let_def d1_def f_def n_def left_def split: sum.splits)
      have d3: "d3 = post_ledger uid (?b - n) l d1" by (rule post_new_ledger [OF nl fl])
      note lf = new_ledger_fields [OF nl]
      have "books_ok d'" unfolding d' d3 using b1 lf False by (intro books_post_ledger) simp_all
      moreover have p: "points_of d' v = (if v = uid then ?b - n else points_of d v)" for v
        using p1 by (simp add: d' d3 books_simps)
      moreover have "lot_total d' v \<le> points_of d' v" for v
        using le [of v] t1 [of v] p [of v] by (cases "v = uid") (simp_all add: d' d3 books_simps)
      moreover have "n \<le> ?b" by (simp add: n_def)
      moreover have "user_in d' uid" using p1(2) by (simp add: d' d3 books_simps)
      ultimately show ?thesis
        using False by (intro conjI exI [of _ n]) (simp_all add: points_ok_def)
    qed
  qed (rule same)
qed

section \<open>Refund\<close>

lemma restore_lot_fields [simp]:
  "lot_id (restore_lot n now x l) = lot_id l" "lot_user_id (restore_lot n now x l) = lot_user_id l"
  "lot_remaining_amount (restore_lot n now x l) = lot_remaining_amount l + n"
  "lot_source_ledger_id (restore_lot n now x l) = lot_source_ledger_id l"
  "lot_status (restore_lot n now x l) = LotActive"
  by (simp_all add: restore_lot_def)

lemma restore_allocation_fields [simp]:
  "al_id (restore_allocation n a) = al_id a" "al_amount (restore_allocation n a) = al_amount a"
  "al_expense_ledger_id (restore_allocation n a) = al_expense_ledger_id a"
  "al_lot_id (restore_allocation n a) = al_lot_id a"
  "al_restored_amount (restore_allocation n a) = al_restored_amount a + n"
  by (simp_all add: restore_allocation_def)

lemma books_write_allocation:
  assumes "books_ok d" and "find_by al_id k (allocations d) = Some a"
    and "0 \<le> al_restored_amount a + n" "al_restored_amount a + n \<le> al_amount a"
  shows "books_ok (write_allocation k (restore_allocation n) d)"
proof -
  let ?d = "write_allocation k (restore_allocation n) d"
  have d: "lots_ok d" "ledgers_ok d" "allocs_ok d" "spent_ok d" "sources_ok d"
    using assms(1) by (auto simp: books_ok_def)
  have link: "linked ?d b \<longleftrightarrow> linked d b" "linked d (restore_allocation n b) \<longleftrightarrow> linked d b" for b
    by (simp_all add: linked_def books_simps)
  have one: "b = a" if "b \<in> set (allocations d)" "al_id b = k" for b
    using find_by_distinct [of al_id "allocations d" b] that d(3) assms(2) by (simp add: allocs_ok_def)
  have "allocs_ok ?d"
    using d(3) assms(3,4) one link
    by (auto simp: allocs_ok_def write_allocation_def set_update_by map_key_update_by linked_def)
  moreover have "alloc_total ?d i = alloc_total d i" for i
    unfolding alloc_total_def write_allocation_def by (simp add: sum_where_update_same)
  ultimately show ?thesis
    using d by (simp add: books_ok_def lots_ok_def ledgers_ok_def spent_ok_def sources_ok_def books_simps)
qed

definition alloc_rows :: "db \<Rightarrow> int \<Rightarrow> point_allocation list \<Rightarrow> bool" where
  "alloc_rows d lid as \<longleftrightarrow> distinct (map al_id as) \<and>
    (\<forall>a\<in>set as. find_by al_id (al_id a) (allocations d) = Some a \<and> al_expense_ledger_id a = lid)"

definition restorable :: "point_allocation \<Rightarrow> int" where
  "restorable a = al_amount a - al_restored_amount a"

lemma restore_lots_effect:
  assumes "books_ok d" and "alloc_rows d (pl_id l) as" and "l \<in> set (ledgers d)" "pl_user_id l = uid"
    and "restore_lots now x as d = (n, d')"
  shows "books_ok d' \<and> n = sum_list (map restorable as) \<and> ledgers d' = ledgers d \<and>
    (\<forall>u. points_of d' u = points_of d u) \<and> (user_in d' uid = user_in d uid) \<and>
    (\<forall>u. lot_total d' u = lot_total d u + (if u = uid then n else 0))"
  using assms
proof (induction as arbitrary: d n d')
  case Nil
  then show ?case by simp
next
  case (Cons a as)
  have row: "find_by al_id (al_id a) (allocations d) = Some a" "al_expense_ledger_id a = pl_id l"
      "al_id a \<notin> al_id ` set as"
      "\<And>b. b \<in> set as \<Longrightarrow> find_by al_id (al_id b) (allocations d) = Some b \<and> al_expense_ledger_id b = pl_id l"
    using Cons.prems(2) unfolding alloc_rows_def by simp_all
  have a: "0 \<le> al_restored_amount a" "al_restored_amount a \<le> al_amount a" "linked d a"
    using Cons.prems(1) find_by_mem [OF row(1)] by (auto simp: books_ok_def allocs_ok_def)
  have rest: "alloc_rows d (pl_id l) as"
    using Cons.prems(2) unfolding alloc_rows_def by simp
  let ?r = "al_amount a - al_restored_amount a"
  show ?case
  proof (cases "?r \<le> 0")
    case True
    then have "restore_lots now x as d = (n, d')" using Cons.prems(5) by simp
    then show ?thesis
      using Cons.IH [OF Cons.prems(1) rest Cons.prems(3,4)] True a by (auto simp: restorable_def)
  next
    case False
    obtain lot l' where lot: "lot \<in> set (lots d)" "lot_id lot = al_lot_id a" "l' \<in> set (ledgers d)"
        "pl_id l' = pl_id l" "lot_user_id lot = pl_user_id l'"
      using a(3) row(2) by (auto simp: linked_def)
    then have "l' = l"
      using Cons.prems(1,3) by (metis books_ok_def distinct_map inj_onD ledgers_ok_def)
    then have user: "lot_user_id lot = uid" using lot(5) Cons.prems(4) by simp
    have lots: "lots_ok d" using Cons.prems(1) by (simp add: books_ok_def)
    then have lrow: "find_by lot_id (al_lot_id a) (lots d) = Some lot"
      using lot(1,2) by (metis find_by_distinct lots_ok_def)
    define d1 where "d1 = write_lot (lot_id lot) (restore_lot ?r now x) d"
    define d2 where "d2 = write_allocation (al_id a) (restore_allocation ?r) d1"
    obtain m where m: "restore_lots now x as d2 = (m, d')" "n = ?r + m"
      using Cons.prems(5) False lrow by (auto simp: Let_def d1_def d2_def split: prod.splits)
    have lrem: "0 \<le> lot_remaining_amount lot" using lots lot(1) by (simp add: lots_ok_def)
    have "books_ok d1"
      unfolding d1_def using lrow lot(2) lrem False
      by (intro books_write_lot [OF Cons.prems(1), of _ lot]) simp_all
    then have b2: "books_ok d2"
      unfolding d2_def using row(1) a False
      by (intro books_write_allocation [where a = a]) (simp_all add: d1_def books_simps)
    have f: "ledgers d2 = ledgers d" "points_of d2 u = points_of d u" "user_in d2 u = user_in d u" for u
      by (simp_all add: d2_def d1_def books_simps)
    have "lot_total d2 u = lot_total d1 u" for u by (simp add: d2_def lot_total_def books_simps)
    then have t: "lot_total d2 u = lot_total d u + (if u = uid then ?r else 0)" for u
      using lot_total_write_lot [OF lots, of "lot_id lot" lot "restore_lot ?r now x" u] lrow lot(2) user
      by (simp add: d1_def)
    have "alloc_rows d2 (pl_id l) as"
      unfolding alloc_rows_def
    proof (intro conjI ballI)
      show "distinct (map al_id as)" using Cons.prems(2) by (simp add: alloc_rows_def)
      fix b assume b: "b \<in> set as"
      then have "al_id b \<noteq> al_id a" using row(3) by (metis image_eqI)
      moreover have "find_by al_id (al_id b) (allocations d) = Some b" using row(4) b by blast
      ultimately show "find_by al_id (al_id b) (allocations d2) = Some b"
        by (simp add: d2_def d1_def write_allocation_def books_simps find_by_update_by)
      show "al_expense_ledger_id b = pl_id l" using row(4) b by blast
    qed
    from Cons.IH [OF b2 this _ Cons.prems(4) m(1)] show ?thesis
      using Cons.prems(3) f t m(2) by (auto simp: restorable_def)
  qed
qed

lemma allocations_of_rows:
  assumes "allocs_ok d"
  shows "alloc_rows d lid (allocations_of d lid)"
proof -
  have d: "distinct (map al_id (allocations d))" using assms by (simp add: allocs_ok_def)
  then have "distinct (map al_id (filter (\<lambda>a. al_expense_ledger_id a = lid) (allocations d)))"
    by (simp add: distinct_map inj_on_subset [of al_id "set (allocations d)"])
  then have "distinct (map al_id (allocations_of d lid))"
    by (simp add: allocations_of_def distinct_map)
  then show ?thesis
    using d by (auto simp: alloc_rows_def allocations_of_def find_by_distinct)
qed

lemma restorable_le_spent:
  assumes "books_ok d" and "l \<in> set (ledgers d)"
  shows "sum_list (map restorable (allocations_of d (pl_id l))) \<le> pl_amount l"
proof -
  have "sum_list (map restorable (allocations_of d (pl_id l))) =
      sum_where (\<lambda>a. al_expense_ledger_id a = pl_id l) restorable (allocations d)"
    by (simp add: allocations_of_def sum_where_def sum_list_sort_key)
  also have "\<dots> \<le> alloc_total d (pl_id l)"
  proof -
    have "sum_where P restorable xs \<le> sum_where P al_amount xs"
      if "\<forall>a\<in>set xs. 0 \<le> al_restored_amount a" for P xs
      using that by (induction xs) (auto simp: sum_where_Cons restorable_def)
    then show ?thesis using assms(1) by (simp add: alloc_total_def books_ok_def allocs_ok_def)
  qed
  also have "\<dots> \<le> pl_amount l" using assms by (simp add: books_ok_def spent_ok_def)
  finally show ?thesis .
qed

definition original_debit :: "db \<Rightarrow> int \<Rightarrow> string \<Rightarrow> string \<Rightarrow> point_ledger option" where
  "original_debit d uid biz_type biz_no =
    List.find (\<lambda>l. pl_user_id l = uid \<and> pl_biz_type l = biz_type
                 \<and> pl_biz_no l = biz_no \<and> pl_direction l = Expense) (ledgers d)"

lemma refund_effect:
  assumes ok: "points_ok d" and u: "user_in d uid" and new: "find_ledger d uid (e_key e) = None"
    and c: "refund_locked d uid ob e x now = Inr (l, d')"
  obtains orig where "original_debit d uid ob (e_biz_no e) = Some orig" "points_ok d'" "user_in d' uid"
    "\<And>v. points_of d' v = points_of d v + (if v = uid then pl_amount orig else 0)"
    "\<And>v. lot_total d' v = lot_total d v + (if v = uid then pl_amount orig else 0)"
    "pl_amount l = pl_amount orig" "pl_direction l = Income" "l \<in> set (ledgers d')"
proof -
  have books: "books_ok d" using ok by (simp add: points_ok_def)
  obtain orig where o: "original_debit d uid ob (e_biz_no e) = Some orig"
    using c new by (auto simp: refund_locked_def original_debit_def split: option.splits)
  then have om: "orig \<in> set (ledgers d)" "pl_user_id orig = uid"
    by (auto simp: original_debit_def find_Some_iff)
  let ?n = "pl_amount orig" and ?b = "points_of d uid"
  have n: "0 < ?n" using om books by (simp add: books_ok_def ledgers_ok_def)
  obtain l0 dn where nl: "new_ledger d uid Income ?n ?b (?b + ?n) e = (l0, dn)" by (metis surj_pair)
  then obtain d2 n3 d3 where f: "flush_ledger l0 (set_points uid (?b + ?n) dn) = Inr d2" and l: "l = l0"
      and r: "restore_lots now x (allocations_of d2 (pl_id orig)) d2 = (n3, d3)"
      and d': "d' = (if n3 < ?n then add_lot uid (pl_id l) (?n - n3) x d3 else d3)"
    using c new o by (auto simp: refund_locked_def original_debit_def Let_def split: sum.splits prod.splits)
  have d2: "d2 = post_ledger uid (?b + ?n) l d" using post_new_ledger [OF nl f] l by simp
  note lf = new_ledger_fields [OF nl, folded l]
  have b2: "books_ok d2" unfolding d2 using books lf n by (intro books_post_ledger) simp_all
  have om2: "orig \<in> set (ledgers d2)" using om by (simp add: d2 books_simps)
  have "alloc_rows d2 (pl_id orig) (allocations_of d2 (pl_id orig))"
    using b2 by (intro allocations_of_rows) (simp add: books_ok_def)
  from restore_lots_effect [OF b2 this om2 om(2) r]
  have e: "books_ok d3" "n3 = sum_list (map restorable (allocations_of d2 (pl_id orig)))"
      "ledgers d3 = ledgers d2" "\<And>v. points_of d3 v = points_of d2 v" "user_in d3 uid = user_in d2 uid"
      "\<And>v. lot_total d3 v = lot_total d2 v + (if v = uid then n3 else 0)" by auto
  have n3: "n3 \<le> ?n" using restorable_le_spent [OF b2 om2] e(2) by simp
  have lm: "l \<in> set (ledgers d3)" by (simp add: e(3) d2 books_simps)
  have b': "books_ok d'"
    unfolding d' using e(1) lm lf by (auto intro!: books_add_lot [where l = l])
  have p: "points_of d' v = points_of d v + (if v = uid then ?n else 0)" for v
    using u e(4) by (simp add: d' d2 books_simps)
  have t: "lot_total d' v = lot_total d v + (if v = uid then ?n else 0)" for v
    using e(6) [of v] n3 by (auto simp: d' d2 books_simps)
  have "lot_total d' v \<le> points_of d' v" for v using ok p t by (simp add: points_ok_def)
  moreover have "l \<in> set (ledgers d')" "user_in d' uid"
    using lm u e(5) by (simp_all add: d' d2 books_simps)
  ultimately show thesis
    using that [OF o] b' p t lf by (simp add: points_ok_def)
qed

section \<open>The service as a state machine\<close>

text \<open>Any operation of the service on any account, with any arguments, at any time.\<close>

inductive points_step :: "db \<Rightarrow> db \<Rightarrow> bool" where
  step_credit: "user_in d uid \<Longrightarrow> credit_locked d uid n e x = Inr (l, d') \<Longrightarrow> points_step d d'"
| step_debit: "user_in d uid \<Longrightarrow> debit_locked d uid n e now = Inr (l, d') \<Longrightarrow> points_step d d'"
| step_refund: "user_in d uid \<Longrightarrow> refund_locked d uid ob e x now = Inr (l, d') \<Longrightarrow> points_step d d'"
| step_revoke: "user_in d uid \<Longrightarrow> revoke_credit_locked d uid ck e = Inr (r, d') \<Longrightarrow> points_step d d'"
| step_expire: "user_in d uid \<Longrightarrow> expire_due_locked d uid now = Inr (r, d') \<Longrightarrow> points_step d d'"

text \<open>Accounts from before the ledger: points, but no lots yet.\<close>

definition points_init :: "db \<Rightarrow> bool" where
  "points_init d \<longleftrightarrow> ledgers d = [] \<and> lots d = [] \<and> allocations d = [] \<and> (\<forall>uid. 0 \<le> points_of d uid)"

lemma credit_replays: "0 < n \<Longrightarrow> find_ledger d uid (e_key e) = Some l \<Longrightarrow>
    credit_locked d uid n e x = Inr (l, d)"
  by (simp add: credit_locked_def)

lemma debit_replays: "0 < n \<Longrightarrow> find_ledger d uid (e_key e) = Some l \<Longrightarrow>
    debit_locked d uid n e now = Inr (l, d)"
  by (simp add: debit_locked_def)

lemma refund_replays: "find_ledger d uid (e_key e) = Some l \<Longrightarrow> refund_locked d uid ob e x now = Inr (l, d)"
  by (simp add: refund_locked_def)

lemma revoke_replays: "find_ledger d uid (e_key e) = Some l \<Longrightarrow> revoke_credit_locked d uid ck e = Inr (Some l, d)"
  by (simp add: revoke_credit_locked_def)

lemma points_step_ok: "points_step d d' \<Longrightarrow> points_ok d \<Longrightarrow> points_ok d'"
proof (induction rule: points_step.induct)
  case (step_credit d uid n e x l d')
  show ?case
  proof (cases "find_ledger d uid (e_key e)")
    case None
    moreover have "0 < n" using step_credit(2) by (auto simp: credit_locked_def split: if_splits)
    ultimately show ?thesis using credit_effect step_credit by blast
  next
    case (Some l')
    then show ?thesis using step_credit by (auto simp: credit_locked_def split: if_splits)
  qed
next
  case (step_debit d uid n e now l d')
  show ?case
  proof (cases "find_ledger d uid (e_key e)")
    case None
    then show ?thesis using debit_effect step_debit by blast
  next
    case (Some l')
    then show ?thesis using step_debit by (auto simp: debit_locked_def split: if_splits)
  qed
next
  case (step_refund d uid ob e x now l d')
  show ?case
  proof (cases "find_ledger d uid (e_key e)")
    case None
    then show ?thesis using refund_effect [OF step_refund(3,1) None step_refund(2)] by blast
  next
    case (Some l')
    then show ?thesis using step_refund refund_replays [OF Some] by simp
  qed
next
  case (step_revoke d uid ck e r d')
  then show ?case using revoke_effect by blast
next
  case (step_expire d uid now r d')
  then show ?case using expire_effect by blast
qed

interpretation points: machine points_init points_step points_ok
proof
  show "points_ok d" if "points_init d" for d
    using that by (simp add: points_init_def points_ok_def books_ok_def lots_ok_def ledgers_ok_def
        allocs_ok_def spent_ok_def sources_ok_def lot_total_def)
  show "points_ok d'" if "points_ok d" "points_step d d'" for d d'
    using that points_step_ok by blast
qed

section \<open>Properties\<close>

text \<open>A small database to evaluate on: one user with 7 points from before the ledger.\<close>

definition points_db :: db where
  "points_db = empty_db\<lparr>users := [sample_user 1 7 0]\<rparr>"

definition sample_entry :: "string \<Rightarrow> entry" where
  "sample_entry k = \<lparr>e_biz_type = ''travel_exchange'', e_biz_id = 1, e_biz_no = ''TR1'', e_key = k, e_remark = []\<rparr>"

lemmas sample_simps = points_db_def empty_db_def sample_user_def sample_entry_def

lemma points_db_ok: "points_ok points_db" "user_in points_db 1"
proof -
  have "points_init points_db"
    by (simp add: points_init_def sample_simps points_of_def find_user_def find_by_Cons)
  then show "points_ok points_db" by (rule points.init_inv)
  show "user_in points_db 1" by (simp add: user_in_def find_user_def sample_simps find_by_Cons)
qed

text \<open>
  C3: in every state the points service can reach from accounts without lots, by any
  sequence of credits, debits, refunds, revocations and expiry sweeps, the lots, the
  ledger and the allocations fit together and the unspent points of a user's lots are
  never negative and never exceed the user's points.
\<close>

theorem points_reachable_ok:
  assumes "points_init d" and "runs points_step d d'"
  shows "books_ok d' \<and> 0 \<le> lot_total d' uid \<and> lot_total d' uid \<le> points_of d' uid"
proof -
  have "points_ok d'" using assms by (rule points.reachable_inv)
  then show ?thesis
    using lot_total_nonneg [of d' uid] by (simp add: points_ok_def books_ok_def)
qed

theorem points_reachable_ok_witness:
  "\<exists>d'. runs points_step points_db d' \<and> points_of d' 1 = 2 \<and> lot_total d' 1 \<le> points_of d' 1"
proof -
  have "\<not> isl (debit_locked points_db 1 5 (sample_entry ''e'') 50)" by code_simp
  from not_isl_ex [OF this] obtain l d' where d: "debit_locked points_db 1 5 (sample_entry ''e'') 50 = Inr (l, d')"
    by blast
  have "find_ledger points_db 1 (e_key (sample_entry ''e'')) = None" by code_simp
  moreover have "due_total points_db 1 50 = 0" "points_of points_db 1 = 7" by code_simp+
  ultimately have "points_of d' 1 = 2"
    using debit_effect [OF points_db_ok _ d] by simp
  moreover have run: "runs points_step points_db d'"
    using points_db_ok(2) d by (blast intro: runs.intros points_step.intros)
  moreover have "points_init points_db" by (simp add: points_init_def sample_simps points_of_def find_user_def find_by_Cons)
  ultimately show ?thesis using points_reachable_ok [of points_db d' 1] by blast
qed

text \<open>
  C12: a credit under a new key raises the user's points and the unspent points of the
  lots by exactly its amount, leaves every other user alone, and appends one ledger row
  whose balances before and after are the user's points before and after.
\<close>

theorem credit_posts_exactly:
  assumes "points_ok d" and "user_in d uid" and "0 < n"
    and "find_ledger d uid (e_key e) = None" and "credit_locked d uid n e x = Inr (l, d')"
  shows "points_ok d' \<and> ledgers d' = ledgers d @ [l] \<and> pl_amount l = n \<and> pl_direction l = Income \<and>
    pl_balance_before l = points_of d uid \<and> pl_balance_after l = points_of d' uid \<and>
    (\<forall>v. points_of d' v = points_of d v + (if v = uid then n else 0)) \<and>
    (\<forall>v. lot_total d' v = lot_total d v + (if v = uid then n else 0))"
  using credit_effect [OF assms] by blast

theorem credit_posts_exactly_witness:
  "\<exists>l d'. credit_locked points_db 1 10 (sample_entry ''c'') (Some 100) = Inr (l, d') \<and>
     points_of d' 1 = 17 \<and> lot_total d' 1 = 10"
proof -
  have "\<not> isl (credit_locked points_db 1 10 (sample_entry ''c'') (Some 100))" by code_simp
  from not_isl_ex [OF this] obtain l d' where
    d: "credit_locked points_db 1 10 (sample_entry ''c'') (Some 100) = Inr (l, d')" by blast
  have "find_ledger points_db 1 (e_key (sample_entry ''c'')) = None" by code_simp
  moreover have "points_of points_db 1 = 7" "lot_total points_db 1 = 0" by code_simp+
  ultimately show ?thesis
    using d credit_posts_exactly [OF points_db_ok _ _ d] by auto
qed

text \<open>
  C13: a debit that succeeds under a new key takes the points that had expired and its
  own amount from the user, nothing from anyone else, never below zero; the lots it
  consumed add up to its amount, and afterwards the lots carry exactly the balance.
\<close>

theorem debit_spends_exactly:
  assumes "points_ok d" and "user_in d uid" and "find_ledger d uid (e_key e) = None"
    and "debit_locked d uid n e now = Inr (l, d')"
  shows "points_of d' uid = points_of d uid - due_total d uid now - n \<and> 0 \<le> points_of d' uid \<and>
    (\<forall>v. v \<noteq> uid \<longrightarrow> points_of d' v = points_of d v) \<and>
    alloc_total d' (pl_id l) = n \<and> lot_total d' uid = points_of d' uid \<and> points_ok d'"
  using debit_effect [OF assms] by blast

theorem debit_spends_exactly_witness:
  "\<exists>l d'. debit_locked points_db 1 5 (sample_entry ''e'') 50 = Inr (l, d') \<and>
     points_of d' 1 = 2 \<and> alloc_total d' (pl_id l) = 5"
proof -
  have "\<not> isl (debit_locked points_db 1 5 (sample_entry ''e'') 50)" by code_simp
  from not_isl_ex [OF this] obtain l d' where
    d: "debit_locked points_db 1 5 (sample_entry ''e'') 50 = Inr (l, d')" by blast
  have "find_ledger points_db 1 (e_key (sample_entry ''e'')) = None" by code_simp
  moreover have "due_total points_db 1 50 = 0" "points_of points_db 1 = 7" by code_simp+
  ultimately show ?thesis
    using d debit_spends_exactly [OF points_db_ok _ d] by auto
qed

text \<open>
  Which of two lots is to be spent first: the one that expires earlier, any that expires before
  one that does not, and among equals the older one.
\<close>

definition expires_before :: "point_lot \<Rightarrow> point_lot \<Rightarrow> bool" where
  "expires_before a b \<longleftrightarrow>
    (case (lot_expires_at a, lot_expires_at b) of
       (Some s, Some t) \<Rightarrow> s < t \<or> s = t \<and> lot_id a < lot_id b
     | (Some s, None) \<Rightarrow> True
     | (None, Some t) \<Rightarrow> False
     | (None, None) \<Rightarrow> lot_id a < lot_id b)"

lemma expires_before_key: "expires_before a b \<Longrightarrow> spend_key a < spend_key b"
  by (auto simp: expires_before_def spend_key_def split: option.splits)

text \<open>
  C14: a debit uses the lots that expire first. Of two usable lots, one of which expires
  earlier (or expires at all, or has the same expiry and is older), the other keeps all its
  points unless the earlier one is empty after the debit.
\<close>

theorem debit_soonest_first:
  assumes ok: "points_ok d" and u: "user_in d uid" and new: "find_ledger d uid (e_key e) = None"
    and c: "debit_locked d uid n e now = Inr (l, d')"
    and a: "a \<in> set (lots d)" "usable_lot uid now a" and b: "b \<in> set (lots d)" "usable_lot uid now b"
    and less: "expires_before a b"
  shows "find_by lot_id (lot_id b) (lots d') = Some b \<or>
    (\<exists>a'. find_by lot_id (lot_id a) (lots d') = Some a' \<and> lot_remaining_amount a' = 0)"
proof -
  have n: "0 < n" using debit_effect [OF ok u new c] by blast
  obtain r d1 d2 l0 dn d4 where x: "expire_due_locked d uid now = Inr (r, d1)"
      and en: "ensure_lot_coverage d1 uid now = Inr d2"
      and nl: "new_ledger d2 uid Expense n (points_of d1 uid) (points_of d1 uid - n) e = (l0, dn)"
      and f: "flush_ledger l0 (set_points uid (points_of d1 uid - n) dn) = Inr d4"
      and d': "d' = consume_lots (pl_id l0) n (spend_order d2 uid now) d4"
    using c n new by (auto simp: debit_locked_def Let_def split: sum.splits if_splits prod.splits)
  have d4: "lots d4 = lots d2" using post_new_ledger [OF nl f] by (simp add: books_simps)
  have in2: "m \<in> set (lots d2)" if "m \<in> set (lots d)" "usable_lot uid now m" for m
    using usable_lot_survives [OF ok x en] that by blast
  have lots: "lots_ok d2"
    using ensure_effect expire_effect ok u x en unfolding points_ok_def books_ok_def by metis
  have rows: "rows_of d4 uid (spend_order d2 uid now)"
    using spend_order_rows [OF lots] by (simp add: rows_of_same [OF d4])
  show ?thesis
    unfolding d'
  proof (rule consume_lots_first [OF rows])
    show "sorted (map spend_key (spend_order d2 uid now))" by (simp add: spend_order_def)
    show "a \<in> set (spend_order d2 uid now)" "b \<in> set (spend_order d2 uid now)"
      using in2 a b by (simp_all add: spend_order_def)
    show "spend_key a < spend_key b" using less by (rule expires_before_key)
  qed (use n in simp_all)
qed

definition sample_ledger :: "int \<Rightarrow> int \<Rightarrow> string \<Rightarrow> point_ledger" where
  "sample_ledger i n key = \<lparr>pl_id = i, pl_transaction_no = ''L'' @ key, pl_user_id = 1, pl_user_no = ''U1'',
    pl_direction = Income, pl_amount = n, pl_balance_before = 0, pl_balance_after = 0,
    pl_biz_type = ''x'', pl_biz_id = 0, pl_biz_no = [], pl_idempotency_key = key, pl_remark = []\<rparr>"

definition sample_lot :: "int \<Rightarrow> int \<Rightarrow> time option \<Rightarrow> point_lot" where
  "sample_lot i n x = \<lparr>lot_id = i, lot_user_id = 1, lot_source_ledger_id = i, lot_original_amount = n,
    lot_remaining_amount = n, lot_expires_at = x, lot_status = LotActive\<rparr>"

text \<open>Two lots: 10 points without expiry, then 5 points that expire at time 100.\<close>

definition lots_db :: db where
  "lots_db = points_db\<lparr>users := [sample_user 1 15 0],
     ledgers := [sample_ledger 1 10 ''a'', sample_ledger 2 5 ''b''],
     lots := [sample_lot 1 10 None, sample_lot 2 5 (Some 100)]\<rparr>"

lemma lots_db_ok: "points_ok lots_db" "user_in lots_db 1"
  by (auto simp: lots_db_def sample_simps sample_ledger_def sample_lot_def points_ok_def books_ok_def
      lots_ok_def ledgers_ok_def allocs_ok_def spent_ok_def sources_ok_def alloc_total_def lot_total_def
      table_simps points_of_def find_user_def user_in_def)

theorem debit_soonest_first_witness:
  "\<exists>l d'. debit_locked lots_db 1 6 (sample_entry ''e'') 50 = Inr (l, d') \<and>
     (find_by lot_id 1 (lots d') = Some (sample_lot 1 10 None) \<or>
      (\<exists>a'. find_by lot_id 2 (lots d') = Some a' \<and> lot_remaining_amount a' = 0))"
proof -
  have "\<not> isl (debit_locked lots_db 1 6 (sample_entry ''e'') 50)" by code_simp
  from not_isl_ex [OF this] obtain l d' where
    d: "debit_locked lots_db 1 6 (sample_entry ''e'') 50 = Inr (l, d')" by blast
  have "find_ledger lots_db 1 (e_key (sample_entry ''e'')) = None" by code_simp
  moreover have "expires_before (sample_lot 2 5 (Some 100)) (sample_lot 1 10 None)"
    by (simp add: expires_before_def sample_lot_def)
  moreover have "sample_lot 2 5 (Some 100) \<in> set (lots lots_db)" "sample_lot 1 10 None \<in> set (lots lots_db)"
    "usable_lot 1 50 (sample_lot 2 5 (Some 100))" "usable_lot 1 50 (sample_lot 1 10 None)"
    by (simp_all add: lots_db_def usable_lot_def sample_lot_def)
  ultimately show ?thesis
    using debit_soonest_first [OF lots_db_ok _ d, of "sample_lot 2 5 (Some 100)" "sample_lot 1 10 None"] d
    by (auto simp: sample_lot_def)
qed

text \<open>
  A debit for more than the user has left once expired points are gone fails with
  \<open>INSUFFICIENT_POINTS\<close>; a debit that is not positive fails with \<open>INVALID_POINT_AMOUNT\<close>.
\<close>

theorem debit_refused:
  assumes "points_ok d" and "user_in d uid" and "find_ledger d uid (e_key e) = None"
    and "expire_due_locked d uid now = Inr (r, d1)"
  shows "(n \<le> 0 \<longrightarrow> debit_locked d uid n e now = Inl (BusinessError 400 ''INVALID_POINT_AMOUNT'')) \<and>
      (0 < n \<and> points_of d uid - due_total d uid now < n \<longrightarrow>
        debit_locked d uid n e now = Inl (BusinessError 400 ''INSUFFICIENT_POINTS''))"
  using assms(3,4) expire_effect [OF assms(1,2,4)] by (auto simp: debit_locked_def Let_def)

theorem debit_refused_witness:
  "debit_locked points_db 1 8 (sample_entry ''e'') 50 = Inl (BusinessError 400 ''INSUFFICIENT_POINTS'')"
proof -
  have "\<not> isl (expire_due_locked points_db 1 50)" by code_simp
  from not_isl_ex [OF this] obtain r d1 where x: "expire_due_locked points_db 1 50 = Inr (r, d1)" by blast
  have "find_ledger points_db 1 (e_key (sample_entry ''e'')) = None"
    "due_total points_db 1 50 = 0" "points_of points_db 1 = 7" by code_simp+
  then show ?thesis
    using debit_refused [OF points_db_ok _ x, of "sample_entry ''e''" 8] by simp
qed

lemma find_append_last: "\<not> list_ex P xs \<Longrightarrow> P x \<Longrightarrow> List.find P (xs @ [x]) = Some x"
  by (induction xs) auto

lemma find_after_flush:
  assumes "flush_ledger l d = Inr d'"
  shows "find_ledger d' (pl_user_id l) (pl_idempotency_key l) = Some l"
proof -
  have "\<not> list_ex (\<lambda>r. pl_user_id r = pl_user_id l \<and> pl_idempotency_key r = pl_idempotency_key l
         \<or> pl_transaction_no r = pl_transaction_no l) (ledgers d)" and d': "d' = d\<lparr>ledgers := ledgers d @ [l]\<rparr>"
    using assms by (auto simp: flush_ledger_Inr)
  then have "\<not> list_ex (\<lambda>r. pl_user_id r = pl_user_id l \<and> pl_idempotency_key r = pl_idempotency_key l) (ledgers d)"
    by (auto simp: list_ex_iff)
  from find_append_last [OF this]
  have "List.find (\<lambda>r. pl_user_id r = pl_user_id l \<and> pl_idempotency_key r = pl_idempotency_key l)
      (ledgers d @ [l]) = Some l" by simp
  then show ?thesis by (simp add: find_ledger_def d')
qed

lemma debit_then_found:
  assumes "debit_locked d uid n e now = Inr (l, d')" and "length (e_key e) \<le> 160"
  shows "find_ledger d' uid (e_key e) = Some l"
proof (cases "find_ledger d uid (e_key e)")
  case None
  have n: "0 < n" using assms(1) by (auto simp: debit_locked_def split: if_splits)
  with None obtain r d1 d2 dn d4 where nl: "new_ledger d2 uid Expense n (points_of d1 uid) (points_of d1 uid - n) e = (l, dn)"
      and f: "flush_ledger l (set_points uid (points_of d1 uid - n) dn) = Inr d4"
      and d': "d' = consume_lots (pl_id l) n (spend_order d2 uid now) d4"
    using assms(1) by (auto simp: debit_locked_def Let_def split: sum.splits if_splits prod.splits)
  have "find_ledger d4 uid (e_key e) = Some l"
    using find_after_flush [OF f] new_ledger_fields [OF nl] assms(2) by simp
  then show ?thesis by (simp add: d' find_ledger_def books_simps)
next
  case (Some l')
  then show ?thesis using assms(1) by (auto simp: debit_locked_def split: if_splits)
qed

lemma credit_then_found:
  assumes "credit_locked d uid n e x = Inr (l, d')" and "length (e_key e) \<le> 160"
  shows "find_ledger d' uid (e_key e) = Some l"
proof -
  obtain l0 dn where nl: "new_ledger d uid Income n (points_of d uid) (points_of d uid + n) e = (l0, dn)"
    by (metis surj_pair)
  consider (found) "find_ledger d uid (e_key e) = Some l" "d' = d"
    | (posted) d2 where "flush_ledger l0 (set_points uid (points_of d uid + n) dn) = Inr d2"
        "l = l0" "d' = add_lot uid (pl_id l0) n x d2"
    using assms(1) nl by (auto simp: credit_locked_def Let_def split: if_splits option.splits sum.splits)
  then show ?thesis
  proof cases
    case posted
    then show ?thesis
      using find_after_flush [OF posted(1)] new_ledger_fields [OF nl] assms(2)
      by (simp add: find_ledger_def books_simps)
  qed simp_all
qed

lemma restore_lots_ledgers: "restore_lots now x as d = (n, d') \<Longrightarrow> ledgers d' = ledgers d"
  by (induction "as" arbitrary: d n d')
    (auto simp: Let_def books_simps split: option.splits prod.splits if_splits)

lemma refund_then_found:
  assumes "refund_locked d uid ob e x now = Inr (l, d')" and "length (e_key e) \<le> 160"
  shows "find_ledger d' uid (e_key e) = Some l"
proof (cases "find_ledger d uid (e_key e)")
  case None
  obtain orig where orig: "original_debit d uid ob (e_biz_no e) = Some orig"
    using assms(1) None by (auto simp: refund_locked_def original_debit_def split: option.splits)
  obtain l0 dn where
      nl: "new_ledger d uid Income (pl_amount orig) (points_of d uid) (points_of d uid + pl_amount orig) e = (l0, dn)"
    by (metis surj_pair)
  obtain d2 where f: "flush_ledger l0 (set_points uid (points_of d uid + pl_amount orig) dn) = Inr d2"
    using assms(1) None orig [unfolded original_debit_def] nl
    by (auto simp: refund_locked_def Let_def split: sum.splits)
  obtain n3 d3 where r: "restore_lots now x (allocations_of d2 (pl_id orig)) d2 = (n3, d3)"
    by (metis surj_pair)
  have l: "l = l0" and d': "ledgers d' = ledgers d3"
    using assms(1) None orig [unfolded original_debit_def] nl f r
    by (auto simp: refund_locked_def Let_def books_simps split: if_splits)
  have "ledgers d' = ledgers d2"
    using restore_lots_ledgers [OF r] d' by simp
  moreover have "find_ledger d2 uid (e_key e) = Some l"
    using find_after_flush [OF f] new_ledger_fields [OF nl] assms(2) l by simp
  ultimately show ?thesis by (simp add: find_ledger_def)
next
  case (Some l')
  then show ?thesis using assms(1) refund_replays [OF Some] by auto
qed

text \<open>
  C15: an idempotency key works once. After a credit, a debit or a refund has succeeded,
  the same call on the resulting database returns the same ledger row and changes
  nothing, whatever the amounts and times of the second call (keys of at most 160
  characters: longer ones are stored cut off).
\<close>

theorem points_idempotent:
  assumes "length (e_key e) \<le> 160" and "0 < m"
  shows "(credit_locked d uid n e x = Inr (l, d') \<longrightarrow> credit_locked d' uid m e x' = Inr (l, d')) \<and>
    (debit_locked d uid n e now = Inr (l, d') \<longrightarrow> debit_locked d' uid m e now' = Inr (l, d')) \<and>
    (refund_locked d uid ob e x now = Inr (l, d') \<longrightarrow> refund_locked d' uid ob' e x' now' = Inr (l, d'))"
proof (intro conjI impI)
  show "credit_locked d' uid m e x' = Inr (l, d')" if "credit_locked d uid n e x = Inr (l, d')"
    by (rule credit_replays [OF assms(2) credit_then_found [OF that assms(1)]])
  show "debit_locked d' uid m e now' = Inr (l, d')" if "debit_locked d uid n e now = Inr (l, d')"
    by (rule debit_replays [OF assms(2) debit_then_found [OF that assms(1)]])
  show "refund_locked d' uid ob' e x' now' = Inr (l, d')" if "refund_locked d uid ob e x now = Inr (l, d')"
    by (rule refund_replays [OF refund_then_found [OF that assms(1)]])
qed

theorem points_idempotent_witness:
  "\<exists>l d'. debit_locked points_db 1 5 (sample_entry ''e'') 50 = Inr (l, d') \<and>
     debit_locked d' 1 3 (sample_entry ''e'') 60 = Inr (l, d')"
proof -
  have "\<not> isl (debit_locked points_db 1 5 (sample_entry ''e'') 50)" by code_simp
  from not_isl_ex [OF this] obtain l d' where
    d: "debit_locked points_db 1 5 (sample_entry ''e'') 50 = Inr (l, d')" by blast
  have "length (e_key (sample_entry ''e'')) \<le> 160" by (simp add: sample_entry_def)
  from points_idempotent [OF this, of 3] d show ?thesis by auto
qed

text \<open>
  C16: a refund gives back exactly what the original debit took: the user's points and the
  unspent points of the user's lots both grow by the amount of the debit it names, no
  other user is touched, and the books stay in order.
\<close>

theorem refund_pays_back:
  assumes "points_ok d" and "user_in d uid" and "find_ledger d uid (e_key e) = None"
    and "original_debit d uid ob (e_biz_no e) = Some orig"
    and "refund_locked d uid ob e x now = Inr (l, d')"
  shows "points_ok d' \<and> pl_amount l = pl_amount orig \<and>
    (\<forall>v. points_of d' v = points_of d v + (if v = uid then pl_amount orig else 0)) \<and>
    (\<forall>v. lot_total d' v = lot_total d v + (if v = uid then pl_amount orig else 0))"
  using refund_effect [OF assms(1,2,3,5)] assms(4) by (metis option.inject)

definition spent_db :: db where
  "spent_db = (case debit_locked points_db 1 5 (sample_entry ''e'') 50 of Inr (_, d) \<Rightarrow> d | _ \<Rightarrow> points_db)"

theorem refund_pays_back_witness:
  "\<exists>l d'. refund_locked spent_db 1 ''travel_exchange'' (sample_entry ''r'') None 60 = Inr (l, d') \<and>
     points_of d' 1 = 7 \<and> lot_total d' 1 = 7"
proof -
  have "\<not> isl (debit_locked points_db 1 5 (sample_entry ''e'') 50)" by code_simp
  from not_isl_ex [OF this] obtain l0 d0 where
    d0: "debit_locked points_db 1 5 (sample_entry ''e'') 50 = Inr (l0, d0)" by blast
  have "find_ledger points_db 1 (e_key (sample_entry ''e'')) = None" by code_simp
  then have ok: "points_ok spent_db" "user_in spent_db 1"
    using debit_effect [OF points_db_ok _ d0] by (simp_all add: spent_db_def d0)
  have "\<not> isl (refund_locked spent_db 1 ''travel_exchange'' (sample_entry ''r'') None 60)" by code_simp
  from not_isl_ex [OF this] obtain l d' where
    d: "refund_locked spent_db 1 ''travel_exchange'' (sample_entry ''r'') None 60 = Inr (l, d')" by blast
  have "find_ledger spent_db 1 (e_key (sample_entry ''r'')) = None" by code_simp
  moreover have "map_option pl_amount (original_debit spent_db 1 ''travel_exchange'' (e_biz_no (sample_entry ''r''))) = Some 5"
    by code_simp
  moreover have "points_of spent_db 1 = 2" "lot_total spent_db 1 = 2" by code_simp+
  ultimately show ?thesis
    using d refund_pays_back [OF ok _ _ d] by auto
qed

text \<open>
  C17: revoking a credit (the refund of the purchase that earned it) takes back only what
  is left of it: it always succeeds when its ledger row can be written, never makes the
  balance negative and touches no other user.
\<close>

theorem revoke_never_overdraws:
  assumes "points_ok d" and "user_in d uid"
    and "revoke_credit_locked d uid ck e = Inr (r, d')"
  shows "0 \<le> points_of d' uid \<and> points_of d' uid \<le> points_of d uid \<and>
    (\<forall>v. v \<noteq> uid \<longrightarrow> points_of d' v = points_of d v) \<and> points_ok d'"
  using revoke_effect [OF assms] by auto

theorem revoke_never_overdraws_witness:
  "\<exists>r d'. revoke_credit_locked lots_db 1 ''b'' (sample_entry ''r'') = Inr (r, d') \<and>
     0 \<le> points_of d' 1 \<and> points_of d' 1 \<le> 15"
proof -
  have "\<not> isl (revoke_credit_locked lots_db 1 ''b'' (sample_entry ''r''))" by code_simp
  from not_isl_ex [OF this] obtain r d' where
    d: "revoke_credit_locked lots_db 1 ''b'' (sample_entry ''r'') = Inr (r, d')" by blast
  have "points_of lots_db 1 = 15" by code_simp
  then show ?thesis using revoke_never_overdraws [OF lots_db_ok d] d by auto
qed

section \<open>A key the sweep uses twice\<close>

text \<open>
  The expiry row's key is built from the highest lot id swept. A lot that has expired and
  come back with a refund expires again under the same key.
\<close>

definition sweep_key :: "db \<Rightarrow> int \<Rightarrow> time \<Rightarrow> string" where
  "sweep_key d uid now = ''points-expired:'' @ str_int uid @ '':'' @
     str_int (foldr max (map lot_id (due_lots d uid now)) 0)"

text \<open>
  C18: when a sweep is due and the user's ledger already has a row under the key this
  sweep would use, the sweep fails with an integrity error, and with it every debit of
  the user, whatever the balance.
\<close>

theorem sweep_key_collision:
  assumes "points_ok d" and "due_lots d uid now \<noteq> []"
    and "find_ledger d uid (sweep_key d uid now) = Some old" and "length (sweep_key d uid now) \<le> 160"
    and "find_ledger d uid (e_key e) = None" and "0 < n"
  shows "expire_due_locked d uid now = Inl IntegrityError \<and> debit_locked d uid n e now = Inl IntegrityError"
proof -
  have m: "min (sum_list (map lot_remaining_amount (due_lots d uid now))) (points_of d uid) = due_total d uid now"
      "0 < due_total d uid now"
    using due_total_pos [OF assms(2)] due_le_points [OF assms(1), of uid now] by (simp_all add: due_lots_sum)
  have old: "old \<in> set (ledgers d)" "pl_user_id old = uid" "pl_idempotency_key old = sweep_key d uid now"
    using find_ledger_SomeD [OF assms(3)] by auto
  have "expire_due_locked d uid now = Inl IntegrityError"
    using assms(2) m old assms(4)
    by (auto simp: expire_due_locked_def Let_def new_ledger_def draw_no_def flush_ledger_def set_points_def
        list_ex_iff sweep_key_def)
  then show ?thesis using assms(5,6) by (simp add: debit_locked_def)
qed

text \<open>Credit, debit, sweep, refund after the expiry, and the sweep of the refunded lot.\<close>

definition twice1 :: db where
  "twice1 = after_run points_db (credit_locked points_db 1 10 (sample_entry ''c'') (Some 100))"

definition twice2 :: db where
  "twice2 = after_run twice1 (debit_locked twice1 1 4 (sample_entry ''e'') 50)"

definition twice3 :: db where
  "twice3 = after_run twice2 (expire_due_locked twice2 1 150)"

definition twice4 :: db where
  "twice4 = after_run twice3 (refund_locked twice3 1 ''travel_exchange'' (sample_entry ''r'') (Some 300) 200)"

lemma after_step:
  assumes "\<not> isl r" and "\<And>a b. r = Inr (a, b) \<Longrightarrow> points_step d b" and "points_ok d"
  shows "points_ok (after_run d r)"
proof -
  obtain a b where r: "r = Inr (a, b)" using not_isl_ex [OF assms(1)] by blast
  show ?thesis using points_step_ok [OF assms(2) [OF r] assms(3)] r by (simp add: after_run_def)
qed

lemma twice4_ok: "points_ok twice4"
proof -
  have "map_option ua_id (find_user twice1 1) = Some 1" by code_simp
  moreover have "map_option ua_id (find_user twice2 1) = Some 1" by code_simp
  moreover have "map_option ua_id (find_user twice3 1) = Some 1" by code_simp
  ultimately have u: "user_in twice1 1" "user_in twice2 1" "user_in twice3 1"
    by (auto simp: user_in_def)
  have "\<not> isl (credit_locked points_db 1 10 (sample_entry ''c'') (Some 100))" by code_simp
  then have "points_ok twice1"
    unfolding twice1_def by (rule after_step) (rule step_credit [OF points_db_ok(2)], assumption, rule points_db_ok)
  moreover have "\<not> isl (debit_locked twice1 1 4 (sample_entry ''e'') 50)" by code_simp
  ultimately have "points_ok twice2"
    unfolding twice2_def by (rule after_step [rotated 2]) (rule step_debit [OF u(1)])
  moreover have "\<not> isl (expire_due_locked twice2 1 150)" by code_simp
  ultimately have "points_ok twice3"
    unfolding twice3_def by (rule after_step [rotated 2]) (rule step_expire [OF u(2)])
  moreover have "\<not> isl (refund_locked twice3 1 ''travel_exchange'' (sample_entry ''r'') (Some 300) 200)"
    by code_simp
  ultimately show ?thesis
    unfolding twice4_def by (rule after_step [rotated 2]) (rule step_refund [OF u(3)])
qed

theorem sweep_key_collision_witness:
  "expire_due_locked twice4 1 400 = Inl IntegrityError \<and>
   debit_locked twice4 1 1 (sample_entry ''n'') 400 = Inl IntegrityError \<and> points_of twice4 1 = 11"
proof -
  have "due_lots twice4 1 400 \<noteq> []" by code_simp
  moreover have "find_ledger twice4 1 (sweep_key twice4 1 400) \<noteq> None" by code_simp
  moreover have "length (sweep_key twice4 1 400) \<le> 160" by code_simp
  moreover have "find_ledger twice4 1 (e_key (sample_entry ''n'')) = None" by code_simp
  moreover have "points_of twice4 1 = 11" by code_simp
  ultimately show ?thesis
    using sweep_key_collision [OF twice4_ok, of 1 400 _ "sample_entry ''n''" 1] by auto
qed

end
