(* ===== verification/Order_Life.thy ===== *)
theory Order_Life
  imports Orders
begin

text \<open>
  The rest of \<open>app/services/order_service.py\<close>, what happens to an order after it has been
  created: payment with its side effects (membership, sales, entitlements, the learning
  profile and the reward points), cancellation of an unpaid order, and the refund of a paid
  one; and \<open>app/tasks/order_tasks.py\<close>, the delayed cancellation and its sweep.
\<close>

section \<open>Payment\<close>

definition extend_vip :: "time \<Rightarrow> plan \<Rightarrow> user_account \<Rightarrow> user_account" where
  "extend_vip now p u =
    (let current_end = (case ua_vip_expires_at u of
           Some t \<Rightarrow> if ua_vip_enabled u \<and> now < t then t else now
         | None \<Rightarrow> now)
     in u\<lparr>ua_vip_enabled := True, ua_vip_type := vp_vip_type p,
          ua_vip_started_at := (case ua_vip_started_at u of Some t \<Rightarrow> Some t | None \<Rightarrow> Some now),
          ua_vip_expires_at := Some (current_end + days (vp_duration_days p)),
          ua_vip_remark := ''vip order''\<rparr>)"

definition mark_item_paid :: "order_item \<Rightarrow> order_item" where
  "mark_item_paid i = i\<lparr>oi_status := OrdPaid\<rparr>"

fun activate_vip :: "time \<Rightarrow> int \<Rightarrow> order_item list \<Rightarrow> db \<Rightarrow> db result" where
  "activate_vip now uid [] d = Inr d"
| "activate_vip now uid (i # is) d =
     (case get_vip_plan d \<bar>oi_product_id i\<bar> True of
        Inl e \<Rightarrow> Inl e
      | Inr None \<Rightarrow> activate_vip now uid is d
      | Inr (Some p) \<Rightarrow>
          activate_vip now uid is (set_item (oi_id i) mark_item_paid (set_user uid (extend_vip now p) d)))"

text \<open>\<open>_entitlement_expiry\<close>.\<close>

definition entitlement_expiry :: "time \<Rightarrow> study_product \<Rightarrow> time option" where
  "entitlement_expiry now p =
    (if sp_billing_cycle p = ''month'' then Some (now + days 30)
     else if sp_billing_cycle p = ''year'' then Some (now + days 365)
     else None)"

definition add_entitlement :: "time \<Rightarrow> int \<Rightarrow> int \<Rightarrow> order_item \<Rightarrow> study_product \<Rightarrow> db \<Rightarrow> db" where
  "add_entitlement now uid oid i p d =
    d\<lparr>entitlements := entitlements d @
      [\<lparr>ue_id = fresh_id ue_id (entitlements d), ue_user_id = uid, ue_product_id = oi_product_id i,
        ue_order_id = oid, ue_entitlement_type = oi_product_type i, ue_starts_at = now,
        ue_expires_at = entitlement_expiry now p, ue_progress = 0, ue_status = ''active''\<rparr>]\<rparr>"

definition grant_item :: "time \<Rightarrow> int \<Rightarrow> int \<Rightarrow> order_item \<Rightarrow> db \<Rightarrow> db" where
  "grant_item now uid oid i d =
    (case find_by sp_id (oi_product_id i) (products d) of
       None \<Rightarrow> d
     | Some p \<Rightarrow>
         set_item (oi_id i) mark_item_paid
           ((add_entitlement now uid oid i p ^^ nat (oi_quantity i))
             (set_product (sp_id p) (\<lambda>r. r\<lparr>sp_sales := sp_sales r + oi_quantity i\<rparr>) d)))"

definition default_profile :: "int \<Rightarrow> learning_profile" where
  "default_profile uid =
    \<lparr>lp_user_id = uid, lp_target_exam = ''pending'', lp_current_stage = ''foundation'', lp_school_major_status = [],
     lp_interest_tags = [], lp_onboarding_version = 0, lp_onboarding_answers = JObj [],
     lp_onboarding_completed_at = None, lp_total_minutes = 0, lp_checkin_days = 0,
     lp_last_checkin_at = None, lp_advisor_notes = []\<rparr>"

definition ensure_profile :: "int \<Rightarrow> db \<Rightarrow> db" where
  "ensure_profile uid d =
    (if find_by lp_user_id uid (profiles d) = None
     then d\<lparr>profiles := profiles d @ [default_profile uid]\<rparr> else d)"

definition is_vip_item :: "order_item \<Rightarrow> bool" where
  "is_vip_item i \<longleftrightarrow> oi_product_type i = ''vip''"

definition purchase_reward :: "point_rule option \<Rightarrow> bool \<Rightarrow> bool \<Rightarrow> int" where
  "purchase_reward rl vip_order has_study =
    (case rl of
       None \<Rightarrow> 0
     | Some r \<Rightarrow>
         if vip_order \<and> pr_enabled r \<and> pr_vip_purchase_enabled r then pr_vip_purchase_score r
         else if has_study \<and> pr_enabled r \<and> pr_purchase_enabled r then pr_purchase_score r
         else 0)"

text \<open>The business fields of the reward and of its reversal.\<close>

definition reward_key :: "bool \<Rightarrow> int \<Rightarrow> string" where
  "reward_key vip_order oid = (if vip_order then ''vip-purchase:'' else ''standard-purchase:'') @ str_int oid"

definition reward_entry :: "bool \<Rightarrow> commerce_order \<Rightarrow> entry" where
  "reward_entry vip_order o1 =
    \<lparr>e_biz_type = (if vip_order then ''vip_purchase'' else ''study_purchase''),
     e_biz_id = co_id o1, e_biz_no = co_order_no o1, e_key = reward_key vip_order (co_id o1),
     e_remark = ''purchase reward''\<rparr>"

definition reversal_entry :: "bool \<Rightarrow> commerce_order \<Rightarrow> entry" where
  "reversal_entry vip_order o1 =
    \<lparr>e_biz_type = (if vip_order then ''vip_purchase_refund'' else ''study_purchase_refund''),
     e_biz_id = co_id o1, e_biz_no = co_order_no o1,
     e_key = (if vip_order then ''vip-purchase-refund:'' else ''standard-purchase-refund:'') @ str_int (co_id o1),
     e_remark = ''refund''\<rparr>"

definition grant_reward :: "time \<Rightarrow> commerce_order \<Rightarrow> bool \<Rightarrow> bool \<Rightarrow> db \<Rightarrow> db result" where
  "grant_reward now o1 vip_order has_study d =
    (let reward = purchase_reward (rule d) vip_order has_study in
     if reward \<le> 0 then Inr d
     else case lock_user d (co_user_id o1) of
       Inl e \<Rightarrow> Inl e
     | Inr u \<Rightarrow>
         (let valid_days = max 1 (case rule d of Some r \<Rightarrow> int_or (pr_valid_days r) 365 | None \<Rightarrow> 365) in
          map_sum id snd (credit_locked d (co_user_id o1) reward (reward_entry vip_order o1)
            (Some (now + days valid_days)))))"

definition paid_order :: "time \<Rightarrow> string \<Rightarrow> string \<Rightarrow> commerce_order \<Rightarrow> commerce_order" where
  "paid_order now meth txn o1 =
    o1\<lparr>co_payment_status := PayPaid, co_status := OrdPaid, co_payment_method := meth,
       co_transaction_id := txn, co_paid_at := Some now\<rparr>"

text \<open>The side effects of a payment, in the order of the code.\<close>

definition settle_items :: "time \<Rightarrow> commerce_order \<Rightarrow> db \<Rightarrow> db result" where
  "settle_items now o1 d =
    (let its = get_order_items d (co_id o1);
         vip_items = filter is_vip_item its;
         study_items = filter (\<lambda>i. \<not> is_vip_item i) its in
     case (if vip_items \<noteq> [] \<and> find_user d (co_user_id o1) \<noteq> None
           then activate_vip now (co_user_id o1) vip_items d else Inr d) of
       Inl e \<Rightarrow> Inl e
     | Inr d1 \<Rightarrow>
         (let d2 = fold (grant_item now (co_user_id o1) (co_id o1)) study_items d1;
              d3 = (if study_items \<noteq> [] then ensure_profile (co_user_id o1) d2 else d2)
          in grant_reward now o1 (vip_items \<noteq> [] \<and> study_items = []) (study_items \<noteq> []) d3))"

definition not_payable :: error where
  "not_payable = BusinessError 400 ''ORDER_NOT_PAYABLE''"

definition order_or :: "commerce_order \<Rightarrow> db \<Rightarrow> commerce_order" where
  "order_or o1 d = (case find_order d (co_id o1) of Some o2 \<Rightarrow> o2 | None \<Rightarrow> o1)"

definition mark_order_paid ::
  "time \<Rightarrow> db \<Rightarrow> int \<Rightarrow> string \<Rightarrow> string \<Rightarrow> (commerce_order \<times> db) result" where
  "mark_order_paid now d oid meth txn =
    (case find_order d oid of
       None \<Rightarrow> Inl (BusinessError 404 ''ORDER_NOT_FOUND'')
     | Some o1 \<Rightarrow>
         if co_payment_status o1 = PayPaid \<and> co_status o1 = OrdPaid then Inr (o1, d)
         else if co_status o1 \<noteq> OrdPending then Inl not_payable
         else if co_payment_status o1 = PayPaid then Inl not_payable
         else case settle_items now o1 (set_order oid (paid_order now meth txn) d) of
           Inl e \<Rightarrow> Inl e
         | Inr d1 \<Rightarrow> Inr (order_or o1 d1, d1))"

text \<open>A wallet row and the flush that the next query triggers: \<open>transaction_no\<close> is unique.\<close>

definition wallet_row ::
  "db \<Rightarrow> user_account \<Rightarrow> string \<Rightarrow> direction \<Rightarrow> cents \<Rightarrow> cents \<Rightarrow> cents \<Rightarrow> string \<Rightarrow> int \<Rightarrow> string \<Rightarrow> string \<Rightarrow> wallet_transaction" where
  "wallet_row d u no dir amount prior after biz_type biz_id biz_no remark =
    \<lparr>wt_id = fresh_id wt_id (wallet d), wt_user_id = ua_id u, wt_user_no = ua_user_no u,
     wt_transaction_no = no, wt_direction = dir, wt_amount = amount, wt_balance_before = prior,
     wt_balance_after = after, wt_biz_type = biz_type, wt_biz_id = biz_id, wt_biz_no = biz_no,
     wt_remark = remark\<rparr>"

definition flush_wallet :: "wallet_transaction \<Rightarrow> db \<Rightarrow> db result" where
  "flush_wallet w d =
    (if find_by wt_transaction_no (wt_transaction_no w) (wallet d) \<noteq> None then Inl IntegrityError
     else Inr (d\<lparr>wallet := wallet d @ [w]\<rparr>))"

definition set_balance :: "int \<Rightarrow> cents \<Rightarrow> db \<Rightarrow> db" where
  "set_balance uid b d = set_user uid (\<lambda>u. u\<lparr>ua_balance := b\<rparr>) d"

definition pay_with_balance :: "time \<Rightarrow> db \<Rightarrow> int \<Rightarrow> int \<Rightarrow> (commerce_order \<times> db) result" where
  "pay_with_balance now d uid oid =
    (case find_order d oid of
       None \<Rightarrow> Inl (BusinessError 404 ''ORDER_NOT_FOUND'')
     | Some o1 \<Rightarrow>
         if co_user_id o1 \<noteq> uid then Inl (BusinessError 404 ''ORDER_NOT_FOUND'')
         else if co_payment_status o1 = PayPaid \<and> co_status o1 = OrdPaid then Inr (o1, d)
         else if co_status o1 \<noteq> OrdPending then Inl not_payable
         else if co_payment_status o1 = PayPaid then Inl not_payable
         else case find_user d uid of
           None \<Rightarrow> Inl (BusinessError 404 ''USER_NOT_FOUND'')
         | Some u \<Rightarrow>
             (let amount = co_payable_amount o1; prior = ua_balance u in
              if amount < 0 then Inl (BusinessError 400 ''INVALID_ORDER_AMOUNT'')
              else if prior < amount then Inl (BusinessError 400 ''INSUFFICIENT_BALANCE'')
              else
                (case draw_no ''WT'' (set_balance uid (prior - amount) d) of
                   (no, d1) \<Rightarrow>
                     (case flush_wallet (wallet_row d1 u no Expense amount prior (prior - amount)
                              ''purchase'' (co_id o1) (co_order_no o1) ''purchase'') d1 of
                        Inl e \<Rightarrow> Inl e
                      | Inr d2 \<Rightarrow> mark_order_paid now d2 oid ''balance'' no))))"

section \<open>Cancellation\<close>

definition canceled_item :: "order_item \<Rightarrow> order_item" where
  "canceled_item i = i\<lparr>oi_status := OrdCanceled\<rparr>"

definition released_item :: "order_item \<Rightarrow> order_item" where
  "released_item i = i\<lparr>oi_stock_deducted := False, oi_status := OrdCanceled\<rparr>"

definition add_stock :: "int \<Rightarrow> int \<Rightarrow> db \<Rightarrow> db" where
  "add_stock pid q d = set_product pid (\<lambda>p. p\<lparr>sp_stock := sp_stock p + q\<rparr>) d"

text \<open>\<open>incr_stock\<close> under \<open>except RedisUnavailableError\<close>: other failures propagate.\<close>

definition try_incr_stock :: "time \<Rightarrow> int \<Rightarrow> int \<Rightarrow> redis \<Rightarrow> unit result \<times> redis" where
  "try_incr_stock now pid q r =
    (case incr_stock now pid q r of
       (Inr _, r1) \<Rightarrow> (Inr (), r1)
     | (Inl e, r1) \<Rightarrow> (if e = RedisUnavailableError then Inr () else Inl e, r1))"

text \<open>The stock part of one item; \<open>restorable\<close> is \<open>product and product.stock >= 0\<close>.\<close>

definition restorable :: "db \<Rightarrow> int \<Rightarrow> bool" where
  "restorable d pid = (case find_by sp_id pid (products d) of Some p \<Rightarrow> 0 \<le> sp_stock p | None \<Rightarrow> False)"

definition cancel_item :: "time \<Rightarrow> order_item \<Rightarrow> db \<Rightarrow> redis \<Rightarrow> db result \<times> redis" where
  "cancel_item now i d r =
    (if \<not> oi_stock_deducted i then (Inr (set_item (oi_id i) canceled_item d), r)
     else if restorable d (oi_product_id i) then
       (case try_incr_stock now (oi_product_id i) (oi_quantity i) r of
          (Inl e, r1) \<Rightarrow> (Inl e, r1)
        | (Inr _, r1) \<Rightarrow>
            (Inr (set_item (oi_id i) released_item (add_stock (oi_product_id i) (oi_quantity i) d)), r1))
     else (Inr (set_item (oi_id i) released_item d), r))"

fun each_item ::
  "(order_item \<Rightarrow> db \<Rightarrow> redis \<Rightarrow> db result \<times> redis) \<Rightarrow> order_item list \<Rightarrow> db \<Rightarrow> redis \<Rightarrow> db result \<times> redis" where
  "each_item f [] d r = (Inr d, r)"
| "each_item f (i # is) d r =
     (case f i d r of
        (Inl e, r1) \<Rightarrow> (Inl e, r1)
      | (Inr d1, r1) \<Rightarrow> each_item f is d1 r1)"

definition canceled_order :: "time \<Rightarrow> string \<Rightarrow> commerce_order \<Rightarrow> commerce_order" where
  "canceled_order now reason o1 =
    o1\<lparr>co_status := OrdCanceled, co_payment_status := PayCanceled, co_cancel_reason := reason,
       co_canceled_at := Some now\<rparr>"

definition cancel_unpaid_order ::
  "time \<Rightarrow> db \<Rightarrow> commerce_order \<Rightarrow> string \<Rightarrow> redis \<Rightarrow> (bool \<times> db) result \<times> redis" where
  "cancel_unpaid_order now d o1 reason r =
    (if co_payment_status o1 = PayPaid \<or> co_status o1 \<noteq> OrdPending then (Inr (False, d), r)
     else case each_item (cancel_item now) (get_order_items d (co_id o1)) d r of
       (Inl e, r1) \<Rightarrow> (Inl e, r1)
     | (Inr d1, r1) \<Rightarrow> (Inr (True, set_order (co_id o1) (canceled_order now reason) d1), r1))"

text \<open>
  The summary \<open>cancel_unpaid_order_by_no\<close> returns: \<open>ok\<close>, \<open>changed\<close> where present, and the
  reason. The provider's calls use the clock in seconds and a nonce each.
\<close>

record cancel_summary =
  sm_ok :: bool
  sm_changed :: bool
  sm_reason :: string

definition failed_cancel :: "string \<Rightarrow> cancel_summary" where
  "failed_cancel reason = \<lparr>sm_ok = False, sm_changed = False, sm_reason = reason\<rparr>"

definition finish_cancel ::
  "time \<Rightarrow> db \<Rightarrow> commerce_order \<Rightarrow> redis \<Rightarrow> (cancel_summary \<times> db) result \<times> redis" where
  "finish_cancel now d o1 r =
    (case cancel_unpaid_order now d o1 ''timeout'' r of
       (Inl e, r1) \<Rightarrow> (Inl e, r1)
     | (Inr (changed, d1), r1) \<Rightarrow> (Inr (\<lparr>sm_ok = True, sm_changed = changed, sm_reason = []\<rparr>, d1), r1))"

definition cancel_unpaid_order_by_no ::
  "'k provider \<Rightarrow> wx_settings \<Rightarrow> string \<Rightarrow> string \<Rightarrow> time \<Rightarrow> db \<Rightarrow> string \<Rightarrow> redis \<Rightarrow>
    (cancel_summary \<times> db) result \<times> redis" where
  "cancel_unpaid_order_by_no pv w nonce nonce2 now d order_no r =
    (case get_order_by_no d order_no of
       None \<Rightarrow> (Inr (failed_cancel ''not_found'', d), r)
     | Some o1 \<Rightarrow>
         if co_payment_method o1 = ''wechat'' \<and> is_wechat_pay_configured w then
           (case query_transaction pv w (now div 1000000) nonce (co_order_no o1) of
              Inl (BusinessError st code) \<Rightarrow>
                if code \<noteq> ''WECHAT_PAY_ORDER_NOT_EXIST''
                then (Inr (failed_cancel ''wechat_query_failed'', d), r)
                else finish_cancel now d o1 r
            | Inl e \<Rightarrow> (Inl e, r)
            | Inr t \<Rightarrow>
                if jget t ''trade_state'' = JStr ''SUCCESS'' then
                  (case validate_successful_transaction w o1 t of
                     Inl e \<Rightarrow> (Inl e, r)
                   | Inr txn \<Rightarrow>
                       (case mark_order_paid now d (co_id o1) ''wechat'' txn of
                          Inl e \<Rightarrow> (Inl e, r)
                        | Inr (_, d1) \<Rightarrow>
                            (Inr (\<lparr>sm_ok = True, sm_changed = True, sm_reason = ''wechat_paid''\<rparr>, d1), r)))
                else if jget t ''trade_state'' = JStr ''USERPAYING''
                then (Inr (failed_cancel ''wechat_user_paying'', d), r)
                else if jget t ''trade_state'' = JStr ''NOTPAY'' then
                  (case close_transaction pv w (now div 1000000) nonce2 (co_order_no o1) of
                     Inl (BusinessError st code) \<Rightarrow> (Inr (failed_cancel ''wechat_close_failed'', d), r)
                   | Inl e \<Rightarrow> (Inl e, r)
                   | Inr _ \<Rightarrow> finish_cancel now d o1 r)
                else finish_cancel now d o1 r)
         else finish_cancel now d o1 r)"

section \<open>Refund\<close>

definition refund_item :: "time \<Rightarrow> order_item \<Rightarrow> db \<Rightarrow> redis \<Rightarrow> db result \<times> redis" where
  "refund_item now i d r =
    (let d1 = set_product (oi_product_id i)
           (\<lambda>p. p\<lparr>sp_sales := max 0 (sp_sales p - oi_quantity i)\<rparr>) d in
     if \<not> oi_stock_deducted i then (Inr (set_item (oi_id i) canceled_item d1), r)
     else if restorable d1 (oi_product_id i) then
       (case try_incr_stock now (oi_product_id i) (oi_quantity i) r of
          (Inl e, r1) \<Rightarrow> (Inl e, r1)
        | (Inr _, r1) \<Rightarrow>
            (Inr (set_item (oi_id i) released_item (add_stock (oi_product_id i) (oi_quantity i) d1)), r1))
     else (Inr (set_item (oi_id i) released_item d1), r))"

definition expire_entitlements :: "int \<Rightarrow> db \<Rightarrow> db" where
  "expire_entitlements oid d =
    d\<lparr>entitlements := update_by ue_order_id oid (\<lambda>e. e\<lparr>ue_status := ''expired''\<rparr>) (entitlements d)\<rparr>"

definition find_refund_row :: "db \<Rightarrow> string \<Rightarrow> wallet_transaction option" where
  "find_refund_row d no = List.find (\<lambda>t. wt_biz_type t = ''refund'' \<and> wt_biz_no t = no) (wallet d)"

definition refund_to_wallet :: "commerce_order \<Rightarrow> user_account \<Rightarrow> db \<Rightarrow> db result" where
  "refund_to_wallet o1 u d =
    (if find_refund_row d (co_order_no o1) \<noteq> None then Inr d
     else
       (let amount = co_payable_amount o1; prior = ua_balance u in
        case draw_no ''WT'' (set_balance (ua_id u) (prior + amount) d) of
          (no, d1) \<Rightarrow>
            flush_wallet (wallet_row d1 u no Income amount prior (prior + amount)
              ''refund'' (co_id o1) (co_order_no o1) ''refund'') d1))"

definition refunded_order :: "time \<Rightarrow> string \<Rightarrow> string \<Rightarrow> commerce_order \<Rightarrow> commerce_order" where
  "refunded_order now refund_no refund_id o1 =
    o1\<lparr>co_refund_no := Some refund_no, co_refund_id := refund_id, co_refund_status := ''success'',
       co_refunded_at := Some now, co_payment_status := PayRefunded, co_status := OrdCanceled,
       co_cancel_reason := ''refund'', co_canceled_at := Some now\<rparr>"

text \<open>The commit of the order row: \<open>refund_no\<close> is unique.\<close>

definition commit_refund :: "commerce_order \<Rightarrow> string \<Rightarrow> db \<Rightarrow> db \<Rightarrow> (commerce_order \<times> db) result" where
  "commit_refund o1 refund_no d d' =
    (if list_ex (\<lambda>r. co_id r \<noteq> co_id o1 \<and> co_refund_no r = Some refund_no) (orders d)
     then Inl IntegrityError else Inr (order_or o1 d', d'))"

definition finalize_refund ::
  "time \<Rightarrow> db \<Rightarrow> int \<Rightarrow> string \<Rightarrow> string \<Rightarrow> bool \<Rightarrow> redis \<Rightarrow> (commerce_order \<times> db) result \<times> redis" where
  "finalize_refund now d oid refund_no refund_id wallet_refund r =
    (case find_order d oid of
       None \<Rightarrow> (Inl (BusinessError 404 ''ORDER_NOT_FOUND''), r)
     | Some o1 \<Rightarrow>
         if co_payment_status o1 = PayRefunded then (Inr (o1, d), r)
         else if co_payment_status o1 \<noteq> PayPaid \<or> co_status o1 \<noteq> OrdPaid
         then (Inl (BusinessError 400 ''ORDER_NOT_REFUNDABLE''), r)
         else case lock_user d (co_user_id o1) of
           Inl e \<Rightarrow> (Inl e, r)
         | Inr u \<Rightarrow>
             (case (if wallet_refund then refund_to_wallet o1 u d else Inr d) of
                Inl e \<Rightarrow> (Inl e, r)
              | Inr d1 \<Rightarrow>
                  (let its = get_order_items d1 oid;
                       vip_order = (its \<noteq> [] \<and> list_all is_vip_item its) in
                   case revoke_credit_locked d1 (co_user_id o1) (reward_key vip_order oid)
                          (reversal_entry vip_order o1) of
                     Inl e \<Rightarrow> (Inl e, r)
                   | Inr (_, d2) \<Rightarrow>
                       (case each_item (refund_item now) its (expire_entitlements oid d2) r of
                          (Inl e, r1) \<Rightarrow> (Inl e, r1)
                        | (Inr d3, r1) \<Rightarrow>
                            (commit_refund o1 refund_no d3
                               (set_order oid (refunded_order now refund_no refund_id) d3), r1)))))"

section \<open>The delayed cancellation\<close>

text \<open>
  \<open>enqueue_order_payment_timeout\<close>: \<open>reachable\<close> says whether the queue accepts the job. When
  it does not, the flag is to be cleared by \<open>asyncio.run\<close>, which raises inside a running
  event loop; the exception is swallowed.
\<close>

record job =
  jb_order_no :: string
  jb_due :: time

definition mark_timeout_job_unscheduled :: "bool \<Rightarrow> string \<Rightarrow> db \<Rightarrow> db" where
  "mark_timeout_job_unscheduled running_loop no d =
    (if running_loop then d
     else d\<lparr>orders := update_by co_order_no no (\<lambda>o1. o1\<lparr>co_timeout_job_scheduled := False\<rparr>) (orders d)\<rparr>)"

definition enqueue_order_payment_timeout ::
  "bool \<Rightarrow> bool \<Rightarrow> bool \<Rightarrow> int \<Rightarrow> time \<Rightarrow> string \<Rightarrow> job list \<Rightarrow> db \<Rightarrow> job list \<times> db" where
  "enqueue_order_payment_timeout redis_enabled reachable running_loop minutes now no jobs d =
    (if \<not> redis_enabled then (jobs, d)
     else if reachable then (jobs @ [\<lparr>jb_order_no = no, jb_due = now + seconds (60 * minutes)\<rparr>], d)
     else (jobs, mark_timeout_job_unscheduled running_loop no d))"

definition unscheduled_orders :: "time \<Rightarrow> int \<Rightarrow> db \<Rightarrow> commerce_order list" where
  "unscheduled_orders now minutes d =
    filter (\<lambda>o1. \<not> co_timeout_job_scheduled o1 \<and> co_status o1 = OrdPending
              \<and> co_created_at o1 < now - seconds (60 * minutes)) (orders d)"

text \<open>
  The sweep: each order in its own session; an error stops the sweep, whose summary is then
  empty, but what was committed before stays.
\<close>

fun sweep_orders ::
  "(db \<Rightarrow> string \<Rightarrow> redis \<Rightarrow> (cancel_summary \<times> db) result \<times> redis) \<Rightarrow> commerce_order list \<Rightarrow> db \<Rightarrow> redis \<Rightarrow>
    string list option \<times> db \<times> redis" where
  "sweep_orders cancel [] d r = (Some [], d, r)"
| "sweep_orders cancel (o1 # os) d r =
     (case cancel d (co_order_no o1) r of
        (Inl e, r1) \<Rightarrow> (None, d, r1)
      | (Inr (s, d1), r1) \<Rightarrow>
          (case sweep_orders cancel os d1 r1 of
             (Some nos, d2, r2) \<Rightarrow>
               (Some (if sm_ok s \<and> sm_changed s then co_order_no o1 # nos else nos), d2, r2)
           | (None, d2, r2) \<Rightarrow> (None, d2, r2)))"

definition sweep_unscheduled_timeouts ::
  "'k provider \<Rightarrow> wx_settings \<Rightarrow> string \<Rightarrow> string \<Rightarrow> time \<Rightarrow> int \<Rightarrow> db \<Rightarrow> redis \<Rightarrow>
    (nat \<times> string list) \<times> db \<times> redis" where
  "sweep_unscheduled_timeouts pv w nonce nonce2 now minutes d r =
    (let rows = unscheduled_orders now minutes d in
     case sweep_orders (cancel_unpaid_order_by_no pv w nonce nonce2 now) rows d r of
       (Some nos, d1, r1) \<Rightarrow> ((length rows, nos), d1, r1)
     | (None, d1, r1) \<Rightarrow> ((0, []), d1, r1))"

end
