(* ===== verification/Order_Laws.thy ===== *)
theory Order_Laws
  imports Order_Life Points_Laws
begin

text \<open>
  What the order operations do to the parts of the database that a property talks about:
  the stock of a product and what orders hold of it, the balance of a user, the orders
  themselves. Writers that touch none of these are \<open>settled\<close>; each operation's effect is
  stated once on these views and combined in \<open>Order_Props\<close>.
\<close>

lemmas shop_defs = set_order_def set_item_def set_product_def set_user_def

section \<open>Views\<close>

definition stock_of :: "db \<Rightarrow> int \<Rightarrow> int option" where
  "stock_of d pid = map_option sp_stock (find_by sp_id pid (products d))"

text \<open>The quantity of a product that order items hold.\<close>

definition holds :: "int \<Rightarrow> order_item \<Rightarrow> bool" where
  "holds pid i \<longleftrightarrow> oi_product_id i = pid \<and> oi_stock_deducted i"

definition reserved :: "db \<Rightarrow> int \<Rightarrow> int" where
  "reserved d pid = sum_where (holds pid) oi_quantity (items d)"

definition balance_of :: "db \<Rightarrow> int \<Rightarrow> cents" where
  "balance_of d uid = (case find_user d uid of None \<Rightarrow> 0 | Some u \<Rightarrow> ua_balance u)"

definition item_view :: "order_item \<Rightarrow> int \<times> int \<times> int \<times> int \<times> bool \<times> string" where
  "item_view i = (oi_id i, oi_order_id i, oi_product_id i, oi_quantity i, oi_stock_deducted i, oi_product_type i)"

definition product_view :: "study_product \<Rightarrow> int \<times> int" where
  "product_view p = (sp_id p, sp_stock p)"

definition account_view :: "user_account \<Rightarrow> int \<times> cents \<times> string" where
  "account_view u = (ua_id u, ua_balance u, ua_user_no u)"

definition settled :: "db \<Rightarrow> db \<Rightarrow> bool" where
  "settled d d' \<longleftrightarrow> orders d' = orders d \<and> wallet d' = wallet d \<and>
    settings_rows d' = settings_rows d \<and> rule d' = rule d \<and> numbers d' = numbers d \<and>
    map item_view (items d') = map item_view (items d) \<and>
    map product_view (products d') = map product_view (products d) \<and>
    map account_view (users d') = map account_view (users d)"

lemma settled_refl [simp]: "settled d d"
  by (simp add: settled_def)

lemma settled_trans [trans]: "settled a b \<Longrightarrow> settled b c \<Longrightarrow> settled a c"
  by (simp add: settled_def)

lemma map_Cons_view:
  assumes "map v rows' = map v (r # rows)"
  obtains r' rest where "rows' = r' # rest" "v r' = v r" "map v rest = map v rows"
  using assms by (cases rows') auto

lemma find_by_view:
  assumes "map v rows' = map v rows" and inj: "\<And>r r'. v r = v r' \<Longrightarrow> key r = key r'"
  shows "map_option v (find_by key k rows') = map_option v (find_by key k rows)"
  using assms(1)
proof (induction rows arbitrary: rows')
  case (Cons r rows)
  obtain r' rest where r: "rows' = r' # rest" "v r' = v r" "map v rest = map v rows"
    using Cons.prems by (rule map_Cons_view)
  then have "key r' = key r" by (intro inj)
  then show ?case using Cons.IH [OF r(3)] r(1,2) by (simp add: find_by_Cons)
qed simp

lemma map_option_trans:
  assumes "map_option v x = map_option v y" and inj: "\<And>a b. v a = v b \<Longrightarrow> f a = f b"
  shows "map_option f x = map_option f y"
proof (cases x)
  case (Some a)
  then obtain b where "y = Some b" "v a = v b" using assms(1) by (cases y) auto
  then show ?thesis using Some inj [of a b] by simp
next
  case None
  then show ?thesis using assms(1) by (cases y) auto
qed

lemma settled_stock: "settled d d' \<Longrightarrow> stock_of d' pid = stock_of d pid"
  unfolding stock_of_def settled_def
  by (rule map_option_trans [OF find_by_view [of product_view]]) (auto simp: product_view_def)

lemma sum_where_view:
  assumes "map v rows' = map v rows" and inj: "\<And>r r'. v r = v r' \<Longrightarrow> P r = P r' \<and> f r = f r'"
  shows "sum_where P f rows' = sum_where P f rows"
  using assms(1)
proof (induction rows arbitrary: rows')
  case (Cons r rows)
  obtain r' rest where r: "rows' = r' # rest" "v r' = v r" "map v rest = map v rows"
    using Cons.prems by (rule map_Cons_view)
  then have "P r' = P r \<and> f r' = f r" by (intro inj)
  then show ?case using Cons.IH [OF r(3)] r(1) by (simp add: sum_where_Cons)
qed simp

lemma settled_reserved: "settled d d' \<Longrightarrow> reserved d' pid = reserved d pid"
  unfolding reserved_def settled_def
  by (rule sum_where_view [of item_view]) (auto simp: item_view_def holds_def)

lemma settled_user:
  assumes "settled d d'"
  shows "map_option account_view (find_user d' uid) = map_option account_view (find_user d uid)"
  using assms unfolding settled_def find_user_def
  by (intro find_by_view) (auto simp: account_view_def)

lemma settled_balance: "settled d d' \<Longrightarrow> balance_of d' uid = balance_of d uid"
  using settled_user [of d d' uid]
  by (auto simp: balance_of_def account_view_def split: option.splits)

lemma map_view_update_by: "(\<And>r. v (f r) = v r) \<Longrightarrow> map v (update_by key k f rows) = map v rows"
  by (rule map_key_update_by)

section \<open>Settled writers\<close>

lemma settled_mark_item: "settled d (set_item iid mark_item_paid d)"
  by (simp add: settled_def shop_defs map_view_update_by mark_item_paid_def item_view_def)

lemma settled_set_user:
  "(\<And>u. account_view (f u) = account_view u) \<Longrightarrow> settled d (set_user uid f d)"
  by (simp add: settled_def shop_defs map_view_update_by)

lemma settled_extend_vip: "settled d (set_user uid (extend_vip now p) d)"
  by (rule settled_set_user) (simp add: extend_vip_def account_view_def Let_def)

lemma settled_activate_vip: "activate_vip now uid is d = Inr d' \<Longrightarrow> settled d d'"
proof (induction "is" arbitrary: d)
  case (Cons i "is")
  then show ?case
    by (auto split: sum.splits option.splits
        intro: settled_trans [OF settled_trans [OF settled_extend_vip settled_mark_item]])
qed simp

lemma settled_entitlement: "settled d (add_entitlement now uid oid i p d)"
  by (simp add: settled_def add_entitlement_def)

lemma settled_entitlements: "settled d ((add_entitlement now uid oid i p ^^ n) d)"
  by (induction n) (auto intro: settled_trans settled_entitlement)

lemma settled_sales: "settled d (set_product pid (\<lambda>r. r\<lparr>sp_sales := f r\<rparr>) d)"
  by (simp add: settled_def shop_defs map_view_update_by product_view_def)

lemma settled_grant_item: "settled d (grant_item now uid oid i d)"
  by (auto simp: grant_item_def split: option.splits
      intro: settled_trans [OF settled_trans [OF settled_sales settled_entitlements] settled_mark_item])

lemma settled_fold: "(\<And>x d. settled d (f x d)) \<Longrightarrow> settled d (fold f xs d)"
  by (induction xs arbitrary: d) (auto intro: settled_trans)

lemma settled_profile: "settled d (ensure_profile uid d)"
  by (simp add: settled_def ensure_profile_def)

lemma settled_expire: "settled d (expire_entitlements oid d)"
  by (simp add: settled_def expire_entitlements_def)

lemma settled_set_points: "settled d (set_points uid p d)"
  by (simp add: settled_def set_points_def map_view_update_by account_view_def)

lemma settled_lots: "settled d (write_lot lid f d)" "settled d (add_lot uid l n x d)"
  by (simp_all add: settled_def write_lot_def add_lot_def)

lemma settled_new_ledger: "new_ledger d uid dir n a b e = (l, d') \<Longrightarrow> settled d d'"
  by (auto simp: new_ledger_eq settled_def)

lemma settled_flush_ledger: "flush_ledger l d = Inr d' \<Longrightarrow> settled d d'"
  by (auto simp: flush_ledger_Inr settled_def)

text \<open>The ledger posting that every points operation shares.\<close>

lemma settled_posting:
  "new_ledger d uid dir n a b e = (l, d1) \<Longrightarrow> flush_ledger l (set_points uid p d1) = Inr d2 \<Longrightarrow> settled d d2"
  by (blast intro: settled_trans settled_new_ledger settled_set_points settled_flush_ledger)

lemma settled_credit:
  assumes "credit_locked d uid n e x = Inr (l, d')"
  shows "settled d d'"
proof (cases "find_ledger d uid (e_key e)")
  case None
  obtain l0 d1 where nl: "new_ledger d uid Income n (points_of d uid) (points_of d uid + n) e = (l0, d1)"
    by (metis surj_pair)
  then obtain d2 where f: "flush_ledger l0 (set_points uid (points_of d uid + n) d1) = Inr d2"
      and d': "d' = add_lot uid (pl_id l0) n x d2"
    using assms None by (auto simp: credit_locked_def Let_def split: if_splits sum.splits option.splits)
  show ?thesis unfolding d' by (rule settled_trans [OF settled_posting [OF nl f] settled_lots(2)])
next
  case (Some l')
  then show ?thesis using assms(1) by (auto simp: credit_locked_def split: if_splits)
qed

lemma settled_revoke:
  assumes "revoke_credit_locked d uid ck e = Inr (x, d')"
  shows "settled d d'"
  using assms
  by (auto simp: revoke_credit_locked_def Let_def split: option.splits if_splits prod.splits sum.splits
      intro: settled_trans [OF settled_lots(1) settled_posting] settled_lots)

end
