(* ===== verification/Order_Stock.thy ===== *)
theory Order_Stock
  imports Order_Laws
begin

text \<open>
  The two stock stores under the order operations: the counters in Redis, which have no
  rollback and are given back by hand, and the \<open>products\<close> table together with what the
  order items hold. All lemmas about Redis are for a healthy client.
\<close>

section \<open>The counters in Redis\<close>

definition stock_at :: "redis \<Rightarrow> int \<Rightarrow> int option" where
  "stock_at r pid = (case rstore r (stock_key pid) of Some (SInt n, None) \<Rightarrow> Some n | _ \<Rightarrow> None)"

definition count_at :: "redis \<Rightarrow> int \<Rightarrow> int" where
  "count_at r pid = (case stock_at r pid of Some n \<Rightarrow> n | None \<Rightarrow> 0)"

definition put_stock :: "int \<Rightarrow> int \<Rightarrow> redis \<Rightarrow> redis" where
  "put_stock pid n r = r\<lparr>rstore := (rstore r)(stock_key pid \<mapsto> (SInt n, None))\<rparr>"

definition fit :: "redis \<Rightarrow> bool" where
  "fit r \<longleftrightarrow> healthy r \<and> stock_keys_ok r"

lemma stock_at_put [simp]: "stock_at (put_stock pid n r) j = (if j = pid then Some n else stock_at r j)"
  by (simp add: stock_at_def put_stock_def)

lemma fit_put [simp]: "fit r \<Longrightarrow> fit (put_stock pid n r)"
  by (auto simp: fit_def healthy_def stock_keys_ok_def put_stock_def)

lemma fit_cases:
  assumes "fit r"
  obtains "rstore r (stock_key pid) = None" "stock_at r pid = None"
  | n where "rstore r (stock_key pid) = Some (SInt n, None)" "stock_at r pid = Some n"
proof -
  have "stock_keys_ok r" using assms by (simp add: fit_def)
  then show thesis by (rule stock_ok_cases [of r pid 0]) (auto simp: stock_at_def intro: that)
qed

lemma purge_stock: "fit r \<Longrightarrow> purge now (stock_key pid) (rstore r) = rstore r"
  by (rule fit_cases [of r pid]) (auto simp: purge_def expired_def)

lemma incr_stock_fit:
  assumes "fit r"
  shows "incr_stock now pid q r = (Inr (count_at r pid + q), put_stock pid (count_at r pid + q) r)"
proof -
  have h: "healthy r" using assms by (simp add: fit_def)
  have "stored_int (map_option fst (view now (rstore r) (stock_key pid))) = Inr (count_at r pid)"
    by (rule fit_cases [OF assms, of pid]) (simp_all add: view_def expired_def count_at_def)
  from mem_incrby_value [OF this] show ?thesis
    by (simp add: incr_stock_def raw_call_healthy [OF h] purge_stock [OF assms] put_def put_stock_def
        split: prod.splits) (metis fst_conv snd_conv)
qed

lemma decr_stock_fit:
  "fit r \<Longrightarrow> decr_stock now pid q r = (Inr (count_at r pid - q), put_stock pid (count_at r pid - q) r)"
  using incr_stock_fit [of r now pid "- q"] 
  by (simp add: decr_stock_def incr_stock_def mem_decrby_def [abs_def])

lemma set_stock_fit:
  assumes "fit r"
  shows "set_stock_if_absent now pid s r = (Inr (), if stock_at r pid = None then put_stock pid s r else r)"
proof -
  have h: "healthy r" using assms by (simp add: fit_def)
  show ?thesis
    by (rule fit_cases [OF assms, of pid])
      (simp_all add: set_stock_if_absent_def raw_call_healthy [OF h] mem_set_def Let_def
        purge_stock [OF assms] view_def expired_def put_stock_def)
qed

text \<open>What the counters would be with the deductions on the list given back.\<close>

definition owed :: "(int \<times> int) list \<Rightarrow> int \<Rightarrow> int" where
  "owed ds pid = sum_where (\<lambda>x. fst x = pid) snd ds"

definition full :: "redis \<Rightarrow> (int \<times> int) list \<Rightarrow> int \<Rightarrow> int option" where
  "full r ds pid = map_option (\<lambda>n. n + owed ds pid) (stock_at r pid)"

lemma owed_simps [simp]:
  "owed [] pid = 0" "owed ((j, q) # ds) pid = (if j = pid then q else 0) + owed ds pid"
  "owed (ds @ ds') pid = owed ds pid + owed ds' pid" "owed (rev ds) pid = owed ds pid"
proof -
  show "owed (rev ds) pid = owed ds pid"
    by (induction ds) (auto simp: owed_def sum_where_append sum_where_Cons)
qed (simp_all add: owed_def sum_where_append sum_where_Cons)

lemma full_Nil [simp]: "full r [] pid = stock_at r pid"
  by (cases "stock_at r pid") (simp_all add: full_def)

lemma restore_redis_fit:
  assumes "fit r" and "\<forall>(j, q)\<in>set ds. stock_at r j \<noteq> None"
  shows "\<exists>r'. restore_redis now ds r = (Inr (), r') \<and> fit r' \<and> (\<forall>pid. stock_at r' pid = full r ds pid)
    \<and> (\<forall>k. (\<forall>pid. k \<noteq> stock_key pid) \<longrightarrow> rstore r' k = rstore r k)"
  using assms
proof (induction ds arbitrary: r)
  case (Cons x ds)
  obtain j q where x: "x = (j, q)" by fastforce
  let ?r = "put_stock j (count_at r j + q) r"
  have "\<forall>(i, p)\<in>set ds. stock_at ?r i \<noteq> None" using Cons.prems by auto
  then obtain r' where r': "restore_redis now ds ?r = (Inr (), r')" "fit r'"
      "\<And>pid. stock_at r' pid = full ?r ds pid"
      "\<And>k. (\<forall>pid. k \<noteq> stock_key pid) \<longrightarrow> rstore r' k = rstore ?r k"
    using Cons.IH [of ?r] Cons.prems by auto
  have "stock_at r j \<noteq> None" using Cons.prems x by auto
  then have "full ?r ds pid = full r (x # ds) pid" for pid
    by (auto simp: full_def x count_at_def)
  moreover have "rstore r' k = rstore r k" if "\<forall>pid. k \<noteq> stock_key pid" for k
    using r'(4) that by (simp add: put_stock_def)
  ultimately show ?case
    using r' Cons.prems by (simp add: x incr_stock_fit)
qed simp

text \<open>
  A step from one reservation state to the next: every counter, with what is owed to it, is
  as before, or it was absent and has been seeded with the product's stock.
\<close>

definition carried :: "study_product list \<Rightarrow> redis \<Rightarrow> (int \<times> int) list \<Rightarrow> redis \<Rightarrow> (int \<times> int) list \<Rightarrow> bool" where
  "carried ps r ds r' ds' \<longleftrightarrow> fit r' \<and> (\<forall>(j, q)\<in>set ds'. stock_at r' j \<noteq> None) \<and>
    (\<forall>k. (\<forall>pid. k \<noteq> stock_key pid) \<longrightarrow> rstore r' k = rstore r k) \<and>
    (\<forall>pid. full r' ds' pid = full r ds pid \<or>
       stock_at r pid = None \<and> (\<exists>p. find_by sp_id pid ps = Some p \<and> full r' ds' pid = Some (sp_stock p)))"

lemma rollback_carried:
  assumes "carried ps r ds r' ds'"
  shows "\<exists>r''. rollback_redis_stock now ds' r' = (Inr (), [], r'') \<and> carried ps r ds r'' []"
proof -
  have "fit r'" "\<forall>(j, q)\<in>set (rev ds'). stock_at r' j \<noteq> None"
    using assms by (auto simp: carried_def)
  from restore_redis_fit [OF this, of now] obtain r'' where
    r: "restore_redis now (rev ds') r' = (Inr (), r'')" "fit r''"
      "\<And>pid. stock_at r'' pid = full r' ds' pid"
      "\<And>k. (\<forall>pid. k \<noteq> stock_key pid) \<longrightarrow> rstore r'' k = rstore r' k"
    by (auto simp: full_def)
  then have "carried ps r ds r'' []" using assms by (simp add: carried_def)
  then show ?thesis using r(1) by (simp add: rollback_redis_stock_def)
qed

lemma owed_absent: "pid \<notin> fst ` set ds \<Longrightarrow> owed ds pid = 0"
  unfolding owed_def by (rule sum_where_none) auto

lemma carried_refl: "fit r \<Longrightarrow> carried ps r [] r []"
  by (simp add: carried_def)

definition limited :: "study_product list \<Rightarrow> int \<times> int \<Rightarrow> bool" where
  "limited ps x = (case find_by sp_id (fst x) ps of Some p \<Rightarrow> 0 \<le> sp_stock p | None \<Rightarrow> False)"

text \<open>One product's turn in the pre-deduction.\<close>

definition deducted_redis :: "int \<Rightarrow> int \<Rightarrow> int \<Rightarrow> redis \<Rightarrow> redis" where
  "deducted_redis pid s q r =
    (let r1 = (if stock_at r pid = None then put_stock pid s r else r) in put_stock pid (count_at r1 pid - q) r1)"

lemma deducted_carried:
  assumes c: "carried ps r0 d0 r ds" and p: "find_by sp_id pid ps = Some p"
  shows "carried ps r0 d0 (deducted_redis pid (sp_stock p) q r) (ds @ [(pid, q)])"
proof -
  let ?r = "deducted_redis pid (sp_stock p) q r" and ?ds = "ds @ [(pid, q)]"
  have other: "stock_at ?r j = stock_at r j" if "j \<noteq> pid" for j
    using that by (simp add: deducted_redis_def Let_def)
  have same: "full ?r ?ds pid = (case stock_at r pid of Some n \<Rightarrow> full r ds pid | None \<Rightarrow> Some (sp_stock p))"
  proof (cases "stock_at r pid")
    case None
    then have "pid \<notin> fst ` set ds" using c by (force simp: carried_def)
    then show ?thesis
      using None by (simp add: full_def deducted_redis_def count_at_def owed_absent)
  qed (simp add: full_def deducted_redis_def count_at_def)
  have "full ?r ?ds j = full r0 d0 j \<or>
      stock_at r0 j = None \<and> (\<exists>p. find_by sp_id j ps = Some p \<and> full ?r ?ds j = Some (sp_stock p))" for j
  proof (cases "j = pid")
    case True
    have c': "full r ds j = full r0 d0 j \<or>
      stock_at r0 j = None \<and> (\<exists>p. find_by sp_id j ps = Some p \<and> full r ds j = Some (sp_stock p))"
      using c by (simp add: carried_def)
    show ?thesis
    proof (cases "stock_at r pid")
      case None
      then have "full r ds j = None" by (simp add: full_def True)
      then have "stock_at r0 j = None" using c' by (auto simp: full_def)
      then show ?thesis using None same p True by auto
    next
      case (Some n)
      then show ?thesis using c' same True by auto
    qed
  next
    case False
    then have "full ?r ?ds j = full r ds j" using other [OF False] by (simp add: full_def)
    then show ?thesis using c by (simp add: carried_def)
  qed
  moreover have "fit ?r" using c by (simp add: carried_def deducted_redis_def Let_def)
  moreover have "\<forall>(j, q)\<in>set ?ds. stock_at ?r j \<noteq> None"
    using c by (auto simp: carried_def deducted_redis_def Let_def)
  moreover have "\<forall>k. (\<forall>pid. k \<noteq> stock_key pid) \<longrightarrow> rstore ?r k = rstore r0 k"
    using c by (simp add: carried_def deducted_redis_def put_stock_def Let_def)
  ultimately show ?thesis by (simp add: carried_def)
qed

lemma pre_deduct_Cons_fit:
  assumes "fit r" and "find_by sp_id pid ps = Some p" and "0 \<le> sp_stock p"
  shows "pre_deduct_stock now ps ((pid, q) # qm) ds r =
    (let r2 = deducted_redis pid (sp_stock p) q r in
     if count_at r2 pid < 0 then
       (case rollback_redis_stock now (ds @ [(pid, q)]) r2 of
          (Inl e, ds, r3) \<Rightarrow> (Inl e, ds, r3)
        | (Inr _, ds, r3) \<Rightarrow> (Inl (BusinessError 409 ''INSUFFICIENT_STOCK''), ds, r3))
     else pre_deduct_stock now ps qm (ds @ [(pid, q)]) r2)"
  using assms
  by (simp add: set_stock_fit decr_stock_fit deducted_redis_def Let_def count_at_def)

lemma pre_deduct_carried:
  assumes "carried ps r0 d0 r ds" and "pre_deduct_stock now ps qm ds r = (res, ds', r')"
    and "\<forall>x\<in>set qm. find_by sp_id (fst x) ps \<noteq> None"
  shows "carried ps r0 d0 r' ds' \<and>
    (res = Inr () \<and> ds' = ds @ filter (limited ps) qm \<or>
     res = Inl (BusinessError 409 ''INSUFFICIENT_STOCK'') \<and> ds' = [])"
  using assms
proof (induction qm arbitrary: ds r)
  case (Cons x qm)
  obtain pid q where x: "x = (pid, q)" by fastforce
  obtain p where p: "find_by sp_id pid ps = Some p" using Cons.prems(3) x by auto
  have f: "fit r" using Cons.prems(1) by (simp add: carried_def)
  show ?case
  proof (cases "0 \<le> sp_stock p")
    case False
    then show ?thesis using Cons p x by (simp add: limited_def)
  next
    case True
    let ?r = "deducted_redis pid (sp_stock p) q r"
    have c: "carried ps r0 d0 ?r (ds @ [(pid, q)])" by (rule deducted_carried [OF Cons.prems(1) p])
    note step = pre_deduct_Cons_fit [OF f p True, of now q qm ds]
    show ?thesis
    proof (cases "count_at ?r pid < 0")
      case True
      obtain r'' where "rollback_redis_stock now (ds @ [(pid, q)]) ?r = (Inr (), [], r'')"
          "carried ps r0 d0 r'' []"
        using rollback_carried [OF c] by blast
      then show ?thesis using Cons.prems(2) step True by (simp add: x Let_def)
    next
      case False
      have "pre_deduct_stock now ps qm (ds @ [(pid, q)]) ?r = (res, ds', r')"
        using Cons.prems(2) step False by (simp add: x Let_def)
      from Cons.IH [OF c this] show ?thesis
        using Cons.prems(3) p \<open>0 \<le> sp_stock p\<close> by (simp add: x limited_def)
    qed
  qed
qed simp

section \<open>The other keys\<close>

definition with_key :: "string \<Rightarrow> (stored \<times> time option) option \<Rightarrow> redis \<Rightarrow> redis" where
  "with_key k v r = r\<lparr>rstore := (rstore r)(k := v)\<rparr>"

lemma idem_key_other [simp]: "idem_key uid key \<noteq> stock_key pid" "result_key uid key \<noteq> stock_key pid"
  by (simp_all add: idem_key_def result_key_def stock_key_def)

lemma with_key_stock [simp]: "(\<And>pid. k \<noteq> stock_key pid) \<Longrightarrow> stock_at (with_key k v r) pid = stock_at r pid"
  by (simp add: stock_at_def with_key_def) (metis fun_upd_other)

lemma with_key_fit [simp]: "fit r \<Longrightarrow> (\<And>pid. k \<noteq> stock_key pid) \<Longrightarrow> fit (with_key k v r)"
  unfolding fit_def stock_keys_ok_def with_key_def healthy_def by (simp add: not_sym)

lemma redis_delete_fit: "fit r \<Longrightarrow> redis_delete [k] r = (Inr (), with_key k None r)"
proof -
  assume "fit r"
  then have h: "healthy r" by (simp add: fit_def)
  have "(\<lambda>j. if j = k then None else rstore r j) = (rstore r)(k := None)" by auto
  then have "snd (mem_delete [k] (rstore r)) = (rstore r)(k := None)"
    using mem_delete_store [of "[k]" "rstore r"] by simp
  then show ?thesis
    unfolding redis_delete_def with_key_def raw_call_healthy [OF h] by (auto split: prod.splits)
qed

lemma redis_set_json_fit:
  "fit r \<Longrightarrow> \<exists>e. redis_set_json now k j ttl r = (Inr (), with_key k (Some (SJson j, e)) r)"
proof -
  assume "fit r"
  then have h: "healthy r" by (simp add: fit_def)
  have "(purge now k (rstore r))(k \<mapsto> x) = (rstore r)(k \<mapsto> x)" for x
    by (auto simp: purge_def split: option.splits)
  then show ?thesis
    by (auto simp: redis_set_json_def raw_call_healthy [OF h] mem_set_def Let_def with_key_def)
qed

lemma carried_with_key:
  assumes "carried ps r ds r' ds'" and "\<And>pid. k \<noteq> stock_key pid"
  shows "carried ps (with_key k v r) ds (with_key k v r') ds'"
proof -
  have "full (with_key k v x) es pid = full x es pid" for x es pid
    using assms(2) by (simp add: full_def)
  moreover have "rstore (with_key k v r') j = rstore (with_key k v r) j" if "\<forall>pid. j \<noteq> stock_key pid" for j
    using assms(1) that by (simp add: carried_def with_key_def)
  ultimately show ?thesis using assms by (simp add: carried_def)
qed

text \<open>Both error handlers leave every counter as it was, with the key gone.\<close>

lemma undo_fit:
  assumes "carried ps r0 d0 r ds" and "\<And>pid. key \<noteq> stock_key pid"
  shows "\<exists>r'. undo_reservation now key ds r = (Inr (), [], r') \<and> rstore r' key = None \<and>
    carried ps (with_key key None r0) d0 r' []"
proof -
  obtain r1 where r1: "rollback_redis_stock now ds r = (Inr (), [], r1)" "carried ps r0 d0 r1 []"
    using rollback_carried [OF assms(1)] by blast
  then have "fit r1" by (simp add: carried_def)
  then show ?thesis
    using r1 carried_with_key [OF r1(2) assms(2)]
    by (auto simp: undo_reservation_def redis_delete_fit with_key_def)
qed

lemma abandon_fit:
  assumes "carried ps r0 d0 r ds" and "\<And>pid. key \<noteq> stock_key pid"
  shows "\<exists>r'. abandon now key ds d r = (Inl expired_attribute, d, r') \<and> rstore r' key = None \<and>
    carried ps (with_key key None r0) d0 r' []"
  using undo_fit [OF assms, of now] by (auto simp: abandon_def)

section \<open>The order's products\<close>

lemma merge_items_keys: "distinct (map fst (add_quantity pid q m)) = distinct (map fst m)"
    "fst ` set (add_quantity pid q m) = insert pid (fst ` set m)"
  by (induction pid q m rule: add_quantity.induct) auto

lemma merge_items_distinct: "distinct (map fst (merge_items req))"
proof -
  have "distinct (map fst m) \<Longrightarrow>
      distinct (map fst (fold (\<lambda>i. add_quantity (ci_product_id i) (ci_quantity i)) is m))" for m "is"
    by (induction "is" arbitrary: m) (auto simp: merge_items_keys)
  from this [of "[]"] show ?thesis by (simp add: merge_items_def)
qed

lemma owed_add_quantity: "owed (add_quantity pid q m) j = owed m j + (if j = pid then q else 0)"
  by (induction pid q m rule: add_quantity.induct) auto

lemma owed_merge_items:
  "owed (merge_items req) pid = sum_where (\<lambda>i. ci_product_id i = pid) ci_quantity (cr_items req)"
proof -
  have "owed (fold (\<lambda>i. add_quantity (ci_product_id i) (ci_quantity i)) is m) pid =
      owed m pid + sum_where (\<lambda>i. ci_product_id i = pid) ci_quantity is" for m "is"
    by (induction "is" arbitrary: m) (auto simp: owed_add_quantity sum_where_Cons)
  from this [of "cr_items req" "[]"] show ?thesis by (simp add: merge_items_def)
qed

lemma add_quantity_pos:
  "\<forall>x\<in>set m. 0 < snd x \<Longrightarrow> 0 < n \<Longrightarrow> \<forall>x\<in>set (add_quantity p n m). 0 < snd x"
  by (induction p n m rule: add_quantity.induct) (auto simp: add_pos_pos)

lemma merge_items_pos:
  assumes "list_all create_item_ok (cr_items req)" and "(pid, q) \<in> set (merge_items req)"
  shows "0 < q"
proof -
  have "\<forall>x\<in>set m. 0 < snd x \<Longrightarrow> list_all create_item_ok is \<Longrightarrow>
      \<forall>x\<in>set (fold (\<lambda>i. add_quantity (ci_product_id i) (ci_quantity i)) is m). 0 < snd x" for m "is"
  proof (induction "is" arbitrary: m)
    case (Cons i "is")
    then have "0 < ci_quantity i" by (simp add: create_item_ok_def)
    from Cons.IH [OF add_quantity_pos [OF Cons.prems(1) this]] show ?case using Cons.prems(2) by simp
  qed simp
  from this [of "[]" "cr_items req"] show ?thesis using assms by (auto simp: merge_items_def)
qed

lemma validate_productsD:
  assumes "validate_products ps qm = Inr ()" and "(pid, q) \<in> set qm"
  obtains p where "find_by sp_id pid ps = Some p" "sp_status p" "sp_review_status p = RevApproved"
    "0 \<le> sp_stock p \<Longrightarrow> q \<le> sp_stock p"
proof -
  have "\<exists>p. find_by sp_id pid ps = Some p \<and> sp_status p \<and> sp_review_status p = RevApproved \<and>
      (0 \<le> sp_stock p \<longrightarrow> q \<le> sp_stock p)"
    using assms
    by (induction ps qm rule: validate_products.induct) (fastforce split: option.splits if_splits)+
  then show thesis using that by blast
qed

lemma find_filter_by:
  "(\<And>r. key r = k \<Longrightarrow> P r) \<Longrightarrow> find_by key k (filter P rows) = find_by key k rows"
  by (induction rows) (auto simp: find_by_Cons)

lemma load_products_find:
  "pid \<in> fst ` set qm \<Longrightarrow> find_by sp_id pid (load_products d qm) = find_by sp_id pid (products d)"
  unfolding load_products_def by (rule find_filter_by) simp

lemma load_products_stock:
  "find_by sp_id pid (load_products d qm) = Some p \<Longrightarrow> stock_of d pid = Some (sp_stock p)"
proof -
  assume p: "find_by sp_id pid (load_products d qm) = Some p"
  then have "pid \<in> fst ` set qm" using find_by_SomeD [OF p] by (auto simp: load_products_def)
  then show ?thesis using p load_products_find [of pid qm d] by (simp add: stock_of_def)
qed

section \<open>The order's rows\<close>

lemma stock_of_set_product:
  "(\<And>p. sp_id (f p) = sp_id p) \<Longrightarrow> stock_of (set_product pid f d) j =
    (if j = pid then map_option (\<lambda>p. sp_stock (f p)) (find_by sp_id pid (products d)) else stock_of d j)"
  by (simp add: stock_of_def shop_defs find_by_update_by option.map_comp comp_def)

lemma stock_of_frame [simp]:
  "stock_of (d\<lparr>items := x\<rparr>) j = stock_of d j" "stock_of (d\<lparr>orders := os\<rparr>) j = stock_of d j"
  "stock_of (d\<lparr>drawn := n\<rparr>) j = stock_of d j"
  by (simp_all add: stock_of_def)

definition takes :: "int \<Rightarrow> int \<Rightarrow> int" where
  "takes s q = (if 0 \<le> s then q else 0)"

lemma add_item_effect:
  assumes p: "find_by sp_id pid ps = Some p" and s: "stock_of d pid = Some (sp_stock p)"
  shows "stock_of (add_item oid no ps (pid, q) d) j =
      (if j = pid then Some (sp_stock p - takes (sp_stock p) q) else stock_of d j)"
    and "reserved (add_item oid no ps (pid, q) d) j =
      reserved d j + (if j = pid then takes (sp_stock p) q else 0)"
    and "items (add_item oid no ps (pid, q) d) = items d @ [new_item d oid no p q (0 \<le> sp_stock p)]"
    and "orders (add_item oid no ps (pid, q) d) = orders d" "wallet (add_item oid no ps (pid, q) d) = wallet d"
      "users (add_item oid no ps (pid, q) d) = users d"
proof -
  have pid: "sp_id p = pid" using p by (rule find_by_key)
  show items: "items (add_item oid no ps (pid, q) d) = items d @ [new_item d oid no p q (0 \<le> sp_stock p)]"
    using p by (simp add: add_item_def Let_def shop_defs new_item_def)
  show "reserved (add_item oid no ps (pid, q) d) j =
      reserved d j + (if j = pid then takes (sp_stock p) q else 0)"
    unfolding reserved_def items
    by (auto simp: sum_where_append sum_where_Cons holds_def new_item_def pid takes_def)
  obtain p' where p': "find_by sp_id pid (products d) = Some p'" "sp_stock p' = sp_stock p"
    using s by (auto simp: stock_of_def)
  show "stock_of (add_item oid no ps (pid, q) d) j =
      (if j = pid then Some (sp_stock p - takes (sp_stock p) q) else stock_of d j)"
    using p p' s by (simp add: add_item_def Let_def takes_def stock_of_set_product)
  show "orders (add_item oid no ps (pid, q) d) = orders d" "wallet (add_item oid no ps (pid, q) d) = wallet d"
      "users (add_item oid no ps (pid, q) d) = users d"
    using p by (simp_all add: add_item_def Let_def shop_defs)
qed

text \<open>New rows of an order: fresh, pending, and holding what was taken.\<close>

definition fresh_items :: "int \<Rightarrow> (int \<times> int) list \<Rightarrow> db \<Rightarrow> db \<Rightarrow> bool" where
  "fresh_items oid qm d d' \<longleftrightarrow> (\<exists>its. items d' = items d @ its \<and>
    map (\<lambda>i. (oi_product_id i, oi_quantity i)) its = qm \<and>
    (\<forall>i\<in>set its. oi_order_id i = oid \<and> oi_status i = OrdPending) \<and>
    (distinct (map oi_id (items d)) \<longrightarrow> distinct (map oi_id (items d'))))"

lemma add_items_effect:
  assumes "distinct (map fst qm)"
    and "\<And>pid. pid \<in> fst ` set qm \<Longrightarrow> \<exists>p. find_by sp_id pid ps = Some p \<and> stock_of d pid = Some (sp_stock p)"
    and "d' = fold (add_item oid no ps) qm d"
  shows "stock_of d' j = (case map_of qm j of None \<Rightarrow> stock_of d j
        | Some q \<Rightarrow> map_option (\<lambda>s. s - takes s q) (stock_of d j)) \<and>
    reserved d' j = reserved d j + (case (map_of qm j, stock_of d j) of
        (Some q, Some s) \<Rightarrow> takes s q | _ \<Rightarrow> 0) \<and>
    fresh_items oid qm d d' \<and> orders d' = orders d \<and> wallet d' = wallet d \<and> users d' = users d"
  using assms
proof (induction qm arbitrary: d)
  case Nil
  then show ?case by (simp add: fresh_items_def)
next
  case (Cons x qm)
  obtain pid q where x: "x = (pid, q)" by fastforce
  obtain p where p: "find_by sp_id pid ps = Some p" and s: "stock_of d pid = Some (sp_stock p)"
    using Cons.prems(2) [of pid] x by auto
  let ?d = "add_item oid no ps (pid, q) d"
  note e = add_item_effect [OF p s, of oid no q]
  have new: "pid \<notin> fst ` set qm" using Cons.prems(1) x by auto
  have "\<exists>p. find_by sp_id j ps = Some p \<and> stock_of ?d j = Some (sp_stock p)" if "j \<in> fst ` set qm" for j
    using Cons.prems(2) [of j] that new by (auto simp: e(1))
  from Cons.IH [OF _ this] Cons.prems(1,3) x have IH:
    "stock_of d' j = (case map_of qm j of None \<Rightarrow> stock_of ?d j
        | Some q \<Rightarrow> map_option (\<lambda>s. s - takes s q) (stock_of ?d j))"
    "reserved d' j = reserved ?d j + (case (map_of qm j, stock_of ?d j) of
        (Some q, Some s) \<Rightarrow> takes s q | _ \<Rightarrow> 0)"
    "fresh_items oid qm ?d d'" "orders d' = orders d" "wallet d' = wallet d" "users d' = users d"
    by (simp_all add: e)
  have none: "map_of qm pid = None" using new by (simp add: map_of_eq_None_iff)
  obtain its where its: "items d' = items ?d @ its" "map (\<lambda>i. (oi_product_id i, oi_quantity i)) its = qm"
      "\<forall>i\<in>set its. oi_order_id i = oid \<and> oi_status i = OrdPending"
      "distinct (map oi_id (items ?d)) \<longrightarrow> distinct (map oi_id (items d'))"
    using IH(3) by (auto simp: fresh_items_def)
  have "distinct (map oi_id (items d)) \<longrightarrow> distinct (map oi_id (items ?d))"
    using fresh_id_new [of oi_id "items d"] by (auto simp: e(3) new_item_def)
  then have "fresh_items oid (x # qm) d d'"
    using its find_by_key [OF p]
    by (auto simp: fresh_items_def e(3) x new_item_def)
  then show ?case
    using IH none s by (auto simp: x e split: option.splits)
qed

end
