(* ===== verification/Order_Release.thy ===== *)
theory Order_Release
  imports Order_Stock
begin

text \<open>
  Giving stock back: the loops of \<open>cancel_unpaid_order\<close> and \<open>finalize_refund\<close> over the
  items of an order. With a healthy Redis both are the same release of each item; its
  effect on the two stock stores and on the items is stated once for the whole loop.
\<close>

definition release_item :: "order_item \<Rightarrow> db \<Rightarrow> db" where
  "release_item i d =
    set_item (oi_id i) released_item
      (if oi_stock_deducted i \<and> restorable d (oi_product_id i)
       then add_stock (oi_product_id i) (oi_quantity i) d else d)"

definition release_redis :: "order_item \<Rightarrow> db \<Rightarrow> redis \<Rightarrow> redis" where
  "release_redis i d r =
    (if oi_stock_deducted i \<and> restorable d (oi_product_id i)
     then put_stock (oi_product_id i) (count_at r (oi_product_id i) + oi_quantity i) r else r)"

lemma canceled_is_released:
  assumes "distinct (map oi_id (items d))" and "i \<in> set (items d)" and "\<not> oi_stock_deducted i"
  shows "set_item (oi_id i) canceled_item d = set_item (oi_id i) released_item d"
proof -
  have "canceled_item x = released_item x" if "x \<in> set (items d)" "oi_id x = oi_id i" for x
  proof -
    have "x = i" using assms(1,2) that by (metis find_by_distinct option.inject)
    then show ?thesis using assms(3) by (simp add: canceled_item_def released_item_def)
  qed
  then show ?thesis by (simp add: set_item_def update_by_def)
qed

lemma cancel_item_fit:
  assumes "fit r" and "distinct (map oi_id (items d))" and "i \<in> set (items d)"
  shows "cancel_item now i d r = (Inr (release_item i d), release_redis i d r)"
  using canceled_is_released [OF assms(2,3)]
  by (simp add: cancel_item_def release_item_def release_redis_def try_incr_stock_def incr_stock_fit [OF assms(1)])

definition unsold :: "order_item \<Rightarrow> db \<Rightarrow> db" where
  "unsold i d = set_product (oi_product_id i) (\<lambda>p. p\<lparr>sp_sales := max 0 (sp_sales p - oi_quantity i)\<rparr>) d"

lemma refund_item_fit:
  assumes "fit r" and "distinct (map oi_id (items d))" and "i \<in> set (items d)"
  shows "refund_item now i d r = (Inr (release_item i (unsold i d)), release_redis i (unsold i d) r)"
proof -
  have "items (unsold i d) = items d" by (simp add: unsold_def shop_defs)
  then show ?thesis
    using canceled_is_released [of "unsold i d" i] assms
    by (simp add: refund_item_def release_item_def release_redis_def try_incr_stock_def Let_def
        incr_stock_fit [OF assms(1)] unsold_def [symmetric])
qed

lemma settled_unsold: "settled d (unsold i d)"
  unfolding unsold_def by (rule settled_sales)

lemma restorable_stock: "restorable d pid = (case stock_of d pid of Some s \<Rightarrow> 0 \<le> s | None \<Rightarrow> False)"
  by (simp add: restorable_def stock_of_def split: option.splits)

section \<open>One item\<close>

definition given_back :: "order_item \<Rightarrow> int \<Rightarrow> int" where
  "given_back i j = (if holds j i then oi_quantity i else 0)"

lemma items_release: "items (release_item i d) = update_by oi_id (oi_id i) released_item (items d)"
  by (simp add: release_item_def shop_defs add_stock_def)

lemma release_frame [simp]:
  "orders (release_item i d) = orders d" "wallet (release_item i d) = wallet d"
  "users (release_item i d) = users d" "entitlements (release_item i d) = entitlements d"
  by (simp_all add: release_item_def shop_defs add_stock_def)

lemma release_stock:
  "stock_of (release_item i d) j =
    map_option (\<lambda>s. if 0 \<le> s then s + given_back i j else s) (stock_of d j)"
proof -
  have frame: "stock_of (set_item k g e) j = stock_of e j" for k g e
    by (simp add: set_item_def)
  have "stock_of (add_stock pid q d) j = (if j = pid then map_option (\<lambda>s. s + q) (stock_of d j) else stock_of d j)" for pid q
    by (simp add: add_stock_def stock_of_set_product option.map_comp comp_def) (simp add: stock_of_def option.map_comp comp_def)
  then show ?thesis
    by (cases "stock_of d j")
      (auto simp: release_item_def frame restorable_stock given_back_def holds_def)
qed

lemma release_reserved:
  assumes "distinct (map oi_id (items d))" and "i \<in> set (items d)"
  shows "reserved (release_item i d) j = reserved d j - given_back i j"
proof -
  have "find_by oi_id (oi_id i) (items d) = Some i" using assms by (rule find_by_distinct)
  from sum_where_update_by [OF assms(1) this] show ?thesis
    by (auto simp: reserved_def items_release given_back_def holds_def released_item_def)
qed

lemma release_ids: "map oi_id (items (release_item i d)) = map oi_id (items d)"
  by (simp add: items_release map_key_update_by released_item_def)

lemma release_others:
  "x \<in> set (items d) \<Longrightarrow> oi_id x \<noteq> oi_id i \<Longrightarrow> x \<in> set (items (release_item i d))"
  by (force simp: items_release set_update_by)

lemma settled_distinct: "settled d d' \<Longrightarrow> map oi_id (items d') = map oi_id (items d)"
proof -
  assume "settled d d'"
  then have "map fst (map item_view (items d')) = map fst (map item_view (items d))"
    by (simp add: settled_def)
  then show ?thesis by (simp add: item_view_def comp_def)
qed

section \<open>The loop\<close>

definition held :: "order_item list \<Rightarrow> int \<Rightarrow> int" where
  "held is j = sum_where (holds j) oi_quantity is"

text \<open>
  A turn of the loop: what it does to the database up to a writer that moves nothing here.
\<close>

definition releasing :: "(order_item \<Rightarrow> db \<Rightarrow> redis \<Rightarrow> db result \<times> redis) \<Rightarrow> (order_item \<Rightarrow> db \<Rightarrow> db) \<Rightarrow> bool" where
  "releasing f g \<longleftrightarrow>
    (\<forall>i d. settled d (g i d) \<and> items (g i d) = items d \<and> entitlements (g i d) = entitlements d) \<and>
    (\<forall>i d r. fit r \<longrightarrow> distinct (map oi_id (items d)) \<longrightarrow> i \<in> set (items d) \<longrightarrow>
       f i d r = (Inr (release_item i (g i d)), release_redis i (g i d) r))"

lemma releasing_cancel: "releasing (cancel_item now) (\<lambda>i d. d)"
  by (simp add: releasing_def cancel_item_fit)

lemma releasing_refund: "releasing (refund_item now) unsold"
  unfolding releasing_def using settled_unsold refund_item_fit
  by (auto simp: unsold_def shop_defs)

definition released :: "order_item list \<Rightarrow> db \<Rightarrow> redis \<Rightarrow> db \<Rightarrow> redis \<Rightarrow> bool" where
  "released is d r d' r' \<longleftrightarrow> fit r' \<and>
    (\<forall>j. stock_of d' j = map_option (\<lambda>s. if 0 \<le> s then s + held is j else s) (stock_of d j)) \<and>
    (\<forall>j. reserved d' j = reserved d j - held is j) \<and>
    (\<forall>j. stock_at r' j = (if (\<exists>i\<in>set is. holds j i) \<and> restorable d j
        then Some (count_at r j + held is j) else stock_at r j)) \<and>
    items d' = map (\<lambda>i. if oi_id i \<in> oi_id ` set is then released_item i else i) (items d) \<and>
    orders d' = orders d \<and> wallet d' = wallet d \<and> entitlements d' = entitlements d \<and>
    (\<forall>uid. balance_of d' uid = balance_of d uid)"

lemma each_item_released:
  assumes "releasing f g" and "fit r" and "distinct (map oi_id (items d))" and "set is \<subseteq> set (items d)"
    and "distinct (map oi_id is)" and "\<forall>i\<in>set is. 0 \<le> oi_quantity i"
  shows "\<exists>d' r'. each_item f is d r = (Inr d', r') \<and> released is d r d' r'"
  using assms(2-)
proof (induction "is" arbitrary: d r)
  case Nil
  have "map_option (\<lambda>s. if 0 \<le> s then s + held [] j else s) x = x" for j and x :: "int option"
    by (cases x) (simp_all add: held_def)
  then show ?case using Nil by (simp add: released_def held_def)
next
  case (Cons i "is")
  let ?e = "g i d"
  let ?d = "release_item i ?e" and ?r = "release_redis i ?e r"
  have g: "settled d ?e" "items ?e = items d" "entitlements ?e = entitlements d"
    using assms(1) by (simp_all add: releasing_def)
  have step: "f i d r = (Inr ?d, ?r)" using assms(1) Cons.prems by (simp add: releasing_def)
  have stock0: "stock_of ?e j = stock_of d j" for j using g(1) by (rule settled_stock)
  have sub: "set is \<subseteq> set (items ?d)"
  proof
    fix x assume x: "x \<in> set is"
    then have "oi_id x \<in> oi_id ` set is" by simp
    then have "oi_id x \<noteq> oi_id i" using Cons.prems(4) by auto
    moreover have "x \<in> set (items ?e)" using x Cons.prems(3) g(2) by auto
    ultimately show "x \<in> set (items ?d)" by (rule release_others [rotated])
  qed
  have "fit ?r" using Cons.prems(1) by (simp add: release_redis_def)
  moreover have "distinct (map oi_id (items ?d))" using Cons.prems(2) release_ids [of i ?e] g(2) by simp
  ultimately obtain d' r' where IH: "each_item f is ?d ?r = (Inr d', r')" "released is ?d ?r d' r'"
    using Cons.IH [of ?r ?d] sub Cons.prems(4,5) by auto
  have q: "0 \<le> oi_quantity i" "0 \<le> held is j" for j
    using Cons.prems(5) by (auto simp: held_def intro: sum_where_nonneg)
  have held: "held (i # is) j = given_back i j + held is j" for j
    by (simp add: held_def sum_where_Cons given_back_def)
  have gb: "0 \<le> given_back i j" for j using q(1) by (simp add: given_back_def)
  have stock: "stock_of ?d j = map_option (\<lambda>s. if 0 \<le> s then s + given_back i j else s) (stock_of d j)" for j
    by (simp add: release_stock stock0)
  have "stock_of d' j = map_option (\<lambda>s. if 0 \<le> s then s + held (i # is) j else s) (stock_of d j)" for j
    using IH(2) stock [of j] held [of j] gb [of j]
    by (cases "stock_of d j") (auto simp: released_def)
  moreover have "reserved d' j = reserved d j - held (i # is) j" for j
    using IH(2) release_reserved [of ?e i j] Cons.prems(2,3) g held [of j] settled_reserved [OF g(1), of j]
    by (simp add: released_def)
  moreover have "stock_at r' j = (if (\<exists>x\<in>set (i # is). holds j x) \<and> restorable d j
      then Some (count_at r j + held (i # is) j) else stock_at r j)" for j
  proof -
    have rest: "restorable ?d j = restorable d j"
      using stock [of j] gb [of j] by (cases "stock_of d j") (auto simp: restorable_stock)
    have at: "stock_at ?r j = (if holds j i \<and> restorable d j then Some (count_at r j + oi_quantity i) else stock_at r j)"
      by (auto simp: release_redis_def holds_def restorable_stock stock0)
    have none: "held is j = 0" if "\<not> (\<exists>x\<in>set is. holds j x)"
      using that by (auto simp: held_def intro: sum_where_none)
    show ?thesis
      using IH(2) rest at none held [of j]
      by (auto simp: released_def count_at_def given_back_def)
  qed
  moreover have "items d' = map (\<lambda>x. if oi_id x \<in> oi_id ` set (i # is) then released_item x else x) (items d)"
  proof -
    have "items d' = map (\<lambda>x. if oi_id x \<in> oi_id ` set is then released_item x else x)
        (update_by oi_id (oi_id i) released_item (items d))"
      using IH(2) g(2) by (simp add: released_def items_release)
    then show ?thesis
      by (auto simp: update_by_def released_item_def)
  qed
  moreover have "balance_of d' uid = balance_of d uid" for uid
  proof -
    have "balance_of ?d uid = balance_of ?e uid" by (simp add: balance_of_def find_user_def)
    then show ?thesis using IH(2) settled_balance [OF g(1), of uid] by (simp add: released_def)
  qed
  ultimately have "released (i # is) d r d' r'"
    using IH(2) g by (simp add: released_def settled_def)
  then show ?case using step IH(1) by auto
qed

end
