(* ===== verification/Order_Inv.thy ===== *)
theory Order_Inv
  imports Order_Release
begin

text \<open>
  The invariant of the shop over the database and Redis together: the states an order can
  be in, the link between orders and their items, and the agreement of the two stock
  stores; and that creating, paying, cancelling and refunding keep it.
\<close>

definition order_state_ok :: "commerce_order \<Rightarrow> bool" where
  "order_state_ok o1 \<longleftrightarrow>
    (case (co_status o1, co_payment_status o1) of
       (OrdPending, PayPending) \<Rightarrow> co_paid_at o1 = None \<and> co_canceled_at o1 = None \<and> co_refunded_at o1 = None
     | (OrdPaid, PayPaid) \<Rightarrow> co_paid_at o1 \<noteq> None \<and> co_canceled_at o1 = None \<and> co_refunded_at o1 = None
     | (OrdCanceled, PayCanceled) \<Rightarrow> co_paid_at o1 = None \<and> co_canceled_at o1 \<noteq> None \<and> co_refunded_at o1 = None
     | (OrdCanceled, PayRefunded) \<Rightarrow> co_paid_at o1 \<noteq> None \<and> co_canceled_at o1 \<noteq> None \<and> co_refunded_at o1 \<noteq> None
     | _ \<Rightarrow> False)"

definition owner_of :: "commerce_order \<Rightarrow> int \<times> string" where
  "owner_of o1 = (co_user_id o1, co_idempotency_key o1)"

definition item_linked :: "commerce_order list \<Rightarrow> order_item \<Rightarrow> bool" where
  "item_linked os i \<longleftrightarrow> 0 < oi_quantity i \<and>
    (\<exists>o1\<in>set os. co_id o1 = oi_order_id i \<and> (oi_stock_deducted i \<longrightarrow> co_status o1 \<noteq> OrdCanceled))"

definition shop_ok :: "db \<Rightarrow> bool" where
  "shop_ok d \<longleftrightarrow> distinct (map oi_id (items d)) \<and> distinct (map co_id (orders d)) \<and>
    distinct (map co_order_no (orders d)) \<and> distinct (map owner_of (orders d)) \<and>
    (\<forall>o1\<in>set (orders d). order_state_ok o1) \<and> (\<forall>i\<in>set (items d). item_linked (orders d) i)"

text \<open>
  A limited product's counter equals its database stock; while there is none, no order
  holds any of the product.
\<close>

definition synced :: "db \<Rightarrow> redis \<Rightarrow> bool" where
  "synced d r \<longleftrightarrow> (\<forall>j s. stock_of d j = Some s \<longrightarrow> 0 \<le> s \<longrightarrow>
     stock_at r j = Some s \<or> stock_at r j = None \<and> reserved d j = 0)"

lemma syncedD:
  assumes "synced d r" and "stock_of d j = Some s" and "0 \<le> s"
  shows "stock_at r j = None \<Longrightarrow> reserved d j = 0" and "stock_at r j = Some n \<Longrightarrow> n = s"
proof -
  have "stock_at r j = Some s \<or> stock_at r j = None \<and> reserved d j = 0"
    using assms unfolding synced_def by blast
  then show "stock_at r j = None \<Longrightarrow> reserved d j = 0" and "stock_at r j = Some n \<Longrightarrow> n = s" by auto
qed

definition shop_inv :: "db \<times> redis \<Rightarrow> bool" where
  "shop_inv s \<longleftrightarrow> shop_ok (fst s) \<and> fit (snd s) \<and> synced (fst s) (snd s)"

section \<open>Creation\<close>

lemma result_key_idem [simp]: "result_key uid key \<noteq> idem_key uid key"
  by (simp add: result_key_def)

text \<open>What is left of a creation that gave up: the database as it was, no key, no reservation.\<close>

definition gave_up :: "db \<Rightarrow> int \<Rightarrow> create_request \<Rightarrow> redis \<Rightarrow> commerce_order result \<times> db \<times> redis \<Rightarrow> bool" where
  "gave_up d uid req r out \<longleftrightarrow>
    (case out of (res, d', r') \<Rightarrow>
       d' = d \<and> rstore r' (idem_key uid (cr_idempotency_key req)) = None \<and>
       carried (load_products d (merge_items req)) (with_key (idem_key uid (cr_idempotency_key req)) None r) [] r' [] \<and>
       res = Inl expired_attribute)"

lemma abandon_gives_up:
  assumes "carried (load_products d (merge_items req)) r [] r2 ds"
  shows "gave_up d uid req r (abandon now (idem_key uid (cr_idempotency_key req)) ds d r2)"
  using abandon_fit [OF assms, of "idem_key uid (cr_idempotency_key req)" now d] by (auto simp: gave_up_def)

text \<open>The unique key was taken meanwhile.\<close>

lemma race_gives_up:
  assumes "carried (load_products d (merge_items req)) r [] r1 ds"
  shows "gave_up d uid req r
    (case undo_reservation now (idem_key uid (cr_idempotency_key req)) ds r1 of
       (_, ds', r2) \<Rightarrow> abandon now (idem_key uid (cr_idempotency_key req)) ds' d r2)"
proof -
  let ?key = "idem_key uid (cr_idempotency_key req)" and ?ps = "load_products d (merge_items req)"
  obtain r2 where u: "undo_reservation now ?key ds r1 = (Inr (), [], r2)" "rstore r2 ?key = None"
      "carried ?ps (with_key ?key None r) [] r2 []"
    using undo_fit [OF assms, of ?key now] by auto
  obtain r3 where "abandon now ?key [] d r2 = (Inl expired_attribute, d, r3)"
      "rstore r3 ?key = None" "carried ?ps (with_key ?key None (with_key ?key None r)) [] r3 []"
    using abandon_fit [OF u(3), of ?key now d] by auto
  then show ?thesis
    using u by (auto simp: gave_up_def with_key_def)
qed

lemma create_locked_cases:
  assumes "fit r" and ok: "create_request_ok req"
    and c: "create_locked now ttl d uid req r = (res, d', r')"
  obtains (created) o1 r1 where "res = Inr o1"
      "validate_products (load_products d (merge_items req)) (merge_items req) = Inr ()"
      "persist_order now d uid req (load_products d (merge_items req)) (merge_items req) = Inr (o1, d')"
      "carried (load_products d (merge_items req)) r [] r1
         (filter (limited (load_products d (merge_items req))) (merge_items req))"
      "fit r'" "\<And>pid. stock_at r' pid = stock_at r1 pid"
      "rstore r' (idem_key uid (cr_idempotency_key req)) = rstore r (idem_key uid (cr_idempotency_key req))"
  | (failed) "d' = d" "rstore r' (idem_key uid (cr_idempotency_key req)) = None"
      "carried (load_products d (merge_items req)) (with_key (idem_key uid (cr_idempotency_key req)) None r) [] r' []"
      "res = Inl expired_attribute"
proof -
  define qm where "qm = merge_items req"
  define ps where "ps = load_products d qm"
  define key where "key = idem_key uid (cr_idempotency_key req)"
  note defs = qm_def [symmetric] ps_def [symmetric] key_def [symmetric]
  have c0: "carried ps r [] r []" using assms(1) by (rule carried_refl)
  have lost: thesis if "gave_up d uid req r (res, d', r')"
    using that failed by (simp add: gave_up_def)
  note aband = abandon_gives_up [of d req r _ _ uid now, folded qm_def, folded ps_def, folded key_def]
  note race = race_gives_up [of d req r _ _ uid now, folded qm_def, folded ps_def, folded key_def]
  show thesis
  proof (cases "validate_products ps qm")
    case (Inl e)
    then show thesis using c lost aband [OF c0] by (simp add: create_locked_def Let_def defs)
  next
    case (Inr u)
    then have v: "validate_products ps qm = Inr ()" by simp
    have found: "\<forall>x\<in>set qm. find_by sp_id (fst x) ps \<noteq> None"
      using validate_productsD [OF v] by (metis option.distinct(1) prod.collapse)
    obtain rs ds r1 where pre: "pre_deduct_stock now ps qm [] r = (rs, ds, r1)"
      by (metis prod_cases3)
    note pc = pre_deduct_carried [OF c0 pre found]
    show thesis
    proof (cases rs)
      case (Inl e)
      then show thesis
        using c v pre pc lost aband [of r1 ds] by (auto simp: create_locked_def Let_def defs)
    next
      case (Inr u)
      then have pre: "pre_deduct_stock now ps qm [] r = (Inr (), ds, r1)"
          and cr: "carried ps r [] r1 ds" and ds: "ds = filter (limited ps) qm"
        using pre pc by auto
      show thesis
      proof (cases "persist_order now d uid req ps qm")
        case (Inl e)
        then have "gave_up d uid req r (res, d', r')"
          using c v pre race [OF cr] aband [OF cr] by (cases e) (simp_all add: create_locked_def Let_def defs)
        then show thesis by (rule lost)
      next
        case (Inr od)
        then obtain o1 d1 where per: "persist_order now d uid req ps qm = Inr (o1, d1)" by (cases od) auto
        have f1: "fit r1" using cr by (simp add: carried_def)
        obtain x where set: "redis_set_json now (result_key uid (cr_idempotency_key req))
            (JObj [(''order_no'', JStr (co_order_no o1))]) ttl r1
            = (Inr (), with_key (result_key uid (cr_idempotency_key req)) x r1)"
          using redis_set_json_fit [OF f1] by blast
        have res: "res = Inr o1" "d' = d1" "r' = with_key (result_key uid (cr_idempotency_key req)) x r1"
          using c v pre per set by (simp_all add: create_locked_def Let_def defs)
        have "rstore r1 key = rstore r key" using cr by (simp add: carried_def key_def)
        then have "rstore r' key = rstore r key"
          using res by (simp add: with_key_def key_def not_sym [OF result_key_idem])
        then show thesis
          using created [folded key_def, folded qm_def, folded ps_def, of o1 r1] res v per cr ds f1 by simp
      qed
    qed
  qed
qed

lemma persist_cases:
  assumes "persist_order now d uid req ps qm = Inr (o1, d')"
  obtains "o1 = new_order d (numbers d ''XO'' (drawn d)) uid req (order_total ps qm) (order_school ps qm) now"
    "0 \<le> order_total ps qm"
    "\<forall>x\<in>set (orders d). owner_of x \<noteq> owner_of o1 \<and> co_order_no x \<noteq> co_order_no o1"
    "d' = fold (add_item (co_id o1) (co_order_no o1) ps) qm
       (d\<lparr>drawn := Suc (drawn d), orders := orders d @ [o1]\<rparr>)"
proof -
  let ?d = "d\<lparr>drawn := Suc (drawn d)\<rparr>"
  let ?o = "new_order ?d (numbers d ''XO'' (drawn d)) uid req (order_total ps qm) (order_school ps qm) now"
  obtain d2 where pos: "0 \<le> order_total ps qm" and f: "flush_order ?o ?d = Inr d2" and o1: "o1 = ?o"
      and d': "d' = fold (add_item (co_id ?o) (numbers d ''XO'' (drawn d)) ps) qm d2"
    using assms by (auto simp: persist_order_def draw_no_def Let_def split: if_splits sum.splits)
  have same: "?o = new_order d (numbers d ''XO'' (drawn d)) uid req (order_total ps qm) (order_school ps qm) now"
    by (simp add: new_order_def)
  have "d2 = ?d\<lparr>orders := orders d @ [?o]\<rparr>"
      "\<forall>x\<in>set (orders d). owner_of x \<noteq> owner_of o1 \<and> co_order_no x \<noteq> co_order_no o1"
    using f by (auto simp: flush_order_def owner_of_def o1 list_ex_iff split: if_splits)
  moreover have "co_order_no ?o = numbers d ''XO'' (drawn d)" by (simp add: new_order_def)
  ultimately show thesis using that pos o1 d' same by simp
qed

lemma new_order_state: "order_state_ok (new_order d no uid req amount school now)"
  by (simp add: order_state_ok_def new_order_def)

text \<open>What a persisted order does to stock, holdings and rows.\<close>

lemma persist_effect:
  assumes p: "persist_order now d uid req (load_products d qm) qm = Inr (o1, d')"
    and v: "validate_products (load_products d qm) qm = Inr ()" and dist: "distinct (map fst qm)"
  shows "stock_of d' j = (case map_of qm j of None \<Rightarrow> stock_of d j
        | Some q \<Rightarrow> map_option (\<lambda>s. s - takes s q) (stock_of d j))"
    and "reserved d' j = reserved d j + (case (map_of qm j, stock_of d j) of
        (Some q, Some s) \<Rightarrow> takes s q | _ \<Rightarrow> 0)"
    and "fresh_items (co_id o1) qm d d'" and "orders d' = orders d @ [o1]"
    and "wallet d' = wallet d" and "users d' = users d"
proof -
  let ?d = "d\<lparr>drawn := Suc (drawn d), orders := orders d @ [o1]\<rparr>"
  have d': "d' = fold (add_item (co_id o1) (co_order_no o1) (load_products d qm)) qm ?d"
    using p by (rule persist_cases)
  have "\<exists>p. find_by sp_id pid (load_products d qm) = Some p \<and> stock_of ?d pid = Some (sp_stock p)"
    if k: "pid \<in> fst ` set qm" for pid
  proof -
    obtain q where "(pid, q) \<in> set qm" using k by auto
    from validate_productsD [OF v this] obtain p where "find_by sp_id pid (load_products d qm) = Some p" by blast
    then show ?thesis using load_products_stock [of pid d qm p] by simp
  qed
  note effect = add_items_effect [OF dist this d']
  have frame: "stock_of ?d i = stock_of d i" "reserved ?d i = reserved d i" for i
    by (simp_all add: reserved_def)
  note e = effect [unfolded frame]
  show "stock_of d' j = (case map_of qm j of None \<Rightarrow> stock_of d j
        | Some q \<Rightarrow> map_option (\<lambda>s. s - takes s q) (stock_of d j))"
    using e [of j] by simp
  show "reserved d' j = reserved d j + (case (map_of qm j, stock_of d j) of
        (Some q, Some s) \<Rightarrow> takes s q | _ \<Rightarrow> 0)"
    using e [of j] by simp
  show "fresh_items (co_id o1) qm d d'" using e by (simp add: fresh_items_def)
  show "orders d' = orders d @ [o1]" "wallet d' = wallet d" "users d' = users d" using e by simp_all
qed

lemma item_linked_append: "item_linked os i \<Longrightarrow> item_linked (os @ [o1]) i"
  by (auto simp: item_linked_def)

lemma persist_shop_ok:
  assumes ok: "shop_ok d" and p: "persist_order now d uid req (load_products d qm) qm = Inr (o1, d')"
    and v: "validate_products (load_products d qm) qm = Inr ()" and dist: "distinct (map fst qm)"
    and pos: "\<forall>x\<in>set qm. 0 < snd x"
  shows "shop_ok d'"
proof -
  note e = persist_effect [OF p v dist]
  have o1: "o1 = new_order d (numbers d ''XO'' (drawn d)) uid req (order_total (load_products d qm) qm)
      (order_school (load_products d qm) qm) now"
    "\<forall>x\<in>set (orders d). owner_of x \<noteq> owner_of o1 \<and> co_order_no x \<noteq> co_order_no o1"
    using p by (rule persist_cases; simp)+
  have st: "co_status o1 = OrdPending" "co_id o1 = fresh_id co_id (orders d)"
    using o1(1) by (simp_all add: new_order_def)
  have so: "order_state_ok o1" unfolding o1(1) by (rule new_order_state)
  obtain its where its: "items d' = items d @ its" "map (\<lambda>i. (oi_product_id i, oi_quantity i)) its = qm"
      "\<forall>i\<in>set its. oi_order_id i = co_id o1" "distinct (map oi_id (items d'))"
    using e(3) ok by (auto simp: fresh_items_def shop_ok_def)
  have q: "0 < oi_quantity i" if "i \<in> set its" for i
  proof -
    have "(oi_product_id i, oi_quantity i) \<in> set qm" using its(2) that by force
    then show ?thesis using pos by force
  qed
  have "item_linked (orders d') i" if "i \<in> set (items d')" for i
    using that its q st e(4) ok item_linked_append [of "orders d" i o1]
    by (auto simp: item_linked_def shop_ok_def)
  moreover have "co_id o1 \<notin> co_id ` set (orders d)" using st fresh_id_new [of co_id "orders d"] by simp
  ultimately show ?thesis
    using ok its(4) o1(2) so e(4) by (auto simp: shop_ok_def)
qed

lemma owed_filter:
  "distinct (map fst qm) \<Longrightarrow> owed (filter P qm) j =
    (case map_of qm j of Some q \<Rightarrow> if P (j, q) then q else 0 | None \<Rightarrow> 0)"
proof (induction qm)
  case (Cons x qm)
  obtain k q where x: "x = (k, q)" by fastforce
  show ?case
  proof (cases "k = j")
    case True
    then have "j \<notin> fst ` set (filter P qm)" using Cons.prems x by auto
    then show ?thesis using True x by (simp add: owed_absent)
  next
    case False
    then show ?thesis using Cons x by simp
  qed
qed simp

lemma created_synced:
  assumes sy: "synced d r" and p: "persist_order now d uid req (load_products d qm) qm = Inr (o1, d')"
    and v: "validate_products (load_products d qm) qm = Inr ()" and dist: "distinct (map fst qm)"
    and c: "carried (load_products d qm) r [] r1 (filter (limited (load_products d qm)) qm)"
    and at: "\<And>pid. stock_at r' pid = stock_at r1 pid"
  shows "synced d' r'"
  unfolding synced_def
proof (intro allI impI)
  fix j s' assume s': "stock_of d' j = Some s'" "0 \<le> s'"
  let ?ps = "load_products d qm" and ?ds = "filter (limited (load_products d qm)) qm"
  note e = persist_effect [OF p v dist]
  have c': "full r1 ?ds j = stock_at r j \<or> stock_at r j = None \<and>
      (\<exists>p. find_by sp_id j ?ps = Some p \<and> full r1 ?ds j = Some (sp_stock p))"
    using c by (simp add: carried_def)
  have seeded: "stock_of d j = Some (sp_stock p)" if "find_by sp_id j ?ps = Some p" for p
    using that by (rule load_products_stock)
  show "stock_at r' j = Some s' \<or> stock_at r' j = None \<and> reserved d' j = 0"
  proof (cases "map_of qm j")
    case None
    then have "stock_of d j = Some s'" "reserved d' j = reserved d j" using e s' by simp_all
    moreover have "owed ?ds j = 0" using owed_filter [OF dist] None by simp
    moreover from this have "full r1 ?ds j = stock_at r1 j"
      by (cases "stock_at r1 j") (simp_all add: full_def)
    ultimately show ?thesis
      using syncedD [OF sy _ s'(2), of j] c' seeded by (cases "stock_at r j") (auto simp: at)
  next
    case (Some q)
    then obtain s where s: "stock_of d j = Some s" "s' = s - takes s q" using e(1) [of j] s'(1)
      by (cases "stock_of d j") auto
    have s0: "0 \<le> s" using s s'(2) by (simp add: takes_def split: if_splits)
    then have sq: "s' = s - q" using s by (simp add: takes_def)
    have "(j, q) \<in> set qm" using Some by (rule map_of_SomeD)
    from validate_productsD [OF v this] obtain pr where pr: "find_by sp_id j ?ps = Some pr" by blast
    then have lim: "limited ?ps (j, q)" using seeded s s0 by (simp add: limited_def)
    then have owed: "owed ?ds j = q" using owed_filter [OF dist] Some by simp
    have "(j, q) \<in> set ?ds" using lim \<open>(j, q) \<in> set qm\<close> by simp
    then obtain n where n: "stock_at r1 j = Some n" using c by (fastforce simp: carried_def)
    then have "full r1 ?ds j = Some (n + q)" by (simp add: full_def owed)
    then have "n + q = s"
      using c' syncedD [OF sy s(1) s0] seeded s(1) by auto
    then show ?thesis using n sq by (simp add: at)
  qed
qed

lemma failed_synced:
  assumes sy: "synced d r" and c: "carried (load_products d qm) (with_key k None r) [] r' []"
    and k: "\<And>pid. k \<noteq> stock_key pid"
  shows "synced d r'"
  unfolding synced_def
proof (intro allI impI)
  fix j s assume s: "stock_of d j = Some s" "0 \<le> s"
  have "stock_at r' j = stock_at r j \<or>
      stock_at r j = None \<and> (\<exists>p. find_by sp_id j (load_products d qm) = Some p \<and> stock_at r' j = Some (sp_stock p))"
    using c k by (simp add: carried_def)
  then show "stock_at r' j = Some s \<or> stock_at r' j = None \<and> reserved d j = 0"
    using syncedD [OF sy s] s load_products_stock [of j d qm] by (cases "stock_at r j") auto
qed

lemma create_inv:
  assumes inv: "shop_inv (d, r)" and ok: "create_request_ok req"
    and c: "create_locked now ttl d uid req r = (res, d', r')"
  shows "shop_inv (d', r')"
proof -
  have fit: "fit r" and shop: "shop_ok d" and sy: "synced d r" using inv by (simp_all add: shop_inv_def)
  have pos: "\<forall>x\<in>set (merge_items req). 0 < snd x"
    using merge_items_pos [of req] ok by (auto simp: create_request_ok_def)
  show ?thesis
    using fit ok c
  proof (cases rule: create_locked_cases)
    case (created o1 r1)
    then show ?thesis
      using persist_shop_ok [OF shop created(3,2) merge_items_distinct pos]
        created_synced [OF sy created(3,2) merge_items_distinct created(4,6)]
      by (simp add: shop_inv_def)
  next
    case failed
    then have "fit r'" by (simp add: carried_def)
    then show ?thesis
      using failed shop failed_synced [OF sy failed(3)] by (simp add: shop_inv_def)
  qed
qed

section \<open>Writers that move neither stock nor orders\<close>

definition calm :: "db \<Rightarrow> db \<Rightarrow> bool" where
  "calm d d' \<longleftrightarrow> orders d' = orders d \<and> map item_view (items d') = map item_view (items d) \<and>
    map product_view (products d') = map product_view (products d)"

lemma settled_calm: "settled d d' \<Longrightarrow> calm d d'"
  by (simp add: settled_def calm_def)

lemma calm_trans: "calm a b \<Longrightarrow> calm b c \<Longrightarrow> calm a c"
  by (simp add: calm_def)

lemma calm_stock: "calm d d' \<Longrightarrow> stock_of d' pid = stock_of d pid"
  unfolding stock_of_def calm_def
  by (rule map_option_trans [OF find_by_view [of product_view]]) (auto simp: product_view_def)

lemma calm_reserved: "calm d d' \<Longrightarrow> reserved d' pid = reserved d pid"
  unfolding reserved_def calm_def
  by (rule sum_where_view [of item_view]) (auto simp: item_view_def holds_def)

lemma all_view:
  assumes "map v xs = map v ys" and inj: "\<And>x y. v x = v y \<Longrightarrow> P x = P y" and "\<forall>y\<in>set ys. P y"
  shows "\<forall>x\<in>set xs. P x"
proof
  fix x assume "x \<in> set xs"
  then have "v x \<in> set (map v xs)" by simp
  then have "v x \<in> set (map v ys)" using assms(1) by simp
  then obtain y where "y \<in> set ys" "v x = v y" by auto
  then show "P x" using inj [of x y] assms(3) by simp
qed

lemma calm_shop_ok:
  assumes "calm d d'" and "shop_ok d" shows "shop_ok d'"
proof -
  have m: "map item_view (items d') = map item_view (items d)" and o1: "orders d' = orders d"
    using assms(1) by (simp_all add: calm_def)
  have "map fst (map item_view (items d')) = map fst (map item_view (items d))" by (simp only: m)
  then have "map oi_id (items d') = map oi_id (items d)" by (simp add: item_view_def comp_def)
  moreover have "\<forall>i\<in>set (items d'). item_linked (orders d) i"
    by (rule all_view [OF m]) (use assms(2) in \<open>auto simp: item_linked_def item_view_def shop_ok_def\<close>)
  ultimately show ?thesis using assms(2) o1 by (simp add: shop_ok_def)
qed

lemma calm_synced: "calm d d' \<Longrightarrow> synced d r \<Longrightarrow> synced d' r"
  by (simp add: synced_def calm_stock calm_reserved)

lemma calm_set_order:
  "stock_of (set_order oid f d) pid = stock_of d pid" "reserved (set_order oid f d) pid = reserved d pid"
  "items (set_order oid f d) = items d" "users (set_order oid f d) = users d" "wallet (set_order oid f d) = wallet d"
  "ledgers (set_order oid f d) = ledgers d"
  by (simp_all add: set_order_def stock_of_def reserved_def)

text \<open>An order changes its state; its keys stay.\<close>

lemma set_order_shop_ok:
  assumes ok: "shop_ok d" and o1: "find_order d oid = Some o1"
    and keep: "\<And>x. co_id (f x) = co_id x \<and> co_order_no (f x) = co_order_no x \<and> owner_of (f x) = owner_of x"
    and st: "order_state_ok (f o1)"
    and free: "co_status (f o1) = OrdCanceled \<Longrightarrow> \<forall>i\<in>set (items d). oi_order_id i = oid \<longrightarrow> \<not> oi_stock_deducted i"
  shows "shop_ok (set_order oid f d)"
proof -
  have uniq: "x = o1" if "x \<in> set (orders d)" "co_id x = oid" for x
    using ok o1 that find_by_distinct [of co_id "orders d" x] by (simp add: shop_ok_def find_order_def)
  have os: "orders (set_order oid f d) = update_by co_id oid f (orders d)" by (simp add: set_order_def)
  have "order_state_ok x" if x: "x \<in> set (orders (set_order oid f d))" for x
    using x ok st uniq by (auto simp: os set_update_by shop_ok_def)
  moreover have "item_linked (orders (set_order oid f d)) i" if i: "i \<in> set (items d)" for i
  proof -
    obtain x where x: "x \<in> set (orders d)" "co_id x = oi_order_id i" "0 < oi_quantity i"
        "oi_stock_deducted i \<longrightarrow> co_status x \<noteq> OrdCanceled"
      using ok i by (auto simp: shop_ok_def item_linked_def)
    let ?x = "if co_id x = oid then f x else x"
    have "?x \<in> set (orders (set_order oid f d))" using x(1) by (simp add: os set_update_by)
    moreover have "co_id ?x = oi_order_id i" using x(2) keep by simp
    moreover have "oi_stock_deducted i \<longrightarrow> co_status ?x \<noteq> OrdCanceled"
      using x uniq free i by auto
    ultimately show ?thesis using x(3) unfolding item_linked_def by blast
  qed
  moreover have "map co_id (orders (set_order oid f d)) = map co_id (orders d)"
      "map co_order_no (orders (set_order oid f d)) = map co_order_no (orders d)"
      "map owner_of (orders (set_order oid f d)) = map owner_of (orders d)"
    using keep by (auto simp: os intro!: map_key_update_by)
  ultimately show ?thesis
    using ok by (auto simp: shop_ok_def calm_set_order)
qed

section \<open>Payment\<close>

lemma grant_reward_settled:
  assumes "grant_reward now o1 v h d = Inr d'"
  shows "settled d d'"
proof (cases "purchase_reward (rule d) v h \<le> 0")
  case True
  then show ?thesis using assms by (simp add: grant_reward_def)
next
  case False
  then obtain n e x where m: "map_sum id snd (credit_locked d (co_user_id o1) n e x) = Inr d'"
    using assms by (cases "lock_user d (co_user_id o1)") (auto simp: grant_reward_def Let_def)
  then obtain l where "credit_locked d (co_user_id o1) n e x = Inr (l, d')"
    by (cases "credit_locked d (co_user_id o1) n e x") auto
  then show ?thesis by (rule settled_credit)
qed

lemma settle_items_settled:
  assumes "settle_items now o1 d = Inr d'"
  shows "settled d d'"
proof -
  let ?its = "get_order_items d (co_id o1)"
  let ?vip = "filter is_vip_item ?its" and ?study = "filter (\<lambda>i. \<not> is_vip_item i) ?its"
  obtain d1 where d1: "(if ?vip \<noteq> [] \<and> find_user d (co_user_id o1) \<noteq> None
      then activate_vip now (co_user_id o1) ?vip d else Inr d) = Inr d1"
    and r: "grant_reward now o1 (?vip \<noteq> [] \<and> ?study = []) (?study \<noteq> [])
      (if ?study \<noteq> [] then ensure_profile (co_user_id o1) (fold (grant_item now (co_user_id o1) (co_id o1)) ?study d1)
       else fold (grant_item now (co_user_id o1) (co_id o1)) ?study d1) = Inr d'"
    using assms unfolding settle_items_def Let_def by (auto split: sum.splits)
  have 1: "settled d d1"
    using d1 by (auto split: if_splits dest: settled_activate_vip)
  let ?d2 = "fold (grant_item now (co_user_id o1) (co_id o1)) ?study d1"
  have "settled d1 ?d2"
    by (auto intro: settled_fold settled_grant_item)
  with 1 have "settled d ?d2" by (rule settled_trans)
  then have 3: "settled d (if ?study \<noteq> [] then ensure_profile (co_user_id o1) ?d2 else ?d2)"
    by (cases "?study = []") (simp_all only: if_True if_False not_False_eq_True not_True_eq_False simp_thms settled_trans [OF _ settled_profile])
  from settled_trans [OF 3 grant_reward_settled [OF r]] show ?thesis .
qed

lemma mark_paid_cases:
  assumes m: "mark_order_paid now d oid meth txn = Inr (o', d')"
  obtains (replay) "find_order d oid = Some o'" "co_payment_status o' = PayPaid" "co_status o' = OrdPaid" "d' = d"
  | (paid) o1 where "find_order d oid = Some o1" "co_status o1 = OrdPending" "co_payment_status o1 \<noteq> PayPaid"
      "settled (set_order oid (paid_order now meth txn) d) d'" "o' = paid_order now meth txn o1"
      "settle_items now o1 (set_order oid (paid_order now meth txn) d) = Inr d'"
proof -
  obtain o1 where o1: "find_order d oid = Some o1"
    using m by (cases "find_order d oid") (simp_all add: mark_order_paid_def)
  have oid: "co_id o1 = oid" using o1 unfolding find_order_def by (rule find_by_key)
  let ?d = "set_order oid (paid_order now meth txn) d"
  show thesis
  proof (cases "co_payment_status o1 = PayPaid \<and> co_status o1 = OrdPaid")
    case True
    then have "o' = o1" "d' = d" using m o1 by (simp_all add: mark_order_paid_def)
    then show thesis using replay o1 True by simp
  next
    case False
    have st: "co_status o1 = OrdPending" "co_payment_status o1 \<noteq> PayPaid"
      using m o1 False by (auto simp: mark_order_paid_def split: if_splits)
    then have "(case settle_items now o1 ?d of Inl e \<Rightarrow> Inl e | Inr d1 \<Rightarrow> Inr (order_or o1 d1, d1)) = Inr (o', d')"
      using m o1 by (simp add: mark_order_paid_def)
    then have s: "settle_items now o1 ?d = Inr d'" and o': "o' = order_or o1 d'"
      by (simp_all split: sum.splits)
    have se: "settled ?d d'"
      by (rule settle_items_settled [OF s])
    have "find_order ?d oid = Some (paid_order now meth txn o1)"
      using o1 by (simp add: find_order_def set_order_def find_by_update_by paid_order_def)
    then have "o' = paid_order now meth txn o1"
      using se by (simp add: o' order_or_def oid find_order_def settled_def)
    then show thesis using paid o1 st s se by blast
  qed
qed

lemma mark_paid_inv:
  assumes inv: "shop_inv (d, r)" and m: "mark_order_paid now d oid meth txn = Inr (o', d')"
  shows "shop_inv (d', r)"
  using m
proof (cases rule: mark_paid_cases)
  case replay
  then show ?thesis using inv by simp
next
  case (paid o1)
  let ?d = "set_order oid (paid_order now meth txn) d"
  have ok: "shop_ok d" using inv by (simp add: shop_inv_def)
  then have "order_state_ok o1"
    using paid(1) by (auto simp: shop_ok_def find_order_def dest: find_by_mem)
  then have "order_state_ok (paid_order now meth txn o1)"
    using paid(2) by (auto simp: order_state_ok_def paid_order_def split: payment_status.splits)
  then have "shop_ok ?d"
    using paid by (intro set_order_shop_ok [OF ok paid(1)]) (auto simp: paid_order_def owner_of_def)
  then have "shop_ok d'" using calm_shop_ok settled_calm paid(4) by blast
  moreover have "synced ?d r" using inv by (simp add: shop_inv_def synced_def calm_set_order)
  ultimately show ?thesis
    using inv calm_synced [OF settled_calm [OF paid(4)]] by (simp add: shop_inv_def)
qed

lemma pay_with_balance_cases:
  assumes p: "pay_with_balance now d uid oid = Inr (o', d')"
  obtains (replay) "find_order d oid = Some o'" "co_payment_status o' = PayPaid" "co_status o' = OrdPaid"
      "co_user_id o' = uid" "d' = d"
  | (paid) o1 u d2 where "find_order d oid = Some o1" "co_user_id o1 = uid" "co_status o1 = OrdPending"
      "find_user d uid = Some u" "0 \<le> co_payable_amount o1" "co_payable_amount o1 \<le> ua_balance u"
      "d2 = (set_balance uid (ua_balance u - co_payable_amount o1) d)\<lparr>drawn := Suc (drawn d),
          wallet := wallet d @ [wallet_row d u (numbers d ''WT'' (drawn d)) Expense (co_payable_amount o1)
            (ua_balance u) (ua_balance u - co_payable_amount o1) ''purchase'' (co_id o1) (co_order_no o1) ''purchase'']\<rparr>"
      "mark_order_paid now d2 oid ''balance'' (numbers d ''WT'' (drawn d)) = Inr (o', d')"
proof -
  obtain o1 where o1: "find_order d oid = Some o1"
    using p by (cases "find_order d oid") (simp_all add: pay_with_balance_def)
  show thesis
  proof (cases "co_payment_status o1 = PayPaid \<and> co_status o1 = OrdPaid")
    case True
    then have "o' = o1" "d' = d" "co_user_id o1 = uid"
      using p o1 by (simp_all add: pay_with_balance_def split: if_splits)
    then show thesis using replay o1 True by simp
  next
    case False
    then obtain u where u: "find_user d uid = Some u" "co_user_id o1 = uid" "co_status o1 = OrdPending"
        "0 \<le> co_payable_amount o1" "co_payable_amount o1 \<le> ua_balance u"
      using p o1 by (auto simp: pay_with_balance_def Let_def split: if_splits option.splits)
    then show thesis
      using p o1 False paid
      by (auto simp: pay_with_balance_def Let_def draw_no_def set_balance_def shop_defs flush_wallet_def
          wallet_row_def split: if_splits)
  qed
qed

lemma pay_with_balance_inv:
  assumes inv: "shop_inv (d, r)" and p: "pay_with_balance now d uid oid = Inr (o', d')"
  shows "shop_inv (d', r)"
  using p
proof (cases rule: pay_with_balance_cases)
  case replay
  then show ?thesis using inv by simp
next
  case (paid o1 u d2)
  have "calm d d2" by (simp add: paid(7) calm_def set_balance_def set_user_def)
  then have "shop_inv (d2, r)"
    using inv calm_shop_ok calm_synced by (auto simp: shop_inv_def)
  then show ?thesis using mark_paid_inv paid(8) by blast
qed

end
