(* ===== verification/Order_Machine.thy ===== *)
theory Order_Machine
  imports Order_Inv
begin

text \<open>
  Cancellation and refund keep the invariant, and with them the shop is a state machine
  over the database and Redis.
\<close>

section \<open>Cancellation\<close>

lemma get_order_items_set: "set (get_order_items d oid) = {i \<in> set (items d). oi_order_id i = oid}"
  by (auto simp: get_order_items_def)

lemma get_order_items_distinct:
  "distinct (map oi_id (items d)) \<Longrightarrow> distinct (map oi_id (get_order_items d oid))"
  by (simp add: get_order_items_def distinct_map inj_on_def)

lemma shop_ok_quantity: "shop_ok d \<Longrightarrow> i \<in> set (items d) \<Longrightarrow> 0 \<le> oi_quantity i"
  by (force simp: shop_ok_def item_linked_def)

lemma loop_released:
  assumes "releasing f g" and "fit r" and ok: "shop_ok d"
  shows "\<exists>d' r'. each_item f (get_order_items d oid) d r = (Inr d', r') \<and>
    released (get_order_items d oid) d r d' r'"
  using assms
  by (intro each_item_released)
    (auto simp: get_order_items_set shop_ok_def intro: get_order_items_distinct shop_ok_quantity [OF ok])

lemma released_shop_ok:
  assumes ok: "shop_ok d" and rel: "released (get_order_items d oid) d r d' r'"
  shows "shop_ok d'" and "\<forall>i\<in>set (items d'). oi_order_id i = oid \<longrightarrow> \<not> oi_stock_deducted i"
proof -
  let ?is = "get_order_items d oid"
  have its: "items d' = map (\<lambda>i. if oi_id i \<in> oi_id ` set ?is then released_item i else i) (items d)"
      and os: "orders d' = orders d"
    using rel by (simp_all add: released_def)
  have ids: "oi_id (released_item i) = oi_id i" "oi_order_id (released_item i) = oi_order_id i"
      "oi_quantity (released_item i) = oi_quantity i" "\<not> oi_stock_deducted (released_item i)" for i
    by (simp_all add: released_item_def)
  have idl: "map oi_id (items d') = map oi_id (items d)" by (simp add: its ids)
  have keep: "item_linked ns i \<Longrightarrow> item_linked ns (released_item i)" for ns i
    by (auto simp: item_linked_def ids)
  have "item_linked (orders d') i" if "i \<in> set (items d')" for i
    using that ok by (auto simp: its os shop_ok_def intro: keep)
  then show "shop_ok d'" using idl ok os by (auto simp: shop_ok_def)
  show "\<forall>i\<in>set (items d'). oi_order_id i = oid \<longrightarrow> \<not> oi_stock_deducted i"
    by (auto simp: its ids get_order_items_set)
qed

text \<open>A limited product that an item holds has its counter.\<close>

lemma holds_counted:
  assumes "shop_ok d" and "i \<in> set (items d)" and "holds j i"
  shows "reserved d j \<noteq> 0"
proof -
  have "oi_quantity i \<le> reserved d j"
    unfolding reserved_def using assms by (intro sum_where_mem_le) (auto intro: shop_ok_quantity)
  moreover have "0 < oi_quantity i" using assms by (auto simp: shop_ok_def item_linked_def)
  ultimately show ?thesis by simp
qed

lemma held_none: "\<not> (\<exists>i\<in>set is. holds j i) \<Longrightarrow> held is j = 0"
  unfolding held_def by (rule sum_where_none) auto

lemma held_nonneg: "shop_ok d \<Longrightarrow> set is \<subseteq> set (items d) \<Longrightarrow> 0 \<le> held is j"
  unfolding held_def by (rule sum_where_nonneg) (auto intro: shop_ok_quantity)

lemma released_synced:
  assumes ok: "shop_ok d" and sy: "synced d r" and rel: "released is d r d' r'" and sub: "set is \<subseteq> set (items d)"
  shows "synced d' r'"
  unfolding synced_def
proof (intro allI impI)
  fix j s' assume s': "stock_of d' j = Some s'" "0 \<le> s'"
  have "stock_of d' j = map_option (\<lambda>s. if 0 \<le> s then s + held is j else s) (stock_of d j)"
      and res: "reserved d' j = reserved d j - held is j"
      and at: "stock_at r' j = (if (\<exists>i\<in>set is. holds j i) \<and> restorable d j
        then Some (count_at r j + held is j) else stock_at r j)"
    using rel by (simp_all add: released_def)
  then obtain s where s: "stock_of d j = Some s" "s' = (if 0 \<le> s then s + held is j else s)"
    using s'(1) by (cases "stock_of d j") auto
  then have s0: "0 \<le> s" "s' = s + held is j" using s'(2) by (auto split: if_splits)
  have rest: "restorable d j" using s s0 by (simp add: restorable_stock)
  show "stock_at r' j = Some s' \<or> stock_at r' j = None \<and> reserved d' j = 0"
  proof (cases "\<exists>i\<in>set is. holds j i")
    case True
    then have "reserved d j \<noteq> 0" using holds_counted [OF ok] sub by blast
    then have "stock_at r j = Some s" using sy s(1) s0(1) by (auto simp: synced_def)
    then show ?thesis using at True rest s0 by (simp add: count_at_def)
  next
    case False
    then show ?thesis
      using at res s0 sy s(1) held_none [OF False] by (auto simp: synced_def)
  qed
qed

lemma cancel_cases:
  assumes inv: "shop_inv (d, r)" and o1: "find_order d oid = Some o1"
    and c: "cancel_unpaid_order now d o1 reason r = (res, r')"
  obtains (skipped) "co_payment_status o1 = PayPaid \<or> co_status o1 \<noteq> OrdPending" "res = Inr (False, d)" "r' = r"
  | (canceled) d1 where "co_status o1 = OrdPending" "co_payment_status o1 \<noteq> PayPaid"
      "released (get_order_items d oid) d r d1 r'"
      "res = Inr (True, set_order oid (canceled_order now reason) d1)"
proof -
  have oid: "co_id o1 = oid" using o1 unfolding find_order_def by (rule find_by_key)
  have ok: "shop_ok d" "fit r" using inv by (simp_all add: shop_inv_def)
  obtain d1 r1 where l: "each_item (cancel_item now) (get_order_items d oid) d r = (Inr d1, r1)"
      "released (get_order_items d oid) d r d1 r1"
    using loop_released [OF releasing_cancel ok(2,1), of now oid] by blast
  show thesis
  proof (cases "co_payment_status o1 = PayPaid \<or> co_status o1 \<noteq> OrdPending")
    case True
    then show thesis using c skipped by (auto simp: cancel_unpaid_order_def)
  next
    case False
    then have "res = Inr (True, set_order oid (canceled_order now reason) d1)" "r' = r1"
      using c l oid by (simp_all add: cancel_unpaid_order_def)
    then show thesis using canceled False l(2) by simp
  qed
qed

lemma set_order_synced: "synced (set_order oid f d) r = synced d r"
  by (simp add: synced_def calm_set_order)

lemma find_order_released: "released is d r d' r' \<Longrightarrow> find_order d' oid = find_order d oid"
  by (simp add: released_def find_order_def)

lemma order_state_found: "shop_ok d \<Longrightarrow> find_order d oid = Some o1 \<Longrightarrow> order_state_ok o1"
  by (auto simp: shop_ok_def find_order_def dest: find_by_mem)

lemma cancel_inv:
  assumes inv: "shop_inv (d, r)" and o1: "find_order d oid = Some o1"
    and c: "cancel_unpaid_order now d o1 reason r = (Inr (b, d'), r')"
  shows "shop_inv (d', r')"
  using inv o1 c
proof (cases rule: cancel_cases)
  case skipped
  then show ?thesis using inv by simp
next
  case (canceled d1)
  let ?is = "get_order_items d oid"
  have ok: "shop_ok d" "synced d r" using inv by (simp_all add: shop_inv_def)
  note rel = canceled(3)
  have d': "d' = set_order oid (canceled_order now reason) d1" using canceled(4) by simp
  have "order_state_ok (canceled_order now reason o1)"
    using order_state_found [OF ok(1) o1] canceled(1,2)
    by (auto simp: order_state_ok_def canceled_order_def split: payment_status.splits)
  moreover have "find_order d1 oid = Some o1" using find_order_released [OF rel] o1 by simp
  ultimately have "shop_ok d'"
    unfolding d' using released_shop_ok [OF ok(1) rel]
    by (intro set_order_shop_ok [where ?o1.0 = o1]) (auto simp: canceled_order_def owner_of_def)
  moreover have "synced d' r'"
    using released_synced [OF ok rel] by (simp add: d' set_order_synced get_order_items_set)
  moreover have "fit r'" using rel by (simp add: released_def)
  ultimately show ?thesis by (simp add: shop_inv_def)
qed

section \<open>Refund\<close>

lemma revoke_items:
  assumes "revoke_credit_locked d uid ck e = Inr (x, d')"
  shows "items d' = items d \<and> entitlements d' = entitlements d"
  using assms
  by (auto simp: revoke_credit_locked_def Let_def write_lot_def new_ledger_eq flush_ledger_def set_points_def
      split: option.splits if_splits prod.splits sum.splits)

lemma refund_to_wallet_cases:
  assumes "refund_to_wallet o1 u d = Inr d'"
  obtains (again) w where "find_refund_row d (co_order_no o1) = Some w" "d' = d"
  | (paid) "find_refund_row d (co_order_no o1) = None"
      "d' = (set_balance (ua_id u) (ua_balance u + co_payable_amount o1) d)\<lparr>drawn := Suc (drawn d),
          wallet := wallet d @ [wallet_row d u (numbers d ''WT'' (drawn d)) Income (co_payable_amount o1)
            (ua_balance u) (ua_balance u + co_payable_amount o1) ''refund'' (co_id o1) (co_order_no o1) ''refund'']\<rparr>"
proof (cases "find_refund_row d (co_order_no o1)")
  case None
  let ?d = "(set_balance (ua_id u) (ua_balance u + co_payable_amount o1) d)\<lparr>drawn := Suc (drawn d)\<rparr>"
  let ?w = "wallet_row ?d u (numbers d ''WT'' (drawn d)) Income (co_payable_amount o1)
            (ua_balance u) (ua_balance u + co_payable_amount o1) ''refund'' (co_id o1) (co_order_no o1) ''refund''"
  have frame: "numbers (set_balance x b d) = numbers d" "drawn (set_balance x b d) = drawn d" for x b
    by (simp_all add: set_balance_def set_user_def)
  have "flush_wallet ?w ?d = Inr d'"
    using assms None by (simp add: refund_to_wallet_def Let_def draw_no_def frame)
  then have "d' = ?d\<lparr>wallet := wallet ?d @ [?w]\<rparr>" by (simp add: flush_wallet_def split: if_splits)
  then show thesis
    using paid [OF None] by (simp add: wallet_row_def set_balance_def set_user_def)
next
  case (Some w)
  then have "d' = d" using assms by (simp add: refund_to_wallet_def)
  with Some show thesis by (rule again)
qed

lemma refund_wallet_calm:
  "refund_to_wallet o1 u d = Inr d' \<Longrightarrow> calm d d' \<and> items d' = items d \<and> entitlements d' = entitlements d"
  by (erule refund_to_wallet_cases) (auto simp: calm_def set_balance_def set_user_def)

lemma finalize_refund_cases:
  assumes inv: "shop_inv (d, r)"
    and f: "finalize_refund now d oid refund_no refund_id wr r = (Inr (o', d'), r')"
  obtains (replay) "find_order d oid = Some o'" "co_payment_status o' = PayRefunded" "d' = d" "r' = r"
  | (refunded) o1 u d1 x d2 d3 where "find_order d oid = Some o1" "co_payment_status o1 = PayPaid"
      "co_status o1 = OrdPaid" "lock_user d (co_user_id o1) = Inr u"
      "(if wr then refund_to_wallet o1 u d else Inr d) = Inr d1"
      "revoke_credit_locked d1 (co_user_id o1)
         (reward_key (get_order_items d oid \<noteq> [] \<and> list_all is_vip_item (get_order_items d oid)) oid)
         (reversal_entry (get_order_items d oid \<noteq> [] \<and> list_all is_vip_item (get_order_items d oid)) o1) = Inr (x, d2)"
      "released (get_order_items d oid) (expire_entitlements oid d2) r d3 r'"
      "d' = set_order oid (refunded_order now refund_no refund_id) d3"
      "o' = refunded_order now refund_no refund_id o1" "shop_ok (expire_entitlements oid d2)"
      "get_order_items (expire_entitlements oid d2) oid = get_order_items d oid"
      "synced (expire_entitlements oid d2) r" "orders d3 = orders d"
proof -
  obtain o1 where o1: "find_order d oid = Some o1"
    using f by (cases "find_order d oid") (simp_all add: finalize_refund_def)
  have oid: "co_id o1 = oid" using o1 unfolding find_order_def by (rule find_by_key)
  show thesis
  proof (cases "co_payment_status o1 = PayRefunded")
    case True
    then have "o' = o1" "d' = d" "r' = r" using f o1 by (simp_all add: finalize_refund_def)
    then show thesis using replay o1 True by simp
  next
    case False
    then have st: "co_payment_status o1 = PayPaid" "co_status o1 = OrdPaid"
      using f o1 by (auto simp: finalize_refund_def split: if_splits)
    obtain u where u: "lock_user d (co_user_id o1) = Inr u"
      using f o1 st by (cases "lock_user d (co_user_id o1)") (simp_all add: finalize_refund_def)
    obtain d1 where d1: "(if wr then refund_to_wallet o1 u d else Inr d) = Inr d1"
      using f o1 st u by (cases "if wr then refund_to_wallet o1 u d else Inr d") (simp_all add: finalize_refund_def)
    let ?is = "get_order_items d1 oid"
    let ?vip = "?is \<noteq> [] \<and> list_all is_vip_item ?is"
    obtain x d2 where d2: "revoke_credit_locked d1 (co_user_id o1) (reward_key ?vip oid) (reversal_entry ?vip o1) = Inr (x, d2)"
      using f o1 st u d1
      by (cases "revoke_credit_locked d1 (co_user_id o1) (reward_key ?vip oid) (reversal_entry ?vip o1)")
        (auto simp: finalize_refund_def Let_def)
    let ?e = "expire_entitlements oid d2"
    have w: "calm d d1" "items d1 = items d"
      using d1 refund_wallet_calm [of o1 u d d1] by (auto simp: calm_def split: if_splits)
    have items: "items ?e = items d" using revoke_items [OF d2] w(2) by (simp add: expire_entitlements_def)
    have calm: "calm d ?e"
      using calm_trans [OF calm_trans [OF w(1) settled_calm [OF settled_revoke [OF d2]]] settled_calm [OF settled_expire]] .
    have ok: "shop_ok ?e" "synced ?e r" "fit r"
      using inv calm_shop_ok [OF calm] calm_synced [OF calm] by (simp_all add: shop_inv_def)
    have is_eq: "?is = get_order_items ?e oid" "?is = get_order_items d oid"
      by (simp_all add: get_order_items_def items w(2))
    obtain d3 r3 where l: "each_item (refund_item now) ?is ?e r = (Inr d3, r3)" "released ?is ?e r d3 r3"
      using loop_released [OF releasing_refund ok(3,1), of now oid] is_eq(1) by auto
    have os: "orders d3 = orders d" using l(2) calm by (simp add: released_def calm_def)
    have "(commit_refund o1 refund_no d3 (set_order oid (refunded_order now refund_no refund_id) d3), r3)
        = (Inr (o', d'), r')"
      using f o1 st u d1 d2 l(1) by (simp add: finalize_refund_def Let_def)
    then have fin: "d' = set_order oid (refunded_order now refund_no refund_id) d3" "r' = r3"
        "o' = order_or o1 (set_order oid (refunded_order now refund_no refund_id) d3)"
      by (auto simp: commit_refund_def split: if_splits)
    have "find_order d3 oid = Some o1" using o1 os by (simp add: find_order_def)
    then have "o' = refunded_order now refund_no refund_id o1"
      by (simp add: fin(3) order_or_def oid find_order_def set_order_def find_by_update_by refunded_order_def)
    moreover have "released (get_order_items d oid) ?e r d3 r'"
      using l(2) unfolding is_eq(2) fin(2) .
    moreover have "get_order_items ?e oid = get_order_items d oid" using is_eq by simp
    ultimately show thesis
      by (intro refunded [OF o1 st u d1 d2 [unfolded is_eq(2)] _ fin(1) _ ok(1) _ ok(2) os])
  qed
qed

lemma finalize_refund_inv:
  assumes inv: "shop_inv (d, r)"
    and f: "finalize_refund now d oid refund_no refund_id wr r = (Inr (o', d'), r')"
  shows "shop_inv (d', r')"
  using inv f
proof (cases rule: finalize_refund_cases)
  case replay
  then show ?thesis using inv by simp
next
  case (refunded o1 u d1 x d2 d3)
  let ?e = "expire_entitlements oid d2"
  have rel: "released (get_order_items ?e oid) ?e r d3 r'" using refunded(7,11) by simp
  have ok: "shop_ok d" using inv by (simp add: shop_inv_def)
  have "order_state_ok (refunded_order now refund_no refund_id o1)"
    using order_state_found [OF ok refunded(1)] refunded(2,3)
    by (auto simp: order_state_ok_def refunded_order_def)
  moreover have "find_order d3 oid = Some o1" using refunded(1,13) by (simp add: find_order_def)
  ultimately have "shop_ok d'"
    unfolding refunded(8) using released_shop_ok [OF refunded(10) rel]
    by (intro set_order_shop_ok [where ?o1.0 = o1]) (auto simp: refunded_order_def owner_of_def)
  moreover have "synced d' r'"
    using released_synced [OF refunded(10,12) rel] by (simp add: refunded(8) set_order_synced get_order_items_set)
  moreover have "fit r'" using rel by (simp add: released_def)
  ultimately show ?thesis by (simp add: shop_inv_def)
qed

section \<open>The shop as a state machine\<close>

text \<open>
  A creation may fail, whatever its outcome; the other operations are taken when they
  complete. All of them see a healthy Redis.
\<close>

inductive shop_step :: "db \<times> redis \<Rightarrow> db \<times> redis \<Rightarrow> bool" where
  step_create: "create_request_ok req \<Longrightarrow> create_locked now ttl d uid req r = (res, d', r') \<Longrightarrow>
     shop_step (d, r) (d', r')"
| step_paid: "mark_order_paid now d oid meth txn = Inr (o1, d') \<Longrightarrow> shop_step (d, r) (d', r)"
| step_balance: "pay_with_balance now d uid oid = Inr (o1, d') \<Longrightarrow> shop_step (d, r) (d', r)"
| step_cancel: "find_order d oid = Some o1 \<Longrightarrow> cancel_unpaid_order now d o1 reason r = (Inr (b, d'), r') \<Longrightarrow>
     shop_step (d, r) (d', r')"
| step_refunded: "finalize_refund now d oid refund_no refund_id wr r = (Inr (o1, d'), r') \<Longrightarrow>
     shop_step (d, r) (d', r')"

inductive_cases shop_stepE: "shop_step s t"

text \<open>A shop that opens: products, users and points, but no orders and no counters.\<close>

definition shop_init :: "db \<times> redis \<Rightarrow> bool" where
  "shop_init s \<longleftrightarrow> orders (fst s) = [] \<and> items (fst s) = [] \<and> healthy (snd s) \<and>
    (\<forall>pid. rstore (snd s) (stock_key pid) = None)"

lemma shop_init_inv: "shop_init s \<Longrightarrow> shop_inv s"
  by (auto simp: shop_init_def shop_inv_def shop_ok_def fit_def stock_keys_ok_def synced_def stock_at_def
      reserved_def)

lemma shop_step_inv:
  assumes "shop_inv s" and "shop_step s t" shows "shop_inv t"
  using assms(2,1)
  by (cases rule: shop_step.cases)
    (auto intro: create_inv mark_paid_inv pay_with_balance_inv cancel_inv finalize_refund_inv)

interpretation shop: machine shop_init shop_step shop_inv
  by unfold_locales (auto intro: shop_init_inv shop_step_inv)

end
