(* ===== verification/Order_Props.thy ===== *)
theory Order_Props
  imports Order_Machine Samples
begin

text \<open>
  The properties of the order service: its state machine, stock, idempotent creation,
  payment, cancellation, refund and the delayed cancellation, each with a run on the sample
  shop that applies it.
\<close>

section \<open>Samples\<close>

lemma shop_sample_init: "shop_init (shop_db, idle_redis)"
  by (simp add: shop_init_def shop_db_def empty_db_def idle_redis_def healthy_def)

lemma shop_sample_inv: "shop_inv (shop_db, idle_redis)"
  using shop.init_inv [OF shop_sample_init] .

lemma sample_request_ok: "create_request_ok (sample_request [(1, 2)])"
  by (simp add: create_request_ok_def sample_request_def create_item_ok_def)

definition bought :: "commerce_order result \<times> db \<times> redis" where
  "bought = create_locked 0 600 shop_db 1 (sample_request [(1, 2)]) idle_redis"

definition bought_db :: db where "bought_db = fst (snd bought)"

definition bought_redis :: redis where "bought_redis = snd (snd bought)"

lemma bought_eq: "create_locked 0 600 shop_db 1 (sample_request [(1, 2)]) idle_redis = (fst bought, bought_db, bought_redis)"
  by (simp add: bought_def bought_db_def bought_redis_def)

lemma bought_step: "shop_step (shop_db, idle_redis) (bought_db, bought_redis)"
  by (rule step_create [OF sample_request_ok bought_eq])

lemma bought_run: "runs shop_step (shop_db, idle_redis) (bought_db, bought_redis)"
  by (rule runs_step [OF runs_refl [of shop_step] bought_step])

lemma bought_inv: "shop_inv (bought_db, bought_redis)"
  using shop.reachable_inv [OF shop_sample_init bought_run] .

section \<open>The state machine\<close>

text \<open>
  C2: in every state the shop can reach by creating, paying, cancelling and refunding
  orders (failed creations included), each order is pending, paid, canceled unpaid or
  refunded, with the matching time stamps; order ids, order numbers and the pairs of user
  and idempotency key are unique; and a canceled or refunded order holds no stock.
\<close>

theorem orders_reachable_ok:
  assumes "shop_init s" and "runs shop_step s (d, r)"
  shows "(\<forall>o1\<in>set (orders d). order_state_ok o1) \<and> distinct (map co_id (orders d)) \<and>
    distinct (map co_order_no (orders d)) \<and> distinct (map owner_of (orders d)) \<and>
    (\<forall>i\<in>set (items d). \<forall>o1\<in>set (orders d). co_id o1 = oi_order_id i \<and> co_status o1 = OrdCanceled
        \<longrightarrow> \<not> oi_stock_deducted i)"
proof -
  have ok: "shop_ok d" using shop.reachable_inv [OF assms] by (simp add: shop_inv_def)
  have "\<not> oi_stock_deducted i"
    if "i \<in> set (items d)" "o1 \<in> set (orders d)" "co_id o1 = oi_order_id i" "co_status o1 = OrdCanceled" for i o1
  proof -
    have "item_linked (orders d) i" using ok that(1) by (simp add: shop_ok_def)
    then obtain o2 where o2: "o2 \<in> set (orders d)" "co_id o2 = oi_order_id i"
        "oi_stock_deducted i \<longrightarrow> co_status o2 \<noteq> OrdCanceled"
      by (auto simp: item_linked_def)
    have "o2 = o1"
      using ok that o2 find_by_distinct [of co_id "orders d" o1] find_by_distinct [of co_id "orders d" o2]
      by (simp add: shop_ok_def)
    then show ?thesis using o2 that by simp
  qed
  then show ?thesis using ok by (auto simp: shop_ok_def)
qed

theorem orders_reachable_ok_witness:
  "list_all order_state_ok (orders bought_db) \<and> length (orders bought_db) = 1"
proof -
  have "length (orders bought_db) = 1" by code_simp
  then show ?thesis using orders_reachable_ok [OF shop_sample_init bought_run] by (simp add: list_all_iff)
qed

section \<open>Stock\<close>

lemma create_stock:
  assumes inv: "shop_inv (d, r)" and ok: "create_request_ok req"
    and c: "create_locked now ttl d uid req r = (res, d', r')"
    and s: "stock_of d j = Some s" "0 \<le> s"
  shows "\<exists>s'. stock_of d' j = Some s' \<and> 0 \<le> s' \<and> s' + reserved d' j = s + reserved d j"
proof -
  have "fit r" using inv by (simp add: shop_inv_def)
  then show ?thesis
    using ok c
  proof (cases rule: create_locked_cases)
    case (created o1 r1)
    let ?qm = "merge_items req"
    note e = persist_effect(1,2) [OF created(3,2) merge_items_distinct]
    show ?thesis
    proof (cases "map_of ?qm j")
      case None
      then show ?thesis using e [of j] s by simp
    next
      case (Some q)
      then have "(j, q) \<in> set ?qm" by (rule map_of_SomeD)
      from validate_productsD [OF created(2) this] obtain p where
        p: "find_by sp_id j (load_products d ?qm) = Some p" "0 \<le> sp_stock p \<longrightarrow> q \<le> sp_stock p" by blast
      then have "q \<le> s" using load_products_stock [OF p(1)] s by simp
      then show ?thesis using e [of j] s Some by (simp add: takes_def)
    qed
  next
    case failed
    then show ?thesis using s by simp
  qed
qed

lemma settled_stock_both: "settled d d' \<Longrightarrow> stock_of d' j = stock_of d j \<and> reserved d' j = reserved d j"
  by (simp add: settled_stock settled_reserved)

lemma mark_paid_stock:
  assumes "mark_order_paid now d oid meth txn = Inr (o1, d')"
  shows "stock_of d' j = stock_of d j \<and> reserved d' j = reserved d j"
  using assms
proof (cases rule: mark_paid_cases)
  case (paid o2)
  then show ?thesis using settled_stock_both [OF paid(4), of j] by (simp add: calm_set_order)
qed simp

lemma released_stock:
  assumes "released is d r d' r'" and "shop_ok d" and "set is \<subseteq> set (items d)"
    and "stock_of d j = Some s" and "0 \<le> s"
  shows "\<exists>s'. stock_of d' j = Some s' \<and> 0 \<le> s' \<and> s' + reserved d' j = s + reserved d j"
  using assms held_nonneg [OF assms(2,3), of j] by (simp add: released_def)

lemma shop_step_stock:
  assumes "shop_step (d, r) (d', r')" and inv: "shop_inv (d, r)"
    and s: "stock_of d j = Some s" "0 \<le> s"
  shows "\<exists>s'. stock_of d' j = Some s' \<and> 0 \<le> s' \<and> s' + reserved d' j = s + reserved d j"
  using assms(1)
proof (cases rule: shop_step.cases)
  case (step_create req now ttl uid res)
  then show ?thesis using create_stock [OF inv _ _ s] by blast
next
  case (step_paid now oid meth txn o1)
  then show ?thesis using mark_paid_stock [of now d oid meth txn o1 d' j] s by simp
next
  case (step_balance now uid oid o1)
  from step_balance(2) show ?thesis
  proof (cases rule: pay_with_balance_cases)
    case (paid o2 u d2)
    have "calm d d2" by (simp add: paid(7) calm_def set_balance_def set_user_def)
    then show ?thesis
      using mark_paid_stock [OF paid(8), of j] s by (simp add: calm_stock calm_reserved)
  qed (use s in simp)
next
  case (step_cancel oid o1 now reason b)
  from inv step_cancel(1,2) show ?thesis
  proof (cases rule: cancel_cases)
    case (canceled d1)
    then show ?thesis
      using released_stock [OF canceled(3) _ _ s] inv
      by (auto simp: shop_inv_def get_order_items_set calm_set_order)
  qed (use s in simp)
next
  case (step_refunded now oid refund_no refund_id wr o1)
  from inv step_refunded(1) show ?thesis
  proof (cases rule: finalize_refund_cases)
    case (refunded o2 u d1 x d2 d3)
    have wc: "calm d d1"
      using refunded(5) refund_wallet_calm [of o2 u d d1] by (auto simp: calm_def split: if_splits)
    have "calm d (expire_entitlements oid d2)"
      using calm_trans [OF calm_trans [OF wc settled_calm [OF settled_revoke [OF refunded(6)]]]
          settled_calm [OF settled_expire]] .
    then have "stock_of (expire_entitlements oid d2) j = Some s" "reserved (expire_entitlements oid d2) j = reserved d j"
      using s(1) by (simp_all add: calm_stock calm_reserved)
    then show ?thesis
      using released_stock [OF refunded(7,10) _ _ s(2), of j] refunded(8)
        get_order_items_set [of "expire_entitlements oid d2" oid, unfolded refunded(11)]
      by (auto simp: calm_set_order)
  qed (use s in simp)
qed

lemma runs_stock:
  assumes "runs shop_step s0 t0" and "shop_inv s0" and "stock_of (fst s0) j = Some s" and "0 \<le> s"
  shows "\<exists>s'. stock_of (fst t0) j = Some s' \<and> 0 \<le> s' \<and> s' + reserved (fst t0) j = s + reserved (fst s0) j"
  using assms
proof (induction rule: runs.induct)
  case (runs_step a b c)
  have "shop_inv b" using shop.runs_inv runs_step by blast
  then show ?case
    using runs_step shop_step_stock [of "fst b" "snd b" "fst c" "snd c" j] by fastforce
qed auto

text \<open>
  C1: the shop never oversells. Whatever orders are created, paid, canceled and refunded, a
  limited product's stock stays at or above zero, and the stock plus what the orders hold is
  always the stock the shop opened with; while Redis is healthy its counter, if there is
  one, is that stock.
\<close>

theorem never_oversold:
  assumes "shop_init (d0, r0)" and "runs shop_step (d0, r0) (d, r)" and "stock_of d0 j = Some n" and "0 \<le> n"
  shows "\<exists>s. stock_of d j = Some s \<and> 0 \<le> s \<and> s + reserved d j = n \<and>
    (stock_at r j = None \<or> stock_at r j = Some s)"
proof -
  have inv: "shop_inv (d0, r0)" using shop.init_inv [OF assms(1)] .
  have "reserved d0 j = 0" using assms(1) by (simp add: shop_init_def reserved_def)
  then obtain s where s: "stock_of d j = Some s" "0 \<le> s" "s + reserved d j = n"
    using runs_stock [OF assms(2) inv, of j n] assms(3,4) by auto
  moreover have "synced d r" using shop.runs_inv [OF assms(2) inv] by (simp add: shop_inv_def)
  ultimately show ?thesis by (auto simp: synced_def)
qed

theorem never_oversold_witness:
  "stock_of bought_db 1 = Some 3 \<and> reserved bought_db 1 = 2 \<and> stock_at bought_redis 1 = Some 3"
proof -
  have "stock_of shop_db 1 = Some 5" by code_simp
  from never_oversold [OF shop_sample_init bought_run this]
  have "\<exists>s. stock_of bought_db 1 = Some s \<and> s + reserved bought_db 1 = 5 \<and>
      (stock_at bought_redis 1 = None \<or> stock_at bought_redis 1 = Some s)" by auto
  moreover have "stock_of bought_db 1 = Some 3" by code_simp
  moreover have "stock_at bought_redis 1 \<noteq> None" by code_simp
  ultimately show ?thesis by auto
qed

end
