(* ===== verification/Checkout_Props.thy ===== *)
theory Checkout_Props
  imports Order_Props
begin

text \<open>
  Creating an order: what a success and a failure leave behind, and that an idempotency key
  makes at most one order, on a retry, in a race and while the first request is running.
\<close>

section \<open>Looking up a key\<close>

lemma filter_unique:
  assumes "distinct (map f xs)" and "x \<in> set xs"
  shows "filter (\<lambda>y. f y = f x) xs = [x]"
  using assms
proof (induction xs)
  case (Cons y ys)
  show ?case
  proof (cases "y = x")
    case True
    have "f z \<noteq> f x" if "z \<in> set ys" for z
    proof
      assume "f z = f x"
      then have "f y \<in> f ` set ys" using that True by (intro image_eqI [of _ _ z]) auto
      then show False using Cons.prems(1) by simp
    qed
    then have "filter (\<lambda>z. f z = f x) ys = []" by (simp add: filter_empty_conv)
    with True show ?thesis by simp
  next
    case False
    then have "x \<in> set ys" using Cons.prems(2) by simp
    moreover from this have "f y \<noteq> f x" using Cons.prems(1) by force
    ultimately show ?thesis using Cons by simp
  qed
qed simp

lemma by_key_found:
  assumes "shop_ok d" and "o1 \<in> set (orders d)" and "owner_of o1 = (uid, key)"
  shows "get_order_by_idempotency_key d uid key = Some o1"
proof -
  have "filter (\<lambda>x. owner_of x = owner_of o1) (orders d) = [o1]"
    using assms by (intro filter_unique) (simp_all add: shop_ok_def)
  then have "filter (\<lambda>x. co_user_id x = uid \<and> co_idempotency_key x = key) (orders d) = [o1]"
    using assms(3) by (simp add: owner_of_def)
  then show ?thesis by (simp add: get_order_by_idempotency_key_def)
qed

lemma by_key_mem:
  "get_order_by_idempotency_key d uid key = Some o1 \<Longrightarrow> o1 \<in> set (orders d) \<and> owner_of o1 = (uid, key)"
proof -
  let ?f = "filter (\<lambda>x. co_user_id x = uid \<and> co_idempotency_key x = key) (orders d)"
  assume "get_order_by_idempotency_key d uid key = Some o1"
  then obtain xs where "rev (sort_key co_id ?f) = o1 # xs"
    by (auto simp: get_order_by_idempotency_key_def split: list.splits)
  then have "o1 \<in> set (rev (sort_key co_id ?f))" by simp
  then show ?thesis by (simp add: owner_of_def)
qed

lemma persist_owner:
  "persist_order now d uid req ps qm = Inr (o1, d') \<Longrightarrow> owner_of o1 = (uid, cr_idempotency_key req)"
  by (erule persist_cases) (simp add: owner_of_def new_order_def)

section \<open>A failed creation\<close>





section \<open>A successful creation\<close>

definition price_of :: "db \<Rightarrow> int \<Rightarrow> cents" where
  "price_of d pid = (case find_by sp_id pid (products d) of Some p \<Rightarrow> sp_price p | None \<Rightarrow> 0)"

definition requested :: "create_request \<Rightarrow> int \<Rightarrow> int" where
  "requested req pid = sum_where (\<lambda>i. ci_product_id i = pid) ci_quantity (cr_items req)"

lemma order_total_merge:
  "order_total ps (merge_items req) =
    sum_list (map (\<lambda>i. (case find_by sp_id (ci_product_id i) ps of Some p \<Rightarrow> sp_price p | None \<Rightarrow> 0) * ci_quantity i)
      (cr_items req))"
proof -
  let ?price = "\<lambda>pid. case find_by sp_id pid ps of Some p \<Rightarrow> sp_price p | None \<Rightarrow> 0"
  have tot: "order_total ps m = sum_list (map (\<lambda>(pid, q). ?price pid * q) m)" for m
    unfolding order_total_def by (rule arg_cong [of _ _ sum_list]) (auto split: option.splits)
  have add: "order_total ps (add_quantity pid q m) = order_total ps m + ?price pid * q" for pid q m
    unfolding tot by (induction pid q m rule: add_quantity.induct) (auto simp: algebra_simps)
  have "order_total ps (fold (\<lambda>i. add_quantity (ci_product_id i) (ci_quantity i)) is m) =
      order_total ps m + sum_list (map (\<lambda>i. ?price (ci_product_id i) * ci_quantity i) is)" for m "is"
    by (induction "is" arbitrary: m) (simp_all add: add)
  from this [of "cr_items req" "[]"] show ?thesis by (simp add: merge_items_def tot)
qed

lemma merge_items_mem: "i \<in> set (cr_items req) \<Longrightarrow> ci_product_id i \<in> fst ` set (merge_items req)"
proof -
  have "fst ` set (fold (\<lambda>i. add_quantity (ci_product_id i) (ci_quantity i)) is m) =
      fst ` set m \<union> ci_product_id ` set is" for m "is"
    by (induction "is" arbitrary: m) (auto simp: merge_items_keys)
  from this [of "cr_items req" "[]"] show "i \<in> set (cr_items req) \<Longrightarrow> ?thesis" by (simp add: merge_items_def)
qed

text \<open>
  C4: a creation that succeeds for a new key adds exactly one order: pending, of this user,
  to be paid the sum of price times quantity over the requested items; every requested
  limited product had enough stock and loses exactly the requested quantity, every other
  product none; the counters agree afterwards.
\<close>

theorem create_places_order:
  assumes inv: "shop_inv (d, r)" and ok: "create_request_ok req"
    and new: "get_order_by_idempotency_key d uid (cr_idempotency_key req) = None"
    and c: "create_locked now ttl d uid req r = (Inr o1, d', r')"
  shows "orders d' = orders d @ [o1] \<and> co_user_id o1 = uid \<and> co_status o1 = OrdPending \<and>
    co_payment_status o1 = PayPending \<and>
    co_payable_amount o1 = sum_list (map (\<lambda>i. price_of d (ci_product_id i) * ci_quantity i) (cr_items req)) \<and>
    (\<forall>j s. stock_of d j = Some s \<longrightarrow> 0 \<le> s \<longrightarrow>
       requested req j \<le> s \<and> stock_of d' j = Some (s - requested req j)) \<and>
    synced d' r' \<and> wallet d' = wallet d \<and> users d' = users d"
proof -
  let ?qm = "merge_items req"
  let ?ps = "load_products d ?qm"
  have fit: "fit r" using inv by (simp add: shop_inv_def)
  show ?thesis
    using fit ok c
  proof (cases rule: create_locked_cases)
    case (created o2 r1)
    then have p: "persist_order now d uid req ?ps ?qm = Inr (o1, d')" by simp
    note e = persist_effect [OF p created(2) merge_items_distinct]
    have o1: "o1 = new_order d (numbers d ''XO'' (drawn d)) uid req (order_total ?ps ?qm) (order_school ?ps ?qm) now"
      using p by (rule persist_cases)
    have price: "(case find_by sp_id (ci_product_id i) ?ps of Some p \<Rightarrow> sp_price p | None \<Rightarrow> 0)
        = price_of d (ci_product_id i)" if "i \<in> set (cr_items req)" for i
      using load_products_find [OF merge_items_mem [OF that]] by (simp add: price_of_def)
    have "order_total ?ps ?qm = sum_list (map (\<lambda>i. price_of d (ci_product_id i) * ci_quantity i) (cr_items req))"
      unfolding order_total_merge
      by (rule arg_cong [of _ _ sum_list]) (use price in \<open>simp cong: map_cong\<close>)
    moreover have "requested req j \<le> s \<and> stock_of d' j = Some (s - requested req j)"
      if s: "stock_of d j = Some s" "0 \<le> s" for j s
    proof -
      have req: "requested req j = (case map_of ?qm j of Some q \<Rightarrow> q | None \<Rightarrow> 0)"
        using owed_filter [OF merge_items_distinct, of "\<lambda>x. True" req j] owed_merge_items [of req j]
        by (simp add: requested_def split: option.splits)
      show ?thesis
      proof (cases "map_of ?qm j")
        case (Some q)
        then have "(j, q) \<in> set ?qm" by (rule map_of_SomeD)
        from validate_productsD [OF created(2) this] obtain pr where
          pr: "find_by sp_id j ?ps = Some pr" "0 \<le> sp_stock pr \<longrightarrow> q \<le> sp_stock pr" by blast
        then show ?thesis using e(1) [of j] s Some req load_products_stock [OF pr(1)] by (simp add: takes_def)
      qed (use e(1) [of j] s req in simp)
    qed
    moreover have "synced d' r'" using create_inv [OF inv ok c] by (simp add: shop_inv_def)
    ultimately show ?thesis using e(4,5,6) o1 by (simp add: new_order_def)
  next
    case failed
    then show ?thesis using new by auto
  qed
qed

theorem create_places_order_witness:
  "\<exists>o1. fst bought = Inr o1 \<and> co_payable_amount o1 = 2000 \<and> stock_of bought_db 1 = Some 3"
proof -
  have "\<not> isl (fst bought)" by code_simp
  then obtain o1 where o1: "fst bought = Inr o1" by (cases "fst bought") auto
  have new: "get_order_by_idempotency_key shop_db 1 (cr_idempotency_key (sample_request [(1, 2)])) = None" by code_simp
  have "sum_list (map (\<lambda>i. price_of shop_db (ci_product_id i) * ci_quantity i) (cr_items (sample_request [(1, 2)]))) = 2000"
    by code_simp
  moreover have "stock_of shop_db 1 = Some 5" by code_simp
  moreover have "requested (sample_request [(1, 2)]) 1 = 2" by code_simp
  ultimately show ?thesis
    using create_places_order [OF shop_sample_inv sample_request_ok new bought_eq [unfolded o1]] o1 by auto
qed

section \<open>One order per key\<close>

lemma created_by_key:
  assumes inv: "shop_inv (d, r)" and ok: "create_request_ok req"
    and c: "create_locked now ttl d uid req r = (Inr o1, d', r')"
  shows "get_order_by_idempotency_key d' uid (cr_idempotency_key req) = Some o1"
proof -
  have fit: "fit r" using inv by (simp add: shop_inv_def)
  show ?thesis
    using fit ok c
  proof (cases rule: create_locked_cases)
    case (created o2 r1)
    then have p: "persist_order now d uid req (load_products d (merge_items req)) (merge_items req) = Inr (o1, d')"
      by simp
    have "o1 \<in> set (orders d')" using persist_effect(4) [OF p created(2) merge_items_distinct] by simp
    moreover have "shop_ok d'" using create_inv [OF inv ok c] by (simp add: shop_inv_def)
    ultimately show ?thesis using by_key_found persist_owner [OF p] by blast
  next
    case failed
    then show ?thesis by auto
  qed
qed

text \<open>
  C6: retrying is safe. After a creation has succeeded, a request of the same user with the
  same key, at any later time, with any items and whatever has become of Redis, returns the
  same order and touches neither the database nor Redis.
\<close>

theorem create_retry_same_order:
  assumes "shop_inv (d, r)" and "create_request_ok req"
    and "create_locked now ttl d uid req r = (Inr o1, d', r')"
    and "cr_idempotency_key req' = cr_idempotency_key req"
  shows "create_order now' ttl' d' others uid req' r'' = (Inr o1, d', r'')"
  using created_by_key [OF assms(1,2,3)] assms(4) by (simp add: create_order_def)

theorem create_retry_same_order_witness:
  "\<exists>o1. create_order 99 600 bought_db id 1 (sample_request [(2, 7)]) bought_redis = (Inr o1, bought_db, bought_redis)"
proof -
  have "\<not> isl (fst bought)" by code_simp
  then obtain o1 where o1: "fst bought = Inr o1" by (cases "fst bought") auto
  have "cr_idempotency_key (sample_request [(2, 7)]) = cr_idempotency_key (sample_request [(1, 2)])"
    by (simp add: sample_request_def)
  from create_retry_same_order [OF shop_sample_inv sample_request_ok bought_eq [unfolded o1] this] show ?thesis by blast
qed

text \<open>
  C7: a race makes one order. When another session has committed an order with the same
  user and key after this request looked for one, this request adds none: the database stays
  as the other session left it, the stock counters are as before, and the answer is an error
  (the method means to return the other session's order, but reads an expired attribute first).
\<close>

theorem create_race_one_order:
  assumes "get_order_by_idempotency_key d uid (cr_idempotency_key req) = None"
    and inv: "shop_inv (others d, r)" and ok: "create_request_ok req"
    and twin: "get_order_by_idempotency_key (others d) uid (cr_idempotency_key req) = Some o0"
    and c: "create_locked now ttl (others d) uid req r = (res, d', r')"
  shows "d' = others d \<and> res = Inl expired_attribute \<and> synced d' r' \<and>
    (\<forall>j. stock_at r j \<noteq> None \<longrightarrow> stock_at r' j = stock_at r j)"
proof -
  have fit: "fit r" using inv by (simp add: shop_inv_def)
  show ?thesis
    using fit ok c
  proof (cases rule: create_locked_cases)
    case (created o1 r1)
    have "\<forall>x\<in>set (orders (others d)). owner_of x \<noteq> owner_of o1" using created(3) by (rule persist_cases) simp
    then show ?thesis using by_key_mem [OF twin] persist_owner [OF created(3)] by auto
  next
    case failed
    have "synced d' r'" using create_inv [OF inv ok c] by (simp add: shop_inv_def)
    moreover have "\<forall>j. stock_at r j \<noteq> None \<longrightarrow> stock_at r' j = stock_at r j"
    proof (intro allI impI)
      fix j assume "stock_at r j \<noteq> None"
      moreover have "stock_at r' j = stock_at r j \<or> stock_at r j = None"
        using failed(3) by (auto simp: carried_def)
      ultimately show "stock_at r' j = stock_at r j" by auto
    qed
    ultimately show ?thesis using failed(1,4) by simp
  qed
qed

theorem create_race_one_order_witness:
  "\<exists>o0 r'. get_order_by_idempotency_key bought_db 1 ''key-0001'' = Some o0 \<and>
     create_locked 5 600 bought_db 1 (sample_request [(1, 2)]) bought_redis = (Inl expired_attribute, bought_db, r') \<and>
     stock_at r' 1 = Some 3"
proof -
  have key: "cr_idempotency_key (sample_request [(1, 2)]) = ''key-0001''" by (simp add: sample_request_def)
  have "get_order_by_idempotency_key shop_db 1 ''key-0001'' = None" by code_simp
  moreover have "\<not> Option.is_none (get_order_by_idempotency_key bought_db 1 ''key-0001'')" by code_simp
  then obtain o0 where o0: "get_order_by_idempotency_key bought_db 1 ''key-0001'' = Some o0"
    by (auto simp: Option.is_none_def)
  obtain res d' r' where c: "create_locked 5 600 bought_db 1 (sample_request [(1, 2)]) bought_redis = (res, d', r')"
    by (metis prod_cases3)
  have "stock_at bought_redis 1 = Some 3" by code_simp
  ultimately show ?thesis
    using create_race_one_order [where others = "\<lambda>d. bought_db" and d = shop_db, OF _ bought_inv sample_request_ok _ c]
      o0 c key by auto
qed

text \<open>
  While a request holds the key (its Redis key is alive and there is neither a cached
  result nor an order), a second request with the key is refused with
  \<open>IDEMPOTENCY_CONFLICT\<close> and changes neither the database nor any counter.
\<close>

theorem processing_key_conflict:
  assumes "fit r" and "get_order_by_idempotency_key d uid (cr_idempotency_key req) = None"
    and "view now (rstore r) (idem_key uid (cr_idempotency_key req)) \<noteq> None"
    and "view now (rstore r) (result_key uid (cr_idempotency_key req)) = None"
  shows "\<exists>r'. create_order now ttl d others uid req r = (Inl (BusinessError 409 ''IDEMPOTENCY_CONFLICT''), d, r') \<and>
    fit r' \<and> (\<forall>j. stock_at r' j = stock_at r j)"
proof -
  let ?rk = "result_key uid (cr_idempotency_key req)" and ?ik = "idem_key uid (cr_idempotency_key req)"
  have h: "healthy r" using assms(1) by (simp add: fit_def)
  let ?r1 = "r\<lparr>rstore := purge now ?rk (rstore r)\<rparr>"
  have get: "redis_get_json now ?rk r = (Inr None, ?r1)"
    using assms(4) by (simp add: redis_get_json_def raw_call_healthy [OF h] mem_get_def Let_def)
  have "view now (rstore ?r1) ?ik \<noteq> None" using assms(3) by simp
  then have set: "redis_setnx now ?ik ''processing'' ttl ?r1 = (Inr False, ?r1\<lparr>rstore := purge now ?ik (rstore ?r1)\<rparr>)"
  proof -
    have h1: "healthy ?r1" using h by simp
    show ?thesis
      using assms(3) unfolding redis_setnx_def raw_call_healthy [OF h1]
      by (simp add: mem_set_def Let_def)
  qed
  let ?r2 = "?r1\<lparr>rstore := purge now ?ik (rstore ?r1)\<rparr>"
  have same: "rstore ?r2 (stock_key j) = rstore r (stock_key j)" for j
    by (simp add: purge_other not_sym [OF idem_key_other(1)] not_sym [OF idem_key_other(2)])
  have "create_order now ttl d others uid req r = (Inl (BusinessError 409 ''IDEMPOTENCY_CONFLICT''), d, ?r2)"
    using assms(2) get set by (simp add: create_order_def cached_order_def)
  moreover have "stock_at ?r2 j = stock_at r j" for j unfolding stock_at_def same ..
  moreover have "fit ?r2"
    using assms(1) h unfolding fit_def stock_keys_ok_def same by (simp add: healthy_def)
  ultimately show ?thesis by blast
qed

definition busy_redis :: redis where
  "busy_redis = snd (redis_setnx 0 (idem_key 1 ''key-0001'') ''processing'' 600 idle_redis)"

theorem processing_key_conflict_witness:
  "\<exists>r'. create_order 10 600 shop_db id 1 (sample_request [(1, 2)]) busy_redis =
     (Inl (BusinessError 409 ''IDEMPOTENCY_CONFLICT''), shop_db, r')"
proof -
  have r: "rstore busy_redis = (\<lambda>k. if k = idem_key 1 ''key-0001'' then Some (SStr ''processing'', Some (seconds 600)) else None)"
    by (auto simp: busy_redis_def redis_setnx_def raw_call_def idle_redis_def mem_set_def Let_def purge_def)
  have "fit busy_redis"
    using not_sym [OF idem_key_other(1)]
    by (simp add: fit_def stock_keys_ok_def r)
      (simp add: busy_redis_def redis_setnx_def raw_call_def idle_redis_def mem_set_def Let_def healthy_def purge_def)
  moreover have "get_order_by_idempotency_key shop_db 1 ''key-0001'' = None" by code_simp
  moreover have "view 10 (rstore busy_redis) (idem_key 1 ''key-0001'') \<noteq> None"
    by (simp add: r view_def expired_def seconds_def)
  moreover have "view 10 (rstore busy_redis) (result_key 1 ''key-0001'') = None"
    by (simp add: r view_def)
  moreover have "cr_idempotency_key (sample_request [(1, 2)]) = ''key-0001''" by (simp add: sample_request_def)
  ultimately show ?thesis
    using processing_key_conflict [of busy_redis shop_db 1 "sample_request [(1, 2)]" 10 600 id] by auto
qed

end
