(* ===== verification/Shop_Api.thy ===== *)
theory Shop_Api
  imports Order_Life Vip
begin

text \<open>
  The handlers of \<open>app/api/commerce.py\<close> around an order: reading, refund requests, the
  payment through WeChat with its synchronisation and its two notifications, the mock
  payment, orders for a VIP plan, and the lists of the administrator and of a school. A
  notification arrives as headers and body; \<open>user\<close> is the account of the session.
\<close>

definition no_such_order :: error where "no_such_order = HTTPException 404 ''no order''"

type_synonym order_out = "commerce_order \<times> order_item list"

definition commerce_order_out :: "db \<Rightarrow> commerce_order \<Rightarrow> order_out" where
  "commerce_order_out d o1 = (o1, get_order_items d (co_id o1))"

definition commerce_orders_out_batch :: "db \<Rightarrow> commerce_order list \<Rightarrow> order_out list" where
  "commerce_orders_out_batch d os =
    (let m = get_order_items_map d (map co_id os)
     in map (\<lambda>o1. (o1, case map_of m (co_id o1) of Some its \<Rightarrow> its | None \<Rightarrow> [])) os)"

definition own_order :: "db \<Rightarrow> string \<Rightarrow> user_account \<Rightarrow> commerce_order result" where
  "own_order d order_no user =
    (case get_order_by_no d order_no of
       None \<Rightarrow> Inl no_such_order
     | Some o1 \<Rightarrow> if co_user_id o1 \<noteq> ua_id user then Inl no_such_order else Inr o1)"

definition standard_order_detail :: "db \<Rightarrow> string \<Rightarrow> user_account \<Rightarrow> order_out result" where
  "standard_order_detail d order_no user = map_sum id (commerce_order_out d) (own_order d order_no user)"

text \<open>\<open>order_by(id.desc())\<close>.\<close>

definition orders_newest :: "commerce_order list \<Rightarrow> commerce_order list" where
  "orders_newest os = sort_key (\<lambda>o1. - co_id o1) os"

definition my_standard_orders :: "db \<Rightarrow> user_account \<Rightarrow> order_out list" where
  "my_standard_orders d user =
    commerce_orders_out_batch d (orders_newest (filter (\<lambda>o1. co_user_id o1 = ua_id user) (orders d)))"

definition admin_commerce_orders :: "db \<Rightarrow> order_out list" where
  "admin_commerce_orders d = commerce_orders_out_batch d (orders_newest (orders d))"

definition merchant_commerce_orders :: "db \<Rightarrow> int \<Rightarrow> order_out list" where
  "merchant_commerce_orders d sid =
    filter (\<lambda>(o1, its). list_ex (\<lambda>i. oi_school_id i = sid) its)
      (commerce_orders_out_batch d
        (orders_newest (filter (\<lambda>o1. co_school_id o1 \<in> {0, sid}) (orders d))))"

definition my_wallet :: "db \<Rightarrow> user_account \<Rightarrow> cents \<times> wallet_transaction list" where
  "my_wallet d user =
    (ua_balance user, take 50 (sort_key (\<lambda>w. - wt_id w) (filter (\<lambda>w. wt_user_id w = ua_id user) (wallet d))))"

section \<open>Requests for a refund\<close>

definition refund_requested :: "time \<Rightarrow> string \<Rightarrow> commerce_order \<Rightarrow> commerce_order" where
  "refund_requested now reason o1 =
    o1\<lparr>co_refund_status := ''requested'', co_refund_reason := strip reason, co_refund_requested_at := Some now\<rparr>"

definition request_standard_order_refund ::
  "time \<Rightarrow> db \<Rightarrow> string \<Rightarrow> string \<Rightarrow> user_account \<Rightarrow> (commerce_order \<times> db) result" where
  "request_standard_order_refund now d order_no reason user =
    (case own_order d order_no user of
       Inl e \<Rightarrow> Inl e
     | Inr o1 \<Rightarrow>
         if co_payment_status o1 = PayRefunded then Inr (o1, d)
         else if co_refund_status o1 \<in> {''requested'', ''processing''} then Inr (o1, d)
         else if co_payment_status o1 \<noteq> PayPaid \<or> co_status o1 \<noteq> OrdPaid
         then Inl (BusinessError 400 ''ORDER_NOT_REFUNDABLE'')
         else Inr (refund_requested now reason o1, set_order (co_id o1) (refund_requested now reason) d))"

section \<open>Payment\<close>

definition balance_pay_standard_order ::
  "time \<Rightarrow> db \<Rightarrow> string \<Rightarrow> user_account \<Rightarrow> (commerce_order \<times> db) result" where
  "balance_pay_standard_order now d order_no user =
    (case own_order d order_no user of
       Inl e \<Rightarrow> Inl e | Inr o1 \<Rightarrow> pay_with_balance now d (ua_id user) (co_id o1))"

definition mock_pay_standard_order ::
  "string \<Rightarrow> time \<Rightarrow> db \<Rightarrow> string \<Rightarrow> user_account \<Rightarrow> (commerce_order \<times> db) result" where
  "mock_pay_standard_order env now d order_no user =
    (if to_lower (strip env) \<notin> {''development'', ''test''} then Inl (HTTPException 403 ''no mock payment'')
     else case own_order d order_no user of
       Inl e \<Rightarrow> Inl e
     | Inr o1 \<Rightarrow>
         (case draw_no ''MOCK-'' d of (txn, d1) \<Rightarrow> mark_order_paid now d1 (co_id o1) ''mock'' txn))"

text \<open>The separator of the description is a comma here.\<close>

definition payment_description :: "order_item list \<Rightarrow> string" where
  "payment_description its =
    str_or (concat (case map oi_product_name its of
        [] \<Rightarrow> [] | n # ns \<Rightarrow> n # map (\<lambda>s. '','' @ s) ns)) ''learning service''"

definition wechat_pay_standard_order ::
  "'k provider \<Rightarrow> wx_settings \<Rightarrow> string \<Rightarrow> string \<Rightarrow> time \<Rightarrow> db \<Rightarrow> string \<Rightarrow> user_account
    \<Rightarrow> ((string \<times> string) list \<times> db) result" where
  "wechat_pay_standard_order pv w nonce nonce2 now d order_no user =
    (case own_order d order_no user of
       Inl e \<Rightarrow> Inl e
     | Inr o1 \<Rightarrow>
         if co_payment_status o1 = PayPaid then Inl (BusinessError 409 ''ORDER_ALREADY_PAID'')
         else if co_status o1 \<noteq> OrdPending then Inl not_payable
         else case create_jsapi_payment pv w (now div 1000000) nonce nonce2 o1
             (payment_description (get_order_items d (co_id o1)))
             (case ua_wechat_openid user of Some s \<Rightarrow> s | None \<Rightarrow> []) of
           Inl e \<Rightarrow> Inl e
         | Inr params \<Rightarrow>
             Inr (params, if co_payment_method o1 \<noteq> ''wechat''
               then set_order (co_id o1) (\<lambda>x. x\<lparr>co_payment_method := ''wechat''\<rparr>) d else d))"

definition apply_wechat_payment_result ::
  "wx_settings \<Rightarrow> time \<Rightarrow> json \<Rightarrow> db \<Rightarrow> (commerce_order \<times> db) result" where
  "apply_wechat_payment_result w now transaction d =
    (case get_order_by_no d (json_text (jget transaction ''out_trade_no'')) of
       None \<Rightarrow> Inl (BusinessError 404 ''ORDER_NOT_FOUND'')
     | Some o1 \<Rightarrow>
         (case validate_successful_transaction w o1 transaction of
            Inl e \<Rightarrow> Inl e
          | Inr txn \<Rightarrow>
              if co_payment_status o1 = PayPaid \<or> co_payment_status o1 = PayRefunded then
                (if co_transaction_id o1 \<noteq> [] \<and> co_transaction_id o1 \<noteq> txn
                 then Inl (BusinessError 409 ''WECHAT_PAY_ORDER_MISMATCH'') else Inr (o1, d))
              else mark_order_paid now d (co_id o1) ''wechat'' txn))"

text \<open>A list or an object cannot be looked up in a set.\<close>

definition unhashable :: "json \<Rightarrow> bool" where
  "unhashable v = (case v of JList _ \<Rightarrow> True | JObj _ \<Rightarrow> True | _ \<Rightarrow> False)"

definition sync_wechat_standard_order ::
  "'k provider \<Rightarrow> wx_settings \<Rightarrow> string \<Rightarrow> time \<Rightarrow> db \<Rightarrow> string \<Rightarrow> user_account \<Rightarrow> redis
    \<Rightarrow> (commerce_order \<times> db) result \<times> redis" where
  "sync_wechat_standard_order pv w nonce now d order_no user r =
    (case own_order d order_no user of
       Inl e \<Rightarrow> (Inl e, r)
     | Inr o1 \<Rightarrow>
         if co_payment_status o1 = PayPaid then (Inr (o1, d), r)
         else if co_payment_method o1 \<noteq> ''wechat'' \<or> co_status o1 \<noteq> OrdPending then (Inl not_payable, r)
         else case query_transaction pv w (now div 1000000) nonce (co_order_no o1) of
           Inl e \<Rightarrow> (Inl e, r)
         | Inr t \<Rightarrow>
             if unhashable (jget t ''trade_state'')
             then (Inl (TypeError ''unhashable''), r)
             else if jget t ''trade_state'' = JStr ''SUCCESS'' then (apply_wechat_payment_result w now t d, r)
             else if jget t ''trade_state'' \<in> {JStr ''CLOSED'', JStr ''REVOKED'', JStr ''PAYERROR''} then
               (case cancel_unpaid_order now d o1 ''WeChat'' r of
                  (Inl e, r1) \<Rightarrow> (Inl e, r1)
                | (Inr (changed, d1), r1) \<Rightarrow> (Inr (order_or o1 d1, d1), r1))
             else (Inr (o1, d), r))"

text \<open>The two notifications; the answer to the provider is always the same text.\<close>

definition received ::
  "'k provider \<Rightarrow> wx_settings \<Rightarrow> headers \<Rightarrow> string \<Rightarrow> time \<Rightarrow> json result" where
  "received pv w hs body now =
    (case verify_notification_signature pv w hs body (now div 1000000) of
       Inl e \<Rightarrow> Inl e | Inr _ \<Rightarrow> decrypt_notification pv w body)"

definition wechat_pay_notification ::
  "'k provider \<Rightarrow> wx_settings \<Rightarrow> headers \<Rightarrow> string \<Rightarrow> time \<Rightarrow> db \<Rightarrow> db result" where
  "wechat_pay_notification pv w hs body now d =
    (case received pv w hs body now of
       Inl e \<Rightarrow> Inl e
     | Inr t \<Rightarrow>
         if jget t ''trade_state'' \<noteq> JStr ''SUCCESS'' then Inr d
         else map_sum id snd (apply_wechat_payment_result w now t d))"

definition wechat_refund_notification ::
  "'k provider \<Rightarrow> wx_settings \<Rightarrow> headers \<Rightarrow> string \<Rightarrow> time \<Rightarrow> db \<Rightarrow> redis \<Rightarrow> db result \<times> redis" where
  "wechat_refund_notification pv w hs body now d r =
    (case received pv w hs body now of
       Inl e \<Rightarrow> (Inl e, r)
     | Inr report \<Rightarrow>
         if jget report ''mchid'' \<noteq> JStr (wx_mch_id w)
         then (Inl (BusinessError 400 ''WECHAT_REFUND_ORDER_MISMATCH''), r)
         else case get_order_by_no d (json_text (jget report ''out_trade_no'')) of
           None \<Rightarrow> (Inl (BusinessError 404 ''ORDER_NOT_FOUND''), r)
         | Some o1 \<Rightarrow>
             (let no = json_text (jget report ''out_refund_no'') in
              case validate_refund_result o1 report
                  (str_or (case co_refund_no o1 of Some s \<Rightarrow> s | None \<Rightarrow> []) no) of
                Inl e \<Rightarrow> (Inl e, r)
              | Inr (status, rid) \<Rightarrow>
                  if status = ''SUCCESS'' then
                    (case finalize_refund now d (co_id o1) no rid False r of
                       (Inl e, r1) \<Rightarrow> (Inl e, r1) | (Inr (o2, d1), r1) \<Rightarrow> (Inr d1, r1))
                  else (Inr (set_order (co_id o1) (\<lambda>x. x\<lparr>co_refund_status := to_lower status\<rparr>) d), r)))"

section \<open>Orders for a VIP plan\<close>

record vip_order_payload =
  vp_plan_id :: int
  vp_payment_method :: string
  vp_idempotency_key :: string

definition vip_order_ok :: "vip_order_payload \<Rightarrow> bool" where
  "vip_order_ok p \<longleftrightarrow> 1 \<le> vp_plan_id p \<and> vp_plan_id p \<le> 1000000 \<and>
     vp_payment_method p \<in> {''wechat'', ''balance''} \<and>
     8 \<le> length (vp_idempotency_key p) \<and> length (vp_idempotency_key p) \<le> 120"

definition vip_order_row :: "time \<Rightarrow> db \<Rightarrow> string \<Rightarrow> int \<Rightarrow> plan \<Rightarrow> vip_order_payload \<Rightarrow> commerce_order" where
  "vip_order_row now d no uid plan p =
    \<lparr>co_id = fresh_id co_id (orders d), co_order_no = no, co_user_id = uid, co_school_id = 0,
     co_total_amount = vp_price plan, co_payable_amount = vp_price plan, co_payment_method = vp_payment_method p,
     co_payment_status = PayPending, co_status = OrdPending, co_idempotency_key = vp_idempotency_key p,
     co_transaction_id = [], co_refund_no = None, co_refund_id = [], co_refund_status = [], co_refund_reason = [],
     co_timeout_job_scheduled = True, co_paid_at = None, co_refund_requested_at = None, co_refunded_at = None,
     co_canceled_at = None, co_cancel_reason = [], co_created_at = now\<rparr>"

definition vip_item_row :: "db \<Rightarrow> commerce_order \<Rightarrow> plan \<Rightarrow> int \<Rightarrow> order_item" where
  "vip_item_row d o1 plan pid =
    \<lparr>oi_id = fresh_id oi_id (items d), oi_order_id = co_id o1, oi_order_no = co_order_no o1, oi_product_id = - pid,
     oi_product_name = vp_name plan, oi_product_type = ''vip'', oi_school_id = 0, oi_unit_price = vp_price plan,
     oi_quantity = 1, oi_total_amount = vp_price plan, oi_installment_count = 1, oi_stock_deducted = False,
     oi_status = OrdPending\<rparr>"

definition order_of_key :: "db \<Rightarrow> int \<Rightarrow> string \<Rightarrow> commerce_order option" where
  "order_of_key d uid key = List.find (\<lambda>o1. co_user_id o1 = uid \<and> co_idempotency_key o1 = key) (orders d)"

definition create_vip_order ::
  "time \<Rightarrow> db \<Rightarrow> int \<Rightarrow> vip_order_payload \<Rightarrow> (commerce_order \<times> db) result" where
  "create_vip_order now d uid p =
    (case get_vip_plan d (vp_plan_id p) False of
       Inl e \<Rightarrow> Inl e
     | Inr None \<Rightarrow> Inl (BusinessError 404 ''VIP_PLAN_NOT_FOUND'')
     | Inr (Some plan) \<Rightarrow>
         (case order_of_key d uid (vp_idempotency_key p) of
            Some o1 \<Rightarrow> Inr (o1, d)
          | None \<Rightarrow>
              (case draw_no ''XV'' d of
                 (no, d1) \<Rightarrow>
                   (let o1 = vip_order_row now d1 no uid plan p in
                    case flush_order o1 d1 of
                      Inl e \<Rightarrow> Inl e
                    | Inr d2 \<Rightarrow>
                        Inr (o1, d2\<lparr>items := items d2 @ [vip_item_row d2 o1 plan (vp_plan_id p)]\<rparr>)))))"

end
