(* ===== verification/Payment_Props.thy ===== *)
theory Payment_Props
  imports Order_Props Shop_Api
begin

text \<open>
  Payment: what a balance payment moves, its replays and refusals, the wallet's books over
  any run of the shop, and what a paid order grants (entitlements and membership time).
\<close>

section \<open>Balances\<close>

lemma balance_set_balance:
  "user_in d uid \<Longrightarrow> balance_of (set_balance uid b d) v = (if v = uid then b else balance_of d v)"
  by (auto simp: balance_of_def find_user_def set_balance_def set_user_def find_by_update_by user_in_def
      split: option.splits)

lemma balance_frame [simp]:
  "balance_of (d\<lparr>wallet := w\<rparr>) v = balance_of d v" "balance_of (d\<lparr>drawn := n\<rparr>) v = balance_of d v"
  "balance_of (set_order oid f d) v = balance_of d v"
  by (simp_all add: balance_of_def find_user_def set_order_def)

lemma find_user_id: "find_user d uid = Some u \<Longrightarrow> ua_id u = uid"
  unfolding find_user_def by (rule find_by_key)

lemma mark_paid_found:
  assumes m: "mark_order_paid now d oid meth txn = Inr (o', d')"
  shows "find_order d' oid = Some o' \<and> co_payment_status o' = PayPaid \<and> co_status o' = OrdPaid"
  using m
proof (cases rule: mark_paid_cases)
  case (paid o1)
  have "find_order d' oid = find_order (set_order oid (paid_order now meth txn) d) oid"
    using paid(4) by (simp add: settled_def find_order_def)
  also have "\<dots> = Some o'"
    using paid(1,5) by (simp add: find_order_def set_order_def find_by_update_by paid_order_def)
  finally show ?thesis using paid(5) by (simp add: paid_order_def)
qed simp

section \<open>A payment from the balance\<close>

text \<open>
  C8: a balance payment of a pending order moves exactly the order's amount. The balance
  covers it and goes down by it, no other balance changes, one wallet row records it with
  the balances before and after, and the order becomes paid under that row's number.
\<close>

theorem balance_payment_exact:
  assumes "find_order d oid = Some o1" and "co_status o1 = OrdPending"
    and p: "pay_with_balance now d uid oid = Inr (o', d')"
  shows "\<exists>w. wallet d' = wallet d @ [w] \<and> wt_user_id w = uid \<and> wt_direction w = Expense \<and>
    wt_amount w = co_payable_amount o1 \<and> wt_biz_no w = co_order_no o1 \<and>
    wt_balance_before w = balance_of d uid \<and> wt_balance_after w = balance_of d' uid \<and>
    balance_of d' uid = balance_of d uid - co_payable_amount o1 \<and> 0 \<le> balance_of d' uid \<and>
    (\<forall>v. v \<noteq> uid \<longrightarrow> balance_of d' v = balance_of d v) \<and>
    co_user_id o1 = uid \<and> o' = paid_order now ''balance'' (wt_transaction_no w) o1"
  using p
proof (cases rule: pay_with_balance_cases)
  case replay
  then show ?thesis using assms(1,2) by simp
next
  case (paid o2 u d2)
  then have o2: "o2 = o1" using assms(1) by simp
  let ?w = "wallet_row d u (numbers d ''WT'' (drawn d)) Expense (co_payable_amount o2) (ua_balance u)
      (ua_balance u - co_payable_amount o2) ''purchase'' (co_id o2) (co_order_no o2) ''purchase''"
  have u: "user_in d uid" "balance_of d uid = ua_balance u" "ua_id u = uid"
    using paid(4) find_user_id by (simp_all add: user_in_def balance_of_def)
  have d2: "wallet d2 = wallet d @ [?w]"
      "balance_of d2 v = (if v = uid then ua_balance u - co_payable_amount o2 else balance_of d v)" for v
    using paid(7) u(1) by (simp_all add: balance_set_balance)
  from paid(8) have "wallet d' = wallet d2 \<and> (\<forall>v. balance_of d' v = balance_of d2 v) \<and>
      o' = paid_order now ''balance'' (numbers d ''WT'' (drawn d)) o1"
  proof (cases rule: mark_paid_cases)
    case replay
    have "find_order d2 oid = find_order d oid" by (simp add: paid(7) find_order_def set_balance_def set_user_def)
    then show ?thesis using replay assms(1,2) by simp
  next
    case (paid o3)
    have "find_order d2 oid = find_order d oid"
      by (simp add: \<open>d2 = _\<close> find_order_def set_balance_def set_user_def)
    then have "o3 = o1" using paid(1) assms(1) by simp
    then show ?thesis
      using paid(4,5) settled_balance [OF paid(4)] by (simp add: settled_def calm_set_order)
  qed
  then show ?thesis
    using d2 u paid(2,5,6) o2 by (intro exI [of _ ?w]) (simp add: wallet_row_def)
qed

definition bought_oid :: int where "bought_oid = 1"

theorem balance_payment_exact_witness:
  "\<exists>o' d'. pay_with_balance 7 bought_db 1 bought_oid = Inr (o', d') \<and> balance_of d' 1 = 3000 \<and>
     co_payment_status o' = PayPaid"
proof -
  have "map_option co_status (find_order bought_db bought_oid) = Some OrdPending"
      "map_option co_payable_amount (find_order bought_db bought_oid) = Some 2000" by code_simp+
  then obtain o1 where o1: "find_order bought_db bought_oid = Some o1" "co_status o1 = OrdPending"
      "co_payable_amount o1 = 2000" by auto
  have "\<not> isl (pay_with_balance 7 bought_db 1 bought_oid)" by code_simp
  from not_isl_ex [OF this] obtain o' d' where p: "pay_with_balance 7 bought_db 1 bought_oid = Inr (o', d')" by blast
  have "balance_of bought_db 1 = 5000" by code_simp
  then show ?thesis using balance_payment_exact [OF o1(1,2) p] o1(3) p by (auto simp: paid_order_def)
qed

lemma find_order_id: "find_order d oid = Some o1 \<Longrightarrow> co_id o1 = oid"
  unfolding find_order_def by (rule find_by_key)

lemma shop_order_found:
  assumes "shop_inv (d, r)" and "o1 \<in> set (orders d)"
  shows "find_order d (co_id o1) = Some o1" "get_order_by_no d (co_order_no o1) = Some o1" "order_state_ok o1"
  using assms by (simp_all add: shop_inv_def shop_ok_def find_order_def get_order_by_no_def find_by_distinct)

text \<open>An order that is no longer pending: no entry point of a payment changes anything.\<close>

lemma closed_to_payments:
  assumes "find_order d (co_id o1) = Some o1" and "get_order_by_no d (co_order_no o1) = Some o1"
    and closed: "co_status o1 \<noteq> OrdPending"
  shows "mark_order_paid now d (co_id o1) meth txn \<in> insert (Inr (o1, d)) (range Inl)"
    and "pay_with_balance now d uid (co_id o1) \<in> insert (Inr (o1, d)) (range Inl)"
    and "json_text (jget t ''out_trade_no'') = co_order_no o1 \<Longrightarrow>
      apply_wechat_payment_result w now t d \<in> insert (Inr (o1, d)) (range Inl)"
proof -
  show mark: "mark_order_paid now d (co_id o1) meth txn \<in> insert (Inr (o1, d)) (range Inl)" for meth txn
    using assms by (simp add: mark_order_paid_def)
  show "pay_with_balance now d uid (co_id o1) \<in> insert (Inr (o1, d)) (range Inl)"
    using assms by (simp add: pay_with_balance_def)
  show "apply_wechat_payment_result w now t d \<in> insert (Inr (o1, d)) (range Inl)"
    if "json_text (jget t ''out_trade_no'') = co_order_no o1"
    using that assms(2) mark
    by (auto simp: apply_wechat_payment_result_def split: sum.splits)
qed

text \<open>What a notified payment leaves, whether it was the first one or not.\<close>

lemma paid_order_fields:
  "co_order_no (paid_order now meth txn o1) = co_order_no o1" "order_fen (paid_order now meth txn o1) = order_fen o1"
  "co_payment_status (paid_order now meth txn o1) = PayPaid" "co_status (paid_order now meth txn o1) = OrdPaid"
  "co_transaction_id (paid_order now meth txn o1) = txn"
  by (simp_all add: order_fen_def paid_order_def)

lemma validate_paid:
  "validate_successful_transaction w (paid_order now meth txn o1) t = validate_successful_transaction w o1 t"
  by (simp only: validate_successful_transaction_def paid_order_fields)

lemma notified_order:
  assumes inv: "shop_inv (d, r)" and first: "apply_wechat_payment_result w now t d = Inr (o', d')"
  shows "o' \<in> set (orders d') \<and> shop_inv (d', r) \<and> co_status o' \<noteq> OrdPending \<and>
    json_text (jget t ''out_trade_no'') = co_order_no o' \<and>
    apply_wechat_payment_result w now' t d' = Inr (o', d')"
proof -
  let ?no = "json_text (jget t ''out_trade_no'')"
  obtain o1 txn where o1: "get_order_by_no d ?no = Some o1" and v: "validate_successful_transaction w o1 t = Inr txn"
    using first by (auto simp: apply_wechat_payment_result_def split: option.splits sum.splits)
  have mem: "o1 \<in> set (orders d)" "co_order_no o1 = ?no"
    using o1 find_by_SomeD [of co_order_no ?no "orders d" o1] by (simp_all add: get_order_by_no_def)
  note f1 = shop_order_found [OF inv mem(1)]
  show ?thesis
  proof (cases "co_payment_status o1 = PayPaid \<or> co_payment_status o1 = PayRefunded")
    case True
    then have "o' = o1" "d' = d"
      using first o1 v by (auto simp: apply_wechat_payment_result_def split: if_splits)
    moreover have "co_status o1 \<noteq> OrdPending" using True f1(3) by (auto simp: order_state_ok_def)
    moreover have "apply_wechat_payment_result w now' t d = Inr (o1, d)"
      using True first o1 v by (auto simp: apply_wechat_payment_result_def split: if_splits)
    ultimately show ?thesis using inv mem by simp
  next
    case False
    then have m: "mark_order_paid now d (co_id o1) ''wechat'' txn = Inr (o', d')"
      using first o1 v by (simp add: apply_wechat_payment_result_def)
    then have o': "o' = paid_order now ''wechat'' txn o1"
      using False f1(1) by (cases rule: mark_paid_cases) simp_all
    have inv': "shop_inv (d', r)" using inv m by (rule mark_paid_inv)
    have "find_order d' (co_id o1) = Some o'" using mark_paid_found [OF m] by blast
    then have mem': "o' \<in> set (orders d')" unfolding find_order_def by (rule find_by_mem)
    have fields: "co_order_no o' = ?no" "co_payment_status o' = PayPaid" "co_status o' = OrdPaid"
        "co_transaction_id o' = txn" "validate_successful_transaction w o' t = Inr txn"
      unfolding o' validate_paid by (simp_all add: paid_order_fields mem(2) v)
    have "apply_wechat_payment_result w now' t d' = Inr (o', d')"
      using shop_order_found(2) [OF inv' mem'] fields by (simp add: apply_wechat_payment_result_def)
    then show ?thesis using inv' mem' fields by simp
  qed
qed

lemma balance_paid_order:
  assumes p: "pay_with_balance now d uid oid = Inr (o', d')"
  shows "find_order d' oid = Some o' \<and> co_payment_status o' = PayPaid \<and> co_status o' = OrdPaid \<and> co_user_id o' = uid"
  using p
proof (cases rule: pay_with_balance_cases)
  case (paid o1 u d2)
  have same: "find_order d2 oid = find_order d oid" by (simp add: paid(7) find_order_def set_balance_def set_user_def)
  note m = mark_paid_found [OF paid(8)]
  have "co_user_id o' = uid"
    using paid(8)
  proof (cases rule: mark_paid_cases)
    case replay
    then show ?thesis using same paid(1,2) by simp
  next
    case (paid o3)
    then show ?thesis using same \<open>find_order d oid = Some o1\<close> \<open>co_user_id o1 = uid\<close> by (simp add: paid_order_def)
  qed
  then show ?thesis using m by simp
qed simp

text \<open>
  C9: the money moves once. After the provider's notification has been applied, its repetition
  returns the same order and changes nothing; so does a repeated payment from the balance.
  After either of them no entry point (another notification for the order, with whatever
  transaction, a payment from the balance, the mock) charges, settles or grants anything
  again: it returns the order as it is or is refused. A notification that follows a payment
  from the balance is such a case: it is refused, and the second payment is not recorded.
\<close>

theorem payment_replay:
  assumes inv: "shop_inv (d, r)"
    and first: "apply_wechat_payment_result w now t d = Inr (o', d') \<or>
      pay_with_balance now d (co_user_id o') (co_id o') = Inr (o', d')"
  shows "(apply_wechat_payment_result w now t d = Inr (o', d') \<longrightarrow>
       apply_wechat_payment_result w now' t d' = Inr (o', d') \<and>
       (received pv w hs body now' = Inr t \<longrightarrow> wechat_pay_notification pv w hs body now' d' = Inr d')) \<and>
     (pay_with_balance now d (co_user_id o') (co_id o') = Inr (o', d') \<longrightarrow>
       pay_with_balance now' d' (co_user_id o') (co_id o') = Inr (o', d')) \<and>
     (json_text (jget t' ''out_trade_no'') = co_order_no o' \<longrightarrow>
       apply_wechat_payment_result w' now' t' d' \<in> insert (Inr (o', d')) (range Inl)) \<and>
     pay_with_balance now' d' uid (co_id o') \<in> insert (Inr (o', d')) (range Inl) \<and>
     mark_order_paid now' d' (co_id o') meth txn \<in> insert (Inr (o', d')) (range Inl)"
proof -
  have settled: "o' \<in> set (orders d') \<and> shop_inv (d', r) \<and> co_status o' \<noteq> OrdPending"
    using first
  proof
    assume "apply_wechat_payment_result w now t d = Inr (o', d')"
    then show ?thesis using notified_order [OF inv] by blast
  next
    assume p: "pay_with_balance now d (co_user_id o') (co_id o') = Inr (o', d')"
    then show ?thesis
      using balance_paid_order [OF p] pay_with_balance_inv [OF inv p] find_by_mem
      unfolding find_order_def by fastforce
  qed
  then have found: "find_order d' (co_id o') = Some o'" "get_order_by_no d' (co_order_no o') = Some o'"
    using shop_order_found by blast+
  note closed = closed_to_payments [OF found]
  have notified: "apply_wechat_payment_result w now' t d' = Inr (o', d') \<and>
      (received pv w hs body now' = Inr t \<longrightarrow> wechat_pay_notification pv w hs body now' d' = Inr d')"
    if "apply_wechat_payment_result w now t d = Inr (o', d')"
    using notified_order [OF inv that, of now'] by (simp add: wechat_pay_notification_def)
  have paid: "pay_with_balance now' d' (co_user_id o') (co_id o') = Inr (o', d')"
    if "pay_with_balance now d (co_user_id o') (co_id o') = Inr (o', d')"
    using balance_paid_order [OF that] by (simp add: pay_with_balance_def)
  show ?thesis using notified paid closed settled by blast
qed

text \<open>The notification of a paid order of the sample shop, and its repetition.\<close>

definition sample_wx :: wx_settings where
  "sample_wx = \<lparr>wx_app_id = ''wx1'', wx_mch_id = ''m1'', wx_api_v3_key = [], wx_notify_url = [], wx_serial_no = [],
     wx_private_key_path = [], wx_public_key_id = [], wx_public_key_path = [], wx_refund_notify_url = []\<rparr>"

definition sample_transaction :: json where
  "sample_transaction = JObj [(''trade_state'', JStr ''SUCCESS''), (''mchid'', JStr ''m1''), (''appid'', JStr ''wx1''),
     (''out_trade_no'', JStr ''XO0''), (''amount'', JObj [(''total'', JInt 2000)]), (''transaction_id'', JStr ''T1'')]"

theorem payment_replay_witness:
  "\<exists>o' d'. apply_wechat_payment_result sample_wx 7 sample_transaction bought_db = Inr (o', d') \<and>
     apply_wechat_payment_result sample_wx 9 sample_transaction d' = Inr (o', d') \<and>
     pay_with_balance 9 d' 1 bought_oid \<in> insert (Inr (o', d')) (range Inl)"
proof -
  have "\<not> isl (apply_wechat_payment_result sample_wx 7 sample_transaction bought_db)" by code_simp
  from not_isl_ex [OF this] obtain o' d' where
    p: "apply_wechat_payment_result sample_wx 7 sample_transaction bought_db = Inr (o', d')" by blast
  have "map_sum id (\<lambda>x. co_id (fst x)) (apply_wechat_payment_result sample_wx 7 sample_transaction bought_db) = Inr bought_oid"
    by code_simp
  then have id: "co_id o' = bought_oid" by (simp add: p)
  note once = payment_replay [OF bought_inv disjI1 [OF p], where now' = 9 and uid = 1]
  have "apply_wechat_payment_result sample_wx 9 sample_transaction d' = Inr (o', d')" using once p by blast
  moreover have "pay_with_balance 9 d' 1 bought_oid \<in> insert (Inr (o', d')) (range Inl)" using once unfolding id by blast
  ultimately show ?thesis using p by blast
qed

text \<open>The second payment of a balance-paid order is refused with a conflict.\<close>

lemma paid_from_balance_conflicts:
  assumes inv: "shop_inv (d, r)" and p: "pay_with_balance now d uid oid = Inr (o', d')"
    and no: "json_text (jget t ''out_trade_no'') = co_order_no o'"
    and v: "validate_successful_transaction w o' t = Inr txn" "txn \<noteq> co_transaction_id o'" "co_transaction_id o' \<noteq> []"
  shows "apply_wechat_payment_result w now' t d' = Inl (BusinessError 409 ''WECHAT_PAY_ORDER_MISMATCH'')"
proof -
  have f: "find_order d' oid = Some o'" "co_payment_status o' = PayPaid" using balance_paid_order [OF p] by blast+
  then have "o' \<in> set (orders d')" unfolding find_order_def by (blast dest: find_by_mem)
  from shop_order_found(2) [OF pay_with_balance_inv [OF inv p] this] show ?thesis
    using no v f(2) by (simp add: apply_wechat_payment_result_def)
qed

text \<open>
  The refusals of a balance payment. A missing order and another user's order are not
  found; a canceled order is not payable; a pending order beyond the balance is refused with
  \<open>INSUFFICIENT_BALANCE\<close>.
\<close>

theorem payment_refused:
  "(find_order d oid = None \<longrightarrow> pay_with_balance now d uid oid = Inl (BusinessError 404 ''ORDER_NOT_FOUND'')) \<and>
   (\<forall>o1. find_order d oid = Some o1 \<longrightarrow>
     (co_user_id o1 \<noteq> uid \<longrightarrow> pay_with_balance now d uid oid = Inl (BusinessError 404 ''ORDER_NOT_FOUND'')) \<and>
     (co_user_id o1 = uid \<and> co_status o1 = OrdCanceled \<longrightarrow>
        pay_with_balance now d uid oid = Inl (BusinessError 400 ''ORDER_NOT_PAYABLE'')) \<and>
     (co_user_id o1 = uid \<and> co_status o1 = OrdPending \<and> co_payment_status o1 = PayPending \<and> user_in d uid \<and>
      0 \<le> co_payable_amount o1 \<and> balance_of d uid < co_payable_amount o1 \<longrightarrow>
        pay_with_balance now d uid oid = Inl (BusinessError 400 ''INSUFFICIENT_BALANCE'')))"
  by (auto simp: pay_with_balance_def not_payable_def user_in_def balance_of_def)

theorem payment_refused_witness:
  "pay_with_balance 7 bought_db 2 bought_oid = Inl (BusinessError 404 ''ORDER_NOT_FOUND'') \<and>
   pay_with_balance 7 bought_db 1 99 = Inl (BusinessError 404 ''ORDER_NOT_FOUND'')"
proof -
  have "map_option co_user_id (find_order bought_db bought_oid) = Some 1" by code_simp
  then obtain o1 where "find_order bought_db bought_oid = Some o1" "co_user_id o1 = 1" by auto
  then have "pay_with_balance 7 bought_db 2 bought_oid = Inl (BusinessError 404 ''ORDER_NOT_FOUND'')"
    using payment_refused [THEN conjunct2, rule_format, THEN conjunct1, rule_format, of bought_db bought_oid o1 2 7]
    by linarith
  moreover have "find_order bought_db 99 = None" by code_simp
  note payment_refused [THEN conjunct1, rule_format, OF this, of 7 1]
  ultimately show ?thesis by blast
qed

section \<open>The books of the wallet\<close>

definition signed_amount :: "wallet_transaction \<Rightarrow> cents" where
  "signed_amount w = (case wt_direction w of Income \<Rightarrow> wt_amount w | Expense \<Rightarrow> - wt_amount w)"

definition wallet_net :: "db \<Rightarrow> int \<Rightarrow> cents" where
  "wallet_net d uid = sum_where (\<lambda>w. wt_user_id w = uid) signed_amount (wallet d)"

definition off_book :: "db \<Rightarrow> int \<Rightarrow> cents" where
  "off_book d uid = balance_of d uid - wallet_net d uid"

lemma off_book_cong:
  "wallet d' = wallet d \<Longrightarrow> balance_of d' uid = balance_of d uid \<Longrightarrow> off_book d' uid = off_book d uid"
  by (simp add: off_book_def wallet_net_def)

lemma settled_off_book: "settled d d' \<Longrightarrow> off_book d' uid = off_book d uid"
  by (rule off_book_cong) (simp add: settled_def, rule settled_balance)

lemma set_order_off_book: "off_book (set_order oid f d) uid = off_book d uid"
  by (rule off_book_cong) (simp_all add: calm_set_order)

lemma mark_paid_off_book:
  assumes "mark_order_paid now d oid meth txn = Inr (o', d')"
  shows "off_book d' uid = off_book d uid"
  using assms
proof (cases rule: mark_paid_cases)
  case (paid o1)
  then show ?thesis using settled_off_book [OF paid(4), of uid] by (simp add: set_order_off_book)
qed simp

text \<open>A wallet row posted together with its change of the balance.\<close>

lemma posted_off_book:
  assumes "find_user d uid = Some u" and "wt_user_id w = uid"
    and "d' = (set_balance uid b d)\<lparr>drawn := n, wallet := wallet d @ [w]\<rparr>"
    and b: "b = ua_balance u + signed_amount w"
  shows "off_book d' v = off_book d v"
proof -
  have "user_in d uid" "balance_of d uid = ua_balance u" using assms(1) by (simp_all add: user_in_def balance_of_def)
  then have "balance_of d' v = (if v = uid then ua_balance u + signed_amount w else balance_of d v)"
    by (simp add: assms(3) b balance_set_balance)
  moreover have "wallet_net d' v = wallet_net d v + (if v = uid then signed_amount w else 0)"
    using assms(2) by (auto simp: assms(3) wallet_net_def sum_where_append sum_where_Cons)
  ultimately show ?thesis using \<open>balance_of d uid = ua_balance u\<close> by (simp add: off_book_def)
qed

lemma pay_off_book:
  assumes "pay_with_balance now d uid oid = Inr (o', d')"
  shows "off_book d' v = off_book d v"
  using assms
proof (cases rule: pay_with_balance_cases)
  case (paid o1 u d2)
  have "off_book d2 v = off_book d v"
    by (rule posted_off_book [OF paid(4) _ paid(7)])
      (simp_all add: wallet_row_def signed_amount_def find_user_id [OF paid(4)])
  then show ?thesis using mark_paid_off_book [OF paid(8)] by simp
qed simp

lemma refund_wallet_off_book:
  assumes "refund_to_wallet o1 u d = Inr d'" and "find_user d (co_user_id o1) = Some u"
  shows "off_book d' v = off_book d v"
  using assms(1)
proof (cases rule: refund_to_wallet_cases)
  case paid
  show ?thesis
    by (rule posted_off_book [OF assms(2) _ paid(2) [unfolded find_user_id [OF assms(2)]]])
      (simp_all add: wallet_row_def signed_amount_def find_user_id [OF assms(2)])
qed simp

lemma released_off_book: "released is d r d' r' \<Longrightarrow> off_book d' v = off_book d v"
  by (rule off_book_cong) (simp_all add: released_def)

lemma lock_user_find: "lock_user d uid = Inr u \<Longrightarrow> find_user d uid = Some u"
  by (simp add: lock_user_def split: option.splits)

lemma shop_step_off_book:
  assumes "shop_step (d, r) (d', r')" and inv: "shop_inv (d, r)"
  shows "off_book d' v = off_book d v"
  using assms(1)
proof (cases rule: shop_step.cases)
  case (step_create req now ttl uid res)
  have "fit r" using inv by (simp add: shop_inv_def)
  then show ?thesis
    using step_create
  proof (cases rule: create_locked_cases)
    case (created o1 r1)
    note e = persist_effect(5,6) [OF created(3,2) merge_items_distinct]
    then show ?thesis by (intro off_book_cong) (simp_all add: balance_of_def find_user_def)
  qed simp
next
  case (step_cancel oid o1 now reason b)
  from inv step_cancel(1,2) show ?thesis
  proof (cases rule: cancel_cases)
    case (canceled d1)
    then show ?thesis using released_off_book by (simp add: set_order_off_book)
  qed simp
next
  case (step_refunded now oid refund_no refund_id wr o1)
  from inv step_refunded(1) show ?thesis
  proof (cases rule: finalize_refund_cases)
    case (refunded o2 u d1 x d2 d3)
    have "off_book d1 v = off_book d v"
      using refunded(5) refund_wallet_off_book [OF _ lock_user_find [OF refunded(4)]]
      by (auto split: if_splits)
    then show ?thesis
      using released_off_book [OF refunded(7), of v] settled_off_book [OF settled_revoke [OF refunded(6)], of v]
        settled_off_book [OF settled_expire [of d2 oid], of v]
      by (simp add: refunded(8) set_order_off_book)
  qed simp
qed (auto intro: mark_paid_off_book pay_off_book)

text \<open>
  C10: the wallet's books balance. Over any run of the shop, whatever is created, paid,
  canceled and refunded, each user's balance changes by exactly the sum of the wallet rows
  written for that user, income less expense.
\<close>

theorem wallet_books_balance:
  assumes "shop_init (d0, r0)" and "runs shop_step (d0, r0) (d, r)"
  shows "balance_of d uid - balance_of d0 uid = wallet_net d uid - wallet_net d0 uid"
proof -
  have "runs shop_step s t \<Longrightarrow> shop_inv s \<Longrightarrow> off_book (fst t) uid = off_book (fst s) uid" for s t
  proof (induction rule: runs.induct)
    case (runs_step a b c)
    have "shop_inv b" using shop.runs_inv runs_step by blast
    then have "off_book (fst c) uid = off_book (fst b) uid"
      using shop_step_off_book [of "fst b" "snd b" "fst c" "snd c" uid] runs_step(2) by simp
    then show ?case using runs_step by simp
  qed simp
  from this [OF assms(2) shop.init_inv [OF assms(1)]] show ?thesis by (simp add: off_book_def)
qed

theorem wallet_books_balance_witness:
  "\<exists>o' d'. pay_with_balance 7 bought_db 1 bought_oid = Inr (o', d') \<and>
     balance_of d' 1 - balance_of shop_db 1 = wallet_net d' 1 - wallet_net shop_db 1"
proof -
  have "\<not> isl (pay_with_balance 7 bought_db 1 bought_oid)" by code_simp
  from not_isl_ex [OF this] obtain o' d' where p: "pay_with_balance 7 bought_db 1 bought_oid = Inr (o', d')" by blast
  then have "runs shop_step (shop_db, idle_redis) (d', bought_redis)"
    using runs_step [OF bought_run, of "(d', bought_redis)"] step_balance by blast
  from wallet_books_balance [OF shop_sample_init this] p show ?thesis by blast
qed

end
