(* ===== verification/Sweep_Props.thy ===== *)
theory Sweep_Props
  imports Order_Props
begin

text \<open>
  The delayed cancellation: the job of a pending order ends it and gives its stock back. The
  sweep does so for the orders that are flagged as having no job; nothing in the running
  program sets the flag (\<open>_mark_timeout_job_unscheduled\<close> fails inside the event loop), so the
  sweep is shown on its own terms, not as a property of the shop.
\<close>

lemma unscheduled_shop_inv:
  assumes "shop_inv (d, r)"
  shows "shop_inv (mark_timeout_job_unscheduled b no d, r)"
proof -
  define f where "f = (\<lambda>o1 :: commerce_order. if co_order_no o1 = no then o1\<lparr>co_timeout_job_scheduled := False\<rparr> else o1)"
  have same: "co_id (f x) = co_id x" "co_order_no (f x) = co_order_no x" "owner_of (f x) = owner_of x"
      "co_status (f x) = co_status x" "order_state_ok (f x) = order_state_ok x" for x
    by (simp_all add: f_def owner_of_def order_state_ok_def split: order_status.split payment_status.split)
  define d' where "d' = d\<lparr>orders := map f (orders d)\<rparr>"
  have "item_linked (map f (orders d)) i = item_linked (orders d) i" for i
    by (simp add: item_linked_def same)
  then have "shop_ok d'"
    using assms by (simp add: shop_inv_def shop_ok_def d'_def comp_def same)
  moreover have "stock_of d' j = stock_of d j" "reserved d' j = reserved d j" for j
    by (simp_all add: d'_def stock_of_def reserved_def)
  ultimately have "shop_inv (d', r)"
    using assms by (simp add: shop_inv_def synced_def)
  moreover have "mark_timeout_job_unscheduled b no d = (if b then d else d')"
    by (simp add: mark_timeout_job_unscheduled_def d'_def update_by_def f_def)
  ultimately show ?thesis using assms by simp
qed

definition lost_timers :: "string list \<Rightarrow> db \<Rightarrow> db" where
  "lost_timers nos d = fold (mark_timeout_job_unscheduled False) nos d"

lemma lost_timers_inv: "shop_inv (d, r) \<Longrightarrow> shop_inv (lost_timers nos d, r)"
  unfolding lost_timers_def by (induction nos arbitrary: d) (simp_all add: unscheduled_shop_inv)

definition timed_out :: "time \<Rightarrow> commerce_order \<Rightarrow> commerce_order" where
  "timed_out now o1 = canceled_order now ''timeout'' o1"

lemma timed_out_fields [simp]:
  "co_id (timed_out now o1) = co_id o1" "co_status (timed_out now o1) = OrdCanceled"
  "co_order_no (timed_out now o1) = co_order_no o1"
  by (simp_all add: timed_out_def canceled_order_def)

text \<open>
  What the job learns before it cancels: an order that is not paid through WeChat goes without
  asking; otherwise the provider must not know the order, or report it as not paid and close
  it, or report any state but \<open>SUCCESS\<close> and \<open>USERPAYING\<close>.
\<close>

definition lets_go :: "'k provider \<Rightarrow> wx_settings \<Rightarrow> string \<Rightarrow> string \<Rightarrow> time \<Rightarrow> commerce_order \<Rightarrow> bool" where
  "lets_go pv w nonce nonce2 now o1 \<longleftrightarrow>
    co_payment_method o1 \<noteq> ''wechat'' \<or> \<not> is_wechat_pay_configured w \<or>
    (case query_transaction pv w (now div 1000000) nonce (co_order_no o1) of
       Inl (BusinessError st code) \<Rightarrow> code = ''WECHAT_PAY_ORDER_NOT_EXIST''
     | Inl _ \<Rightarrow> False
     | Inr t \<Rightarrow>
        jget t ''trade_state'' \<noteq> JStr ''SUCCESS'' \<and> jget t ''trade_state'' \<noteq> JStr ''USERPAYING'' \<and>
        (jget t ''trade_state'' = JStr ''NOTPAY'' \<longrightarrow>
           \<not> isl (close_transaction pv w (now div 1000000) nonce2 (co_order_no o1))))"

lemma job_finishes:
  assumes "get_order_by_no d (co_order_no o1) = Some o1" and "lets_go pv w nonce nonce2 now o1"
  shows "cancel_unpaid_order_by_no pv w nonce nonce2 now d (co_order_no o1) r = finish_cancel now d o1 r"
  using assms
  by (auto simp: cancel_unpaid_order_by_no_def lets_go_def split: sum.splits error.splits)

definition canceled_now :: cancel_summary where
  "canceled_now = \<lparr>sm_ok = True, sm_changed = True, sm_reason = []\<rparr>"

definition canceled_before :: cancel_summary where
  "canceled_before = \<lparr>sm_ok = True, sm_changed = False, sm_reason = []\<rparr>"

lemma cancel_pending_by_no:
  assumes inv: "shop_inv (d, r)" and o1: "o1 \<in> set (orders d)" "co_status o1 = OrdPending"
    and w: "lets_go pv w nonce nonce2 now o1"
  shows "\<exists>d' r'. cancel_unpaid_order_by_no pv w nonce nonce2 now d (co_order_no o1) r =
      (Inr (canceled_now, d'), r') \<and> shop_step (d, r) (d', r') \<and> shop_inv (d', r') \<and>
    orders d' = update_by co_id (co_id o1) (timed_out now) (orders d)"
proof -
  have ok: "shop_ok d" using inv by (simp add: shop_inv_def)
  have f: "find_order d (co_id o1) = Some o1" "get_order_by_no d (co_order_no o1) = Some o1"
    using ok o1(1) by (simp_all add: shop_ok_def find_order_def get_order_by_no_def find_by_distinct)
  have "order_state_ok o1" using ok o1(1) by (simp add: shop_ok_def)
  then have unpaid: "co_payment_status o1 \<noteq> PayPaid"
    using o1(2) by (auto simp: order_state_ok_def)
  obtain res r' where c: "cancel_unpaid_order now d o1 ''timeout'' r = (res, r')"
    by (cases "cancel_unpaid_order now d o1 ''timeout'' r")
  show ?thesis
    using inv f(1) c
  proof (cases rule: cancel_cases)
    case (canceled d1)
    let ?d = "set_order (co_id o1) (canceled_order now ''timeout'') d1"
    have c': "cancel_unpaid_order now d o1 ''timeout'' r = (Inr (True, ?d), r')" using c canceled(4) by simp
    have step: "shop_step (d, r) (?d, r')" by (rule step_cancel [OF f(1) c'])
    have "orders ?d = update_by co_id (co_id o1) (timed_out now) (orders d)"
      using canceled(3) by (simp add: released_def set_order_def timed_out_def [abs_def])
    then show ?thesis
      using c' step shop_step_inv [OF inv step] job_finishes [OF f(2) w, of r]
      by (simp add: finish_cancel_def canceled_now_def)
  qed (use unpaid o1(2) in simp)
qed

text \<open>
  C11 The delayed job ends its order. In every state the shop can reach, the job of a pending
  order (one that is not paid through WeChat, or that the provider lets go) cancels it with
  the reason of the timeout, leaves every other order as it is, and gives back all the stock
  it held, to the products and to their counters. Running it again changes nothing.
\<close>

theorem timeout_job_cancels:
  assumes "shop_init s0" and "runs shop_step s0 (d, r)"
    and o1: "o1 \<in> set (orders d)" "co_status o1 = OrdPending" and w: "lets_go pv w nonce nonce2 now o1"
  shows "\<exists>d' r'. cancel_unpaid_order_by_no pv w nonce nonce2 now d (co_order_no o1) r = (Inr (canceled_now, d'), r') \<and>
    orders d' = map (\<lambda>x. if co_id x = co_id o1 then canceled_order now ''timeout'' x else x) (orders d) \<and>
    list_all (\<lambda>i. oi_order_id i \<noteq> co_id o1 \<or> \<not> oi_stock_deducted i) (items d') \<and>
    (\<forall>j s. stock_of d j = Some s \<and> 0 \<le> s \<longrightarrow>
       (\<exists>s'. stock_of d' j = Some s' \<and> s' + reserved d' j = s + reserved d j \<and>
          (stock_at r' j = None \<or> stock_at r' j = Some s'))) \<and>
    (lets_go pv w nonce nonce2 now' (timed_out now o1) \<longrightarrow>
     cancel_unpaid_order_by_no pv w nonce nonce2 now' d' (co_order_no o1) r' = (Inr (canceled_before, d'), r'))"
proof -
  have inv: "shop_inv (d, r)" using shop.reachable_inv [OF assms(1,2)] .
  obtain d' r' where c: "cancel_unpaid_order_by_no pv w nonce nonce2 now d (co_order_no o1) r = (Inr (canceled_now, d'), r')"
      "shop_step (d, r) (d', r')" "shop_inv (d', r')"
      and os: "orders d' = update_by co_id (co_id o1) (timed_out now) (orders d)"
    using cancel_pending_by_no [OF inv o1 w] by blast
  have o2: "orders d' = map (\<lambda>x. if co_id x = co_id o1 then canceled_order now ''timeout'' x else x) (orders d)"
    by (simp add: os update_by_def timed_out_def [abs_def])
  have gone: "timed_out now o1 \<in> set (orders d')"
    unfolding o2 using o1(1) by (force simp: timed_out_def)
  have "oi_order_id i \<noteq> co_id o1 \<or> \<not> oi_stock_deducted i" if "i \<in> set (items d')" for i
  proof -
    have "item_linked (orders d') i" "distinct (map co_id (orders d'))"
      using c(3) that by (simp_all add: shop_inv_def shop_ok_def)
    then show ?thesis
      using gone find_by_distinct [of co_id "orders d'"] unfolding item_linked_def
      by (metis option.inject timed_out_fields(1,2))
  qed
  then have held: "list_all (\<lambda>i. oi_order_id i \<noteq> co_id o1 \<or> \<not> oi_stock_deducted i) (items d')"
    by (simp add: list_all_iff)
  have "\<exists>s'. stock_of d' j = Some s' \<and> s' + reserved d' j = s + reserved d j \<and>
      (stock_at r' j = None \<or> stock_at r' j = Some s')" if st: "stock_of d j = Some s" "0 \<le> s" for j s
  proof -
    obtain s' where s': "stock_of d' j = Some s'" "0 \<le> s'" "s' + reserved d' j = s + reserved d j"
      using shop_step_stock [OF c(2) inv st] by blast
    moreover have "synced d' r'" using c(3) by (simp add: shop_inv_def)
    ultimately show ?thesis using syncedD(2) [of d' r' j s'] by (metis option.exhaust)
  qed
  then have stock: "\<forall>j s. stock_of d j = Some s \<and> 0 \<le> s \<longrightarrow>
       (\<exists>s'. stock_of d' j = Some s' \<and> s' + reserved d' j = s + reserved d j \<and>
          (stock_at r' j = None \<or> stock_at r' j = Some s'))" by blast
  have again: "cancel_unpaid_order_by_no pv w nonce nonce2 now' d' (co_order_no o1) r' = (Inr (canceled_before, d'), r')"
    if go: "lets_go pv w nonce nonce2 now' (timed_out now o1)"
  proof -
    have "get_order_by_no d' (co_order_no (timed_out now o1)) = Some (timed_out now o1)"
      using c(3) gone unfolding shop_inv_def shop_ok_def get_order_by_no_def by (intro find_by_distinct) simp_all
    from job_finishes [OF this go, of r'] show ?thesis
      by (simp add: finish_cancel_def cancel_unpaid_order_def canceled_before_def)
  qed
  show ?thesis
    by (intro exI conjI, rule c(1), rule o2, rule held, rule stock) (use again in blast)
qed

lemma unconfigured: "\<not> is_wechat_pay_configured (w\<lparr>wx_app_id := []\<rparr>)"
  by (simp add: is_wechat_pay_configured_def)

theorem timeout_job_cancels_witness:
  "\<forall>(pv :: unit provider) w. \<exists>d' r' s'. cancel_unpaid_order_by_no pv (w\<lparr>wx_app_id := []\<rparr>) [] [] (seconds 2000) bought_db ''XO0'' bought_redis =
      (Inr (canceled_now, d'), r') \<and> stock_of d' 1 = Some s' \<and> s' + reserved d' 1 = 5 \<and>
      cancel_unpaid_order_by_no pv (w\<lparr>wx_app_id := []\<rparr>) [] [] (seconds 2001) d' ''XO0'' r' = (Inr (canceled_before, d'), r')"
proof (intro allI)
  fix pv :: "unit provider" and w :: wx_settings
  let ?w = "w\<lparr>wx_app_id := []\<rparr>"
  have "map_option co_status (get_order_by_no bought_db ''XO0'') = Some OrdPending" by code_simp
  then obtain o1 where o1: "get_order_by_no bought_db ''XO0'' = Some o1" "co_status o1 = OrdPending" by auto
  have mem: "o1 \<in> set (orders bought_db)" "co_order_no o1 = ''XO0''"
    using o1(1) find_by_SomeD [of co_order_no "''XO0''" "orders bought_db" o1] by (simp_all add: get_order_by_no_def)
  have s: "stock_of bought_db 1 = Some 3" "reserved bought_db 1 = 2" by code_simp+
  have go: "lets_go pv ?w [] [] t x" for t x using unconfigured by (simp add: lets_go_def)
  from timeout_job_cancels [OF shop_sample_init bought_run mem(1) o1(2), where pv = pv and w = ?w and nonce = "[]" and ?nonce2.0 = "[]" and
      now = "seconds 2000" and now' = "seconds 2001", OF go]
  obtain d' r' where c: "cancel_unpaid_order_by_no pv ?w [] [] (seconds 2000) bought_db (co_order_no o1) bought_redis =
      (Inr (canceled_now, d'), r')"
    and st: "\<forall>j s. stock_of bought_db j = Some s \<and> 0 \<le> s \<longrightarrow>
       (\<exists>s'. stock_of d' j = Some s' \<and> s' + reserved d' j = s + reserved bought_db j \<and>
          (stock_at r' j = None \<or> stock_at r' j = Some s'))"
    and again: "lets_go pv ?w [] [] (seconds 2001) (timed_out (seconds 2000) o1) \<longrightarrow>
      cancel_unpaid_order_by_no pv ?w [] [] (seconds 2001) d' (co_order_no o1) r' = (Inr (canceled_before, d'), r')"
    by blast
  obtain s' where "stock_of d' 1 = Some s'" "s' + reserved d' 1 = 5" using st [rule_format, of 1 3] s by auto
  then show "\<exists>d' r' s'. cancel_unpaid_order_by_no pv ?w [] [] (seconds 2000) bought_db ''XO0'' bought_redis =
      (Inr (canceled_now, d'), r') \<and> stock_of d' 1 = Some s' \<and> s' + reserved d' 1 = 5 \<and>
      cancel_unpaid_order_by_no pv ?w [] [] (seconds 2001) d' ''XO0'' r' = (Inr (canceled_before, d'), r')"
    using c again go mem(2) by auto
qed

lemma sweep_orders_cancels:
  assumes "shop_inv (d, r)" and "set os \<subseteq> set (orders d)" and "\<forall>o1\<in>set os. co_status o1 = OrdPending"
    and "distinct (map co_id os)" and w: "\<not> is_wechat_pay_configured w"
  shows "\<exists>d' r'. sweep_orders (cancel_unpaid_order_by_no pv w nonce nonce2 now) os d r =
      (Some (map co_order_no os), d', r') \<and> shop_inv (d', r') \<and>
    orders d' = map (\<lambda>x. if co_id x \<in> co_id ` set os then timed_out now x else x) (orders d)"
  using assms(1-4)
proof (induction os arbitrary: d r)
  case Nil
  then show ?case by simp
next
  case (Cons o1 os)
  have go: "lets_go pv w nonce nonce2 now o1" using w by (simp add: lets_go_def)
  obtain d1 r1 where c: "cancel_unpaid_order_by_no pv w nonce nonce2 now d (co_order_no o1) r =
      (Inr (canceled_now, d1), r1)" "shop_inv (d1, r1)"
      and os1: "orders d1 = update_by co_id (co_id o1) (timed_out now) (orders d)"
    using cancel_pending_by_no [OF Cons.prems(1) _ _ go] Cons.prems(2,3) by auto
  have "set os \<subseteq> set (orders d1)"
    using Cons.prems(2,4) by (fastforce simp: os1 set_update_by image_iff)
  then obtain d2 r2 where s: "sweep_orders (cancel_unpaid_order_by_no pv w nonce nonce2 now) os d1 r1 =
      (Some (map co_order_no os), d2, r2)" "shop_inv (d2, r2)"
      "orders d2 = map (\<lambda>x. if co_id x \<in> co_id ` set os then timed_out now x else x) (orders d1)"
    using Cons.IH [OF c(2)] Cons.prems(3,4) by auto
  have "orders d2 = map (\<lambda>x. if co_id x \<in> co_id ` set (o1 # os) then timed_out now x else x) (orders d)"
    using Cons.prems(4) by (auto simp: s(3) os1 update_by_def)
  then show ?case using c s(1,2) by (simp add: canceled_now_def)
qed

text \<open>
  The sweep on its own terms: on a shop whose orders are flagged by hand, payment through
  WeChat not being configured, it cancels every flagged pending order whose time is over,
  reports exactly those and leaves none behind.
\<close>

theorem sweep_cancels_overdue:
  assumes "shop_init s0" and "runs shop_step s0 (d0, r)" and "d = lost_timers nos d0"
    and "\<not> is_wechat_pay_configured w"
  shows "\<exists>d' r'. sweep_unscheduled_timeouts pv w nonce nonce2 now minutes d r =
      ((length (unscheduled_orders now minutes d), map co_order_no (unscheduled_orders now minutes d)), d', r') \<and>
    unscheduled_orders now minutes d' = [] \<and>
    orders d' = map (\<lambda>x. if x \<in> set (unscheduled_orders now minutes d) then timed_out now x else x) (orders d) \<and>
    shop_inv (d', r')"
proof -
  let ?os = "unscheduled_orders now minutes d"
  have inv: "shop_inv (d, r)"
    using shop.reachable_inv [OF assms(1,2)] assms(3) by (simp add: lost_timers_inv)
  then have ids: "distinct (map co_id (orders d))" by (simp add: shop_inv_def shop_ok_def)
  have os: "set ?os \<subseteq> set (orders d)" "\<forall>o1\<in>set ?os. co_status o1 = OrdPending" "distinct (map co_id ?os)"
    using ids by (auto simp: unscheduled_orders_def distinct_map_filter)
  obtain d' r' where s: "sweep_orders (cancel_unpaid_order_by_no pv w nonce nonce2 now) ?os d r =
      (Some (map co_order_no ?os), d', r')" "shop_inv (d', r')"
      "orders d' = map (\<lambda>x. if co_id x \<in> co_id ` set ?os then timed_out now x else x) (orders d)"
    using sweep_orders_cancels [OF inv os assms(4)] by blast
  have swept: "co_id x \<in> co_id ` set ?os \<longleftrightarrow> x \<in> set ?os" if "x \<in> set (orders d)" for x
    using ids os(1) that by (auto simp: distinct_map inj_on_def)
  have o2: "orders d' = map (\<lambda>x. if x \<in> set ?os then timed_out now x else x) (orders d)"
    using swept by (simp add: s(3))
  have "unscheduled_orders now minutes d' = []"
    unfolding unscheduled_orders_def [of _ _ d'] o2
    by (auto simp: filter_empty_conv unscheduled_orders_def)
  then show ?thesis
    using s(1,2) o2 by (simp add: sweep_unscheduled_timeouts_def Let_def)
qed


definition overdue_db :: db where "overdue_db = lost_timers [''XO0''] bought_db"

theorem sweep_cancels_overdue_witness:
  "\<forall>(pv :: unit provider) w. \<exists>d' r'. sweep_unscheduled_timeouts pv (w\<lparr>wx_app_id := []\<rparr>) [] [] (seconds 2000) 30 overdue_db bought_redis =
      ((1, [''XO0'']), d', r') \<and> unscheduled_orders (seconds 2000) 30 d' = []"
proof (intro allI)
  fix pv :: "unit provider" and w :: wx_settings
  have w: "\<not> is_wechat_pay_configured (w\<lparr>wx_app_id := []\<rparr>)"
    by (simp add: is_wechat_pay_configured_def)
  have u: "map co_order_no (unscheduled_orders (seconds 2000) 30 overdue_db) = [''XO0'']"
    by code_simp
  then have n: "length (unscheduled_orders (seconds 2000) 30 overdue_db) = 1"
    using length_map [of co_order_no "unscheduled_orders (seconds 2000) 30 overdue_db"] unfolding u by simp
  from sweep_cancels_overdue [OF shop_sample_init bought_run overdue_db_def w, of pv "[]" "[]" "seconds 2000" 30]
  obtain d' r' where "sweep_unscheduled_timeouts pv (w\<lparr>wx_app_id := []\<rparr>) [] [] (seconds 2000) 30 overdue_db
      bought_redis = ((1, [''XO0'']), d', r')" "unscheduled_orders (seconds 2000) 30 d' = []"
    unfolding u n by blast
  then show "\<exists>d' r'. sweep_unscheduled_timeouts pv (w\<lparr>wx_app_id := []\<rparr>) [] [] (seconds 2000) 30 overdue_db
      bought_redis = ((1, [''XO0'']), d', r') \<and> unscheduled_orders (seconds 2000) 30 d' = []" by blast
qed

end
