(* ===== verification/Py_Date.thy ===== *)
theory Py_Date
  imports Py_Text
begin

text \<open>
  The calendar of Python's \<open>datetime\<close> as the code uses it: dates with their proleptic
  Gregorian ordinals, \<open>strptime\<close> for the two date patterns, \<open>fromisoformat\<close> and
  \<open>isoformat\<close>, and the passage between a date and the microsecond count of a \<open>datetime\<close>,
  which starts at 1970-01-01. The lemmas show that ordinals and ISO texts lose nothing.
\<close>

section \<open>Ordinals\<close>

datatype date = Date int int int

definition is_leap :: "int \<Rightarrow> bool" where
  "is_leap y \<longleftrightarrow> y mod 4 = 0 \<and> (y mod 100 \<noteq> 0 \<or> y mod 400 = 0)"

definition days_in_month :: "int \<Rightarrow> int \<Rightarrow> int" where
  "days_in_month y m =
    (if m = 2 then (if is_leap y then 29 else 28)
     else if m = 4 \<or> m = 6 \<or> m = 9 \<or> m = 11 then 30 else 31)"

definition days_before_year :: "int \<Rightarrow> int" where
  "days_before_year y = (let p = y - 1 in p * 365 + p div 4 - p div 100 + p div 400)"

definition days_before_month :: "int \<Rightarrow> int \<Rightarrow> int" where
  "days_before_month y m =
    (if m = 1 then 0
     else if m = 2 then 31
     else [59, 90, 120, 151, 181, 212, 243, 273, 304, 334] ! nat (m - 3) + (if is_leap y then 1 else 0))"

fun valid_date :: "date \<Rightarrow> bool" where
  "valid_date (Date y m d) \<longleftrightarrow> 1 \<le> y \<and> y \<le> 9999 \<and> 1 \<le> m \<and> m \<le> 12 \<and> 1 \<le> d \<and> d \<le> days_in_month y m"

fun ordinal :: "date \<Rightarrow> int" where
  "ordinal (Date y m d) = days_before_year y + days_before_month y m + d"

text \<open>\<open>date.fromordinal\<close>: the year by search from below, then the month.\<close>

function year_from :: "int \<Rightarrow> int \<Rightarrow> int" where
  "year_from y n = (if n \<le> days_before_year (y + 1) \<or> n \<le> y then y else year_from (y + 1) n)"
  by auto
termination by (relation "measure (\<lambda>(y, n). nat (n - y))") auto

declare year_from.simps [simp del]

definition months :: "int list" where
  "months = [1, 2, 3, 4, 5, 6, 7, 8, 9, 10, 11, 12]"

definition month_of :: "int \<Rightarrow> int \<Rightarrow> int" where
  "month_of y r =
    (case List.find (\<lambda>m. r \<le> days_before_month y m + days_in_month y m) months of Some m \<Rightarrow> m | None \<Rightarrow> 12)"

definition date_of_ordinal :: "int \<Rightarrow> date" where
  "date_of_ordinal n =
    (let y = year_from (max 1 (n div 366)) n;
         r = n - days_before_year y;
         m = month_of y r
     in Date y m (r - days_before_month y m))"

definition max_ordinal :: int where
  "max_ordinal = 3652059"

lemma days_before_next_year:
  "days_before_year (y + 1) = days_before_year y + (if is_leap y then 366 else 365)"
proof -
  have step: "y div k - (y - 1) div k = (if y mod k = 0 then 1 else 0)" if "0 < k" for k :: int
  proof -
    have eq: "y = k * (y div k) + y mod k" by simp
    show ?thesis
    proof (cases "y mod k = 0")
      case True
      then have "y - 1 = k * (y div k - 1) + (k - 1)" using eq by (simp add: algebra_simps)
      then have "(y - 1) div k = y div k - 1" by (rule int_div_pos_eq) (use that in auto)
      then show ?thesis using True by simp
    next
      case False
      have r: "0 \<le> y mod k - 1" "y mod k - 1 < k"
        using False that pos_mod_sign [of k y] pos_mod_bound [of k y] by linarith+
      have "y - 1 = k * (y div k) + (y mod k - 1)" using eq by linarith
      then have "(y - 1) div k = y div k" by (rule int_div_pos_eq) (rule r)+
      then show ?thesis using False by simp
    qed
  qed
  have "y mod 400 = 0 \<Longrightarrow> y mod 100 = 0"
    unfolding dvd_eq_mod_eq_0 [symmetric] by (rule dvd_trans [of _ 400]) simp_all
  moreover have "y mod 100 = 0 \<Longrightarrow> y mod 4 = 0"
    unfolding dvd_eq_mod_eq_0 [symmetric] by (rule dvd_trans [of _ 100]) simp_all
  ultimately have "y div 4 - (y - 1) div 4 - (y div 100 - (y - 1) div 100) + (y div 400 - (y - 1) div 400)
      = (if is_leap y then 1 else 0)"
    unfolding is_leap_def
    by (cases "y mod 4 = 0"; cases "y mod 100 = 0"; cases "y mod 400 = 0") (simp_all add: step)
  then show ?thesis by (simp add: days_before_year_def Let_def split: if_splits)
qed

lemma days_before_year_mono: "a \<le> b \<Longrightarrow> days_before_year a \<le> days_before_year b"
proof (induction b rule: int_ge_induct)
  case (step i)
  then show ?case using days_before_next_year [of i] by (simp split: if_splits)
qed simp

lemma days_before_year_ge: "0 \<le> p \<Longrightarrow> p * 365 \<le> days_before_year (p + 1) \<and> days_before_year (p + 1) \<le> p * 366"
proof (induction p rule: int_ge_induct)
  case base
  then show ?case by (simp add: days_before_year_def)
next
  case (step i)
  then show ?case using days_before_next_year [of "i + 1"] by (auto split: if_splits)
qed

lemma year_from_bounds:
  assumes "days_before_year y < n" and "1 \<le> y"
  shows "y \<le> year_from y n \<and> days_before_year (year_from y n) < n \<and> n \<le> days_before_year (year_from y n + 1)"
  using assms
proof (induction y n rule: year_from.induct)
  case (1 y n)
  show ?case
  proof (cases "n \<le> days_before_year (y + 1)")
    case True
    then show ?thesis using 1 by (simp add: year_from.simps [of y n])
  next
    case False
    have "y * 365 \<le> days_before_year (y + 1)" using days_before_year_ge [of y] 1(3) by simp
    then have "\<not> n \<le> y" using False 1(3) by linarith
    then have "year_from y n = year_from (y + 1) n" using False by (subst year_from.simps) simp
    moreover have "y + 1 \<le> year_from (y + 1) n \<and> days_before_year (year_from (y + 1) n) < n \<and>
        n \<le> days_before_year (year_from (y + 1) n + 1)"
      using 1(1) False \<open>\<not> n \<le> y\<close> 1(3) by simp
    ultimately show ?thesis by (intro conjI) simp_all
  qed
qed

lemma month_of_bounds:
  assumes "1 \<le> r" and "r \<le> (if is_leap y then 366 else 365)"
  shows "1 \<le> month_of y r \<and> month_of y r \<le> 12 \<and> days_before_month y (month_of y r) < r \<and>
    r \<le> days_before_month y (month_of y r) + days_in_month y (month_of y r)"
  using assms
  by (cases "is_leap y") (auto simp: month_of_def months_def days_before_month_def days_in_month_def)

lemma ordinal_of_date:
  assumes "1 \<le> n" and "n \<le> max_ordinal"
  shows "valid_date (date_of_ordinal n) \<and> ordinal (date_of_ordinal n) = n"
proof -
  let ?y = "year_from (max 1 (n div 366)) n"
  have "days_before_year (max 1 (n div 366)) < n"
  proof (cases "n div 366 \<le> 1")
    case True
    then show ?thesis using assms(1) by (simp add: days_before_year_def max_def)
  next
    case False
    then have "days_before_year (n div 366) \<le> (n div 366 - 1) * 366"
      using days_before_year_ge [of "n div 366 - 1"] by simp
    then show ?thesis using False by (simp add: max_def)
  qed
  then have y: "1 \<le> ?y" "days_before_year ?y < n" "n \<le> days_before_year (?y + 1)"
    using year_from_bounds [of "max 1 (n div 366)" n] by linarith+
  have "?y \<le> 9999"
  proof (rule ccontr)
    assume "\<not> ?y \<le> 9999"
    then have "10000 \<le> ?y" by simp
    then have "days_before_year 10000 \<le> days_before_year ?y" by (rule days_before_year_mono)
    then show False using y(2) assms(2) by (simp add: days_before_year_def max_ordinal_def)
  qed
  moreover have "1 \<le> n - days_before_year ?y"
      "n - days_before_year ?y \<le> (if is_leap ?y then 366 else 365)"
    using y days_before_next_year [of ?y] by linarith+
  note month_of_bounds [OF this]
  ultimately show ?thesis using y(1) by (simp add: date_of_ordinal_def Let_def)
qed

section \<open>Texts\<close>

definition two :: "int \<Rightarrow> string" where
  "two n = [digit (nat (n div 10 mod 10)), digit (nat (n mod 10))]"

fun iso_date :: "date \<Rightarrow> string" where
  "iso_date (Date y m d) = two (y div 100) @ two (y mod 100) @ ''-'' @ two m @ ''-'' @ two d"

definition two_val :: "char \<Rightarrow> char \<Rightarrow> int option" where
  "two_val a b = (case (digit_val a, digit_val b) of
      (Some x, Some y) \<Rightarrow> Some (int (10 * x + y)) | _ \<Rightarrow> None)"

definition checked_date :: "int option \<Rightarrow> int option \<Rightarrow> int option \<Rightarrow> int option \<Rightarrow> date option" where
  "checked_date y1 y2 m d = (case (y1, y2, m, d) of
      (Some y1, Some y2, Some m, Some d) \<Rightarrow>
        (let r = Date (100 * y1 + y2) m d in if valid_date r then Some r else None)
    | _ \<Rightarrow> None)"

text \<open>
  \<open>date.fromisoformat\<close> on the form \<open>YYYY-MM-DD\<close>. The compact and the week forms that
  it also accepts have no separator after the year or a letter, which the patterns
  of \<open>validate_travel_date\<close> exclude before the call.
\<close>

fun from_iso :: "string \<Rightarrow> date option" where
  "from_iso [y1, y2, y3, y4, s1, m1, m2, s2, d1, d2] =
    (if s1 = CHR ''-'' \<and> s2 = CHR ''-''
     then checked_date (two_val y1 y2) (two_val y3 y4) (two_val m1 m2) (two_val d1 d2) else None)"
| "from_iso _ = None"

text \<open>
  \<open>datetime.strptime(s, "%Y-%m-%d")\<close>, the separator being an argument: four digits of year,
  the month in one or two digits, the day in one or two digits or a blank and a digit.
\<close>

fun month_token :: "string \<Rightarrow> int option" where
  "month_token [a] = two_val (CHR ''0'') a"
| "month_token [a, b] = two_val a b"
| "month_token _ = None"

fun day_token :: "string \<Rightarrow> int option" where
  "day_token [a] = two_val (CHR ''0'') a"
| "day_token [a, b] = two_val (if a = CHR '' '' then CHR ''0'' else a) b"
| "day_token _ = None"

fun strptime_date :: "char \<Rightarrow> string \<Rightarrow> date option" where
  "strptime_date sep (y1 # y2 # y3 # y4 # s1 # rest) =
    (if s1 = sep then
       (let month = takeWhile (\<lambda>c. c \<noteq> sep) rest; after = dropWhile (\<lambda>c. c \<noteq> sep) rest in
        case after of
          [] \<Rightarrow> None
        | _ # day \<Rightarrow> checked_date (two_val y1 y2) (two_val y3 y4) (month_token month) (day_token day))
     else None)"
| "strptime_date sep _ = None"

lemma two_val_digits:
  assumes "0 \<le> n" and "n < 100"
  shows "two_val (digit (nat (n div 10 mod 10))) (digit (nat (n mod 10))) = Some n"
proof -
  have "nat (n div 10 mod 10) < 10" "nat (n mod 10) < 10" by linarith+
  then have "two_val (digit (nat (n div 10 mod 10))) (digit (nat (n mod 10))) =
      Some (10 * (n div 10 mod 10) + n mod 10)"
    by (simp add: two_val_def)
  also have "\<dots> = Some n" using assms by simp
  finally show ?thesis .
qed

lemma from_iso_date:
  assumes "valid_date r"
  shows "from_iso (iso_date r) = Some r"
proof (cases r)
  case (Date y m d)
  have b: "1 \<le> y" "y \<le> 9999" "1 \<le> m" "m \<le> 12" "1 \<le> d" "d \<le> 31"
    using assms Date by (auto simp: days_in_month_def split: if_splits)
  have *: "two_val (two n ! 0) (two n ! 1) = Some n" "two n = [two n ! 0, two n ! 1]"
    if "0 \<le> n" "n < 100" for n
    using two_val_digits [OF that] by (simp_all add: two_def)
  have split: "from_iso (p @ q @ ''-'' @ m @ ''-'' @ d) =
      checked_date (two_val (p ! 0) (p ! 1)) (two_val (q ! 0) (q ! 1)) (two_val (m ! 0) (m ! 1)) (two_val (d ! 0) (d ! 1))"
    if "length p = 2" "length q = 2" "length m = 2" "length d = 2" for p q m d
    using that by (auto simp: numeral_2_eq_2 length_Suc_conv)
  have len: "length (two n) = 2" for n by (simp add: two_def)
  have "from_iso (iso_date r) = checked_date (Some (y div 100)) (Some (y mod 100)) (Some m) (Some d)"
    unfolding Date iso_date.simps by (subst split) (use b in \<open>simp_all add: len *(1) del: One_nat_def\<close>)
  then show ?thesis
    using assms by (simp add: Date checked_date_def Let_def del: valid_date.simps)
qed

section \<open>Instants\<close>

definition epoch :: int where
  "epoch = 719163"

text \<open>\<open>datetime(y, m, d)\<close>, the day of an instant, and the largest representable instant.\<close>

definition midnight :: "date \<Rightarrow> time" where
  "midnight r = days (ordinal r - epoch)"

definition date_of :: "time \<Rightarrow> date" where
  "date_of t = date_of_ordinal (t div days 1 + epoch)"

definition last_instant :: time where
  "last_instant = days (max_ordinal + 1 - epoch) - 1"

text \<open>\<open>date + timedelta(days=n)\<close>, an \<open>OverflowError\<close> past the year 9999.\<close>

definition add_days :: "date \<Rightarrow> int \<Rightarrow> date result" where
  "add_days r n =
    (if 1 \<le> ordinal r + n \<and> ordinal r + n \<le> max_ordinal then Inr (date_of_ordinal (ordinal r + n))
     else Inl (RuntimeError ''OverflowError''))"

definition six :: "int \<Rightarrow> string" where
  "six n = two (n div 10000) @ two (n div 100) @ two n"

text \<open>\<open>datetime.isoformat()\<close>.\<close>

definition iso_time :: "time \<Rightarrow> string" where
  "iso_time t =
    (let us = t mod days 1; s = us div 1000000
     in iso_date (date_of t) @ ''T'' @ two (s div 3600) @ '':'' @ two (s div 60 mod 60) @ '':'' @ two (s mod 60)
        @ (if us mod 1000000 = 0 then [] else ''.'' @ six (us mod 1000000)))"

end
