(* ===== verification/Sha256.thy ===== *)
theory Sha256
  imports Prelude "HOL-Library.Word"
begin

unbundle bit_operations_syntax

text \<open>
  \<open>hashlib.sha256\<close> and \<open>hmac.new(key, msg, hashlib.sha256)\<close> as functions on bytes, with the
  hexadecimal digests and the UTF-8 encoding of the texts they are applied to. Characters
  are the code points below 256; those from 128 take two bytes.
\<close>

type_synonym bytes = "nat list"

definition utf8_char :: "char \<Rightarrow> bytes" where
  "utf8_char c = (let n = of_char c in if n < 128 then [n] else [192 + n div 64, 128 + n mod 64])"

definition utf8 :: "string \<Rightarrow> bytes" where
  "utf8 s = concat (map utf8_char s)"

section \<open>SHA-256\<close>

text \<open>
  The constants of the algorithm are 32 bits of the fractional parts of the cube and the
  square roots of the first primes; \<open>root_bits k b n r\<close> is the \<open>k\<close>-th root of \<open>n\<close> rounded
  down, found bit by bit from bit \<open>b\<close>.
\<close>

fun root_bits :: "nat \<Rightarrow> nat \<Rightarrow> nat \<Rightarrow> nat \<Rightarrow> nat" where
  "root_bits k 0 n r = r"
| "root_bits k (Suc b) n r = (let s = r + 2 ^ b in root_bits k b n (if s ^ k \<le> n then s else r))"

definition primes :: "nat \<Rightarrow> nat list" where
  "primes m = filter (\<lambda>n. 1 < n \<and> list_all (\<lambda>k. n mod k \<noteq> 0) [2 ..< n]) [0 ..< m]"

definition root_constants :: "nat \<Rightarrow> nat \<Rightarrow> 32 word list" where
  "root_constants k m = map (\<lambda>p. word_of_nat (root_bits k 38 (p * 2 ^ (32 * k)) 0)) (primes m)"

definition round_constants :: "32 word list" where
  "round_constants = root_constants 3 312"

record digest_state =
  ha :: "32 word"
  hb :: "32 word"
  hc :: "32 word"
  hd' :: "32 word"
  he :: "32 word"
  hf :: "32 word"
  hg :: "32 word"
  hh :: "32 word"

definition state_of :: "32 word list \<Rightarrow> digest_state" where
  "state_of ws = \<lparr>ha = ws ! 0, hb = ws ! 1, hc = ws ! 2, hd' = ws ! 3, he = ws ! 4, hf = ws ! 5, hg = ws ! 6, hh = ws ! 7\<rparr>"

definition start_state :: digest_state where
  "start_state = state_of (root_constants 2 20)"

definition rotr :: "nat \<Rightarrow> 32 word \<Rightarrow> 32 word" where
  "rotr n x = (drop_bit n x OR push_bit (32 - n) x)"

text \<open>The message schedule, newest word first, and one round.\<close>

definition next_word :: "32 word list \<Rightarrow> 32 word" where
  "next_word ws =
    (let a = ws ! 14; b = ws ! 1;
         s0 = rotr 7 a XOR rotr 18 a XOR drop_bit 3 a;
         s1 = rotr 17 b XOR rotr 19 b XOR drop_bit 10 b
     in ws ! 15 + s0 + ws ! 6 + s1)"

fun extend_words :: "nat \<Rightarrow> 32 word list \<Rightarrow> 32 word list" where
  "extend_words 0 ws = ws"
| "extend_words (Suc n) ws = extend_words n (next_word ws # ws)"

definition sha_round :: "32 word \<times> 32 word \<Rightarrow> digest_state \<Rightarrow> digest_state" where
  "sha_round kw s = (case kw of (k, w) \<Rightarrow>
    (let s1 = rotr 6 (he s) XOR rotr 11 (he s) XOR rotr 25 (he s);
         ch = (he s AND hf s) XOR ((NOT (he s)) AND hg s);
         t1 = hh s + s1 + ch + k + w;
         s0 = rotr 2 (ha s) XOR rotr 13 (ha s) XOR rotr 22 (ha s);
         mj = (ha s AND hb s) XOR (ha s AND hc s) XOR (hb s AND hc s)
     in \<lparr>ha = t1 + (s0 + mj), hb = ha s, hc = hb s, hd' = hc s,
         he = hd' s + t1, hf = he s, hg = hf s, hh = hg s\<rparr>))"

definition sha_block :: "32 word list \<Rightarrow> digest_state \<Rightarrow> digest_state" where
  "sha_block ws s =
    (let t = fold sha_round (zip round_constants (rev (extend_words 48 (rev ws)))) s
     in \<lparr>ha = ha s + ha t, hb = hb s + hb t, hc = hc s + hc t, hd' = hd' s + hd' t,
         he = he s + he t, hf = hf s + hf t, hg = hg s + hg t, hh = hh s + hh t\<rparr>)"

fun be_words :: "bytes \<Rightarrow> 32 word list" where
  "be_words (a # b # c # d # rest) =
     of_nat (((a * 256 + b) * 256 + c) * 256 + d) # be_words rest"
| "be_words _ = []"

definition sha_pad :: "bytes \<Rightarrow> bytes" where
  "sha_pad msg =
    (let n = length msg; bits = 8 * n
     in msg @ [128] @ replicate ((119 - n mod 64) mod 64) 0
        @ map (\<lambda>i. bits div 256 ^ i mod 256) [7, 6, 5, 4, 3, 2, 1, 0])"

fun sha_blocks :: "nat \<Rightarrow> 32 word list \<Rightarrow> digest_state \<Rightarrow> digest_state" where
  "sha_blocks 0 ws s = s"
| "sha_blocks (Suc n) ws s = sha_blocks n (drop 16 ws) (sha_block (take 16 ws) s)"

definition word_bytes :: "32 word \<Rightarrow> bytes" where
  "word_bytes w = (let n = unat w in [n div 16777216, n div 65536 mod 256, n div 256 mod 256, n mod 256])"

definition sha256 :: "bytes \<Rightarrow> bytes" where
  "sha256 msg =
    (let ws = be_words (sha_pad msg); s = sha_blocks (length ws div 16) ws start_state
     in concat (map word_bytes [ha s, hb s, hc s, hd' s, he s, hf s, hg s, hh s]))"

definition hex_digit :: "nat \<Rightarrow> char" where
  "hex_digit n = ''0123456789abcdef'' ! n"

definition hex :: "bytes \<Rightarrow> string" where
  "hex bs = concat (map (\<lambda>b. [hex_digit (b div 16), hex_digit (b mod 16)]) bs)"

text \<open>\<open>hashlib.sha256(text.encode("utf-8")).hexdigest()\<close>.\<close>

definition sha256_hex :: "string \<Rightarrow> string" where
  "sha256_hex s = hex (sha256 (utf8 s))"

section \<open>HMAC\<close>

definition hmac_sha256 :: "bytes \<Rightarrow> bytes \<Rightarrow> bytes" where
  "hmac_sha256 key msg =
    (let k0 = (if 64 < length key then sha256 key else key);
         k = k0 @ replicate (64 - length k0) 0;
         xor = (\<lambda>c b. unat ((of_nat b :: 8 word) XOR of_nat c))
     in sha256 (map (xor 0x5c) k @ sha256 (map (xor 0x36) k @ msg)))"

lemma length_sha256 [simp]: "length (sha256 msg) = 32"
  by (simp add: sha256_def word_bytes_def Let_def)

lemma length_hex [simp]: "length (hex bs) = 2 * length bs"
  by (induction bs) (simp_all add: hex_def)

lemma length_sha256_hex [simp]: "length (sha256_hex s) = 64"
  by (simp add: sha256_hex_def)

end
