(* ===== verification/Contract.thy ===== *)
theory Contract
  imports Settings Py_Date Sha256
begin

text \<open>
  \<open>app/core/contract_settings.py\<close>: the contract template of the settings table, its
  normalisation, and the numbered snapshots that signed contracts refer to. The default
  title and content are short ASCII stand-ins with the placeholders of the source.
  \<open>others\<close> is what other sessions commit between the computation of the next version and
  the insertion of a snapshot; a flush that meets the same version is an integrity error.
\<close>

definition contract_key :: string where "contract_key = ''travel.contract_template''"

definition default_travel_date_days :: int where "default_travel_date_days = 30"

definition max_travel_date_days :: int where "max_travel_date_days = 36500"

definition default_contract_title :: string where "default_contract_title = ''travel service contract''"

definition default_contract_content :: string where
  "default_contract_content = ''{signer_name} {signer_phone} {id_no} {agency} {order_no} {title} {travel_date} {amount_text}''"

record contract_template =
  ct_title :: string
  ct_content :: string
  ct_travel_date_days :: int
  ct_travel_date_value :: int
  ct_travel_date_unit :: string
  ct_travel_date_start :: string
  ct_travel_date_end :: string
  ct_travel_date_options :: "string list"

text \<open>\<open>date.today() + timedelta(days=offset)\<close> for the offsets of the list.\<close>

fun date_options :: "date \<Rightarrow> int list \<Rightarrow> string list result" where
  "date_options today [] = Inr []"
| "date_options today (k # ks) =
     (case add_days today k of
        Inl e \<Rightarrow> Inl e
      | Inr r \<Rightarrow> map_sum id (Cons (iso_date r)) (date_options today ks))"

definition build_travel_date_options :: "time \<Rightarrow> int \<Rightarrow> string list result" where
  "build_travel_date_options now n =
    (let k = clamp 0 max_travel_date_days (int_or n default_travel_date_days)
     in date_options (date_of now) (map int [0 ..< nat (min k 31 + 1)]))"

text \<open>The window of travel dates: days, value and unit.\<close>

definition travel_window :: "(string \<times> json) list \<Rightarrow> int \<times> int \<times> string" where
  "travel_window kvs =
    (let unit = to_lower (strip (str_json (json_or (jget (JObj kvs) ''travel_date_unit'') (JStr []))));
         raw_value = (case json_int (jget (JObj kvs) ''travel_date_value'') of Some n \<Rightarrow> n | None \<Rightarrow> 0)
     in if unit \<in> {''day'', ''year''} \<and> 0 < raw_value then
          (let n = clamp 1 (if unit = ''year'' then 100 else max_travel_date_days) raw_value
           in (if unit = ''year'' then n * 365 else n, n, unit))
        else
          (let d1 = (case json_int (jget_or kvs ''travel_date_days'' (JInt default_travel_date_days)) of
                  Some n \<Rightarrow> n | None \<Rightarrow> default_travel_date_days);
               d2 = (case jget (JObj kvs) ''travel_date_options'' of
                  JList xs \<Rightarrow> if d1 = 0 then max (int (length xs) - 1) default_travel_date_days else d1
                | _ \<Rightarrow> d1);
               n = clamp 1 max_travel_date_days d2
           in if 365 \<le> n \<and> n mod 365 = 0 then (n, n div 365, ''year'') else (n, n, ''day'')))"

definition normalize_contract_template :: "time \<Rightarrow> json \<Rightarrow> contract_template result" where
  "normalize_contract_template now value =
    (let kvs = (case value of JObj kvs \<Rightarrow> kvs | _ \<Rightarrow> []);
         title = str_or (take 120 (strip (str_json (json_or (jget (JObj kvs) ''title'') (JStr default_contract_title)))))
                   default_contract_title;
         content = str_or (strip (str_json (json_or (jget (JObj kvs) ''content'') (JStr default_contract_content))))
                   default_contract_content
     in case travel_window kvs of (n, v, unit) \<Rightarrow>
          (case (add_days (date_of now) n, build_travel_date_options now n) of
             (Inl e, _) \<Rightarrow> Inl e
           | (Inr end_date, Inl e) \<Rightarrow> Inl e
           | (Inr end_date, Inr opts) \<Rightarrow>
               Inr \<lparr>ct_title = title, ct_content = content, ct_travel_date_days = n,
                    ct_travel_date_value = v, ct_travel_date_unit = unit,
                    ct_travel_date_start = iso_date (date_of now), ct_travel_date_end = iso_date end_date,
                    ct_travel_date_options = opts\<rparr>))"

definition template_hash :: "contract_template \<Rightarrow> string" where
  "template_hash t =
    sha256_hex (ct_title t @ [CHR 0x0A] @ ct_content t @ [CHR 0x0A] @ str_int (ct_travel_date_days t)
      @ [CHR 0x0A] @ str_or (ct_travel_date_unit t) ''day'' @ [CHR 0x0A] @ str_int (ct_travel_date_value t))"

text \<open>\<open>{**template, "version": ..., "snapshot_id": ...}\<close>: a template with its snapshot.\<close>

record snap_template = contract_template +
  st_version :: int
  st_snapshot_id :: int

definition with_snapshot_fields :: "contract_template \<Rightarrow> contract_snapshot option \<Rightarrow> snap_template" where
  "with_snapshot_fields t s = contract_template.extend t
    (snap_template.fields (case s of Some s \<Rightarrow> cs_version s | None \<Rightarrow> 0)
       (case s of Some s \<Rightarrow> cs_id s | None \<Rightarrow> 0))"

definition snap_template_json :: "snap_template \<Rightarrow> json" where
  "snap_template_json t = JObj
    [(''title'', JStr (ct_title t)), (''content'', JStr (ct_content t)),
     (''travel_date_days'', JInt (ct_travel_date_days t)), (''travel_date_value'', JInt (ct_travel_date_value t)),
     (''travel_date_unit'', JStr (ct_travel_date_unit t)), (''travel_date_start'', JStr (ct_travel_date_start t)),
     (''travel_date_end'', JStr (ct_travel_date_end t)),
     (''travel_date_options'', JList (map JStr (ct_travel_date_options t))),
     (''version'', JInt (st_version t)), (''snapshot_id'', JInt (st_snapshot_id t)),
     (''contract_template_version'', JInt (st_version t)),
     (''contract_template_snapshot_id'', JInt (st_snapshot_id t))]"

definition snapshot_to_template :: "time \<Rightarrow> contract_snapshot \<Rightarrow> snap_template result" where
  "snapshot_to_template now s =
    map_sum id (\<lambda>t. with_snapshot_fields t (Some s))
      (normalize_contract_template now (JObj
        [(''title'', JStr (cs_title s)), (''content'', JStr (cs_content s)),
         (''travel_date_days'', JInt (cs_travel_date_days s))]))"

section \<open>Snapshots\<close>

definition max_version :: "db \<Rightarrow> int" where
  "max_version d = fresh_id cs_version (snapshots d) - 1"

text \<open>\<open>order_by(version.desc())\<close>, first row.\<close>

definition latest_snapshot :: "db \<Rightarrow> contract_snapshot option" where
  "latest_snapshot d = (case rev (sort_key cs_version (snapshots d)) of [] \<Rightarrow> None | s # _ \<Rightarrow> Some s)"

definition new_snapshot :: "db \<Rightarrow> int \<Rightarrow> contract_template \<Rightarrow> string \<Rightarrow> contract_snapshot" where
  "new_snapshot d version t h =
    \<lparr>cs_id = fresh_id cs_id (snapshots d), cs_version = version, cs_title = ct_title t,
     cs_content = ct_content t, cs_travel_date_days = ct_travel_date_days t, cs_content_hash = h\<rparr>"

definition flush_snapshot :: "contract_snapshot \<Rightarrow> db \<Rightarrow> db result" where
  "flush_snapshot s d =
    (if cs_version s \<in> cs_version ` set (snapshots d) then Inl IntegrityError
     else Inr (d\<lparr>snapshots := snapshots d @ [s]\<rparr>))"

definition ensure_contract_template_snapshot ::
  "(db \<Rightarrow> db) \<Rightarrow> time \<Rightarrow> db \<Rightarrow> json \<Rightarrow> (contract_snapshot \<times> db) result" where
  "ensure_contract_template_snapshot others now d value =
    (case normalize_contract_template now value of
       Inl e \<Rightarrow> Inl e
     | Inr t \<Rightarrow>
         (let h = template_hash t;
              latest = latest_snapshot d;
              known = find_by cs_content_hash h (snapshots d)
          in case (latest, known) of
               (Some l, Some s) \<Rightarrow> Inr (if cs_content_hash l = h then l else s, d)
             | _ \<Rightarrow>
                 (let version = max_version d + 1;
                      d1 = others d;
                      s = new_snapshot d1 version t h
                  in case flush_snapshot s d1 of
                       Inr d2 \<Rightarrow> Inr (s, d2)
                     | Inl _ \<Rightarrow>
                         (case find_by cs_content_hash h (snapshots d1) of
                            Some s' \<Rightarrow> Inr (s', d1)
                          | None \<Rightarrow>
                              (let s2 = new_snapshot d1 (max_version d1 + 1) t h
                               in map_sum id (Pair s2) (flush_snapshot s2 d1))))))"

text \<open>
  \<open>int((value or {}).get(key) or 0)\<close>; a text that is not a number is a \<open>ValueError\<close> there.
\<close>

definition stored_number :: "json option \<Rightarrow> string \<Rightarrow> int result" where
  "stored_number v key =
    (case v of
       Some (JObj kvs) \<Rightarrow>
         (case json_int (json_or (jget (JObj kvs) key) (JInt 0)) of
            Some n \<Rightarrow> Inr n | None \<Rightarrow> Inl (ValueError ''int''))
     | _ \<Rightarrow> Inr 0)"

definition find_snapshot :: "db \<Rightarrow> int \<Rightarrow> int \<Rightarrow> contract_snapshot option" where
  "find_snapshot d snapshot_id version =
    (let by_id = (if snapshot_id \<noteq> 0 then find_by cs_id snapshot_id (snapshots d) else None)
     in if by_id = None \<and> version \<noteq> 0 then find_by cs_version version (snapshots d) else by_id)"

definition get_contract_template :: "(db \<Rightarrow> db) \<Rightarrow> time \<Rightarrow> db \<Rightarrow> (snap_template \<times> db) result" where
  "get_contract_template others now d =
    (let v = setting_value contract_key d in
     case normalize_contract_template now (case v of Some j \<Rightarrow> j | None \<Rightarrow> JNull) of
       Inl e \<Rightarrow> Inl e
     | Inr t \<Rightarrow>
         (case (stored_number v ''version'', stored_number v ''snapshot_id'') of
            (Inl e, _) \<Rightarrow> Inl e
          | (Inr version, Inl e) \<Rightarrow> Inl e
          | (Inr version, Inr snapshot_id) \<Rightarrow>
              (case find_snapshot d snapshot_id version of
                 Some s \<Rightarrow> Inr (with_snapshot_fields t (Some s), d)
               | None \<Rightarrow>
                   (case ensure_contract_template_snapshot others now d
                           (snap_template_json (with_snapshot_fields t None)) of
                      Inl e \<Rightarrow> Inl e
                    | Inr (s, d1) \<Rightarrow>
                        (let saved = with_snapshot_fields t (Some s)
                         in Inr (saved, save_setting contract_key (snap_template_json saved)
                              ''travel contract template'' d1))))))"

definition get_contract_template_snapshot :: "time \<Rightarrow> db \<Rightarrow> int \<Rightarrow> int \<Rightarrow> snap_template option result" where
  "get_contract_template_snapshot now d snapshot_id version =
    (case find_snapshot d snapshot_id version of
       None \<Rightarrow> Inr None
     | Some s \<Rightarrow> map_sum id Some (snapshot_to_template now s))"

definition save_contract_template :: "(db \<Rightarrow> db) \<Rightarrow> time \<Rightarrow> db \<Rightarrow> json \<Rightarrow> (snap_template \<times> db) result" where
  "save_contract_template others now d payload =
    (case normalize_contract_template now payload of
       Inl e \<Rightarrow> Inl e
     | Inr t \<Rightarrow>
         (case ensure_contract_template_snapshot others now d
                 (snap_template_json (with_snapshot_fields t None)) of
            Inl e \<Rightarrow> Inl e
          | Inr (s, d1) \<Rightarrow>
              (let saved = with_snapshot_fields t (Some s)
               in Inr (saved, save_setting contract_key (snap_template_json saved)
                    ''travel contract template'' d1))))"

end
