(* ===== verification/Travel_Service.thy ===== *)
theory Travel_Service
  imports Points Contract
begin

text \<open>
  \<open>app/services/travel_order_service.py\<close>: the audit and verification rows of a travel
  order, the expiry of its check-in code and its cancellation, which gives the points and
  the place on the route back. An order's status column holds the member's text, \<open>None\<close>
  standing for the empty text. An error result means that nothing was committed.
\<close>

definition find_travel :: "db \<Rightarrow> int \<Rightarrow> travel_order option" where
  "find_travel d oid = find_by to_id oid (travel_orders d)"

definition write_travel :: "int \<Rightarrow> (travel_order \<Rightarrow> travel_order) \<Rightarrow> db \<Rightarrow> db" where
  "write_travel oid f d = d\<lparr>travel_orders := update_by to_id oid f (travel_orders d)\<rparr>"

definition find_route :: "db \<Rightarrow> int \<Rightarrow> travel_route option" where
  "find_route d rid = find_by tr_id rid (routes d)"

definition add_stock :: "int \<Rightarrow> int \<Rightarrow> db \<Rightarrow> db" where
  "add_stock rid n d = d\<lparr>routes := update_by tr_id rid (\<lambda>r. r\<lparr>tr_stock := tr_stock r + n\<rparr>) (routes d)\<rparr>"

definition status_text :: "fulfillment option \<Rightarrow> string" where
  "status_text s = (case s of None \<Rightarrow> [] | Some f \<Rightarrow> fulfillment_value f)"

definition user_cancellable :: "fulfillment set" where
  "user_cancellable = {CONTRACT_PENDING, CONTRACT_REVIEWING, CONTRACT_REJECTED, INFO_PENDING, INFO_SUBMITTED}"

definition non_cancellable :: "fulfillment set" where
  "non_cancellable = {CHECKED_IN, IN_TRIP, COMPLETED}"

definition qr_token_hash :: "string \<Rightarrow> string" where
  "qr_token_hash token = sha256_hex token"

text \<open>
  \<open>qr_expiry\<close>: the day after the departure, at least 24 hours from now; three days from
  now when the date cannot be parsed. The day after the last day of the calendar is an
  \<open>OverflowError\<close>, which the function does not catch.
\<close>

definition after_departure :: "time \<Rightarrow> date \<Rightarrow> time result" where
  "after_departure now r =
    (if last_instant < midnight r + days 1 then Inl (RuntimeError ''OverflowError'')
     else Inr (max (now + seconds (24 * 3600)) (midnight r + days 1)))"

definition qr_expiry :: "time \<Rightarrow> string \<Rightarrow> time result" where
  "qr_expiry now travel_date =
    (let v = strip travel_date in
     case strptime_date CHR ''-'' v of
       Some r \<Rightarrow> after_departure now r
     | None \<Rightarrow> (case strptime_date CHR ''/'' v of
         Some r \<Rightarrow> after_departure now r
       | None \<Rightarrow> Inr (now + days 3)))"

section \<open>Audit and verification rows\<close>

record audit_event =
  ev_type :: string
  ev_from :: string
  ev_to :: string
  ev_reason :: string
  ev_evidence :: json

definition event :: "string \<Rightarrow> string \<Rightarrow> string \<Rightarrow> audit_event" where
  "event ty from to = \<lparr>ev_type = ty, ev_from = from, ev_to = to, ev_reason = [], ev_evidence = JObj []\<rparr>"

definition add_travel_audit ::
  "travel_order \<Rightarrow> audit_event \<Rightarrow> user_account option \<Rightarrow> string \<Rightarrow> string \<Rightarrow> db \<Rightarrow> db" where
  "add_travel_audit order ev actor actor_role actor_name d =
    d\<lparr>audits := audits d @
      [\<lparr>ta_id = fresh_id ta_id (audits d), ta_order_id = to_id order, ta_order_no = to_order_no order,
        ta_event_type = ev_type ev, ta_from_status = ev_from ev, ta_to_status = ev_to ev,
        ta_actor_role = (case actor of Some a \<Rightarrow> ua_role a | None \<Rightarrow> actor_role),
        ta_actor_id = (case actor of Some a \<Rightarrow> ua_id a | None \<Rightarrow> 0),
        ta_actor_name = (case actor of Some a \<Rightarrow> ua_nickname a | None \<Rightarrow> actor_name),
        ta_reason = ev_reason ev, ta_evidence = ev_evidence ev\<rparr>]\<rparr>"

abbreviation audit_by :: "travel_order \<Rightarrow> audit_event \<Rightarrow> user_account \<Rightarrow> db \<Rightarrow> db" where
  "audit_by order ev actor \<equiv> add_travel_audit order ev (Some actor) ''system'' []"

definition add_verification_record ::
  "travel_order \<Rightarrow> string \<Rightarrow> string \<Rightarrow> string \<Rightarrow> user_account option \<Rightarrow> string \<Rightarrow> string \<Rightarrow> string \<Rightarrow> db \<Rightarrow> db" where
  "add_verification_record order action token outcome operator device location reason d =
    d\<lparr>verifications := verifications d @
      [\<lparr>vr_id = fresh_id vr_id (verifications d), vr_order_id = to_id order,
        vr_order_no = to_order_no order, vr_action = action, vr_token_hash = qr_token_hash token,
        vr_result = outcome,
        vr_operator_role = (case operator of Some a \<Rightarrow> ua_role a | None \<Rightarrow> ''system''),
        vr_operator_id = (case operator of Some a \<Rightarrow> ua_id a | None \<Rightarrow> 0),
        vr_operator_name = (case operator of Some a \<Rightarrow> ua_nickname a | None \<Rightarrow> []),
        vr_device = take 255 device, vr_location = take 255 location, vr_reason = take 255 reason\<rparr>]\<rparr>"

section \<open>Cancellation\<close>

definition refund_entry :: "travel_order \<Rightarrow> string \<Rightarrow> entry" where
  "refund_entry order remark =
    \<lparr>e_biz_type = ''travel_exchange_refund'', e_biz_id = to_id order, e_biz_no = to_order_no order,
     e_key = ''travel-exchange-refund:'' @ to_order_no order, e_remark = remark\<rparr>"

definition exchange_debit :: "db \<Rightarrow> int \<Rightarrow> string \<Rightarrow> point_ledger option" where
  "exchange_debit d uid no =
    List.find (\<lambda>l. pl_user_id l = uid \<and> pl_biz_type l = ''travel_exchange'' \<and> pl_biz_no l = no
      \<and> pl_direction l = Expense) (ledgers d)"

definition owes_points :: "travel_order \<Rightarrow> bool" where
  "owes_points order \<longleftrightarrow>
    to_order_type order = ''points_exchange'' \<and> 0 < to_points_cost order \<and> \<not> to_points_refunded order"

definition valid_days :: "db \<Rightarrow> int" where
  "valid_days d = max 1 (case rule d of Some r \<Rightarrow> pr_valid_days r | None \<Rightarrow> 365)"

definition return_points :: "time \<Rightarrow> travel_order \<Rightarrow> db \<Rightarrow> db result" where
  "return_points now order d =
    (if owes_points order then
       (case lock_user d (to_user_id order) of
          Inl e \<Rightarrow> Inl e
        | Inr u \<Rightarrow>
            (let fallback = now + days (valid_days d) in
             case exchange_debit d (ua_id u) (to_order_no order) of
               Some original \<Rightarrow>
                 map_sum id snd (refund_locked d (ua_id u) ''travel_exchange''
                   (refund_entry order ''exchange cancelled'') (Some fallback) now)
             | None \<Rightarrow>
                 map_sum id snd (credit_locked d (ua_id u) (to_points_cost order)
                   (refund_entry order ''legacy exchange cancelled'') (Some fallback))))
     else Inr d)"

definition holds_place :: "travel_order \<Rightarrow> bool" where
  "holds_place order \<longleftrightarrow> to_route_id order \<noteq> 0 \<and> \<not> to_stock_restored order"

definition return_place :: "travel_order \<Rightarrow> db \<Rightarrow> db" where
  "return_place order d = (if holds_place order then add_stock (to_route_id order) 1 d else d)"

definition cancelled_order :: "time \<Rightarrow> string \<Rightarrow> travel_order \<Rightarrow> travel_order" where
  "cancelled_order now reason order =
    order\<lparr>to_points_refunded := to_points_refunded order \<or> owes_points order,
      to_stock_restored := to_stock_restored order \<or> holds_place order,
      to_fulfillment_status := Some CANCELLED, to_status := TravelCancelled,
      to_cancelled_at := Some now, to_cancel_reason := strip reason,
      to_qr_token := [], to_qr_expires_at := None\<rparr>"

definition cancel_travel_order ::
  "time \<Rightarrow> db \<Rightarrow> int \<Rightarrow> user_account \<Rightarrow> string \<Rightarrow> bool \<Rightarrow> (travel_order \<times> db) result" where
  "cancel_travel_order now d order_id actor reason admin_override =
    (case find_travel d order_id of
       None \<Rightarrow> Inl (BusinessError 404 ''TRAVEL_ORDER_NOT_FOUND'')
     | Some order \<Rightarrow>
         if \<not> admin_override \<and> to_user_id order \<noteq> ua_id actor
         then Inl (BusinessError 404 ''TRAVEL_ORDER_NOT_FOUND'')
         else if to_fulfillment_status order = Some CANCELLED then Inr (order, d)
         else if to_fulfillment_status order \<in> Some ` non_cancellable
         then Inl (BusinessError 400 ''TRAVEL_ORDER_NOT_CANCELLABLE'')
         else if \<not> admin_override \<and> to_fulfillment_status order \<notin> Some ` user_cancellable
         then Inl (BusinessError 400 ''TRAVEL_ORDER_REQUIRES_ADMIN_CANCEL'')
         else
           (case return_points now order d of
              Inl e \<Rightarrow> Inl e
            | Inr d1 \<Rightarrow>
                (let order' = cancelled_order now reason order;
                     d2 = write_travel order_id (cancelled_order now reason) (return_place order d1)
                 in Inr (order', audit_by order'
                      ((event ''order_cancelled'' (status_text (to_fulfillment_status order))
                          (fulfillment_value CANCELLED))
                        \<lparr>ev_reason := reason,
                         ev_evidence := JObj
                          [(''points_refunded'', JBool (to_points_refunded order')),
                           (''stock_restored'', JBool (to_stock_restored order'))]\<rparr>)
                      actor d2))))"

end
