(* ===== verification/Catalogue.thy ===== *)
theory Catalogue
  imports Orders Travel_Service
begin

text \<open>
  The catalogue handlers: study products with their contents (\<open>app/api/commerce.py\<close>) and
  travel routes (\<open>app/api/admin.py\<close>, \<open>app/api/commerce.py\<close>), as an administrator and as a
  school edits them. What a school writes waits for a review; what the platform writes is
  approved. \<open>sid\<close> is the school of the session.
\<close>

section \<open>Products\<close>

record content_out =
  cx_row :: study_content
  cx_locked :: bool

record product_out =
  po_product :: study_product
  po_contents :: "content_out list"
  po_owned :: bool

definition content_view :: "bool \<Rightarrow> study_content \<Rightarrow> content_out" where
  "content_view owned c =
    \<lparr>cx_row = c\<lparr>sn_resource_url := (if owned \<or> sn_preview c then sn_resource_url c else [])\<rparr>,
     cx_locked = (\<not> owned \<and> \<not> sn_preview c)\<rparr>"

definition product_dict :: "study_product \<Rightarrow> study_content list \<Rightarrow> bool \<Rightarrow> product_out" where
  "product_dict p cs owned = \<lparr>po_product = p, po_contents = map (content_view owned) cs, po_owned = owned\<rparr>"

definition product_contents :: "db \<Rightarrow> int \<Rightarrow> bool \<Rightarrow> study_content list" where
  "product_contents d pid include_disabled =
    sort_key (\<lambda>c. (sn_sort_order c, sn_id c))
      (filter (\<lambda>c. sn_product_id c = pid \<and> (include_disabled \<or> sn_status c)) (study_contents d))"

record content_payload =
  np_title :: string
  np_content_type :: string
  np_summary :: string
  np_resource_url :: string
  np_duration_minutes :: int
  np_preview :: bool
  np_sort_order :: int
  np_status :: bool

definition content_payload_ok :: "content_payload \<Rightarrow> bool" where
  "content_payload_ok c \<longleftrightarrow> np_title c \<noteq> [] \<and> length (np_title c) \<le> 160 \<and>
     np_content_type c \<in> {''lesson'', ''material'', ''test'', ''live'', ''service''} \<and>
     length (np_summary c) \<le> 255 \<and> 0 \<le> np_duration_minutes c"

definition add_content :: "int \<Rightarrow> content_payload \<Rightarrow> db \<Rightarrow> db" where
  "add_content pid c d =
    d\<lparr>study_contents := study_contents d @
      [\<lparr>sn_id = fresh_id sn_id (study_contents d), sn_product_id = pid, sn_title = np_title c,
        sn_content_type = np_content_type c, sn_summary = np_summary c, sn_resource_url = np_resource_url c,
        sn_duration_minutes = np_duration_minutes c, sn_preview = np_preview c,
        sn_sort_order = np_sort_order c, sn_status = np_status c\<rparr>]\<rparr>"

definition replace_contents :: "int \<Rightarrow> content_payload list \<Rightarrow> db \<Rightarrow> db" where
  "replace_contents pid rows d =
    fold (add_content pid) rows (d\<lparr>study_contents := filter (\<lambda>c. sn_product_id c \<noteq> pid) (study_contents d)\<rparr>)"

record product_payload =
  pp_school_id :: int
  pp_name :: string
  pp_product_type :: string
  pp_subtitle :: string
  pp_description :: string
  pp_price :: cents
  pp_original_price :: cents
  pp_billing_cycle :: string
  pp_cover :: string
  pp_benefits :: "string list"
  pp_trial_minutes :: int
  pp_stock :: int
  pp_featured :: bool
  pp_installment_enabled :: bool
  pp_installment_count :: int
  pp_status :: bool
  pp_contents :: "content_payload list"

definition product_payload_ok :: "product_payload \<Rightarrow> bool" where
  "product_payload_ok p \<longleftrightarrow> pp_name p \<noteq> [] \<and> length (pp_name p) \<le> 160 \<and>
     pp_product_type p \<in> {''community'', ''package'', ''material''} \<and> length (pp_subtitle p) \<le> 255 \<and>
     0 \<le> pp_price p \<and> pp_price p < 10 ^ 10 \<and> 0 \<le> pp_original_price p \<and> pp_original_price p < 10 ^ 10 \<and>
     pp_billing_cycle p \<in> {''once'', ''month'', ''year''} \<and> 0 \<le> pp_trial_minutes p \<and> - 1 \<le> pp_stock p \<and>
     1 \<le> pp_installment_count p \<and> pp_installment_count p \<le> 24 \<and> list_all content_payload_ok (pp_contents p)"

text \<open>The attributes a payload writes; \<open>sales\<close> and the review columns are not among them.\<close>

definition product_with :: "product_payload \<Rightarrow> study_product \<Rightarrow> study_product" where
  "product_with p r =
    r\<lparr>sp_school_id := pp_school_id p, sp_name := pp_name p, sp_product_type := pp_product_type p,
      sp_subtitle := pp_subtitle p, sp_description := pp_description p, sp_price := pp_price p,
      sp_original_price := pp_original_price p, sp_billing_cycle := pp_billing_cycle p,
      sp_cover := pp_cover p, sp_benefits := pp_benefits p, sp_trial_minutes := pp_trial_minutes p,
      sp_stock := pp_stock p, sp_featured := pp_featured p,
      sp_installment_enabled := pp_installment_enabled p,
      sp_installment_count := pp_installment_count p, sp_status := pp_status p\<rparr>"

definition blank_product :: "int \<Rightarrow> review_status \<Rightarrow> study_product" where
  "blank_product pid review =
    \<lparr>sp_id = pid, sp_school_id = 0, sp_name = [], sp_product_type = [], sp_subtitle = [],
     sp_description = [], sp_price = 0, sp_original_price = 0, sp_billing_cycle = ''once'', sp_cover = [],
     sp_benefits = [], sp_trial_minutes = 0, sp_stock = -1, sp_sales = 0, sp_featured = False,
     sp_installment_enabled = False, sp_installment_count = 1, sp_status = True,
     sp_review_status = review, sp_reject_reason = []\<rparr>"

definition no_product :: error where "no_product = HTTPException 404 ''no product''"
definition not_approved :: error where "not_approved = HTTPException 400 ''not approved''"

definition insert_product :: "study_product \<Rightarrow> content_payload list \<Rightarrow> db \<Rightarrow> study_product \<times> db" where
  "insert_product r cs d = (r, replace_contents (sp_id r) cs (d\<lparr>products := products d @ [r]\<rparr>))"

definition create_product :: "db \<Rightarrow> product_payload \<Rightarrow> study_product \<times> db" where
  "create_product d p =
    insert_product (product_with p (blank_product (fresh_id sp_id (products d)) RevApproved)) (pp_contents p) d"

text \<open>What a school stores: its own school, waiting, switched off.\<close>

definition submitted :: "int \<Rightarrow> study_product \<Rightarrow> study_product" where
  "submitted sid r =
    r\<lparr>sp_school_id := sid, sp_review_status := RevPending, sp_reject_reason := [], sp_status := False\<rparr>"

definition merchant_create_product :: "db \<Rightarrow> int \<Rightarrow> product_payload \<Rightarrow> study_product \<times> db" where
  "merchant_create_product d sid p =
    insert_product (submitted sid (product_with p (blank_product (fresh_id sp_id (products d)) RevPending)))
      (pp_contents p) d"

text \<open>
  After the commit of an edit the new stock goes to Redis, whatever error this raises.
\<close>

definition push_stock :: "time \<Rightarrow> study_product \<Rightarrow> redis \<Rightarrow> redis" where
  "push_stock now r rd = (if 0 \<le> sp_stock r then snd (sync_stock now (sp_id r) (sp_stock r) rd) else rd)"

definition edit_product ::
  "time \<Rightarrow> db \<Rightarrow> int \<Rightarrow> product_payload \<Rightarrow> (study_product \<Rightarrow> study_product) \<Rightarrow> redis \<Rightarrow> study_product \<times> db \<times> redis" where
  "edit_product now d pid p f rd =
    (let d1 = replace_contents pid (pp_contents p) (set_product pid f d);
         r = (case find_by sp_id pid (products d1) of Some r \<Rightarrow> r | None \<Rightarrow> f (blank_product pid RevPending))
     in (r, d1, push_stock now r rd))"

definition update_product ::
  "time \<Rightarrow> db \<Rightarrow> int \<Rightarrow> product_payload \<Rightarrow> redis \<Rightarrow> (study_product \<times> db \<times> redis) result" where
  "update_product now d pid p rd =
    (case find_by sp_id pid (products d) of
       None \<Rightarrow> Inl no_product
     | Some r0 \<Rightarrow>
         Inr (edit_product now d pid p
           (\<lambda>r. product_with (if sp_review_status r0 \<noteq> RevApproved then p\<lparr>pp_status := False\<rparr> else p) r) rd))"

definition merchant_update_product ::
  "time \<Rightarrow> db \<Rightarrow> int \<Rightarrow> int \<Rightarrow> product_payload \<Rightarrow> redis \<Rightarrow> (study_product \<times> db \<times> redis) result" where
  "merchant_update_product now d sid pid p rd =
    (case find_by sp_id pid (products d) of
       None \<Rightarrow> Inl no_product
     | Some r0 \<Rightarrow>
         if sp_school_id r0 \<noteq> sid then Inl no_product
         else Inr (edit_product now d pid p (\<lambda>r. submitted sid (product_with p r)) rd))"

definition reviewed_product :: "bool \<Rightarrow> string \<Rightarrow> study_product \<Rightarrow> study_product" where
  "reviewed_product approved reason r =
    r\<lparr>sp_review_status := (if approved then RevApproved else RevRejected),
      sp_reject_reason := (if approved then [] else reason), sp_status := approved\<rparr>"

definition review_product :: "db \<Rightarrow> int \<Rightarrow> bool \<Rightarrow> string \<Rightarrow> (study_product \<times> db) result" where
  "review_product d pid approved reason =
    (case find_by sp_id pid (products d) of
       None \<Rightarrow> Inl no_product
     | Some r \<Rightarrow> Inr (reviewed_product approved reason r, set_product pid (reviewed_product approved reason) d))"

definition set_product_status :: "db \<Rightarrow> int \<Rightarrow> bool \<Rightarrow> (study_product \<times> db) result" where
  "set_product_status d pid enable =
    (case find_by sp_id pid (products d) of
       None \<Rightarrow> Inl no_product
     | Some r \<Rightarrow>
         if enable \<and> sp_review_status r \<noteq> RevApproved then Inl not_approved
         else Inr (r\<lparr>sp_status := enable\<rparr>, set_product pid (\<lambda>x. x\<lparr>sp_status := enable\<rparr>) d))"

definition merchant_set_product_status :: "db \<Rightarrow> int \<Rightarrow> int \<Rightarrow> bool \<Rightarrow> (study_product \<times> db) result" where
  "merchant_set_product_status d sid pid enable =
    (case find_by sp_id pid (products d) of
       None \<Rightarrow> Inl no_product
     | Some r \<Rightarrow>
         if sp_school_id r \<noteq> sid then Inl no_product
         else if enable \<and> sp_review_status r \<noteq> RevApproved then Inl not_approved
         else Inr (r\<lparr>sp_status := enable\<rparr>, set_product pid (\<lambda>x. x\<lparr>sp_status := enable\<rparr>) d))"

definition on_sale :: "study_product \<Rightarrow> bool" where
  "on_sale r \<longleftrightarrow> sp_status r \<and> sp_review_status r = RevApproved"

definition public_products :: "db \<Rightarrow> string option \<Rightarrow> product_out list" where
  "public_products d ty =
    map (\<lambda>r. product_dict r [] False)
      (sort_key (\<lambda>r. (if sp_featured r then 0 else 1 :: int, - sp_id r))
        (filter (\<lambda>r. on_sale r \<and> (case ty of None \<Rightarrow> True | Some t \<Rightarrow> t = [] \<or> sp_product_type r = t)) (products d)))"

definition public_product_detail :: "db \<Rightarrow> int \<Rightarrow> product_out result" where
  "public_product_detail d pid =
    (case find_by sp_id pid (products d) of
       None \<Rightarrow> Inl no_product
     | Some r \<Rightarrow>
         if \<not> on_sale r then Inl no_product else Inr (product_dict r (product_contents d pid False) False))"

definition products_newest :: "db \<Rightarrow> study_product list \<Rightarrow> product_out list" where
  "products_newest d rs =
    map (\<lambda>r. product_dict r (product_contents d (sp_id r) True) False) (sort_key (\<lambda>r. - sp_id r) rs)"

definition admin_products :: "db \<Rightarrow> product_out list" where
  "admin_products d = products_newest d (products d)"

definition merchant_products :: "db \<Rightarrow> int \<Rightarrow> product_out list" where
  "merchant_products d sid = products_newest d (filter (\<lambda>r. sp_school_id r = sid) (products d))"


section \<open>Travel routes\<close>

record route_payload =
  rp_name :: string
  rp_category :: string
  rp_days :: string
  rp_price :: cents
  rp_stock :: int
  rp_agency :: string
  rp_image :: string
  rp_description :: string
  rp_display_weight :: int
  rp_status :: bool

definition route_payload_ok :: "route_payload \<Rightarrow> bool" where
  "route_payload_ok p \<longleftrightarrow> rp_name p \<noteq> [] \<and> length (rp_name p) \<le> 120"

definition route_with :: "route_payload \<Rightarrow> travel_route \<Rightarrow> travel_route" where
  "route_with p r =
    r\<lparr>tr_name := rp_name p, tr_category := rp_category p, tr_days := rp_days p, tr_price := rp_price p,
      tr_stock := rp_stock p, tr_agency := rp_agency p, tr_image := rp_image p,
      tr_description := rp_description p, tr_display_weight := rp_display_weight p, tr_status := rp_status p\<rparr>"

definition blank_route :: "int \<Rightarrow> review_status \<Rightarrow> travel_route" where
  "blank_route rid review =
    \<lparr>tr_id = rid, tr_school_id = 0, tr_name = [], tr_category = [], tr_days = [], tr_price = 0, tr_stock = 0,
     tr_agency = [], tr_image = [], tr_description = [], tr_display_weight = 0, tr_review_status = review,
     tr_reject_reason = [], tr_status = True\<rparr>"

definition no_route :: error where "no_route = HTTPException 404 ''Route not found''"

definition write_route :: "int \<Rightarrow> (travel_route \<Rightarrow> travel_route) \<Rightarrow> db \<Rightarrow> db" where
  "write_route rid f d = d\<lparr>routes := update_by tr_id rid f (routes d)\<rparr>"

definition create_route :: "db \<Rightarrow> route_payload \<Rightarrow> travel_route \<times> db" where
  "create_route d p =
    (let r = route_with p (blank_route (fresh_id tr_id (routes d)) RevApproved)
     in (r, d\<lparr>routes := routes d @ [r]\<rparr>))"

definition own_route :: "travel_route \<Rightarrow> travel_route" where
  "own_route r =
    (if tr_school_id r = 0 then r\<lparr>tr_review_status := RevApproved, tr_reject_reason := []\<rparr> else r)"

definition change_route :: "db \<Rightarrow> int \<Rightarrow> (travel_route \<Rightarrow> unit result) \<Rightarrow> (travel_route \<Rightarrow> travel_route) \<Rightarrow> (travel_route \<times> db) result" where
  "change_route d rid check f =
    (case find_route d rid of
       None \<Rightarrow> Inl no_route
     | Some r \<Rightarrow> (case check r of Inl e \<Rightarrow> Inl e | Inr _ \<Rightarrow> Inr (f r, write_route rid f d)))"

definition update_route :: "db \<Rightarrow> int \<Rightarrow> route_payload \<Rightarrow> (travel_route \<times> db) result" where
  "update_route d rid p = change_route d rid (\<lambda>_. Inr ()) (\<lambda>r. own_route (route_with p r))"

definition may_enable :: "bool \<Rightarrow> travel_route \<Rightarrow> unit result" where
  "may_enable enable r = (if enable \<and> tr_review_status r \<noteq> RevApproved then Inl not_approved else Inr ())"

definition toggle_route :: "db \<Rightarrow> int \<Rightarrow> bool \<Rightarrow> (travel_route \<times> db) result" where
  "toggle_route d rid enable = change_route d rid (may_enable enable) (\<lambda>r. r\<lparr>tr_status := enable\<rparr>)"

definition review_route :: "db \<Rightarrow> int \<Rightarrow> bool \<Rightarrow> string \<Rightarrow> (travel_route \<times> db) result" where
  "review_route d rid approved reason =
    change_route d rid (\<lambda>_. Inr ())
      (\<lambda>r. r\<lparr>tr_review_status := (if approved then RevApproved else RevRejected),
             tr_reject_reason := (if approved then [] else reason), tr_status := approved\<rparr>)"

text \<open>A school names itself as the agency when the form leaves it out.\<close>

definition school_route :: "school_site \<Rightarrow> route_payload \<Rightarrow> travel_route \<Rightarrow> travel_route" where
  "school_route s p r =
    (route_with p r)\<lparr>tr_school_id := sc_id s, tr_agency := str_or (rp_agency p) (sc_name s),
      tr_review_status := RevPending, tr_reject_reason := [], tr_status := False\<rparr>"

definition merchant_create_travel_route :: "db \<Rightarrow> school_site \<Rightarrow> route_payload \<Rightarrow> travel_route \<times> db" where
  "merchant_create_travel_route d s p =
    (let r = school_route s p (blank_route (fresh_id tr_id (routes d)) RevPending)
     in (r, d\<lparr>routes := routes d @ [r]\<rparr>))"

definition belongs :: "school_site \<Rightarrow> travel_route \<Rightarrow> unit result" where
  "belongs s r = (if tr_school_id r \<noteq> sc_id s then Inl no_route else Inr ())"

definition merchant_update_travel_route ::
  "db \<Rightarrow> school_site \<Rightarrow> int \<Rightarrow> route_payload \<Rightarrow> (travel_route \<times> db) result" where
  "merchant_update_travel_route d s rid p = change_route d rid (belongs s) (school_route s p)"

definition merchant_set_travel_route_status ::
  "db \<Rightarrow> school_site \<Rightarrow> int \<Rightarrow> bool \<Rightarrow> (travel_route \<times> db) result" where
  "merchant_set_travel_route_status d s rid enable =
    change_route d rid
      (\<lambda>r. case belongs s r of Inl e \<Rightarrow> Inl e | Inr _ \<Rightarrow> may_enable enable r)
      (\<lambda>r. r\<lparr>tr_status := enable\<rparr>)"

definition route_rank :: "travel_route \<Rightarrow> int \<times> int" where
  "route_rank r = (- tr_display_weight r, - tr_id r)"

definition admin_routes :: "db \<Rightarrow> travel_route list" where
  "admin_routes d = sort_key route_rank (routes d)"

definition public_routes :: "db \<Rightarrow> travel_route list" where
  "public_routes d =
    sort_key route_rank (filter (\<lambda>r. tr_status r \<and> tr_review_status r = RevApproved) (routes d))"

definition merchant_travel_routes :: "db \<Rightarrow> school_site \<Rightarrow> travel_route list" where
  "merchant_travel_routes d s =
    sort_key (\<lambda>r. - tr_id r) (filter (\<lambda>r. tr_school_id r = sc_id s) (routes d))"

end
