(* ===== verification/Config.thy ===== *)
theory Config
  imports Settings "HOL-Library.Sublist"
begin

text \<open>
  \<open>app/core/config.py\<close>: the settings and the checks that run when they are loaded. The
  connection string of the database is built by a library and is left out.
\<close>

record config =
  app_version :: string
  build_commit :: string
  app_name :: string
  environment :: string
  api_prefix :: string
  app_secret_key :: string
  asset_url_ttl_seconds :: int
  wechat_app_id :: string
  wechat_mini_app_id :: string
  wechat_mini_app_secret :: string
  wechat_mch_id :: string
  wechat_api_v3_key :: string
  wechat_notify_url :: string
  wechat_refund_notify_url :: string
  wechat_merchant_serial_no :: string
  wechat_merchant_private_key_path :: string
  wechat_pay_public_key_id :: string
  wechat_pay_public_key_path :: string
  mysql_host :: string
  mysql_port :: int
  mysql_user :: string
  mysql_password :: string
  mysql_database :: string
  allow_legacy_schema_adoption :: bool
  redis_url :: string
  redis_enabled :: bool
  order_idempotency_ttl_seconds :: int
  order_payment_timeout_minutes :: int
  login_max_attempts :: int
  login_attempt_window_seconds :: int
  trusted_proxy_ips :: string
  snowflake_worker_id :: int
  snowflake_datacenter_id :: int
  cors_origins :: string
  upload_dir :: string
  storage_driver :: string
  obs_access_key :: string
  obs_secret_key :: string
  obs_bucket :: string
  obs_region :: string
  obs_endpoint :: string

definition default_config :: config where
  "default_config =
    \<lparr>app_version = ''1.1.0'', build_commit = ''development'', app_name = ''API'',
     environment = ''development'', api_prefix = ''/api/v1'',
     app_secret_key = ''development-only-change-me-32-bytes'', asset_url_ttl_seconds = 900,
     wechat_app_id = [], wechat_mini_app_id = [], wechat_mini_app_secret = [], wechat_mch_id = [],
     wechat_api_v3_key = [], wechat_notify_url = [], wechat_refund_notify_url = [],
     wechat_merchant_serial_no = [], wechat_merchant_private_key_path = [],
     wechat_pay_public_key_id = [], wechat_pay_public_key_path = [],
     mysql_host = ''127.0.0.1'', mysql_port = 3306, mysql_user = ''xuetuxing'',
     mysql_password = ''xuetuxing123'', mysql_database = ''xuetuxing'',
     allow_legacy_schema_adoption = False, redis_url = ''redis://127.0.0.1:6379/0'',
     redis_enabled = True, order_idempotency_ttl_seconds = 600, order_payment_timeout_minutes = 30,
     login_max_attempts = 5, login_attempt_window_seconds = 900,
     trusted_proxy_ips = ''127.0.0.1,::1'', snowflake_worker_id = 1, snowflake_datacenter_id = 1,
     cors_origins = ''http://localhost:5178,http://127.0.0.1:5178'', upload_dir = ''uploads'',
     storage_driver = ''local'', obs_access_key = [], obs_secret_key = [], obs_bucket = [],
     obs_region = ''cn-north-4'', obs_endpoint = []\<rparr>"

definition comma_list :: "string \<Rightarrow> string list" where
  "comma_list s = map strip (filter (\<lambda>item. strip item \<noteq> []) (split_on CHR '','' s))"

definition cors_origin_list :: "config \<Rightarrow> string list" where
  "cors_origin_list c = (if strip (cors_origins c) = ''*'' then [''*''] else comma_list (cors_origins c))"

definition trusted_proxy_list :: "config \<Rightarrow> string list" where
  "trusted_proxy_list c = comma_list (trusted_proxy_ips c)"

definition resolved_wechat_refund_notify_url :: "config \<Rightarrow> string" where
  "resolved_wechat_refund_notify_url c =
    (let u = wechat_notify_url c in
     if wechat_refund_notify_url c \<noteq> [] then wechat_refund_notify_url c
     else if suffix ''/notify'' u then take (length u - length ''/notify'') u @ ''/refund-notify''
     else [])"

definition payment_values :: "config \<Rightarrow> string list" where
  "payment_values c = [wechat_mch_id c, wechat_api_v3_key c, wechat_notify_url c,
     wechat_merchant_serial_no c, wechat_merchant_private_key_path c]"

definition payment_started :: "config \<Rightarrow> bool" where
  "payment_started c \<longleftrightarrow> list_ex (\<lambda>v. v \<noteq> []) (payment_values c)
     \<or> wechat_pay_public_key_id c \<noteq> [] \<and> wechat_pay_public_key_path c \<noteq> []"

definition payment_missing :: "config \<Rightarrow> bool" where
  "payment_missing c \<longleftrightarrow> list_ex (\<lambda>v. v = []) (payment_values c)
     \<or> wechat_pay_public_key_id c = [] \<or> wechat_pay_public_key_path c = []"

definition is_production :: "config \<Rightarrow> bool" where
  "is_production c \<longleftrightarrow> to_lower (environment c) \<in> {''production'', ''prod''}"

definition production_checks :: "config \<Rightarrow> config result" where
  "production_checks c =
    (if (wechat_mini_app_id c \<noteq> []) \<noteq> (wechat_mini_app_secret c \<noteq> [])
       then Inl (ValueError ''WECHAT_MINI_APP'')
     else if length (app_secret_key c) < 32 \<or> prefix ''development-only'' (app_secret_key c)
       then Inl (ValueError ''APP_SECRET_KEY'')
     else if cors_origin_list c = [] then Inl (ValueError ''CORS_ORIGINS empty'')
     else if strip (cors_origins c) = ''*'' then Inl (ValueError ''CORS_ORIGINS *'')
     else if list_ex (\<lambda>origin. \<not> prefix ''https://'' origin) (cors_origin_list c)
       then Inl (ValueError ''CORS_ORIGINS https'')
     else if mysql_password c \<in> {'''', ''xuetuxing123'', ''root123456''}
       then Inl (ValueError ''MYSQL_PASSWORD'')
     else if payment_started c \<and> (payment_missing c \<or> wechat_mini_app_id c = [])
       then Inl (ValueError ''WECHAT_PAY'')
     else if to_lower (storage_driver c) = ''obs''
               \<and> (obs_access_key c = [] \<or> obs_secret_key c = [] \<or> obs_bucket c = [])
       then Inl (ValueError ''OBS'')
     else Inr c)"

definition validate_runtime_requirements :: "config \<Rightarrow> config result" where
  "validate_runtime_requirements c0 =
    (let c = c0\<lparr>environment := to_lower (strip (environment c0))\<rparr> in
     if \<not> redis_enabled c then Inl (ValueError ''REDIS_ENABLED'')
     else if asset_url_ttl_seconds c < 60 \<or> 3600 < asset_url_ttl_seconds c
       then Inl (ValueError ''ASSET_URL_TTL_SECONDS'')
     else if is_production c then production_checks c
     else Inr c)"

end
