(* ===== verification/Storage.thy ===== *)
theory Storage
  imports Config Sha256 Py_Date Points
begin

text \<open>
  \<open>app/core/storage.py\<close>: the checks on uploaded images, the object keys, the local store
  as a map from object keys to contents, and the signed requests to the object store.
  \<open>obs_put\<close> and \<open>obs_get\<close> are the HTTP client: what the service answers to a request.
  The fresh part of a key, \<open>uuid4().hex\<close>, is drawn from the database's supply of numbers.
\<close>

section \<open>Paths\<close>

text \<open>\<open>Path(name).suffix\<close>: the last component from its last dot, if that is not its first
  character and not its last.\<close>

definition last_component :: "string \<Rightarrow> string" where
  "last_component s = last ([] # filter (\<lambda>p. p \<noteq> [] \<and> p \<noteq> ''.'') (split_on CHR ''/'' s))"

definition path_suffix :: "string \<Rightarrow> string" where
  "path_suffix s =
    (let n = last_component s; ext = takeWhile (\<lambda>c. c \<noteq> CHR ''.'') (rev n) in
     if length ext + 1 < length n \<and> ext \<noteq> [] then CHR ''.'' # rev ext else [])"

text \<open>\<open>Path(key).parts\<close> of a relative key.\<close>

definition path_parts :: "string \<Rightarrow> string list" where
  "path_parts s = filter (\<lambda>p. p \<noteq> [] \<and> p \<noteq> ''.'') (split_on CHR ''/'' s)"

definition safe_suffix :: "string option \<Rightarrow> string" where
  "safe_suffix filename =
    (let s = to_lower (path_suffix (case filename of Some f \<Rightarrow> f | None \<Rightarrow> []))
     in if s = [] then ''.jpg'' else s)"

section \<open>Images\<close>

definition image_magic_bytes :: "(string \<times> bytes) list" where
  "image_magic_bytes =
    [(''.jpg'', [255, 216, 255]), (''.jpeg'', [255, 216, 255]),
     (''.png'', [137, 80, 78, 71, 13, 10, 26, 10]), (''.gif'', [71, 73, 70, 56, 55, 97]),
     (''.webp'', [82, 73, 70, 70])]"

definition sniff_image_type :: "bytes \<Rightarrow> string option \<Rightarrow> bool" where
  "sniff_image_type content sfx =
    (let s = to_lower (case sfx of Some s \<Rightarrow> s | None \<Rightarrow> []) in
     case map_of image_magic_bytes s of
       None \<Rightarrow> False
     | Some magic \<Rightarrow>
         if \<not> prefix magic content then False
         else if s = ''.webp'' then 12 \<le> length content \<and> take 4 (drop 8 content) = [87, 69, 66, 80]
         else True)"

definition content_type_of :: "string option \<Rightarrow> string \<Rightarrow> string" where
  "content_type_of ct sfx =
    (case ct of
       Some (c # cs) \<Rightarrow> c # cs
     | _ \<Rightarrow> (case map_of [(''.jpg'', ''image/jpeg''), (''.jpeg'', ''image/jpeg''), (''.png'', ''image/png''),
                (''.gif'', ''image/gif''), (''.webp'', ''image/webp'')] sfx of
              Some t \<Rightarrow> t | None \<Rightarrow> ''application/octet-stream''))"

section \<open>The object store\<close>

text \<open>\<open>s.replace(p, "")\<close>.\<close>

function remove_all :: "string \<Rightarrow> string \<Rightarrow> string" where
  "remove_all p s =
    (if p = [] \<or> s = [] then s
     else if prefix p s then remove_all p (drop (length p) s)
     else hd s # remove_all p (tl s))"
  by auto
termination by (relation "measure (\<lambda>(p, s). length s)") (auto simp: neq_Nil_conv)

declare remove_all.simps [simp del]

definition rstrip_slash :: "string \<Rightarrow> string" where
  "rstrip_slash s = rev (dropWhile (\<lambda>c. c = CHR ''/'') (rev s))"

definition lstrip_slash :: "string \<Rightarrow> string" where
  "lstrip_slash s = dropWhile (\<lambda>c. c = CHR ''/'') s"

definition obs_endpoint_of :: "config \<Rightarrow> string" where
  "obs_endpoint_of c =
    rstrip_slash (remove_all ''http://'' (remove_all ''https://''
      (str_or (obs_endpoint c) (''obs.'' @ obs_region c @ ''.myhuaweicloud.com''))))"

definition missing_obs_config :: "config \<Rightarrow> string list" where
  "missing_obs_config c =
    map fst (filter (\<lambda>(k, v). strip v = [])
      [(''OBS_ACCESS_KEY'', obs_access_key c), (''OBS_SECRET_KEY'', obs_secret_key c),
       (''OBS_BUCKET'', obs_bucket c), (''OBS_REGION'', obs_region c)])"

definition signing_key :: "string \<Rightarrow> string \<Rightarrow> string \<Rightarrow> bytes" where
  "signing_key secret_key date_stamp region =
    (let key_date = hmac_sha256 (utf8 (''AWS4'' @ secret_key)) (utf8 date_stamp);
         key_region = hmac_sha256 key_date (utf8 region);
         key_service = hmac_sha256 key_region (utf8 ''s3'')
     in hmac_sha256 key_service (utf8 ''aws4_request''))"

text \<open>\<open>urllib.parse.quote(s, safe="/~")\<close>.\<close>

definition hex_upper :: "nat \<Rightarrow> char" where
  "hex_upper n = ''0123456789ABCDEF'' ! n"

definition quote_byte :: "nat \<Rightarrow> string" where
  "quote_byte n =
    (if 48 \<le> n \<and> n \<le> 57 \<or> 65 \<le> n \<and> n \<le> 90 \<or> 97 \<le> n \<and> n \<le> 122 \<or> n \<in> {45, 46, 47, 95, 126}
     then [char_of n] else [CHR 0x25, hex_upper (n div 16), hex_upper (n mod 16)])"

definition url_quote :: "string \<Rightarrow> string" where
  "url_quote s = concat (map quote_byte (utf8 s))"

text \<open>\<open>strftime\<close> with \<open>%Y%m%d\<close>, \<open>%Y%m\<close> and \<open>%Y%m%dT%H%M%SZ\<close>.\<close>

fun stamp_date :: "date \<Rightarrow> string" where
  "stamp_date (Date y m dd) = two (y div 100) @ two (y mod 100) @ two m @ two dd"

fun stamp_month :: "date \<Rightarrow> string" where
  "stamp_month (Date y m dd) = two (y div 100) @ two (y mod 100) @ two m"

definition stamp_time :: "time \<Rightarrow> string" where
  "stamp_time t =
    (let s = t mod days 1 div 1000000
     in stamp_date (date_of t) @ ''T'' @ two (s div 3600) @ two (s div 60 mod 60) @ two (s mod 60) @ ''Z'')"

record obs_request =
  ob_method :: string
  ob_url :: string
  ob_content :: bytes
  ob_headers :: "(string \<times> string) list"

record obs_response =
  op_status :: int
  op_content :: bytes
  op_content_type :: string

type_synonym obs_client = "obs_request \<Rightarrow> obs_response result"

definition newline :: string where "newline = [CHR 0x0A]"

text \<open>
  The signed request for an object: \<open>extra\<close> are the signed headers before \<open>host\<close>,
  which only an upload has.
\<close>

definition signed_request ::
  "config \<Rightarrow> time \<Rightarrow> string \<Rightarrow> (string \<times> string) list \<Rightarrow> (string \<times> string) list \<Rightarrow> bytes \<Rightarrow> string \<Rightarrow> obs_request" where
  "signed_request c now verb extra shown content object_key =
    (let region = obs_region c;
         host = obs_bucket c @ ''.'' @ obs_endpoint_of c;
         amz_date = stamp_time now;
         date_stamp = stamp_date (date_of now);
         payload_hash = hex (sha256 content);
         signed = extra @ [(''host'', host), (''x-amz-content-sha256'', payload_hash), (''x-amz-date'', amz_date)];
         canonical_headers = concat (map (\<lambda>(k, v). k @ '':'' @ v @ newline) signed);
         signed_headers = concat (map (\<lambda>(k, v). k @ '';'') extra) @ ''host;x-amz-content-sha256;x-amz-date'';
         canonical_request = verb @ newline @ ''/'' @ url_quote object_key @ newline @ newline @ canonical_headers
           @ newline @ signed_headers @ newline @ payload_hash;
         credential_scope = date_stamp @ ''/'' @ region @ ''/s3/aws4_request'';
         string_to_sign = ''AWS4-HMAC-SHA256'' @ newline @ amz_date @ newline @ credential_scope @ newline
           @ sha256_hex canonical_request;
         signature = hex (hmac_sha256 (signing_key (obs_secret_key c) date_stamp region) (utf8 string_to_sign))
     in \<lparr>ob_method = verb, ob_url = ''https://'' @ host @ ''/'' @ url_quote object_key, ob_content = content,
         ob_headers = shown @ [(''Host'', host), (''x-amz-content-sha256'', payload_hash), (''x-amz-date'', amz_date),
           (''Authorization'', ''AWS4-HMAC-SHA256 Credential='' @ obs_access_key c @ ''/'' @ credential_scope
              @ '', SignedHeaders='' @ signed_headers @ '', Signature='' @ signature)]\<rparr>)"

text \<open>\<open>response.raise_for_status()\<close>.\<close>

definition raise_for_status :: "obs_response \<Rightarrow> obs_response result" where
  "raise_for_status r =
    (if 200 \<le> op_status r \<and> op_status r < 300 then Inr r else Inl (RuntimeError ''HTTPStatusError''))"

definition obs_call :: "obs_client \<Rightarrow> obs_request \<Rightarrow> obs_response result" where
  "obs_call client q = (case client q of Inl e \<Rightarrow> Inl e | Inr r \<Rightarrow> raise_for_status r)"

section \<open>Saving and loading\<close>

record stored_file =
  sf_url :: string
  sf_path :: string
  sf_storage :: string
  sf_bucket :: string
  sf_object_key :: string

record loaded_file =
  lf_content :: bytes
  lf_content_type :: string

type_synonym disk = "string \<Rightarrow> bytes option"

definition put_obs_object ::
  "config \<Rightarrow> obs_client \<Rightarrow> time \<Rightarrow> bytes \<Rightarrow> string \<Rightarrow> string \<Rightarrow> stored_file result" where
  "put_obs_object c client now content object_key ct =
    map_sum id (\<lambda>_. \<lparr>sf_url = [], sf_path = object_key, sf_storage = ''obs'', sf_bucket = obs_bucket c,
        sf_object_key = object_key\<rparr>)
      (obs_call client (signed_request c now ''PUT'' [(''content-type'', ct)] [(''Content-Type'', ct)]
         content object_key))"

definition get_obs_object :: "config \<Rightarrow> obs_client \<Rightarrow> time \<Rightarrow> string \<Rightarrow> loaded_file result" where
  "get_obs_object c client now object_key =
    map_sum id (\<lambda>r. \<lparr>lf_content = op_content r, lf_content_type =
        str_or (op_content_type r) (content_type_of None (to_lower (path_suffix object_key)))\<rparr>)
      (obs_call client (signed_request c now ''GET'' [] [] [] object_key))"

text \<open>The file that \<open>Path(upload_dir) / key\<close> names, relative to the upload directory.\<close>

fun join_slash :: "string list \<Rightarrow> string" where
  "join_slash [] = []"
| "join_slash [p] = p"
| "join_slash (p # q # ps) = p @ ''/'' @ join_slash (q # ps)"

definition file_name :: "string \<Rightarrow> string" where
  "file_name key = join_slash (path_parts key)"

definition save_upload_bytes ::
  "config \<Rightarrow> obs_client \<Rightarrow> time \<Rightarrow> bytes \<Rightarrow> string option \<Rightarrow> string option \<Rightarrow> string \<Rightarrow> disk \<times> db
    \<Rightarrow> (stored_file \<times> disk \<times> db) result" where
  "save_upload_bytes c client now content filename ct folder st =
    (case st of (fs, d) \<Rightarrow>
     let sfx = safe_suffix filename;
         month = stamp_month (date_of now);
         (uuid, d1) = draw_no ''uuid4'' d;
         object_key = lstrip_slash (rstrip_slash folder) @ ''/'' @ month @ ''/'' @ uuid @ sfx;
         mime = content_type_of ct sfx
     in if to_lower (storage_driver c) = ''obs'' then
          (if missing_obs_config c \<noteq> [] then Inl (HTTPException 500 ''OBS config'')
           else map_sum id (\<lambda>s. (s, fs, d1)) (put_obs_object c client now content object_key mime))
        else Inr (\<lparr>sf_url = [], sf_path = object_key, sf_storage = ''local'', sf_bucket = [],
                   sf_object_key = object_key\<rparr>, fs(file_name object_key \<mapsto> content), d1))"

definition load_upload_bytes ::
  "config \<Rightarrow> obs_client \<Rightarrow> time \<Rightarrow> disk \<Rightarrow> string \<Rightarrow> string option \<Rightarrow> loaded_file result" where
  "load_upload_bytes c client now fs object_key storage =
    (let clean_key = lstrip_slash (strip object_key) in
     if clean_key = [] \<or> ''..'' \<in> set (path_parts clean_key) then Inl (HTTPException 400 ''image path'')
     else
       (let driver = to_lower (case storage of Some (x # xs) \<Rightarrow> x # xs | _ \<Rightarrow> storage_driver c) in
        if driver = ''obs'' then
          (if missing_obs_config c \<noteq> [] then Inl (HTTPException 500 ''OBS config'')
           else get_obs_object c client now clean_key)
        else case fs (file_name clean_key) of
          None \<Rightarrow> Inl (HTTPException 404 ''image'')
        | Some content \<Rightarrow> Inr \<lparr>lf_content = content, lf_content_type =
              content_type_of None (to_lower (path_suffix clean_key))\<rparr>))"

section \<open>The thumbnail cache\<close>

record cache_file =
  cf_path :: string
  cf_mtime :: time

text \<open>
  One pass of unlinking: \<open>stuck\<close> are the files whose removal raises \<open>OSError\<close>. The result
  is what is left and how many files went.
\<close>

definition unlink_files :: "(string \<Rightarrow> bool) \<Rightarrow> cache_file list \<Rightarrow> cache_file list \<Rightarrow> cache_file list \<times> nat" where
  "unlink_files stuck victims files =
    (let gone = filter (\<lambda>f. \<not> stuck (cf_path f)) victims
     in (filter (\<lambda>f. cf_path f \<notin> cf_path ` set gone) files, length gone))"

definition cull_thumb_cache ::
  "(string \<Rightarrow> bool) \<Rightarrow> time \<Rightarrow> int \<Rightarrow> nat \<Rightarrow> cache_file list \<Rightarrow> nat \<times> cache_file list" where
  "cull_thumb_cache stuck now max_age_days max_files files =
    (case unlink_files stuck (filter (\<lambda>f. cf_mtime f < now - days max_age_days) files) files of
       (files1, removed) \<Rightarrow>
         if removed < max_files then
           (case unlink_files stuck (take (length files1 - max_files) (sort_key cf_mtime files1)) files1 of
              (files2, gone) \<Rightarrow> (removed + gone, files2))
         else (removed, files1))"

end
