(* ===== verification/Asset_Access.thy ===== *)
theory Asset_Access
  imports Storage
begin

text \<open>
  \<open>app/core/asset_access.py\<close>: links to uploaded files and the signed tokens that open the
  ones that are not public. A token is the expiry, a dot and the HMAC of asset and expiry.
\<close>

definition public_asset_sources :: "string list" where
  "public_asset_sources =
    [''common'', ''decoration'', ''route'', ''study_product'', ''article'', ''travel_review'']"

definition is_public_asset_source :: "string \<Rightarrow> bool" where
  "is_public_asset_source source = List.member public_asset_sources (to_lower (strip source))"

text \<open>\<open>int(time.time())\<close>.\<close>

definition unix_seconds :: "time \<Rightarrow> int" where
  "unix_seconds now = now div 1000000"

definition create_asset_access_token :: "config \<Rightarrow> time \<Rightarrow> int \<Rightarrow> string \<Rightarrow> int option \<Rightarrow> string" where
  "create_asset_access_token c now asset_id variant expires_at =
    (let expires = int_or (case expires_at of Some e \<Rightarrow> e | None \<Rightarrow> 0)
           (unix_seconds now + asset_url_ttl_seconds c);
         payload = str_int asset_id @ '':'' @ str_int expires
     in str_int expires @ ''.'' @ hex (hmac_sha256 (utf8 (app_secret_key c)) (utf8 payload)))"

definition verify_asset_access_token :: "config \<Rightarrow> time \<Rightarrow> int \<Rightarrow> string \<Rightarrow> string \<Rightarrow> bool" where
  "verify_asset_access_token c now asset_id variant token =
    (case split_at (\<lambda>x. x = CHR ''.'') token of
       (_, None) \<Rightarrow> False
     | (expires_text, Some signature) \<Rightarrow>
         (case int_of expires_text of
            None \<Rightarrow> False
          | Some expires \<Rightarrow>
              if expires < unix_seconds now then False
              else create_asset_access_token c now asset_id variant (Some expires) = token))"

definition asset_api_url :: "config \<Rightarrow> int \<Rightarrow> string" where
  "asset_api_url c asset_id = api_prefix c @ ''/public/assets/'' @ str_int asset_id @ ''/file''"

definition asset_variant_url :: "config \<Rightarrow> time \<Rightarrow> int \<Rightarrow> string \<Rightarrow> bool \<Rightarrow> string" where
  "asset_variant_url c now asset_id variant with_token =
    (let path = api_prefix c @ ''/public/assets/'' @ str_int asset_id @ ''/'' @ variant in
     if with_token then path @ ''?asset_token='' @ create_asset_access_token c now asset_id variant None
     else path)"

text \<open>\<open>urlsplit(url).path\<close>: what follows the scheme and the host, up to the query.\<close>

definition is_stop :: "char \<Rightarrow> bool" where
  "is_stop c \<longleftrightarrow> c = CHR ''/'' \<or> c = CHR 0x3F \<or> c = CHR 0x23"

definition after_scheme :: "string \<Rightarrow> string" where
  "after_scheme url =
    (case split_at (\<lambda>c. c = CHR '':'') url of
       (scheme, Some rest) \<Rightarrow>
         if scheme \<noteq> [] \<and> digit_val (hd scheme) = None \<and> list_all (\<lambda>c. let n = of_char c :: nat in
              97 \<le> n \<and> n \<le> 122 \<or> 65 \<le> n \<and> n \<le> 90 \<or> 48 \<le> n \<and> n \<le> 57 \<or> n \<in> {43, 45, 46}) scheme
         then rest else url
     | (_, None) \<Rightarrow> url)"

definition url_path :: "string \<Rightarrow> string" where
  "url_path url =
    (let rest = after_scheme url;
         local = (if prefix ''//'' rest then dropWhile (\<lambda>c. \<not> is_stop c) (drop 2 rest) else rest)
     in takeWhile (\<lambda>c. c \<noteq> CHR 0x3F \<and> c \<noteq> CHR 0x23) local)"

text \<open>
  \<open>ASSET_PATH_PATTERN.search\<close>: the first place where the prefix of the asset paths is
  followed by digits, a slash and a variant.
\<close>

definition digits_then :: "string \<Rightarrow> (string \<times> string) option" where
  "digits_then s =
    (let ds = takeWhile (\<lambda>c. digit_val c \<noteq> None) s; rest = dropWhile (\<lambda>c. digit_val c \<noteq> None) s in
     if ds = [] then None
     else if prefix ''/file'' rest then Some (ds, ''file'')
     else if prefix ''/thumb'' rest then Some (ds, ''thumb'')
     else None)"

fun search_asset :: "string \<Rightarrow> string \<Rightarrow> (string \<times> string) option" where
  "search_asset p [] = None"
| "search_asset p (c # cs) =
     (case (if prefix p (c # cs) then digits_then (drop (length p) (c # cs)) else None) of
        Some r \<Rightarrow> Some r
      | None \<Rightarrow> search_asset p cs)"

definition extract_asset_reference :: "config \<Rightarrow> string \<Rightarrow> (int \<times> string) option" where
  "extract_asset_reference c url =
    (if url = [] then None
     else case search_asset (api_prefix c @ ''/public/assets/'') (url_path url) of
       None \<Rightarrow> None
     | Some (ds, variant) \<Rightarrow> map_option (\<lambda>n. (int n, variant)) (parse_nat ds))"

definition canonical_asset_url :: "config \<Rightarrow> time \<Rightarrow> string \<Rightarrow> string" where
  "canonical_asset_url c now url =
    (case extract_asset_reference c url of
       Some (asset_id, variant) \<Rightarrow> asset_variant_url c now asset_id variant False
     | None \<Rightarrow> url)"

end
