(* ===== verification/Access.thy ===== *)
theory Access
  imports Settings Sha256 Config Cache Asset_Access
begin

text \<open>
  Who may call what: bearer tokens and sessions (\<open>app/core/security.py\<close>), passwords and
  their upgrade (\<open>app/core/auth.py\<close>), the learner's identity (\<open>app/core/identity.py\<close>) and
  the counter of failed logins (\<open>app/core/login_guard.py\<close>). The Argon2 library is the record
  \<open>hasher\<close>; the salt of a hash, tokens and user numbers come from the source of random
  texts \<open>draw_no\<close>. The address of the client is an argument where the code reads it from
  the request.
\<close>

section \<open>Sessions\<close>

definition extract_bearer_token :: "string option \<Rightarrow> string option" where
  "extract_bearer_token authorization =
    (case authorization of
       None \<Rightarrow> None
     | Some a \<Rightarrow>
         if a = [] then None
         else (case split_at (\<lambda>c. c = CHR '' '') a of
             (scheme, Some token) \<Rightarrow>
               if to_lower scheme \<noteq> ''bearer'' \<or> token = [] then None else Some (strip token)
           | (scheme, None) \<Rightarrow> None))"

definition find_session :: "db \<Rightarrow> string \<Rightarrow> user_session option" where
  "find_session d token = find_by us_token token (sessions d)"

definition touch_session :: "time \<Rightarrow> string \<Rightarrow> db \<Rightarrow> db" where
  "touch_session now token d =
    d\<lparr>sessions := update_by us_token token (\<lambda>s. s\<lparr>us_last_seen_at := Some now\<rparr>) (sessions d)\<rparr>"

definition live_session :: "time \<Rightarrow> db \<Rightarrow> string \<Rightarrow> string option \<Rightarrow> user_session option" where
  "live_session now d token expected_role =
    (if token = [] then None
     else case find_session d token of
       None \<Rightarrow> None
     | Some s \<Rightarrow>
         if us_expires_at s < now then None
         else if (case expected_role of None \<Rightarrow> False | Some role \<Rightarrow> us_role s \<noteq> role) then None
         else Some s)"

definition load_session_user ::
  "time \<Rightarrow> db \<Rightarrow> string option \<Rightarrow> string option \<Rightarrow> user_account option \<times> db" where
  "load_session_user now d authorization expected_role =
    (case extract_bearer_token authorization of
       None \<Rightarrow> (None, d)
     | Some token \<Rightarrow>
         (case live_session now d token expected_role of
            None \<Rightarrow> (None, d)
          | Some s \<Rightarrow>
              (case find_by ua_id (us_user_id s) (users d) of
                 None \<Rightarrow> (None, d)
               | Some u \<Rightarrow>
                   if ua_status u \<noteq> ''active'' then (None, d)
                   else (Some u, touch_session now token d))))"

definition load_session_user_by_token ::
  "time \<Rightarrow> db \<Rightarrow> string \<Rightarrow> string option \<Rightarrow> user_account option \<times> db" where
  "load_session_user_by_token now d token expected_role =
    (case live_session now d token expected_role of
       None \<Rightarrow> (None, d)
     | Some s \<Rightarrow>
         (case find_by ua_id (us_user_id s) (users d) of
            None \<Rightarrow> (None, d)
          | Some u \<Rightarrow>
              if ua_status u \<noteq> ''active'' \<or> ua_role u \<noteq> us_role s then (None, d)
              else if (case expected_role of None \<Rightarrow> False | Some role \<Rightarrow> ua_role u \<noteq> role) then (None, d)
              else (Some u, touch_session now token d)))"

definition get_current_user :: "time \<Rightarrow> db \<Rightarrow> string option \<Rightarrow> (user_account \<times> db) result" where
  "get_current_user now d authorization =
    (case load_session_user now d authorization None of
       (Some u, d1) \<Rightarrow> Inr (u, d1)
     | (None, d1) \<Rightarrow> Inl (HTTPException 401 ''login first''))"

definition get_optional_user :: "time \<Rightarrow> db \<Rightarrow> string option \<Rightarrow> user_account option \<times> db" where
  "get_optional_user now d authorization = load_session_user now d authorization None"

definition require_admin :: "time \<Rightarrow> db \<Rightarrow> string option \<Rightarrow> (user_account \<times> db) result" where
  "require_admin now d authorization =
    (case load_session_user now d authorization (Some ''admin'') of
       (Some u, d1) \<Rightarrow> Inr (u, d1)
     | (None, d1) \<Rightarrow> Inl (HTTPException 401 ''not an administrator''))"

definition get_admin_user :: "time \<Rightarrow> db \<Rightarrow> string option \<Rightarrow> (user_account \<times> db) result" where
  "get_admin_user now d authorization =
    (case load_session_user now d authorization (Some ''admin'') of
       (Some u, d1) \<Rightarrow> Inr (u, d1)
     | (None, d1) \<Rightarrow> Inl (HTTPException 401 ''log in as administrator''))"

definition get_user_by_phone :: "db \<Rightarrow> string \<Rightarrow> user_account option" where
  "get_user_by_phone d phone = find_by ua_phone phone (users d)"

section \<open>Passwords\<close>

text \<open>
  \<open>argon2.PasswordHasher\<close>: hashing with a salt, checking (any \<open>VerificationError\<close> is a
  failed check), and whether a hash uses outdated parameters.
\<close>

record hasher =
  hs_hash :: "string \<Rightarrow> string \<Rightarrow> string"
  hs_verify :: "string \<Rightarrow> string \<Rightarrow> bool"
  hs_needs_rehash :: "string \<Rightarrow> bool"

definition legacy_hash_password :: "string \<Rightarrow> string \<Rightarrow> string" where
  "legacy_hash_password password salt = salt @ ''$'' @ sha256_hex (salt @ '':'' @ password)"

definition hash_password :: "hasher \<Rightarrow> string \<Rightarrow> db \<Rightarrow> string \<times> db" where
  "hash_password h password d = (case draw_no ''salt'' d of (salt, d1) \<Rightarrow> (hs_hash h salt password, d1))"

definition is_argon2 :: "string \<Rightarrow> bool" where
  "is_argon2 stored_hash \<longleftrightarrow> prefix ''$argon2'' stored_hash"

definition verify_password :: "hasher \<Rightarrow> string \<Rightarrow> string \<Rightarrow> bool" where
  "verify_password h password stored_hash =
    (if is_argon2 stored_hash then hs_verify h stored_hash password
     else case split_at (\<lambda>c. c = CHR ''$'') stored_hash of
       (salt, Some _) \<Rightarrow> legacy_hash_password password salt = stored_hash
     | (_, None) \<Rightarrow> False)"

definition verify_and_rehash_password ::
  "hasher \<Rightarrow> string \<Rightarrow> string \<Rightarrow> db \<Rightarrow> (bool \<times> string option) \<times> db" where
  "verify_and_rehash_password h password stored_hash d =
    (if \<not> verify_password h password stored_hash then ((False, None), d)
     else if \<not> is_argon2 stored_hash \<or> hs_needs_rehash h stored_hash
     then (case hash_password h password d of (new, d1) \<Rightarrow> ((True, Some new), d1))
     else ((True, None), d))"

definition generate_token :: "db \<Rightarrow> string \<times> db" where
  "generate_token d = draw_no ''token'' d"

definition generate_user_no :: "db \<Rightarrow> string \<times> db" where
  "generate_user_no d = draw_no ''U'' d"

definition session_expire_at :: "time \<Rightarrow> time" where
  "session_expire_at now = now + days 30"

section \<open>The learner's identity\<close>

definition resolve_user_identity :: "time \<Rightarrow> db \<Rightarrow> int \<Rightarrow> string" where
  "resolve_user_identity now d uid =
    (if list_ex (\<lambda>c. gc_user_id c = uid \<and> gc_status c = RevApproved) (certifications d) then ''admitted''
     else if list_ex (\<lambda>e. ue_user_id e = uid \<and> ue_status e = ''active''
         \<and> (case ue_expires_at e of None \<Rightarrow> True | Some t \<Rightarrow> now < t)) (entitlements d) then ''preparing''
     else ''student'')"

definition resolve_user_identities :: "time \<Rightarrow> db \<Rightarrow> int list \<Rightarrow> (int \<times> string) list" where
  "resolve_user_identities now d ids = map (\<lambda>uid. (uid, resolve_user_identity now d uid)) (remdups ids)"

section \<open>Failed logins\<close>

definition login_key :: "string \<Rightarrow> string \<Rightarrow> string \<Rightarrow> string" where
  "login_key scope account client_ip =
    ''security:login:'' @ sha256_hex (scope @ '':'' @ to_lower (strip account) @ '':'' @ client_ip)"

definition ensure_login_allowed ::
  "config \<Rightarrow> time \<Rightarrow> string \<Rightarrow> string \<Rightarrow> string \<Rightarrow> redis \<Rightarrow> string result \<times> redis" where
  "ensure_login_allowed c now scope account client_ip r =
    (let key = login_key scope account client_ip in
     case raw_call (\<lambda>st. case mem_get now key st of (v, st') \<Rightarrow> (stored_int v, st')) r of
       (Inl e, r1) \<Rightarrow> (Inl (HTTPException 503 ''login protection''), r1)
     | (Inr attempts, r1) \<Rightarrow>
         if login_max_attempts c \<le> attempts then
           (case raw_call (\<lambda>st. case mem_ttl now key st of (n, st') \<Rightarrow> (Inr n, st')) r1 of
              (Inl e, r2) \<Rightarrow> (Inl e, r2)
            | (Inr ttl, r2) \<Rightarrow> (Inl (HTTPException 429 ''too many attempts''), r2))
         else (Inr key, r1))"

definition record_login_failure :: "config \<Rightarrow> time \<Rightarrow> string \<Rightarrow> redis \<Rightarrow> unit result \<times> redis" where
  "record_login_failure c now key r =
    (case raw_call (pipeline_execute now [PIncr key, PExpire key (login_attempt_window_seconds c)]) r of
       (Inl e, r1) \<Rightarrow> (Inl RedisUnavailableError, r1)
     | (Inr _, r1) \<Rightarrow> (Inr (), r1))"

definition clear_login_failures :: "string \<Rightarrow> redis \<Rightarrow> unit result \<times> redis" where
  "clear_login_failures key r = redis_delete [key] r"

end
