(* ===== verification/Learning.thy ===== *)
theory Learning
  imports Order_Life Catalogue Access "HOL-Library.AList"
begin

text \<open>
  The learning part of \<open>app/api/commerce.py\<close>: the older orders for one product with their
  mock payment, the learning profile with its questionnaire, daily check-ins, travel goals
  and the learning centre. The payloads follow \<open>app/schemas/commerce.py\<close>.
\<close>

section \<open>Orders for one product\<close>

text \<open>The rule row that a missing rule is created as.\<close>

definition default_rule :: point_rule where
  "default_rule =
    \<lparr>pr_invite_score = 1, pr_checkin_score = 1, pr_purchase_score = 5, pr_vip_purchase_score = 10,
     pr_exchange_score = 100, pr_valid_days = 365, pr_yearly_limit = 1, pr_monthly_stock = 50,
     pr_invite_enabled = True, pr_checkin_enabled = True, pr_purchase_enabled = True,
     pr_vip_purchase_enabled = True, pr_enabled = True\<rparr>"

definition ensure_rule :: "db \<Rightarrow> point_rule \<times> db" where
  "ensure_rule d = (case rule d of Some r \<Rightarrow> (r, d) | None \<Rightarrow> (default_rule, d\<lparr>rule := Some default_rule\<rparr>))"

definition point_expires_at :: "time \<Rightarrow> point_rule \<Rightarrow> time" where
  "point_expires_at now r = now + days (max 1 (int_or (pr_valid_days r) 365))"

record study_order_payload =
  st_product_id :: int
  st_payment_method :: string
  st_installment_count :: int

definition study_order_payload_ok :: "study_order_payload \<Rightarrow> bool" where
  "study_order_payload_ok p \<longleftrightarrow> st_payment_method p \<in> {''wechat'', ''mock''} \<and>
     1 \<le> st_installment_count p \<and> st_installment_count p \<le> 24"

text \<open>
  The amount of the order: the price divided by the number of instalments, rounded down to
  cents; if a remainder is left, the amount is what the other instalments leave.
\<close>

definition installment_amount :: "cents \<Rightarrow> int \<Rightarrow> cents" where
  "installment_amount price n =
    (let amount = price div n in
     if 1 < n \<and> amount * n < price then price - amount * (n - 1) else amount)"

definition study_order_row :: "db \<Rightarrow> string \<Rightarrow> int \<Rightarrow> study_product \<Rightarrow> study_order_payload \<Rightarrow> int \<Rightarrow> study_order" where
  "study_order_row d no uid r p n =
    \<lparr>so_id = fresh_id so_id (study_orders d), so_order_no = no, so_user_id = uid, so_school_id = sp_school_id r,
     so_product_id = sp_id r, so_product_name = sp_name r, so_product_type = sp_product_type r,
     so_amount = installment_amount (sp_price r) n, so_payment_method = st_payment_method p,
     so_payment_status = PayPending, so_transaction_id = [], so_installment_no = 1,
     so_installment_count = n, so_paid_at = None\<rparr>"

definition create_study_order :: "db \<Rightarrow> int \<Rightarrow> study_order_payload \<Rightarrow> (study_order \<times> db) result" where
  "create_study_order d uid p =
    (case find_by sp_id (st_product_id p) (products d) of
       None \<Rightarrow> Inl no_product
     | Some r \<Rightarrow>
         if \<not> on_sale r then Inl no_product
         else if sp_stock r = 0 then Inl (HTTPException 400 ''out of stock'')
         else (let n = (if sp_installment_enabled r then st_installment_count p else 1) in
           if sp_installment_count r < n then Inl (HTTPException 400 ''too many installments'')
           else case draw_no ''ST'' d of
             (no, d1) \<Rightarrow>
               (let o1 = study_order_row d1 no uid r p n in
                if list_ex (\<lambda>x. so_order_no x = no) (study_orders d1) then Inl IntegrityError
                else Inr (o1, d1\<lparr>study_orders := study_orders d1 @ [o1]\<rparr>))))"

definition study_entitlement :: "time \<Rightarrow> db \<Rightarrow> study_order \<Rightarrow> study_product \<Rightarrow> entitlement" where
  "study_entitlement now d o1 r =
    \<lparr>ue_id = fresh_id ue_id (entitlements d), ue_user_id = so_user_id o1, ue_product_id = so_product_id o1,
     ue_order_id = so_id o1, ue_entitlement_type = sp_product_type r, ue_starts_at = now,
     ue_expires_at = entitlement_expiry now r, ue_progress = 0, ue_status = ''active''\<rparr>"

definition sold_one :: "study_product \<Rightarrow> study_product" where
  "sold_one r = r\<lparr>sp_sales := sp_sales r + 1, sp_stock := (if 0 < sp_stock r then sp_stock r - 1 else sp_stock r)\<rparr>"

definition grant_entitlement :: "time \<Rightarrow> study_order \<Rightarrow> study_product \<Rightarrow> db \<Rightarrow> db" where
  "grant_entitlement now o1 r d =
    (if list_ex (\<lambda>e. ue_order_id e = so_id o1) (entitlements d) then d
     else set_product (sp_id r) sold_one
       (ensure_profile (so_user_id o1) (d\<lparr>entitlements := entitlements d @ [study_entitlement now d o1 r]\<rparr>)))"

definition study_reward_entry :: "study_order \<Rightarrow> entry" where
  "study_reward_entry o1 =
    \<lparr>e_biz_type = ''study_purchase'', e_biz_id = so_id o1, e_biz_no = so_order_no o1,
     e_key = ''study-purchase:'' @ str_int (so_id o1), e_remark = ''purchase reward''\<rparr>"

definition grant_study_purchase_points :: "time \<Rightarrow> study_order \<Rightarrow> db \<Rightarrow> db result" where
  "grant_study_purchase_points now o1 d =
    (case ensure_rule d of
       (r, d1) \<Rightarrow>
         if \<not> pr_enabled r \<or> \<not> pr_purchase_enabled r \<or> pr_purchase_score r \<le> 0 then Inr d1
         else case lock_user d1 (so_user_id o1) of
           Inl e \<Rightarrow> Inl e
         | Inr u \<Rightarrow> map_sum id snd (credit_locked d1 (so_user_id o1) (pr_purchase_score r)
             (study_reward_entry o1) (Some (point_expires_at now r))))"

definition paid_study_order :: "time \<Rightarrow> string \<Rightarrow> study_order \<Rightarrow> study_order" where
  "paid_study_order now txn o1 =
    o1\<lparr>so_payment_status := PayPaid, so_payment_method := ''mock'', so_transaction_id := txn, so_paid_at := Some now\<rparr>"

definition no_study_order :: error where "no_study_order = HTTPException 404 ''no order''"

definition mock_pay :: "string \<Rightarrow> time \<Rightarrow> db \<Rightarrow> int \<Rightarrow> int \<Rightarrow> (study_order \<times> db) result" where
  "mock_pay env now d oid uid =
    (if to_lower (strip env) \<notin> {''development'', ''test''} then Inl (HTTPException 403 ''no mock payment'')
     else case find_by so_id oid (study_orders d) of
       None \<Rightarrow> Inl no_study_order
     | Some o1 \<Rightarrow>
         if so_user_id o1 \<noteq> uid then Inl no_study_order
         else if so_payment_status o1 = PayPaid then Inr (o1, d)
         else case find_by sp_id (so_product_id o1) (products d) of
           None \<Rightarrow> Inl no_product
         | Some r \<Rightarrow>
             (case draw_no ''MOCK-'' d of
                (txn, d1) \<Rightarrow>
                  (let o2 = paid_study_order now txn o1;
                       d2 = d1\<lparr>study_orders := update_by so_id oid (paid_study_order now txn) (study_orders d1)\<rparr>
                   in map_sum id (\<lambda>d3. (o2, d3))
                        (grant_study_purchase_points now o2 (grant_entitlement now o2 r d2)))))"

definition payment_params :: "wx_settings \<Rightarrow> db \<Rightarrow> int \<Rightarrow> int \<Rightarrow> (string \<times> cents \<times> bool) result" where
  "payment_params w d oid uid =
    (case find_by so_id oid (study_orders d) of
       None \<Rightarrow> Inl no_study_order
     | Some o1 \<Rightarrow>
         if so_user_id o1 \<noteq> uid then Inl no_study_order
         else Inr (so_order_no o1, so_amount o1, is_wechat_pay_configured w))"

definition study_orders_newest :: "study_order list \<Rightarrow> study_order list" where
  "study_orders_newest os = sort_key (\<lambda>o1. - so_id o1) os"

definition my_study_orders :: "db \<Rightarrow> int \<Rightarrow> study_order list" where
  "my_study_orders d uid = study_orders_newest (filter (\<lambda>o1. so_user_id o1 = uid) (study_orders d))"

definition admin_study_orders :: "db \<Rightarrow> study_order list" where
  "admin_study_orders d = study_orders_newest (study_orders d)"

definition merchant_study_orders :: "db \<Rightarrow> int \<Rightarrow> study_order list" where
  "merchant_study_orders d sid = study_orders_newest (filter (\<lambda>o1. so_school_id o1 = sid) (study_orders d))"


section \<open>The learning profile\<close>

definition find_profile :: "db \<Rightarrow> int \<Rightarrow> learning_profile option" where
  "find_profile d uid = find_by lp_user_id uid (profiles d)"

definition profile_or :: "db \<Rightarrow> int \<Rightarrow> learning_profile" where
  "profile_or d uid = (case find_profile d uid of Some p \<Rightarrow> p | None \<Rightarrow> default_profile uid)"

definition set_profile :: "int \<Rightarrow> (learning_profile \<Rightarrow> learning_profile) \<Rightarrow> db \<Rightarrow> db" where
  "set_profile uid f d = d\<lparr>profiles := update_by lp_user_id uid f (profiles d)\<rparr>"

definition update_learning_profile :: "db \<Rightarrow> int \<Rightarrow> string \<Rightarrow> string \<Rightarrow> db" where
  "update_learning_profile d uid target stage =
    set_profile uid (\<lambda>p. p\<lparr>lp_target_exam := target, lp_current_stage := stage\<rparr>) (ensure_profile uid d)"

text \<open>An answer of the questionnaire and its validator; \<open>None\<close> is the \<open>ValueError\<close>.\<close>

datatype answer = Text string | Texts "string list"

fun clean_answer :: "answer \<Rightarrow> answer option" where
  "clean_answer (Text s) = Some (Text (take 160 (strip s)))"
| "clean_answer (Texts ss) =
     (if 20 < length ss then None
      else Some (Texts (map (\<lambda>s. take 160 (strip s)) (filter (\<lambda>s. strip s \<noteq> []) ss))))"

fun clean_answers :: "(string \<times> answer) list \<Rightarrow> (string \<times> answer) list \<Rightarrow> (string \<times> answer) list option" where
  "clean_answers acc [] = Some acc"
| "clean_answers acc ((k, a) # rest) =
     (let key = strip k in
      if key = [] \<or> 80 < length key then None
      else case clean_answer a of None \<Rightarrow> None | Some a' \<Rightarrow> clean_answers (AList.update key a' acc) rest)"

definition validate_answers :: "(string \<times> answer) list \<Rightarrow> (string \<times> answer) list option" where
  "validate_answers value = (if 20 < length value then None else clean_answers [] value)"

definition answer_text :: "(string \<times> answer) list \<Rightarrow> string \<Rightarrow> string" where
  "answer_text answers k = (case map_of answers k of Some (Text s) \<Rightarrow> strip s | _ \<Rightarrow> [])"

definition answer_list :: "(string \<times> answer) list \<Rightarrow> string \<Rightarrow> string list" where
  "answer_list answers k = (case map_of answers k of Some (Texts ss) \<Rightarrow> filter (\<lambda>s. s \<noteq> []) ss | _ \<Rightarrow> [])"

fun answer_json :: "answer \<Rightarrow> json" where
  "answer_json (Text s) = JStr s"
| "answer_json (Texts ss) = JList (map JStr ss)"

definition answered :: "time \<Rightarrow> int \<Rightarrow> (string \<times> answer) list \<Rightarrow> learning_profile \<Rightarrow> learning_profile" where
  "answered now version answers p =
    p\<lparr>lp_current_stage := (if answer_text answers ''stage'' \<noteq> [] then take 80 (answer_text answers ''stage'')
        else lp_current_stage p),
      lp_target_exam := (if answer_text answers ''target'' \<noteq> [] then take 80 (answer_text answers ''target'')
        else lp_target_exam p),
      lp_school_major_status := take 80 (answer_text answers ''schoolMajorStatus''),
      lp_interest_tags := answer_list answers ''interests'', lp_onboarding_version := version,
      lp_onboarding_answers := JObj (map (map_prod id answer_json) answers),
      lp_onboarding_completed_at := Some now\<rparr>"

definition add_interest :: "time \<Rightarrow> user_account \<Rightarrow> string \<Rightarrow> db \<Rightarrow> db" where
  "add_interest now u interest d =
    d\<lparr>preferences := preferences d @
      [\<lparr>pe_id = fresh_id pe_id (preferences d), pe_user_id = str_int (ua_id u), pe_user_name = ua_nickname u,
        pe_preference_type = ''study'', pe_target_key = take 120 interest, pe_target_name = take 160 interest,
        pe_action = ''onboarding_select'', pe_score = 5, pe_created_at = now\<rparr>]\<rparr>"

text \<open>The answer is the stored version and whether the submission was ignored.\<close>

definition complete_learning_onboarding ::
  "time \<Rightarrow> db \<Rightarrow> user_account \<Rightarrow> int \<Rightarrow> (string \<times> answer) list \<Rightarrow> (int \<times> bool) \<times> db" where
  "complete_learning_onboarding now d u version answers =
    (let p = profile_or d (ua_id u) in
     if version < lp_onboarding_version p then ((lp_onboarding_version p, True), d)
     else if version = lp_onboarding_version p \<and> lp_onboarding_completed_at p \<noteq> None
     then ((lp_onboarding_version p, False), d)
     else ((version, False),
       fold (add_interest now u) (answer_list answers ''interests'')
         (set_profile (ua_id u) (answered now version answers) (ensure_profile (ua_id u) d))))"

section \<open>Check-in\<close>

definition today :: "time \<Rightarrow> string" where
  "today now = iso_date (date_of now)"

definition checkin_of :: "db \<Rightarrow> int \<Rightarrow> string \<Rightarrow> checkin_record option" where
  "checkin_of d uid day = List.find (\<lambda>c. lc_user_id c = uid \<and> lc_checkin_date c = day) (checkins d)"

definition add_checkin :: "int \<Rightarrow> time \<Rightarrow> int \<Rightarrow> string \<Rightarrow> db \<Rightarrow> checkin_record \<times> db" where
  "add_checkin uid at n note d =
    (let c = \<lparr>lc_id = fresh_id lc_id (checkins d), lc_user_id = uid, lc_checkin_date = today at,
              lc_checkin_at = at, lc_checkin_days = n, lc_note = note\<rparr>
     in (c, d\<lparr>checkins := checkins d @ [c]\<rparr>))"

definition ensure_learning_checkin_record :: "int \<Rightarrow> time \<Rightarrow> int \<Rightarrow> db \<Rightarrow> checkin_record \<times> db" where
  "ensure_learning_checkin_record uid at n d =
    (case checkin_of d uid (today at) of
       Some c \<Rightarrow> (c, d)
     | None \<Rightarrow> add_checkin uid at (int_or n 1) ''checked in'' d)"

definition done_text :: string where "done_text = ''done today''"

text \<open>The answer: whether the day was checked in now, the days so far and the record shown.\<close>

record checkin_reply =
  ck_new :: bool
  ck_days :: int
  ck_record :: checkin_record

definition already :: "int \<Rightarrow> checkin_record \<Rightarrow> checkin_reply" where
  "already n c = \<lparr>ck_new = False, ck_days = n, ck_record = c\<lparr>lc_note := str_or (lc_note c) done_text\<rparr>\<rparr>"

definition checkin_entry :: "int \<Rightarrow> string \<Rightarrow> entry" where
  "checkin_entry uid day =
    \<lparr>e_biz_type = ''learning_checkin'', e_biz_id = 0, e_biz_no = day,
     e_key = ''learning-checkin:'' @ str_int uid @ '':'' @ day, e_remark = ''check-in reward''\<rparr>"

definition checked_in :: "int \<Rightarrow> time \<Rightarrow> learning_profile \<Rightarrow> learning_profile" where
  "checked_in n now p = p\<lparr>lp_checkin_days := n, lp_last_checkin_at := Some now\<rparr>"

definition awards_checkin :: "point_rule \<Rightarrow> bool" where
  "awards_checkin r \<longleftrightarrow> pr_enabled r \<and> pr_checkin_enabled r \<and> 0 < pr_checkin_score r"

definition reward_checkin :: "time \<Rightarrow> int \<Rightarrow> string \<Rightarrow> db \<Rightarrow> db result" where
  "reward_checkin now uid day d =
    (case ensure_rule d of
       (r, d1) \<Rightarrow>
         if \<not> awards_checkin r then Inr d1
         else case lock_user d1 uid of
           Inl e \<Rightarrow> Inl e
         | Inr u \<Rightarrow> map_sum id snd (credit_locked d1 uid (pr_checkin_score r) (checkin_entry uid day)
             (Some (point_expires_at now r))))"

text \<open>
  \<open>others\<close> is what other sessions commit after this one has looked for today's record.
  The new record is written by the first query after it (the rule, when missing, or the
  locking of the user), whose conflict leaves the handler; without such a query the commit
  writes it, whose conflict is caught, but after the rollback the handler looks for the
  other session's record with the expired \<open>user.id\<close>. A look-up by primary key is taken not to write.
\<close>

definition study_check_in ::
  "(db \<Rightarrow> db) \<Rightarrow> time \<Rightarrow> db \<Rightarrow> int \<Rightarrow> (checkin_reply \<times> db) result" where
  "study_check_in others now d uid =
    (let p = profile_or d uid; day = today now in
     case (checkin_of d uid day, lp_last_checkin_at p) of
       (Some c, _) \<Rightarrow> Inr (already (lp_checkin_days p) (c\<lparr>lc_checkin_days := lp_checkin_days p\<rparr>), d)
     | (None, seen) \<Rightarrow>
         (case (case seen of Some t \<Rightarrow> if date_of t = date_of now then Some t else None | None \<Rightarrow> None) of
            Some t \<Rightarrow>
              (case ensure_learning_checkin_record uid t (lp_checkin_days p) d of
                 (c, d1) \<Rightarrow> Inr (already (lp_checkin_days p) (c\<lparr>lc_checkin_days := lp_checkin_days p\<rparr>), d1))
          | None \<Rightarrow>
              (let d1 = others d; n = lp_checkin_days p + 1 in
               if checkin_of d1 uid day \<noteq> None then
                 (case rule d1 of
                    None \<Rightarrow> Inl IntegrityError
                  | Some r \<Rightarrow> if awards_checkin r then Inl IntegrityError else Inl expired_attribute)
               else
                 (case add_checkin uid now n done_text (set_profile uid (checked_in n now) (ensure_profile uid d1)) of
                    (c, d2) \<Rightarrow> map_sum id (\<lambda>d3. (\<lparr>ck_new = True, ck_days = n, ck_record = c\<rparr>, d3))
                      (reward_checkin now uid day d2)))))"


section \<open>The learning centre and travel goals\<close>

record learning_view =
  lv_profile :: learning_profile
  lv_checked_today :: bool
  lv_records :: "checkin_record list"
  lv_rights :: "(entitlement \<times> product_out) list"

definition recent_checkins :: "db \<Rightarrow> int \<Rightarrow> checkin_record list" where
  "recent_checkins d uid =
    take 60 (sort_key (\<lambda>c. (- lc_checkin_at c, - lc_id c)) (filter (\<lambda>c. lc_user_id c = uid) (checkins d)))"

definition rights_of :: "db \<Rightarrow> int \<Rightarrow> (entitlement \<times> product_out) list" where
  "rights_of d uid =
    List.map_filter
      (\<lambda>e. map_option (\<lambda>r. (e, product_dict r (product_contents d (sp_id r) False) True))
        (find_by sp_id (ue_product_id e) (products d)))
      (sort_key (\<lambda>e. - ue_id e) (filter (\<lambda>e. ue_user_id e = uid) (entitlements d)))"

text \<open>A day that only the profile remembers gets its record, and leads the list.\<close>

definition with_last_day :: "int \<Rightarrow> learning_profile \<Rightarrow> checkin_record list \<Rightarrow> db \<Rightarrow> checkin_record list \<times> db" where
  "with_last_day uid p rs d =
    (case lp_last_checkin_at p of
       None \<Rightarrow> (rs, d)
     | Some t \<Rightarrow>
         if list_ex (\<lambda>c. lc_checkin_date c = today t) rs then (rs, d)
         else (case ensure_learning_checkin_record uid t (lp_checkin_days p) d of
           (c, d1) \<Rightarrow>
             (if lc_checkin_date c = today t then c # rs
              else \<lparr>lc_id = 0, lc_user_id = uid, lc_checkin_date = today t, lc_checkin_at = t,
                    lc_checkin_days = int_or (lp_checkin_days p) 1, lc_note = done_text\<rparr> # c # rs, d1)))"

definition learning_center :: "time \<Rightarrow> db \<Rightarrow> int \<Rightarrow> learning_view \<times> db" where
  "learning_center now d uid =
    (let d1 = ensure_profile uid d; p = profile_or d1 uid in
     case with_last_day uid p (recent_checkins d1 uid) d1 of
       (rs, d2) \<Rightarrow>
         (\<lparr>lv_profile = p,
           lv_checked_today = (list_ex (\<lambda>c. lc_checkin_date c = today now) rs \<or>
             (case lp_last_checkin_at p of Some t \<Rightarrow> today t = today now | None \<Rightarrow> False)),
           lv_records = rs, lv_rights = rights_of d uid\<rparr>, d2))"

record goal_payload =
  gp_request_key :: string
  gp_title :: string
  gp_location :: string
  gp_place_count :: int
  gp_criteria :: json
  gp_result_snapshot :: "json list"

definition goal_payload_ok :: "goal_payload \<Rightarrow> bool" where
  "goal_payload_ok p \<longleftrightarrow> gp_request_key p \<noteq> [] \<and> length (gp_request_key p) \<le> 80 \<and>
     gp_title p \<noteq> [] \<and> length (gp_title p) \<le> 160 \<and> length (gp_location p) \<le> 120 \<and>
     0 \<le> gp_place_count p \<and> gp_place_count p \<le> 100 \<and> length (gp_result_snapshot p) \<le> 20"

definition goal_row :: "int \<Rightarrow> int \<Rightarrow> goal_payload \<Rightarrow> travel_goal" where
  "goal_row gid uid p =
    \<lparr>tg_id = gid, tg_user_id = uid, tg_request_key = gp_request_key p, tg_title = gp_title p,
     tg_location = gp_location p, tg_place_count = gp_place_count p, tg_criteria = gp_criteria p,
     tg_result_snapshot = gp_result_snapshot p\<rparr>"

definition my_travel_goals :: "db \<Rightarrow> int \<Rightarrow> travel_goal list" where
  "my_travel_goals d uid =
    take 100 (sort_key (\<lambda>g. - tg_id g) (filter (\<lambda>g. tg_user_id g = uid) (travel_goals d)))"

definition save_travel_goal :: "db \<Rightarrow> int \<Rightarrow> goal_payload \<Rightarrow> travel_goal \<times> db" where
  "save_travel_goal d uid p =
    (case List.find (\<lambda>g. tg_user_id g = uid \<and> tg_request_key g = gp_request_key p) (travel_goals d) of
       None \<Rightarrow>
         (let g = goal_row (fresh_id tg_id (travel_goals d)) uid p
          in (g, d\<lparr>travel_goals := travel_goals d @ [g]\<rparr>))
     | Some g \<Rightarrow>
         (goal_row (tg_id g) uid p,
          d\<lparr>travel_goals := update_by tg_id (tg_id g) (\<lambda>x. goal_row (tg_id x) uid p) (travel_goals d)\<rparr>))"

end
