(* ===== verification/Grant_Props.thy ===== *)
theory Grant_Props
  imports Payment_Props Learning
begin

text \<open>
  What orders grant and refunds take back. The entitlements of shop orders and of study orders
  share a table whose \<open>order_id\<close> does not say which of the two tables of orders it means.
\<close>

definition expired_entitlement :: "entitlement \<Rightarrow> entitlement" where
  "expired_entitlement e = e\<lparr>ue_status := ''expired''\<rparr>"

text \<open>
  A refund expires the entitlements that the order granted, all of them, and touches no
  entitlement with another order number. But the number is all it looks at: an entitlement
  that a study order with the same number granted, to whatever user, expires as well.
\<close>

theorem refund_expires_number:
  assumes inv: "shop_inv (d, r)" and o1: "find_order d oid = Some o1" "co_payment_status o1 \<noteq> PayRefunded"
    and f: "finalize_refund now d oid refund_no refund_id wr r = (Inr (o', d'), r')"
  shows "entitlements d' = map (\<lambda>e. if ue_order_id e = oid then expired_entitlement e else e) (entitlements d)"
  using inv f
proof (cases rule: finalize_refund_cases)
  case replay
  then show ?thesis using o1 by simp
next
  case (refunded o2 u d1 x d2 d3)
  have "entitlements d1 = entitlements d"
    using refunded(5) refund_wallet_calm by (auto split: if_splits)
  moreover have "entitlements d' = entitlements (expire_entitlements oid d2)"
    using refunded(7,8) by (simp add: released_def set_order_def)
  ultimately show ?thesis
    using revoke_items [OF refunded(6)] by (simp add: expire_entitlements_def update_by_def expired_entitlement_def)
qed

text \<open>
  User 1 gets order 1 of the shop refunded; user 2, who paid for study order 1, loses the
  entitlement.
\<close>

definition paid_db :: db where
  "paid_db = after_run bought_db (pay_with_balance 7 bought_db 1 1)"

definition study_grant :: entitlement where
  "study_grant = \<lparr>ue_id = 50, ue_user_id = 2, ue_product_id = 2, ue_order_id = 1, ue_entitlement_type = ''course'',
     ue_starts_at = 3, ue_expires_at = None, ue_progress = 0, ue_status = ''active''\<rparr>"

definition shared_db :: db where
  "shared_db = paid_db\<lparr>entitlements := entitlements paid_db @ [study_grant]\<rparr>"

lemma shared_inv: "shop_inv (shared_db, bought_redis)"
proof -
  have "\<not> isl (pay_with_balance 7 bought_db 1 1)" by code_simp
  from not_isl_ex [OF this] obtain o1 where "pay_with_balance 7 bought_db 1 1 = Inr (o1, paid_db)"
    by (auto simp: paid_db_def after_run_def)
  then have inv: "shop_inv (paid_db, bought_redis)"
    using shop_step_inv [OF bought_inv step_balance] by blast
  have "calm paid_db shared_db" by (intro settled_calm) (simp add: settled_def shared_db_def)
  then show ?thesis
    using inv calm_shop_ok calm_synced by (auto simp: shop_inv_def)
qed

definition refunded_run :: "(commerce_order \<times> db) result \<times> redis" where
  "refunded_run = finalize_refund 9 shared_db 1 ''R1'' ''id'' True bought_redis"

lemma refund_expires_number_witness:
  "\<exists>o' d' r'. refunded_run = (Inr (o', d'), r') \<and>
     (\<exists>e. e \<in> set (entitlements d') \<and> ue_user_id e = 2 \<and> co_user_id o' = 1 \<and> ue_status e = ''expired'')"
proof -
  have ok: "\<not> isl (fst refunded_run)" "map_sum id (co_user_id \<circ> fst) (fst refunded_run) = Inr 1"
    and paid: "map_option co_payment_status (find_order shared_db 1) = Some PayPaid" by code_simp+
  obtain o1 where o1: "find_order shared_db 1 = Some o1" "co_payment_status o1 = PayPaid" using paid by auto
  obtain o' d' r' where r: "refunded_run = (Inr (o', d'), r')"
    using ok(1) by (metis not_isl_ex prod.collapse)
  have o': "co_user_id o' = 1" using ok(2) by (simp add: r)
  have "entitlements d' = map (\<lambda>e. if ue_order_id e = 1 then expired_entitlement e else e) (entitlements shared_db)"
    using refund_expires_number [OF shared_inv o1(1), of 9 "''R1''" "''id''" True o' d' r'] o1(2) r
    by (simp add: refunded_run_def)
  then have "expired_entitlement study_grant \<in> set (entitlements d')"
    by (simp add: shared_db_def study_grant_def)
  then show ?thesis
    using r o' by (intro exI [of _ o'] exI [of _ d'] exI [of _ r'] conjI exI [of _ "expired_entitlement study_grant"])
      (simp_all add: expired_entitlement_def study_grant_def)
qed

text \<open>
  And a study order whose number some entitlement already has, such as one of a shop order of
  another user, is paid without anything being granted.
\<close>

lemma credit_entitlements:
  assumes "credit_locked d uid amount e t = Inr (x, d')"
  shows "entitlements d' = entitlements d"
  using assms
  by (auto simp: credit_locked_def Let_def new_ledger_eq flush_ledger_def set_points_def add_lot_def
      split: option.splits if_splits prod.splits sum.splits)

lemma reward_entitlements:
  assumes g: "grant_study_purchase_points now o1 d = Inr d'"
  shows "entitlements d' = entitlements d"
proof -
  obtain r d1 where r: "ensure_rule d = (r, d1)" by fastforce
  then have d1: "entitlements d1 = entitlements d" by (auto simp: ensure_rule_def split: option.splits)
  show ?thesis
    using g r d1 credit_entitlements [of d1]
    by (auto simp: grant_study_purchase_points_def map_sum_eq_Inr split: if_splits sum.splits)
qed

lemma study_payment_grants_nothing:
  assumes m: "mock_pay env now d oid uid = Inr (o1, d')" and e: "e \<in> set (entitlements d)" "ue_order_id e = oid"
  shows "entitlements d' = entitlements d"
proof -
  have "entitlements d' = entitlements d" if "find_by so_id oid (study_orders d) = Some o2" for o2
  proof -
    have "so_id o2 = oid" using that by (rule find_by_key)
    then show ?thesis
      using m e that reward_entitlements
      by (fastforce simp: mock_pay_def draw_no_def Let_def grant_entitlement_def list_ex_iff paid_study_order_def
          map_sum_eq_Inr split: if_splits option.splits)
  qed
  then show ?thesis using m by (auto simp: mock_pay_def split: if_splits option.splits)
qed

end
