(* ===== verification/Snowflake.thy ===== *)
theory Snowflake
  imports Py_Text
begin

text \<open>
  \<open>app/core/snowflake.py\<close>: the 64-bit id generator behind every order and transaction
  number. Its clock is a list of readings in milliseconds, one per call of
  \<open>_timestamp\<close>; running out of readings while busy-waiting is the value \<open>None\<close>.
\<close>

unbundle bit_operations_syntax

record snow =
  worker_id :: int
  datacenter_id :: int
  sequence :: int
  last_timestamp :: int

definition epoch_ms :: int where
  "epoch_ms = 1704067200000"

definition new_generator :: "int \<Rightarrow> int \<Rightarrow> snow result" where
  "new_generator worker dc =
    (if \<not> (0 \<le> worker \<and> worker \<le> 31) then Inl (ValueError ''worker_id'')
     else if \<not> (0 \<le> dc \<and> dc \<le> 31) then Inl (ValueError ''datacenter_id'')
     else Inr \<lparr>worker_id = worker, datacenter_id = dc, sequence = 0, last_timestamp = -1\<rparr>)"

fun wait_next_millis :: "int \<Rightarrow> int list \<Rightarrow> (int \<times> int list) option" where
  "wait_next_millis current [] = None"
| "wait_next_millis current (t # ts) =
     (if t \<le> current then wait_next_millis current ts else Some (t, ts))"

definition compose_id :: "snow \<Rightarrow> int \<Rightarrow> int \<Rightarrow> int" where
  "compose_id g timestamp s =
    (push_bit 22 (timestamp - epoch_ms) OR push_bit 17 (datacenter_id g)
      OR push_bit 12 (worker_id g) OR s)"

fun next_id :: "snow \<Rightarrow> int list \<Rightarrow> (int \<times> snow \<times> int list) result option" where
  "next_id g [] = None"
| "next_id g (timestamp # ts) =
    (if timestamp < last_timestamp g then Some (Inl (RuntimeError ''Clock moved backwards''))
     else if timestamp = last_timestamp g then
       (let s = (sequence g + 1) AND 0xFFF in
        if s = 0 then
          (case wait_next_millis timestamp ts of
             None \<Rightarrow> None
           | Some (t, rest) \<Rightarrow>
               Some (Inr (compose_id g t s, g\<lparr>sequence := s, last_timestamp := t\<rparr>, rest)))
        else Some (Inr (compose_id g timestamp s,
                        g\<lparr>sequence := s, last_timestamp := timestamp\<rparr>, ts)))
     else Some (Inr (compose_id g timestamp 0,
                     g\<lparr>sequence := 0, last_timestamp := timestamp\<rparr>, ts)))"

definition next_order_no :: "string \<Rightarrow> snow \<Rightarrow> int list \<Rightarrow> (string \<times> snow \<times> int list) result option" where
  "next_order_no prefix g ts =
    (case next_id g ts of
       None \<Rightarrow> None
     | Some (Inl e) \<Rightarrow> Some (Inl e)
     | Some (Inr (i, g', rest)) \<Rightarrow> Some (Inr (prefix @ str_int i, g', rest)))"

section \<open>The layout of an id\<close>

definition snow_ok :: "snow \<Rightarrow> bool" where
  "snow_ok g \<longleftrightarrow> 0 \<le> worker_id g \<and> worker_id g \<le> 31 \<and> 0 \<le> datacenter_id g \<and> datacenter_id g \<le> 31
     \<and> 0 \<le> sequence g \<and> sequence g < 4096"

lemma or_push_bit: "0 \<le> b \<Longrightarrow> b < 2 ^ n \<Longrightarrow> push_bit n a OR b = a * 2 ^ n + (b :: int)"
proof -
  assume b: "0 \<le> b" "b < 2 ^ n"
  then have "take_bit n b = b" by (simp add: take_bit_int_eq_self)
  then have "\<not> bit (push_bit n a) m \<or> \<not> bit b m" for m
    by (metis bit_push_bit_iff_int bit_take_bit_iff linorder_not_le)
  then have "push_bit n a + b = push_bit n a OR b"
    by (intro disjunctive_add_eq_or bit_eqI) (auto simp: bit_and_iff)
  then show ?thesis by (simp add: push_bit_eq_mult)
qed

lemma compose_id_arith:
  assumes "snow_ok g" and "0 \<le> s" and "s < 4096"
  shows "compose_id g t s =
    (t - epoch_ms) * 4194304 + (datacenter_id g * 131072 + (worker_id g * 4096 + s))"
proof -
  let ?w = "push_bit 12 (worker_id g) OR s"
  let ?d = "push_bit 17 (datacenter_id g) OR ?w"
  have ok: "0 \<le> worker_id g" "worker_id g \<le> 31" "0 \<le> datacenter_id g" "datacenter_id g \<le> 31"
    using assms(1) by (auto simp: snow_ok_def)
  have w: "?w = worker_id g * 4096 + s"
    using or_push_bit [of s 12] assms(2,3) by simp
  have d: "?d = datacenter_id g * 131072 + ?w"
    using or_push_bit [of ?w 17] ok assms(2,3) w by simp
  have "push_bit 22 (t - epoch_ms) OR ?d = (t - epoch_ms) * 4194304 + ?d"
    using or_push_bit [of ?d 22] ok assms(2,3) w d by simp
  then show ?thesis
    using w d by (simp add: compose_id_def or.assoc)
qed

lemma seq_mask: "(s + 1) AND 0xFFF = (s + 1) mod (4096 :: int)"
  using take_bit_eq_mask [of 12 "s + 1"] by (simp add: take_bit_eq_mod mask_eq_exp_minus_1)

text \<open>Each field of an id is read back by shifting and masking.\<close>

definition id_timestamp :: "int \<Rightarrow> int" where
  "id_timestamp i = i div 4194304 + epoch_ms"

definition id_datacenter :: "int \<Rightarrow> int" where
  "id_datacenter i = i div 131072 mod 32"

definition id_worker :: "int \<Rightarrow> int" where
  "id_worker i = i div 4096 mod 32"

definition id_sequence :: "int \<Rightarrow> int" where
  "id_sequence i = i mod 4096"

lemma compose_id_fields:
  assumes "snow_ok g" and "0 \<le> s" and "s < 4096"
  shows "id_timestamp (compose_id g t s) = t \<and> id_datacenter (compose_id g t s) = datacenter_id g
    \<and> id_worker (compose_id g t s) = worker_id g \<and> id_sequence (compose_id g t s) = s"
proof -
  define w where "w = worker_id g"
  define d where "d = datacenter_id g"
  define u where "u = t - epoch_ms"
  have ok: "0 \<le> w" "w \<le> 31" "0 \<le> d" "d \<le> 31"
    using assms(1) by (auto simp: snow_ok_def w_def d_def)
  have i: "compose_id g t s = u * 4194304 + (d * 131072 + (w * 4096 + s))"
    using compose_id_arith [OF assms] by (simp add: u_def d_def w_def)
  have "(u * 4194304 + (d * 131072 + (w * 4096 + s))) div 4194304 = u"
    using ok assms(2,3) by linarith
  moreover have "(u * 4194304 + (d * 131072 + (w * 4096 + s))) div 131072 = u * 32 + d"
    using ok assms(2,3) by linarith
  moreover have "(u * 4194304 + (d * 131072 + (w * 4096 + s))) div 4096 = u * 1024 + d * 32 + w"
    using ok assms(2,3) by linarith
  moreover have "(u * 4194304 + (d * 131072 + (w * 4096 + s))) mod 4096 = s"
  proof -
    have "u * 4194304 + (d * 131072 + (w * 4096 + s)) = s + (u * 1024 + d * 32 + w) * 4096"
      by simp
    then show ?thesis
      using assms(2,3) by (simp only: mod_mult_self1) simp
  qed
  moreover have "(u * 32 + d) mod 32 = d"
    using ok by simp
  moreover have "(u * 1024 + d * 32 + w) mod 32 = w"
  proof -
    have "u * 1024 + d * 32 + w = w + (u * 32 + d) * 32" by simp
    then show ?thesis using ok by (simp only: mod_mult_self1) simp
  qed
  ultimately have "id_timestamp (compose_id g t s) = u + epoch_ms" "id_datacenter (compose_id g t s) = d"
      "id_worker (compose_id g t s) = w" "id_sequence (compose_id g t s) = s"
    by (simp_all only: i id_timestamp_def id_datacenter_def id_worker_def id_sequence_def)
  then show ?thesis
    by (simp add: u_def d_def w_def)
qed

section \<open>Ids only grow\<close>

text \<open>A source of values that never repeats: every draw is above the last one.\<close>

fun draws :: "('s \<Rightarrow> ('i \<times> 's) option) \<Rightarrow> nat \<Rightarrow> 's \<Rightarrow> 'i list" where
  "draws draw 0 s = []"
| "draws draw (Suc n) s =
     (case draw s of None \<Rightarrow> [] | Some (i, s') \<Rightarrow> i # draws draw n s')"

locale growing_source =
  fixes draw :: "'s \<Rightarrow> ('i::linorder \<times> 's) option"
    and last_of :: "'s \<Rightarrow> 'i"
    and ok :: "'s \<Rightarrow> bool"
  assumes draw_grows: "ok s \<Longrightarrow> draw s = Some (i, s') \<Longrightarrow> last_of s < i"
    and draw_last: "ok s \<Longrightarrow> draw s = Some (i, s') \<Longrightarrow> last_of s' = i"
    and draw_ok: "ok s \<Longrightarrow> draw s = Some (i, s') \<Longrightarrow> ok s'"
begin

lemma draws_above: "ok s \<Longrightarrow> i \<in> set (draws draw n s) \<Longrightarrow> last_of s < i"
proof (induction n arbitrary: s)
  case (Suc n)
  then obtain j s' where d: "draw s = Some (j, s')"
    by (cases "draw s") auto
  have "last_of s < j" "last_of s' = j" "ok s'"
    using Suc.prems(1) d draw_grows draw_last draw_ok by auto
  moreover have "i = j \<or> i \<in> set (draws draw n s')"
    using Suc.prems(2) d by simp
  ultimately show ?case
    using Suc.IH [of s'] by auto
qed simp

lemma draws_sorted: "ok s \<Longrightarrow> sorted_wrt (<) (draws draw n s)"
proof (induction n arbitrary: s)
  case (Suc n)
  show ?case
  proof (cases "draw s")
    case (Some p)
    obtain j s' where p: "p = (j, s')" by (cases p)
    have "last_of s' = j" "ok s'"
      using Suc.prems Some p draw_last draw_ok by auto
    then show ?thesis
      using Some p Suc.IH [of s'] draws_above [of s'] by auto
  qed simp
qed simp

lemma draws_distinct: "ok s \<Longrightarrow> distinct (draws draw n s)"
  using draws_sorted strict_sorted_iff by blast

end

definition snow_draw :: "snow \<times> int list \<Rightarrow> (int \<times> snow \<times> int list) option" where
  "snow_draw s = (case next_id (fst s) (snd s) of Some (Inr r) \<Rightarrow> Some r | _ \<Rightarrow> None)"

definition snow_last :: "snow \<times> int list \<Rightarrow> int" where
  "snow_last s = compose_id (fst s) (last_timestamp (fst s)) (sequence (fst s))"

lemma wait_next_millis_later: "wait_next_millis c ts = Some (t, rest) \<Longrightarrow> c < t"
  by (induction ts) (auto split: if_splits)

lemma next_id_shape:
  assumes "next_id g ts = Some (Inr (i, g', rest))" and "snow_ok g"
  shows "\<exists>t s. i = compose_id g t s \<and> g' = g\<lparr>sequence := s, last_timestamp := t\<rparr> \<and> 0 \<le> s \<and> s < 4096
    \<and> (last_timestamp g < t \<or> t = last_timestamp g \<and> s = sequence g + 1)"
proof (cases ts)
  case Nil
  then show ?thesis using assms by simp
next
  case (Cons u us)
  define m where "m = (sequence g + 1) mod 4096"
  have m: "0 \<le> m" "m < 4096" by (simp_all add: m_def)
  have seq: "0 \<le> sequence g" "sequence g < 4096"
    using assms(2) by (auto simp: snow_ok_def)
  have step: "m \<noteq> 0 \<Longrightarrow> m = sequence g + 1"
  proof -
    assume "m \<noteq> 0"
    then have "sequence g + 1 \<noteq> 4096" by (auto simp: m_def)
    then show "m = sequence g + 1" using seq by (simp add: m_def)
  qed
  consider (later) "last_timestamp g < u" | (same) "u = last_timestamp g" | (behind) "u < last_timestamp g"
    by linarith
  then show ?thesis
  proof cases
    case later
    then have "i = compose_id g u 0 \<and> g' = g\<lparr>sequence := 0, last_timestamp := u\<rparr>"
      using assms(1) Cons by simp
    with later show ?thesis by (intro exI [of _ u] exI [of _ 0]) simp
  next
    case same
    then have n: "(if m = 0 then
          (case wait_next_millis u us of None \<Rightarrow> None
           | Some (t, r) \<Rightarrow> Some (Inr (compose_id g t m, g\<lparr>sequence := m, last_timestamp := t\<rparr>, r)))
        else Some (Inr (compose_id g u m, g\<lparr>sequence := m, last_timestamp := u\<rparr>, us)))
        = Some (Inr (i, g', rest) :: (int \<times> snow \<times> int list) result)"
      using assms(1) Cons unfolding m_def
      by (auto simp: seq_mask Let_def split: if_splits option.splits)
    show ?thesis
    proof (cases "m = 0")
      case True
      with n obtain t where "wait_next_millis u us = Some (t, rest)" "i = compose_id g t m"
          "g' = g\<lparr>sequence := m, last_timestamp := t\<rparr>"
        by (auto split: option.splits)
      then show ?thesis
        using m same wait_next_millis_later by blast
    next
      case False
      with n have "i = compose_id g u m \<and> g' = g\<lparr>sequence := m, last_timestamp := u\<rparr>" by simp
      then show ?thesis
        using m same step [OF False] by blast
    qed
  next
    case behind
    then show ?thesis using assms(1) Cons by simp
  qed
qed

lemma compose_id_less:
  assumes "snow_ok g" and "0 \<le> s" "s < 4096" and "0 \<le> s'" "s' < 4096"
    and "t < t' \<or> t' = t \<and> s < s'"
  shows "compose_id g t s < compose_id g t' s'"
  using assms(6)
proof
  assume "t < t'"
  then have "(t - epoch_ms + 1) * 4194304 \<le> (t' - epoch_ms) * 4194304" by simp
  then show ?thesis
    using assms(1-5) unfolding compose_id_arith [OF assms(1,2,3)] compose_id_arith [OF assms(1,4,5)]
    by (auto simp: snow_ok_def)
next
  assume "t' = t \<and> s < s'"
  then show ?thesis
    by (simp add: compose_id_arith [OF assms(1,2,3)] compose_id_arith [OF assms(1,4,5)])
qed

lemma compose_id_frame [simp]:
  "compose_id (g\<lparr>sequence := a, last_timestamp := b\<rparr>) t s = compose_id g t s"
  by (simp add: compose_id_def)

lemma snow_draw_grows:
  assumes "snow_ok (fst st)" and "snow_draw st = Some (i, st')"
  shows "snow_last st < i \<and> snow_last st' = i \<and> snow_ok (fst st')"
proof -
  obtain g ts where st: "st = (g, ts)" by (cases st)
  obtain g' rest where st': "st' = (g', rest)" by (cases st')
  have "next_id g ts = Some (Inr (i, g', rest))"
    using assms(2) st st' by (auto simp: snow_draw_def split: option.splits sum.splits)
  then obtain t s where ts: "i = compose_id g t s" "g' = g\<lparr>sequence := s, last_timestamp := t\<rparr>"
      "0 \<le> s" "s < 4096" "last_timestamp g < t \<or> t = last_timestamp g \<and> s = sequence g + 1"
    using next_id_shape [of g ts i g' rest] assms(1) st by auto
  then show ?thesis
    using assms(1) st st' compose_id_less [of g "sequence g" s "last_timestamp g" t]
    by (auto simp: snow_last_def snow_ok_def)
qed

interpretation snow: growing_source snow_draw snow_last "\<lambda>st. snow_ok (fst st)"
  by unfold_locales (use snow_draw_grows in blast)+

end
