(* ===== verification/Number_Props.thy ===== *)
theory Number_Props
  imports Snowflake
begin

text \<open>
  What the order numbers promise: a generator never gives a number twice, and it waits for
  ever only when the clock stands still on an exhausted millisecond.
\<close>

fun order_nos :: "string \<Rightarrow> nat \<Rightarrow> snow \<Rightarrow> int list \<Rightarrow> string list" where
  "order_nos prefix 0 g ts = []"
| "order_nos prefix (Suc n) g ts =
     (case next_order_no prefix g ts of
        Some (Inr (no, g', rest)) \<Rightarrow> no # order_nos prefix n g' rest
      | _ \<Rightarrow> [])"

lemma order_nos_draws: "order_nos prefix n g ts = map (\<lambda>i. prefix @ str_int i) (draws snow_draw n (g, ts))"
  by (induction n arbitrary: g ts)
     (auto simp: snow_draw_def next_order_no_def split: option.splits sum.splits)

lemma new_generator_ok: "new_generator w dc = Inr g \<Longrightarrow> snow_ok g"
  by (auto simp: new_generator_def snow_ok_def split: if_splits)

text \<open>
  C37 The order numbers of a process never repeat: whatever the clock does between the calls,
  the numbers that a generator gives for one prefix are pairwise different, and each of them
  is above all earlier ones as an id.
\<close>

theorem order_numbers_unique:
  assumes "new_generator w dc = Inr g"
  shows "distinct (order_nos prefix n g ts) \<and> sorted_wrt (<) (draws snow_draw n (g, ts))"
proof -
  have ok: "snow_ok (fst (g, ts))"
    using new_generator_ok [OF assms] by simp
  have "inj_on (\<lambda>i. prefix @ str_int i) (set (draws snow_draw n (g, ts)))"
    by (auto simp: inj_on_def dest: str_int_inj)
  then show ?thesis
    using snow.draws_distinct [OF ok] snow.draws_sorted [OF ok]
    by (simp add: order_nos_draws distinct_map)
qed

theorem order_numbers_unique_witness:
  "distinct (order_nos ''XO'' 3 \<lparr>worker_id = 1, datacenter_id = 0, sequence = 0, last_timestamp = -1\<rparr>
     [1704067200005, 1704067200005, 1704067200006])
   \<and> length (order_nos ''XO'' 3 \<lparr>worker_id = 1, datacenter_id = 0, sequence = 0, last_timestamp = -1\<rparr>
     [1704067200005, 1704067200005, 1704067200006]) = 3"
proof -
  have "new_generator 1 0 = Inr \<lparr>worker_id = 1, datacenter_id = 0, sequence = 0, last_timestamp = -1\<rparr>"
    by (simp add: new_generator_def)
  from order_numbers_unique [OF this, of "''XO''" 3 "[1704067200005, 1704067200005, 1704067200006]"]
  show ?thesis
    by (simp add: numeral_3_eq_3 next_order_no_def)
qed

lemma wait_next_millis_None: "wait_next_millis c ts = None \<longleftrightarrow> list_all (\<lambda>t. t \<le> c) ts"
  by (induction ts) auto

lemma wrapped_sequence: "snow_ok g \<Longrightarrow> (sequence g + 1) AND 0xFFF = 0 \<longleftrightarrow> sequence g = 4095"
  by (cases "sequence g = 4095") (auto simp: seq_mask snow_ok_def mod_pos_pos_trivial)

text \<open>
  C38 The wait for the next millisecond ends as soon as the clock moves: with a reading at
  hand, a call fails exactly when the clock has gone back, does not return exactly when the
  4096 numbers of the last millisecond are used up and no later reading comes, and otherwise
  gives an id above the last one.
\<close>

theorem id_wait_ends:
  assumes "snow_ok g"
  shows "(case next_id g (t # ts) of
      None \<Rightarrow> t = last_timestamp g \<and> sequence g = 4095 \<and> list_all (\<lambda>u. u \<le> t) ts
    | Some (Inl e) \<Rightarrow> t < last_timestamp g
    | Some (Inr (i, g', rest)) \<Rightarrow>
        last_timestamp g \<le> t \<and> (t = last_timestamp g \<and> sequence g = 4095 \<longrightarrow> list_ex (\<lambda>u. t < u) ts)
        \<and> snow_last (g, t # ts) < i)"
proof (cases "next_id g (t # ts)")
  case None
  then show ?thesis
    using wrapped_sequence [OF assms]
    by (auto simp: Let_def wait_next_millis_None split: if_splits option.splits)
next
  case (Some r)
  show ?thesis
  proof (cases r)
    case (Inl e)
    with Some show ?thesis
      by (auto simp: Let_def split: if_splits option.splits)
  next
    case (Inr p)
    obtain i g' rest where p: "p = (i, g', rest)" by (cases p)
    have "snow_draw (g, t # ts) = Some (i, g', rest)"
      using Some Inr p by (simp add: snow_draw_def)
    then have "snow_last (g, t # ts) < i"
      using snow_draw_grows [of "(g, t # ts)"] assms by simp
    moreover have "last_timestamp g \<le> t"
      using Some Inr p by (auto split: if_splits)
    moreover have "list_ex (\<lambda>u. t < u) ts" if "t = last_timestamp g" "sequence g = 4095"
    proof -
      have "wait_next_millis t ts \<noteq> None"
        using Some Inr p that wrapped_sequence [OF assms]
        by (auto simp: Let_def split: if_splits option.splits)
      then show ?thesis
        by (auto simp: wait_next_millis_None list_ex_iff list_all_iff not_le)
    qed
    ultimately show ?thesis
      using Some Inr p by simp
  qed
qed


definition full_generator :: snow where
  "full_generator = \<lparr>worker_id = 1, datacenter_id = 0, sequence = 4095, last_timestamp = 7\<rparr>"

theorem id_wait_ends_witness:
  "snow_ok full_generator \<and> next_id full_generator [7, 7, 7] = None \<and>
   (case next_id full_generator [7, 7, 8] of
      Some (Inr (i, g, rest)) \<Rightarrow> snow_last (full_generator, [7, 7, 8]) < i \<and> sequence g = 0 | _ \<Rightarrow> False)"
proof -
  have ok: "snow_ok full_generator"
    by (simp add: full_generator_def snow_ok_def)
  show ?thesis
    using ok id_wait_ends [OF ok, of 7 "[7, 7]"] id_wait_ends [OF ok, of 7 "[7, 8]"]
    by (simp add: full_generator_def)
qed

end
