(* ===== verification/Vip_Props.thy ===== *)
theory Vip_Props
  imports Samples
begin

text \<open>
  What a stored list of membership plans looks like to the rest of the program, whatever the
  settings row holds.
\<close>

definition plan_ok :: "plan \<Rightarrow> bool" where
  "plan_ok p \<longleftrightarrow> 0 < vp_id p \<and> vp_name p \<noteq> [] \<and> length (vp_name p) \<le> 40 \<and>
     vp_vip_type p \<noteq> [] \<and> length (vp_vip_type p) \<le> 30 \<and> 1 \<le> vp_price p \<and> vp_price p \<le> 9999999 \<and>
     1 \<le> vp_duration_days p \<and> vp_duration_days p \<le> 3650 \<and> length (vp_note p) \<le> 100 \<and>
     length (vp_badge p) \<le> 16 \<and> vp_benefits p \<noteq> [] \<and> length (vp_benefits p) \<le> 12 \<and>
     list_all (\<lambda>b. b \<noteq> [] \<and> length b \<le> 100) (vp_benefits p)"

definition plans_ok :: "plan list \<Rightarrow> bool" where
  "plans_ok ps \<longleftrightarrow> ps \<noteq> [] \<and> list_all plan_ok ps \<and> distinct (map vp_id ps) \<and> sorted (map plan_order ps)"

lemma clean_benefits_ok:
  "clean_benefits xs \<noteq> [] \<and> length (clean_benefits xs) \<le> 12 \<and>
   list_all (\<lambda>b. b \<noteq> [] \<and> length b \<le> 100) (clean_benefits xs)"
proof -
  let ?bs = "filter (\<lambda>b. b \<noteq> []) (map (\<lambda>x. text_limit x 100) xs)"
  have "list_all (\<lambda>b. b \<noteq> [] \<and> length b \<le> 100) (take 12 ?bs)"
    using text_limit_length [of _ 100] by (auto simp: list_all_iff dest!: in_set_takeD)
  moreover have "list_all (\<lambda>b. b \<noteq> [] \<and> length b \<le> 100) default_benefits"
    by (simp add: default_benefits_def)
  ultimately show ?thesis
    by (auto simp: clean_benefits_def Let_def default_benefits_def)
qed

lemma plan_price_bounds: "1 \<le> plan_price v f \<and> plan_price v f \<le> 9999999"
  by (simp add: plan_price_def Let_def clamp_bounds)

lemma default_plans_ok: "list_all plan_ok default_plans"
  by code_simp

lemma default_plan_ok: "find_by vp_id pid default_plans = Some p \<Longrightarrow> plan_ok p"
  using default_plans_ok by (auto simp: list_all_iff dest: find_by_SomeD)

lemma default_days:
  "find_by vp_id pid default_plans = fb \<Longrightarrow>
   1 \<le> (case fb of Some q \<Rightarrow> vp_duration_days q | None \<Rightarrow> 30) \<and>
   (case fb of Some q \<Rightarrow> vp_duration_days q | None \<Rightarrow> 30) \<le> 3650"
  using default_plan_ok [of pid] by (auto simp: plan_ok_def split: option.splits)

lemma plan_numbers_days:
  "find_by vp_id pid default_plans = fb \<Longrightarrow>
   1 \<le> fst (plan_numbers item fb index) \<and> fst (plan_numbers item fb index) \<le> 3650"
  using default_days [of pid fb] by (auto simp: plan_numbers_def clamp_def split: option.splits)

lemma plan_of_item_ok:
  assumes "find_by vp_id pid default_plans = fb" and "0 < pid" and "plan_name item fb \<noteq> []"
    and "plan_type item fb (plan_name item fb) \<noteq> []"
  shows "plan_ok (plan_of_item item fb index pid bs)"
  using assms(2-4) plan_numbers_days [OF assms(1), of item index] clean_benefits_ok [of bs]
    plan_price_bounds text_limit_length
  by (simp add: plan_ok_def plan_of_item_def plan_name_def plan_type_def)

lemma normalize_plan_ok:
  assumes "normalize_plan used index item = Inr (Some p)"
  shows "plan_ok p \<and> vp_id p \<notin> used"
proof -
  obtain kvs where item: "item = JObj kvs"
    using assms by (cases item) (simp_all add: normalize_plan_def)
  obtain pid where pid: "json_int (json_or (jget item ''id'') (JInt (index + 1))) = Some pid"
    using assms item by (auto simp: normalize_plan_def split: option.splits)
  define fb where "fb = find_by vp_id pid default_plans"
  have ok: "0 < pid" "pid \<notin> used" "plan_name item fb \<noteq> []" "plan_type item fb (plan_name item fb) \<noteq> []"
    and p: "\<exists>bs. p = plan_of_item item fb index pid bs"
    using assms pid item by (auto simp: normalize_plan_def Let_def fb_def split: if_splits sum.splits)
  then show ?thesis
    using plan_of_item_ok [OF fb_def [symmetric] ok(1,3,4)] by (auto simp: plan_of_item_def)
qed

lemma normalize_loop_ok:
  "normalize_loop used index rows = Inr ps \<Longrightarrow>
   list_all plan_ok ps \<and> distinct (map vp_id ps) \<and> set (map vp_id ps) \<inter> used = {}"
proof (induction used index rows arbitrary: ps rule: normalize_loop.induct)
  case (2 used index item rows)
  show ?case
  proof (cases "normalize_plan used index item")
    case (Inr r)
    show ?thesis
    proof (cases r)
      case None
      then show ?thesis using 2 Inr by simp
    next
      case (Some p)
      obtain qs where qs: "normalize_loop (insert (vp_id p) used) (index + 1) rows = Inr qs" "ps = p # qs"
        using 2(3) Inr Some by (auto simp: map_sum_eq_Inr)
      have "list_all plan_ok qs \<and> distinct (map vp_id qs) \<and> set (map vp_id qs) \<inter> insert (vp_id p) used = {}"
        using 2(2) [OF Inr Some qs(1)] by simp
      then show ?thesis
        using normalize_plan_ok [of used index item p] Inr Some qs(2) by auto
    qed
  qed (use 2 in simp)
qed simp

text \<open>
  C39 Whatever JSON value the settings row of the membership plans holds, a successful read
  gives a well-formed list: not empty, sorted, with distinct positive ids, a price of at
  least one cent and at most 99999.99, a duration of 1 to 3650 days, and texts and benefits
  within their limits; and the price and the duration of a plan found by its id are those of
  its only entry.
\<close>

theorem vip_plans_well_formed:
  assumes "get_vip_plans d True = Inr ps"
  shows "plans_ok ps \<and> (p \<in> set ps \<longrightarrow> get_vip_plan d (vp_id p) True = Inr (Some p))"
proof -
  obtain v qs where n: "normalize_loop {} 0 v = Inr qs"
      and ps: "ps = sort_key plan_order (if qs = [] then default_plans else qs)"
    using assms by (auto simp: get_vip_plans_def normalize_vip_plans_def Let_def map_sum_eq_Inr)
  let ?qs = "if qs = [] then default_plans else qs"
  have q: "list_all plan_ok ?qs \<and> distinct (map vp_id ?qs)"
    using normalize_loop_ok [OF n] default_plans_ok by (simp add: default_plans_def)
  then have ok: "plans_ok ps"
    by (auto simp: ps plans_ok_def list_all_iff distinct_map sort_key_Nil default_plans_def)
  moreover have "find_by vp_id (vp_id p) ps = Some p" if "p \<in> set ps"
    using that ok by (simp add: plans_ok_def find_by_distinct)
  ultimately show ?thesis
    using assms by (simp add: get_vip_plan_def)
qed

definition odd_plans :: json where
  "odd_plans = JObj [(''plans'', JList [JNull,
     JObj [(''id'', JInt 7), (''name'', JStr '' trip ''), (''price'', JStr ''free''), (''duration_days'', JInt 9000)],
     JObj [(''id'', JInt 7), (''name'', JStr ''again'')], JObj [(''id'', JInt (-2))]])]"

definition odd_db :: db where
  "odd_db = save_setting vip_key odd_plans [] empty_db"

definition odd_plan :: plan where
  "odd_plan = \<lparr>vp_id = 7, vp_name = ''trip'', vp_vip_type = ''trip'', vp_price = 100, vp_duration_days = 3650,
     vp_note = [], vp_badge = [], vp_benefits = default_benefits, vp_enabled = True, vp_sort_order = 20\<rparr>"

theorem vip_plans_well_formed_witness:
  "get_vip_plans odd_db True = Inr [odd_plan] \<and> plans_ok [odd_plan] \<and>
   get_vip_plan odd_db 7 True = Inr (Some odd_plan)"
proof -
  have r: "get_vip_plans odd_db True = Inr [odd_plan]"
    by code_simp
  show ?thesis
    using r vip_plans_well_formed [OF r, of odd_plan] by (simp add: odd_plan_def)
qed

end
