(* ===== verification/Travel_Orders.thy ===== *)
theory Travel_Orders
  imports Travel_Service Asset_Access
begin

text \<open>
  \<open>app/api/travel_orders.py\<close>: what a traveller does with an order, from the exchange of
  points for a place on a route to the signature of the contract, the pickup information,
  the confirmation and the cancellation, and the reviews of routes. \<open>user\<close> is the account
  the session was resolved to. \<open>others\<close> is what other sessions commit while a request waits
  for a lock or before a flush. A handler that fails after a commit returns the database
  as well. The check of the date field (\<open>validate_travel_date\<close>, \<open>app/schemas/api.py\<close>) is
  here too.
\<close>

definition validate_travel_date :: "string \<Rightarrow> string result" where
  "validate_travel_date value =
    (let text = strip value in
     if text = [] then Inr text
     else if strptime_date CHR ''-'' text \<noteq> None \<or> strptime_date CHR ''/'' text \<noteq> None then Inr text
     else Inl (ValueError ''travel_date''))"

section \<open>The signature image\<close>

definition base64_val :: "char \<Rightarrow> nat option" where
  "base64_val c =
    (let n = of_char c :: nat in
     if 65 \<le> n \<and> n \<le> 90 then Some (n - 65)
     else if 97 \<le> n \<and> n \<le> 122 then Some (n - 71)
     else if 48 \<le> n \<and> n \<le> 57 then Some (n + 4)
     else if n = 43 then Some 62 else if n = 47 then Some 63 else None)"

text \<open>\<open>base64.b64decode(s, validate=True)\<close>; \<open>None\<close> is \<open>binascii.Error\<close>.\<close>

fun base64_decode :: "string \<Rightarrow> bytes option" where
  "base64_decode [] = Some []"
| "base64_decode (a # b # c # e # rest) =
     (case (base64_val a, base64_val b) of
        (Some x, Some y) \<Rightarrow>
          if c = CHR 0x3D \<and> e = CHR 0x3D then (if rest = [] then Some [x * 4 + y div 16] else None)
          else (case base64_val c of
             None \<Rightarrow> None
           | Some z \<Rightarrow>
               if e = CHR 0x3D then
                 (if rest = [] then Some [x * 4 + y div 16, y mod 16 * 16 + z div 4] else None)
               else (case (base64_val e, base64_decode rest) of
                  (Some w, Some bs) \<Rightarrow>
                    Some ([x * 4 + y div 16, y mod 16 * 16 + z div 4, z mod 4 * 64 + w] @ bs)
                | _ \<Rightarrow> None))
      | _ \<Rightarrow> None)"
| "base64_decode _ = None"

definition hex_val :: "char \<Rightarrow> nat option" where
  "hex_val c = map_of (zip ''0123456789abcdefABCDEF'' [0, 1, 2, 3, 4, 5, 6, 7, 8, 9, 10, 11, 12, 13, 14, 15, 10, 11, 12, 13, 14, 15]) c"

text \<open>\<open>unquote_to_bytes\<close>: a percent sign and two hexadecimal digits are a byte.\<close>

fun unquote_bytes :: "string \<Rightarrow> bytes" where
  "unquote_bytes [] = []"
| "unquote_bytes [a] = utf8_char a"
| "unquote_bytes [a, b] = utf8_char a @ utf8_char b"
| "unquote_bytes (a # b # c # rest) =
     (if a = CHR 0x25 then
        (case (hex_val b, hex_val c) of
           (Some x, Some y) \<Rightarrow> (16 * x + y) # unquote_bytes rest
         | _ \<Rightarrow> utf8_char a @ unquote_bytes (b # c # rest))
      else utf8_char a @ unquote_bytes (b # c # rest))"

definition signature_suffixes :: "(string \<times> string) list" where
  "signature_suffixes = [(''image/png'', ''.png''), (''image/jpeg'', ''.jpg''), (''image/jpg'', ''.jpg''),
     (''image/svg+xml'', ''.svg''), (''image/webp'', ''.webp'')]"

text \<open>The content, its type and its suffix, or the error the request ends with.\<close>

definition decode_signature :: "string \<Rightarrow> (bytes \<times> string \<times> string) result" where
  "decode_signature signature_data =
    (let data = strip signature_data in
     case split_at (\<lambda>c. c = CHR '','') data of
       (header, Some payload) \<Rightarrow>
         if \<not> prefix ''data:'' data then Inl (HTTPException 422 ''Invalid signature image'')
         else
           (let mime = str_or (to_lower (takeWhile (\<lambda>c. c \<noteq> CHR '';'') (drop 5 header))) ''image/png'' in
            case map_of signature_suffixes mime of
              None \<Rightarrow> Inl (HTTPException 422 ''Unsupported signature image type'')
            | Some sfx \<Rightarrow>
                (case (if sublist '';base64'' header then base64_decode payload else Some (unquote_bytes payload)) of
                   None \<Rightarrow> Inl (HTTPException 422 ''Invalid signature image data'')
                 | Some content \<Rightarrow>
                     if length content < 32 then Inl (HTTPException 422 ''Signature image is empty'')
                     else if 500000 < length content then Inl (HTTPException 413 ''Signature image is too large'')
                     else Inr (content, mime, sfx)))
     | (_, None) \<Rightarrow> Inl (HTTPException 422 ''Invalid signature image''))"

definition add_asset :: "uploaded_asset \<Rightarrow> db \<Rightarrow> int \<times> db" where
  "add_asset a d =
    (let aid = fresh_id as_id (assets d) in (aid, d\<lparr>assets := assets d @ [a\<lparr>as_id := aid\<rparr>]\<rparr>))"

definition stored_asset :: "string \<Rightarrow> stored_file \<Rightarrow> string \<Rightarrow> string \<Rightarrow> string \<Rightarrow> int \<Rightarrow> int \<Rightarrow> uploaded_asset" where
  "stored_asset source stored filename original mime nbytes uid =
    \<lparr>as_id = 0, as_source = source, as_storage = sf_storage stored, as_bucket = sf_bucket stored,
     as_object_key = sf_object_key stored, as_path = sf_path stored, as_url = sf_url stored,
     as_filename = filename, as_original_name = original, as_mime_type = mime, as_size = nbytes,
     as_uploader_role = ''user'', as_user_id = Some uid, as_conversation_id = []\<rparr>"

definition save_contract_signature ::
  "config \<Rightarrow> obs_client \<Rightarrow> time \<Rightarrow> string \<Rightarrow> string \<Rightarrow> int \<Rightarrow> disk \<times> db \<Rightarrow> (string \<times> disk \<times> db) result" where
  "save_contract_signature c client now signature_data order_no uid st =
    (case decode_signature signature_data of
       Inl e \<Rightarrow> Inl e
     | Inr (content, mime, sfx) \<Rightarrow>
         (let name = order_no @ ''-signature'' @ sfx in
          case save_upload_bytes c client now content (Some name) (Some mime) ''contracts/signatures'' st of
            Inl e \<Rightarrow> Inl e
          | Inr (stored, fs, d) \<Rightarrow>
              (case add_asset (stored_asset ''contract_signature'' stored name name mime
                       (int (length content)) uid) d of
                 (aid, d') \<Rightarrow> Inr (asset_api_url c aid, fs, d'))))"

section \<open>Reading orders\<close>

definition travel_order_owned_by :: "travel_order \<Rightarrow> user_account \<Rightarrow> bool" where
  "travel_order_owned_by order user \<longleftrightarrow> to_user_id order \<noteq> 0 \<and> to_user_id order = ua_id user"

definition normalize_fulfillment_status :: "travel_order \<Rightarrow> travel_order" where
  "normalize_fulfillment_status order =
    (if to_contract_status order = ConApproved
        \<and> to_fulfillment_status order \<in> {None, Some CONTRACT_PENDING, Some CONTRACT_REVIEWING}
     then order\<lparr>to_fulfillment_status := Some INFO_PENDING\<rparr> else order)"

definition get_my_travel_order :: "db \<Rightarrow> int \<Rightarrow> user_account \<Rightarrow> travel_order result" where
  "get_my_travel_order d order_id user =
    (case find_travel d order_id of
       None \<Rightarrow> Inl (HTTPException 404 ''Travel order not found'')
     | Some order \<Rightarrow>
         if travel_order_owned_by order user then Inr (normalize_fulfillment_status order)
         else Inl (HTTPException 404 ''Travel order not found''))"

text \<open>\<open>order_by(desc(created_at), desc(id))\<close>.\<close>

definition newest_first :: "travel_order list \<Rightarrow> travel_order list" where
  "newest_first os = sort_key (\<lambda>o1. (- to_created_at o1, - to_id o1)) os"

definition my_travel_orders :: "db \<Rightarrow> user_account \<Rightarrow> travel_order list \<times> db" where
  "my_travel_orders d user =
    (newest_first (map normalize_fulfillment_status
        (filter (\<lambda>o1. to_user_id o1 = ua_id user) (travel_orders d))),
     d\<lparr>travel_orders := map (\<lambda>o1. if to_user_id o1 = ua_id user then normalize_fulfillment_status o1 else o1)
          (travel_orders d)\<rparr>)"

text \<open>What an answer shows of an order beside its columns.\<close>

record order_view =
  ov_order :: travel_order
  ov_image :: string
  ov_template_title :: string
  ov_template_content :: string
  ov_template_days :: int

definition is_blank :: "string option \<Rightarrow> bool" where
  "is_blank s \<longleftrightarrow> s = None \<or> s = Some []"

text \<open>A Python dictionary built from a list of pairs: the last pair of a key counts.\<close>

definition dict_of :: "('k \<times> 'v) list \<Rightarrow> 'k \<Rightarrow> 'v option" where
  "dict_of kvs = map_of (rev kvs)"

definition attach_route_images :: "db \<Rightarrow> travel_order list \<Rightarrow> travel_order \<Rightarrow> string" where
  "attach_route_images d os order =
    (let ids = map to_route_id (filter (\<lambda>o1. to_route_id o1 \<noteq> 0 \<and> is_blank (to_cover o1)) os);
         by_id = dict_of (map (\<lambda>r. (tr_id r, tr_image r))
           (filter (\<lambda>r. List.member ids (tr_id r) \<and> tr_image r \<noteq> []) (routes d)));
         titles = map to_title (filter (\<lambda>o1. to_title o1 \<noteq> [] \<and> is_blank (to_cover o1) \<and> to_route_id o1 = 0) os);
         by_name = dict_of (map (\<lambda>r. (tr_name r, tr_image r))
           (filter (\<lambda>r. List.member titles (tr_name r) \<and> tr_image r \<noteq> []) (routes d)))
     in case to_cover order of
          Some (c # cs) \<Rightarrow> c # cs
        | _ \<Rightarrow> (case by_id (to_route_id order) of
            Some img \<Rightarrow> img
          | None \<Rightarrow> (case by_name (to_title order) of Some img \<Rightarrow> img | None \<Rightarrow> [])))"

definition attach_contract_snapshots :: "db \<Rightarrow> travel_order list \<Rightarrow> travel_order \<Rightarrow> contract_snapshot option" where
  "attach_contract_snapshots d os order =
    (let ids = map to_contract_template_snapshot_id (filter (\<lambda>o1. to_contract_template_snapshot_id o1 \<noteq> 0) os);
         versions = map to_contract_template_version
           (filter (\<lambda>o1. to_contract_template_version o1 \<noteq> 0 \<and> to_contract_template_snapshot_id o1 = 0) os);
         loaded = filter (\<lambda>s. List.member ids (cs_id s)) (snapshots d)
           @ filter (\<lambda>s. List.member versions (cs_version s)) (snapshots d)
     in case dict_of (map (\<lambda>s. (cs_id s, s)) loaded) (to_contract_template_snapshot_id order) of
          Some s \<Rightarrow> Some s
        | None \<Rightarrow> dict_of (map (\<lambda>s. (cs_version s, s)) loaded) (to_contract_template_version order))"

definition legacy_key :: "travel_order \<Rightarrow> string option" where
  "legacy_key order =
    (let url = strip (case to_contract_signature_url order of Some u \<Rightarrow> u | None \<Rightarrow> []) in
     if prefix ''/uploads/'' url then Some (drop (length ''/uploads/'') url)
     else if prefix ''http://'' url \<or> prefix ''https://'' url then Some (lstrip_slash (url_path url))
     else None)"

definition attach_contract_signature_asset :: "config \<Rightarrow> db \<Rightarrow> travel_order list \<Rightarrow> travel_order \<Rightarrow> travel_order" where
  "attach_contract_signature_asset c d os order =
    (let keys = List.map_filter legacy_key os;
         found = filter (\<lambda>a. as_source a = ''contract_signature'' \<and> List.member keys (as_object_key a)) (assets d);
         key = (case legacy_key order of Some k \<Rightarrow> k | None \<Rightarrow> [])
     in if keys = [] then order
        else case dict_of (map (\<lambda>a. (as_object_key a, as_id a)) found) key of
          Some aid \<Rightarrow> order\<lparr>to_contract_signature_url := Some (asset_api_url c aid)\<rparr>
        | None \<Rightarrow> order)"

definition current_route_texts :: "db \<Rightarrow> travel_order \<Rightarrow> travel_order" where
  "current_route_texts d order =
    (if to_contract_status order \<in> {ConUnsigned, ConRejected} \<and> to_route_id order \<noteq> 0 then
       (case find_route d (to_route_id order) of
          Some r \<Rightarrow> order\<lparr>to_title := tr_name r, to_agency := tr_agency r\<rparr>
        | None \<Rightarrow> order)
     else order)"

definition filled :: "string option \<Rightarrow> string option" where
  "filled s = Some (case s of Some t \<Rightarrow> t | None \<Rightarrow> [])"

definition attach_travel_order_details :: "config \<Rightarrow> db \<Rightarrow> travel_order list \<Rightarrow> order_view list" where
  "attach_travel_order_details c d os0 =
    (let os = map (current_route_texts d) os0 in
     map (\<lambda>order.
        let img = attach_route_images d os order;
            snap = attach_contract_snapshots d os order;
            shown = attach_contract_signature_asset c d os order
        in \<lparr>ov_order = shown\<lparr>to_cover := filled (to_cover shown),
              to_contract_signature_data := filled (to_contract_signature_data shown),
              to_contract_signature_url := filled (to_contract_signature_url shown)\<rparr>,
            ov_image = img,
            ov_template_title = (case snap of Some s \<Rightarrow> cs_title s | None \<Rightarrow> []),
            ov_template_content = (case snap of Some s \<Rightarrow> cs_content s | None \<Rightarrow> []),
            ov_template_days = (case snap of Some s \<Rightarrow> cs_travel_date_days s | None \<Rightarrow> 0)\<rparr>) os)"

section \<open>Exchange\<close>

definition find_exchange :: "db \<Rightarrow> int \<Rightarrow> string \<Rightarrow> travel_order option" where
  "find_exchange d uid key =
    List.find (\<lambda>o1. to_user_id o1 = uid \<and> to_idempotency_key o1 = key) (travel_orders d)"

definition open_route :: "db \<Rightarrow> int \<Rightarrow> travel_route option" where
  "open_route d rid =
    (case find_route d rid of
       Some r \<Rightarrow> if tr_status r \<and> tr_review_status r = RevApproved then Some r else None
     | None \<Rightarrow> None)"

text \<open>\<open>int(route.price or 0)\<close>: the price is a number of points kept as a decimal.\<close>

definition required_points :: "travel_route \<Rightarrow> int" where
  "required_points r = sgn (tr_price r) * (\<bar>tr_price r\<bar> div 100)"

definition exchange_order ::
  "time \<Rightarrow> int \<Rightarrow> string \<Rightarrow> user_account \<Rightarrow> travel_route \<Rightarrow> string \<Rightarrow> string \<Rightarrow> travel_order" where
  "exchange_order now oid no user r travel_date key =
    \<lparr>to_id = oid, to_order_no = no, to_user_id = ua_id user, to_user_no = ua_user_no user,
     to_route_id = tr_id r, to_order_type = ''points_exchange'', to_title = tr_name r,
     to_user_name = ua_nickname user, to_phone = ua_phone user, to_travel_date = strip travel_date,
     to_agency = tr_agency r, to_amount_text = str_int (required_points r) @ '' points'',
     to_cover = Some (tr_image r), to_idempotency_key = key, to_points_cost = required_points r,
     to_points_refunded = False, to_stock_restored = False, to_status = TravelCreated,
     to_reject_reason = [], to_contract_status = ConUnsigned, to_contract_signer_name = [],
     to_contract_signer_phone = [], to_contract_id_no = [], to_contract_template_version = 0,
     to_contract_template_snapshot_id = 0, to_contract_signature_data = Some [],
     to_contract_signature_url = Some [], to_contract_signed_at = None, to_contract_reviewed_at = None,
     to_contract_reject_reason = [], to_fulfillment_status = Some CONTRACT_PENDING,
     to_pickup_address = [], to_pickup_detail = [], to_traveler_count = 1, to_emergency_contact = [],
     to_emergency_phone = [], to_luggage_count = 0, to_pickup_note = [], to_pickup_time = [],
     to_pickup_location = [], to_driver_name = [], to_driver_phone = [], to_vehicle_no = [],
     to_pickup_notice = [], to_pickup_confirmed_at = None, to_qr_token = [], to_qr_issued_at = None,
     to_qr_expires_at = None, to_checked_in_at = None, to_completed_at = None, to_cancelled_at = None,
     to_cancel_reason = [], to_exception_reason = [], to_created_at = now\<rparr>"

text \<open>The flush of a new order: its number and the user's idempotency key are unique.\<close>

definition flush_travel :: "travel_order \<Rightarrow> db \<Rightarrow> db result" where
  "flush_travel order d =
    (if list_ex (\<lambda>o1. to_order_no o1 = to_order_no order
          \<or> to_user_id o1 = to_user_id order \<and> to_idempotency_key o1 = to_idempotency_key order) (travel_orders d)
     then Inl IntegrityError else Inr (d\<lparr>travel_orders := travel_orders d @ [order]\<rparr>))"

definition exchange_entry :: "travel_order \<Rightarrow> entry" where
  "exchange_entry order =
    \<lparr>e_biz_type = ''travel_exchange'', e_biz_id = to_id order, e_biz_no = to_order_no order,
     e_key = ''travel-exchange:'' @ to_order_no order, e_remark = ''exchange '' @ to_title order\<rparr>"

definition spend_points :: "time \<Rightarrow> travel_order \<Rightarrow> db \<Rightarrow> db result" where
  "spend_points now order d =
    (if 0 < to_points_cost order
     then map_sum id snd (debit_locked d (to_user_id order) (to_points_cost order) (exchange_entry order) now)
     else Inr d)"

text \<open>The part in the \<open>try\<close>: insert, debit, take the place, audit.\<close>

definition place_exchange :: "time \<Rightarrow> user_account \<Rightarrow> travel_order \<Rightarrow> db \<Rightarrow> db result" where
  "place_exchange now user order d =
    (case flush_travel order d of
       Inl e \<Rightarrow> Inl e
     | Inr d1 \<Rightarrow>
         (case spend_points now order d1 of
            Inl e \<Rightarrow> Inl e
          | Inr d2 \<Rightarrow>
              Inr (audit_by order
                ((event ''order_created'' [] (fulfillment_value CONTRACT_PENDING))
                  \<lparr>ev_evidence := JObj [(''route_id'', JInt (to_route_id order)),
                     (''points_cost'', JInt (to_points_cost order))]\<rparr>)
                user (add_stock (to_route_id order) (-1) d2))))"

definition exchange_locked ::
  "time \<Rightarrow> db \<Rightarrow> user_account \<Rightarrow> int \<Rightarrow> string \<Rightarrow> string \<Rightarrow> (travel_order \<times> db) result" where
  "exchange_locked now d user route_id travel_date key =
    (case find_exchange d (ua_id user) key of
       Some existing \<Rightarrow> Inr (existing, d)
     | None \<Rightarrow>
         (case open_route d route_id of
            None \<Rightarrow> Inl (HTTPException 404 ''Route not found or offline'')
          | Some r \<Rightarrow>
              if tr_stock r \<le> 0 then Inl (HTTPException 400 ''Route stock is not enough'')
              else
                (case draw_no ''TR'' d of
                   (no, d1) \<Rightarrow>
                     (let order = exchange_order now (fresh_id to_id (travel_orders d1)) no user r travel_date key in
                      case place_exchange now user order d1 of
                        Inr d2 \<Rightarrow> Inr (order, d2)
                      | Inl IntegrityError \<Rightarrow> Inl expired_attribute
                      | Inl e \<Rightarrow> Inl e))))"

definition exchange_travel_route ::
  "(db \<Rightarrow> db) \<Rightarrow> time \<Rightarrow> db \<Rightarrow> user_account \<Rightarrow> int \<Rightarrow> string \<Rightarrow> string \<Rightarrow> (travel_order \<times> db) result" where
  "exchange_travel_route others now d user route_id travel_date idempotency_key =
    (let key = strip idempotency_key in
     case find_exchange d (ua_id user) key of
       Some existing \<Rightarrow> Inr (existing, d)
     | None \<Rightarrow>
         (let d1 = others d in
          case lock_user d1 (ua_id user) of
            Inl e \<Rightarrow> Inl e
          | Inr locked \<Rightarrow> exchange_locked now d1 locked route_id travel_date key))"

section \<open>Contract, pickup, confirmation\<close>

record sign_payload =
  sg_signer_name :: string
  sg_signer_phone :: string
  sg_id_no :: string
  sg_travel_date :: string
  sg_signature_data :: string

definition signed_order ::
  "time \<Rightarrow> user_account \<Rightarrow> sign_payload \<Rightarrow> travel_route option \<Rightarrow> snap_template \<Rightarrow> string \<Rightarrow> travel_order \<Rightarrow> travel_order" where
  "signed_order now user p route t url order =
    order\<lparr>to_title := (case route of Some r \<Rightarrow> tr_name r | None \<Rightarrow> to_title order),
      to_agency := (case route of Some r \<Rightarrow> tr_agency r | None \<Rightarrow> to_agency order),
      to_user_id := ua_id user, to_user_no := ua_user_no user,
      to_user_name := str_or (ua_nickname user) (strip (sg_signer_name p)),
      to_phone := str_or (ua_phone user) (strip (sg_signer_phone p)),
      to_contract_status := ConPending, to_fulfillment_status := Some CONTRACT_REVIEWING,
      to_contract_signer_name := strip (sg_signer_name p), to_contract_signer_phone := strip (sg_signer_phone p),
      to_contract_id_no := strip (sg_id_no p), to_travel_date := strip (sg_travel_date p),
      to_contract_template_version := st_version t, to_contract_template_snapshot_id := st_snapshot_id t,
      to_contract_signature_url := Some url, to_contract_signature_data := Some [],
      to_contract_signed_at := Some now, to_contract_reviewed_at := None, to_contract_reject_reason := []\<rparr>"

definition slash_to_dash :: "string \<Rightarrow> string" where
  "slash_to_dash s = map (\<lambda>c. if c = CHR ''/'' then CHR ''-'' else c) s"

definition check_sign_date :: "time \<Rightarrow> int \<Rightarrow> string \<Rightarrow> unit result" where
  "check_sign_date now window travel_date =
    (case from_iso (slash_to_dash (strip travel_date)) of
       None \<Rightarrow> Inl (ValueError ''fromisoformat'')
     | Some chosen \<Rightarrow>
         (case add_days (date_of now) (int_or window 30) of
            Inl e \<Rightarrow> Inl e
          | Inr last_day \<Rightarrow>
              if ordinal chosen < ordinal (date_of now) \<or> ordinal last_day < ordinal chosen
              then Inl (HTTPException 400 ''travel date'') else Inr ()))"

text \<open>
  Reading the template can commit a snapshot, so what follows that call returns the
  database on an error too.
\<close>

definition sign_travel_contract ::
  "config \<Rightarrow> obs_client \<Rightarrow> (db \<Rightarrow> db) \<Rightarrow> time \<Rightarrow> disk \<Rightarrow> db \<Rightarrow> int \<Rightarrow> sign_payload \<Rightarrow> user_account
    \<Rightarrow> travel_order result \<times> disk \<times> db" where
  "sign_travel_contract c client others now fs d order_id p user =
    (case get_my_travel_order d order_id user of
       Inl e \<Rightarrow> (Inl e, fs, d)
     | Inr item \<Rightarrow>
         if to_contract_status item = ConApproved then (Inl (HTTPException 400 ''Contract already approved''), fs, d)
         else if to_fulfillment_status item \<notin> {Some CONTRACT_PENDING, Some CONTRACT_REVIEWING, Some CONTRACT_REJECTED}
         then (Inl (HTTPException 400 ''Contract can no longer be signed''), fs, d)
         else case get_contract_template others now d of
           Inl e \<Rightarrow> (Inl e, fs, d)
         | Inr (t, d1) \<Rightarrow>
             (case check_sign_date now (ct_travel_date_days t) (sg_travel_date p) of
                Inl e \<Rightarrow> (Inl e, fs, d1)
              | Inr _ \<Rightarrow>
                  (case save_contract_signature c client now (sg_signature_data p) (to_order_no item) (ua_id user)
                          (fs, d1) of
                     Inl e \<Rightarrow> (Inl e, fs, d1)
                   | Inr (url, fs', d2) \<Rightarrow>
                       (let route = (if to_route_id item \<noteq> 0 then find_route d2 (to_route_id item) else None);
                            item' = signed_order now user p route t url item;
                            d3 = write_travel order_id (signed_order now user p route t url) d2
                        in (Inr item', fs', audit_by item'
                              ((event ''contract_signed'' (contract_value (to_contract_status item))
                                  (contract_value ConPending))
                                \<lparr>ev_evidence := JObj
                                  [(''contract_template_version'', JInt (st_version t)),
                                   (''contract_template_snapshot_id'', JInt (st_snapshot_id t)),
                                   (''signature_url'', JStr url), (''route_title'', JStr (to_title item')),
                                   (''agency'', JStr (to_agency item'))]\<rparr>)
                              user d3)))))"

record pickup_payload =
  pk_pickup_address :: string
  pk_pickup_detail :: string
  pk_traveler_count :: int
  pk_emergency_contact :: string
  pk_emergency_phone :: string
  pk_luggage_count :: int
  pk_pickup_note :: string

definition pickup_submitted :: "pickup_payload \<Rightarrow> travel_order \<Rightarrow> travel_order" where
  "pickup_submitted p order =
    order\<lparr>to_pickup_address := strip (pk_pickup_address p), to_pickup_detail := strip (pk_pickup_detail p),
      to_traveler_count := pk_traveler_count p, to_emergency_contact := strip (pk_emergency_contact p),
      to_emergency_phone := strip (pk_emergency_phone p), to_luggage_count := pk_luggage_count p,
      to_pickup_note := strip (pk_pickup_note p), to_fulfillment_status := Some INFO_SUBMITTED,
      to_pickup_confirmed_at := None, to_qr_token := [], to_qr_issued_at := None, to_qr_expires_at := None\<rparr>"

definition submit_travel_pickup_info ::
  "db \<Rightarrow> int \<Rightarrow> pickup_payload \<Rightarrow> user_account \<Rightarrow> (travel_order \<times> db) result" where
  "submit_travel_pickup_info d order_id p user =
    (case get_my_travel_order d order_id user of
       Inl e \<Rightarrow> Inl e
     | Inr item \<Rightarrow>
         if to_contract_status item \<noteq> ConApproved
         then Inl (HTTPException 400 ''Contract must be approved before pickup information'')
         else if to_fulfillment_status item \<notin> {Some INFO_PENDING, Some INFO_SUBMITTED, Some PICKUP_CONFIRMED}
         then Inl (HTTPException 400 ''Pickup information can no longer be changed'')
         else
           (let item' = pickup_submitted p item
            in Inr (item', audit_by item'
                 (event ''pickup_info_submitted'' (status_text (to_fulfillment_status item))
                   (fulfillment_value INFO_SUBMITTED)) user
                 (write_travel order_id (pickup_submitted p \<circ> normalize_fulfillment_status) d))))"

definition confirmed_order :: "time \<Rightarrow> string \<Rightarrow> time \<Rightarrow> travel_order \<Rightarrow> travel_order" where
  "confirmed_order now token expires order =
    (let o1 = order\<lparr>to_fulfillment_status := Some USER_CONFIRMED, to_pickup_confirmed_at := Some now\<rparr>
     in if to_qr_token order = [] then
          o1\<lparr>to_qr_token := token, to_qr_issued_at := Some now, to_qr_expires_at := Some expires\<rparr>
        else o1)"

definition expires_evidence :: "travel_order \<Rightarrow> json" where
  "expires_evidence order = JObj [(''qr_expires_at'',
     JStr (case to_qr_expires_at order of Some t \<Rightarrow> iso_time t | None \<Rightarrow> []))]"

definition issued_record :: "travel_order \<Rightarrow> user_account \<Rightarrow> db \<Rightarrow> db" where
  "issued_record order operator d =
    add_verification_record order ''issued'' (to_qr_token order) ''success'' (Some operator) [] [] [] d"

definition confirm_travel_pickup :: "time \<Rightarrow> db \<Rightarrow> int \<Rightarrow> user_account \<Rightarrow> (travel_order \<times> db) result" where
  "confirm_travel_pickup now d order_id user =
    (case get_my_travel_order d order_id user of
       Inl e \<Rightarrow> Inl e
     | Inr item \<Rightarrow>
         if to_contract_status item \<noteq> ConApproved then Inl (HTTPException 400 ''Contract has not been approved'')
         else if to_fulfillment_status item \<noteq> Some PICKUP_CONFIRMED
         then Inl (HTTPException 400 ''Pickup schedule has not been confirmed'')
         else
           (let fresh = (to_qr_token item = []);
                (token, d1) = (if fresh then draw_no ''uuid4'' d else ([], d));
                expiry = (if fresh then qr_expiry now (to_travel_date item) else Inr 0)
            in case expiry of
                 Inl e \<Rightarrow> Inl e
               | Inr t \<Rightarrow>
                   (let item' = confirmed_order now token t item;
                        d2 = write_travel order_id (confirmed_order now token t) d1;
                        d3 = (if fresh then issued_record item' user d2 else d2)
                    in Inr (item', audit_by item'
                         ((event ''pickup_confirmed_by_user'' (fulfillment_value PICKUP_CONFIRMED)
                             (fulfillment_value USER_CONFIRMED))\<lparr>ev_evidence := expires_evidence item'\<rparr>)
                         user d3))))"

definition cancel_my_travel_order ::
  "time \<Rightarrow> db \<Rightarrow> int \<Rightarrow> string \<Rightarrow> user_account \<Rightarrow> (travel_order \<times> db) result" where
  "cancel_my_travel_order now d order_id reason user = cancel_travel_order now d order_id user reason False"

end
