(* ===== verification/Travel_Admin.thy ===== *)
theory Travel_Admin
  imports Travel_Orders
begin

text \<open>
  The administrator's part of a travel order in \<open>app/api/admin.py\<close>: the review of the
  contract, the pickup schedule, the check-in code, the check-in itself, the trip and the
  exceptional states. \<open>check_in_order\<close> commits a verification record before it raises, so
  it returns the database with the error.
\<close>

definition no_order :: error where "no_order = HTTPException 404 ''Order not found''"

definition approved_order :: "time \<Rightarrow> travel_order \<Rightarrow> travel_order" where
  "approved_order now order =
    order\<lparr>to_contract_status := ConApproved, to_contract_reject_reason := [],
      to_fulfillment_status :=
        (if to_fulfillment_status order \<in> {None, Some CONTRACT_PENDING, Some CONTRACT_REVIEWING,
             Some CONTRACT_REJECTED} then Some INFO_PENDING else to_fulfillment_status order),
      to_contract_reviewed_at := Some now\<rparr>"

definition rejected_order :: "time \<Rightarrow> string \<Rightarrow> travel_order \<Rightarrow> travel_order" where
  "rejected_order now reject_reason order =
    order\<lparr>to_contract_status := ConRejected, to_contract_reject_reason := strip reject_reason,
      to_fulfillment_status := Some CONTRACT_REJECTED, to_contract_reviewed_at := Some now\<rparr>"

definition review_order_contract ::
  "time \<Rightarrow> db \<Rightarrow> int \<Rightarrow> bool \<Rightarrow> string \<Rightarrow> user_account \<Rightarrow> (travel_order \<times> db) result" where
  "review_order_contract now d order_id approved reject_reason admin =
    (case find_travel d order_id of
       None \<Rightarrow> Inl no_order
     | Some item \<Rightarrow>
         if to_contract_status item \<notin> {ConPending, ConRejected}
         then Inl (HTTPException 400 ''no contract to review'')
         else if \<not> approved \<and> strip reject_reason = [] then Inl (HTTPException 422 ''reject reason'')
         else
           (let review = (if approved then approved_order now else rejected_order now reject_reason);
                item' = review item
            in Inr (item', audit_by item'
                 ((event (if approved then ''contract_approved'' else ''contract_rejected'')
                     (contract_value (to_contract_status item)) (contract_value (to_contract_status item')))
                   \<lparr>ev_reason := to_contract_reject_reason item',
                    ev_evidence := JObj
                      [(''contract_template_version'', JInt (to_contract_template_version item')),
                       (''contract_template_snapshot_id'', JInt (to_contract_template_snapshot_id item'))]\<rparr>)
                 admin (write_travel order_id review d))))"

record schedule_payload =
  sh_pickup_time :: string
  sh_pickup_location :: string
  sh_driver_name :: string
  sh_driver_phone :: string
  sh_vehicle_no :: string
  sh_pickup_notice :: string

definition scheduled_order :: "schedule_payload \<Rightarrow> travel_order \<Rightarrow> travel_order" where
  "scheduled_order p order =
    order\<lparr>to_pickup_time := strip (sh_pickup_time p), to_pickup_location := strip (sh_pickup_location p),
      to_driver_name := strip (sh_driver_name p), to_driver_phone := strip (sh_driver_phone p),
      to_vehicle_no := strip (sh_vehicle_no p), to_pickup_notice := strip (sh_pickup_notice p),
      to_fulfillment_status := Some PICKUP_CONFIRMED, to_pickup_confirmed_at := None,
      to_qr_token := [], to_qr_issued_at := None, to_qr_expires_at := None\<rparr>"

definition schedule_order_pickup ::
  "db \<Rightarrow> int \<Rightarrow> schedule_payload \<Rightarrow> user_account \<Rightarrow> (travel_order \<times> db) result" where
  "schedule_order_pickup d order_id p admin =
    (case find_travel d order_id of
       None \<Rightarrow> Inl no_order
     | Some item \<Rightarrow>
         if to_contract_status item \<noteq> ConApproved
         then Inl (HTTPException 400 ''Contract must be approved before scheduling pickup'')
         else if to_pickup_address item = []
         then Inl (HTTPException 400 ''User pickup information has not been submitted'')
         else if to_fulfillment_status item \<in> {Some CHECKED_IN, Some IN_TRIP, Some COMPLETED, Some CANCELLED}
         then Inl (HTTPException 400 ''Current order status cannot be scheduled'')
         else
           (let item' = scheduled_order p item
            in Inr (item', audit_by item'
                 ((event ''pickup_scheduled'' (status_text (to_fulfillment_status item))
                     (fulfillment_value PICKUP_CONFIRMED))
                   \<lparr>ev_evidence := JObj [(''pickup_time'', JStr (to_pickup_time item')),
                      (''pickup_location'', JStr (to_pickup_location item')),
                      (''vehicle_no'', JStr (to_vehicle_no item'))]\<rparr>)
                 admin (write_travel order_id (scheduled_order p) d))))"

definition issued_order :: "time \<Rightarrow> (string \<times> time) option \<Rightarrow> travel_order \<Rightarrow> travel_order" where
  "issued_order now code order =
    (let o1 = order\<lparr>to_fulfillment_status := Some QR_ISSUED\<rparr>
     in case code of
          None \<Rightarrow> o1
        | Some (token, expires) \<Rightarrow>
            o1\<lparr>to_qr_token := token, to_qr_issued_at := Some now, to_qr_expires_at := Some expires\<rparr>)"

definition needs_code :: "time \<Rightarrow> travel_order \<Rightarrow> bool" where
  "needs_code now order \<longleftrightarrow> to_qr_token order = []
    \<or> (case to_qr_expires_at order of None \<Rightarrow> True | Some t \<Rightarrow> t \<le> now)"

definition issue_order_qr :: "time \<Rightarrow> db \<Rightarrow> int \<Rightarrow> user_account \<Rightarrow> (travel_order \<times> db) result" where
  "issue_order_qr now d order_id admin =
    (case find_travel d order_id of
       None \<Rightarrow> Inl no_order
     | Some item \<Rightarrow>
         if to_fulfillment_status item \<notin> {Some USER_CONFIRMED, Some QR_ISSUED}
         then Inl (HTTPException 400 ''User must confirm pickup before issuing QR'')
         else
           (let finish = (\<lambda>code d1.
                  let item' = issued_order now code item;
                      d2 = write_travel order_id (issued_order now code) d1;
                      d3 = (if code = None then d2 else issued_record item' admin d2)
                  in Inr (item', audit_by item'
                       ((event ''qr_issued'' (fulfillment_value USER_CONFIRMED) (fulfillment_value QR_ISSUED))
                         \<lparr>ev_evidence := expires_evidence item'\<rparr>) admin d3))
            in if needs_code now item then
                 (case draw_no ''uuid4'' d of
                    (token, d1) \<Rightarrow>
                      (case qr_expiry now (to_travel_date item) of
                         Inl e \<Rightarrow> Inl e
                       | Inr t \<Rightarrow> finish (Some (token, t)) d1))
               else finish None d))"

definition verify_attempt ::
  "travel_order \<Rightarrow> string \<Rightarrow> string \<Rightarrow> user_account \<Rightarrow> string \<Rightarrow> string \<Rightarrow> string \<Rightarrow> db \<Rightarrow> db" where
  "verify_attempt order token outcome admin device location reason d =
    add_verification_record order ''verify'' token outcome (Some admin) device location reason d"

definition checked_in_order :: "time \<Rightarrow> travel_order \<Rightarrow> travel_order" where
  "checked_in_order now order =
    order\<lparr>to_checked_in_at := Some now, to_fulfillment_status := Some CHECKED_IN, to_qr_token := []\<rparr>"

definition withdraw_code :: "travel_order \<Rightarrow> travel_order" where
  "withdraw_code order = order\<lparr>to_qr_token := []\<rparr>"

definition code_expired :: "time \<Rightarrow> travel_order \<Rightarrow> bool" where
  "code_expired now order \<longleftrightarrow> (case to_qr_expires_at order of None \<Rightarrow> False | Some t \<Rightarrow> t \<le> now)"

definition check_in_order ::
  "time \<Rightarrow> db \<Rightarrow> int \<Rightarrow> string \<Rightarrow> string \<Rightarrow> string \<Rightarrow> user_account \<Rightarrow> travel_order result \<times> db" where
  "check_in_order now d order_id token device location admin =
    (case find_travel d order_id of
       None \<Rightarrow> (Inl no_order, d)
     | Some item \<Rightarrow>
         if to_fulfillment_status item \<notin> {Some USER_CONFIRMED, Some QR_ISSUED}
         then (Inl (HTTPException 400 ''Order cannot be checked in''),
               verify_attempt item token ''rejected'' admin device location ''status'' d)
         else if code_expired now item
         then (Inl (HTTPException 400 ''Check-in token has expired''),
               write_travel order_id withdraw_code
                 (verify_attempt item token ''expired'' admin device location ''expired'' d))
         else if to_qr_token item = [] \<or> token \<noteq> to_qr_token item
         then (Inl (HTTPException 400 ''Invalid check-in token''),
               verify_attempt item token ''failed'' admin device location ''invalid'' d)
         else
           (let item' = checked_in_order now item;
                d1 = write_travel order_id (checked_in_order now) d
            in (Inr item', audit_by item'
                  (event ''travel_checked_in'' (status_text (to_fulfillment_status item)) (fulfillment_value CHECKED_IN))
                  admin (verify_attempt item' (to_qr_token item) ''success'' admin device location [] d1))))"

text \<open>The three handlers that only move the status: which states they accept and what they write.\<close>

definition in_trip_order :: "travel_order \<Rightarrow> travel_order" where
  "in_trip_order order = order\<lparr>to_fulfillment_status := Some IN_TRIP\<rparr>"

definition completed_order :: "time \<Rightarrow> travel_order \<Rightarrow> travel_order" where
  "completed_order now order =
    order\<lparr>to_fulfillment_status := Some COMPLETED, to_completed_at := Some now, to_status := TravelCompleted\<rparr>"

definition move_order ::
  "fulfillment set \<Rightarrow> string \<Rightarrow> string \<Rightarrow> (travel_order \<Rightarrow> travel_order) \<Rightarrow> db \<Rightarrow> int \<Rightarrow> user_account
    \<Rightarrow> (travel_order \<times> db) result" where
  "move_order accepted refusal event_type f d order_id admin =
    (case find_travel d order_id of
       None \<Rightarrow> Inl no_order
     | Some item \<Rightarrow>
         if to_fulfillment_status item \<notin> Some ` accepted then Inl (HTTPException 400 refusal)
         else Inr (f item, audit_by (f item)
                (event event_type (status_text (to_fulfillment_status item))
                  (status_text (to_fulfillment_status (f item))))
                admin (write_travel order_id f d)))"

definition start_order_trip :: "db \<Rightarrow> int \<Rightarrow> user_account \<Rightarrow> (travel_order \<times> db) result" where
  "start_order_trip d order_id admin =
    move_order {CHECKED_IN, IN_TRIP} ''Order must be checked in before trip start'' ''trip_started''
      in_trip_order d order_id admin"

definition complete_order :: "time \<Rightarrow> db \<Rightarrow> int \<Rightarrow> user_account \<Rightarrow> (travel_order \<times> db) result" where
  "complete_order now d order_id admin =
    move_order {CHECKED_IN, IN_TRIP, COMPLETED} ''Order must be checked in before completion'' ''order_completed''
      (completed_order now) d order_id admin"

definition exception_order :: "string \<Rightarrow> travel_order \<Rightarrow> travel_order" where
  "exception_order reason order =
    order\<lparr>to_fulfillment_status := Some EXCEPTION, to_exception_reason := strip reason\<rparr>"

definition mark_order_exception :: "db \<Rightarrow> int \<Rightarrow> string \<Rightarrow> user_account \<Rightarrow> (travel_order \<times> db) result" where
  "mark_order_exception d order_id reason admin =
    (case find_travel d order_id of
       None \<Rightarrow> Inl no_order
     | Some item \<Rightarrow>
         if to_fulfillment_status item = Some COMPLETED
         then Inl (HTTPException 400 ''Completed order cannot be marked as exception'')
         else
           (let item' = exception_order reason item
            in Inr (item', audit_by item'
                 ((event ''order_exception'' (status_text (to_fulfillment_status item)) (fulfillment_value EXCEPTION))
                   \<lparr>ev_reason := to_exception_reason item'\<rparr>)
                 admin (write_travel order_id (exception_order reason) d))))"

definition admin_cancel_travel_order ::
  "time \<Rightarrow> db \<Rightarrow> int \<Rightarrow> string \<Rightarrow> user_account \<Rightarrow> (travel_order \<times> db) result" where
  "admin_cancel_travel_order now d order_id reason admin = cancel_travel_order now d order_id admin reason True"

definition admin_orders :: "db \<Rightarrow> int option \<Rightarrow> travel_order list \<times> db" where
  "admin_orders d order_status =
    (let shown = (\<lambda>o1. case order_status of None \<Rightarrow> True | Some s \<Rightarrow> travel_value (to_status o1) = s)
     in (map normalize_fulfillment_status
           (sort_key (\<lambda>o1. - to_id o1) (filter shown (travel_orders d))),
         d\<lparr>travel_orders := map (\<lambda>o1. if shown o1 then normalize_fulfillment_status o1 else o1) (travel_orders d)\<rparr>))"

definition travel_order_audit ::
  "db \<Rightarrow> int \<Rightarrow> (travel_order \<times> travel_audit list \<times> verification_record list) result" where
  "travel_order_audit d order_id =
    (case find_travel d order_id of
       None \<Rightarrow> Inl no_order
     | Some order \<Rightarrow> Inr (order,
         sort_key ta_id (filter (\<lambda>a. ta_order_id a = order_id) (audits d)),
         sort_key vr_id (filter (\<lambda>v. vr_order_id v = order_id) (verifications d))))"

end
