(* ===== verification/Travel_Reviews.thy ===== *)
theory Travel_Reviews
  imports Travel_Orders
begin

text \<open>
  The reviews of routes in \<open>app/api/travel_orders.py\<close>: who may review, one review for each
  completed order, and the images of reviews. \<open>others\<close> is what other sessions commit before
  the insertion; the unique constraint on the order then decides.
\<close>

definition my_route_orders :: "db \<Rightarrow> int \<Rightarrow> user_account \<Rightarrow> travel_order list" where
  "my_route_orders d route_id user =
    newest_first (filter (\<lambda>o1. to_route_id o1 = route_id \<and> to_user_id o1 = ua_id user) (travel_orders d))"

definition is_reviewed :: "db \<Rightarrow> int \<Rightarrow> bool" where
  "is_reviewed d order_id \<longleftrightarrow> list_ex (\<lambda>r. rr_order_id r = order_id) (route_reviews d)"

definition is_completed :: "travel_order \<Rightarrow> bool" where
  "is_completed order \<longleftrightarrow> to_fulfillment_status order = Some COMPLETED"

definition review_eligible_order :: "db \<Rightarrow> int \<Rightarrow> user_account \<Rightarrow> travel_order list \<times> int list \<times> travel_order option" where
  "review_eligible_order d route_id user =
    (let os = my_route_orders d route_id user;
         reviewed = remdups (map rr_order_id (filter (\<lambda>r. rr_order_id r \<in> to_id ` set os) (route_reviews d)))
     in (os, reviewed, List.find (\<lambda>o1. is_completed o1 \<and> to_id o1 \<notin> set reviewed) os))"

record eligibility =
  el_can_review :: bool
  el_reason :: string
  el_order_id :: int
  el_order_no :: string
  el_reviewed :: "int list"

definition route_review_eligibility :: "db \<Rightarrow> int \<Rightarrow> user_account \<Rightarrow> eligibility result" where
  "route_review_eligibility d route_id user =
    (case find_route d route_id of
       None \<Rightarrow> Inl (HTTPException 404 ''Route not found'')
     | Some _ \<Rightarrow>
         (case review_eligible_order d route_id user of
            (os, reviewed, Some o1) \<Rightarrow>
              Inr \<lparr>el_can_review = True, el_reason = [], el_order_id = to_id o1, el_order_no = to_order_no o1,
                   el_reviewed = reviewed\<rparr>
          | (os, reviewed, None) \<Rightarrow>
              Inr \<lparr>el_can_review = False,
                   el_reason = (if os = [] then ''not_exchanged''
                     else if list_ex is_completed os then ''already_reviewed'' else ''trip_not_completed''),
                   el_order_id = 0, el_order_no = [], el_reviewed = reviewed\<rparr>))"

record review_payload =
  rp_order_id :: int
  rp_rating :: int
  rp_content :: string
  rp_images :: "string list"

text \<open>The order a review is for.\<close>

definition choose_order :: "db \<Rightarrow> int \<Rightarrow> review_payload \<Rightarrow> user_account \<Rightarrow> travel_order result" where
  "choose_order d route_id p user =
    (case review_eligible_order d route_id user of
       (os, reviewed, eligible) \<Rightarrow>
         if os = [] then Inl (HTTPException 403 ''exchange first'')
         else if rp_order_id p \<noteq> 0 then
           (case List.find (\<lambda>o1. to_id o1 = rp_order_id p) os of
              None \<Rightarrow> Inl (HTTPException 403 ''not your order'')
            | Some o1 \<Rightarrow>
                if to_id o1 \<in> set reviewed then Inl (HTTPException 400 ''already reviewed'')
                else if \<not> is_completed o1 then Inl (HTTPException 400 ''not completed'')
                else Inr o1)
         else case eligible of
           Some o1 \<Rightarrow> Inr o1
         | None \<Rightarrow>
             (let completed = filter is_completed os in
              if completed \<noteq> [] \<and> list_all (\<lambda>o1. to_id o1 \<in> set reviewed) completed
              then Inl (HTTPException 400 ''route already reviewed'')
              else Inl (HTTPException 400 ''not completed'')))"

definition new_review :: "time \<Rightarrow> db \<Rightarrow> int \<Rightarrow> travel_order \<Rightarrow> review_payload \<Rightarrow> user_account \<Rightarrow> route_review" where
  "new_review now d route_id o1 p user =
    \<lparr>rr_id = fresh_id rr_id (route_reviews d), rr_route_id = route_id, rr_order_id = to_id o1,
     rr_order_no = to_order_no o1, rr_user_id = ua_id user, rr_user_no = ua_user_no user,
     rr_user_name = str_or (ua_nickname user) ''user'', rr_rating = rp_rating p,
     rr_content = strip (rp_content p),
     rr_images = take 6 (filter (\<lambda>s. s \<noteq> []) (map strip (rp_images p))),
     rr_status = ''published'', rr_created_at = now\<rparr>"

definition create_route_review ::
  "(db \<Rightarrow> db) \<Rightarrow> time \<Rightarrow> db \<Rightarrow> int \<Rightarrow> review_payload \<Rightarrow> user_account \<Rightarrow> (route_review \<times> db) result" where
  "create_route_review others now d route_id p user =
    (case find_route d route_id of
       None \<Rightarrow> Inl (HTTPException 404 ''Route not found'')
     | Some _ \<Rightarrow>
         (case choose_order d route_id p user of
            Inl e \<Rightarrow> Inl e
          | Inr o1 \<Rightarrow>
              (let d1 = others d; r = new_review now d1 route_id o1 p user in
               if is_reviewed d1 (to_id o1) then Inl (HTTPException 400 ''already reviewed'')
               else Inr (r, d1\<lparr>route_reviews := route_reviews d1 @ [r]\<rparr>))))"

text \<open>\<open>order_by(desc(created_at), desc(id))\<close>.\<close>

definition reviews_newest_first :: "route_review list \<Rightarrow> route_review list" where
  "reviews_newest_first rs = sort_key (\<lambda>r. (- rr_created_at r, - rr_id r)) rs"

text \<open>
  The published reviews of a route with their number and the sum of the ratings; the answer
  shows the quotient rounded to one decimal.
\<close>

definition public_route_reviews :: "db \<Rightarrow> int \<Rightarrow> (nat \<times> int \<times> route_review list) result" where
  "public_route_reviews d route_id =
    (case open_route d route_id of
       None \<Rightarrow> Inl (HTTPException 404 ''Route not found'')
     | Some _ \<Rightarrow>
         (let shown = reviews_newest_first
                (filter (\<lambda>r. rr_route_id r = route_id \<and> rr_status r = ''published'') (route_reviews d))
          in Inr (length shown, sum_list (map rr_rating shown), shown)))"

definition admin_route_reviews :: "db \<Rightarrow> int \<Rightarrow> string \<Rightarrow> route_review list" where
  "admin_route_reviews d route_id review_status =
    reviews_newest_first (filter (\<lambda>r. (route_id = 0 \<or> rr_route_id r = route_id)
      \<and> (review_status = ''all'' \<or> rr_status r = review_status)) (route_reviews d))"

definition merchant_route_reviews :: "db \<Rightarrow> school_site \<Rightarrow> route_review list" where
  "merchant_route_reviews d school =
    (let ids = map tr_id (filter (\<lambda>r. tr_school_id r = sc_id school) (routes d))
     in reviews_newest_first (filter (\<lambda>r. List.member ids (rr_route_id r)) (route_reviews d)))"

section \<open>Images of reviews\<close>

record upload =
  up_filename :: "string option"
  up_content_type :: "string option"
  up_content :: bytes

text \<open>
  What the upload handlers check of an image: its suffix, its size (one byte more than the
  limit is read) and its first bytes.
\<close>

definition check_image :: "string list \<Rightarrow> string \<Rightarrow> int \<Rightarrow> bytes \<Rightarrow> unit result" where
  "check_image allowed sfx limit content =
    (if \<not> List.member allowed sfx then Inl (HTTPException 400 ''image type'')
     else if limit < int (length content) then Inl (HTTPException 400 ''image size'')
     else if \<not> sniff_image_type content (Some sfx) then Inl (HTTPException 400 ''image content'')
     else Inr ())"

definition opt_text :: "string option \<Rightarrow> string" where
  "opt_text s = (case s of Some t \<Rightarrow> t | None \<Rightarrow> [])"

definition upload_route_review_image ::
  "config \<Rightarrow> obs_client \<Rightarrow> time \<Rightarrow> disk \<times> db \<Rightarrow> int \<Rightarrow> upload \<Rightarrow> user_account \<Rightarrow> (string \<times> disk \<times> db) result" where
  "upload_route_review_image c client now st route_id file user =
    (case st of (fs, d) \<Rightarrow>
      case find_route d route_id of
        None \<Rightarrow> Inl (HTTPException 404 ''Route not found'')
      | Some _ \<Rightarrow>
          (let os = my_route_orders d route_id user;
               sfx = str_or (to_lower (path_suffix (opt_text (up_filename file)))) ''.jpg'' in
           if os = [] then Inl (HTTPException 403 ''exchange first'')
           else if \<not> list_ex is_completed os then Inl (HTTPException 400 ''not completed'')
           else case check_image [''.jpg'', ''.jpeg'', ''.png'', ''.gif'', ''.webp''] sfx
                       (snd (get_upload_setting d)) (up_content file) of
             Inl e \<Rightarrow> Inl e
           | Inr _ \<Rightarrow>
               (case save_upload_bytes c client now (up_content file)
                       (Some (str_or (opt_text (up_filename file)) (''route-review'' @ sfx)))
                       (Some (str_or (opt_text (up_content_type file)) ''image/jpeg'')) ''travel-reviews'' (fs, d) of
                  Inl e \<Rightarrow> Inl e
                | Inr (stored, fs', d1) \<Rightarrow>
                    (case add_asset (stored_asset ''travel_review'' stored
                             (last_component (sf_object_key stored)) (opt_text (up_filename file))
                             (opt_text (up_content_type file)) (int (length (up_content file))) (ua_id user)) d1 of
                       (aid, d2) \<Rightarrow> Inr (asset_api_url c aid, fs', d2)))))"

end
