(* ===== verification/Travel_Laws.thy ===== *)
theory Travel_Laws
  imports Travel_Admin Travel_Reviews Points_Props
begin

text \<open>
  What the operations on travel orders change: the points service leaves every table of the
  travel side alone (\<open>aside\<close>), and each handler either inserts one order, rewrites the one it
  names, or adds rows to the audit and verification tables only.
\<close>

section \<open>The points service and the travel tables\<close>

definition aside :: "db \<Rightarrow> db \<Rightarrow> bool" where
  "aside d d' \<longleftrightarrow> travel_orders d' = travel_orders d \<and> routes d' = routes d \<and>
    audits d' = audits d \<and> verifications d' = verifications d \<and> snapshots d' = snapshots d \<and>
    assets d' = assets d \<and> settings_rows d' = settings_rows d \<and> rule d' = rule d \<and>
    route_reviews d' = route_reviews d \<and> numbers d' = numbers d"

lemma aside_refl [simp]: "aside d d"
  by (simp add: aside_def)

lemma aside_trans [trans]: "aside a b \<Longrightarrow> aside b c \<Longrightarrow> aside a c"
  by (simp add: aside_def)

lemma aside_writes:
  "aside d (set_points uid p d)" "aside d (write_lot lid f d)" "aside d (add_lot uid l n x d)"
  "aside d (add_allocation l k n d)" "aside d (write_allocation a g d)"
  by (simp_all add: aside_def set_points_def write_lot_def add_lot_def add_allocation_def write_allocation_def)

lemma aside_new_ledger: "new_ledger d uid dir n a b e = (l, d') \<Longrightarrow> aside d d'"
  by (auto simp: new_ledger_eq aside_def)

lemma aside_flush_ledger: "flush_ledger l d = Inr d' \<Longrightarrow> aside d d'"
  by (auto simp: flush_ledger_Inr aside_def)

lemma aside_posting:
  "new_ledger d uid dir n a b e = (l, d1) \<Longrightarrow> flush_ledger l (set_points uid p d1) = Inr d2 \<Longrightarrow> aside d d2"
  by (blast intro: aside_trans aside_new_ledger aside_writes aside_flush_ledger)

lemma aside_appending:
  "new_ledger d uid dir n a b e = (l, d1) \<Longrightarrow> flush_ledger l d1 = Inr d2 \<Longrightarrow> aside d d2"
  by (blast intro: aside_trans aside_new_ledger aside_flush_ledger)

lemma aside_row_writes:
  "aside d (add_allocation l k n (write_lot k f d))" "aside d (write_allocation i g (write_lot k f d))"
  by (rule aside_trans [OF aside_writes(2) aside_writes(4)], rule aside_trans [OF aside_writes(2) aside_writes(5)])

lemma aside_expire_lots: "aside d (expire_lots l n ls d)"
proof (induction ls arbitrary: n d)
  case (Cons lot ls)
  show ?case
    by (simp add: Let_def) (metis Cons.IH aside_trans aside_writes(2) aside_row_writes(1))
qed simp

lemma aside_consume_lots: "aside d (consume_lots l n ls d)"
proof (induction ls arbitrary: n d)
  case (Cons lot ls)
  show ?case
    by (simp add: Let_def) (metis Cons.IH aside_trans aside_row_writes(1))
qed simp

lemma aside_fold_write: "aside d (fold (\<lambda>lot. write_lot (lot_id lot) expire_lot) ls d)"
proof (induction ls arbitrary: d)
  case (Cons lot ls)
  show ?case by simp (rule aside_trans [OF aside_writes(2) Cons.IH])
qed simp

lemma aside_expire: "expire_due_locked d uid now = Inr (r, d') \<Longrightarrow> aside d d'"
  by (auto simp: expire_due_locked_def Let_def aside_fold_write split: if_splits prod.splits sum.splits
      intro: aside_trans [OF aside_posting aside_expire_lots])

lemma aside_coverage: "ensure_lot_coverage d uid now = Inr d' \<Longrightarrow> aside d d'"
  by (auto simp: ensure_lot_coverage_def Let_def split: if_splits prod.splits sum.splits
      intro: aside_trans [OF aside_appending aside_writes(3)])

lemma aside_restore_lots: "restore_lots now x as d = (n, d') \<Longrightarrow> aside d d'"
proof (induction "as" arbitrary: d n d')
  case (Cons a as)
  from Cons.prems show ?case
    by (auto simp: Let_def split: option.splits prod.splits if_splits
        dest!: Cons.IH intro: aside_trans [OF aside_row_writes(2)])
qed simp

lemma aside_credit: "credit_locked d uid n e x = Inr (l, d') \<Longrightarrow> aside d d'"
  by (auto simp: credit_locked_def Let_def split: if_splits option.splits sum.splits prod.splits
      intro: aside_trans [OF aside_posting aside_writes(3)])

lemma aside_debit:
  assumes "debit_locked d uid n e now = Inr (l, d')"
  shows "aside d d'"
proof (cases "find_ledger d uid (e_key e)")
  case None
  have n: "0 < n" using assms by (auto simp: debit_locked_def split: if_splits)
  obtain r d1 where x: "expire_due_locked d uid now = Inr (r, d1)"
    using assms None n by (auto simp: debit_locked_def split: sum.splits)
  obtain d2 where en: "ensure_lot_coverage d1 uid now = Inr d2"
    using assms None n x by (auto simp: debit_locked_def Let_def split: sum.splits if_splits)
  obtain d3 d4 where nl: "new_ledger d2 uid Expense n (points_of d1 uid) (points_of d1 uid - n) e = (l, d3)"
      and f: "flush_ledger l (set_points uid (points_of d1 uid - n) d3) = Inr d4"
      and d': "d' = consume_lots (pl_id l) n (spend_order d2 uid now) d4"
    using assms None n x en by (auto simp: debit_locked_def Let_def split: sum.splits if_splits prod.splits)
  show ?thesis
    unfolding d' using aside_expire [OF x] aside_coverage [OF en] aside_posting [OF nl f] aside_consume_lots
    by (blast intro: aside_trans)
next
  case (Some l')
  then show ?thesis using assms by (auto simp: debit_locked_def split: if_splits)
qed

lemma aside_refund:
  assumes "refund_locked d uid ob e x now = Inr (l, d')"
  shows "aside d d'"
  using assms aside_writes(3)
  by (auto simp: refund_locked_def Let_def split: option.splits prod.splits sum.splits
      intro: aside_trans [OF aside_posting aside_restore_lots] aside_trans)

end
