(* ===== verification/Travel_Machine.thy ===== *)
theory Travel_Machine
  imports Travel_Laws
begin

text \<open>
  Travel orders as a state machine. \<open>order_move\<close> is the abstract life of one order: each
  move with the condition under which a handler makes it. \<open>travel_step\<close> is any handler on
  the database; the lemmas show that a step inserts an order, moves one order, or moves
  none, so that an invariant of moves is an invariant of the system.
\<close>

section \<open>The life of an order\<close>

inductive order_move :: "travel_order \<Rightarrow> travel_order \<Rightarrow> bool" where
  mv_normalize: "order_move o1 (normalize_fulfillment_status o1)"
| mv_sign: "to_contract_status o1 \<noteq> ConApproved \<Longrightarrow>
    to_fulfillment_status o1 \<in> {Some CONTRACT_PENDING, Some CONTRACT_REVIEWING, Some CONTRACT_REJECTED} \<Longrightarrow>
    to_user_id o1 = ua_id user \<Longrightarrow> order_move o1 (signed_order now user p route t url o1)"
| mv_pickup: "to_contract_status o1 = ConApproved \<Longrightarrow>
    to_fulfillment_status (normalize_fulfillment_status o1)
      \<in> {Some INFO_PENDING, Some INFO_SUBMITTED, Some PICKUP_CONFIRMED} \<Longrightarrow>
    order_move o1 (pickup_submitted pk (normalize_fulfillment_status o1))"
| mv_confirm: "to_contract_status o1 = ConApproved \<Longrightarrow> to_fulfillment_status o1 = Some PICKUP_CONFIRMED \<Longrightarrow>
    order_move o1 (confirmed_order now token x o1)"
| mv_approve: "to_contract_status o1 \<in> {ConPending, ConRejected} \<Longrightarrow> order_move o1 (approved_order now o1)"
| mv_reject: "to_contract_status o1 \<in> {ConPending, ConRejected} \<Longrightarrow> order_move o1 (rejected_order now reason o1)"
| mv_schedule: "to_contract_status o1 = ConApproved \<Longrightarrow>
    to_fulfillment_status o1 \<notin> {Some CHECKED_IN, Some IN_TRIP, Some COMPLETED, Some CANCELLED} \<Longrightarrow>
    order_move o1 (scheduled_order sp o1)"
| mv_issue: "to_fulfillment_status o1 \<in> {Some USER_CONFIRMED, Some QR_ISSUED} \<Longrightarrow>
    order_move o1 (issued_order now code o1)"
| mv_withdraw: "order_move o1 (withdraw_code o1)"
| mv_check_in: "to_fulfillment_status o1 \<in> {Some USER_CONFIRMED, Some QR_ISSUED} \<Longrightarrow> to_qr_token o1 \<noteq> [] \<Longrightarrow>
    \<not> code_expired now o1 \<Longrightarrow> order_move o1 (checked_in_order now o1)"
| mv_start: "to_fulfillment_status o1 \<in> {Some CHECKED_IN, Some IN_TRIP} \<Longrightarrow> order_move o1 (in_trip_order o1)"
| mv_complete: "to_fulfillment_status o1 \<in> {Some CHECKED_IN, Some IN_TRIP, Some COMPLETED} \<Longrightarrow>
    order_move o1 (completed_order now o1)"
| mv_exception: "to_fulfillment_status o1 \<noteq> Some COMPLETED \<Longrightarrow> order_move o1 (exception_order reason o1)"
| mv_cancel: "to_fulfillment_status o1 \<notin> Some ` non_cancellable \<Longrightarrow> to_fulfillment_status o1 \<noteq> Some CANCELLED \<Longrightarrow>
    order_move o1 (cancelled_order now reason o1)"

inductive_cases order_moveE: "order_move o1 o2"

lemmas move_defs = normalize_fulfillment_status_def signed_order_def pickup_submitted_def confirmed_order_def
  approved_order_def rejected_order_def scheduled_order_def issued_order_def withdraw_code_def
  checked_in_order_def in_trip_order_def completed_order_def exception_order_def cancelled_order_def

text \<open>What no move changes, and the two flags that are never taken back.\<close>

lemma move_fixed:
  assumes "order_move o1 o2"
  shows "to_id o2 = to_id o1 \<and> to_order_no o2 = to_order_no o1 \<and> to_user_id o2 = to_user_id o1 \<and>
    to_route_id o2 = to_route_id o1 \<and> to_points_cost o2 = to_points_cost o1 \<and>
    to_order_type o2 = to_order_type o1 \<and> to_idempotency_key o2 = to_idempotency_key o1 \<and>
    (to_points_refunded o1 \<longrightarrow> to_points_refunded o2) \<and> (to_stock_restored o1 \<longrightarrow> to_stock_restored o2)"
  using assms by cases (auto simp: move_defs Let_def split: option.splits prod.splits)

text \<open>
  The invariant of an order: from the pickup information on the contract is approved; a
  check-in code exists only between the user's confirmation and the check-in; the later
  states have passed the check-in; what was given back was given back by a cancellation.
\<close>

definition underway :: "fulfillment option set" where
  "underway = {Some INFO_PENDING, Some INFO_SUBMITTED, Some PICKUP_CONFIRMED, Some USER_CONFIRMED, Some QR_ISSUED,
     Some CHECKED_IN, Some IN_TRIP, Some COMPLETED}"

definition order_ok :: "travel_order \<Rightarrow> bool" where
  "order_ok o1 \<longleftrightarrow>
    (to_fulfillment_status o1 \<in> underway \<longrightarrow> to_contract_status o1 = ConApproved) \<and>
    (to_qr_token o1 \<noteq> [] \<longrightarrow> to_contract_status o1 = ConApproved \<and>
       to_fulfillment_status o1 \<in> {Some USER_CONFIRMED, Some QR_ISSUED, Some EXCEPTION}) \<and>
    (to_fulfillment_status o1 \<in> {Some CHECKED_IN, Some IN_TRIP, Some COMPLETED} \<longrightarrow> to_checked_in_at o1 \<noteq> None) \<and>
    (to_fulfillment_status o1 = Some COMPLETED \<longrightarrow> to_status o1 = TravelCompleted \<and> to_completed_at o1 \<noteq> None) \<and>
    (to_fulfillment_status o1 = Some CANCELLED \<longrightarrow> \<not> owes_points o1 \<and> \<not> holds_place o1) \<and>
    (to_points_refunded o1 \<or> to_stock_restored o1 \<longrightarrow> to_cancelled_at o1 \<noteq> None)"

lemmas ok_simps = order_ok_def underway_def owes_points_def holds_place_def

lemma no_code:
  "order_ok o1 \<Longrightarrow> to_contract_status o1 \<in> {ConPending, ConRejected} \<Longrightarrow> to_qr_token o1 = []"
  by (cases "to_qr_token o1 = []") (simp_all add: order_ok_def)

lemma ok_normalize:
  assumes "order_ok o1"
  shows "order_ok (normalize_fulfillment_status o1)"
proof (cases "to_contract_status o1 = ConApproved \<and>
    to_fulfillment_status o1 \<in> {None, Some CONTRACT_PENDING, Some CONTRACT_REVIEWING}")
  case True
  then have "normalize_fulfillment_status o1 = o1\<lparr>to_fulfillment_status := Some INFO_PENDING\<rparr>"
    unfolding normalize_fulfillment_status_def by (rule if_P)
  then show ?thesis using assms True by (elim conjE insertE emptyE) (simp_all add: ok_simps)
next
  case False
  then have "normalize_fulfillment_status o1 = o1" unfolding normalize_fulfillment_status_def by (rule if_not_P)
  then show ?thesis using assms by simp
qed

lemma move_ok:
  assumes "order_move o1 o2" and ok: "order_ok o1"
  shows "order_ok o2"
  using assms(1)
proof (cases rule: order_move.cases)
  case mv_normalize
  then show ?thesis using ok_normalize [OF ok] by simp
next
  case mv_sign
  show ?thesis using ok mv_sign unfolding mv_sign(1)
    by (simp_all add: ok_simps signed_order_def split: option.splits prod.splits)
next
  case mv_pickup
  show ?thesis using ok mv_pickup unfolding mv_pickup(1)
    by (simp_all add: ok_simps pickup_submitted_def normalize_fulfillment_status_def split: option.splits prod.splits)
next
  case mv_confirm
  show ?thesis using ok mv_confirm unfolding mv_confirm(1)
    by (simp_all add: ok_simps confirmed_order_def Let_def split: option.splits prod.splits)
next
  case (mv_approve now)
  show ?thesis using ok no_code [OF ok mv_approve(2)] mv_approve(2) unfolding mv_approve(1)
    by (simp add: ok_simps approved_order_def)
next
  case (mv_reject now reason)
  show ?thesis using ok no_code [OF ok mv_reject(2)] mv_reject(2) unfolding mv_reject(1)
    by (simp add: ok_simps rejected_order_def)
next
  case mv_schedule
  show ?thesis using ok mv_schedule unfolding mv_schedule(1)
    by (simp_all add: ok_simps scheduled_order_def split: option.splits prod.splits)
next
  case mv_issue
  show ?thesis using ok mv_issue(2-) unfolding mv_issue(1)
    by (elim insertE emptyE) (simp_all add: ok_simps issued_order_def Let_def split: option.splits prod.splits)
next
  case mv_withdraw
  show ?thesis using ok unfolding mv_withdraw(1)
    by (simp_all add: ok_simps withdraw_code_def split: option.splits prod.splits)
next
  case mv_check_in
  show ?thesis using ok mv_check_in(2-) unfolding mv_check_in(1)
    by (elim insertE emptyE) (simp_all add: ok_simps checked_in_order_def split: option.splits prod.splits)
next
  case mv_start
  show ?thesis using ok mv_start(2-) unfolding mv_start(1)
    by (elim insertE emptyE) (simp_all add: ok_simps in_trip_order_def split: option.splits prod.splits)
next
  case mv_complete
  show ?thesis using ok mv_complete(2-) unfolding mv_complete(1)
    by (elim insertE emptyE) (simp_all add: ok_simps completed_order_def split: option.splits prod.splits)
next
  case mv_exception
  show ?thesis using ok mv_exception unfolding mv_exception(1)
    by (simp_all add: ok_simps exception_order_def split: option.splits prod.splits)
next
  case (mv_cancel now reason)
  show ?thesis using ok unfolding mv_cancel(1) by (simp add: ok_simps cancelled_order_def) blast
qed

section \<open>Steps of the system\<close>

inductive travel_step :: "db \<Rightarrow> db \<Rightarrow> bool" where
  ts_exchange: "lock_user d uid = Inr u \<Longrightarrow> exchange_locked now d u rid travel_date key = Inr (o1, d') \<Longrightarrow> travel_step d d'"
| ts_sign: "sign_travel_contract c client (\<lambda>x. x) now fs d oid p user = (res, fs', d') \<Longrightarrow> travel_step d d'"
| ts_pickup: "submit_travel_pickup_info d oid pk user = Inr (o1, d') \<Longrightarrow> travel_step d d'"
| ts_confirm: "confirm_travel_pickup now d oid user = Inr (o1, d') \<Longrightarrow> travel_step d d'"
| ts_cancel: "cancel_travel_order now d oid actor reason override = Inr (o1, d') \<Longrightarrow> travel_step d d'"
| ts_review: "review_order_contract now d oid approved reason user = Inr (o1, d') \<Longrightarrow> travel_step d d'"
| ts_schedule: "schedule_order_pickup d oid sp user = Inr (o1, d') \<Longrightarrow> travel_step d d'"
| ts_issue: "issue_order_qr now d oid user = Inr (o1, d') \<Longrightarrow> travel_step d d'"
| ts_check_in: "check_in_order now d oid token device location user = (res, d') \<Longrightarrow> travel_step d d'"
| ts_start: "start_order_trip d oid user = Inr (o1, d') \<Longrightarrow> travel_step d d'"
| ts_complete: "complete_order now d oid user = Inr (o1, d') \<Longrightarrow> travel_step d d'"
| ts_exception: "mark_order_exception d oid reason user = Inr (o1, d') \<Longrightarrow> travel_step d d'"
| ts_list: "my_travel_orders d user = (os, d') \<Longrightarrow> travel_step d d'"
| ts_admin_list: "admin_orders d flt = (os, d') \<Longrightarrow> travel_step d d'"

text \<open>What the steps leave alone: accounts and points.\<close>

definition same_books :: "db \<Rightarrow> db \<Rightarrow> bool" where
  "same_books d d' \<longleftrightarrow> users d' = users d \<and> ledgers d' = ledgers d \<and> lots d' = lots d \<and>
    allocations d' = allocations d \<and> numbers d' = numbers d"

definition quiet :: "db \<Rightarrow> db \<Rightarrow> bool" where
  "quiet d d' \<longleftrightarrow> same_books d d' \<and> travel_orders d' = travel_orders d \<and> routes d' = routes d"

definition moves :: "int \<Rightarrow> db \<Rightarrow> db \<Rightarrow> bool" where
  "moves oid d d' \<longleftrightarrow> (\<exists>f o1. find_travel d oid = Some o1 \<and> order_move o1 (f o1) \<and>
     to_stock_restored (f o1) = to_stock_restored o1 \<and> (\<forall>r. to_id (f r) = to_id r) \<and>
     same_books d d' \<and> travel_orders d' = update_by to_id oid f (travel_orders d) \<and> routes d' = routes d)"

named_theorems row_frame "what the audit, the verification rows and the numbers leave alone"

lemma audit_frame [row_frame]:
  "travel_orders (add_travel_audit o1 ev a r n d) = travel_orders d" "routes (add_travel_audit o1 ev a r n d) = routes d"
  "users (add_travel_audit o1 ev a r n d) = users d" "ledgers (add_travel_audit o1 ev a r n d) = ledgers d"
  "lots (add_travel_audit o1 ev a r n d) = lots d" "allocations (add_travel_audit o1 ev a r n d) = allocations d"
  "numbers (add_travel_audit o1 ev a r n d) = numbers d"
  by (simp_all add: add_travel_audit_def)

lemma verification_frame [row_frame]:
  "travel_orders (add_verification_record o1 ac t x a dv l r d) = travel_orders d"
  "routes (add_verification_record o1 ac t x a dv l r d) = routes d"
  "users (add_verification_record o1 ac t x a dv l r d) = users d"
  "ledgers (add_verification_record o1 ac t x a dv l r d) = ledgers d"
  "lots (add_verification_record o1 ac t x a dv l r d) = lots d"
  "allocations (add_verification_record o1 ac t x a dv l r d) = allocations d"
  "numbers (add_verification_record o1 ac t x a dv l r d) = numbers d"
  by (simp_all add: add_verification_record_def)

lemma write_travel_frame [row_frame]:
  "travel_orders (write_travel oid f d) = update_by to_id oid f (travel_orders d)"
  "routes (write_travel oid f d) = routes d" "users (write_travel oid f d) = users d"
  "ledgers (write_travel oid f d) = ledgers d" "lots (write_travel oid f d) = lots d"
  "allocations (write_travel oid f d) = allocations d" "numbers (write_travel oid f d) = numbers d"
  by (simp_all add: write_travel_def)

lemma drawn_frame [row_frame]:
  "travel_orders (d\<lparr>drawn := n\<rparr>) = travel_orders d" "routes (d\<lparr>drawn := n\<rparr>) = routes d"
  by simp_all

lemma draw_no_Inl: "draw_no p d = (no, d') \<Longrightarrow> no = numbers d p (drawn d) \<and> d' = d\<lparr>drawn := Suc (drawn d)\<rparr>"
  by (simp add: draw_no_def)

lemma moved_id:
  "to_id (signed_order now user p route t url r) = to_id r" "to_id (normalize_fulfillment_status r) = to_id r"
  "to_id (pickup_submitted pk r) = to_id r" "to_id (confirmed_order now token x r) = to_id r"
  "to_id (approved_order now r) = to_id r" "to_id (rejected_order now reason r) = to_id r"
  "to_id (scheduled_order sp r) = to_id r" "to_id (issued_order now code r) = to_id r"
  "to_id (withdraw_code r) = to_id r" "to_id (checked_in_order now r) = to_id r"
  "to_id (in_trip_order r) = to_id r" "to_id (completed_order now r) = to_id r"
  "to_id (exception_order reason r) = to_id r" "to_id (cancelled_order now reason r) = to_id r"
  by (simp_all add: move_defs Let_def split: option.splits prod.splits)

lemma moved_restored:
  "to_stock_restored (signed_order now user p route t url r) = to_stock_restored r"
  "to_stock_restored (normalize_fulfillment_status r) = to_stock_restored r"
  "to_stock_restored (pickup_submitted pk r) = to_stock_restored r"
  "to_stock_restored (confirmed_order now token x r) = to_stock_restored r"
  "to_stock_restored (approved_order now r) = to_stock_restored r"
  "to_stock_restored (rejected_order now reason r) = to_stock_restored r"
  "to_stock_restored (scheduled_order sp r) = to_stock_restored r"
  "to_stock_restored (issued_order now code r) = to_stock_restored r"
  "to_stock_restored (withdraw_code r) = to_stock_restored r"
  "to_stock_restored (checked_in_order now r) = to_stock_restored r"
  "to_stock_restored (in_trip_order r) = to_stock_restored r"
  "to_stock_restored (completed_order now r) = to_stock_restored r"
  "to_stock_restored (exception_order reason r) = to_stock_restored r"
  by (simp_all add: move_defs Let_def split: option.splits prod.splits)

lemma movesI:
  "find_travel d oid = Some o1 \<Longrightarrow> order_move o1 (f o1) \<Longrightarrow> to_stock_restored (f o1) = to_stock_restored o1 \<Longrightarrow>
    (\<And>r. to_id (f r) = to_id r) \<Longrightarrow> same_books d d' \<Longrightarrow>
    travel_orders d' = update_by to_id oid f (travel_orders d) \<Longrightarrow> routes d' = routes d \<Longrightarrow> moves oid d d'"
  unfolding moves_def by blast

section \<open>Each handler moves its order\<close>

lemma pickup_moves:
  assumes "submit_travel_pickup_info d oid pk user = Inr (o1, d')"
  shows "moves oid d d'"
proof -
  obtain item where i: "find_travel d oid = Some item" "to_contract_status (normalize_fulfillment_status item) = ConApproved"
      "to_fulfillment_status (normalize_fulfillment_status item) \<in> {Some INFO_PENDING, Some INFO_SUBMITTED, Some PICKUP_CONFIRMED}"
      and d': "travel_orders d' = update_by to_id oid (pickup_submitted pk \<circ> normalize_fulfillment_status) (travel_orders d)"
      "routes d' = routes d" "same_books d d'"
    using assms by (auto simp: submit_travel_pickup_info_def get_my_travel_order_def Let_def row_frame same_books_def
        split: option.splits if_splits)
  have "to_contract_status item = ConApproved" using i(2) by (simp add: normalize_fulfillment_status_def split: if_splits)
  then show ?thesis
    by (intro movesI [OF i(1), where f = "pickup_submitted pk \<circ> normalize_fulfillment_status"])
      (use i(3) d' in \<open>simp_all add: moved_id moved_restored mv_pickup\<close>)
qed

lemmas handler_simps = Let_def row_frame same_books_def draw_no_def issued_record_def verify_attempt_def

lemma get_my_travel_orderD:
  "get_my_travel_order d oid user = Inr item \<Longrightarrow> \<exists>o1. find_travel d oid = Some o1 \<and> to_user_id o1 = ua_id user \<and>
    item = normalize_fulfillment_status o1"
  by (auto simp: get_my_travel_order_def travel_order_owned_by_def split: option.splits if_splits)

lemma normalize_cases:
  obtains (moved) "to_contract_status o1 = ConApproved"
      "to_fulfillment_status o1 \<in> {None, Some CONTRACT_PENDING, Some CONTRACT_REVIEWING}"
      "normalize_fulfillment_status o1 = o1\<lparr>to_fulfillment_status := Some INFO_PENDING\<rparr>"
  | (kept) "normalize_fulfillment_status o1 = o1"
  unfolding normalize_fulfillment_status_def by argo

lemma normalize_other:
  "to_fulfillment_status (normalize_fulfillment_status o1) \<noteq> Some INFO_PENDING \<Longrightarrow> normalize_fulfillment_status o1 = o1"
  by (cases o1 rule: normalize_cases) simp_all

lemma normalize_contract [simp]:
  "to_contract_status (normalize_fulfillment_status o1) = to_contract_status o1"
  by (simp add: normalize_fulfillment_status_def)

lemma normalize_unapproved:
  "to_contract_status o1 \<noteq> ConApproved \<Longrightarrow> normalize_fulfillment_status o1 = o1"
  by (simp add: normalize_fulfillment_status_def)

lemma confirm_moves:
  assumes "confirm_travel_pickup now d oid user = Inr (o1, d')"
  shows "moves oid d d'"
proof -
  obtain item where g: "get_my_travel_order d oid user = Inr item" "to_contract_status item = ConApproved"
      "to_fulfillment_status item = Some PICKUP_CONFIRMED"
    using assms by (auto simp: confirm_travel_pickup_def split: sum.splits if_splits)
  then obtain o2 where o2: "find_travel d oid = Some o2" "item = normalize_fulfillment_status o2"
    using get_my_travel_orderD by blast
  then have it: "item = o2" using g(3) normalize_other [of o2] by simp
  obtain token x where d': "travel_orders d' = update_by to_id oid (confirmed_order now token x) (travel_orders d)"
      "routes d' = routes d" "same_books d d'"
    using assms g unfolding confirm_travel_pickup_def
    by (cases "to_qr_token item = []") (auto simp: handler_simps split: sum.splits)
  show ?thesis
    by (intro movesI [OF o2(1), where f = "confirmed_order now token x"])
      (use g it d' in \<open>simp_all add: moved_id moved_restored mv_confirm\<close>)
qed

lemma review_moves:
  assumes "review_order_contract now d oid approved reason user = Inr (o1, d')"
  shows "moves oid d d'"
proof -
  let ?f = "if approved then approved_order now else rejected_order now reason"
  obtain item where i: "find_travel d oid = Some item" "to_contract_status item \<in> {ConPending, ConRejected}"
      and d': "travel_orders d' = update_by to_id oid ?f (travel_orders d)" "routes d' = routes d" "same_books d d'"
    using assms by (auto simp: review_order_contract_def handler_simps split: option.splits if_splits)
  show ?thesis
    by (intro movesI [OF i(1), where f = ?f])
      (use i(2) d' in \<open>simp_all add: moved_id moved_restored mv_approve mv_reject\<close>)
qed

lemma schedule_moves:
  assumes "schedule_order_pickup d oid sp user = Inr (o1, d')"
  shows "moves oid d d'"
proof -
  obtain item where i: "find_travel d oid = Some item" "to_contract_status item = ConApproved"
      "to_fulfillment_status item \<notin> {Some CHECKED_IN, Some IN_TRIP, Some COMPLETED, Some CANCELLED}"
      and d': "travel_orders d' = update_by to_id oid (scheduled_order sp) (travel_orders d)" "routes d' = routes d"
      "same_books d d'"
    using assms by (auto simp: schedule_order_pickup_def handler_simps split: option.splits if_splits)
  show ?thesis
    by (intro movesI [OF i(1), where f = "scheduled_order sp"])
      (use i(2,3) d' in \<open>simp_all add: moved_id moved_restored mv_schedule\<close>)
qed

lemma issue_moves:
  assumes "issue_order_qr now d oid user = Inr (o1, d')"
  shows "moves oid d d'"
proof -
  obtain item where i: "find_travel d oid = Some item"
      "to_fulfillment_status item \<in> {Some USER_CONFIRMED, Some QR_ISSUED}"
    using assms by (auto simp: issue_order_qr_def split: option.splits if_splits)
  obtain code where d': "travel_orders d' = update_by to_id oid (issued_order now code) (travel_orders d)"
      "routes d' = routes d" "same_books d d'"
    using assms i unfolding issue_order_qr_def
    by (cases "needs_code now item") (auto simp: handler_simps split: sum.splits)
  show ?thesis
    by (intro movesI [OF i(1), where f = "issued_order now code"])
      (use i(2) d' in \<open>simp_all add: moved_id moved_restored mv_issue\<close>)
qed

lemma check_in_moves:
  assumes "check_in_order now d oid token device location user = (res, d')"
  shows "quiet d d' \<or> moves oid d d'"
proof (cases "find_travel d oid")
  case None
  then show ?thesis using assms by (auto simp: check_in_order_def quiet_def same_books_def)
next
  case (Some item)
  consider (rejected) "to_fulfillment_status item \<notin> {Some USER_CONFIRMED, Some QR_ISSUED}"
    | (expired) "to_fulfillment_status item \<in> {Some USER_CONFIRMED, Some QR_ISSUED}" "code_expired now item"
    | (failed) "to_fulfillment_status item \<in> {Some USER_CONFIRMED, Some QR_ISSUED}" "\<not> code_expired now item"
        "to_qr_token item = [] \<or> token \<noteq> to_qr_token item"
    | (success) "to_fulfillment_status item \<in> {Some USER_CONFIRMED, Some QR_ISSUED}" "\<not> code_expired now item"
        "to_qr_token item \<noteq> []" "token = to_qr_token item"
    by blast
  then show ?thesis
  proof cases
    case rejected
    then show ?thesis using assms Some by (auto simp: check_in_order_def handler_simps quiet_def)
  next
    case expired
    then have "moves oid d d'"
      using assms Some
      by (intro movesI [OF Some, where f = withdraw_code])
        (auto simp: check_in_order_def handler_simps moved_id moved_restored mv_withdraw)
    then show ?thesis by simp
  next
    case failed
    then show ?thesis using assms Some by (auto simp: check_in_order_def handler_simps quiet_def)
  next
    case success
    then have "moves oid d d'"
      using assms Some mv_check_in [OF success(1,3,2)]
      by (intro movesI [OF Some, where f = "checked_in_order now"])
        (auto simp: check_in_order_def handler_simps moved_id moved_restored)
    then show ?thesis by simp
  qed
qed

lemma move_order_moves:
  assumes "move_order accepted refusal ty f d oid user = Inr (o1, d')"
    and mv: "\<And>o1. to_fulfillment_status o1 \<in> Some ` accepted \<Longrightarrow> order_move o1 (f o1)"
    and keep: "\<And>r. to_id (f r) = to_id r \<and> to_stock_restored (f r) = to_stock_restored r"
  shows "moves oid d d'"
proof -
  obtain item where i: "find_travel d oid = Some item" "to_fulfillment_status item \<in> Some ` accepted"
      and d': "travel_orders d' = update_by to_id oid f (travel_orders d)" "routes d' = routes d" "same_books d d'"
    using assms(1) by (auto simp: move_order_def handler_simps split: option.splits if_splits)
  show ?thesis by (intro movesI [OF i(1), where f = f]) (use mv [OF i(2)] keep d' in simp_all)
qed

lemma start_moves: "start_order_trip d oid user = Inr (o1, d') \<Longrightarrow> moves oid d d'"
  unfolding start_order_trip_def
  by (erule move_order_moves) (auto simp: moved_id moved_restored intro!: mv_start)

lemma complete_moves: "complete_order now d oid user = Inr (o1, d') \<Longrightarrow> moves oid d d'"
  unfolding complete_order_def
  by (erule move_order_moves) (auto simp: moved_id moved_restored intro!: mv_complete)

lemma exception_moves:
  assumes "mark_order_exception d oid reason user = Inr (o1, d')"
  shows "moves oid d d'"
proof -
  obtain item where i: "find_travel d oid = Some item" "to_fulfillment_status item \<noteq> Some COMPLETED"
      and d': "travel_orders d' = update_by to_id oid (exception_order reason) (travel_orders d)" "routes d' = routes d"
      "same_books d d'"
    using assms by (auto simp: mark_order_exception_def handler_simps split: option.splits if_splits)
  show ?thesis
    by (intro movesI [OF i(1), where f = "exception_order reason"])
      (use i(2) d' in \<open>simp_all add: moved_id moved_restored mv_exception\<close>)
qed

lemma quiet_trans [trans]: "quiet a b \<Longrightarrow> quiet b c \<Longrightarrow> quiet a c"
  by (simp add: quiet_def same_books_def)

lemma quiet_refl [simp]: "quiet d d"
  by (simp add: quiet_def same_books_def)

lemma quiet_save_setting: "quiet d (save_setting k v r d)"
  by (simp add: quiet_def same_books_def save_setting_def)

lemma quiet_snapshot:
  "ensure_contract_template_snapshot (\<lambda>x. x) now d v = Inr (s, d') \<Longrightarrow> quiet d d'"
  by (auto simp: ensure_contract_template_snapshot_def flush_snapshot_def Let_def quiet_def same_books_def
      split: sum.splits option.splits if_splits)

lemma quiet_template:
  "get_contract_template (\<lambda>x. x) now d = Inr (t, d') \<Longrightarrow> quiet d d'"
  by (auto simp: get_contract_template_def Let_def split: sum.splits option.splits prod.splits
      intro: quiet_trans [OF quiet_snapshot quiet_save_setting])

lemma quiet_upload:
  "save_upload_bytes c client now content fn ct folder (fs, d) = Inr (st, fs', d') \<Longrightarrow> quiet d d'"
  by (auto simp: save_upload_bytes_def draw_no_def Let_def quiet_def same_books_def map_sum_eq_Inr split: if_splits)

lemma quiet_signature:
  assumes "save_contract_signature c client now data no uid (fs, d) = Inr (url, fs', d')"
  shows "quiet d d'"
proof -
  obtain content mime sfx st fs1 d1 where
      up: "save_upload_bytes c client now content (Some (no @ ''-signature'' @ sfx)) (Some mime)
        ''contracts/signatures'' (fs, d) = Inr (st, fs1, d1)" and "quiet d1 d'"
    using assms by (auto simp: save_contract_signature_def add_asset_def Let_def quiet_def same_books_def
        split: sum.splits prod.splits)
  then show ?thesis using quiet_upload quiet_trans by blast
qed

lemma moves_quiet:
  assumes "quiet d d1" and "moves oid d1 d'"
  shows "moves oid d d'"
  using assms by (auto simp: moves_def quiet_def same_books_def find_travel_def)

lemma sign_moves:
  assumes s: "sign_travel_contract c client (\<lambda>x. x) now fs d oid p user = (res, fs', d')"
  shows "quiet d d' \<or> moves oid d d'"
proof (cases "get_my_travel_order d oid user")
  case (Inl e)
  then show ?thesis using s by (simp add: sign_travel_contract_def)
next
  case (Inr item)
  then obtain o2 where o2: "find_travel d oid = Some o2" "to_user_id o2 = ua_id user"
      "item = normalize_fulfillment_status o2"
    using get_my_travel_orderD by blast
  show ?thesis
  proof (cases "to_contract_status item = ConApproved \<or>
      to_fulfillment_status item \<notin> {Some CONTRACT_PENDING, Some CONTRACT_REVIEWING, Some CONTRACT_REJECTED}")
    case True
    then have "d' = d"
      using s Inr by (cases "to_contract_status item = ConApproved") (auto simp: sign_travel_contract_def)
    then show ?thesis by simp
  next
    case ok: False
    then have it: "item = o2" using o2(3) normalize_unapproved by simp
    show ?thesis
    proof (cases "get_contract_template (\<lambda>x. x) now d")
      case (Inl e)
      then show ?thesis using s Inr ok by (auto simp: sign_travel_contract_def)
    next
      case (Inr r)
      then obtain t d1 where g: "get_contract_template (\<lambda>x. x) now d = Inr (t, d1)" by (cases r) simp
      then have q1: "quiet d d1" by (rule quiet_template)
      show ?thesis
      proof (cases "check_sign_date now (ct_travel_date_days t) (sg_travel_date p)")
        case (Inl e)
        then show ?thesis using s \<open>get_my_travel_order d oid user = Inr item\<close> ok g q1
          by (auto simp: sign_travel_contract_def)
      next
        case date_ok: (Inr u)
        show ?thesis
        proof (cases "save_contract_signature c client now (sg_signature_data p) (to_order_no item) (ua_id user) (fs, d1)")
          case (Inl e)
          then show ?thesis using s \<open>get_my_travel_order d oid user = Inr item\<close> ok g q1 date_ok
            by (auto simp: sign_travel_contract_def)
        next
          case (Inr q)
          then obtain url fs2 d2 where sv: "save_contract_signature c client now (sg_signature_data p)
              (to_order_no item) (ua_id user) (fs, d1) = Inr (url, fs2, d2)" by (cases q) simp
          have q2: "quiet d d2" using q1 quiet_signature [OF sv] quiet_trans by blast
          let ?f = "signed_order now user p
              (if to_route_id item \<noteq> 0 then find_route d2 (to_route_id item) else None) t url"
          have d': "travel_orders d' = update_by to_id oid ?f (travel_orders d2)" "routes d' = routes d2"
              "same_books d2 d'"
            using s \<open>get_my_travel_order d oid user = Inr item\<close> ok g date_ok sv
            by (auto simp: sign_travel_contract_def handler_simps)
          have f2: "find_travel d2 oid = Some o2" using o2(1) q2 by (simp add: find_travel_def quiet_def)
          have "order_move o2 (?f o2)" using ok it o2(2) by (intro mv_sign) simp_all
          then have "moves oid d2 d'"
            by (intro movesI [OF f2, where f = ?f]) (use d' in \<open>simp_all add: moved_id moved_restored\<close>)
          then show ?thesis using moves_quiet [OF q2] by blast
        qed
      qed
    qed
  qed
qed

section \<open>Exchange, cancellation and the lists\<close>

lemma return_points_cases:
  assumes "return_points now o1 d = Inr d1"
  obtains (nothing) "\<not> owes_points o1" "d1 = d"
  | (refund) u orig l x where "owes_points o1" "find_user d (to_user_id o1) = Some u"
      "exchange_debit d (to_user_id o1) (to_order_no o1) = Some orig"
      "refund_locked d (to_user_id o1) ''travel_exchange'' (refund_entry o1 ''exchange cancelled'') (Some x) now = Inr (l, d1)"
  | (credit) u l x where "owes_points o1" "find_user d (to_user_id o1) = Some u"
      "exchange_debit d (to_user_id o1) (to_order_no o1) = None"
      "credit_locked d (to_user_id o1) (to_points_cost o1) (refund_entry o1 ''legacy exchange cancelled'') (Some x) = Inr (l, d1)"
proof (cases "owes_points o1")
  case True
  obtain u where u: "find_user d (to_user_id o1) = Some u"
    using assms True by (auto simp: return_points_def lock_user_def split: option.splits)
  then have id: "ua_id u = to_user_id o1" unfolding find_user_def by (rule find_by_key)
  show thesis
  proof (cases "exchange_debit d (to_user_id o1) (to_order_no o1)")
    case None
    then obtain l x where "credit_locked d (to_user_id o1) (to_points_cost o1)
        (refund_entry o1 ''legacy exchange cancelled'') (Some x) = Inr (l, d1)"
      using assms True u id by (auto simp: return_points_def lock_user_def Let_def map_sum_eq_Inr)
    then show thesis using credit [OF True u None] by blast
  next
    case (Some orig)
    then obtain l x where "refund_locked d (to_user_id o1) ''travel_exchange''
        (refund_entry o1 ''exchange cancelled'') (Some x) now = Inr (l, d1)"
      using assms True u id by (auto simp: return_points_def lock_user_def Let_def map_sum_eq_Inr)
    then show thesis using refund [OF True u Some] by blast
  qed
next
  case False
  then have "d1 = d" using assms by (simp add: return_points_def)
  with False show thesis by (rule nothing)
qed

lemma travel_cancel_cases:
  assumes "cancel_travel_order now d oid actor reason override = Inr (o', d')"
  obtains (again) "find_travel d oid = Some o'" "to_fulfillment_status o' = Some CANCELLED" "d' = d"
  | (cancelled) o1 d1 where "find_travel d oid = Some o1" "override \<or> to_user_id o1 = ua_id actor"
      "to_fulfillment_status o1 \<notin> Some ` non_cancellable" "to_fulfillment_status o1 \<noteq> Some CANCELLED"
      "override \<or> to_fulfillment_status o1 \<in> Some ` user_cancellable"
      "return_points now o1 d = Inr d1" "o' = cancelled_order now reason o1"
      "travel_orders d' = update_by to_id oid (cancelled_order now reason) (travel_orders d1)"
      "routes d' = routes (return_place o1 d1)" "same_books d1 d'"
proof -
  obtain o1 where o1: "find_travel d oid = Some o1" "override \<or> to_user_id o1 = ua_id actor"
    using assms by (auto simp: cancel_travel_order_def split: option.splits if_splits)
  show thesis
  proof (cases "to_fulfillment_status o1 = Some CANCELLED")
    case True
    then show thesis using assms o1 again by (auto simp: cancel_travel_order_def)
  next
    case False
    then have g: "to_fulfillment_status o1 \<notin> Some ` non_cancellable"
        "override \<or> to_fulfillment_status o1 \<in> Some ` user_cancellable"
      using assms o1 by (auto simp: cancel_travel_order_def split: if_splits)
    obtain d1 where d1: "return_points now o1 d = Inr d1"
      using assms o1 False g by (auto simp: cancel_travel_order_def split: sum.splits if_splits)
    have frame: "travel_orders (return_place o1 d1) = travel_orders d1" "same_books d1 (return_place o1 d1)"
      by (simp_all add: return_place_def add_stock_def same_books_def)
    have eqs: "o' = cancelled_order now reason o1"
      "travel_orders d' = update_by to_id oid (cancelled_order now reason) (travel_orders (return_place o1 d1))"
      "routes d' = routes (return_place o1 d1)" "same_books (return_place o1 d1) d'"
      using assms o1 False g d1 by (auto simp: cancel_travel_order_def handler_simps)
    have "same_books d1 d'" using frame(2) eqs(4) by (simp add: same_books_def)
    from cancelled [OF o1 g(1) False g(2) d1 eqs(1) _ eqs(3) this] show thesis
      using eqs(2) by (simp add: frame(1))
  qed
qed

lemma return_points_aside:
  assumes "return_points now o1 d = Inr d1"
  shows "aside d d1"
  using assms
proof (cases rule: return_points_cases)
  case (refund u orig l x)
  then show ?thesis using aside_refund by blast
next
  case (credit u l x)
  then show ?thesis using aside_credit by blast
qed simp

definition fresh_order :: "db \<Rightarrow> travel_order \<Rightarrow> bool" where
  "fresh_order d o1 \<longleftrightarrow> to_id o1 \<notin> to_id ` set (travel_orders d) \<and> to_order_no o1 \<notin> to_order_no ` set (travel_orders d) \<and>
    (to_user_id o1, to_idempotency_key o1) \<notin> (\<lambda>r. (to_user_id r, to_idempotency_key r)) ` set (travel_orders d)"

lemma exchange_cases:
  assumes "exchange_locked now d u rid travel_date key = Inr (o', d')"
  obtains (existing) "find_exchange d (ua_id u) key = Some o'" "d' = d"
  | (placed) r d1 where "find_exchange d (ua_id u) key = None" "open_route d rid = Some r" "0 < tr_stock r"
      "o' = exchange_order now (fresh_id to_id (travel_orders d)) (numbers d ''TR'' (drawn d)) u r travel_date key"
      "fresh_order d o'"
      "spend_points now o' (d\<lparr>drawn := Suc (drawn d), travel_orders := travel_orders d @ [o']\<rparr>) = Inr d1"
      "travel_orders d' = travel_orders d1" "routes d' = routes (add_stock (tr_id r) (-1) d1)" "same_books d1 d'"
proof (cases "find_exchange d (ua_id u) key")
  case (Some e)
  then have "e = o' \<and> d = d'" using assms by (simp add: exchange_locked_def)
  then show thesis using Some by (intro existing) simp_all
next
  case None
  then obtain r where r1: "open_route d rid = Some r"
    using assms None by (cases "open_route d rid") (simp_all add: exchange_locked_def)
  have "\<not> tr_stock r \<le> 0"
  proof
    assume "tr_stock r \<le> 0"
    with assms None r1 show False by (simp add: exchange_locked_def)
  qed
  with r1 have r: "open_route d rid = Some r" "0 < tr_stock r" by simp_all
  let ?o = "exchange_order now (fresh_id to_id (travel_orders d)) (numbers d ''TR'' (drawn d)) u r travel_date key"
  let ?d = "d\<lparr>drawn := Suc (drawn d)\<rparr>"
  have pl: "exchange_locked now d u rid travel_date key =
      (case place_exchange now u ?o ?d of
         Inr d2 \<Rightarrow> Inr (?o, d2) | Inl IntegrityError \<Rightarrow> Inl expired_attribute | Inl e \<Rightarrow> Inl e)"
    using None r by (simp add: exchange_locked_def draw_no_def Let_def split: sum.split error.split)
  then obtain d2 where p: "place_exchange now u ?o ?d = Inr d2" and eq: "o' = ?o" "d' = d2"
    using assms by (auto split: sum.splits error.splits)
  have rid: "to_route_id ?o = tr_id r" "to_id ?o = fresh_id to_id (travel_orders d)" by (simp_all add: exchange_order_def)
  obtain d0 d1 where f: "flush_travel ?o ?d = Inr d0" and sp: "spend_points now ?o d0 = Inr d1"
      and d2: "travel_orders d2 = travel_orders d1" "routes d2 = routes (add_stock (tr_id r) (-1) d1)"
      "same_books d1 d2"
    using p by (auto simp: place_exchange_def handler_simps rid add_stock_def split: sum.splits)
  have d0: "d0 = d\<lparr>drawn := Suc (drawn d), travel_orders := travel_orders d @ [?o]\<rparr>"
    using f by (simp add: flush_travel_def split: if_splits)
  have "fresh_order d ?o"
    using f fresh_id_new [of to_id "travel_orders d"]
    by (auto simp: fresh_order_def flush_travel_def rid list_ex_iff split: if_splits)
  then show thesis
    using placed [OF None r] sp d2 unfolding d0 eq by blast
qed

lemma spend_points_cases:
  assumes "spend_points now o1 d = Inr d1"
  obtains (free) "to_points_cost o1 \<le> 0" "d1 = d"
  | (debit) l where "0 < to_points_cost o1"
      "debit_locked d (to_user_id o1) (to_points_cost o1) (exchange_entry o1) now = Inr (l, d1)"
  using assms by (auto simp: spend_points_def map_sum_eq_Inr not_less split: if_splits)

lemma spend_points_aside: "spend_points now o1 d = Inr d1 \<Longrightarrow> aside d d1"
  by (erule spend_points_cases) (auto dest: aside_debit)

section \<open>The invariant\<close>

definition travel_ok :: "db \<Rightarrow> bool" where
  "travel_ok d \<longleftrightarrow> distinct (map to_id (travel_orders d)) \<and> distinct (map to_order_no (travel_orders d)) \<and>
    distinct (map (\<lambda>r. (to_user_id r, to_idempotency_key r)) (travel_orders d)) \<and>
    (\<forall>r \<in> set (travel_orders d). order_ok r) \<and> distinct (map tr_id (routes d)) \<and>
    (\<forall>r \<in> set (routes d). 0 \<le> tr_stock r)"

definition travel_inv :: "db \<Rightarrow> bool" where
  "travel_inv d \<longleftrightarrow> travel_ok d \<and> points_ok d"

text \<open>The places of a route that are free, and those that orders hold.\<close>

definition free_places :: "db \<Rightarrow> int \<Rightarrow> int" where
  "free_places d rid = (case find_route d rid of Some r \<Rightarrow> tr_stock r | None \<Rightarrow> 0)"

definition held_places :: "db \<Rightarrow> int \<Rightarrow> int" where
  "held_places d rid = sum_where (\<lambda>o1. to_route_id o1 = rid \<and> \<not> to_stock_restored o1) (\<lambda>_. 1) (travel_orders d)"

definition route_in :: "db \<Rightarrow> int \<Rightarrow> bool" where
  "route_in d rid \<longleftrightarrow> rid \<noteq> 0 \<and> find_route d rid \<noteq> None"

lemma books_points_ok: "same_books d d' \<Longrightarrow> points_ok d' = points_ok d"
  by (simp add: same_books_def points_ok_def books_ok_def lots_ok_def ledgers_ok_def allocs_ok_def spent_ok_def
      sources_ok_def linked_def alloc_total_def lot_total_def points_of_def find_user_def)

lemma same_booksI: "users d' = users d \<Longrightarrow> ledgers d' = ledgers d \<Longrightarrow> lots d' = lots d \<Longrightarrow>
    allocations d' = allocations d \<Longrightarrow> numbers d' = numbers d \<Longrightarrow> same_books d d'"
  by (simp add: same_books_def)

lemma update_by_all:
  assumes "distinct (map key rows)" and "find_by key k rows = Some r" and "P (f r)"
    and "\<forall>x \<in> set rows. P x"
  shows "\<forall>x \<in> set (update_by key k f rows). P x"
proof
  fix y assume "y \<in> set (update_by key k f rows)"
  then obtain x where x: "x \<in> set rows" "y = (if key x = k then f x else x)" by (auto simp: set_update_by)
  show "P y"
  proof (cases "key x = k")
    case True
    then have "x = r" using find_by_distinct [OF assms(1) x(1)] assms(2) by simp
    then show ?thesis using x True assms(3) by simp
  next
    case False
    then show ?thesis using x assms(4) by simp
  qed
qed

text \<open>One order moves: keys stay unique, every order stays in order, the places are those of before.\<close>

lemma update_orders_ok:
  assumes ok: "travel_ok d" and f: "find_travel d oid = Some o1" and mv: "order_move o1 (f o1)"
    and t: "travel_orders d' = update_by to_id oid f (travel_orders d)"
    and keep: "\<And>r. to_id (f r) = to_id r"
    and ro: "distinct (map tr_id (routes d'))" "\<forall>r \<in> set (routes d'). 0 \<le> tr_stock r"
  shows "travel_ok d'"
proof -
  have fb: "find_by to_id oid (travel_orders d) = Some o1" using f by (simp add: find_travel_def)
  have ids: "distinct (map to_id (travel_orders d))" using ok by (simp add: travel_ok_def)
  have same: "map g (update_by to_id oid f (travel_orders d)) = map g (travel_orders d)" if "g (f o1) = g o1" for g :: "travel_order \<Rightarrow> 'k"
    using find_by_distinct [OF ids] fb that by (auto simp: update_by_def)
  note fixed = move_fixed [OF mv]
  have "map to_id (travel_orders d') = map to_id (travel_orders d)"
      "map to_order_no (travel_orders d') = map to_order_no (travel_orders d)"
      "map (\<lambda>r. (to_user_id r, to_idempotency_key r)) (travel_orders d') =
       map (\<lambda>r. (to_user_id r, to_idempotency_key r)) (travel_orders d)"
    unfolding t using fixed by (auto intro!: same)
  moreover have "\<forall>r \<in> set (travel_orders d'). order_ok r"
    unfolding t
  proof (rule update_by_all [OF ids fb])
    have "order_ok o1" using ok find_by_mem [OF fb] by (simp add: travel_ok_def)
    then show "order_ok (f o1)" using move_ok [OF mv] by simp
  qed (use ok in \<open>simp add: travel_ok_def\<close>)
  ultimately show ?thesis using ok ro by (simp add: travel_ok_def)
qed

lemma held_update:
  assumes ok: "travel_ok d" and f: "find_travel d oid = Some o1" and mv: "order_move o1 (f o1)"
    and t: "travel_orders d' = update_by to_id oid f (travel_orders d)"
  shows "held_places d' rid = held_places d rid
    - (if to_route_id o1 = rid \<and> \<not> to_stock_restored o1 then 1 else 0)
    + (if to_route_id o1 = rid \<and> \<not> to_stock_restored (f o1) then 1 else 0)"
proof -
  have "distinct (map to_id (travel_orders d))" "find_by to_id oid (travel_orders d) = Some o1"
    using ok f by (simp_all add: travel_ok_def find_travel_def)
  from sum_where_update_by [OF this] show ?thesis
    using move_fixed [OF mv] by (simp add: held_places_def t)
qed

lemma moves_ok:
  assumes "moves oid d d'" and ok: "travel_ok d"
  shows "travel_ok d' \<and> free_places d' rid = free_places d rid \<and> held_places d' rid = held_places d rid"
proof -
  obtain f o1 where m: "find_travel d oid = Some o1" "order_move o1 (f o1)"
      "to_stock_restored (f o1) = to_stock_restored o1" "\<And>r. to_id (f r) = to_id r"
      "travel_orders d' = update_by to_id oid f (travel_orders d)" "routes d' = routes d"
    using assms(1) by (auto simp: moves_def)
  have "travel_ok d'"
    by (rule update_orders_ok [OF ok m(1,2,5,4)]) (use ok m(6) in \<open>simp_all add: travel_ok_def\<close>)
  moreover have "held_places d' rid = held_places d rid" using held_update [OF ok m(1,2,5)] m(3) by simp
  ultimately show ?thesis by (simp add: free_places_def find_route_def m(6))
qed

lemma quiet_ok:
  "quiet d d' \<Longrightarrow> travel_ok d \<Longrightarrow> travel_ok d' \<and> free_places d' rid = free_places d rid \<and> held_places d' rid = held_places d rid"
  by (simp add: quiet_def travel_ok_def free_places_def held_places_def find_route_def)

lemma find_route_add_stock:
  "find_route (add_stock k n d) rid =
    map_option (\<lambda>r. if rid = k then r\<lparr>tr_stock := tr_stock r + n\<rparr> else r) (find_route d rid)"
  by (cases "find_by tr_id rid (routes d)") (auto simp: find_route_def add_stock_def find_by_update_by)

lemma free_add_stock:
  "route_in d rid \<Longrightarrow> free_places (add_stock k n d) rid = free_places d rid + (if rid = k then n else 0)"
  by (auto simp: free_places_def find_route_add_stock route_in_def split: option.splits)

lemma add_stock_ids: "map tr_id (routes (add_stock k n d)) = map tr_id (routes d)"
  by (simp add: add_stock_def map_key_update_by)

lemma return_points_ok:
  assumes "return_points now o1 d = Inr d1" and "points_ok d"
  shows "points_ok d1"
  using assms(1)
proof (cases rule: return_points_cases)
  case (refund u orig l x)
  then have "user_in d (to_user_id o1)" by (simp add: user_in_def)
  from points_step_ok [OF step_refund [OF this refund(4)] assms(2)] show ?thesis .
next
  case (credit u l x)
  have u: "user_in d (to_user_id o1)" using credit(2) by (simp add: user_in_def)
  from points_step_ok [OF step_credit [OF u credit(4)] assms(2)] show ?thesis .
qed (use assms(2) in simp)

lemma aside_travel:
  "aside d d' \<Longrightarrow> travel_ok d' = travel_ok d \<and> free_places d' rid = free_places d rid \<and>
    held_places d' rid = held_places d rid \<and> find_travel d' oid = find_travel d oid \<and>
    find_route d' rid = find_route d rid"
  by (simp add: aside_def travel_ok_def free_places_def held_places_def find_route_def find_travel_def)

lemma cancel_ok:
  assumes c: "cancel_travel_order now d oid actor reason override = Inr (o', d')" and inv: "travel_inv d"
  shows "travel_inv d' \<and> (route_in d rid \<longrightarrow>
    free_places d' rid + held_places d' rid = free_places d rid + held_places d rid)"
  using c
proof (cases rule: travel_cancel_cases)
  case (cancelled o1 d1)
  have ok: "travel_ok d1" and o1: "find_travel d1 oid = Some o1"
    using inv cancelled(1) aside_travel [OF return_points_aside [OF cancelled(6)]] by (simp_all add: travel_inv_def)
  have mv: "order_move o1 (cancelled_order now reason o1)" using cancelled(3,4) by (rule mv_cancel)
  have "distinct (map tr_id (routes (return_place o1 d1)))" "\<forall>r \<in> set (routes (return_place o1 d1)). 0 \<le> tr_stock r"
    using ok by (auto simp: return_place_def travel_ok_def add_stock_ids) (auto simp: add_stock_def set_update_by)
  then have "travel_ok d'"
    by (intro update_orders_ok [OF ok o1 mv cancelled(8)]) (simp_all add: moved_id cancelled(9))
  moreover have "points_ok d'"
    using return_points_ok [OF cancelled(6)] books_points_ok [OF cancelled(10)] inv by (simp add: travel_inv_def)
  moreover have "free_places d' rid + held_places d' rid = free_places d rid + held_places d rid" if "route_in d rid"
  proof -
    note as = aside_travel [OF return_points_aside [OF cancelled(6)], of rid]
    have r1: "route_in d1 rid" using that as by (simp add: route_in_def)
    have "free_places d' rid = free_places (return_place o1 d1) rid"
      by (simp add: free_places_def find_route_def cancelled(9))
    also have "\<dots> = free_places d1 rid + (if holds_place o1 \<and> rid = to_route_id o1 then 1 else 0)"
      using free_add_stock [OF r1, of "to_route_id o1" 1] by (cases "rid = to_route_id o1") (simp_all add: return_place_def)
    finally show ?thesis
      using held_update [OF ok o1 mv cancelled(8), of rid] as r1
      by (auto simp: holds_place_def cancelled_order_def route_in_def)
  qed
  ultimately show ?thesis by (simp add: travel_inv_def)
qed (use inv in simp)

lemma exchange_order_fields [simp]:
  "to_id (exchange_order now i no u r td key) = i" "to_order_no (exchange_order now i no u r td key) = no"
  "to_user_id (exchange_order now i no u r td key) = ua_id u" "to_route_id (exchange_order now i no u r td key) = tr_id r"
  "to_points_cost (exchange_order now i no u r td key) = required_points r"
  "to_idempotency_key (exchange_order now i no u r td key) = key"
  "to_stock_restored (exchange_order now i no u r td key) = False"
  "to_points_refunded (exchange_order now i no u r td key) = False"
  "to_order_type (exchange_order now i no u r td key) = ''points_exchange''"
  "to_fulfillment_status (exchange_order now i no u r td key) = Some CONTRACT_PENDING"
  "to_contract_status (exchange_order now i no u r td key) = ConUnsigned"
  "to_qr_token (exchange_order now i no u r td key) = []"
  by (simp_all add: exchange_order_def)

lemma exchange_order_ok: "order_ok (exchange_order now i no u r td key)"
  by (simp add: ok_simps)

lemma open_route_find: "open_route d rid = Some r \<Longrightarrow> find_route d rid = Some r \<and> tr_id r = rid"
  using find_by_key [of tr_id rid "routes d"] by (auto simp: open_route_def find_route_def split: option.splits if_splits)

lemma spend_points_ok:
  assumes "spend_points now o1 d = Inr d1" and "points_ok d" and "user_in d (to_user_id o1)"
  shows "points_ok d1"
  using assms(1)
proof (cases rule: spend_points_cases)
  case (debit l)
  from points_step_ok [OF step_debit [OF assms(3) debit(2)] assms(2)] show ?thesis .
qed (use assms(2) in simp)

lemma exchange_ok:
  assumes x: "exchange_locked now d u rt td key = Inr (o', d')" and u: "lock_user d uid = Inr u" and inv: "travel_inv d"
  shows "travel_inv d' \<and> (route_in d rid \<longrightarrow>
    free_places d' rid + held_places d' rid = free_places d rid + held_places d rid)"
  using x
proof (cases rule: exchange_cases)
  case (placed r d1)
  let ?d = "d\<lparr>drawn := Suc (drawn d), travel_orders := travel_orders d @ [o']\<rparr>"
  have rt: "find_route d rt = Some r" "tr_id r = rt" using open_route_find [OF placed(2)] by simp_all
  have ua: "user_in d (ua_id u)"
    using u find_by_key [of ua_id uid "users d"] by (auto simp: lock_user_def user_in_def find_user_def split: option.splits)
  have ok: "travel_ok ?d"
    using inv placed(5) exchange_order_ok by (auto simp: travel_inv_def travel_ok_def fresh_order_def placed(4))
  note as = aside_travel [OF spend_points_aside [OF placed(6)]]
  have ok1: "travel_ok d1" using as ok by simp
  have r1: "find_route d1 rt = Some r" using as [of rt] rt by (simp add: find_route_def)
  have pos: "\<forall>x \<in> set (routes d'). 0 \<le> tr_stock x"
  proof -
    have "distinct (map tr_id (routes d1))" "\<forall>x \<in> set (routes d1). 0 \<le> tr_stock x" using ok1 by (simp_all add: travel_ok_def)
    from update_by_all [OF this(1) r1 [unfolded find_route_def] _ this(2), of "\<lambda>r. r\<lparr>tr_stock := tr_stock r + - 1\<rparr>"]
    show ?thesis using placed(3) by (simp add: placed(8) add_stock_def rt(2))
  qed
  have "travel_ok d'"
    using ok1 pos by (simp add: travel_ok_def placed(7,8) add_stock_ids)
  moreover have "points_ok d'"
  proof -
    have "points_ok ?d" using inv books_points_ok [of d ?d] by (simp add: travel_inv_def same_books_def)
    moreover have "user_in ?d (to_user_id o')" using ua by (simp add: user_in_def find_user_def placed(4))
    ultimately show ?thesis using spend_points_ok [OF placed(6)] books_points_ok [OF placed(9)] by simp
  qed
  moreover have "free_places d' rid + held_places d' rid = free_places d rid + held_places d rid" if "route_in d rid"
  proof -
    have "route_in d1 rid" using that as [of rid] by (simp add: route_in_def find_route_def)
    then have "free_places d' rid = free_places d1 rid + (if rid = rt then - 1 else 0)"
      using free_add_stock [of d1 rid rt "-1"] by (simp add: free_places_def find_route_def placed(8) rt(2))
    moreover have "held_places d' rid = held_places d1 rid" by (simp add: held_places_def placed(7))
    moreover have "held_places d1 rid = held_places d rid + (if rid = rt then 1 else 0)" "free_places d1 rid = free_places d rid"
      using as [of rid] rt(2) by (auto simp: held_places_def free_places_def find_route_def placed(4) sum_where_append sum_where_Cons)
    ultimately show ?thesis by simp
  qed
  ultimately show ?thesis by (simp add: travel_inv_def)
qed (use inv in simp)

text \<open>The lists normalise the orders they show and nothing else.\<close>

lemma lists_ok:
  assumes t: "travel_orders d' = map (\<lambda>r. if P r then normalize_fulfillment_status r else r) (travel_orders d)"
    and r: "routes d' = routes d" and b: "same_books d d'" and inv: "travel_inv d"
  shows "travel_inv d' \<and> free_places d' rid = free_places d rid \<and> held_places d' rid = held_places d rid"
proof -
  let ?g = "\<lambda>r. if P r then normalize_fulfillment_status r else r"
  have same: "to_id (?g r) = to_id r" "to_order_no (?g r) = to_order_no r"
      "(to_user_id (?g r), to_idempotency_key (?g r)) = (to_user_id r, to_idempotency_key r)"
      "to_route_id (?g r) = to_route_id r" "to_stock_restored (?g r) = to_stock_restored r" for r
    by (auto simp: normalize_fulfillment_status_def)
  have "map to_id (travel_orders d') = map to_id (travel_orders d)"
      "map to_order_no (travel_orders d') = map to_order_no (travel_orders d)"
      "map (\<lambda>r. (to_user_id r, to_idempotency_key r)) (travel_orders d') =
       map (\<lambda>r. (to_user_id r, to_idempotency_key r)) (travel_orders d)"
    by (simp_all only: t map_map o_def same)
  moreover have "\<forall>r \<in> set (travel_orders d'). order_ok r"
    using inv ok_normalize by (auto simp: t travel_inv_def travel_ok_def)
  ultimately have "travel_ok d'" using inv r by (simp add: travel_inv_def travel_ok_def)
  moreover have "held_places d' rid = held_places d rid"
  proof -
    have "sum_where (\<lambda>o1. to_route_id o1 = rid \<and> \<not> to_stock_restored o1) (\<lambda>_. 1) (map ?g xs) =
        sum_where (\<lambda>o1. to_route_id o1 = rid \<and> \<not> to_stock_restored o1) (\<lambda>_. 1) xs" for xs
      by (induction xs) (simp_all only: list.map sum_where_Nil sum_where_Cons same)
    then show ?thesis by (simp add: held_places_def t)
  qed
  ultimately show ?thesis
    using books_points_ok [OF b] inv by (simp add: travel_inv_def free_places_def find_route_def r)
qed

lemma my_orders_ok:
  assumes "my_travel_orders d user = (os, d')" and "travel_inv d"
  shows "travel_inv d' \<and> free_places d' rid = free_places d rid \<and> held_places d' rid = held_places d rid"
  by (rule lists_ok [where P = "\<lambda>r. to_user_id r = ua_id user"])
    (use assms in \<open>auto simp: my_travel_orders_def same_books_def\<close>)

lemma admin_orders_ok:
  assumes "admin_orders d flt = (os, d')" and "travel_inv d"
  shows "travel_inv d' \<and> free_places d' rid = free_places d rid \<and> held_places d' rid = held_places d rid"
  by (rule lists_ok [where P = "\<lambda>r. case flt of None \<Rightarrow> True | Some s \<Rightarrow> travel_value (to_status r) = s"])
    (use assms in \<open>auto simp: admin_orders_def same_books_def Let_def\<close>)

lemma quiet_inv:
  "quiet d d' \<Longrightarrow> travel_inv d \<Longrightarrow> travel_inv d' \<and> free_places d' rid = free_places d rid \<and> held_places d' rid = held_places d rid"
  using quiet_ok [of d d' rid] books_points_ok [of d d'] by (simp add: travel_inv_def quiet_def)

lemma moves_inv:
  "moves oid d d' \<Longrightarrow> travel_inv d \<Longrightarrow> travel_inv d' \<and> free_places d' rid = free_places d rid \<and> held_places d' rid = held_places d rid"
  using moves_ok [of oid d d' rid] books_points_ok [of d d'] by (auto simp: travel_inv_def moves_def)

text \<open>The handlers that move at most one order and touch neither points nor routes.\<close>

lemma step_kinds:
  assumes "travel_step d d'"
  obtains (exchange) uid u now rt td key o1 where "lock_user d uid = Inr u"
      "exchange_locked now d u rt td key = Inr (o1, d')"
  | (cancel) now oid actor reason override o1 where "cancel_travel_order now d oid actor reason override = Inr (o1, d')"
  | (move) oid where "moves oid d d'"
  | (still) "quiet d d'"
  | (list_mine) user os where "my_travel_orders d user = (os, d')"
  | (list_all) flt os where "admin_orders d flt = (os, d')"
  using assms
proof (cases rule: travel_step.cases)
  case ts_sign
  then show thesis using sign_moves move still by blast
next
  case ts_check_in
  then show thesis using check_in_moves move still by blast
qed (blast intro: that dest: pickup_moves confirm_moves review_moves schedule_moves issue_moves start_moves
    complete_moves exception_moves)+

lemma travel_step_inv:
  assumes s: "travel_step d d'" and inv: "travel_inv d"
  shows "travel_inv d' \<and> (route_in d rid \<longrightarrow>
    free_places d' rid + held_places d' rid = free_places d rid + held_places d rid)"
  using s
proof (cases rule: step_kinds)
  case exchange
  then show ?thesis using exchange_ok inv by blast
next
  case cancel
  then show ?thesis using cancel_ok inv by blast
next
  case move
  then show ?thesis using moves_inv [of _ d d' rid] inv by simp
next
  case still
  then show ?thesis using quiet_inv [of d d' rid] inv by simp
next
  case list_mine
  then show ?thesis using my_orders_ok [of d _ _ d' rid] inv by simp
next
  case list_all
  then show ?thesis using admin_orders_ok [of d _ _ d' rid] inv by simp
qed

definition travel_init :: "db \<Rightarrow> bool" where
  "travel_init d \<longleftrightarrow> travel_orders d = [] \<and> distinct (map tr_id (routes d)) \<and>
    (\<forall>r \<in> set (routes d). 0 \<le> tr_stock r) \<and> points_init d"

interpretation travel: machine travel_init travel_step travel_inv
proof
  show "travel_inv d" if "travel_init d" for d
    using that points.init_inv by (simp add: travel_init_def travel_inv_def travel_ok_def)
  show "travel_inv d'" if "travel_inv d" "travel_step d d'" for d d'
    using travel_step_inv that by blast
qed

text \<open>Routes are never removed by these steps.\<close>

lemma map_tr_id_step:
  assumes "travel_step d d'"
  shows "map tr_id (routes d') = map tr_id (routes d)"
  using assms
proof (cases rule: step_kinds)
  case (exchange uid u now rt td key o1)
  from exchange(2) show ?thesis
  proof (cases rule: exchange_cases)
    case (placed r d1)
    have "routes d1 = routes d" using spend_points_aside [OF placed(6)] by (simp add: aside_def)
    then show ?thesis by (simp add: placed(8) add_stock_ids)
  qed simp
next
  case (cancel now oid actor reason override o1)
  then show ?thesis
  proof (cases rule: travel_cancel_cases)
    case (cancelled o2 d1)
    have "routes d1 = routes d" using return_points_aside [OF cancelled(6)] by (simp add: aside_def)
    then show ?thesis by (simp add: cancelled(9) return_place_def add_stock_ids)
  qed simp
next
  case list_mine
  then show ?thesis by (auto simp: my_travel_orders_def)
next
  case list_all
  then show ?thesis by (auto simp: admin_orders_def Let_def)
qed (auto simp: moves_def quiet_def)

lemma route_in_map: "map tr_id (routes d') = map tr_id (routes d) \<Longrightarrow> route_in d' rid = route_in d rid"
  by (simp add: route_in_def find_route_def find_by_None_iff) (metis list.set_map)

lemma travel_runs_places:
  assumes "runs travel_step d d'" and "travel_inv d" and "route_in d rid"
  shows "route_in d' rid \<and> free_places d' rid + held_places d' rid = free_places d rid + held_places d rid"
  using assms
proof (induction rule: runs.induct)
  case (runs_step s t u)
  then have t: "route_in t rid" "free_places t rid + held_places t rid = free_places s rid + held_places s rid" by simp_all
  have "travel_inv t" using travel.runs_inv runs_step by blast
  then show ?case
    using travel_step_inv [OF runs_step(2), of rid] t route_in_map [OF map_tr_id_step [OF runs_step(2)], of rid] by simp
qed simp

end
