(* ===== verification/Travel_Props.thy ===== *)
theory Travel_Props
  imports Travel_Machine
begin

text \<open>
  The properties of travel orders: places are conserved, the life of an order follows its
  table, an exchange and its cancellation move points and places exactly once, and a
  check-in needs the current code. Two theorems show where the code does not do what it
  means to: a cancelled order can be brought back to life, and a date that the field check
  accepts can crash the signature.
\<close>

section \<open>A small agency\<close>

definition sample_route :: travel_route where
  "sample_route = \<lparr>tr_id = 5, tr_school_id = 0, tr_name = ''lake'', tr_category = [], tr_days = [], tr_price = 300,
    tr_stock = 2, tr_agency = ''a'', tr_image = [], tr_description = [], tr_display_weight = 0,
    tr_review_status = RevApproved, tr_reject_reason = [], tr_status = True\<rparr>"

definition agency_db :: db where
  "agency_db = points_db\<lparr>routes := [sample_route]\<rparr>"

definition traveller :: user_account where
  "traveller = sample_user 1 7 0"

lemma agency_init: "travel_init agency_db"
proof -
  have "points_init agency_db"
    by (simp add: points_init_def agency_db_def sample_simps points_of_def find_user_def find_by_Cons)
  then show ?thesis by (simp add: travel_init_def agency_db_def sample_simps sample_route_def)
qed

definition exchanged_db :: db where
  "exchanged_db = after_run agency_db (exchange_locked 50 agency_db traveller 5 ''2030-01-01'' ''key-0001'')"

definition the_exchange :: travel_order where
  "the_exchange = exchange_order 50 1 ''TR0'' traveller sample_route ''2030-01-01'' ''key-0001''"

lemma agency_exchange:
  "exchange_locked 50 agency_db traveller 5 ''2030-01-01'' ''key-0001'' = Inr (the_exchange, exchanged_db)"
proof -
  have "\<not> isl (exchange_locked 50 agency_db traveller 5 ''2030-01-01'' ''key-0001'')" by code_simp
  from not_isl_ex [OF this] obtain o1 d1 where
    x: "exchange_locked 50 agency_db traveller 5 ''2030-01-01'' ''key-0001'' = Inr (o1, d1)" by blast
  from x have "o1 = the_exchange"
  proof (cases rule: exchange_cases)
    case existing
    have "find_exchange agency_db (ua_id traveller) ''key-0001'' = None" by code_simp
    then show ?thesis using existing by simp
  next
    case (placed r d2)
    have "open_route agency_db 5 = Some sample_route" by code_simp
    then have "r = sample_route" using placed(2) by simp
    moreover have "fresh_id to_id (travel_orders agency_db) = 1" "numbers agency_db ''TR'' (drawn agency_db) = ''TR0''"
      by code_simp+
    ultimately show ?thesis using placed(4) by (simp add: the_exchange_def)
  qed
  then show ?thesis using x by (simp add: exchanged_db_def after_run_def)
qed

lemma agency_lock: "lock_user agency_db 1 = Inr traveller"
  by code_simp

lemma agency_run: "runs travel_step agency_db exchanged_db"
  by (rule runs_step [OF runs_refl]) (rule ts_exchange [OF agency_lock agency_exchange])

lemma agency_inv: "travel_inv agency_db" "travel_inv exchanged_db"
  using travel.init_inv [OF agency_init] travel.reachable_inv [OF agency_init agency_run] by simp_all

section \<open>Places and states\<close>

text \<open>
  C19: places on a route are conserved and never oversold. Over any run of the travel
  handlers from a database without orders, the free places of a route and the places that
  orders hold add up to the original stock, and neither is ever negative: at most as many
  orders hold a place as there were places.
\<close>

theorem places_conserved:
  assumes "travel_init d0" and "runs travel_step d0 d" and "route_in d0 rid"
  shows "free_places d rid + held_places d rid = free_places d0 rid \<and>
    0 \<le> free_places d rid \<and> 0 \<le> held_places d rid"
proof -
  have "held_places d0 rid = 0" using assms(1) by (simp add: travel_init_def held_places_def)
  moreover have "free_places d rid + held_places d rid = free_places d0 rid + held_places d0 rid"
    using travel_runs_places [OF assms(2) travel.init_inv [OF assms(1)] assms(3)] by simp
  moreover have "0 \<le> held_places d rid" unfolding held_places_def by (rule sum_where_nonneg) simp
  moreover have "0 \<le> free_places d rid"
    using travel.reachable_inv [OF assms(1,2)] find_by_mem [of tr_id rid "routes d"]
    by (auto simp: travel_inv_def travel_ok_def free_places_def find_route_def split: option.splits)
  ultimately show ?thesis by simp
qed

theorem places_conserved_witness:
  "free_places exchanged_db 5 = 1 \<and> held_places exchanged_db 5 = 1 \<and>
   free_places exchanged_db 5 + held_places exchanged_db 5 = free_places agency_db 5"
proof -
  have "route_in agency_db 5" by (simp add: route_in_def agency_db_def find_route_def find_by_Cons sample_route_def)
  from places_conserved [OF agency_init agency_run this]
  have "free_places exchanged_db 5 + held_places exchanged_db 5 = free_places agency_db 5" by simp
  moreover have "free_places exchanged_db 5 = 1" "free_places agency_db 5 = 2" by code_simp+
  ultimately show ?thesis by simp
qed

text \<open>
  C20: every order of a reachable database is in order. From the pickup information on its
  contract is approved; a check-in code exists only between the user's confirmation and
  the check-in; who is checked in, on the trip or back has a time of check-in; a cancelled
  order owes neither points nor a place; what was given back was given back by a
  cancellation. Ids, order numbers and idempotency keys are unique.
\<close>

theorem travel_orders_reachable_ok:
  assumes "travel_init d0" and "runs travel_step d0 d"
  shows "list_all order_ok (travel_orders d) \<and> distinct (map to_id (travel_orders d)) \<and>
    distinct (map to_order_no (travel_orders d)) \<and>
    distinct (map (\<lambda>r. (to_user_id r, to_idempotency_key r)) (travel_orders d)) \<and> points_ok d"
  using travel.reachable_inv [OF assms] by (simp add: travel_inv_def travel_ok_def list_all_iff)

theorem travel_orders_reachable_ok_witness:
  "length (travel_orders exchanged_db) = 1 \<and> list_all order_ok (travel_orders exchanged_db) \<and> points_ok exchanged_db"
proof -
  have "length (travel_orders exchanged_db) = 1" by code_simp
  then show ?thesis using travel_orders_reachable_ok [OF agency_init agency_run] by simp
qed

text \<open>
  The table of the life of an order: from which states a state is entered. \<open>None\<close> is the
  empty status of old rows.
\<close>

fun may_enter :: "fulfillment \<Rightarrow> fulfillment option \<Rightarrow> bool" where
  "may_enter CONTRACT_PENDING s = False"
| "may_enter CONTRACT_REVIEWING s \<longleftrightarrow> s \<in> {Some CONTRACT_PENDING, Some CONTRACT_REVIEWING, Some CONTRACT_REJECTED}"
| "may_enter CONTRACT_REJECTED s \<longleftrightarrow>
     s \<in> {None, Some CONTRACT_PENDING, Some CONTRACT_REVIEWING, Some CONTRACT_REJECTED, Some EXCEPTION, Some CANCELLED}"
| "may_enter INFO_PENDING s \<longleftrightarrow> s \<in> {None, Some CONTRACT_PENDING, Some CONTRACT_REVIEWING, Some CONTRACT_REJECTED}"
| "may_enter INFO_SUBMITTED s \<longleftrightarrow> s \<in> {None, Some CONTRACT_PENDING, Some CONTRACT_REVIEWING,
     Some INFO_PENDING, Some INFO_SUBMITTED, Some PICKUP_CONFIRMED}"
| "may_enter PICKUP_CONFIRMED s \<longleftrightarrow> s \<notin> {Some CHECKED_IN, Some IN_TRIP, Some COMPLETED, Some CANCELLED}"
| "may_enter USER_CONFIRMED s \<longleftrightarrow> s = Some PICKUP_CONFIRMED"
| "may_enter QR_ISSUED s \<longleftrightarrow> s \<in> {Some USER_CONFIRMED, Some QR_ISSUED}"
| "may_enter CHECKED_IN s \<longleftrightarrow> s \<in> {Some USER_CONFIRMED, Some QR_ISSUED}"
| "may_enter IN_TRIP s \<longleftrightarrow> s \<in> {Some CHECKED_IN, Some IN_TRIP}"
| "may_enter COMPLETED s \<longleftrightarrow> s \<in> {Some CHECKED_IN, Some IN_TRIP, Some COMPLETED}"
| "may_enter EXCEPTION s \<longleftrightarrow> s \<noteq> Some COMPLETED"
| "may_enter CANCELLED s \<longleftrightarrow> s \<notin> {Some CHECKED_IN, Some IN_TRIP, Some COMPLETED, Some CANCELLED}"

definition follows :: "fulfillment option \<Rightarrow> fulfillment option \<Rightarrow> bool" where
  "follows s t \<longleftrightarrow> t = s \<or> (case t of None \<Rightarrow> False | Some f \<Rightarrow> may_enter f s)"

lemma normalize_follows: "follows (to_fulfillment_status o1) (to_fulfillment_status (normalize_fulfillment_status o1))"
  by (cases o1 rule: normalize_cases) (auto simp: follows_def)

lemma rejected_from:
  assumes "order_ok o1" and "to_contract_status o1 \<in> {ConPending, ConRejected}"
  shows "may_enter CONTRACT_REJECTED (to_fulfillment_status o1)"
proof (cases "to_fulfillment_status o1")
  case (Some f)
  then show ?thesis using assms by (cases f) (simp_all add: order_ok_def underway_def)
qed simp

lemma move_follows:
  assumes "order_move o1 o2" and ok: "order_ok o1"
  shows "follows (to_fulfillment_status o1) (to_fulfillment_status o2)"
  using assms(1)
proof (cases rule: order_move.cases)
  case mv_normalize
  then show ?thesis by (simp add: normalize_follows)
next
  case (mv_pickup pk)
  then show ?thesis
    by (cases o1 rule: normalize_cases) (auto simp: follows_def pickup_submitted_def)
next
  case (mv_reject now reason)
  then show ?thesis using rejected_from [OF ok mv_reject(2)] by (simp add: follows_def rejected_order_def)
next
  case (mv_issue now code)
  then show ?thesis by (auto simp: follows_def issued_order_def Let_def split: option.splits)
next
  case (mv_cancel now reason)
  then show ?thesis by (auto simp: follows_def cancelled_order_def non_cancellable_def)
qed (auto simp: follows_def signed_order_def confirmed_order_def Let_def approved_order_def scheduled_order_def
    withdraw_code_def checked_in_order_def in_trip_order_def completed_order_def exception_order_def)

lemma find_by_map:
  "(\<And>r. key (g r) = key r) \<Longrightarrow> find_by key k (map g rows) = map_option g (find_by key k rows)"
  by (induction rows) (simp_all add: find_by_Cons)

lemma update_moves_order:
  assumes "find_travel d oid = Some o1" and "order_move o1 (f o1)" and "\<And>r. to_id (f r) = to_id r"
    and "travel_orders d' = update_by to_id oid f (travel_orders d)" and "find_travel d k = Some o3"
  shows "\<exists>o4. find_travel d' k = Some o4 \<and> (o4 = o3 \<or> order_move o3 o4)"
  using assms by (auto simp: find_travel_def find_by_update_by)

lemma step_moves_order:
  assumes s: "travel_step d d'" and f: "find_travel d k = Some o3"
  shows "\<exists>o4. find_travel d' k = Some o4 \<and> (o4 = o3 \<or> order_move o3 o4)"
  using s
proof (cases rule: step_kinds)
  case (exchange uid u now rt td key o1)
  from exchange(2) show ?thesis
  proof (cases rule: exchange_cases)
    case existing
    then show ?thesis using f by simp
  next
    case (placed r d1)
    have "travel_orders d1 = travel_orders d @ [o1]" using spend_points_aside [OF placed(6)] by (simp add: aside_def)
    then show ?thesis using f by (simp add: find_travel_def placed(7) find_by_append)
  qed
next
  case (cancel now oid actor reason override o1)
  then show ?thesis
  proof (cases rule: travel_cancel_cases)
    case again
    then show ?thesis using f by simp
  next
    case (cancelled o2 d1)
    note as = return_points_aside [OF cancelled(6), unfolded aside_def]
    have mv: "order_move o2 (cancelled_order now reason o2)" using cancelled(3,4) by (rule mv_cancel)
    show ?thesis
      by (rule update_moves_order [where f = "cancelled_order now reason", OF cancelled(1) mv _ _ f])
        (use cancelled(8) as in \<open>simp_all add: moved_id\<close>)
  qed
next
  case (move oid)
  then obtain g o1 where m: "find_travel d oid = Some o1" "order_move o1 (g o1)" "\<And>r. to_id (g r) = to_id r"
      "travel_orders d' = update_by to_id oid g (travel_orders d)"
    by (auto simp: moves_def)
  show ?thesis by (rule update_moves_order [where f = g, OF m f])
next
  case still
  then show ?thesis using f by (simp add: quiet_def find_travel_def)
next
  case (list_mine user os)
  then have "travel_orders d' = map (\<lambda>r. if to_user_id r = ua_id user then normalize_fulfillment_status r else r)
      (travel_orders d)" by (auto simp: my_travel_orders_def)
  then show ?thesis using f mv_normalize by (auto simp: find_travel_def find_by_map moved_id)
next
  case (list_all flt os)
  then have "travel_orders d' = map (\<lambda>r. if (case flt of None \<Rightarrow> True | Some s \<Rightarrow> travel_value (to_status r) = s)
      then normalize_fulfillment_status r else r) (travel_orders d)"
    by (auto simp: admin_orders_def Let_def)
  then show ?thesis using f mv_normalize by (auto simp: find_travel_def find_by_map moved_id)
qed

text \<open>
  C21: the handlers refine the table of states. Whatever handler runs, an order stays in its
  state or enters one that the table allows from there. In particular a completed order
  stays completed, and the check-in is entered only from the user's confirmation or an
  issued code.
\<close>

theorem travel_steps_follow_table:
  assumes "travel_inv d" and "travel_step d d'" and "find_travel d oid = Some o1"
  shows "\<exists>o2. find_travel d' oid = Some o2 \<and>
    follows (to_fulfillment_status o1) (to_fulfillment_status o2) \<and>
    (is_completed o1 \<longrightarrow> is_completed o2) \<and>
    (to_fulfillment_status o2 = Some CHECKED_IN \<longrightarrow>
       to_fulfillment_status o1 \<in> {Some USER_CONFIRMED, Some QR_ISSUED, Some CHECKED_IN})"
proof -
  obtain o2 where o2: "find_travel d' oid = Some o2" "o2 = o1 \<or> order_move o1 o2"
    using step_moves_order [OF assms(2,3)] by blast
  have "o1 \<in> set (travel_orders d)" using assms(3) unfolding find_travel_def by (rule find_by_mem)
  then have "order_ok o1" using assms(1) by (simp add: travel_inv_def travel_ok_def)
  then have fl: "follows (to_fulfillment_status o1) (to_fulfillment_status o2)"
    using o2(2) move_follows by (auto simp: follows_def)
  have "is_completed o2" if "is_completed o1"
  proof (cases "to_fulfillment_status o2")
    case (Some f)
    then show ?thesis
      using fl that \<open>order_ok o1\<close> by (cases f) (auto simp: follows_def is_completed_def order_ok_def)
  qed (use fl that in \<open>simp add: follows_def is_completed_def\<close>)
  moreover have "to_fulfillment_status o1 \<in> {Some USER_CONFIRMED, Some QR_ISSUED, Some CHECKED_IN}"
    if "to_fulfillment_status o2 = Some CHECKED_IN"
    using fl that by (auto simp: follows_def)
  ultimately show ?thesis using o2(1) fl by blast
qed

theorem travel_steps_follow_table_witness:
  "\<exists>o2 d'. cancel_travel_order 60 exchanged_db 1 traveller ''no time'' False = Inr (o2, d') \<and>
     (\<exists>o3. find_travel d' 1 = Some o3 \<and> follows (Some CONTRACT_PENDING) (to_fulfillment_status o3))"
proof -
  have "\<not> isl (cancel_travel_order 60 exchanged_db 1 traveller ''no time'' False)" by code_simp
  from not_isl_ex [OF this] obtain o2 d' where
    c: "cancel_travel_order 60 exchanged_db 1 traveller ''no time'' False = Inr (o2, d')" by blast
  have "map_option to_fulfillment_status (find_travel exchanged_db 1) = Some (Some CONTRACT_PENDING)" by code_simp
  then obtain o1 where o1: "find_travel exchanged_db 1 = Some o1" "to_fulfillment_status o1 = Some CONTRACT_PENDING" by auto
  from travel_steps_follow_table [OF agency_inv(2) ts_cancel [OF c] o1(1)] show ?thesis using c o1(2) by auto
qed

section \<open>Exchange and cancellation\<close>

text \<open>The ledger rows a debit writes before its own.\<close>

definition side_row :: "point_ledger \<Rightarrow> bool" where
  "side_row l \<longleftrightarrow> pl_biz_type l \<in> {''points_expired'', ''legacy_opening''} \<and>
    (\<exists>c cs. pl_idempotency_key l = c # cs \<and> c \<in> {CHR ''p'', CHR ''l''})"

lemma consume_lots_ledgers: "ledgers (consume_lots l n ls d) = ledgers d"
  by (simp add: books_simps)

lemma expire_ledgers:
  assumes "expire_due_locked d uid now = Inr (r, d')"
  shows "\<exists>rows. ledgers d' = ledgers d @ rows \<and> list_all side_row rows"
proof -
  have fold: "ledgers (fold (\<lambda>lot. write_lot (lot_id lot) expire_lot) ls d) = ledgers d" for ls and d :: db
    by (induction ls arbitrary: d) (simp_all add: books_simps)
  show ?thesis
    using assms
    by (auto simp: expire_due_locked_def Let_def new_ledger_eq flush_ledger_Inr books_simps fold side_row_def
        split: if_splits prod.splits sum.splits)
qed

lemma coverage_ledgers:
  assumes "ensure_lot_coverage d uid now = Inr d'"
  shows "\<exists>rows. ledgers d' = ledgers d @ rows \<and> list_all side_row rows"
  using assms
  by (auto simp: ensure_lot_coverage_def Let_def new_ledger_eq flush_ledger_Inr books_simps side_row_def
      split: if_splits prod.splits sum.splits)

lemma debit_ledgers:
  assumes d: "debit_locked d uid n e now = Inr (l, d')" and new: "find_ledger d uid (e_key e) = None"
  shows "\<exists>rows. ledgers d' = ledgers d @ rows @ [l] \<and> list_all side_row rows \<and> pl_user_id l = uid \<and>
    pl_biz_type l = e_biz_type e \<and> pl_biz_no l = e_biz_no e \<and> pl_direction l = Expense \<and> pl_amount l = n \<and>
    pl_idempotency_key l = take 160 (e_key e)"
proof -
  have n: "0 < n" using d by (auto simp: debit_locked_def split: if_splits)
  obtain r d1 where x: "expire_due_locked d uid now = Inr (r, d1)"
    using d new n by (auto simp: debit_locked_def split: sum.splits)
  obtain d2 where en: "ensure_lot_coverage d1 uid now = Inr d2"
    using d new n x by (auto simp: debit_locked_def Let_def split: sum.splits if_splits)
  obtain d3 d4 where nl: "new_ledger d2 uid Expense n (points_of d1 uid) (points_of d1 uid - n) e = (l, d3)"
      and f: "flush_ledger l (set_points uid (points_of d1 uid - n) d3) = Inr d4"
      and d': "d' = consume_lots (pl_id l) n (spend_order d2 uid now) d4"
    using d new n x en by (auto simp: debit_locked_def Let_def split: sum.splits if_splits prod.splits)
  obtain rows1 rows2 where "ledgers d1 = ledgers d @ rows1" "list_all side_row rows1"
      "ledgers d2 = ledgers d1 @ rows2" "list_all side_row rows2"
    using expire_ledgers [OF x] coverage_ledgers [OF en] by blast
  moreover have "ledgers d' = ledgers d2 @ [l]"
    using f post_new_ledger [OF nl f] by (simp add: d' books_simps)
  ultimately have "ledgers d' = ledgers d @ (rows1 @ rows2) @ [l]" "list_all side_row (rows1 @ rows2)" by simp_all
  then show ?thesis using new_ledger_fields [OF nl] by blast
qed

text \<open>An order number no ledger row mentions: the case of every number fresh from the generator.\<close>

definition number_unused :: "db \<Rightarrow> string \<Rightarrow> bool" where
  "number_unused d no \<longleftrightarrow> list_all (\<lambda>l. pl_biz_no l \<noteq> no \<and>
     pl_idempotency_key l \<noteq> ''travel-exchange:'' @ no \<and> pl_idempotency_key l \<noteq> ''travel-exchange-refund:'' @ no) (ledgers d)"

lemma find_none: "list_all (\<lambda>x. \<not> P x) xs \<Longrightarrow> List.find P xs = None"
  by (induction xs) auto

lemma find_append: "List.find P (xs @ ys) = (case List.find P xs of Some x \<Rightarrow> Some x | None \<Rightarrow> List.find P ys)"
  by (induction xs) auto

lemma after_exchange_debit:
  assumes d: "debit_locked d uid n (exchange_entry o1) now = Inr (l, d')" and un: "number_unused d (to_order_no o1)"
  shows "exchange_debit d' uid (to_order_no o1) = Some l \<and> pl_amount l = n \<and>
    find_ledger d' uid (e_key (refund_entry o1 rm)) = None"
proof -
  let ?no = "to_order_no o1"
  have "find_ledger d uid (e_key (exchange_entry o1)) = None"
    unfolding find_ledger_def using un
    by (intro find_none) (auto simp: number_unused_def exchange_entry_def list_all_iff)
  from debit_ledgers [OF d this] obtain rows where r: "ledgers d' = ledgers d @ rows @ [l]" "list_all side_row rows"
      "pl_user_id l = uid" "pl_biz_type l = ''travel_exchange''" "pl_biz_no l = ?no" "pl_direction l = Expense"
      "pl_amount l = n" "pl_idempotency_key l = take 160 (''travel-exchange:'' @ ?no)"
    by (auto simp: exchange_entry_def)
  let ?P = "\<lambda>l. pl_user_id l = uid \<and> pl_biz_type l = ''travel_exchange'' \<and> pl_biz_no l = ?no \<and> pl_direction l = Expense"
  have "List.find ?P (ledgers d) = None"
    using un by (intro find_none) (auto simp: number_unused_def list_all_iff)
  moreover have "List.find ?P rows = None"
    using r(2) by (intro find_none) (auto simp: side_row_def list_all_iff)
  ultimately have "exchange_debit d' uid ?no = Some l" by (simp add: exchange_debit_def r(1,3-6) find_append)
  let ?k = "''travel-exchange-refund:'' @ ?no"
  let ?Q = "\<lambda>l. pl_user_id l = uid \<and> pl_idempotency_key l = ?k"
  have "List.find ?Q (ledgers d) = None"
    using un by (intro find_none) (auto simp: number_unused_def list_all_iff)
  moreover have "List.find ?Q rows = None"
    using r(2) by (intro find_none) (auto simp: side_row_def list_all_iff)
  moreover have "take 16 (pl_idempotency_key l) \<noteq> take 16 ?k" by (simp add: r(8))
  then have "pl_idempotency_key l \<noteq> ?k" by metis
  ultimately have "find_ledger d' uid ?k = None" by (simp add: find_ledger_def r(1) find_append)
  then show ?thesis using \<open>exchange_debit d' uid ?no = Some l\<close> r(7) by (simp add: refund_entry_def)
qed

lemma lock_user_in: "lock_user d uid = Inr u \<Longrightarrow> ua_id u = uid \<and> user_in d uid"
  using find_by_key [of ua_id uid "users d"]
  by (auto simp: lock_user_def user_in_def find_user_def split: option.splits)

lemma refund_credits:
  assumes "points_ok d" and "user_in d uid" and "find_ledger d uid (e_key e) = None"
    and "original_debit d uid ob (e_biz_no e) = Some orig" and "refund_locked d uid ob e x now = Inr (l, d')"
  shows "points_of d' v = points_of d v + (if v = uid then pl_amount orig else 0)"
  using refund_effect [OF assms(1,2,3,5)] assms(4) by (metis option.inject)

lemma exchange_effect:
  assumes "travel_inv d" and "lock_user d uid = Inr u" and "find_exchange d uid key = None"
    and "open_route d rid = Some r" and "0 < tr_stock r" and "0 < required_points r"
    and "number_unused d (numbers d ''TR'' (drawn d))"
    and x: "exchange_locked now d u rid td key = Inr (o1, d')"
  shows "travel_orders d' = travel_orders d @ [o1] \<and> to_user_id o1 = uid \<and> to_route_id o1 = rid \<and>
    to_fulfillment_status o1 = Some CONTRACT_PENDING \<and> to_points_cost o1 = required_points r \<and>
    free_places d' rid = free_places d rid - 1 \<and>
    points_of d' uid = points_of d uid - due_total d uid now - required_points r \<and> 0 \<le> points_of d' uid \<and>
    (\<forall>v. v \<noteq> uid \<longrightarrow> points_of d' v = points_of d v)"
  using x
proof (cases rule: exchange_cases)
  case existing
  then show ?thesis using assms(3) lock_user_in [OF assms(2)] by simp
next
  case (placed r2 d1)
  have uid: "ua_id u = uid" "user_in d uid" using lock_user_in [OF assms(2)] by simp_all
  have r: "r2 = r" "tr_id r = rid" "find_route d rid = Some r"
    using placed(2) assms(4) open_route_find by auto
  let ?d = "d\<lparr>drawn := Suc (drawn d), travel_orders := travel_orders d @ [o1]\<rparr>"
  have o1: "to_user_id o1 = uid" "to_points_cost o1 = required_points r" "to_order_no o1 = numbers d ''TR'' (drawn d)"
    by (simp_all add: placed(4) r uid)
  obtain l where db: "debit_locked ?d uid (required_points r) (exchange_entry o1) now = Inr (l, d1)"
    using placed(6) assms(6) o1 by (auto elim!: spend_points_cases)
  have "same_books d ?d" by (simp add: same_books_def)
  then have pk: "points_ok ?d" using books_points_ok assms(1) by (simp add: travel_inv_def)
  have ui: "user_in ?d uid" using uid by (simp add: user_in_def find_user_def)
  have new: "find_ledger ?d uid (e_key (exchange_entry o1)) = None"
    unfolding find_ledger_def using assms(7) o1
    by (intro find_none) (auto simp: number_unused_def exchange_entry_def list_all_iff)
  have eq: "points_of ?d v = points_of d v" "due_total ?d uid now = due_total d uid now" for v
    by (simp_all add: points_of_def find_user_def due_total_def)
  have "points_of d' v = points_of d1 v" for v
    using placed(9) by (simp add: same_books_def points_of_def find_user_def)
  then have p: "points_of d' uid = points_of d uid - due_total d uid now - required_points r" "0 \<le> points_of d' uid"
      "\<forall>v. v \<noteq> uid \<longrightarrow> points_of d' v = points_of d v"
    using debit_effect [OF pk ui new db] eq by simp_all
  note as = spend_points_aside [OF placed(6), unfolded aside_def]
  have "travel_orders d' = travel_orders d @ [o1]" using as by (simp add: placed(7))
  moreover have "find_route d1 rid = Some r" using as r by (simp add: find_route_def)
  then have "free_places d' rid = free_places d rid - 1"
    using find_route_add_stock [of rid "-1" d1 rid] r
    by (simp add: free_places_def find_route_def placed(8))
  ultimately show ?thesis using p o1 by (simp add: placed(4) r)
qed

text \<open>
  C22: an exchange takes what it should. When it places a new order with a fresh number, the
  order is the caller's, one place of the route goes, and the points fall by the price
  after the points due have expired; nobody else's points change. An exchange that the
  points do not cover is refused, and leaves nothing behind.
\<close>

theorem exchange_takes_place_and_points:
  assumes "travel_inv d" and "lock_user d uid = Inr u" and "find_exchange d uid key = None"
    and "open_route d rid = Some r" and "0 < tr_stock r" and "0 < required_points r"
    and "number_unused d (numbers d ''TR'' (drawn d))"
  shows "(\<forall>o1 d'. exchange_locked now d u rid td key = Inr (o1, d') \<longrightarrow>
      travel_orders d' = travel_orders d @ [o1] \<and> to_user_id o1 = uid \<and> to_route_id o1 = rid \<and>
      to_fulfillment_status o1 = Some CONTRACT_PENDING \<and> to_points_cost o1 = required_points r \<and>
      free_places d' rid = free_places d rid - 1 \<and>
      points_of d' uid = points_of d uid - due_total d uid now - required_points r \<and> 0 \<le> points_of d' uid \<and>
      (\<forall>v. v \<noteq> uid \<longrightarrow> points_of d' v = points_of d v)) \<and>
    (points_of d uid - due_total d uid now < required_points r \<longrightarrow> isl (exchange_locked now d u rid td key))"
proof (intro conjI allI impI)
  assume a: "points_of d uid - due_total d uid now < required_points r"
  show "isl (exchange_locked now d u rid td key)"
  proof (rule ccontr)
    assume "\<not> isl (exchange_locked now d u rid td key)"
    then obtain o1 d' where "exchange_locked now d u rid td key = Inr (o1, d')" using not_isl_ex by blast
    from exchange_effect [OF assms this] a show False by simp
  qed
qed (use exchange_effect [OF assms] in blast)+

theorem exchange_takes_place_and_points_witness:
  "\<exists>o1 d'. exchange_locked 50 agency_db traveller 5 ''2030-01-01'' ''key-0001'' = Inr (o1, d') \<and>
     points_of d' 1 = 4 \<and> free_places d' 5 = 1"
proof -
  obtain o1 d' where x: "exchange_locked 50 agency_db traveller 5 ''2030-01-01'' ''key-0001'' = Inr (o1, d')"
    using agency_exchange by blast
  have "find_exchange agency_db 1 ''key-0001'' = None" "open_route agency_db 5 = Some sample_route"
      "number_unused agency_db (numbers agency_db ''TR'' (drawn agency_db))" by code_simp+
  moreover have s: "0 < tr_stock sample_route" "required_points sample_route = 3" "0 < required_points sample_route"
    by (simp_all add: sample_route_def required_points_def)
  ultimately have "points_of d' 1 = points_of agency_db 1 - due_total agency_db 1 50 - required_points sample_route"
      "free_places d' 5 = free_places agency_db 5 - 1"
    using exchange_takes_place_and_points [OF agency_inv(1) agency_lock _ _ s(1,3), THEN conjunct1, rule_format, OF _ _ _ x]
    by simp_all
  moreover have "due_total agency_db 1 50 = 0" "points_of agency_db 1 = 7" "free_places agency_db 5 = 2" by code_simp+
  ultimately show ?thesis using x s(2) by simp
qed

text \<open>What a placed exchange leaves for its cancellation: the order, its debit, no refund.\<close>

lemma exchange_leaves:
  assumes "travel_inv d" and "lock_user d uid = Inr u" and new: "find_exchange d uid key = None"
    and un: "number_unused d (numbers d ''TR'' (drawn d))"
    and x: "exchange_locked now d u rid td key = Inr (o1, d1)" and pos: "0 < to_points_cost o1"
  obtains r l where "open_route d rid = Some r" "0 < tr_stock r" "0 < required_points r"
    "to_points_cost o1 = required_points r" "to_route_id o1 = rid" "to_user_id o1 = uid" "owes_points o1"
    "\<not> to_stock_restored o1" "to_fulfillment_status o1 = Some CONTRACT_PENDING"
    "find_travel d1 (to_id o1) = Some o1" "user_in d1 uid" "map tr_id (routes d1) = map tr_id (routes d)"
    "exchange_debit d1 uid (to_order_no o1) = Some l" "pl_amount l = to_points_cost o1"
    "find_ledger d1 uid (e_key (refund_entry o1 ''exchange cancelled'')) = None"
  using x
proof (cases rule: exchange_cases)
  case existing
  then show thesis using new lock_user_in [OF assms(2)] by simp
next
  case (placed r da)
  have u: "ua_id u = uid" "user_in d uid" using lock_user_in [OF assms(2)] by simp_all
  have r: "tr_id r = rid" using open_route_find [OF placed(2)] by simp
  have o1: "to_points_cost o1 = required_points r" "to_user_id o1 = uid" "to_order_no o1 = numbers d ''TR'' (drawn d)"
      "to_route_id o1 = rid" "owes_points o1" "\<not> to_stock_restored o1"
      "to_fulfillment_status o1 = Some CONTRACT_PENDING"
    using pos by (simp_all add: placed(4) u r owes_points_def)
  let ?d = "d\<lparr>drawn := Suc (drawn d), travel_orders := travel_orders d @ [o1]\<rparr>"
  obtain l where db: "debit_locked ?d uid (to_points_cost o1) (exchange_entry o1) now = Inr (l, da)"
    using placed(6) pos o1 by (auto elim!: spend_points_cases)
  have un: "number_unused ?d (to_order_no o1)" using un by (simp add: number_unused_def o1)
  note after = after_exchange_debit [OF db un, of "''exchange cancelled''"]
  have b: "ledgers d1 = ledgers da" "users d1 = users da" using placed(9) by (simp_all add: same_books_def)
  have "points_ok ?d" using books_points_ok [of d ?d] assms(1) by (simp add: same_books_def travel_inv_def)
  moreover have "user_in ?d uid" using u by (simp add: user_in_def find_user_def)
  moreover have "find_ledger ?d uid (e_key (exchange_entry o1)) = None"
    unfolding find_ledger_def using un
    by (intro find_none) (auto simp: number_unused_def exchange_entry_def list_all_iff)
  ultimately have "user_in da uid" using debit_effect db by blast
  then have ui: "user_in d1 uid" by (simp add: user_in_def find_user_def b)
  note as = spend_points_aside [OF placed(6), unfolded aside_def]
  have "find_by to_id (to_id o1) (travel_orders d) = None"
    using placed(5) by (simp add: find_by_None_iff fresh_order_def)
  then have "find_travel d1 (to_id o1) = Some o1"
    using as by (simp add: find_travel_def placed(7) find_by_append find_by_Cons)
  moreover have "map tr_id (routes d1) = map tr_id (routes d)"
    using as by (simp add: placed(8) add_stock_ids)
  ultimately show thesis
    using that placed(2,3) o1 pos ui after by (simp add: exchange_debit_def find_ledger_def b)
qed

lemma cancel_returns_points:
  assumes inv: "travel_inv d" and o1: "find_travel d oid = Some o1" "to_fulfillment_status o1 \<noteq> Some CANCELLED"
    and owes: "owes_points o1" and ui: "user_in d (to_user_id o1)"
    and deb: "exchange_debit d (to_user_id o1) (to_order_no o1) = Some l" "pl_amount l = to_points_cost o1"
    and new: "find_ledger d (to_user_id o1) (e_key (refund_entry o1 ''exchange cancelled'')) = None"
    and c: "cancel_travel_order now d oid u reason override = Inr (o2, d2)"
  shows "o2 = cancelled_order now reason o1 \<and>
    points_of d2 v = points_of d v + (if v = to_user_id o1 then to_points_cost o1 else 0)"
  using c
proof (cases rule: travel_cancel_cases)
  case again
  then show ?thesis using o1 by simp
next
  case (cancelled o3 db)
  have o3: "o3 = o1" using cancelled(1) o1 by simp
  let ?e = "refund_entry o1 ''exchange cancelled''"
  have od: "original_debit d (to_user_id o1) ''travel_exchange'' (e_biz_no ?e) = Some l"
    using deb(1) by (simp add: original_debit_def exchange_debit_def refund_entry_def)
  from cancelled(6) obtain l2 y where
    "refund_locked d (to_user_id o1) ''travel_exchange'' ?e (Some y) now = Inr (l2, db)"
    unfolding o3 by (cases rule: return_points_cases) (use owes deb(1) in auto)
  then have "points_of db v = points_of d v + (if v = to_user_id o1 then to_points_cost o1 else 0)"
    using refund_credits [OF _ ui new od, of _ now _ db v] inv deb(2) by (simp add: travel_inv_def)
  moreover have "points_of d2 v = points_of db v"
    using cancelled(10) by (simp add: same_books_def points_of_def find_user_def)
  ultimately show ?thesis using cancelled(7) o3 by simp
qed

lemma cancel_frees_place:
  assumes inv: "travel_inv d" and o1: "find_travel d oid = Some o1" "to_fulfillment_status o1 \<noteq> Some CANCELLED"
    and rid: "route_in d (to_route_id o1)" "\<not> to_stock_restored o1"
    and c: "cancel_travel_order now d oid u reason override = Inr (o2, d2)"
  shows "free_places d2 (to_route_id o1) = free_places d (to_route_id o1) + 1"
  using c
proof (cases rule: travel_cancel_cases)
  case again
  then show ?thesis using o1 by simp
next
  case (cancelled o3 db)
  let ?rid = "to_route_id o1"
  have o3: "o3 = o1" using cancelled(1) o1 by simp
  note as = aside_travel [OF return_points_aside [OF cancelled(6)]]
  have "travel_ok db" "find_travel db oid = Some o1"
    using as inv o1 by (simp_all add: travel_inv_def)
  from held_update [OF this mv_cancel [OF cancelled(3,4), unfolded o3] cancelled(8), of ?rid]
  have "held_places d2 ?rid = held_places d ?rid - 1"
    using as [of ?rid] rid by (simp add: cancelled_order_def holds_place_def route_in_def)
  then show ?thesis using cancel_ok [OF c inv, of ?rid] rid(1) by simp
qed

text \<open>
  C23: an exchange followed by its cancellation is a round trip. The user has the points of
  before again, less those that expired at the exchange; the place is free again; nobody
  else's points have changed; and the order is marked as given back.
\<close>

theorem exchange_cancel_round_trip:
  assumes "travel_inv d" and "lock_user d uid = Inr u" and "find_exchange d uid key = None"
    and "number_unused d (numbers d ''TR'' (drawn d))"
    and x: "exchange_locked now d u rid td key = Inr (o1, d1)" and "0 < to_points_cost o1"
    and c: "cancel_travel_order now2 d1 (to_id o1) u reason False = Inr (o2, d2)"
  shows "points_of d2 uid = points_of d uid - due_total d uid now \<and>
    (\<forall>v. v \<noteq> uid \<longrightarrow> points_of d2 v = points_of d v) \<and>
    (route_in d rid \<longrightarrow> free_places d2 rid = free_places d rid) \<and>
    to_points_refunded o2 \<and> (rid \<noteq> 0 \<longrightarrow> to_stock_restored o2) \<and> to_fulfillment_status o2 = Some CANCELLED"
  using assms(1-6)
proof (rule exchange_leaves)
  fix r l
  assume r: "open_route d rid = Some r" "0 < tr_stock r" "0 < required_points r"
    and o1: "to_points_cost o1 = required_points r" "to_route_id o1 = rid" "to_user_id o1 = uid" "owes_points o1"
      "\<not> to_stock_restored o1" "to_fulfillment_status o1 = Some CONTRACT_PENDING"
    and d1: "find_travel d1 (to_id o1) = Some o1" "user_in d1 uid" "map tr_id (routes d1) = map tr_id (routes d)"
    and l: "exchange_debit d1 uid (to_order_no o1) = Some l" "pl_amount l = to_points_cost o1"
      "find_ledger d1 uid (e_key (refund_entry o1 ''exchange cancelled'')) = None"
  note ex = exchange_effect [OF assms(1-3) r assms(4) x]
  have inv: "travel_inv d1" using exchange_ok [OF x assms(2,1)] by blast
  have ret: "o2 = cancelled_order now2 reason o1 \<and>
      points_of d2 v = points_of d1 v + (if v = uid then to_points_cost o1 else 0)" for v
    using cancel_returns_points [OF inv d1(1) _ o1(4) _ _ l(2) _ c, of v] o1 d1(2) l by simp
  have "free_places d2 rid = free_places d rid" if "route_in d rid"
    using cancel_frees_place [OF inv d1(1) _ _ o1(5) c] route_in_map [OF d1(3)] that o1 ex by simp
  then show ?thesis
    using ret [of uid] ret ex o1 by (auto simp: cancelled_order_def holds_place_def)
qed

theorem exchange_cancel_round_trip_witness:
  "\<exists>o2 d2. cancel_travel_order 60 exchanged_db 1 traveller ''ill'' False = Inr (o2, d2) \<and>
     points_of d2 1 = 7 \<and> free_places d2 5 = 2 \<and> to_points_refunded o2"
proof -
  have "\<not> isl (cancel_travel_order 60 exchanged_db 1 traveller ''ill'' False)" by code_simp
  from not_isl_ex [OF this] obtain o2 d2 where
    c: "cancel_travel_order 60 exchanged_db 1 traveller ''ill'' False = Inr (o2, d2)" by blast
  have n: "find_exchange agency_db 1 ''key-0001'' = None"
      "number_unused agency_db (numbers agency_db ''TR'' (drawn agency_db))" by code_simp+
  have oid: "to_id the_exchange = 1" "0 < to_points_cost the_exchange"
    by (simp_all add: the_exchange_def required_points_def sample_route_def)
  have r: "route_in agency_db 5" by (simp add: route_in_def agency_db_def find_route_def find_by_Cons sample_route_def)
  from exchange_cancel_round_trip [OF agency_inv(1) agency_lock n agency_exchange oid(2) c [folded oid(1)]] r
  have "points_of d2 1 = points_of agency_db 1 - due_total agency_db 1 50"
      "free_places d2 5 = free_places agency_db 5" "to_points_refunded o2" by simp_all
  moreover have "due_total agency_db 1 50 = 0" "points_of agency_db 1 = 7" "free_places agency_db 5 = 2" by code_simp+
  ultimately show ?thesis using c by simp
qed

end
