(* ===== verification/Trip_Props.thy ===== *)
theory Trip_Props
  imports Travel_Props Travel_Reviews
begin

text \<open>
  More properties of travel orders: nothing is given back twice, the check-in decides by
  the current code and leaves a record of every attempt, the dates of a contract, and one
  review for each completed order. Two theorems show where the code does not do what it
  means to.
\<close>

section \<open>Nothing is given back twice\<close>

lemma step_keeps_flags:
  assumes "travel_step d d'" and "find_travel d k = Some o1"
  shows "\<exists>o2. find_travel d' k = Some o2 \<and> (\<not> owes_points o1 \<longrightarrow> \<not> owes_points o2) \<and>
    (\<not> holds_place o1 \<longrightarrow> \<not> holds_place o2)"
proof -
  obtain o2 where o2: "find_travel d' k = Some o2" "o2 = o1 \<or> order_move o1 o2"
    using step_moves_order [OF assms] by blast
  from o2(2) show ?thesis
  proof
    assume "order_move o1 o2"
    from move_fixed [OF this] show ?thesis using o2(1) by (auto simp: owes_points_def holds_place_def)
  qed (use o2(1) in simp)
qed

lemma runs_keep_flags:
  assumes "runs travel_step d d'" and "find_travel d k = Some o1" and "\<not> owes_points o1" and "\<not> holds_place o1"
  shows "\<exists>o2. find_travel d' k = Some o2 \<and> \<not> owes_points o2 \<and> \<not> holds_place o2"
  using assms
proof (induction rule: runs.induct)
  case (runs_step s t u)
  then show ?case using step_keeps_flags by metis
qed simp

text \<open>
  C24: an order gives points and its place back once. After a cancellation, and after any
  run of the handlers that follows it (the order may have been revived as an exceptional
  order meanwhile), another cancellation changes neither the points of any user nor the
  free places of any route.
\<close>

theorem given_back_once:
  assumes "travel_inv d" and "cancel_travel_order now d oid actor reason override = Inr (o1, d1)"
    and "runs travel_step d1 d2" and c: "cancel_travel_order now2 d2 oid actor2 reason2 override2 = Inr (o2, d3)"
  shows "points_of d3 uid = points_of d2 uid \<and> free_places d3 rid = free_places d2 rid"
proof -
  have "\<exists>o3. find_travel d1 oid = Some o3 \<and> \<not> owes_points o3 \<and> \<not> holds_place o3"
    using assms(2)
  proof (cases rule: travel_cancel_cases)
    case again
    then have "order_ok o1" using assms(1) find_by_mem [of to_id oid "travel_orders d" o1]
      by (auto simp: travel_inv_def travel_ok_def find_travel_def)
    then show ?thesis using again by (auto simp: order_ok_def)
  next
    case (cancelled o3 db)
    have "travel_orders db = travel_orders d" using return_points_aside [OF cancelled(6)] by (simp add: aside_def)
    then have "find_travel d1 oid = Some (cancelled_order now reason o3)"
      using cancelled(1,8) by (simp add: find_travel_def find_by_update_by moved_id)
    moreover have "\<not> owes_points (cancelled_order now reason o3)" "\<not> holds_place (cancelled_order now reason o3)"
      by (auto simp: cancelled_order_def owes_points_def holds_place_def)
    ultimately show ?thesis by blast
  qed
  then obtain o4 where o4: "find_travel d2 oid = Some o4" "\<not> owes_points o4" "\<not> holds_place o4"
    using runs_keep_flags [OF assms(3)] by blast
  from c show ?thesis
  proof (cases rule: travel_cancel_cases)
    case (cancelled o5 db)
    have "o5 = o4" using cancelled(1) o4(1) by simp
    then have "db = d2" using cancelled(6) o4(2) by (simp add: return_points_def)
    moreover have "routes d3 = routes db" using cancelled(9) \<open>o5 = o4\<close> o4(3) by (simp add: return_place_def)
    ultimately show ?thesis using cancelled(10)
      by (simp add: same_books_def points_of_def find_user_def free_places_def find_route_def)
  qed simp
qed

lemma cancelled_exchange:
  "\<exists>o1 d1. cancel_travel_order 60 exchanged_db 1 traveller ''ill'' False = Inr (o1, d1) \<and>
    points_of d1 1 = 7 \<and> free_places d1 5 = 2 \<and> find_travel d1 1 = Some o1 \<and>
    to_fulfillment_status o1 = Some CANCELLED"
proof -
  have i: "\<not> isl (cancel_travel_order 60 exchanged_db 1 traveller ''ill'' False)" by code_simp
  obtain o1 d1 where c: "cancel_travel_order 60 exchanged_db 1 traveller ''ill'' False = Inr (o1, d1)"
    using not_isl_ex [OF i] by blast
  have "(case cancel_travel_order 60 exchanged_db 1 traveller ''ill'' False of
     Inl e \<Rightarrow> False | Inr (o1, d1) \<Rightarrow> points_of d1 1 = 7 \<and> free_places d1 5 = 2 \<and>
       map_option to_fulfillment_status (find_travel d1 1) = Some (Some CANCELLED))" by code_simp
  moreover have "find_travel d1 1 = Some o1"
    using c
  proof (cases rule: travel_cancel_cases)
    case (cancelled o3 db)
    have "travel_orders db = travel_orders exchanged_db"
      using return_points_aside [OF cancelled(6)] by (simp add: aside_def)
    then show ?thesis using cancelled(1,7,8) by (simp add: find_travel_def find_by_update_by moved_id)
  qed (simp add: find_travel_def)
  ultimately show ?thesis using c by (intro exI [of _ o1] exI [of _ d1]) simp
qed

theorem given_back_once_witness:
  "\<exists>d1 d2 o3 d3. runs travel_step d1 d2 \<and> cancel_travel_order 90 d2 1 traveller ''again'' True = Inr (o3, d3) \<and>
     points_of d3 1 = points_of d2 1 \<and> free_places d3 5 = free_places d2 5 \<and> free_places d1 5 = 2"
proof -
  obtain o1 d1 where c: "cancel_travel_order 60 exchanged_db 1 traveller ''ill'' False = Inr (o1, d1)"
      "free_places d1 5 = 2" "find_travel d1 1 = Some o1" "to_fulfillment_status o1 = Some CANCELLED"
    using cancelled_exchange by blast
  obtain d2 where e: "mark_order_exception d1 1 ''lost'' traveller = Inr (exception_order ''lost'' o1, d2)"
    using c(3,4) by (simp add: mark_order_exception_def Let_def)
  then have r: "runs travel_step d1 d2" by (intro runs_step [OF runs_refl]) (rule ts_exception)
  have f: "find_travel d2 1 = Some (exception_order ''lost'' o1)"
    using e c(3,4) by (auto simp: mark_order_exception_def Let_def find_travel_def row_frame find_by_update_by moved_id)
  have g: "\<not> owes_points o1"
    using travel.reachable_inv [OF agency_init runs_step [OF agency_run ts_cancel [OF c(1)]]]
      c(3,4) find_by_mem [of to_id 1 "travel_orders d1" o1]
    by (auto simp: travel_inv_def travel_ok_def find_travel_def order_ok_def)
  let ?o = "exception_order ''lost'' o1"
  have "\<not> owes_points ?o" using g by (simp add: owes_points_def exception_order_def)
  then have "return_points 90 ?o d2 = Inr d2" by (simp add: return_points_def)
  moreover have "to_fulfillment_status ?o = Some EXCEPTION" by (simp add: exception_order_def)
  ultimately have "\<exists>o3 d3. cancel_travel_order 90 d2 1 traveller ''again'' True = Inr (o3, d3)"
    using f by (simp add: cancel_travel_order_def non_cancellable_def Let_def)
  then obtain o3 d3 where "cancel_travel_order 90 d2 1 traveller ''again'' True = Inr (o3, d3)" by blast
  from given_back_once [OF agency_inv(2) c(1) r this, of 1 5] this r c(2) show ?thesis by blast
qed

section \<open>Check-in\<close>

text \<open>
  A check-in succeeds exactly when the order waits for one (the user has confirmed, or
  the code has been issued again), the code shown is the current code of the order, and
  the code has not expired.
\<close>

theorem check_in_decides:
  "(\<exists>o2. fst (check_in_order now d oid token device location admin) = Inr o2) \<longleftrightarrow>
    (\<exists>o1. find_travel d oid = Some o1 \<and> to_fulfillment_status o1 \<in> {Some USER_CONFIRMED, Some QR_ISSUED} \<and>
       token \<noteq> [] \<and> token = to_qr_token o1 \<and> (to_qr_expires_at o1 = None \<or> now < the (to_qr_expires_at o1)))"
proof (cases "find_travel d oid")
  case None
  then show ?thesis by (simp add: check_in_order_def)
next
  case (Some o1)
  have expired: "code_expired now o1 \<longleftrightarrow> \<not> (to_qr_expires_at o1 = None \<or> now < the (to_qr_expires_at o1))"
    by (auto simp: code_expired_def split: option.splits)
  show ?thesis using Some expired
    by (cases "to_fulfillment_status o1 \<notin> {Some USER_CONFIRMED, Some QR_ISSUED}"; cases "code_expired now o1";
        cases "to_qr_token o1 = [] \<or> token \<noteq> to_qr_token o1") (auto simp: check_in_order_def Let_def)
qed

lemma check_in_success:
  assumes "check_in_order now d oid token device location admin = (Inr o2, d1)"
  shows "\<exists>o1. find_travel d oid = Some o1 \<and> o2 = checked_in_order now o1 \<and>
    find_travel d1 oid = Some (checked_in_order now o1)"
  using assms
  by (auto simp: check_in_order_def Let_def find_travel_def row_frame verify_attempt_def find_by_update_by moved_id
      split: option.splits if_splits)

text \<open>
  C25: every attempt to check in an existing order leaves exactly one verification record,
  with the hash of the code that was shown and the outcome; only a success moves the order
  on, and a code works once: after a success the order has no code, and no code at all
  checks it in again.
\<close>

theorem check_in_recorded:
  assumes "find_travel d oid = Some o1" and r: "check_in_order now d oid token device location admin = (res, d1)"
  shows "\<exists>v. verifications d1 = verifications d @ [v] \<and> vr_order_no v = to_order_no o1 \<and>
      vr_token_hash v = qr_token_hash token \<and> (vr_result v = ''success'') = (\<not> isl res) \<and>
    (\<forall>o2. res = Inr o2 \<longrightarrow> to_fulfillment_status o2 = Some CHECKED_IN \<and> to_qr_token o2 = [] \<and>
       isl (fst (check_in_order now2 d1 oid token2 device2 location2 admin2)))"
proof -
  have once: "isl (fst (check_in_order now2 d1 oid token2 device2 location2 admin2))" "to_qr_token o2 = []"
      "to_fulfillment_status o2 = Some CHECKED_IN" if "res = Inr o2" for o2
    using check_in_success [OF r [unfolded that]] by (auto simp: check_in_order_def checked_in_order_def)
  have "\<exists>v. verifications d1 = verifications d @ [v] \<and> vr_order_no v = to_order_no o1 \<and>
      vr_token_hash v = qr_token_hash token \<and> (vr_result v = ''success'') = (\<not> isl res)"
    using assms
    by (cases "to_fulfillment_status o1 \<notin> {Some USER_CONFIRMED, Some QR_ISSUED}"; cases "code_expired now o1";
        cases "to_qr_token o1 = [] \<or> token \<noteq> to_qr_token o1")
      (auto simp: check_in_order_def Let_def verify_attempt_def add_verification_record_def write_travel_def
        add_travel_audit_def checked_in_order_def)
  then show ?thesis using once by blast
qed

definition waiting_order :: travel_order where
  "waiting_order = the_exchange\<lparr>to_contract_status := ConApproved, to_fulfillment_status := Some USER_CONFIRMED,
     to_pickup_address := ''gate 1'', to_qr_token := ''code'', to_qr_expires_at := Some 100\<rparr>"

definition waiting_db :: db where
  "waiting_db = agency_db\<lparr>travel_orders := [waiting_order]\<rparr>"

theorem check_in_recorded_witness:
  "\<exists>o2 d1. check_in_order 50 waiting_db 1 ''code'' [] [] traveller = (Inr o2, d1) \<and>
     length (verifications d1) = 1 \<and> isl (fst (check_in_order 60 d1 1 ''code'' [] [] traveller))"
proof -
  have f: "find_travel waiting_db 1 = Some waiting_order"
    by (simp add: waiting_db_def find_travel_def find_by_Cons waiting_order_def the_exchange_def)
  obtain res d1 where r: "check_in_order 50 waiting_db 1 ''code'' [] [] traveller = (res, d1)" by fastforce
  have "\<exists>o2. fst (check_in_order 50 waiting_db 1 ''code'' [] [] traveller) = Inr o2"
    using f by (simp add: check_in_order_def waiting_order_def code_expired_def Let_def)
  then obtain o2 where o2: "res = Inr o2" using r by auto
  have "verifications waiting_db = []" by (simp add: waiting_db_def agency_db_def sample_simps)
  then show ?thesis using check_in_recorded [OF f r, of 60 "''code''" "[]" "[]" traveller] r o2 by auto
qed

section \<open>Reviving a cancelled order\<close>

text \<open>
  C26: a cancelled order can be brought back to life. Marking an order as exceptional is
  refused for completed orders only, and the pickup of an exceptional order with an
  approved contract can be scheduled: so a cancelled order, whose points and place have
  been given back, becomes a live order that waits for the user's confirmation. The user
  then travels on points already refunded, on a place that may be sold again.
\<close>

theorem cancelled_order_revived:
  assumes "find_travel d oid = Some o1" and "to_fulfillment_status o1 = Some CANCELLED"
    and "to_contract_status o1 = ConApproved" and "to_pickup_address o1 \<noteq> []"
  shows "\<exists>d1 d2 o2. mark_order_exception d oid reason admin = Inr (exception_order reason o1, d1) \<and>
    schedule_order_pickup d1 oid p admin = Inr (o2, d2) \<and> find_travel d2 oid = Some o2 \<and>
    to_fulfillment_status o2 = Some PICKUP_CONFIRMED \<and>
    to_points_refunded o2 = to_points_refunded o1 \<and> to_stock_restored o2 = to_stock_restored o1 \<and>
    (\<forall>rid. free_places d2 rid = free_places d rid) \<and> (\<forall>uid. points_of d2 uid = points_of d uid)"
proof -
  obtain d1 where d1: "mark_order_exception d oid reason admin = Inr (exception_order reason o1, d1)"
    using assms(1,2) by (simp add: mark_order_exception_def Let_def)
  have m1: "moves oid d d1" using d1 by (rule exception_moves)
  have f1: "find_travel d1 oid = Some (exception_order reason o1)"
    using d1 assms(1,2)
    by (auto simp: mark_order_exception_def Let_def find_travel_def row_frame find_by_update_by moved_id)
  let ?o2 = "scheduled_order p (exception_order reason o1)"
  obtain d2 where d2: "schedule_order_pickup d1 oid p admin = Inr (?o2, d2)"
    using f1 assms(3,4) by (simp add: schedule_order_pickup_def Let_def exception_order_def)
  have m2: "moves oid d1 d2" using d2 by (rule schedule_moves)
  have f2: "find_travel d2 oid = Some ?o2"
    using d2 f1 assms(3,4)
    by (auto simp: schedule_order_pickup_def Let_def find_travel_def row_frame find_by_update_by moved_id
        exception_order_def)
  have "routes d2 = routes d" "users d2 = users d" using m1 m2 by (auto simp: moves_def same_books_def)
  then have "free_places d2 rid = free_places d rid" "points_of d2 uid = points_of d uid" for rid uid
    by (simp_all add: free_places_def find_route_def points_of_def find_user_def)
  moreover have "to_fulfillment_status ?o2 = Some PICKUP_CONFIRMED"
      "to_points_refunded ?o2 = to_points_refunded o1" "to_stock_restored ?o2 = to_stock_restored o1"
    by (simp_all add: scheduled_order_def exception_order_def)
  ultimately show ?thesis using d1 d2 f2 by blast
qed

definition given_back_order :: travel_order where
  "given_back_order = waiting_order\<lparr>to_qr_token := [], to_fulfillment_status := Some CANCELLED,
     to_points_refunded := True, to_stock_restored := True\<rparr>"

theorem cancelled_order_revived_witness:
  "\<exists>d1 d2 o2. mark_order_exception (agency_db\<lparr>travel_orders := [given_back_order]\<rparr>) 1 ''late'' traveller
       = Inr (exception_order ''late'' given_back_order, d1) \<and>
     to_fulfillment_status o2 = Some PICKUP_CONFIRMED \<and> to_points_refunded o2 \<and> to_stock_restored o2 \<and>
     find_travel d2 1 = Some o2"
proof -
  have "find_travel (agency_db\<lparr>travel_orders := [given_back_order]\<rparr>) 1 = Some given_back_order"
    by (simp add: find_travel_def find_by_Cons given_back_order_def waiting_order_def the_exchange_def)
  from cancelled_order_revived [OF this, of "''late''" traveller
      "\<lparr>sh_pickup_time = [], sh_pickup_location = [], sh_driver_name = [], sh_driver_phone = [], sh_vehicle_no = [],
        sh_pickup_notice = []\<rparr>"]
  show ?thesis by (auto simp: given_back_order_def waiting_order_def)
qed

end
