(* ===== verification/Contract_Props.thy ===== *)
theory Contract_Props
  imports Travel_Laws Samples
begin

text \<open>
  The dates and the snapshots of travel contracts: the window of travel dates is bounded,
  every date the form offers can be signed, a date outside the window cannot, and a saved
  template has exactly one numbered snapshot. One theorem shows a date that the form
  accepts and the signature crashes on.
\<close>

section \<open>Dates\<close>

lemma travel_window_range:
  "case travel_window kvs of (n, v, unit) \<Rightarrow>
     1 \<le> n \<and> n \<le> max_travel_date_days \<and> (unit = ''day'' \<and> n = v \<or> unit = ''year'' \<and> n = 365 * v \<and> v \<le> 100)"
proof -
  define unit where "unit = to_lower (strip (str_json (json_or (jget (JObj kvs) ''travel_date_unit'') (JStr []))))"
  define raw where "raw = (case json_int (jget (JObj kvs) ''travel_date_value'') of Some n \<Rightarrow> n | None \<Rightarrow> 0)"
  define d1 where "d1 = (case json_int (jget_or kvs ''travel_date_days'' (JInt default_travel_date_days)) of
    Some n \<Rightarrow> n | None \<Rightarrow> default_travel_date_days)"
  define d2 where "d2 = (case jget (JObj kvs) ''travel_date_options'' of
    JList xs \<Rightarrow> if d1 = 0 then max (int (length xs) - 1) default_travel_date_days else d1 | _ \<Rightarrow> d1)"
  have eq: "travel_window kvs =
    (if unit \<in> {''day'', ''year''} \<and> 0 < raw then
       (let n = clamp 1 (if unit = ''year'' then 100 else max_travel_date_days) raw
        in (if unit = ''year'' then n * 365 else n, n, unit))
     else (let n = clamp 1 max_travel_date_days d2
       in if 365 \<le> n \<and> n mod 365 = 0 then (n, n div 365, ''year'') else (n, n, ''day'')))"
    unfolding travel_window_def unit_def raw_def d1_def d2_def Let_def by (rule refl)
  show ?thesis
  proof (cases "unit \<in> {''day'', ''year''} \<and> 0 < raw")
    case True
    then show ?thesis using clamp_bounds [of 1 100 raw] clamp_bounds [of 1 36500 raw]
      unfolding eq Let_def max_travel_date_days_def by auto
  next
    case False
    define m where "m = clamp 1 max_travel_date_days d2"
    have b: "1 \<le> m" "m \<le> 36500" using clamp_bounds [of 1 36500 d2] by (simp_all add: m_def max_travel_date_days_def)
    have d: "m = 365 * (m div 365)" if "m mod 365 = 0" using that mult_div_mod_eq [of 365 m] by linarith
    have y: "m div 365 \<le> 100" using b by linarith
    have w: "travel_window kvs = (if 365 \<le> m \<and> m mod 365 = 0 then (m, m div 365, ''year'') else (m, m, ''day''))"
      unfolding eq Let_def m_def by (simp only: False if_False)
    show ?thesis
    proof (cases "365 \<le> m \<and> m mod 365 = 0")
      case True
      then have "travel_window kvs = (m, m div 365, ''year'')" using w by simp
      moreover obtain k where "m = 365 * k" using True d by blast
      ultimately show ?thesis using b y unfolding max_travel_date_days_def by simp
    next
      case f: False
      then have "travel_window kvs = (m, m, ''day'')" using w by argo
      then show ?thesis using b unfolding max_travel_date_days_def by (simp only: prod.case) simp
    qed
  qed
qed

text \<open>
  The window of travel dates that a template ends up with, whatever JSON is stored, is
  between a day and a hundred years: a number of days, or a number of years of 365 days.
\<close>

theorem travel_window_bounds:
  "case travel_window kvs of (n, v, unit) \<Rightarrow>
     1 \<le> n \<and> n \<le> max_travel_date_days \<and> (unit = ''day'' \<and> n = v \<or> unit = ''year'' \<and> n = 365 * v \<and> v \<le> 100)"
  by (rule travel_window_range)

lemma iso_date_chars:
  assumes "valid_date r" and "c \<in> set (iso_date r)"
  shows "c \<noteq> CHR ''/'' \<and> \<not> is_space c"
proof -
  have "digit n \<noteq> CHR ''/'' \<and> \<not> is_space (digit n)" if "n < 10" for n
  proof -
    have "list_all (\<lambda>n. digit n \<noteq> CHR ''/'' \<and> \<not> is_space (digit n)) [0..<10]" by code_simp
    then show ?thesis using that by (simp add: list_all_iff)
  qed
  moreover have "nat (i div 10 mod 10) < 10" "nat (i mod 10) < 10" for i :: int by linarith+
  ultimately have "x \<noteq> CHR ''/'' \<and> \<not> is_space x" if "x \<in> set (two i)" for x i
    using that by (auto simp: two_def)
  moreover have "\<not> is_space CHR ''-''" by code_simp
  moreover obtain y m dd where "r = Date y m dd" by (cases r)
  ultimately show ?thesis using assms(2) by auto
qed

lemma iso_date_plain:
  assumes "valid_date r"
  shows "slash_to_dash (strip (iso_date r)) = iso_date r"
proof -
  have "strip (iso_date r) = iso_date r" by (rule strip_plain) (use iso_date_chars [OF assms] in blast)
  then show ?thesis using iso_date_chars [OF assms] by (simp add: slash_to_dash_def map_idI)
qed

lemma add_days_Inr:
  "add_days r n = Inr r2 \<longleftrightarrow> 1 \<le> ordinal r + n \<and> ordinal r + n \<le> max_ordinal \<and> r2 = date_of_ordinal (ordinal r + n)"
  by (auto simp: add_days_def)

lemma date_options_from:
  assumes "date_options today ks = Inr opts"
  shows "list_all (\<lambda>s. \<exists>k r. k \<in> set ks \<and> s = iso_date r \<and> valid_date r \<and> ordinal r = ordinal today + k) opts"
  using assms
proof (induction ks arbitrary: opts)
  case (Cons k ks)
  then obtain r rest where r: "add_days today k = Inr r" "date_options today ks = Inr rest" "opts = iso_date r # rest"
    by (auto split: sum.splits simp: map_sum_eq_Inr)
  have "valid_date r \<and> ordinal r = ordinal today + k"
    using r(1) ordinal_of_date [of "ordinal today + k"] by (auto simp: add_days_Inr)
  then have "\<exists>j r2. j \<in> set (k # ks) \<and> iso_date r = iso_date r2 \<and> valid_date r2 \<and> ordinal r2 = ordinal today + j"
    by (intro exI [of _ k] exI [of _ r]) simp
  moreover have "list_all (\<lambda>s. \<exists>j r. j \<in> set (k # ks) \<and> s = iso_date r \<and> valid_date r \<and> ordinal r = ordinal today + j) rest"
    by (rule list.pred_mono_strong [OF Cons.IH [OF r(2)]]) (metis list.set_intros(2))
  ultimately show ?case unfolding r(3) list.pred_inject by blast
qed simp

lemma check_sign_date_iff:
  "check_sign_date now window s = Inr () \<longleftrightarrow>
    (\<exists>r. from_iso (slash_to_dash (strip s)) = Some r \<and> ordinal (date_of now) \<le> ordinal r \<and>
       ordinal r \<le> ordinal (date_of now) + int_or window 30 \<and>
       1 \<le> ordinal (date_of now) + int_or window 30 \<and> ordinal (date_of now) + int_or window 30 \<le> max_ordinal)"
proof (cases "from_iso (slash_to_dash (strip s))")
  case (Some r)
  show ?thesis
  proof (cases "add_days (date_of now) (int_or window 30)")
    case (Inl e)
    then show ?thesis using Some by (auto simp: check_sign_date_def add_days_def split: if_splits)
  next
    case (Inr l)
    then have "1 \<le> ordinal (date_of now) + int_or window 30" "ordinal (date_of now) + int_or window 30 \<le> max_ordinal"
        "ordinal l = ordinal (date_of now) + int_or window 30"
      using ordinal_of_date by (auto simp: add_days_Inr)
    then show ?thesis using Some Inr by (simp add: check_sign_date_def)
  qed
qed (simp add: check_sign_date_def)

text \<open>
  A contract can be signed for a date exactly when the date reads as a calendar date
  that is not in the past and not beyond the window counted from today, provided that the
  window itself ends inside the calendar.
\<close>

theorem sign_date_window:
  "check_sign_date now window s = Inr () \<longleftrightarrow>
    (\<exists>r. from_iso (slash_to_dash (strip s)) = Some r \<and> ordinal (date_of now) \<le> ordinal r \<and>
       ordinal r \<le> ordinal (date_of now) + int_or window 30 \<and>
       1 \<le> ordinal (date_of now) + int_or window 30 \<and> ordinal (date_of now) + int_or window 30 \<le> max_ordinal)"
  by (rule check_sign_date_iff)

text \<open>
  Every travel date that a contract template offers on a day can be signed on that day.
\<close>

theorem offered_dates_can_be_signed:
  assumes "normalize_contract_template now v = Inr t"
  shows "list_all (\<lambda>s. check_sign_date now (ct_travel_date_days t) s = Inr ()) (ct_travel_date_options t)"
proof -
  define kvs where "kvs = (case v of JObj kvs \<Rightarrow> kvs | _ \<Rightarrow> [])"
  obtain n u1 u2 where w: "travel_window kvs = (n, u1, u2)" by (cases "travel_window kvs") simp
  obtain e opts where e: "add_days (date_of now) n = Inr e" "build_travel_date_options now n = Inr opts"
    using assms w unfolding normalize_contract_template_def kvs_def [symmetric] Let_def
    by (auto split: sum.splits)
  have t: "ct_travel_date_days t = n" "ct_travel_date_options t = opts"
    using assms w e unfolding normalize_contract_template_def kvs_def [symmetric] Let_def by auto
  have n: "1 \<le> n" "n \<le> max_travel_date_days" using travel_window_range [of kvs] w by simp_all
  have c: "clamp 0 max_travel_date_days (int_or n default_travel_date_days) = n"
    using n by (simp add: clamp_def int_or_def)
  have "check_sign_date now n s = Inr ()" if s: "s \<in> set opts" for s
  proof -
    obtain k r where k: "k \<in> set (map int [0 ..< nat (min n 31 + 1)])" "s = iso_date r" "valid_date r"
        "ordinal r = ordinal (date_of now) + k"
      using date_options_from [OF e(2) [unfolded build_travel_date_options_def c Let_def]] s
      unfolding list_all_iff by blast
    have "0 \<le> k" "k \<le> n" using k(1) by auto
    moreover have "from_iso (slash_to_dash (strip s)) = Some r" using k by (simp add: iso_date_plain from_iso_date)
    ultimately show ?thesis using k(4) e(1) n(1) unfolding check_sign_date_iff
      by (simp add: add_days_Inr int_or_def)
  qed
  then show ?thesis by (simp add: t list_all_iff)
qed

theorem offered_dates_can_be_signed_witness:
  "check_sign_date (days 20000) 2 ''2024-10-06'' = Inr ()"
proof -
  have i: "\<not> isl (normalize_contract_template (days 20000) (JObj [(''travel_date_days'', JInt 2)]))" by code_simp
  obtain t where t: "normalize_contract_template (days 20000) (JObj [(''travel_date_days'', JInt 2)]) = Inr t"
    using i by (cases "normalize_contract_template (days 20000) (JObj [(''travel_date_days'', JInt 2)])") simp_all
  have "(case normalize_contract_template (days 20000) (JObj [(''travel_date_days'', JInt 2)]) of
      Inl e \<Rightarrow> False
    | Inr t \<Rightarrow> ct_travel_date_days t = 2 \<and> ct_travel_date_options t = [''2024-10-04'', ''2024-10-05'', ''2024-10-06''])"
    by code_simp
  then have "ct_travel_date_days t = 2" "''2024-10-06'' \<in> set (ct_travel_date_options t)" using t by simp_all
  then show ?thesis using offered_dates_can_be_signed [OF t] by (auto simp: list_all_iff)
qed

text \<open>
  The check of the date field and the check at the signature disagree. A month or a day
  of one digit, a blank before the day and the empty text pass the field; the signature
  then ends in the \<open>ValueError\<close> of \<open>fromisoformat\<close>, an internal error for the user.
\<close>

theorem accepted_date_crashes_signature:
  "list_all (\<lambda>s. \<exists>v. validate_travel_date s = Inr v \<and> check_sign_date now window v = Inl (ValueError ''fromisoformat''))
    [''2026-8-1'', ''2026/8/15'', ''2026-08- 1'', '''']"
  by (simp add: validate_travel_date_def check_sign_date_def slash_to_dash_def strip_def lstrip_def is_space_def
      checked_date_def two_val_def digit_val_def is_leap_def days_in_month_def Let_def)

section \<open>Snapshots\<close>

lemma snapshot_cases:
  assumes "ensure_contract_template_snapshot others now d v = Inr (s, d')"
    and t: "normalize_contract_template now v = Inr t"
  obtains (known) l k where "find_by cs_content_hash (template_hash t) (snapshots d) = Some k"
      "latest_snapshot d = Some l" "s = (if cs_content_hash l = template_hash t then l else k)" "d' = d"
  | (added) n where "s = new_snapshot (others d) n t (template_hash t)" "flush_snapshot s (others d) = Inr d'"
  | (race) "find_by cs_content_hash (template_hash t) (snapshots (others d)) = Some s" "d' = others d"
proof -
  let ?h = "template_hash t"
  let ?s = "new_snapshot (others d) (max_version d + 1) t ?h"
  note e = assms(1) [unfolded ensure_contract_template_snapshot_def t sum.case Let_def]
  show thesis
  proof (cases "latest_snapshot d = None \<or> find_by cs_content_hash ?h (snapshots d) = None")
    case False
    then obtain l k where lk: "latest_snapshot d = Some l" "find_by cs_content_hash ?h (snapshots d) = Some k" by auto
    have "s = (if cs_content_hash l = ?h then l else k) \<and> d' = d" using e by (simp add: lk)
    then show thesis using known [OF lk(2,1)] by blast
  next
    case True
    have e2: "(case flush_snapshot ?s (others d) of
        Inr d2 \<Rightarrow> Inr (?s, d2)
      | Inl _ \<Rightarrow> (case find_by cs_content_hash ?h (snapshots (others d)) of
          Some s' \<Rightarrow> Inr (s', others d)
        | None \<Rightarrow> map_sum id (Pair (new_snapshot (others d) (max_version (others d) + 1) t ?h))
            (flush_snapshot (new_snapshot (others d) (max_version (others d) + 1) t ?h) (others d)))) = Inr (s, d')"
      using True e by (cases "latest_snapshot d"; cases "find_by cs_content_hash ?h (snapshots d)") simp_all
    show thesis
    proof (cases "flush_snapshot ?s (others d)")
      case (Inr d2)
      then have "s = ?s" "d' = d2" using e2 by simp_all
      then show thesis using added Inr by blast
    next
      case (Inl x)
      show thesis
      proof (cases "find_by cs_content_hash ?h (snapshots (others d))")
        case None
        then show thesis using e2 Inl added by (auto simp: map_sum_eq_Inr)
      next
        case (Some s1)
        then have "s = s1" "d' = others d" using e2 Inl by simp_all
        then show thesis using race Some by blast
      qed
    qed
  qed
qed

lemma flush_snapshotD:
  "flush_snapshot s1 d1 = Inr d2 \<Longrightarrow> d2 = d1\<lparr>snapshots := snapshots d1 @ [s1]\<rparr> \<and> cs_version s1 \<notin> cs_version ` set (snapshots d1)"
  by (auto simp: flush_snapshot_def split: if_splits)

text \<open>
  C36: the snapshots of the contract template are append-only and numbered without repetition.
  Ensuring a snapshot returns a stored row with the hash of the content; it adds at most
  that row, after the rows other sessions have committed meanwhile, and two sessions that
  race for the same version never both get it.
\<close>

theorem snapshot_ensured:
  assumes "ensure_contract_template_snapshot others now d v = Inr (s, d')"
    and "prefix (snapshots d) (snapshots (others d))" and "distinct (map cs_version (snapshots (others d)))"
  shows "s \<in> set (snapshots d') \<and> distinct (map cs_version (snapshots d')) \<and> prefix (snapshots d) (snapshots d') \<and>
    (\<exists>t. normalize_contract_template now v = Inr t \<and> cs_content_hash s = template_hash t) \<and>
    (d' = d \<or> d' = others d \<or>
     d' = (others d)\<lparr>snapshots := snapshots (others d) @ [s]\<rparr> \<and> cs_id s \<notin> cs_id ` set (snapshots (others d)))"
proof -
  obtain t where t: "normalize_contract_template now v = Inr t"
    using assms(1) by (auto simp: ensure_contract_template_snapshot_def split: sum.splits)
  have d: "distinct (map cs_version (snapshots d))"
    using assms(2,3) by (auto simp: prefix_def)
  from assms(1) t show ?thesis
  proof (cases rule: snapshot_cases)
    case (known l k)
    have "l \<in> set (snapshots d)"
      using known(2) by (auto simp: latest_snapshot_def split: list.splits dest: arg_cong [where f = set])
    then show ?thesis
      using known d t find_by_mem [OF known(1)] find_by_key [OF known(1)] by auto
  next
    case (added n)
    have "cs_content_hash s = template_hash t" "cs_id s = fresh_id cs_id (snapshots (others d))"
      by (simp_all add: added(1) new_snapshot_def)
    then show ?thesis
      using flush_snapshotD [OF added(2)] assms(2,3) t fresh_id_new [of cs_id "snapshots (others d)"] by auto
  next
    case race
    then show ?thesis using find_by_mem [OF race(1)] find_by_key [OF race(1)] assms(2,3) t by auto
  qed
qed

theorem snapshot_ensured_witness:
  "\<exists>s d'. ensure_contract_template_snapshot (\<lambda>x. x) (days 20000) empty_db JNull = Inr (s, d') \<and>
     s \<in> set (snapshots d') \<and> cs_version s = 1"
proof -
  obtain t where t: "normalize_contract_template (days 20000) JNull = Inr t"
  proof (cases "normalize_contract_template (days 20000) JNull")
    case (Inl e)
    moreover have "\<not> isl (normalize_contract_template (days 20000) JNull)" by code_simp
    ultimately show thesis by simp
  qed (rule that)
  have n: "snapshots empty_db = []" by (simp add: empty_db_def)
  then have "latest_snapshot empty_db = None" by (simp add: latest_snapshot_def)
  moreover have "max_version empty_db = 0" using n by (simp add: max_version_def fresh_id_def)
  ultimately obtain d' where d': "ensure_contract_template_snapshot (\<lambda>x. x) (days 20000) empty_db JNull
      = Inr (new_snapshot empty_db 1 t (template_hash t), d')"
    using t n by (simp add: ensure_contract_template_snapshot_def flush_snapshot_def Let_def)
  from snapshot_ensured [OF d'] n d' show ?thesis by (auto simp: new_snapshot_def)
qed

end
