(* ===== verification/Captcha.thy ===== *)
theory Captcha
  imports Access
begin

text \<open>
  \<open>app/core/slider_captcha.py\<close>: the settings of the slider captcha, the challenges kept in
  the cache, and the tickets that a login consumes. The position of the gap, of the piece
  and the index of the image come from the caller (\<open>randint\<close>, \<open>choice\<close>), the identifiers
  from the source of random texts. Default texts are ASCII stand-ins. The cache helpers
  swallow their failures.
\<close>

section \<open>Settings\<close>

record captcha_image =
  ci_name :: string
  ci_url :: string
  ci_enabled :: bool

record captcha_settings =
  cp_enabled :: bool
  cp_title :: string
  cp_description :: string
  cp_image :: string
  cp_images :: "captcha_image list"
  cp_shape :: string
  cp_tolerance :: int
  cp_expires_seconds :: int

definition captcha_key :: string where "captcha_key = ''login.slider_captcha''"

definition captcha_scopes :: "string set" where "captcha_scopes = {''user'', ''admin'', ''merchant''}"

definition captcha_shapes :: "string set" where
  "captcha_shapes = {''rounded'', ''circle'', ''square'', ''puzzle''}"

definition default_captcha_image :: captcha_image where
  "default_captcha_image = \<lparr>ci_name = ''mountain'',
     ci_url = ''https://images.unsplash.com/photo-1500534314209-a25ddb2bd429?w=900&auto=format&fit=crop'',
     ci_enabled = True\<rparr>"

definition default_captcha_settings :: captcha_settings where
  "default_captcha_settings = \<lparr>cp_enabled = True, cp_title = ''slide'', cp_description = ''slide to log in'',
     cp_image = ci_url default_captcha_image, cp_images = [default_captcha_image], cp_shape = ''rounded'',
     cp_tolerance = 6, cp_expires_seconds = 120\<rparr>"

text \<open>One item of the list of images; \<open>None\<close> is \<open>continue\<close>.\<close>

definition captcha_image_of :: "nat \<Rightarrow> json \<Rightarrow> captcha_image option" where
  "captcha_image_of index item =
    (let name_of = ''image '' @ str_int (int index + 1);
         make = (\<lambda>url name enabled. if url = [] then None
           else Some \<lparr>ci_name = take 60 name, ci_url = take 500 url, ci_enabled = enabled\<rparr>)
     in case item of
          JStr s \<Rightarrow> make (strip s) name_of True
        | JObj kvs \<Rightarrow> make
            (strip (str_json (json_or (json_or (jget item ''url'') (jget item ''image'')) (JStr []))))
            (strip (str_json (json_or (jget item ''name'') (JStr name_of))))
            (jget item ''enabled'' \<noteq> JBool False)
        | _ \<Rightarrow> None)"

fun collect_images :: "nat \<Rightarrow> nat \<Rightarrow> json list \<Rightarrow> captcha_image list" where
  "collect_images room index [] = []"
| "collect_images room index (x # xs) =
     (case captcha_image_of index x of
        None \<Rightarrow> collect_images room (Suc index) xs
      | Some i \<Rightarrow> i # (if room \<le> 1 then [] else collect_images (room - 1) (Suc index) xs))"

definition normalize_captcha_images :: "json \<Rightarrow> string \<Rightarrow> captcha_image list" where
  "normalize_captcha_images raw fallback =
    (let found = collect_images 20 0 (case raw of JList xs \<Rightarrow> xs | _ \<Rightarrow> []);
         images = (if found = [] \<and> fallback \<noteq> []
           then [\<lparr>ci_name = ''default'', ci_url = take 500 fallback, ci_enabled = True\<rparr>] else found)
     in case images of
          [] \<Rightarrow> [default_captcha_image]
        | i # is \<Rightarrow> if list_ex ci_enabled images then images else i\<lparr>ci_enabled := True\<rparr> # is)"

definition bounded_number :: "json \<Rightarrow> string \<Rightarrow> int \<Rightarrow> int \<Rightarrow> int \<Rightarrow> int" where
  "bounded_number raw key dflt lo hi =
    (case raw of
       JObj kvs \<Rightarrow> (case json_int (jget_or kvs key (JInt dflt)) of Some n \<Rightarrow> clamp lo hi n | None \<Rightarrow> dflt)
     | _ \<Rightarrow> dflt)"

definition first_enabled_url :: "captcha_image list \<Rightarrow> string" where
  "first_enabled_url images =
    ci_url (case filter ci_enabled images of i # _ \<Rightarrow> i | [] \<Rightarrow> hd images)"

definition normalize_slider_captcha_settings :: "json \<Rightarrow> captcha_settings" where
  "normalize_slider_captcha_settings value =
    (let raw = (case value of JObj kvs \<Rightarrow> value | _ \<Rightarrow> JObj []);
         dflt = default_captcha_settings;
         text = (\<lambda>key alt. strip (str_json (json_or (jget raw key) (JStr alt))));
         images = normalize_captcha_images (jget raw ''images'') (str_or (text ''image'' (cp_image dflt)) (cp_image dflt));
         shape = text ''shape'' (cp_shape dflt)
     in \<lparr>cp_enabled = (jget raw ''enabled'' \<noteq> JBool False), cp_title = take 80 (text ''title'' (cp_title dflt)),
         cp_description = take 160 (text ''description'' (cp_description dflt)),
         cp_image = first_enabled_url images, cp_images = images,
         cp_shape = (if shape \<in> captcha_shapes then shape else cp_shape dflt),
         cp_tolerance = bounded_number raw ''tolerance'' (cp_tolerance dflt) 2 20,
         cp_expires_seconds = bounded_number raw ''expires_seconds'' (cp_expires_seconds dflt) 30 300\<rparr>)"

definition captcha_image_json :: "captcha_image \<Rightarrow> json" where
  "captcha_image_json i = JObj
    [(''name'', JStr (ci_name i)), (''url'', JStr (ci_url i)), (''enabled'', JBool (ci_enabled i))]"

definition captcha_json :: "captcha_settings \<Rightarrow> json" where
  "captcha_json s = JObj
    [(''enabled'', JBool (cp_enabled s)), (''title'', JStr (cp_title s)), (''description'', JStr (cp_description s)),
     (''image'', JStr (cp_image s)), (''images'', JList (map captcha_image_json (cp_images s))),
     (''shape'', JStr (cp_shape s)), (''tolerance'', JInt (cp_tolerance s)),
     (''expires_seconds'', JInt (cp_expires_seconds s))]"

definition get_slider_captcha_settings :: "db \<Rightarrow> captcha_settings" where
  "get_slider_captcha_settings d =
    normalize_slider_captcha_settings (case setting_value captcha_key d of Some v \<Rightarrow> v | None \<Rightarrow> JNull)"

definition save_slider_captcha_settings :: "db \<Rightarrow> json \<Rightarrow> captcha_settings \<times> db" where
  "save_slider_captcha_settings d v =
    (let s = normalize_slider_captcha_settings v
     in (s, save_setting captcha_key (captcha_json s) ''login slider captcha settings'' d))"

section \<open>Challenges and tickets\<close>

definition challenge_key :: "string \<Rightarrow> string" where
  "challenge_key challenge_id = ''slider:challenge:'' @ challenge_id"

definition ticket_key :: "string \<Rightarrow> string" where
  "ticket_key ticket = ''slider:ticket:'' @ ticket"

record challenge_out =
  ch_enabled :: bool
  ch_id :: string
  ch_image :: string
  ch_target_x :: int
  ch_piece_y :: int
  ch_expires_seconds :: int

definition challenge_json :: "int \<Rightarrow> int \<Rightarrow> int \<Rightarrow> int \<Rightarrow> int \<Rightarrow> json" where
  "challenge_json target_x piece_y tolerance attempts ttl = JObj
    [(''target_x'', JInt target_x), (''piece_y'', JInt piece_y), (''piece_size'', JInt 42),
     (''tolerance'', JInt tolerance), (''attempts'', JInt attempts), (''_ttl'', JInt ttl)]"

definition create_slider_challenge ::
  "time \<Rightarrow> int \<Rightarrow> int \<Rightarrow> nat \<Rightarrow> db \<Rightarrow> redis \<Rightarrow> challenge_out \<times> db \<times> redis" where
  "create_slider_challenge now target_x piece_y pick d r =
    (let s = get_slider_captcha_settings d in
     if \<not> cp_enabled s then
       (\<lparr>ch_enabled = False, ch_id = [], ch_image = cp_image s, ch_target_x = 0, ch_piece_y = 0,
         ch_expires_seconds = cp_expires_seconds s\<rparr>, d, r)
     else case draw_no ''uuid4'' d of
       (cid, d1) \<Rightarrow>
         (let usable = filter ci_enabled (cp_images s);
              pool = (if usable = [] then cp_images s else usable);
              r1 = cache_set_json now (challenge_key cid)
                (challenge_json target_x piece_y (cp_tolerance s) 0 (cp_expires_seconds s)) (cp_expires_seconds s) r
          in (\<lparr>ch_enabled = True, ch_id = cid, ch_image = ci_url (pool ! (pick mod length pool)),
               ch_target_x = target_x, ch_piece_y = piece_y, ch_expires_seconds = cp_expires_seconds s\<rparr>, d1, r1)))"

text \<open>\<open>int(challenge.get(key) or default)\<close>; a challenge is always a stored object of numbers.\<close>

definition challenge_number :: "json \<Rightarrow> string \<Rightarrow> int \<Rightarrow> int result" where
  "challenge_number ch key dflt =
    (case json_int (json_or (jget ch key) (JInt dflt)) of Some n \<Rightarrow> Inr n | None \<Rightarrow> Inl (ValueError ''int''))"

text \<open>\<open>challenge["attempts"] = n\<close>.\<close>

definition put_field :: "string \<Rightarrow> json \<Rightarrow> json \<Rightarrow> json" where
  "put_field key v ch =
    (case ch of
       JObj kvs \<Rightarrow> JObj (if map_of kvs key = None then kvs @ [(key, v)]
         else map (\<lambda>(k, w). if k = key then (k, v) else (k, w)) kvs)
     | _ \<Rightarrow> ch)"

definition captcha_error :: error where "captcha_error = HTTPException 400 ''captcha expired''"

definition verify_slider_challenge ::
  "time \<Rightarrow> string \<Rightarrow> int \<Rightarrow> string \<Rightarrow> db \<Rightarrow> redis \<Rightarrow> string result \<times> db \<times> redis" where
  "verify_slider_challenge now challenge_id x scope d r =
    (if scope \<notin> captcha_scopes then (Inl (HTTPException 400 ''captcha scope''), d, r)
     else case cache_get_json now (challenge_key challenge_id) r of
       (None, r1) \<Rightarrow> (Inl captcha_error, d, r1)
     | (Some ch, r1) \<Rightarrow>
         if \<not> truthy ch then (Inl captcha_error, d, r1)
         else
           (case (challenge_number ch ''attempts'' 0, challenge_number ch ''target_x'' 0,
                  challenge_number ch ''tolerance'' (cp_tolerance default_captcha_settings),
                  challenge_number ch ''_ttl'' (cp_expires_seconds default_captcha_settings)) of
              (Inr attempts, Inr target_x, Inr tolerance, Inr ttl) \<Rightarrow>
                if 3 \<le> attempts
                then (Inl captcha_error, d, cache_delete (challenge_key challenge_id) r1)
                else if tolerance < \<bar>x - target_x\<bar>
                then (Inl (HTTPException 400 ''captcha position''), d,
                      cache_set_json now (challenge_key challenge_id)
                        (put_field ''attempts'' (JInt (attempts + 1)) ch) ttl r1)
                else (case draw_no ''uuid4'' d of
                   (ticket, d1) \<Rightarrow>
                     (Inr ticket, d1,
                      cache_set_json now (ticket_key ticket) (JObj [(''scope'', JStr scope)]) ttl
                        (cache_delete (challenge_key challenge_id) r1)))
            | _ \<Rightarrow> (Inl (ValueError ''int''), d, r1)))"

definition consume_slider_ticket :: "time \<Rightarrow> db \<Rightarrow> string \<Rightarrow> string \<Rightarrow> redis \<Rightarrow> unit result \<times> redis" where
  "consume_slider_ticket now d ticket scope r =
    (if \<not> cp_enabled (get_slider_captcha_settings d) then (Inr (), r)
     else if scope \<notin> captcha_scopes \<or> ticket = [] then (Inl (HTTPException 400 ''captcha required''), r)
     else case cache_get_json now (ticket_key ticket) r of
       (None, r1) \<Rightarrow> (Inl (HTTPException 400 ''captcha used''), r1)
     | (Some payload, r1) \<Rightarrow>
         if \<not> truthy payload then (Inl (HTTPException 400 ''captcha used''), r1)
         else
           (let r2 = cache_delete (ticket_key ticket) r1 in
            if jget payload ''scope'' \<noteq> JStr scope then (Inl (HTTPException 400 ''captcha scope''), r2)
            else (Inr (), r2)))"

end
