(* ===== verification/Accounts.thy ===== *)
theory Accounts
  imports Captcha Orders Vip
begin

text \<open>
  \<open>app/api/auth.py\<close>: registration, the three logins, the invitations and the logout, and the
  school accounts of \<open>app/api/merchant.py\<close>. WeChat's three HTTP calls are the fields of
  \<open>mini_client\<close>: the JSON of a successful answer, or \<open>None\<close> for an HTTP or decoding error.
  An error result leaves the database as it was (the session is rolled back); the Redis
  counters and tickets are not rolled back, so they are returned in every case. \<open>others\<close>
  is what other sessions commit between the first read and the insertion.
\<close>

section \<open>WeChat\<close>

record mini_client =
  mc_session :: "string \<Rightarrow> json option"
  mc_token :: "json option"
  mc_phone :: "string \<Rightarrow> string \<Rightarrow> json option"

definition json_word :: "json \<Rightarrow> string \<Rightarrow> string" where
  "json_word data key = strip (str_json (json_or (jget data key) (JStr [])))"

definition is_object :: "json \<Rightarrow> bool" where
  "is_object j = (case j of JObj _ \<Rightarrow> True | _ \<Rightarrow> False)"

definition exchange_wechat_mini_code :: "config \<Rightarrow> mini_client \<Rightarrow> string \<Rightarrow> string result" where
  "exchange_wechat_mini_code c mini code =
    (if wechat_mini_app_id c = [] \<or> wechat_mini_app_secret c = []
     then Inl (HTTPException 503 ''WeChat login not configured'')
     else case mc_session mini code of
       None \<Rightarrow> Inl (HTTPException 502 ''WeChat login unavailable'')
     | Some data \<Rightarrow>
         if \<not> is_object data then Inl (RuntimeError ''AttributeError'')
         else if json_word data ''openid'' = [] then Inl (HTTPException 401 ''WeChat code'')
         else Inr (json_word data ''openid''))"

definition access_token_key :: string where "access_token_key = ''wechat:mini:access-token''"

definition get_wechat_access_token :: "time \<Rightarrow> mini_client \<Rightarrow> redis \<Rightarrow> string result \<times> redis" where
  "get_wechat_access_token now mini r =
    (case cache_get_json now access_token_key r of
       (cached, r1) \<Rightarrow>
         if (case cached of Some j \<Rightarrow> is_object j \<and> truthy (jget j ''token'') | None \<Rightarrow> False)
         then (Inr (str_json (jget (the cached) ''token'')), r1)
         else case mc_token mini of
           None \<Rightarrow> (Inl (HTTPException 502 ''WeChat phone unavailable''), r1)
         | Some data \<Rightarrow>
             if \<not> is_object data then (Inl (RuntimeError ''AttributeError''), r1)
             else
               (let token = json_word data ''access_token'' in
                if token = [] then (Inl (HTTPException 502 ''WeChat phone configuration''), r1)
                else case json_int (json_or (jget data ''expires_in'') (JInt 7200)) of
                  None \<Rightarrow> (Inl (ValueError ''int''), r1)
                | Some n \<Rightarrow> (Inr token, cache_set_json now access_token_key (JObj [(''token'', JStr token)])
                    (max 60 (n - 300)) r1)))"

definition exchange_wechat_phone_code ::
  "time \<Rightarrow> mini_client \<Rightarrow> string \<Rightarrow> redis \<Rightarrow> string result \<times> redis" where
  "exchange_wechat_phone_code now mini phone_code r =
    (case get_wechat_access_token now mini r of
       (Inl e, r1) \<Rightarrow> (Inl e, r1)
     | (Inr token, r1) \<Rightarrow>
         (case mc_phone mini token phone_code of
            None \<Rightarrow> (Inl (HTTPException 502 ''WeChat phone unavailable''), r1)
          | Some data \<Rightarrow>
              (let info = json_or (jget data ''phone_info'') (JObj []) in
               if \<not> is_object info then (Inl (RuntimeError ''AttributeError''), r1)
               else
                 (let phone = strip (str_json (json_or (json_or (jget info ''purePhoneNumber'')
                        (jget info ''phoneNumber'')) (JStr []))) in
                  if phone = [] then (Inl (HTTPException 401 ''WeChat phone code''), r1)
                  else if 30 < length phone then (Inl (HTTPException 400 ''phone format''), r1)
                  else (Inr phone, r1)))))"

definition wechat_placeholder_phone :: "string \<Rightarrow> string" where
  "wechat_placeholder_phone openid = ''wx_'' @ take 27 (sha256_hex openid)"

section \<open>Sessions\<close>

definition ensure_active_user :: "user_account \<Rightarrow> unit result" where
  "ensure_active_user u =
    (if ua_status u = ''cancelled'' then Inl (HTTPException 403 ''account closed'')
     else if ua_status u \<noteq> ''active'' \<or> \<not> ua_is_registered u then Inl (HTTPException 403 ''account not usable'')
     else Inr ())"

record auth_response =
  ar_token :: string
  ar_user :: user_account
  ar_exam_status :: string
  ar_vip_active :: bool

definition drop_sessions :: "int \<Rightarrow> string \<Rightarrow> db \<Rightarrow> db" where
  "drop_sessions uid role d =
    d\<lparr>sessions := filter (\<lambda>s. \<not> (us_user_id s = uid \<and> us_role s = role)) (sessions d)\<rparr>"

definition build_auth_response :: "time \<Rightarrow> db \<Rightarrow> user_account \<Rightarrow> (auth_response \<times> db) result" where
  "build_auth_response now d u =
    (case generate_token (drop_sessions (ua_id u) (ua_role u) d) of
       (token, d1) \<Rightarrow>
         if find_session d1 token \<noteq> None then Inl IntegrityError
         else
           (let s = \<lparr>us_token = token, us_user_id = ua_id u, us_role = ua_role u,
                  us_expires_at = session_expire_at now, us_last_seen_at = Some now\<rparr>;
                d2 = set_user (ua_id u) (\<lambda>r. r\<lparr>ua_last_login_at := Some now\<rparr>) (d1\<lparr>sessions := sessions d1 @ [s]\<rparr>);
                u' = u\<lparr>ua_last_login_at := Some now\<rparr>
            in Inr (\<lparr>ar_token = token, ar_user = u', ar_exam_status = resolve_user_identity now d2 (ua_id u),
                     ar_vip_active = is_vip_active u' now\<rparr>, d2)))"

definition logout :: "user_account \<Rightarrow> db \<Rightarrow> db" where
  "logout u d = drop_sessions (ua_id u) (ua_role u) d"

definition auth_stats :: "db \<Rightarrow> nat \<times> nat" where
  "auth_stats d =
    (length (filter (\<lambda>u. ua_role u = ''user'') (users d)),
     length (filter (\<lambda>u. ua_role u = ''user'' \<and> ua_status u = ''pending'') (users d)))"

section \<open>Login with a password\<close>

record login_payload =
  lg_account :: string
  lg_password :: string
  lg_slider_ticket :: string

text \<open>
  The common part of \<open>login\<close> and \<open>admin_login\<close>: the counter, the captcha, the account of the
  role by phone or number, the password. What comes back is the account, the database with
  an upgraded hash, if any, and Redis without the failures.
\<close>

definition set_password_hash :: "int \<Rightarrow> string option \<Rightarrow> db \<Rightarrow> db" where
  "set_password_hash uid upgraded d =
    (case upgraded of None \<Rightarrow> d | Some h \<Rightarrow> set_user uid (\<lambda>r. r\<lparr>ua_password_hash := h\<rparr>) d)"

definition find_account :: "db \<Rightarrow> string \<Rightarrow> string \<Rightarrow> user_account option" where
  "find_account d account role =
    List.find (\<lambda>u. (ua_phone u = account \<or> ua_user_no u = account) \<and> ua_role u = role) (users d)"

definition checked_login ::
  "config \<Rightarrow> hasher \<Rightarrow> time \<Rightarrow> string \<Rightarrow> string \<Rightarrow> db \<Rightarrow> login_payload \<Rightarrow> redis
    \<Rightarrow> (user_account \<times> db) result \<times> redis" where
  "checked_login c h now client_ip role d p r =
    (case ensure_login_allowed c now role (lg_account p) client_ip r of
       (Inl e, r1) \<Rightarrow> (Inl e, r1)
     | (Inr key, r1) \<Rightarrow>
         (case consume_slider_ticket now d (lg_slider_ticket p) role r1 of
            (Inl e, r2) \<Rightarrow> (Inl e, r2)
          | (Inr _, r2) \<Rightarrow>
              (let user = find_account d (lg_account p) role;
                   refuse = (case record_login_failure c now key r2 of
                       (Inl e, r3) \<Rightarrow> (Inl e, r3)
                     | (Inr _, r3) \<Rightarrow> (Inl (HTTPException 401 ''account or password''), r3))
               in case user of
                    None \<Rightarrow> refuse
                  | Some u \<Rightarrow>
                      (case verify_and_rehash_password h (lg_password p) (ua_password_hash u) d of
                         ((False, _), _) \<Rightarrow> refuse
                       | ((True, upgraded), d1) \<Rightarrow>
                           (case clear_login_failures key r2 of
                              (Inl e, r3) \<Rightarrow> (Inl e, r3)
                            | (Inr _, r3) \<Rightarrow>
                                (let u1 = (case upgraded of None \<Rightarrow> u | Some x \<Rightarrow> u\<lparr>ua_password_hash := x\<rparr>)
                                 in (Inr (u1, set_password_hash (ua_id u) upgraded d1), r3)))))))"

definition login ::
  "config \<Rightarrow> hasher \<Rightarrow> time \<Rightarrow> string \<Rightarrow> db \<Rightarrow> login_payload \<Rightarrow> redis \<Rightarrow> (auth_response \<times> db) result \<times> redis" where
  "login c h now client_ip d p r =
    (case checked_login c h now client_ip ''user'' d p r of
       (Inl e, r1) \<Rightarrow> (Inl e, r1)
     | (Inr (u, d1), r1) \<Rightarrow>
         (if ua_status u = ''pending'' \<or> \<not> ua_is_registered u then Inl (HTTPException 403 ''not approved yet'')
          else if ua_status u = ''rejected'' then Inl (HTTPException 403 ''registration rejected'')
          else if ua_status u = ''cancelled'' then Inl (HTTPException 403 ''account closed'')
          else if ua_status u \<noteq> ''active'' then Inl (HTTPException 403 ''account disabled'')
          else build_auth_response now d1 u, r1))"

definition admin_login ::
  "config \<Rightarrow> hasher \<Rightarrow> time \<Rightarrow> string \<Rightarrow> db \<Rightarrow> login_payload \<Rightarrow> redis \<Rightarrow> (auth_response \<times> db) result \<times> redis" where
  "admin_login c h now client_ip d p r =
    (case checked_login c h now client_ip ''admin'' d p r of
       (Inl e, r1) \<Rightarrow> (Inl e, r1)
     | (Inr (u, d1), r1) \<Rightarrow>
         (if ua_status u \<noteq> ''active'' then Inl (HTTPException 403 ''administrator disabled'')
          else build_auth_response now d1 u, r1))"

section \<open>New accounts\<close>

definition new_account ::
  "string \<Rightarrow> string \<Rightarrow> string option \<Rightarrow> string \<Rightarrow> string \<Rightarrow> bool \<Rightarrow> int \<Rightarrow> string \<Rightarrow> user_account" where
  "new_account user_no phone openid nickname status registered uid pw_hash =
    \<lparr>ua_id = uid, ua_user_no = user_no, ua_phone = phone, ua_wechat_openid = openid, ua_nickname = nickname,
     ua_password_hash = pw_hash, ua_role = ''user'', ua_status = status, ua_avatar = [], ua_points = 0,
     ua_balance = 0, ua_exam_status = ''student'', ua_vip_enabled = False, ua_vip_type = [],
     ua_vip_started_at = None, ua_vip_expires_at = None, ua_vip_remark = [],
     ua_is_registered = registered, ua_last_login_at = None\<rparr>"

text \<open>The flush of a new account: number, phone and WeChat identity are unique.\<close>

definition account_clash :: "user_account \<Rightarrow> db \<Rightarrow> bool" where
  "account_clash u d \<longleftrightarrow> list_ex (\<lambda>r. ua_user_no r = ua_user_no u \<or> ua_phone r = ua_phone u
     \<or> ua_wechat_openid u \<noteq> None \<and> ua_wechat_openid r = ua_wechat_openid u) (users d)"

fun insert_account :: "nat \<Rightarrow> (string \<Rightarrow> string \<Rightarrow> db \<Rightarrow> user_account) \<Rightarrow> hasher \<Rightarrow> string \<Rightarrow> db
    \<Rightarrow> (user_account \<times> db) option" where
  "insert_account 0 build h password d = None"
| "insert_account (Suc n) build h password d =
     (case generate_user_no d of
        (no, d1) \<Rightarrow>
          (case hash_password h password d1 of
             (pw, d2) \<Rightarrow>
               (let u = build no pw d2 in
                if account_clash u d2 then insert_account n build h password d2
                else Some (u, d2\<lparr>users := users d2 @ [u]\<rparr>))))"

section \<open>Invitations\<close>

definition find_inviter :: "db \<Rightarrow> string \<Rightarrow> user_account option" where
  "find_inviter d invite_code =
    List.find (\<lambda>u. ua_user_no u = invite_code \<and> ua_role u = ''user'' \<and> ua_status u = ''active'' \<and> ua_is_registered u)
      (users d)"

definition find_invite :: "db \<Rightarrow> string \<Rightarrow> invite_relation option" where
  "find_invite d phone = find_by ir_invitee_phone phone (invites d)"

definition device_reused :: "db \<Rightarrow> string \<Rightarrow> bool" where
  "device_reused d device_id \<longleftrightarrow> list_ex (\<lambda>r. ir_device_id r = device_id) (invites d)"

definition new_relation :: "db \<Rightarrow> string \<Rightarrow> string \<Rightarrow> string \<Rightarrow> bool \<Rightarrow> invite_relation" where
  "new_relation d inviter_no phone device_id abnormal =
    \<lparr>ir_id = fresh_id ir_id (invites d), ir_inviter_id = inviter_no, ir_invitee_phone = phone,
     ir_device_id = device_id, ir_score_granted = False, ir_abnormal = abnormal, ir_frozen = False\<rparr>"

definition add_relation :: "invite_relation \<Rightarrow> db \<Rightarrow> db" where
  "add_relation rel d = d\<lparr>invites := invites d @ [rel]\<rparr>"

definition mark_granted :: "int \<Rightarrow> db \<Rightarrow> db" where
  "mark_granted rid d = d\<lparr>invites := update_by ir_id rid (\<lambda>r. r\<lparr>ir_score_granted := True\<rparr>) (invites d)\<rparr>"

definition invite_enabled :: "db \<Rightarrow> bool" where
  "invite_enabled d = (case rule d of Some r \<Rightarrow> pr_enabled r \<and> pr_invite_enabled r | None \<Rightarrow> True)"

definition invite_score :: "db \<Rightarrow> int" where
  "invite_score d = (case rule d of Some r \<Rightarrow> pr_invite_score r | None \<Rightarrow> 1)"

definition rule_valid_days :: "db \<Rightarrow> int" where
  "rule_valid_days d = max 1 (case rule d of Some r \<Rightarrow> pr_valid_days r | None \<Rightarrow> 365)"

definition invite_entry :: "invite_relation \<Rightarrow> string \<Rightarrow> entry" where
  "invite_entry rel remark =
    \<lparr>e_biz_type = ''invite_reward'', e_biz_id = ir_id rel, e_biz_no = str_int (ir_id rel),
     e_key = ''invite-reward:'' @ str_int (ir_id rel), e_remark = remark\<rparr>"

text \<open>The reward of a relation.\<close>

definition pay_invite_reward ::
  "time \<Rightarrow> user_account \<Rightarrow> invite_relation \<Rightarrow> string \<Rightarrow> db \<Rightarrow> db result" where
  "pay_invite_reward now inviter rel remark d =
    (case credit_locked d (ua_id inviter) (invite_score d) (invite_entry rel remark)
            (Some (now + days (rule_valid_days d))) of
       Inl e \<Rightarrow> Inl e
     | Inr (_, d1) \<Rightarrow> Inr (mark_granted (ir_id rel) d1))"

record register_payload =
  rg_phone :: string
  rg_password :: string
  rg_nickname :: string
  rg_invite_code :: string
  rg_device_id :: string

definition bind_at_registration :: "register_payload \<Rightarrow> db \<Rightarrow> (bool \<times> db) result" where
  "bind_at_registration p d =
    (let code = strip (rg_invite_code p) in
     if code = [] then Inr (False, d)
     else case find_inviter d code of
       None \<Rightarrow> Inl (HTTPException 400 ''invite code'')
     | Some inviter \<Rightarrow>
         if ua_phone inviter = rg_phone p then Inl (HTTPException 400 ''own invite code'')
         else if find_invite d (rg_phone p) \<noteq> None then Inl (HTTPException 400 ''already invited'')
         else
           (let device = str_or (strip (rg_device_id p)) ''unknown'';
                reused = (device \<noteq> ''unknown'' \<and> device_reused d device)
            in Inr (True, add_relation (new_relation d (ua_user_no inviter) (rg_phone p) device reused) d)))"

definition register :: "(db \<Rightarrow> db) \<Rightarrow> hasher \<Rightarrow> db \<Rightarrow> register_payload \<Rightarrow> (bool \<times> db) result" where
  "register others h d p =
    (if get_user_by_phone d (rg_phone p) \<noteq> None then Inl (HTTPException 400 ''phone registered'')
     else case insert_account 3
         (\<lambda>no pw d2. new_account no (rg_phone p) None (str_or (rg_nickname p) ''student'') ''pending'' False
            (fresh_id ua_id (users d2)) pw) h (rg_password p) (others d) of
       None \<Rightarrow> Inl (HTTPException 500 ''registration failed'')
     | Some (u, d1) \<Rightarrow> bind_at_registration p d1)"

record wechat_payload =
  wl_code :: string
  wl_phone_code :: string
  wl_invite_code :: string
  wl_device_id :: string

text \<open>An account already known by its WeChat identity.\<close>

definition known_wechat_user :: "string \<Rightarrow> user_account \<Rightarrow> user_account" where
  "known_wechat_user phone u =
    (let u1 = (if prefix ''wx_'' (ua_phone u) then u\<lparr>ua_phone := phone\<rparr> else u)
     in if ua_nickname u1 \<in> {''WeChat user'', ua_phone u1} \<or> prefix ''wx_'' (ua_nickname u1)
        then u1\<lparr>ua_nickname := phone\<rparr> else u1)"

definition relogin_wechat ::
  "time \<Rightarrow> string \<Rightarrow> user_account \<Rightarrow> db \<Rightarrow> string \<Rightarrow> redis \<Rightarrow> (auth_response \<times> db) result \<times> redis" where
  "relogin_wechat now phone u d key r =
    (case ensure_active_user u of
       Inl e \<Rightarrow> (Inl e, r)
     | Inr _ \<Rightarrow>
         if list_ex (\<lambda>x. ua_phone x = phone \<and> ua_id x \<noteq> ua_id u) (users d)
         then (Inl (HTTPException 409 ''phone bound to another account''), r)
         else (case clear_login_failures key r of
             (Inl e, r1) \<Rightarrow> (Inl e, r1)
           | (Inr _, r1) \<Rightarrow>
               (build_auth_response now (set_user (ua_id u) (known_wechat_user phone) d) (known_wechat_user phone u), r1)))"

definition invite_at_wechat_login :: "time \<Rightarrow> wechat_payload \<Rightarrow> string \<Rightarrow> db \<Rightarrow> db result" where
  "invite_at_wechat_login now p phone d =
    (let code = strip (wl_invite_code p) in
     if code = [] then Inr d
     else case find_inviter d code of
       None \<Rightarrow> Inr d
     | Some inviter \<Rightarrow>
         (let device = str_or (strip (wl_device_id p)) ''wechat-mini'';
              rel = new_relation d (ua_user_no inviter) phone device (device_reused d device);
              d1 = add_relation rel d
          in if \<not> ir_abnormal rel \<and> invite_enabled d1 \<and> 0 < invite_score d1
             then pay_invite_reward now inviter rel ''first WeChat login'' d1
             else Inr d1))"

text \<open>The account by phone, or a new one; \<open>True\<close> when it is new.\<close>

definition wechat_account ::
  "(db \<Rightarrow> db) \<Rightarrow> hasher \<Rightarrow> string \<Rightarrow> string \<Rightarrow> db \<Rightarrow> (bool \<times> user_account \<times> db) result" where
  "wechat_account others h openid phone d =
    (case List.find (\<lambda>u. ua_phone u = phone \<and> ua_role u = ''user'') (users d) of
       Some u \<Rightarrow>
         (case ensure_active_user u of
            Inl e \<Rightarrow> Inl e
          | Inr _ \<Rightarrow>
              (case ua_wechat_openid u of
                 Some other \<Rightarrow>
                   if other \<noteq> [] \<and> other \<noteq> openid then Inl (HTTPException 409 ''phone bound to another WeChat'')
                   else Inr (False, u\<lparr>ua_wechat_openid := Some openid\<rparr>,
                     set_user (ua_id u) (\<lambda>x. x\<lparr>ua_wechat_openid := Some openid\<rparr>) d)
               | None \<Rightarrow> Inr (False, u\<lparr>ua_wechat_openid := Some openid\<rparr>,
                     set_user (ua_id u) (\<lambda>x. x\<lparr>ua_wechat_openid := Some openid\<rparr>) d)))
     | None \<Rightarrow>
         (case insert_account 3 (\<lambda>no pw d2. new_account no phone (Some openid) phone ''active'' True
                  (fresh_id ua_id (users d2)) pw) h (fst (draw_no ''secret'' d)) (others d) of
            None \<Rightarrow> Inl (HTTPException 500 ''login failed'')
          | Some (u, d1) \<Rightarrow> Inr (True, u, d1)))"

definition wechat_mini_login ::
  "(db \<Rightarrow> db) \<Rightarrow> config \<Rightarrow> hasher \<Rightarrow> mini_client \<Rightarrow> time \<Rightarrow> string \<Rightarrow> db \<Rightarrow> wechat_payload \<Rightarrow> redis
    \<Rightarrow> (auth_response \<times> db) result \<times> redis" where
  "wechat_mini_login others c h mini now client_ip d p r =
    (case ensure_login_allowed c now ''wechat-mini'' ''mini-program'' client_ip r of
       (Inl e, r1) \<Rightarrow> (Inl e, r1)
     | (Inr key, r1) \<Rightarrow>
         (case (case exchange_wechat_mini_code c mini (wl_code p) of
                  Inl e \<Rightarrow> (Inl e, r1)
                | Inr openid \<Rightarrow>
                    (case exchange_wechat_phone_code now mini (wl_phone_code p) r1 of
                       (Inl e, r2) \<Rightarrow> (Inl e, r2) | (Inr phone, r2) \<Rightarrow> (Inr (openid, phone), r2))) of
            (Inl (HTTPException st text), r2) \<Rightarrow>
              (case record_login_failure c now key r2 of
                 (Inl e, r3) \<Rightarrow> (Inl e, r3)
               | (Inr _, r3) \<Rightarrow> (Inl (HTTPException st text), r3))
          | (Inl e, r2) \<Rightarrow> (Inl e, r2)
          | (Inr (openid, phone), r2) \<Rightarrow>
              (case List.find (\<lambda>u. ua_wechat_openid u = Some openid \<and> ua_role u = ''user'') (users d) of
                 Some u \<Rightarrow> relogin_wechat now phone u d key r2
               | None \<Rightarrow>
                   (case wechat_account others h openid phone d of
                      Inl e \<Rightarrow> (Inl e, r2)
                    | Inr (created, u, d1) \<Rightarrow>
                        (case (if created then invite_at_wechat_login now p phone d1 else Inr d1) of
                           Inl e \<Rightarrow> (Inl e, r2)
                         | Inr d2 \<Rightarrow>
                             (case clear_login_failures key r2 of
                                (Inl e, r3) \<Rightarrow> (Inl e, r3)
                              | (Inr _, r3) \<Rightarrow> (build_auth_response now d2 u, r3)))))))"

record bind_response =
  br_bound :: bool
  br_rewarded :: bool

definition bind_invite ::
  "time \<Rightarrow> db \<Rightarrow> user_account \<Rightarrow> string \<Rightarrow> string \<Rightarrow> (bind_response \<times> db) result" where
  "bind_invite now d user invite_code device_id =
    (let code = strip invite_code in
     if code = ua_user_no user then Inl (HTTPException 400 ''own invite code'')
     else case find_inviter d code of
       None \<Rightarrow> Inl (HTTPException 400 ''invite code'')
     | Some inviter \<Rightarrow>
         if ua_phone inviter = ua_phone user then Inl (HTTPException 400 ''own invite code'')
         else case (lock_user d (min (ua_id user) (ua_id inviter)), lock_user d (max (ua_id user) (ua_id inviter))) of
           (Inl e, _) \<Rightarrow> Inl e
         | (Inr _, Inl e) \<Rightarrow> Inl e
         | (Inr _, Inr _) \<Rightarrow>
             (case find_invite d (ua_phone user) of
                Some rel \<Rightarrow>
                  if ir_inviter_id rel = ua_user_no inviter
                  then Inr (\<lparr>br_bound = True, br_rewarded = ir_score_granted rel\<rparr>, d)
                  else Inl (HTTPException 400 ''already invited'')
              | None \<Rightarrow>
                  (let device = str_or (strip device_id) ''unknown'';
                       reused = (device \<noteq> ''unknown'' \<and> device_reused d device);
                       rel = new_relation d (ua_user_no inviter) (ua_phone user) device reused;
                       d1 = add_relation rel d
                   in if \<not> reused \<and> invite_enabled d1 \<and> 0 < invite_score d1 then
                        map_sum id (Pair \<lparr>br_bound = True, br_rewarded = True\<rparr>)
                          (pay_invite_reward now inviter rel ''bound by a user'' d1)
                      else Inr (\<lparr>br_bound = True, br_rewarded = False\<rparr>, d1))))"

text \<open>The dashboard sweeps the user's expired points and commits when there were any.\<close>

record invite_dashboard =
  id_code :: string
  id_bound_inviter :: string
  id_points :: int
  id_score :: int
  id_exchange_score :: int
  id_enabled :: bool
  id_invited :: nat
  id_granted :: nat
  id_records :: "(string \<times> string \<times> string \<times> int \<times> bool) list"
  id_ledger :: "point_ledger list"

definition invite_record :: "db \<Rightarrow> invite_relation \<Rightarrow> string \<times> string \<times> string \<times> int \<times> bool" where
  "invite_record d rel =
    (case get_user_by_phone d (ir_invitee_phone rel) of
       Some u \<Rightarrow> (ua_nickname u, ir_invitee_phone rel, ua_status u,
         if ir_score_granted rel then invite_score d else 0, ir_score_granted rel)
     | None \<Rightarrow> (''invited friend'', ir_invitee_phone rel, ''unknown'',
         if ir_score_granted rel then invite_score d else 0, ir_score_granted rel))"

definition invite_dashboard_of :: "time \<Rightarrow> db \<Rightarrow> user_account \<Rightarrow> (invite_dashboard \<times> db) result" where
  "invite_dashboard_of now d user =
    (case lock_user d (ua_id user) of
       Inl e \<Rightarrow> Inl e
     | Inr u0 \<Rightarrow>
         (case expire_due_locked d (ua_id user) now of
            Inl e \<Rightarrow> Inl e
          | Inr (swept, d1) \<Rightarrow>
              (let rels = rev (filter (\<lambda>r. ir_inviter_id r = ua_user_no user) (invites d1));
                   no = ua_user_no u0
               in Inr (\<lparr>id_code = no,
                    id_bound_inviter = (case find_invite d1 (ua_phone user) of Some r \<Rightarrow> ir_inviter_id r | None \<Rightarrow> []),
                    id_points = points_of d1 (ua_id user), id_score = invite_score d1,
                    id_exchange_score = (case rule d1 of Some r \<Rightarrow> pr_exchange_score r | None \<Rightarrow> 100),
                    id_enabled = (case rule d1 of Some r \<Rightarrow> pr_enabled r | None \<Rightarrow> True),
                    id_invited = length rels, id_granted = length (filter ir_score_granted rels),
                    id_records = map (invite_record d1) rels,
                    id_ledger = take 100 (sort_key (\<lambda>l. - pl_id l)
                      (filter (\<lambda>l. pl_user_id l = ua_id user) (ledgers d1)))\<rparr>, d1))))"

end
