(* ===== verification/Login_Props.thy ===== *)
theory Login_Props
  imports Accounts Samples
begin

text \<open>
  Logging in: the counter of failed attempts, and the session that a login opens.
\<close>

section \<open>Commands that leave a key alone\<close>

lemma view_purge_later: "now \<le> t \<Longrightarrow> view t (purge now key st) = view t st"
  by (rule ext) (auto simp: purge_def view_def split: option.splits dest: expired_mono)

lemma cache_get_keeps:
  assumes "cache_get_json now key r = (v, r')" and "healthy r" and "now \<le> t"
  shows "healthy r' \<and> view t (rstore r') = view t (rstore r)"
proof -
  have "r' = r\<lparr>rstore := purge now key (rstore r)\<rparr>"
    using assms(1,2) by (cases "loads_or_none (fst (mem_get now key (rstore r)))")
      (auto simp: cache_get_json_def redis_get_json_def raw_call_healthy mem_get_def Let_def healthy_def split: if_splits)
  then show ?thesis using assms(2,3) by (simp add: view_purge_later)
qed

lemma cache_delete_keeps:
  "healthy r \<Longrightarrow> key \<noteq> k \<Longrightarrow> healthy (cache_delete key r) \<and> view t (rstore (cache_delete key r)) k = view t (rstore r) k"
  by (simp add: cache_delete_def redis_delete_def raw_call_healthy view_def case_prod_beta mem_delete_store
      del: mem_delete.simps)

lemma ticket_keeps:
  assumes c: "consume_slider_ticket now d ticket scope r = (res, r')" and h: "healthy r" and t: "now \<le> t"
    and k: "k \<noteq> ticket_key ticket"
  shows "healthy r' \<and> view t (rstore r') k = view t (rstore r) k"
proof -
  obtain v r1 where g: "cache_get_json now (ticket_key ticket) r = (v, r1)" by fastforce
  have "r' \<in> {r, r1, cache_delete (ticket_key ticket) r1}"
    using c g by (auto simp: consume_slider_ticket_def Let_def split: if_splits option.splits)
  then show ?thesis
    using cache_get_keeps [OF g h t] cache_delete_keeps [of r1 "ticket_key ticket" k t] h k by auto
qed

lemma login_key_ticket: "login_key scope account ip \<noteq> ticket_key ticket"
  by (simp add: login_key_def ticket_key_def)

section \<open>The counter\<close>

text \<open>The failures the counter shows; \<open>None\<close> when it does not read as a number.\<close>

definition failures :: "time \<Rightarrow> redis \<Rightarrow> string \<Rightarrow> int option" where
  "failures now r key = (case stored_int (map_option fst (view now (rstore r) key)) of Inr n \<Rightarrow> Some n | Inl _ \<Rightarrow> None)"

lemma failures_cong: "view now (rstore r') key = view now (rstore r) key \<Longrightarrow> failures now r' key = failures now r key"
  by (simp add: failures_def)

lemma allowed_cases:
  assumes e: "ensure_login_allowed c now scope account ip r = (res, r1)" and h: "healthy r"
  obtains (locked) n where "failures now r (login_key scope account ip) = Some n" "login_max_attempts c \<le> n"
      "res = Inl (HTTPException 429 ''too many attempts'')"
  | (allowed) n where "failures now r (login_key scope account ip) = Some n" "n < login_max_attempts c"
      "res = Inr (login_key scope account ip)" "healthy r1" "\<And>t. now \<le> t \<Longrightarrow> view t (rstore r1) = view t (rstore r)"
  | (broken) "failures now r (login_key scope account ip) = None" "res = Inl (HTTPException 503 ''login protection'')"
proof -
  let ?key = "login_key scope account ip"
  let ?r = "r\<lparr>rstore := purge now ?key (rstore r)\<rparr>"
  have h1: "healthy ?r" using h by simp
  have m: "raw_call (\<lambda>st. case mem_get now ?key st of (v, st') \<Rightarrow> (stored_int v, st')) r =
      (stored_int (map_option fst (view now (rstore r) ?key)), ?r)"
    by (simp add: raw_call_healthy [OF h] mem_get_def Let_def)
  show thesis
  proof (cases "stored_int (map_option fst (view now (rstore r) ?key))")
    case (Inl x)
    then show thesis using e m broken by (simp add: ensure_login_allowed_def Let_def failures_def)
  next
    case (Inr n)
    show thesis
    proof (cases "login_max_attempts c \<le> n")
      case True
      then show thesis
        using e m Inr locked
        by (auto simp: ensure_login_allowed_def Let_def failures_def raw_call_healthy [OF h1] split: prod.splits)
    next
      case False
      then show thesis
        using e m Inr allowed h by (auto simp: ensure_login_allowed_def Let_def failures_def view_purge_later)
    qed
  qed
qed

lemma failure_recorded:
  assumes h: "healthy r" and n: "failures now r key = Some n"
  obtains r' where "record_login_failure c now key r = (Inr (), r')" "healthy r'"
    "\<And>t. t < now + seconds (login_attempt_window_seconds c) \<Longrightarrow> failures t r' key = Some (n + 1)"
proof -
  let ?w = "login_attempt_window_seconds c"
  have "stored_int (map_option fst (view now (rstore r) key)) = Inr n"
    using n by (auto simp: failures_def split: sum.splits)
  note i = mem_incrby_value [OF this, of 1]
  let ?st = "(put key (SInt (n + 1)) None (purge now key (rstore r)))(key \<mapsto> (SInt (n + 1), Some (now + seconds ?w)))"
  have "mem_expire now key ?w (put key (SInt (n + 1)) None (purge now key (rstore r))) = (True, ?st)"
    by (simp add: mem_expire_def put_def view_def expired_def purge_def Let_def)
  then have "pipeline_execute now [PIncr key, PExpire key ?w] (rstore r) = (Inr [n + 1, 1], ?st)"
    using i by (simp add: case_prod_beta)
  then have "record_login_failure c now key r = (Inr (), r\<lparr>rstore := ?st\<rparr>)"
    by (simp add: record_login_failure_def raw_call_healthy [OF h])
  then show thesis
    by (rule that) (use h in \<open>simp_all add: failures_def view_def expired_def\<close>)
qed

section \<open>Refused passwords\<close>

abbreviation refused :: error where "refused \<equiv> HTTPException 401 ''account or password''"

lemma ticket_error: "consume_slider_ticket now d ticket scope r = (Inl e, r') \<Longrightarrow> e \<noteq> refused"
  by (auto simp: consume_slider_ticket_def Let_def split: if_splits option.splits prod.splits)

lemma build_error: "build_auth_response now d u = Inl e \<Longrightarrow> e \<noteq> refused"
  by (auto simp: build_auth_response_def Let_def split: if_splits prod.splits)

text \<open>A login that is refused for its password or its account was counted.\<close>

lemma refused_counted:
  assumes l: "login c h now ip d p r = (Inl refused, r')" and r: "healthy r"
  obtains n where "failures now r (login_key ''user'' (lg_account p) ip) = Some n" "healthy r'"
    "\<And>t. t < now + seconds (login_attempt_window_seconds c) \<Longrightarrow>
       failures t r' (login_key ''user'' (lg_account p) ip) = Some (n + 1)"
proof -
  let ?key = "login_key ''user'' (lg_account p) ip"
  obtain res1 r1 where e: "ensure_login_allowed c now ''user'' (lg_account p) ip r = (res1, r1)" by fastforce
  from e r show thesis
  proof (cases rule: allowed_cases)
    case (allowed n)
    obtain res2 r2 where t: "consume_slider_ticket now d (lg_slider_ticket p) ''user'' r1 = (res2, r2)" by fastforce
    note k = ticket_keeps [OF t allowed(4) order_refl login_key_ticket]
    then have n: "healthy r2" "failures now r2 ?key = Some n"
      using allowed(1) allowed(5) [of now] failures_cong [of now r2 ?key r] by auto
    obtain r3 where rec: "record_login_failure c now ?key r2 = (Inr (), r3)" "healthy r3"
        "\<And>t. t < now + seconds (login_attempt_window_seconds c) \<Longrightarrow> failures t r3 ?key = Some (n + 1)"
      using failure_recorded [OF n] by metis
    have "r' = r3"
    proof (cases res2)
      case (Inl x)
      then show ?thesis using l e allowed(3) t ticket_error [OF t [unfolded Inl]] by (simp add: login_def checked_login_def)
    next
      case (Inr u)
      note run = l [unfolded login_def checked_login_def, unfolded e allowed(3) prod.case sum.case t Inr]
      show ?thesis
      proof (cases "find_account d (lg_account p) ''user''")
        case None
        then show ?thesis using run rec(1) by simp
      next
        case (Some a)
        then show ?thesis
          using run rec(1) by (auto simp: verify_and_rehash_password_def clear_login_failures_def redis_delete_def
              raw_call_healthy [OF n(1)] Let_def dest!: build_error split: if_splits prod.splits)
      qed
    qed
    then show thesis using that allowed(1) rec by blast
  qed (use l e in \<open>auto simp: login_def checked_login_def\<close>)
qed

text \<open>Attempts one after the other, all of them refused.\<close>

fun failed_run ::
  "config \<Rightarrow> hasher \<Rightarrow> string \<Rightarrow> db \<Rightarrow> (time \<times> login_payload) list \<Rightarrow> redis \<Rightarrow> redis option" where
  "failed_run c h ip d [] r = Some r"
| "failed_run c h ip d ((t, p) # as) r =
     (case login c h t ip d p r of
        (Inl e, r1) \<Rightarrow> if e = refused then failed_run c h ip d as r1 else None
      | _ \<Rightarrow> None)"

definition same_account :: "string \<Rightarrow> login_payload \<Rightarrow> bool" where
  "same_account account p \<longleftrightarrow> to_lower (strip (lg_account p)) = account"

abbreviation within :: "config \<Rightarrow> time \<times> login_payload \<Rightarrow> time \<times> login_payload \<Rightarrow> bool" where
  "within c a b \<equiv> fst b < fst a + seconds (login_attempt_window_seconds c)"

lemma failed_run_counts:
  assumes "failed_run c h ip d as r = Some r'" and "healthy r"
    and "\<forall>a\<in>set as. login_key ''user'' (lg_account (snd a)) ip = key"
    and "successively (within c) (as @ [z])" and "failures (fst (hd (as @ [z]))) r key = Some n"
  shows "failures (fst z) r' key = Some (n + int (length as)) \<and> healthy r'"
  using assms
proof (induction as arbitrary: r n)
  case (Cons a as)
  obtain t p where a: "a = (t, p)" by fastforce
  have run: "\<exists>r1. login c h t ip d p r = (Inl refused, r1) \<and> failed_run c h ip d as r1 = Some r'"
    using Cons.prems(1) by (auto simp: a split: prod.splits sum.splits if_splits)
  then obtain r1 where r1: "login c h t ip d p r = (Inl refused, r1)" "failed_run c h ip d as r1 = Some r'" by blast
  have key: "login_key ''user'' (lg_account p) ip = key" using Cons.prems(3) by (simp add: a)
  have near: "fst (hd (as @ [z])) < t + seconds (login_attempt_window_seconds c)" "successively (within c) (as @ [z])"
    using Cons.prems(4) by (cases as; simp add: a)+
  have "healthy r1 \<and> failures (fst (hd (as @ [z]))) r1 key = Some (n + 1)"
    using r1(1) Cons.prems(2) near(1) Cons.prems(5)
    by (rule_tac refused_counted [of c h t ip d p r r1]) (auto simp: key a)
  then have "failures (fst z) r' key = Some (n + 1 + int (length as)) \<and> healthy r'"
    using Cons.IH [OF r1(2) _ _ near(2), of "n + 1"] Cons.prems(3) by simp
  then show ?case by simp
qed simp

text \<open>
  C27 Guessing passwords is stopped: once an account was refused \<open>login_max_attempts\<close> times from one
  address, each attempt within the window of the one before, every further login for the
  account from there, the right password included, is turned away with 429 until the window
  after the last refusal has passed.
\<close>

theorem login_locks_out:
  assumes "healthy r" and "rstore r (login_key ''user'' (lg_account p) ip) = None"
    and "failed_run c h ip d as r = Some r'" and "list_all (same_account account) (map snd as)"
    and "successively (within c) (as @ [(t, p)])" and "login_max_attempts c \<le> int (length as)"
    and "same_account account p"
  shows "fst (login c h t ip d' p r') = Inl (HTTPException 429 ''too many attempts'')"
proof -
  define key where "key = login_key ''user'' (lg_account p) ip"
  have keys: "login_key ''user'' (lg_account q) ip = key" if "same_account account q" for q
    using that assms(7) by (simp add: same_account_def login_key_def key_def)
  have "failures t0 r key = Some 0" for t0
    using assms(2) by (simp add: failures_def view_def key_def)
  then have "failures t r' key = Some (0 + int (length as)) \<and> healthy r'"
    using failed_run_counts [OF assms(3,1) _ assms(5), of key 0] assms(4) keys by (simp add: list_all_iff)
  then have n: "failures t r' key = Some (int (length as))" "healthy r'" by simp_all
  obtain res r1 where e: "ensure_login_allowed c t ''user'' (lg_account p) ip r' = (res, r1)" by fastforce
  from e n(2) show ?thesis
    by (cases rule: allowed_cases)
      (use n(1) assms(6) e in \<open>auto simp: login_def checked_login_def key_def\<close>)
qed

text \<open>Two wrong guesses with a limit of two lock the account, whoever tries then.\<close>

definition strict_config :: config where
  "strict_config = default_config\<lparr>login_max_attempts := 2\<rparr>"

definition quiet_db :: db where
  "quiet_db = snd (save_slider_captcha_settings empty_db (JObj [(''enabled'', JBool False)]))"

definition guess :: login_payload where
  "guess = \<lparr>lg_account = ''Ghost'', lg_password = ''1234'', lg_slider_ticket = []\<rparr>"

lemma unknown_refused:
  assumes r: "healthy r" and n: "failures now r (login_key ''user'' (lg_account p) ip) = Some n" "n < login_max_attempts c"
    and d: "\<not> cp_enabled (get_slider_captcha_settings d)" "find_account d (lg_account p) ''user'' = None"
  shows "fst (login c h now ip d p r) = Inl refused"
proof -
  obtain res1 r1 where e: "ensure_login_allowed c now ''user'' (lg_account p) ip r = (res1, r1)" by fastforce
  from e r show ?thesis
  proof (cases rule: allowed_cases)
    case (allowed m)
    then have "failures now r1 (login_key ''user'' (lg_account p) ip) = Some n"
      using n(1) allowed(5) [of now] failures_cong [of now r1 _ r] by auto
    from failure_recorded [OF allowed(4) this, of c] obtain r2
      where "record_login_failure c now (login_key ''user'' (lg_account p) ip) r1 = (Inr (), r2)" by metis
    then show ?thesis
      using e allowed(3) d by (simp add: login_def checked_login_def consume_slider_ticket_def)
  qed (use n in auto)
qed

lemma login_locks_out_witness:
  "\<forall>h d'. \<exists>r'. failed_run strict_config h ''ip'' quiet_db [(1, guess), (5, guess)] idle_redis = Some r' \<and>
     fst (login strict_config h 9 ''ip'' d' guess r') = Inl (HTTPException 429 ''too many attempts'')"
proof (intro allI)
  fix h d'
  have d: "\<not> cp_enabled (get_slider_captcha_settings quiet_db)" "find_account quiet_db (lg_account guess) ''user'' = None"
    by code_simp+
  have c: "login_max_attempts strict_config = 2" "login_attempt_window_seconds strict_config = 900"
    by (simp_all add: strict_config_def default_config_def)
  let ?key = "login_key ''user'' (lg_account guess) ''ip''"
  have h0: "healthy idle_redis" and n0: "failures 1 idle_redis ?key = Some 0"
    by (simp_all add: idle_redis_def healthy_def failures_def view_def)
  obtain r1 where r1: "login strict_config h 1 ''ip'' quiet_db guess idle_redis = (Inl refused, r1)"
    using unknown_refused [OF h0 n0 _ d, of strict_config h] c by (metis prod.collapse zero_less_numeral)
  from r1 h0 have h1: "healthy r1" "failures 5 r1 ?key = Some 1"
    by (rule_tac refused_counted [of strict_config h 1 "''ip''" quiet_db guess idle_redis r1],
        use n0 c in \<open>auto simp: seconds_def\<close>)+
  obtain r2 where r2: "login strict_config h 5 ''ip'' quiet_db guess r1 = (Inl refused, r2)"
    using unknown_refused [OF h1 _ d, of strict_config h] c by (metis one_less_numeral_iff prod.collapse semiring_norm(76))
  have run: "failed_run strict_config h ''ip'' quiet_db [(1, guess), (5, guess)] idle_redis = Some r2"
    using r1 r2 by simp
  have "fst (login strict_config h 9 ''ip'' d' guess r2) = Inl (HTTPException 429 ''too many attempts'')"
    using login_locks_out [OF h0 _ run, of guess _ 9 d'] c
    by (simp add: idle_redis_def same_account_def seconds_def)
  then show "\<exists>r'. failed_run strict_config h ''ip'' quiet_db [(1, guess), (5, guess)] idle_redis = Some r' \<and>
     fst (login strict_config h 9 ''ip'' d' guess r') = Inl (HTTPException 429 ''too many attempts'')"
    using run by blast
qed

section \<open>The session that a login opens\<close>

definition opens :: "time \<Rightarrow> db \<Rightarrow> string \<Rightarrow> string \<Rightarrow> int \<Rightarrow> bool" where
  "opens t d token role uid \<longleftrightarrow>
    map_option ua_id (fst (load_session_user_by_token t d token (Some role))) = Some uid"

lemma opens_iff:
  "opens t d token role uid \<longleftrightarrow>
    token \<noteq> [] \<and> (\<exists>s u. find_session d token = Some s \<and> t \<le> us_expires_at s \<and> us_role s = role \<and>
      find_by ua_id (us_user_id s) (users d) = Some u \<and> ua_id u = uid \<and> ua_status u = ''active'' \<and> ua_role u = role)"
  by (auto simp: opens_def load_session_user_by_token_def live_session_def split: option.splits if_splits)

text \<open>The account that a request with an \<open>Authorization\<close> header acts as.\<close>

definition http_opens :: "time \<Rightarrow> db \<Rightarrow> string option \<Rightarrow> int \<Rightarrow> bool" where
  "http_opens t d authorization uid \<longleftrightarrow>
    (\<exists>u d1. get_current_user t d authorization = Inr (u, d1) \<and> ua_id u = uid)"

definition http_admin :: "time \<Rightarrow> db \<Rightarrow> string option \<Rightarrow> int \<Rightarrow> bool" where
  "http_admin t d authorization uid \<longleftrightarrow>
    (\<exists>u d1. require_admin t d authorization = Inr (u, d1) \<and> ua_id u = uid)"

text \<open>A session of the user under a role, by its token, that has not expired.\<close>

definition session_of :: "time \<Rightarrow> db \<Rightarrow> string \<Rightarrow> int \<Rightarrow> string \<Rightarrow> bool" where
  "session_of t d token uid role \<longleftrightarrow>
    token \<noteq> [] \<and> (\<exists>s. find_session d token = Some s \<and> us_user_id s = uid \<and> us_role s = role \<and> t \<le> us_expires_at s)"

lemma http_iff:
  "http_opens t d a uid \<longleftrightarrow> (\<exists>token role. extract_bearer_token a = Some token \<and> session_of t d token uid role) \<and>
     (\<exists>u. find_by ua_id uid (users d) = Some u \<and> ua_status u = ''active'')"
  "http_admin t d a uid \<longleftrightarrow> (\<exists>token. extract_bearer_token a = Some token \<and> session_of t d token uid ''admin'') \<and>
     (\<exists>u. find_by ua_id uid (users d) = Some u \<and> ua_status u = ''active'')"
  by (auto simp: http_opens_def http_admin_def get_current_user_def require_admin_def load_session_user_def
      live_session_def session_of_def dest: find_by_key split: option.splits if_splits) (metis find_by_key)+

lemma build_rows:
  assumes b: "build_auth_response now d u = Inr (resp, d')"
    and v: "find_by ua_id (ua_id u) (users d) = Some v"
  obtains s old where "ua_id (ar_user resp) = ua_id u"
    "old = filter (\<lambda>s. \<not> (us_user_id s = ua_id u \<and> us_role s = ua_role u)) (sessions d)"
    "find_by us_token (ar_token resp) old = None" "sessions d' = old @ [s]" "us_token s = ar_token resp"
    "us_user_id s = ua_id u" "us_role s = ua_role u" "us_expires_at s = session_expire_at now"
    "find_by ua_id (ua_id u) (users d') = Some (v\<lparr>ua_last_login_at := Some now\<rparr>)"
proof -
  let ?old = "filter (\<lambda>s. \<not> (us_user_id s = ua_id u \<and> us_role s = ua_role u)) (sessions d)"
  let ?s = "\<lparr>us_token = ar_token resp, us_user_id = ua_id u, us_role = ua_role u,
     us_expires_at = session_expire_at now, us_last_seen_at = Some now\<rparr>"
  have resp: "ua_id (ar_user resp) = ua_id u" "find_by us_token (ar_token resp) ?old = None"
      "sessions d' = ?old @ [?s]"
      "users d' = update_by ua_id (ua_id u) (\<lambda>r. r\<lparr>ua_last_login_at := Some now\<rparr>) (users d)"
    using b by (auto simp: build_auth_response_def generate_token_def draw_no_def drop_sessions_def set_user_def
        find_session_def Let_def split: if_splits)
  then have "find_by ua_id (ua_id u) (users d') = Some (v\<lparr>ua_last_login_at := Some now\<rparr>)"
    using v by (simp add: find_by_update_by)
  then show thesis using that [OF resp(1) refl resp(2,3)] by simp
qed

text \<open>The sessions of the user that there are after it.\<close>

lemma build_sessions:
  assumes b: "build_auth_response now d u = Inr (resp, d')"
    and v: "find_by ua_id (ua_id u) (users d) = Some v"
    and ne: "ar_token resp \<noteq> []" and tokens: "distinct (map us_token (sessions d))"
  shows "session_of t d' token (ua_id u) role \<longleftrightarrow>
    role = ua_role u \<and> token = ar_token resp \<and> t \<le> session_expire_at now \<or>
    role \<noteq> ua_role u \<and> session_of t d token (ua_id u) role"
proof -
  obtain s old where old: "old = filter (\<lambda>s. \<not> (us_user_id s = ua_id u \<and> us_role s = ua_role u)) (sessions d)"
      "find_by us_token (ar_token resp) old = None" "sessions d' = old @ [s]"
    and s: "us_token s = ar_token resp" "us_user_id s = ua_id u" "us_role s = ua_role u"
      "us_expires_at s = session_expire_at now"
    using b v by (rule build_rows)
  have kept: "find_by us_token token old = Some x \<longleftrightarrow>
      find_by us_token token (sessions d) = Some x \<and> \<not> (us_user_id x = ua_id u \<and> us_role x = ua_role u)" for token x
    using find_by_distinct [OF tokens] find_by_SomeD [of us_token token old x]
      find_by_SomeD [of us_token token "sessions d" x] find_by_distinct [of us_token old] tokens
    by (auto simp: old(1) distinct_map_filter)
  show ?thesis
  proof (cases "token = ar_token resp")
    case True
    have "find_session d' token = Some s"
      using old(2) by (simp add: find_session_def old(3) find_by_append find_by_Cons True s(1))
    moreover have "\<not> session_of t d token (ua_id u) role" if "role \<noteq> ua_role u"
      using kept [of "ar_token resp"] old(2) that by (auto simp: session_of_def find_session_def True)
    ultimately show ?thesis using True ne s by (auto simp: session_of_def)
  next
    case False
    then have "find_session d' token = find_by us_token token old"
      by (simp add: find_session_def old(3) find_by_append find_by_Cons s(1) split: option.split)
    then show ?thesis using False kept [of token] by (auto simp: session_of_def find_session_def)
  qed
qed

lemma opens_session_of:
  "opens t d token role uid \<longleftrightarrow> session_of t d token uid role \<and>
    (\<exists>u. find_by ua_id uid (users d) = Some u \<and> ua_status u = ''active'' \<and> ua_role u = role)"
  by (auto simp: opens_iff session_of_def dest: find_by_key) (metis find_by_key)

text \<open>What a successful login builds its answer from.\<close>

lemma rehash_users:
  "verify_and_rehash_password h pw stored d = (x, d1) \<Longrightarrow> users d1 = users d \<and> sessions d1 = sessions d"
  by (auto simp: verify_and_rehash_password_def hash_password_def draw_no_def split: if_splits)

lemma checked_login_ok:
  assumes "checked_login c h now ip role d p r = (Inr (u, d1), r')"
  obtains u0 upgraded where "find_account d (lg_account p) role = Some u0"
    "u = (case upgraded of None \<Rightarrow> u0 | Some x \<Rightarrow> u0\<lparr>ua_password_hash := x\<rparr>)"
    "users d1 = users (set_password_hash (ua_id u0) upgraded d)" "sessions d1 = sessions d"
proof -
  obtain key r1 where e: "ensure_login_allowed c now role (lg_account p) ip r = (Inr key, r1)"
    using assms by (auto simp: checked_login_def split: prod.splits sum.splits)
  obtain r2 where t: "consume_slider_ticket now d (lg_slider_ticket p) role r1 = (Inr (), r2)"
    using assms e by (auto simp: checked_login_def split: prod.splits sum.splits)
  note run = assms [unfolded checked_login_def e t prod.case sum.case]
  obtain u0 where u0: "find_account d (lg_account p) role = Some u0"
    using run by (auto simp: Let_def split: option.splits prod.splits sum.splits)
  obtain b up d2 where v: "verify_and_rehash_password h (lg_password p) (ua_password_hash u0) d = ((b, up), d2)"
    by (metis prod.collapse)
  have "users d2 = users d \<and> sessions d2 = sessions d" using rehash_users [OF v] .
  then show thesis
    using run u0 v that [OF u0, of up]
    by (cases b) (auto simp: Let_def set_password_hash_def set_user_def split: prod.splits sum.splits option.splits)
qed

lemma login_builds:
  assumes l: "login c h now ip d p r = (Inr (resp, d'), r')" and ids: "distinct (map ua_id (users d))"
  obtains u d1 v where "build_auth_response now d1 u = Inr (resp, d')" "ua_role u = ''user''"
    "find_by ua_id (ua_id u) (users d1) = Some v" "ua_status v = ''active''" "ua_role v = ua_role u"
    "sessions d1 = sessions d"
proof -
  obtain u d1 r1 where c: "checked_login c h now ip ''user'' d p r = (Inr (u, d1), r1)"
      "ua_status u = ''active''" "build_auth_response now d1 u = Inr (resp, d')"
    using l by (auto simp: login_def split: prod.splits sum.splits if_splits)
  from c(1) obtain u0 up where u0: "find_account d (lg_account p) ''user'' = Some u0"
      "u = (case up of None \<Rightarrow> u0 | Some x \<Rightarrow> u0\<lparr>ua_password_hash := x\<rparr>)"
      "users d1 = users (set_password_hash (ua_id u0) up d)" "sessions d1 = sessions d"
    by (rule checked_login_ok)
  have u: "ua_id u = ua_id u0" "ua_role u = ua_role u0" "ua_status u = ua_status u0"
    by (simp_all add: u0(2) split: option.split)
  have mem: "u0 \<in> set (users d)" "ua_role u0 = ''user''"
    using u0(1) by (auto simp: find_account_def find_Some_iff)
  then have "find_by ua_id (ua_id u0) (users d) = Some u0" using ids by (simp add: find_by_distinct)
  then obtain v where "find_by ua_id (ua_id u0) (users d1) = Some v" "ua_status v = ua_status u0" "ua_role v = ua_role u0"
    by (cases up) (auto simp: u0(3) set_password_hash_def set_user_def find_by_update_by)
  then show thesis using that [OF c(3)] u mem(2) c(2) u0(4) by simp
qed

text \<open>
  C28 A successful login of a stored user opens one session and ends the user's others of the
  same role. On a web socket the new token opens the account exactly until it expires and no
  other token does. Over HTTP exactly the new token and the user's live sessions of other roles,
  which the login leaves alone, act as the user; a left session of the role \<open>admin\<close> still
  acts as an administrator.
\<close>

theorem login_opens_one_session:
  assumes l: "login c h now ip d p r = (Inr (resp, d'), r')"
    and "distinct (map ua_id (users d))" and "distinct (map us_token (sessions d))" and "ar_token resp \<noteq> []"
    and uid: "uid = ua_id (ar_user resp)"
  shows "(opens t d' token ''user'' uid \<longleftrightarrow> token = ar_token resp \<and> t \<le> session_expire_at now) \<and>
    (http_opens t d' a uid \<longleftrightarrow> (\<exists>token. extract_bearer_token a = Some token \<and>
       (token = ar_token resp \<and> t \<le> session_expire_at now \<or>
        (\<exists>role. role \<noteq> ''user'' \<and> session_of t d token uid role)))) \<and>
    (http_admin t d' a uid \<longleftrightarrow>
       (\<exists>token. extract_bearer_token a = Some token \<and> session_of t d token uid ''admin''))"
proof -
  from l assms(2) obtain u d1 v where u: "build_auth_response now d1 u = Inr (resp, d')" "ua_role u = ''user''"
      "find_by ua_id (ua_id u) (users d1) = Some v" "ua_status v = ''active''" "ua_role v = ua_role u"
      "sessions d1 = sessions d"
    by (rule login_builds)
  obtain s old where "ua_id (ar_user resp) = ua_id u"
      and row: "find_by ua_id (ua_id u) (users d') = Some (v\<lparr>ua_last_login_at := Some now\<rparr>)"
    using u(1,3) by (rule build_rows)
  then have id: "ua_id u = uid" by (simp add: uid)
  have same: "session_of t d1 token uid role \<longleftrightarrow> session_of t d token uid role" for token role
    by (simp add: session_of_def find_session_def u(6))
  have after: "session_of t d' token uid role \<longleftrightarrow>
      role = ''user'' \<and> token = ar_token resp \<and> t \<le> session_expire_at now \<or>
      role \<noteq> ''user'' \<and> session_of t d token uid role" for token role
    using build_sessions [OF u(1,3) assms(4), of t token role] assms(3) u(2,6) same by (simp add: id)
  show ?thesis
    using row u(2,4,5) by (auto simp: opens_session_of http_iff after id)
qed

definition member_db :: db where
  "member_db = quiet_db\<lparr>users := [(sample_user 1 7 5000)\<lparr>ua_user_no := ''U1'', ua_password_hash := ''$argon2x''\<rparr>],
     sessions := [\<lparr>us_token = ''old'', us_user_id = 1, us_role = ''user'', us_expires_at = 99, us_last_seen_at = None\<rparr>,
       \<lparr>us_token = ''desk'', us_user_id = 1, us_role = ''admin'', us_expires_at = 99, us_last_seen_at = None\<rparr>]\<rparr>"

definition open_hasher :: hasher where
  "open_hasher = \<lparr>hs_hash = (\<lambda>s p. p), hs_verify = (\<lambda>h p. True), hs_needs_rehash = (\<lambda>h. False)\<rparr>"

lemma trusted_login:
  assumes r: "healthy r" and n: "failures now r (login_key ''user'' (lg_account p) ip) = Some n" "n < login_max_attempts c"
    and d: "\<not> cp_enabled (get_slider_captcha_settings d)" "find_account d (lg_account p) ''user'' = Some u"
      "verify_and_rehash_password h (lg_password p) (ua_password_hash u) d = ((True, None), d)"
    and u: "ua_status u = ''active''" "ua_is_registered u"
  shows "fst (login c h now ip d p r) = build_auth_response now d u"
proof -
  obtain res1 r1 where e: "ensure_login_allowed c now ''user'' (lg_account p) ip r = (res1, r1)" by fastforce
  from e r show ?thesis
  proof (cases rule: allowed_cases)
    case (allowed m)
    then show ?thesis
      using e d u by (simp add: login_def checked_login_def consume_slider_ticket_def clear_login_failures_def
          redis_delete_def raw_call_healthy set_password_hash_def Let_def case_prod_beta)
  qed (use n in auto)
qed

definition member_login :: "(auth_response \<times> db) result" where
  "member_login = build_auth_response 5 member_db (hd (users member_db))"

theorem login_opens_one_session_witness:
  "\<exists>resp d' r'. login strict_config open_hasher 5 ''ip'' member_db (guess\<lparr>lg_account := ''U1''\<rparr>) idle_redis = (Inr (resp, d'), r') \<and>
     opens 6 d' (ar_token resp) ''user'' (ua_id (ar_user resp)) \<and> \<not> opens 6 d' ''old'' ''user'' (ua_id (ar_user resp)) \<and>
     \<not> http_opens 6 d' (Some ''Bearer old'') (ua_id (ar_user resp)) \<and>
     http_admin 6 d' (Some ''Bearer desk'') (ua_id (ar_user resp))"
proof -
  let ?p = "guess\<lparr>lg_account := ''U1''\<rparr>"
  have h0: "healthy idle_redis" and n0: "failures 5 idle_redis (login_key ''user'' (lg_account ?p) ''ip'') = Some 0"
    by (simp_all add: idle_redis_def healthy_def failures_def view_def)
  have d: "\<not> cp_enabled (get_slider_captcha_settings member_db)"
    "find_account member_db (lg_account ?p) ''user'' = Some (hd (users member_db))"
    "ua_status (hd (users member_db)) = ''active''" "ua_is_registered (hd (users member_db))"
    "is_argon2 (ua_password_hash (hd (users member_db)))" "distinct (map ua_id (users member_db))"
    "\<not> isl member_login" "map_sum id (\<lambda>x. ar_token (fst x) = [] \<or> ar_token (fst x) = ''old'') member_login = Inr False"
    by code_simp+
  have "fst (login strict_config open_hasher 5 ''ip'' member_db ?p idle_redis) = member_login"
    unfolding member_login_def using d(3-5)
    by (intro trusted_login [OF h0 n0 _ d(1,2)])
      (simp_all add: strict_config_def verify_and_rehash_password_def verify_password_def open_hasher_def)
  moreover obtain resp d' where m: "member_login = Inr (resp, d')" using not_isl_ex [OF d(7)] by blast
  ultimately obtain r' where l: "login strict_config open_hasher 5 ''ip'' member_db ?p idle_redis = (Inr (resp, d'), r')"
    by (metis prod.collapse)
  have t: "ar_token resp \<noteq> []" "ar_token resp \<noteq> ''old''" using d(8) by (auto simp: m)
  have tokens: "distinct (map us_token (sessions member_db))"
    "extract_bearer_token (Some ''Bearer old'') = Some ''old''" "extract_bearer_token (Some ''Bearer desk'') = Some ''desk''"
    by code_simp+
  have id: "ua_id (ar_user resp) = 1"
  proof -
    have "map_sum id (\<lambda>x. ua_id (ar_user (fst x))) member_login = Inr 1" by code_simp
    then show ?thesis by (simp add: m)
  qed
  have left: "session_of 6 member_db ''desk'' 1 ''admin''" "\<not> (\<exists>role. role \<noteq> ''user'' \<and> session_of 6 member_db ''old'' 1 role)"
    by (auto simp: session_of_def find_session_def member_db_def find_by_Cons)
  note one = login_opens_one_session [OF l d(6) tokens(1) t(1) refl, of 6]
  have lives: "6 \<le> session_expire_at 5" by (simp add: session_expire_at_def days_def seconds_def)
  have "opens 6 d' (ar_token resp) ''user'' (ua_id (ar_user resp))"
    using one [of "ar_token resp" None] lives by blast
  moreover have "\<not> opens 6 d' ''old'' ''user'' (ua_id (ar_user resp))" using one [of "''old''" None] not_sym [OF t(2)] by blast
  moreover have "\<not> http_opens 6 d' (Some ''Bearer old'') (ua_id (ar_user resp))"
    using one [of "[]" "Some ''Bearer old''"] not_sym [OF t(2)] left(2) unfolding tokens id by auto
  moreover have "http_admin 6 d' (Some ''Bearer desk'') (ua_id (ar_user resp))"
    using one [of "[]" "Some ''Bearer desk''"] left(1) unfolding tokens id by auto
  ultimately show ?thesis using l by blast
qed

section \<open>The captcha in front of the login\<close>

text \<open>
  The challenge that is sent to the client holds the position that the client has to find:
  whoever sends it back gets a ticket.
\<close>

lemma captcha_answer_disclosed:
  assumes c: "create_slider_challenge now target_x piece_y pick d r = (ch, d1, r1)"
    and on: "cp_enabled (get_slider_captcha_settings d)" "0 < cp_expires_seconds (get_slider_captcha_settings d)"
      "0 \<le> cp_tolerance (get_slider_captcha_settings d)"
    and r: "healthy r" and s: "scope \<in> captcha_scopes"
  shows "\<exists>ticket. fst (verify_slider_challenge now (ch_id ch) (ch_target_x ch) scope d1 r1) = Inr ticket"
proof -
  let ?s = "get_slider_captcha_settings d"
  let ?j = "challenge_json target_x piece_y (cp_tolerance ?s) 0 (cp_expires_seconds ?s)"
  have ch: "ch_target_x ch = target_x"
      "r1 = cache_set_json now (challenge_key (ch_id ch)) ?j (cp_expires_seconds ?s) r"
    using c on(1) by (auto simp: create_slider_challenge_def Let_def split: prod.splits)
  let ?e = "Some (now + seconds (cp_expires_seconds ?s))"
  have "view now (rstore r1) (challenge_key (ch_id ch)) = Some (SJson ?j, ?e)" "healthy r1"
    using r on(2) by (auto simp: ch(2) cache_set_json_def redis_set_json_def raw_call_healthy mem_set_def Let_def
        view_def expired_def seconds_def healthy_def)
  then have "\<exists>r2. cache_get_json now (challenge_key (ch_id ch)) r1 = (Some ?j, r2)"
    by (simp add: cache_get_json_def redis_get_json_def raw_call_healthy mem_get_def Let_def healthy_def)
  then obtain r2 where get: "cache_get_json now (challenge_key (ch_id ch)) r1 = (Some ?j, r2)" by blast
  have n: "challenge_number ?j ''attempts'' 0 = Inr 0" "challenge_number ?j ''target_x'' 0 = Inr target_x"
      "\<exists>k. challenge_number ?j ''tolerance'' (cp_tolerance default_captcha_settings) = Inr k \<and> 0 \<le> k"
      "\<exists>k. challenge_number ?j ''_ttl'' (cp_expires_seconds default_captcha_settings) = Inr k"
    using on(3) by (auto simp: challenge_number_def challenge_json_def json_or_def default_captcha_settings_def)
  then show ?thesis
    using s get ch(1) by (auto simp: verify_slider_challenge_def challenge_json_def draw_no_def)
qed

end
