(* ===== verification/Schools.thy ===== *)
theory Schools
  imports Accounts
begin

text \<open>
  Schools and their merchant accounts: the handlers of \<open>app/api/merchant.py\<close> and the school
  part of \<open>app/api/admin.py\<close>. A school's account and its pair of name and city are unique;
  \<open>others\<close> is what other sessions commit between the check and the insertion.
\<close>

section \<open>The merchant's session\<close>

definition find_school :: "db \<Rightarrow> int \<Rightarrow> school_site option" where
  "find_school d sid = find_by sc_id sid (schools d)"

definition write_school :: "int \<Rightarrow> (school_site \<Rightarrow> school_site) \<Rightarrow> db \<Rightarrow> db" where
  "write_school sid f d = d\<lparr>schools := update_by sc_id sid f (schools d)\<rparr>"

definition find_school_session :: "db \<Rightarrow> string \<Rightarrow> school_session option" where
  "find_school_session d token = find_by sm_token token (school_sessions d)"

definition get_current_school :: "time \<Rightarrow> db \<Rightarrow> string option \<Rightarrow> (school_site \<times> db) result" where
  "get_current_school now d authorization =
    (case extract_bearer_token authorization of
       None \<Rightarrow> Inl (HTTPException 401 ''log in first'')
     | Some token \<Rightarrow>
         if token = [] then Inl (HTTPException 401 ''log in first'')
         else case find_school_session d token of
           None \<Rightarrow> Inl (HTTPException 401 ''session expired'')
         | Some s \<Rightarrow>
             if sm_expires_at s < now then Inl (HTTPException 401 ''session expired'')
             else case find_school d (sm_school_id s) of
               None \<Rightarrow> Inl (HTTPException 403 ''school not approved'')
             | Some school \<Rightarrow>
                 if sc_review_status school \<noteq> RevApproved \<or> \<not> sc_status school
                 then Inl (HTTPException 403 ''school not approved'')
                 else Inr (school,
                   if (case sm_last_seen_at s of None \<Rightarrow> True | Some t \<Rightarrow> seconds 300 < now - t)
                   then d\<lparr>school_sessions := update_by sm_token token (\<lambda>x. x\<lparr>sm_last_seen_at := Some now\<rparr>)
                     (school_sessions d)\<rparr>
                   else d))"

definition drop_school_sessions :: "int \<Rightarrow> db \<Rightarrow> db" where
  "drop_school_sessions sid d =
    d\<lparr>school_sessions := filter (\<lambda>s. sm_school_id s \<noteq> sid) (school_sessions d)\<rparr>"

definition merchant_logout :: "string option \<Rightarrow> db \<Rightarrow> db" where
  "merchant_logout authorization d =
    (case extract_bearer_token authorization of
       Some (c # cs) \<Rightarrow> d\<lparr>school_sessions := filter (\<lambda>s. sm_token s \<noteq> c # cs) (school_sessions d)\<rparr>
     | _ \<Rightarrow> d)"

definition open_school_session :: "time \<Rightarrow> school_site \<Rightarrow> db \<Rightarrow> ((string \<times> school_site) \<times> db) result" where
  "open_school_session now school d =
    (case generate_token (drop_school_sessions (sc_id school) d) of
       (token, d1) \<Rightarrow>
         if find_school_session d1 token \<noteq> None then Inl IntegrityError
         else Inr ((token, school), d1\<lparr>school_sessions := school_sessions d1 @
           [\<lparr>sm_token = token, sm_school_id = sc_id school, sm_expires_at = session_expire_at now,
             sm_last_seen_at = Some now\<rparr>]\<rparr>))"

definition merchant_login ::
  "config \<Rightarrow> hasher \<Rightarrow> time \<Rightarrow> string \<Rightarrow> db \<Rightarrow> login_payload \<Rightarrow> redis
    \<Rightarrow> ((string \<times> school_site) \<times> db) result \<times> redis" where
  "merchant_login c h now client_ip d p r =
    (case ensure_login_allowed c now ''merchant'' (lg_account p) client_ip r of
       (Inl e, r1) \<Rightarrow> (Inl e, r1)
     | (Inr key, r1) \<Rightarrow>
         (case consume_slider_ticket now d (lg_slider_ticket p) ''merchant'' r1 of
            (Inl e, r2) \<Rightarrow> (Inl e, r2)
          | (Inr _, r2) \<Rightarrow>
              (let refuse = (case record_login_failure c now key r2 of
                       (Inl e, r3) \<Rightarrow> (Inl e, r3)
                     | (Inr _, r3) \<Rightarrow> (Inl (HTTPException 401 ''account or password''), r3))
               in case find_by sc_merchant_account (Some (lg_account p)) (schools d) of
                    None \<Rightarrow> refuse
                  | Some school \<Rightarrow>
                      if sc_merchant_password_hash school = [] then refuse
                      else case verify_and_rehash_password h (lg_password p) (sc_merchant_password_hash school) d of
                        ((False, _), _) \<Rightarrow> refuse
                      | ((True, upgraded), d1) \<Rightarrow>
                          (case clear_login_failures key r2 of
                             (Inl e, r3) \<Rightarrow> (Inl e, r3)
                           | (Inr _, r3) \<Rightarrow>
                               (let change = (\<lambda>x. case upgraded of None \<Rightarrow> x
                                      | Some pw \<Rightarrow> x\<lparr>sc_merchant_password_hash := pw\<rparr>);
                                    school1 = change school;
                                    d2 = write_school (sc_id school) change d1
                                in (if sc_review_status school = RevPending
                                    then Inl (HTTPException 403 ''application under review'')
                                    else if sc_review_status school = RevRejected
                                    then Inl (HTTPException 403 (str_or (sc_reject_reason school) ''application rejected''))
                                    else if \<not> sc_status school then Inl (HTTPException 403 ''school offline'')
                                    else open_school_session now school1 d2, r3))))))"

section \<open>Applications and the administrator's part\<close>

record school_application =
  sa_name :: string
  sa_short_name :: string
  sa_city :: string
  sa_district :: string
  sa_logo :: string
  sa_contact_name :: string
  sa_merchant_account :: string
  sa_merchant_password :: string
  sa_description :: string

definition school_clash :: "school_site \<Rightarrow> db \<Rightarrow> bool" where
  "school_clash s d \<longleftrightarrow> list_ex (\<lambda>x. sc_merchant_account s \<noteq> None \<and> sc_merchant_account x = sc_merchant_account s
     \<or> sc_name x = sc_name s \<and> sc_city x = sc_city s) (schools d)"

definition applied_school :: "int \<Rightarrow> school_application \<Rightarrow> string \<Rightarrow> school_site" where
  "applied_school sid a pw =
    \<lparr>sc_id = sid, sc_name = sa_name a, sc_short_name = sa_short_name a, sc_city = sa_city a,
     sc_district = sa_district a, sc_logo = sa_logo a, sc_status = False, sc_current = False,
     sc_review_status = RevPending, sc_reject_reason = [], sc_merchant_account = Some (sa_merchant_account a),
     sc_merchant_password_hash = pw, sc_display_weight = 0, sc_sort_order = 0,
     sc_description = str_or (sa_description a) (''contact: '' @ sa_contact_name a)\<rparr>"

definition apply_school :: "(db \<Rightarrow> db) \<Rightarrow> hasher \<Rightarrow> db \<Rightarrow> school_application \<Rightarrow> db result" where
  "apply_school others h d a =
    (let refused = Inl (HTTPException 400 ''already applied'') in
     if list_ex (\<lambda>x. sc_name x = sa_name a \<or> sc_merchant_account x = Some (sa_merchant_account a)) (schools d)
     then refused
     else case hash_password h (sa_merchant_password a) (others d) of
       (pw, d1) \<Rightarrow>
         (let s = applied_school (fresh_id sc_id (schools d1)) a pw in
          if school_clash s d1 then refused else Inr (d1\<lparr>schools := schools d1 @ [s]\<rparr>)))"

definition no_school :: error where "no_school = HTTPException 404 ''School site not found''"

definition change_school ::
  "db \<Rightarrow> int \<Rightarrow> (school_site \<Rightarrow> unit result) \<Rightarrow> (school_site \<Rightarrow> school_site) \<Rightarrow> (school_site \<times> db) result" where
  "change_school d sid check f =
    (case find_school d sid of
       None \<Rightarrow> Inl no_school
     | Some s \<Rightarrow> (case check s of Inl e \<Rightarrow> Inl e | Inr _ \<Rightarrow> Inr (f s, write_school sid f d)))"

definition toggle_school_site :: "db \<Rightarrow> int \<Rightarrow> bool \<Rightarrow> (school_site \<times> db) result" where
  "toggle_school_site d sid enable =
    change_school d sid
      (\<lambda>s. if enable \<and> sc_review_status s \<noteq> RevApproved then Inl (HTTPException 400 ''School is not approved'') else Inr ())
      (\<lambda>s. s\<lparr>sc_status := enable\<rparr>)"

definition set_current_school_site :: "db \<Rightarrow> int \<Rightarrow> (school_site \<times> db) result" where
  "set_current_school_site d sid =
    (case find_school d sid of
       None \<Rightarrow> Inl no_school
     | Some s \<Rightarrow>
         Inr (s\<lparr>sc_current := True, sc_status := True\<rparr>,
           d\<lparr>schools := map (\<lambda>x. if sc_id x = sid then x\<lparr>sc_current := True, sc_status := True\<rparr>
             else x\<lparr>sc_current := False\<rparr>) (schools d)\<rparr>))"

definition review_school_site :: "db \<Rightarrow> int \<Rightarrow> bool \<Rightarrow> string \<Rightarrow> (school_site \<times> db) result" where
  "review_school_site d sid approved reason =
    change_school d sid (\<lambda>s. Inr ())
      (\<lambda>s. s\<lparr>sc_review_status := (if approved then RevApproved else RevRejected),
        sc_reject_reason := (if approved then [] else reason), sc_status := approved,
        sc_current := (approved \<and> sc_current s)\<rparr>)"

definition update_school_merchant_password ::
  "hasher \<Rightarrow> db \<Rightarrow> int \<Rightarrow> string \<Rightarrow> string \<Rightarrow> (school_site \<times> db) result" where
  "update_school_merchant_password h d sid account password =
    (case find_school d sid of
       None \<Rightarrow> Inl no_school
     | Some s \<Rightarrow>
         if list_ex (\<lambda>x. sc_merchant_account x = Some account \<and> sc_id x \<noteq> sid) (schools d)
         then Inl (HTTPException 400 ''Merchant account already used by another school'')
         else case hash_password h password d of
           (pw, d1) \<Rightarrow>
             (let f = (\<lambda>x. x\<lparr>sc_merchant_account := Some account, sc_merchant_password_hash := pw\<rparr>)
              in Inr (f s, write_school sid f d1)))"

definition delete_school_site :: "db \<Rightarrow> int \<Rightarrow> db result" where
  "delete_school_site d sid =
    (if find_school d sid = None then Inl no_school
     else Inr (d\<lparr>schools := filter (\<lambda>s. sc_id s \<noteq> sid) (schools d)\<rparr>))"

text \<open>\<open>order_by(review_status, display_weight desc, sort_order, id desc)\<close>; the status sorts as its text.\<close>

definition school_sites :: "db \<Rightarrow> school_site list" where
  "school_sites d =
    sort_key (\<lambda>s. (case sc_review_status s of RevApproved \<Rightarrow> 0 | RevPending \<Rightarrow> 1 | RevRejected \<Rightarrow> (2 :: int),
      - sc_display_weight s, sc_sort_order s, - sc_id s)) (schools d)"

record school_payload =
  sl_name :: string
  sl_short_name :: string
  sl_city :: string
  sl_district :: string
  sl_logo :: string
  sl_status :: bool
  sl_review_status :: review_status
  sl_reject_reason :: string
  sl_merchant_account :: string
  sl_display_weight :: int
  sl_sort_order :: int
  sl_description :: string

definition school_with :: "school_payload \<Rightarrow> bool \<Rightarrow> school_site \<Rightarrow> school_site" where
  "school_with p status s =
    s\<lparr>sc_name := sl_name p, sc_short_name := sl_short_name p, sc_city := sl_city p, sc_district := sl_district p,
      sc_logo := sl_logo p, sc_status := status, sc_current := False, sc_review_status := sl_review_status p,
      sc_reject_reason := sl_reject_reason p,
      sc_merchant_account := (if sl_merchant_account p = [] then None else Some (sl_merchant_account p)),
      sc_display_weight := sl_display_weight p, sc_sort_order := sl_sort_order p, sc_description := sl_description p\<rparr>"

definition account_taken :: "db \<Rightarrow> school_payload \<Rightarrow> int option \<Rightarrow> bool" where
  "account_taken d p own \<longleftrightarrow> sl_merchant_account p \<noteq> [] \<and>
    list_ex (\<lambda>x. sc_merchant_account x = Some (sl_merchant_account p) \<and> Some (sc_id x) \<noteq> own) (schools d)"

definition blank_school :: "int \<Rightarrow> string \<Rightarrow> school_site" where
  "blank_school sid pw =
    \<lparr>sc_id = sid, sc_name = [], sc_short_name = [], sc_city = [], sc_district = [], sc_logo = [], sc_status = True,
     sc_current = False, sc_review_status = RevPending, sc_reject_reason = [], sc_merchant_account = None,
     sc_merchant_password_hash = pw, sc_display_weight = 0, sc_sort_order = 0, sc_description = []\<rparr>"

definition create_school_site ::
  "hasher \<Rightarrow> db \<Rightarrow> school_payload \<Rightarrow> string \<Rightarrow> (school_site \<times> db) result" where
  "create_school_site h d p merchant_password =
    (if account_taken d p None then Inl (HTTPException 400 ''Merchant account already exists'')
     else
       (case (if merchant_password = [] then ([], d) else hash_password h merchant_password d) of
          (pw, d1) \<Rightarrow>
            (let s = school_with p (sl_review_status p = RevApproved \<and> sl_status p)
                   (blank_school (fresh_id sc_id (schools d1)) pw)
             in if school_clash s d1 then Inl IntegrityError else Inr (s, d1\<lparr>schools := schools d1 @ [s]\<rparr>))))"

definition update_school_site :: "db \<Rightarrow> int \<Rightarrow> school_payload \<Rightarrow> (school_site \<times> db) result" where
  "update_school_site d sid p =
    (case find_school d sid of
       None \<Rightarrow> Inl no_school
     | Some s \<Rightarrow>
         if account_taken d p (Some sid) then Inl (HTTPException 400 ''Merchant account already used by another school'')
         else
           (let f = school_with p (sl_review_status p = RevApproved \<and> sl_status p)
            in if school_clash (f s) (d\<lparr>schools := filter (\<lambda>x. sc_id x \<noteq> sid) (schools d)\<rparr>) then Inl IntegrityError
               else Inr (f s, write_school sid f d)))"

end
