(* ===== verification/Admin_Users.thy ===== *)
theory Admin_Users
  imports Accounts Order_Life
begin

text \<open>
  What an administrator does with accounts (\<open>app/api/admin.py\<close>): the review of a
  registration with the reward of the inviter, the later payment of missed rewards, status,
  VIP, password, wallet and points of a user, the certification, the point rule, and the
  refund of an order through its payment channel.
\<close>

definition no_user :: error where "no_user = HTTPException 404 ''User not found''"

definition find_customer :: "db \<Rightarrow> int \<Rightarrow> user_account option" where
  "find_customer d uid =
    (case find_user d uid of Some u \<Rightarrow> if ua_role u = ''user'' then Some u else None | None \<Rightarrow> None)"

section \<open>Registrations and rewards\<close>

definition registrations :: "db \<Rightarrow> user_account list" where
  "registrations d = rev (filter (\<lambda>u. ua_role u = ''user'' \<and> ua_status u = ''pending'') (users d))"

definition pending_reward :: "invite_relation \<Rightarrow> bool" where
  "pending_reward r \<longleftrightarrow> \<not> ir_score_granted r \<and> \<not> ir_abnormal r \<and> \<not> ir_frozen r"

definition active_inviter :: "db \<Rightarrow> invite_relation \<Rightarrow> user_account option" where
  "active_inviter d rel =
    List.find (\<lambda>u. ua_user_no u = ir_inviter_id rel \<and> ua_role u = ''user'' \<and> ua_status u = ''active'') (users d)"

definition review_registration :: "time \<Rightarrow> db \<Rightarrow> int \<Rightarrow> bool \<Rightarrow> db result" where
  "review_registration now d uid approved =
    (case find_customer d uid of
       None \<Rightarrow> Inl no_user
     | Some u \<Rightarrow>
         (let d1 = set_user uid (\<lambda>x. x\<lparr>ua_status := (if approved then ''active'' else ''rejected''),
                ua_is_registered := approved\<rparr>) d
          in if \<not> approved then Inr d1
             else case List.find (\<lambda>r. ir_invitee_phone r = ua_phone u \<and> pending_reward r) (invites d1) of
               None \<Rightarrow> Inr d1
             | Some rel \<Rightarrow>
                 if \<not> (invite_enabled d1 \<and> 0 < invite_score d1) then Inr d1
                 else case active_inviter d1 rel of
                   None \<Rightarrow> Inr d1
                 | Some inviter \<Rightarrow> pay_invite_reward now inviter rel ''invited user approved'' d1))"

text \<open>The loop of \<open>backfill_invite_rewards\<close>: granted and skipped relations.\<close>

fun backfill :: "time \<Rightarrow> invite_relation list \<Rightarrow> db \<Rightarrow> ((nat \<times> nat) \<times> db) result" where
  "backfill now [] d = Inr ((0, 0), d)"
| "backfill now (rel # rels) d =
     (let skip = (case backfill now rels d of
            Inl e \<Rightarrow> Inl e | Inr ((g, s), d1) \<Rightarrow> Inr ((g, Suc s), d1))
      in case get_user_by_phone d (ir_invitee_phone rel) of
           None \<Rightarrow> skip
         | Some invitee \<Rightarrow>
             if \<not> ua_is_registered invitee \<or> ua_status invitee \<noteq> ''active'' then skip
             else case active_inviter d rel of
               None \<Rightarrow> skip
             | Some inviter \<Rightarrow>
                 (case pay_invite_reward now inviter rel ''late invite reward'' d of
                    Inl e \<Rightarrow> Inl e
                  | Inr d1 \<Rightarrow> (case backfill now rels d1 of
                      Inl e \<Rightarrow> Inl e | Inr ((g, s), d2) \<Rightarrow> Inr ((Suc g, s), d2))))"

definition backfill_invite_rewards :: "time \<Rightarrow> db \<Rightarrow> ((nat \<times> nat) \<times> db) result" where
  "backfill_invite_rewards now d =
    (if \<not> invite_enabled d \<or> invite_score d \<le> 0 then Inr ((0, 0), d)
     else backfill now (filter pending_reward (invites d)) d)"

definition list_invites :: "db \<Rightarrow> bool option \<Rightarrow> invite_relation list" where
  "list_invites d abnormal =
    sort_key (\<lambda>r. - ir_id r) (filter (\<lambda>r. case abnormal of None \<Rightarrow> True | Some b \<Rightarrow> ir_abnormal r = b) (invites d))"

definition freeze_invite :: "db \<Rightarrow> int \<Rightarrow> (invite_relation \<times> db) result" where
  "freeze_invite d rid =
    (case find_by ir_id rid (invites d) of
       None \<Rightarrow> Inl (HTTPException 404 ''Invite not found'')
     | Some r \<Rightarrow>
         (let f = (\<lambda>x. x\<lparr>ir_frozen := True, ir_score_granted := False\<rparr>)
          in Inr (f r, d\<lparr>invites := update_by ir_id rid f (invites d)\<rparr>)))"

section \<open>One user\<close>

definition update_user_status :: "db \<Rightarrow> int \<Rightarrow> string \<Rightarrow> db result" where
  "update_user_status d uid status =
    (case find_customer d uid of
       None \<Rightarrow> Inl no_user
     | Some u \<Rightarrow>
         (let d1 = set_user uid (\<lambda>x. x\<lparr>ua_status := status, ua_is_registered := (status = ''active'')\<rparr>) d
          in Inr (if status \<in> {''disabled'', ''cancelled'', ''rejected''} then drop_sessions uid (ua_role u) d1 else d1)))"

record vip_update =
  vu_enabled :: bool
  vu_vip_type :: string
  vu_started_at :: "time option"
  vu_expires_at :: "time option"
  vu_remark :: string

text \<open>The validator of the payload (\<open>VipUpdatePayload\<close>).\<close>

definition valid_vip_update :: "vip_update \<Rightarrow> bool" where
  "valid_vip_update p \<longleftrightarrow>
    \<not> (case (vu_expires_at p, vu_started_at p) of (Some e, Some s) \<Rightarrow> e \<le> s | _ \<Rightarrow> False) \<and>
    \<not> (vu_enabled p \<and> strip (vu_vip_type p) = [])"

definition update_user_vip :: "db \<Rightarrow> int \<Rightarrow> vip_update \<Rightarrow> db result" where
  "update_user_vip d uid p =
    (case find_customer d uid of
       None \<Rightarrow> Inl no_user
     | Some u \<Rightarrow> Inr (set_user uid (\<lambda>x. x\<lparr>ua_vip_enabled := vu_enabled p,
         ua_vip_type := (if vu_enabled p then strip (vu_vip_type p) else []),
         ua_vip_started_at := (if vu_enabled p then vu_started_at p else None),
         ua_vip_expires_at := (if vu_enabled p then vu_expires_at p else None),
         ua_vip_remark := strip (vu_remark p)\<rparr>) d))"

definition reset_user_password :: "hasher \<Rightarrow> db \<Rightarrow> int \<Rightarrow> string \<Rightarrow> db result" where
  "reset_user_password h d uid password =
    (case find_customer d uid of
       None \<Rightarrow> Inl no_user
     | Some u \<Rightarrow>
         (case hash_password h password d of
            (pw, d1) \<Rightarrow> Inr (drop_sessions uid (ua_role u) (set_user uid (\<lambda>x. x\<lparr>ua_password_hash := pw\<rparr>) d1))))"

definition adjust_user_wallet :: "db \<Rightarrow> int \<Rightarrow> cents \<Rightarrow> direction \<Rightarrow> string \<Rightarrow> db result" where
  "adjust_user_wallet d uid amount dir remark =
    (case find_customer d uid of
       None \<Rightarrow> Inl no_user
     | Some u \<Rightarrow>
         (let prior = ua_balance u; after = (if dir = Income then prior + amount else prior - amount) in
          if after < 0 then Inl (HTTPException 400 ''Insufficient balance'')
          else case draw_no ''WA'' (set_balance uid after d) of
            (no, d1) \<Rightarrow>
              flush_wallet (wallet_row d1 u no dir amount prior after ''admin_adjust'' uid (ua_user_no u)
                (str_or remark (if dir = Income then ''admin income'' else ''admin expense''))) d1))"

definition adjust_user_points ::
  "time \<Rightarrow> db \<Rightarrow> int \<Rightarrow> int \<Rightarrow> direction \<Rightarrow> string \<Rightarrow> user_account \<Rightarrow> db result" where
  "adjust_user_points now d uid amount dir remark admin =
    (case lock_user d uid of
       Inl e \<Rightarrow> Inl e
     | Inr u \<Rightarrow>
         if ua_role u \<noteq> ''user'' then Inl no_user
         else case draw_no ''PA'' d of
           (no, d1) \<Rightarrow>
             (let e = (\<lambda>text. \<lparr>e_biz_type = ''admin_adjust'', e_biz_id = ua_id admin, e_biz_no = no,
                    e_key = ''admin-points:'' @ no, e_remark = str_or remark text\<rparr>)
              in map_sum id snd
                (if dir = Income
                 then credit_locked d1 uid amount (e ''added'') (Some (now + days (rule_valid_days d1)))
                 else debit_locked d1 uid amount (e ''taken'') now)))"

definition review_graduation_certification ::
  "time \<Rightarrow> db \<Rightarrow> int \<Rightarrow> bool \<Rightarrow> string \<Rightarrow> user_account \<Rightarrow> (certification \<times> db) result" where
  "review_graduation_certification now d uid approved reason admin =
    (case find_customer d uid of
       None \<Rightarrow> Inl no_user
     | Some u \<Rightarrow>
         (case find_by gc_user_id uid (certifications d) of
            None \<Rightarrow> Inl (HTTPException 404 ''Graduation certification not submitted'')
          | Some g \<Rightarrow>
              if \<not> approved \<and> strip reason = [] then Inl (HTTPException 400 ''reject reason'')
              else
                (let f = (\<lambda>x. x\<lparr>gc_status := (if approved then RevApproved else RevRejected),
                       gc_reject_reason := (if approved then [] else strip reason),
                       gc_reviewed_by := Some (ua_id admin), gc_reviewed_at := Some now\<rparr>)
                 in Inr (f g, d\<lparr>certifications := update_by gc_id (gc_id g) f (certifications d)\<rparr>))))"

section \<open>Rules and reports\<close>

definition get_point_rule :: "db \<Rightarrow> point_rule result" where
  "get_point_rule d =
    (case rule d of None \<Rightarrow> Inl (HTTPException 404 ''Point rule not found'') | Some r \<Rightarrow> Inr r)"

definition update_point_rule :: "db \<Rightarrow> point_rule \<Rightarrow> point_rule \<times> db" where
  "update_point_rule d r = (r, d\<lparr>rule := Some r\<rparr>)"

record user_summary =
  sy_total :: nat
  sy_registered :: nat
  sy_admins :: nat
  sy_active :: nat
  sy_pending :: nat

definition user_summary_of :: "db \<Rightarrow> user_summary" where
  "user_summary_of d =
    (let n = (\<lambda>P. length (filter P (users d)))
     in \<lparr>sy_total = n (\<lambda>u. ua_role u = ''user''),
         sy_registered = n (\<lambda>u. ua_role u = ''user'' \<and> ua_is_registered u),
         sy_admins = n (\<lambda>u. ua_role u = ''admin''),
         sy_active = n (\<lambda>u. ua_role u = ''user'' \<and> ua_status u = ''active''),
         sy_pending = n (\<lambda>u. ua_role u = ''user'' \<and> ua_status u = ''pending'')\<rparr>)"

record vip_order_view =
  vo_order_no :: string
  vo_user_id :: int
  vo_user_name :: string
  vo_phone :: string
  vo_plan_name :: string
  vo_amount :: cents
  vo_payment_status :: payment_status
  vo_status :: order_status

definition vip_orders :: "db \<Rightarrow> vip_order_view list" where
  "vip_orders d =
    List.map_filter (\<lambda>i. map_option (\<lambda>o1.
        let u = find_user d (co_user_id o1)
        in \<lparr>vo_order_no = co_order_no o1, vo_user_id = co_user_id o1,
            vo_user_name = (case u of Some x \<Rightarrow> ua_nickname x | None \<Rightarrow> ''-''),
            vo_phone = (case u of Some x \<Rightarrow> ua_phone x | None \<Rightarrow> ''-''),
            vo_plan_name = oi_product_name i, vo_amount = co_payable_amount o1,
            vo_payment_status = co_payment_status o1, vo_status = co_status o1\<rparr>)
      (find_order d (oi_order_id i)))
      (sort_key (\<lambda>i. - oi_id i) (filter is_vip_item (items d)))"

section \<open>The refund of an order\<close>

text \<open>
  \<open>refund_commerce_order\<close>. \<open>result\<close> reports the status the answer shows. A refund that WeChat
  still processes is asked for again; one that is done is finished in the books.
\<close>

definition set_refund :: "string option \<Rightarrow> string \<Rightarrow> string \<Rightarrow> commerce_order \<Rightarrow> commerce_order" where
  "set_refund no rid status o1 = o1\<lparr>co_refund_no := no, co_refund_id := rid, co_refund_status := status\<rparr>"

definition refund_text :: "string option \<Rightarrow> string" where
  "refund_text no = (case no of Some s \<Rightarrow> s | None \<Rightarrow> [])"

definition after_refund ::
  "(commerce_order \<times> db) result \<times> redis \<Rightarrow> (string \<times> db) result \<times> redis" where
  "after_refund x = (case x of (Inl e, r) \<Rightarrow> (Inl e, r) | (Inr (o1, d), r) \<Rightarrow> (Inr (co_refund_status o1, d), r))"

definition resume_wechat_refund ::
  "'k provider \<Rightarrow> wx_settings \<Rightarrow> string \<Rightarrow> time \<Rightarrow> db \<Rightarrow> commerce_order \<Rightarrow> redis \<Rightarrow> (string \<times> db) result \<times> redis" where
  "resume_wechat_refund pv w nonce now d o1 r =
    (let no = refund_text (co_refund_no o1) in
     case query_refund pv w (now div 1000000) nonce no of
       Inl e \<Rightarrow> (Inl e, r)
     | Inr report \<Rightarrow>
         (case validate_refund_result o1 report no of
            Inl e \<Rightarrow> (Inl e, r)
          | Inr (status, rid) \<Rightarrow>
              if status = ''SUCCESS'' then after_refund (finalize_refund now d (co_id o1) no rid False r)
              else (Inr (to_lower status,
                set_order (co_id o1) (\<lambda>x. x\<lparr>co_refund_status := to_lower status, co_refund_id := rid\<rparr>) d), r)))"

definition start_wechat_refund ::
  "'k provider \<Rightarrow> wx_settings \<Rightarrow> string \<Rightarrow> time \<Rightarrow> db \<Rightarrow> commerce_order \<Rightarrow> string \<Rightarrow> redis
    \<Rightarrow> (string \<times> db) result \<times> redis" where
  "start_wechat_refund pv w nonce now d o1 no r =
    (case create_refund pv w (now div 1000000) nonce o1 no ''refund'' of
       Inl e \<Rightarrow> (Inl e, r)
     | Inr report \<Rightarrow>
         (case validate_refund_result o1 report no of
            Inl e \<Rightarrow> (Inl e, r)
          | Inr (raw, rid) \<Rightarrow>
              (let status = to_lower raw; d1 = set_order (co_id o1) (set_refund (Some no) rid status) d in
               if status = ''success'' then after_refund (finalize_refund now d1 (co_id o1) no rid False r)
               else (Inr (status, d1), r))))"

definition refund_commerce_order ::
  "'k provider \<Rightarrow> wx_settings \<Rightarrow> string \<Rightarrow> time \<Rightarrow> db \<Rightarrow> string \<Rightarrow> redis \<Rightarrow> (string \<times> db) result \<times> redis" where
  "refund_commerce_order pv w nonce now d order_no r =
    (case get_order_by_no d order_no of
       None \<Rightarrow> (Inl (HTTPException 404 ''no order''), r)
     | Some o1 \<Rightarrow>
         if co_payment_status o1 = PayRefunded then (Inr (''refunded'', d), r)
         else if co_refund_status o1 = ''processing'' \<and> co_payment_method o1 = ''wechat''
         then resume_wechat_refund pv w nonce now d o1 r
         else if co_payment_status o1 \<noteq> PayPaid \<or> co_status o1 \<noteq> OrdPaid
         then (Inl (BusinessError 400 ''ORDER_NOT_REFUNDABLE''), r)
         else
           (case (case refund_text (co_refund_no o1) of [] \<Rightarrow> draw_no ''RF'' d | no \<Rightarrow> (no, d)) of
              (no, d1) \<Rightarrow>
                if co_payment_method o1 = ''wechat'' then start_wechat_refund pv w nonce now d1 o1 no r
                else (case finalize_refund now d1 (co_id o1) no [] (co_payment_method o1 = ''balance'') r of
                    (Inl e, r1) \<Rightarrow> (Inl e, r1)
                  | (Inr (o2, d2), r1) \<Rightarrow> (Inr (''refunded'', d2), r1))))"

end
