(* ===== verification/Api_Props.thy ===== *)
theory Api_Props
  imports Shop_Api Samples
begin

text \<open>
  The order lists of \<open>app/api/commerce.py\<close>: reading many orders with one query of the items
  gives what reading them one by one gives.
\<close>

lemma add_to_group_lookup:
  "map_of (add_to_group k x gs) c =
    (if c = k then Some ((case map_of gs k of Some xs \<Rightarrow> xs | None \<Rightarrow> []) @ [x]) else map_of gs c)"
  by (induction k x gs rule: add_to_group.induct) auto

definition group_at :: "(int \<times> 'a list) list \<Rightarrow> int \<Rightarrow> 'a list" where
  "group_at gs c = (case map_of gs c of Some xs \<Rightarrow> xs | None \<Rightarrow> [])"

lemma group_at_fold:
  "group_at (fold (\<lambda>x. add_to_group (key x) x) xs gs) c = group_at gs c @ filter (\<lambda>x. key x = c) xs"
  by (induction xs arbitrary: gs) (auto simp: group_at_def add_to_group_lookup)

lemma order_items_batched:
  "oid \<in> set ids \<Longrightarrow> group_at (get_order_items_map d ids) oid = get_order_items d oid"
proof -
  assume oid: "oid \<in> set ids"
  then have "ids \<noteq> []" by auto
  then have "group_at (get_order_items_map d ids) oid =
      filter (\<lambda>i. oi_order_id i = oid) (sort_key oi_id (filter (\<lambda>i. oi_order_id i \<in> set ids) (items d)))"
    by (simp add: get_order_items_map_def group_at_fold) (simp add: group_at_def)
  also have "\<dots> = sort_key oi_id (filter (\<lambda>i. oi_order_id i = oid) (items d))"
    using oid by (auto simp: filter_sort intro!: arg_cong [where f = "sort_key oi_id"] filter_cong)
  finally show ?thesis by (simp add: get_order_items_def)
qed

lemma batch_eq: "commerce_orders_out_batch d os = map (commerce_order_out d) os"
proof -
  have "(case map_of (get_order_items_map d (map co_id os)) (co_id o1) of Some its \<Rightarrow> its | None \<Rightarrow> [])
      = get_order_items d (co_id o1)" if "o1 \<in> set os" for o1
    using order_items_batched [of "co_id o1" "map co_id os" d] that by (simp add: group_at_def)
  then show ?thesis
    by (simp add: commerce_orders_out_batch_def commerce_order_out_def Let_def)
qed

text \<open>
  C40 The lists that fetch the items of all their orders with one query show every order with
  exactly the items that its detail page shows: the batch conversion equals the single one
  order by order. So a user's list has exactly their orders, and a school sees an order
  exactly when it is booked on the school or on no single school and has an item of the
  school.
\<close>

theorem batch_equals_single:
  "commerce_orders_out_batch d os = map (commerce_order_out d) os \<and>
   (row \<in> set (my_standard_orders d u) \<longleftrightarrow>
     (\<exists>o1\<in>set (orders d). co_user_id o1 = ua_id u \<and> row = (o1, get_order_items d (co_id o1)))) \<and>
   (row \<in> set (merchant_commerce_orders d sid) \<longleftrightarrow>
     (\<exists>o1\<in>set (orders d). co_school_id o1 \<in> {0, sid} \<and> row = (o1, get_order_items d (co_id o1)) \<and>
       (\<exists>i\<in>set (items d). oi_order_id i = co_id o1 \<and> oi_school_id i = sid)))"
proof (intro conjI)
  show "commerce_orders_out_batch d os = map (commerce_order_out d) os"
    by (rule batch_eq)
  show "row \<in> set (my_standard_orders d u) \<longleftrightarrow>
      (\<exists>o1\<in>set (orders d). co_user_id o1 = ua_id u \<and> row = (o1, get_order_items d (co_id o1)))"
    by (auto simp: my_standard_orders_def batch_eq orders_newest_def commerce_order_out_def)
  show "row \<in> set (merchant_commerce_orders d sid) \<longleftrightarrow>
      (\<exists>o1\<in>set (orders d). co_school_id o1 \<in> {0, sid} \<and> row = (o1, get_order_items d (co_id o1)) \<and>
        (\<exists>i\<in>set (items d). oi_order_id i = co_id o1 \<and> oi_school_id i = sid))"
    by (auto simp: merchant_commerce_orders_def batch_eq orders_newest_def commerce_order_out_def
        list_ex_iff get_order_items_def)
qed

end
