(* ===== verification/Custom.thy ===== *)
theory Custom
  imports Travel_Reviews Access
begin

text \<open>
  Two small handlers' files: requests for a custom journey and their review
  (\<open>app/api/custom_travel.py\<close>), and the proof of studies a user uploads
  (\<open>app/api/verification.py\<close>).
\<close>

section \<open>Custom journeys\<close>

record custom_payload =
  cp_destination :: string
  cp_travel_time :: string
  cp_days :: string
  cp_budget :: string
  cp_people_count :: string
  cp_special_tags :: "string list"
  cp_note :: string

definition custom_payload_ok :: "custom_payload \<Rightarrow> bool" where
  "custom_payload_ok p \<longleftrightarrow> cp_destination p \<noteq> [] \<and> length (cp_destination p) \<le> 160 \<and>
     length (cp_travel_time p) \<le> 80 \<and> length (cp_days p) \<le> 40 \<and> length (cp_budget p) \<le> 80 \<and>
     length (cp_people_count p) \<le> 40"

definition normalize_list :: "string list \<Rightarrow> string list" where
  "normalize_list vs = map (\<lambda>s. take 200 (strip s)) (filter (\<lambda>s. strip s \<noteq> []) vs)"

definition custom_row :: "time \<Rightarrow> db \<Rightarrow> string \<Rightarrow> user_account \<Rightarrow> custom_payload \<Rightarrow> custom_request" where
  "custom_row now d no u p =
    \<lparr>cu_id = fresh_id cu_id (custom_requests d), cu_request_no = no, cu_user_id = ua_id u,
     cu_user_no = ua_user_no u, cu_user_name = ua_nickname u, cu_phone = ua_phone u,
     cu_destination = strip (cp_destination p), cu_travel_time = strip (cp_travel_time p),
     cu_days = strip (cp_days p), cu_budget = strip (cp_budget p),
     cu_people_count = strip (cp_people_count p), cu_special_tags = normalize_list (cp_special_tags p),
     cu_note = strip (cp_note p), cu_status = RevPending, cu_reject_reason = [], cu_plan_title = [],
     cu_plan_summary = [], cu_plan_price = [], cu_plan_itinerary = [], cu_plan_includes = [],
     cu_plan_tips = [], cu_reviewed_at = None, cu_reviewed_by = None, cu_created_at = now\<rparr>"

text \<open>The number of a request is unique.\<close>

definition create_custom_travel_request ::
  "time \<Rightarrow> db \<Rightarrow> user_account \<Rightarrow> custom_payload \<Rightarrow> (custom_request \<times> db) result" where
  "create_custom_travel_request now d u p =
    (case draw_no ''DZ'' d of
       (no, d1) \<Rightarrow>
         (let r = custom_row now d1 no u p in
          if list_ex (\<lambda>x. cu_request_no x = no) (custom_requests d1) then Inl IntegrityError
          else Inr (r, d1\<lparr>custom_requests := custom_requests d1 @ [r]\<rparr>)))"

definition no_request :: error where "no_request = HTTPException 404 ''no request''"

definition requests_newest :: "custom_request list \<Rightarrow> custom_request list" where
  "requests_newest rs = sort_key (\<lambda>r. - cu_created_at r) rs"

definition list_my_custom_travel_requests :: "db \<Rightarrow> user_account \<Rightarrow> custom_request list" where
  "list_my_custom_travel_requests d u =
    requests_newest (filter (\<lambda>r. cu_user_id r = ua_id u) (custom_requests d))"

definition get_my_custom_travel_request :: "db \<Rightarrow> int \<Rightarrow> user_account \<Rightarrow> custom_request result" where
  "get_my_custom_travel_request d rid u =
    (case find_by cu_id rid (custom_requests d) of
       None \<Rightarrow> Inl no_request
     | Some r \<Rightarrow> if cu_user_id r \<noteq> ua_id u then Inl no_request else Inr r)"

definition admin_list_custom_travel_requests :: "db \<Rightarrow> custom_request list" where
  "admin_list_custom_travel_requests d = requests_newest (custom_requests d)"

record review_form =
  rf_approved :: bool
  rf_reject_reason :: string
  rf_plan_title :: string
  rf_plan_summary :: string
  rf_plan_price :: string
  rf_plan_itinerary :: "string list"
  rf_plan_includes :: "string list"
  rf_plan_tips :: string

definition reviewed_request :: "time \<Rightarrow> int option \<Rightarrow> review_form \<Rightarrow> custom_request \<Rightarrow> custom_request" where
  "reviewed_request now admin f r =
    (if rf_approved f
     then r\<lparr>cu_status := RevApproved, cu_reject_reason := [], cu_plan_title := strip (rf_plan_title f),
            cu_plan_summary := strip (rf_plan_summary f), cu_plan_price := strip (rf_plan_price f),
            cu_plan_itinerary := normalize_list (rf_plan_itinerary f),
            cu_plan_includes := normalize_list (rf_plan_includes f), cu_plan_tips := strip (rf_plan_tips f)\<rparr>
     else r\<lparr>cu_status := RevRejected, cu_reject_reason := str_or (strip (rf_reject_reason f)) ''no plan''\<rparr>)
    \<lparr>cu_reviewed_at := Some now, cu_reviewed_by := admin\<rparr>"

definition admin_review_custom_travel_request ::
  "time \<Rightarrow> db \<Rightarrow> int \<Rightarrow> review_form \<Rightarrow> int option \<Rightarrow> (custom_request \<times> db) result" where
  "admin_review_custom_travel_request now d rid f admin =
    (case find_by cu_id rid (custom_requests d) of
       None \<Rightarrow> Inl no_request
     | Some r \<Rightarrow>
         if rf_approved f \<and> (strip (rf_plan_title f) = [] \<or> strip (rf_plan_summary f) = [])
         then Inl (HTTPException 422 ''plan missing'')
         else Inr (reviewed_request now admin f r,
           d\<lparr>custom_requests := update_by cu_id rid (reviewed_request now admin f) (custom_requests d)\<rparr>))"


section \<open>Proof of studies\<close>

definition certification_of :: "db \<Rightarrow> int \<Rightarrow> certification option" where
  "certification_of d uid = find_by gc_user_id uid (certifications d)"

definition my_graduation_certification :: "db \<Rightarrow> user_account \<Rightarrow> certification option" where
  "my_graduation_certification d u = certification_of d (ua_id u)"

text \<open>
  The row of a first submission while it is in the session. Its texts are set after the
  flush that stores the uploaded image, and this flush inserts the row as well: the columns
  without a default must have a value by then.
\<close>

record draft =
  dr_user_id :: int
  dr_real_name :: "string option"
  dr_school_name :: "string option"
  dr_certificate_image :: "string option"

definition new_draft :: "int \<Rightarrow> draft" where
  "new_draft uid = \<lparr>dr_user_id = uid, dr_real_name = None, dr_school_name = None, dr_certificate_image = None\<rparr>"

definition insert_draft :: "draft \<Rightarrow> db \<Rightarrow> db result" where
  "insert_draft r d =
    (case (dr_real_name r, dr_school_name r, dr_certificate_image r) of
       (Some name, Some school, Some img) \<Rightarrow>
         Inr (d\<lparr>certifications := certifications d @
           [\<lparr>gc_id = fresh_id gc_id (certifications d), gc_user_id = dr_user_id r, gc_real_name = name,
             gc_school_name = school, gc_major_name = [], gc_graduation_date = [], gc_certificate_no = [],
             gc_certificate_image = img, gc_status = RevPending, gc_reject_reason = [],
             gc_reviewed_by = None, gc_reviewed_at = None\<rparr>]\<rparr>)
     | _ \<Rightarrow> Inl IntegrityError)"

record proof_form =
  pf_real_name :: string
  pf_school_name :: string
  pf_major_name :: string
  pf_certificate_no :: string

definition submitted_proof :: "proof_form \<Rightarrow> string \<Rightarrow> certification \<Rightarrow> certification" where
  "submitted_proof f url r =
    r\<lparr>gc_real_name := strip (pf_real_name f), gc_school_name := strip (pf_school_name f),
      gc_major_name := take 120 (strip (pf_major_name f)), gc_graduation_date := [],
      gc_certificate_no := take 80 (strip (pf_certificate_no f)), gc_certificate_image := url,
      gc_status := RevPending, gc_reject_reason := [], gc_reviewed_by := None, gc_reviewed_at := None\<rparr>"

definition check_proof :: "db \<Rightarrow> proof_form \<Rightarrow> upload \<Rightarrow> unit result" where
  "check_proof d f file =
    (let name = strip (pf_real_name f); school = strip (pf_school_name f) in
     if name = [] \<or> 60 < length name then Inl (HTTPException 400 ''real name'')
     else if school = [] \<or> 120 < length school then Inl (HTTPException 400 ''school name'')
     else check_image [''.jpg'', ''.jpeg'', ''.png'', ''.webp'']
       (to_lower (path_suffix (opt_text (up_filename file)))) (snd (get_upload_setting d)) (up_content file))"

definition submit_graduation_certification ::
  "config \<Rightarrow> obs_client \<Rightarrow> time \<Rightarrow> disk \<times> db \<Rightarrow> proof_form \<Rightarrow> upload \<Rightarrow> user_account
    \<Rightarrow> (certification \<times> db) result \<times> disk" where
  "submit_graduation_certification c client now st f file u =
    (case st of (fs, d) \<Rightarrow>
      case check_proof d f file of
        Inl e \<Rightarrow> (Inl e, fs)
      | Inr _ \<Rightarrow>
          (let item = certification_of d (ua_id u) in
           if map_option gc_status item = Some RevPending then (Inl (HTTPException 400 ''under review''), fs)
           else case save_upload_bytes c client now (up_content file) (up_filename file) (up_content_type file)
               ''graduation'' (fs, d) of
             Inl e \<Rightarrow> (Inl e, fs)
           | Inr (stored, fs1, d1) \<Rightarrow>
               (case add_asset (stored_asset ''student_card'' stored (last_component (sf_object_key stored))
                        (opt_text (up_filename file)) (opt_text (up_content_type file))
                        (int (length (up_content file))) (ua_id u)) d1 of
                  (aid, d2) \<Rightarrow>
                    (case (case item of None \<Rightarrow> insert_draft (new_draft (ua_id u)) d2 | Some _ \<Rightarrow> Inr d2) of
                       Inl e \<Rightarrow> (Inl e, fs1)
                     | Inr d3 \<Rightarrow>
                         (let d4 = d3\<lparr>certifications := update_by gc_user_id (ua_id u)
                                (submitted_proof f (asset_api_url c aid)) (certifications d3)\<rparr>
                          in ((case certification_of d4 (ua_id u) of
                                None \<Rightarrow> Inl (RuntimeError ''InvalidRequestError'')
                              | Some r \<Rightarrow> Inr (r, d4)), fs1))))))"

end
