(* ===== verification/Content.thy ===== *)
theory Content
  imports Travel_Reviews Access Catalogue "HOL-Library.AList" "HOL-Library.Sublist"
begin

text \<open>
  Published content: the decoration of the pages, announcements, articles
  (\<open>app/api/admin.py\<close>, \<open>app/api/public.py\<close>), the public lists, the preference events with
  their limit for guests and their evaluation.
\<close>

section \<open>Decoration\<close>

definition public_config_key :: string where "public_config_key = ''xuetuxing:decoration:published''"
definition min_onboarding_version :: int where "min_onboarding_version = 3"

definition normalize_public_config_content :: "json \<Rightarrow> json result" where
  "normalize_public_config_content content =
    (case content of
       JObj kvs \<Rightarrow>
         (case json_or (jget content ''onboarding'') (JObj []) of
            JObj ob \<Rightarrow>
              (let current = (case json_int (json_or (jget (JObj ob) ''version'') (JInt 0)) of Some n \<Rightarrow> n | None \<Rightarrow> 0);
                   ob' = (if current < min_onboarding_version
                     then AList.update ''version'' (JInt min_onboarding_version) ob else ob)
               in Inr (JObj (AList.update ''onboarding'' (JObj ob') kvs)))
          | _ \<Rightarrow> Inl (TypeError ''dict''))
     | _ \<Rightarrow> Inr (JObj []))"

text \<open>The row with the highest version among those with the status.\<close>

definition newest_decoration :: "db \<Rightarrow> string \<Rightarrow> decoration option" where
  "newest_decoration d st =
    (case sort_key (\<lambda>x. - dc_version x) (filter (\<lambda>x. dc_status x = st) (decorations d)) of
       [] \<Rightarrow> None | x # _ \<Rightarrow> Some x)"

definition get_draft :: "db \<Rightarrow> decoration option" where
  "get_draft d = newest_decoration d ''draft''"

definition add_decoration :: "decoration \<Rightarrow> db \<Rightarrow> decoration \<times> db" where
  "add_decoration x d =
    (let y = x\<lparr>dc_id := fresh_id dc_id (decorations d)\<rparr> in (y, d\<lparr>decorations := decorations d @ [y]\<rparr>))"

definition redrafted :: "json \<Rightarrow> decoration \<Rightarrow> decoration" where
  "redrafted content x = x\<lparr>dc_content := content, dc_version := dc_version x + 1\<rparr>"

definition save_draft :: "json \<Rightarrow> db \<Rightarrow> decoration \<times> db" where
  "save_draft content d =
    (case newest_decoration d ''draft'' of
       Some x \<Rightarrow> (redrafted content x, d\<lparr>decorations := update_by dc_id (dc_id x) (redrafted content) (decorations d)\<rparr>)
     | None \<Rightarrow> add_decoration
         \<lparr>dc_id = 0, dc_status = ''draft'', dc_version = 1, dc_content = content, dc_published_at = None\<rparr> d)"

text \<open>\<open>max(version)\<close> over all rows, zero without rows.\<close>

definition last_version :: "db \<Rightarrow> int" where
  "last_version d = (case map dc_version (decorations d) of [] \<Rightarrow> 0 | v # vs \<Rightarrow> fold max vs v)"

definition publish_decoration :: "time \<Rightarrow> json \<Rightarrow> db \<Rightarrow> redis \<Rightarrow> decoration \<times> db \<times> redis" where
  "publish_decoration now content d r =
    (case add_decoration \<lparr>dc_id = 0, dc_status = ''published'', dc_version = last_version d + 1,
        dc_content = content, dc_published_at = Some now\<rparr> d of
       (x, d1) \<Rightarrow> (x, d1, cache_delete public_config_key r))"

definition config_json :: "decoration \<Rightarrow> json result" where
  "config_json x =
    map_sum id (\<lambda>content. JObj [(''version'', JInt (dc_version x)),
        (''published_at'', case dc_published_at x of Some t \<Rightarrow> JStr (iso_time t) | None \<Rightarrow> JNull),
        (''content'', content)])
      (normalize_public_config_content (dc_content x))"

definition with_source :: "string \<Rightarrow> json \<Rightarrow> json result" where
  "with_source src j =
    (case j of
       JObj kvs \<Rightarrow> Inr (JObj (fold (\<lambda>(k, v). AList.update k v) kvs [(''source'', JStr src)]))
     | _ \<Rightarrow> Inl (TypeError ''mapping''))"

definition published_config :: "time \<Rightarrow> bool \<Rightarrow> db \<Rightarrow> redis \<Rightarrow> json result \<times> redis" where
  "published_config now fresh d r =
    (case (if fresh then (None, r) else cache_get_json now public_config_key r) of
       (cached, r1) \<Rightarrow>
         (case (case cached of Some j \<Rightarrow> if truthy j then Some j else None | None \<Rightarrow> None) of
            Some j \<Rightarrow> (with_source ''redis'' j, r1)
          | None \<Rightarrow>
              (case newest_decoration d ''published'' of
                 None \<Rightarrow> (Inl (HTTPException 404 ''no decoration''), r1)
               | Some x \<Rightarrow>
                   (case config_json x of
                      Inl e \<Rightarrow> (Inl e, r1)
                    | Inr j \<Rightarrow>
                        (with_source ''mysql'' j,
                         if fresh then r1 else cache_set_json now public_config_key j 600 r1)))))"

section \<open>Announcements\<close>

record announcement_payload =
  ap_title :: string
  ap_summary :: string
  ap_content :: string
  ap_tag :: string
  ap_pinned :: bool
  ap_status :: bool
  ap_published_at :: "time option"
  ap_start_at :: "time option"
  ap_end_at :: "time option"

definition announcement_ok :: "announcement_payload \<Rightarrow> bool" where
  "announcement_ok p \<longleftrightarrow> ap_title p \<noteq> [] \<and> length (ap_title p) \<le> 160 \<and> length (ap_summary p) \<le> 255 \<and>
     length (ap_tag p) \<le> 40 \<and>
     (case (ap_start_at p, ap_end_at p) of (Some s, Some e) \<Rightarrow> s \<le> e | _ \<Rightarrow> True)"

definition stamped :: "time \<Rightarrow> bool \<Rightarrow> time option \<Rightarrow> time option" where
  "stamped now shown at = (if shown \<and> at = None then Some now else at)"

definition announcement_row :: "time \<Rightarrow> int \<Rightarrow> announcement_payload \<Rightarrow> announcement" where
  "announcement_row now aid p =
    \<lparr>an_id = aid, an_title = ap_title p, an_summary = ap_summary p, an_content = ap_content p, an_tag = ap_tag p,
     an_pinned = ap_pinned p, an_status = ap_status p,
     an_published_at = stamped now (ap_status p) (ap_published_at p),
     an_start_at = ap_start_at p, an_end_at = ap_end_at p, an_updated_at = now\<rparr>"

definition no_announcement :: error where "no_announcement = HTTPException 404 ''Announcement not found''"

definition find_announcement :: "db \<Rightarrow> int \<Rightarrow> announcement option" where
  "find_announcement d aid = find_by an_id aid (announcements d)"

definition create_announcement :: "time \<Rightarrow> announcement_payload \<Rightarrow> db \<Rightarrow> announcement \<times> db" where
  "create_announcement now p d =
    (let x = announcement_row now (fresh_id an_id (announcements d)) p
     in (x, d\<lparr>announcements := announcements d @ [x]\<rparr>))"

text \<open>A statement is sent, and the time of the change set, only when an attribute has changed.\<close>

definition saved_announcement :: "time \<Rightarrow> (announcement \<Rightarrow> announcement) \<Rightarrow> announcement \<Rightarrow> announcement" where
  "saved_announcement now f x = (let y = f x in if y = x then x else y\<lparr>an_updated_at := now\<rparr>)"

definition write_announcement ::
  "time \<Rightarrow> int \<Rightarrow> (announcement \<Rightarrow> announcement) \<Rightarrow> db \<Rightarrow> (announcement \<times> db) result" where
  "write_announcement now aid f d =
    (case find_announcement d aid of
       None \<Rightarrow> Inl no_announcement
     | Some x \<Rightarrow> Inr (saved_announcement now f x,
         d\<lparr>announcements := update_by an_id aid (saved_announcement now f) (announcements d)\<rparr>))"

definition update_announcement :: "time \<Rightarrow> int \<Rightarrow> announcement_payload \<Rightarrow> db \<Rightarrow> (announcement \<times> db) result" where
  "update_announcement now aid p d =
    write_announcement now aid (\<lambda>x. (announcement_row now aid p)\<lparr>an_updated_at := an_updated_at x\<rparr>) d"

definition toggle_announcement :: "time \<Rightarrow> int \<Rightarrow> bool \<Rightarrow> db \<Rightarrow> (announcement \<times> db) result" where
  "toggle_announcement now aid enable d =
    write_announcement now aid
      (\<lambda>x. x\<lparr>an_status := enable, an_published_at := stamped now enable (an_published_at x)\<rparr>) d"

definition delete_announcement :: "int \<Rightarrow> db \<Rightarrow> db result" where
  "delete_announcement aid d =
    (case find_announcement d aid of
       None \<Rightarrow> Inl no_announcement
     | Some _ \<Rightarrow> Inr (d\<lparr>announcements := filter (\<lambda>x. an_id x \<noteq> aid) (announcements d)\<rparr>))"

definition announcements_list :: "db \<Rightarrow> announcement list" where
  "announcements_list d =
    sort_key (\<lambda>x. (if an_pinned x then 0 else 1 :: int, - an_updated_at x, - an_id x)) (announcements d)"

definition announcement_shown :: "time \<Rightarrow> announcement \<Rightarrow> bool" where
  "announcement_shown now x \<longleftrightarrow> an_status x \<and>
     (case an_start_at x of None \<Rightarrow> True | Some t \<Rightarrow> t \<le> now) \<and>
     (case an_end_at x of None \<Rightarrow> True | Some t \<Rightarrow> now \<le> t)"

text \<open>Descending, rows without a time of publication last.\<close>

definition published_rank :: "time option \<Rightarrow> int \<times> int" where
  "published_rank t = (case t of Some n \<Rightarrow> (0, - n) | None \<Rightarrow> (1, 0))"

definition public_announcements :: "time \<Rightarrow> db \<Rightarrow> announcement list" where
  "public_announcements now d =
    sort_key (\<lambda>x. (if an_pinned x then 0 else 1 :: int, published_rank (an_published_at x), - an_id x))
      (filter (announcement_shown now) (announcements d))"

definition public_announcement_detail :: "time \<Rightarrow> int \<Rightarrow> db \<Rightarrow> announcement result" where
  "public_announcement_detail now aid d =
    (case find_announcement d aid of
       Some x \<Rightarrow> if announcement_shown now x then Inr x else Inl no_announcement
     | None \<Rightarrow> Inl no_announcement)"


section \<open>Articles\<close>

record article_payload =
  tp_title :: string
  tp_slug :: string
  tp_summary :: string
  tp_content :: string
  tp_category :: string
  tp_cover :: string
  tp_pinned :: bool
  tp_vip_only :: bool
  tp_status :: bool
  tp_sort_order :: int
  tp_published_at :: "time option"

definition slug_char :: "char \<Rightarrow> bool" where
  "slug_char c \<longleftrightarrow> List.member (''ABCDEFGHIJKLMNOPQRSTUVWXYZabcdefghijklmnopqrstuvwxyz0123456789_-'') c"

definition article_ok :: "article_payload \<Rightarrow> bool" where
  "article_ok p \<longleftrightarrow> tp_title p \<noteq> [] \<and> length (tp_title p) \<le> 160 \<and> tp_slug p \<noteq> [] \<and>
     length (tp_slug p) \<le> 80 \<and> list_all slug_char (tp_slug p) \<and> length (tp_summary p) \<le> 255 \<and>
     length (tp_category p) \<le> 40"

definition article_row :: "time \<Rightarrow> int \<Rightarrow> article_payload \<Rightarrow> article" where
  "article_row now aid p =
    \<lparr>ar_id = aid, ar_title = tp_title p, ar_slug = tp_slug p, ar_summary = tp_summary p, ar_content = tp_content p,
     ar_category = tp_category p, ar_cover = tp_cover p, ar_pinned = tp_pinned p, ar_vip_only = tp_vip_only p,
     ar_status = tp_status p, ar_sort_order = tp_sort_order p,
     ar_published_at = stamped now (tp_status p) (tp_published_at p), ar_updated_at = now\<rparr>"

definition no_article :: error where "no_article = HTTPException 404 ''Article not found''"

definition find_article :: "db \<Rightarrow> int \<Rightarrow> article option" where
  "find_article d aid = find_by ar_id aid (articles d)"

definition ensure_article_slug_available :: "db \<Rightarrow> string \<Rightarrow> int option \<Rightarrow> unit result" where
  "ensure_article_slug_available d slug aid =
    (if list_ex (\<lambda>x. ar_slug x = slug \<and> (case aid of None \<Rightarrow> True | Some i \<Rightarrow> i = 0 \<or> ar_id x \<noteq> i)) (articles d)
     then Inl (HTTPException 400 ''Article slug already exists'') else Inr ())"

definition create_article :: "time \<Rightarrow> article_payload \<Rightarrow> db \<Rightarrow> (article \<times> db) result" where
  "create_article now p d =
    (case ensure_article_slug_available d (tp_slug p) None of
       Inl e \<Rightarrow> Inl e
     | Inr _ \<Rightarrow>
         (let x = article_row now (fresh_id ar_id (articles d)) p in Inr (x, d\<lparr>articles := articles d @ [x]\<rparr>)))"

definition saved_article :: "time \<Rightarrow> (article \<Rightarrow> article) \<Rightarrow> article \<Rightarrow> article" where
  "saved_article now f x = (let y = f x in if y = x then x else y\<lparr>ar_updated_at := now\<rparr>)"

definition write_article :: "time \<Rightarrow> int \<Rightarrow> (article \<Rightarrow> article) \<Rightarrow> db \<Rightarrow> (article \<times> db) result" where
  "write_article now aid f d =
    (case find_article d aid of
       None \<Rightarrow> Inl no_article
     | Some x \<Rightarrow> Inr (saved_article now f x, d\<lparr>articles := update_by ar_id aid (saved_article now f) (articles d)\<rparr>))"

definition update_article :: "time \<Rightarrow> int \<Rightarrow> article_payload \<Rightarrow> db \<Rightarrow> (article \<times> db) result" where
  "update_article now aid p d =
    (case find_article d aid of
       None \<Rightarrow> Inl no_article
     | Some _ \<Rightarrow>
         (case ensure_article_slug_available d (tp_slug p) (Some aid) of
            Inl e \<Rightarrow> Inl e
          | Inr _ \<Rightarrow> write_article now aid (\<lambda>x. (article_row now aid p)\<lparr>ar_updated_at := ar_updated_at x\<rparr>) d))"

definition toggle_article :: "time \<Rightarrow> int \<Rightarrow> bool \<Rightarrow> db \<Rightarrow> (article \<times> db) result" where
  "toggle_article now aid enable d =
    write_article now aid (\<lambda>x. x\<lparr>ar_status := enable, ar_published_at := stamped now enable (ar_published_at x)\<rparr>) d"

definition delete_article :: "int \<Rightarrow> db \<Rightarrow> db result" where
  "delete_article aid d =
    (case find_article d aid of
       None \<Rightarrow> Inl no_article
     | Some _ \<Rightarrow> Inr (d\<lparr>articles := filter (\<lambda>x. ar_id x \<noteq> aid) (articles d)\<rparr>))"

definition articles_list :: "db \<Rightarrow> article list" where
  "articles_list d =
    sort_key (\<lambda>x. (if ar_pinned x then 0 else 1 :: int, ar_sort_order x, - ar_updated_at x, - ar_id x)) (articles d)"

text \<open>An article as a reader gets it: \<open>content\<close> is empty when \<open>vip_locked\<close>.\<close>

definition article_view :: "bool \<Rightarrow> article \<Rightarrow> article \<times> bool" where
  "article_view vip x = (if ar_vip_only x \<and> \<not> vip then (x\<lparr>ar_content := []\<rparr>, True) else (x, False))"

definition reads_vip :: "time \<Rightarrow> user_account option \<Rightarrow> bool" where
  "reads_vip now u = (case u of None \<Rightarrow> False | Some x \<Rightarrow> is_vip_active x now)"

definition public_articles :: "time \<Rightarrow> string option \<Rightarrow> user_account option \<Rightarrow> db \<Rightarrow> (article \<times> bool) list" where
  "public_articles now category u d =
    map (article_view (reads_vip now u))
      (sort_key (\<lambda>x. (if ar_pinned x then 0 else 1 :: int, ar_sort_order x, published_rank (ar_published_at x), - ar_id x))
        (filter (\<lambda>x. ar_status x \<and> (case category of None \<Rightarrow> True | Some k \<Rightarrow> k = [] \<or> ar_category x = k)) (articles d)))"

definition public_article_detail :: "time \<Rightarrow> string \<Rightarrow> user_account option \<Rightarrow> db \<Rightarrow> (article \<times> bool) result" where
  "public_article_detail now key u d =
    (case List.find (\<lambda>x. (ar_slug x = key \<or> Some (ar_id x) = map_option int (parse_nat key)) \<and> ar_status x) (articles d) of
       None \<Rightarrow> Inl no_article
     | Some x \<Rightarrow> Inr (article_view (reads_vip now u) x))"

section \<open>Lists and preferences\<close>

text \<open>
  \<open>LIKE\<close>: a percent sign stands for any text and an underscore for any character, ASCII
  letters compare without case.
\<close>

primrec sql_like :: "string \<Rightarrow> string \<Rightarrow> bool" where
  "sql_like [] = (\<lambda>s. s = [])"
| "sql_like (p # ps) = (\<lambda>s.
     if p = CHR ''%'' then list_ex (sql_like ps) (suffixes s)
     else case s of [] \<Rightarrow> False
       | c # cs \<Rightarrow> (p = CHR ''_'' \<or> to_lower [p] = to_lower [c]) \<and> sql_like ps cs)"

definition public_schools :: "string option \<Rightarrow> db \<Rightarrow> school_site list" where
  "public_schools keyword d =
    (let pattern = (\<lambda>k. ''%'' @ k @ ''%'');
         hit = (\<lambda>s. case keyword of None \<Rightarrow> True
           | Some k \<Rightarrow> k = [] \<or> list_ex (sql_like (pattern k)) [sc_name s, sc_short_name s, sc_city s, sc_district s])
     in sort_key (\<lambda>s. (- sc_display_weight s, if sc_current s then 0 else 1 :: int, sc_sort_order s, - sc_id s))
          (filter (\<lambda>s. sc_status s \<and> sc_review_status s = RevApproved \<and> hit s) (schools d)))"

definition public_point_rule :: "db \<Rightarrow> point_rule result" where
  "public_point_rule d = (case rule d of None \<Rightarrow> Inl (HTTPException 404 ''no rule'') | Some r \<Rightarrow> Inr r)"

record preference_payload =
  ep_user_id :: string
  ep_user_name :: string
  ep_preference_type :: string
  ep_target_key :: string
  ep_target_name :: string
  ep_action :: string
  ep_score :: int

definition preference_ok :: "preference_payload \<Rightarrow> bool" where
  "preference_ok p \<longleftrightarrow> ep_user_id p \<noteq> [] \<and> length (ep_user_id p) \<le> 64 \<and> length (ep_user_name p) \<le> 60 \<and>
     ep_preference_type p \<in> {''route'', ''study''} \<and> ep_target_key p \<noteq> [] \<and> length (ep_target_key p) \<le> 120 \<and>
     ep_target_name p \<noteq> [] \<and> length (ep_target_name p) \<le> 160 \<and> ep_action p \<noteq> [] \<and>
     length (ep_action p) \<le> 30 \<and> - 10 \<le> ep_score p \<and> ep_score p \<le> 10"

text \<open>At most 60 events of an address in a window that every event extends to 300 seconds.\<close>

definition preference_rate_allowed :: "time \<Rightarrow> string \<Rightarrow> redis \<Rightarrow> bool result \<times> redis" where
  "preference_rate_allowed now ip r =
    (let key = ''pref:rate:'' @ ip in
     case cache_get_json now key r of
       (cached, r1) \<Rightarrow>
         (case json_int (json_or (case cached of Some j \<Rightarrow> j | None \<Rightarrow> JNull) (JInt 0)) of
            None \<Rightarrow> (Inl (TypeError ''int''), r1)
          | Some current \<Rightarrow>
              if 60 \<le> current then (Inr False, r1)
              else (Inr True, cache_set_json now key (JInt (current + 1)) 300 r1)))"

definition add_preference :: "time \<Rightarrow> string \<Rightarrow> string \<Rightarrow> preference_payload \<Rightarrow> db \<Rightarrow> int \<times> db" where
  "add_preference now uid uname p d =
    (let eid = fresh_id pe_id (preferences d) in
     (eid, d\<lparr>preferences := preferences d @
       [\<lparr>pe_id = eid, pe_user_id = uid, pe_user_name = uname, pe_preference_type = ep_preference_type p,
         pe_target_key = ep_target_key p, pe_target_name = ep_target_name p, pe_action = ep_action p,
         pe_score = ep_score p, pe_created_at = now\<rparr>]\<rparr>))"

definition record_preference ::
  "time \<Rightarrow> string \<Rightarrow> preference_payload \<Rightarrow> user_account option \<Rightarrow> db \<Rightarrow> redis \<Rightarrow> (int \<times> db) result \<times> redis" where
  "record_preference now ip p u d r =
    (case u of
       Some x \<Rightarrow>
         (Inr (add_preference now (str_int (ua_id x))
            (str_or (ep_user_name p) (str_or (ua_nickname x) ''student'')) p d), r)
     | None \<Rightarrow>
         (let uid = take 64 (strip (ep_user_id p)) in
          if uid = [] then (Inl (HTTPException 400 ''user_id is required''), r)
          else case preference_rate_allowed now ip r of
            (Inl e, r1) \<Rightarrow> (Inl e, r1)
          | (Inr ok, r1) \<Rightarrow>
              if \<not> ok then (Inl (HTTPException 429 ''too frequent''), r1)
              else (Inr (add_preference now uid (take 60 (strip (ep_user_name p))) p d), r1)))"

end
