(* ===== verification/Insights.thy ===== *)
theory Insights
  imports Content
begin

text \<open>
  The figures of the administrator's start page and the evaluation of the preference events
  (\<open>dashboard\<close> and \<open>preference_insights\<close> of \<open>app/api/admin.py\<close>). A dictionary is the list
  of its entries in the order of their insertion.
\<close>

record figures =
  fg_routes :: nat
  fg_pending_orders :: nat
  fg_abnormal_invites :: nat
  fg_users :: nat

definition dashboard :: "db \<Rightarrow> figures" where
  "dashboard d =
    \<lparr>fg_routes = length (routes d), fg_pending_orders = length (filter (\<lambda>o1. to_status o1 = TravelCreated) (travel_orders d)),
     fg_abnormal_invites = length (filter ir_abnormal (invites d)),
     fg_users = length (filter (\<lambda>u. ua_role u = ''user'') (users d))\<rparr>"

section \<open>Preferences\<close>

text \<open>\<open>f\<close> applied to the entry of \<open>k\<close>, which starts as \<open>init\<close> (\<open>setdefault\<close>).\<close>

fun alter :: "'k \<Rightarrow> 'v \<Rightarrow> ('v \<Rightarrow> 'v) \<Rightarrow> ('k \<times> 'v) list \<Rightarrow> ('k \<times> 'v) list" where
  "alter k init f [] = [(k, f init)]"
| "alter k init f ((j, v) # m) = (if j = k then (j, f v) # m else (j, v) # alter k init f m)"

type_synonym group_key = "string \<times> string \<times> string"

record group =
  gr_user_id :: string
  gr_user_name :: string
  gr_type :: string
  gr_target_key :: string
  gr_target_name :: string
  gr_score :: int
  gr_actions :: int
  gr_updated_at :: time

definition group_key :: "preference_event \<Rightarrow> group_key" where
  "group_key e = (pe_user_id e, pe_preference_type e, pe_target_key e)"

definition new_group :: "preference_event \<Rightarrow> group" where
  "new_group e =
    \<lparr>gr_user_id = pe_user_id e, gr_user_name = pe_user_name e, gr_type = pe_preference_type e,
     gr_target_key = pe_target_key e, gr_target_name = pe_target_name e, gr_score = 0, gr_actions = 0,
     gr_updated_at = pe_created_at e\<rparr>"

definition count_in :: "preference_event \<Rightarrow> group \<Rightarrow> group" where
  "count_in e g =
    g\<lparr>gr_score := gr_score g + pe_score e, gr_actions := gr_actions g + 1,
      gr_updated_at := max (gr_updated_at g) (pe_created_at e)\<rparr>"

definition add_event :: "preference_event \<Rightarrow> (group_key \<times> group) list \<Rightarrow> (group_key \<times> group) list" where
  "add_event e m = alter (group_key e) (new_group e) (count_in e) m"

record fan =
  fn_user_id :: string
  fn_user_name :: string
  fn_route_score :: int
  fn_study_score :: int
  fn_actions :: int
  fn_updated_at :: time

definition new_fan :: "preference_event \<Rightarrow> fan" where
  "new_fan e = \<lparr>fn_user_id = pe_user_id e, fn_user_name = pe_user_name e, fn_route_score = 0,
    fn_study_score = 0, fn_actions = 0, fn_updated_at = pe_created_at e\<rparr>"

definition count_fan :: "preference_event \<Rightarrow> fan \<Rightarrow> fan" where
  "count_fan e u =
    (if pe_preference_type e = ''route'' then u\<lparr>fn_route_score := fn_route_score u + pe_score e\<rparr>
     else u\<lparr>fn_study_score := fn_study_score u + pe_score e\<rparr>)
    \<lparr>fn_actions := fn_actions u + 1, fn_updated_at := max (fn_updated_at u) (pe_created_at e)\<rparr>"

definition add_fan :: "preference_event \<Rightarrow> (string \<times> fan) list \<Rightarrow> (string \<times> fan) list" where
  "add_fan e m = alter (pe_user_id e) (new_fan e) (count_fan e) m"

record heat =
  ht_type :: string
  ht_name :: string
  ht_score :: int
  ht_users :: "string list"

definition add_heat :: "group \<Rightarrow> ((string \<times> string) \<times> heat) list \<Rightarrow> ((string \<times> string) \<times> heat) list" where
  "add_heat g m =
    alter (gr_type g, gr_target_name g)
      \<lparr>ht_type = gr_type g, ht_name = gr_target_name g, ht_score = 0, ht_users = []\<rparr>
      (\<lambda>h. h\<lparr>ht_score := ht_score h + gr_score g, ht_users := List.insert (gr_user_id g) (ht_users h)\<rparr>) m"

definition newest_events :: "db \<Rightarrow> preference_event list" where
  "newest_events d = sort_key (\<lambda>e. - pe_created_at e) (preferences d)"

definition grouped :: "preference_event list \<Rightarrow> (group_key \<times> group) list" where
  "grouped es = fold add_event es []"

definition active_groups :: "preference_event list \<Rightarrow> group list" where
  "active_groups es = filter (\<lambda>g. 0 < gr_score g) (map snd (grouped es))"

record fan_row =
  fr_fan :: fan
  fr_top_interest :: string
  fr_top_type :: string
  fr_interest_score :: int

definition fan_row :: "group list \<Rightarrow> fan \<Rightarrow> fan_row" where
  "fan_row active u =
    (let best = sort_key (\<lambda>g. - gr_score g) (filter (\<lambda>g. gr_user_id g = fn_user_id u) active) in
     \<lparr>fr_fan = u, fr_top_interest = (case best of g # _ \<Rightarrow> gr_target_name g | [] \<Rightarrow> ''no clear interest''),
      fr_top_type = (case best of g # _ \<Rightarrow> gr_type g | [] \<Rightarrow> []),
      fr_interest_score = max (fn_route_score u) 0 + max (fn_study_score u) 0\<rparr>)"

record insights =
  in_users :: nat
  in_events :: nat
  in_route_score :: int
  in_study_score :: int
  in_rankings :: "heat list"
  in_rows :: "fan_row list"

text \<open>The keys \<open>route_score\<close> and \<open>study_score\<close> are the only ones a user's entry has.\<close>

definition preference_insights :: "db \<Rightarrow> insights result" where
  "preference_insights d =
    (let es = newest_events d; active = active_groups es; fans = map snd (fold add_fan es []) in
     if list_ex (\<lambda>e. pe_preference_type e \<notin> {''route'', ''study''}) es then Inl (RuntimeError ''KeyError'')
     else Inr
       \<lparr>in_users = length fans, in_events = length es,
        in_route_score = sum_list (map (\<lambda>u. max (fn_route_score u) 0) fans),
        in_study_score = sum_list (map (\<lambda>u. max (fn_study_score u) 0) fans),
        in_rankings = sort_key (\<lambda>h. - ht_score h) (map snd (fold add_heat active [])),
        in_rows = sort_key (\<lambda>r. - fr_interest_score r) (map (fan_row active) fans)\<rparr>)"

end
