(* ===== verification/Media.thy ===== *)
theory Media
  imports Content
begin

text \<open>
  Uploaded files over HTTP: who may read one, the file and its thumbnail, the same by
  object key (\<open>app/api/public.py\<close>), the administrator's uploads and the registration of
  files found on the disk (\<open>app/api/admin.py\<close>). The image library is the argument
  \<open>thumb\<close>, which turns the bytes of a picture into those of its thumbnail or fails.
\<close>

record image_reply =
  im_content :: bytes
  im_type :: string
  im_public :: bool

definition load_upload_bytes_with_fallback ::
  "config \<Rightarrow> obs_client \<Rightarrow> time \<Rightarrow> disk \<Rightarrow> string \<Rightarrow> string \<Rightarrow> loaded_file result" where
  "load_upload_bytes_with_fallback c client now fs key storage =
    (let primary = to_lower (str_or storage (storage_driver c));
         fallback = (if primary \<noteq> ''obs'' then ''obs'' else ''local'') in
     case load_upload_bytes c client now fs key (Some primary) of
       Inr x \<Rightarrow> Inr x
     | Inl e \<Rightarrow>
         (case load_upload_bytes c client now fs key (Some fallback) of Inr x \<Rightarrow> Inr x | Inl _ \<Rightarrow> Inl e))"

section \<open>Who may read a file\<close>

text \<open>\<open>_bearer_token\<close>: the empty text when the header has none.\<close>

definition bearer_token :: "string \<Rightarrow> string" where
  "bearer_token authorization =
    (case split_at (\<lambda>c. c = CHR '' '') authorization of
       (scheme, token) \<Rightarrow>
         if to_lower scheme = ''bearer'' then strip (case token of Some t \<Rightarrow> t | None \<Rightarrow> []) else [])"

definition find_conversation :: "db \<Rightarrow> string \<Rightarrow> conversation option" where
  "find_conversation d cid = find_by cv_id cid (conversations d)"

definition user_may_read :: "time \<Rightarrow> db \<Rightarrow> uploaded_asset \<Rightarrow> string \<Rightarrow> bool" where
  "user_may_read now d a token =
    (case find_by us_token token (sessions d) of
       None \<Rightarrow> False
     | Some s \<Rightarrow>
         now \<le> us_expires_at s \<and>
         (case find_by ua_id (us_user_id s) (users d) of
            None \<Rightarrow> False
          | Some u \<Rightarrow>
              ua_status u = ''active'' \<and> ua_role u = us_role s \<and>
              (ua_role u = ''admin'' \<or> as_user_id a = Some (ua_id u) \<and> ua_id u \<noteq> 0 \<or>
               as_conversation_id a \<noteq> [] \<and>
               (case find_conversation d (as_conversation_id a) of
                  None \<Rightarrow> False | Some v \<Rightarrow> cv_user_id v = ua_user_no u))))"

definition school_may_read :: "time \<Rightarrow> db \<Rightarrow> uploaded_asset \<Rightarrow> string \<Rightarrow> bool" where
  "school_may_read now d a token =
    (case find_by sm_token token (school_sessions d) of
       None \<Rightarrow> False
     | Some s \<Rightarrow>
         now \<le> sm_expires_at s \<and> as_conversation_id a \<noteq> [] \<and>
         (case find_conversation d (as_conversation_id a) of
            None \<Rightarrow> False
          | Some v \<Rightarrow>
              cv_school_id v = sm_school_id s \<and>
              (case find_by sc_id (sm_school_id s) (schools d) of
                 None \<Rightarrow> False
               | Some x \<Rightarrow> sc_status x \<and> sc_review_status x = RevApproved)))"

text \<open>The answer says whether the file is a public one.\<close>

definition authorize_asset ::
  "config \<Rightarrow> time \<Rightarrow> db \<Rightarrow> uploaded_asset \<Rightarrow> string \<Rightarrow> string \<Rightarrow> string \<Rightarrow> bool result" where
  "authorize_asset c now d a authorization variant asset_token =
    (if is_public_asset_source (as_source a) then Inr True
     else if verify_asset_access_token c now (as_id a) variant asset_token then Inr False
     else
       (let token = bearer_token authorization in
        if token \<noteq> [] \<and> (user_may_read now d a token \<or> school_may_read now d a token) then Inr False
        else Inl (HTTPException 401 ''Asset authorization required'')))"

definition get_asset_by_object_key :: "db \<Rightarrow> string \<Rightarrow> uploaded_asset result" where
  "get_asset_by_object_key d object_key =
    (let key = lstrip_slash (strip object_key) in
     if key = [] \<or> ''..'' \<in> set (path_parts key) then Inl (HTTPException 400 ''Invalid asset path'')
     else case sort_key (\<lambda>a. - as_id a) (filter (\<lambda>a. as_object_key a = key) (assets d)) of
       [] \<Rightarrow> Inl (HTTPException 404 ''Asset not found'')
     | a # _ \<Rightarrow> Inr a)"

section \<open>Files and thumbnails\<close>

definition reply :: "loaded_file \<Rightarrow> bool \<Rightarrow> image_reply" where
  "reply x public = \<lparr>im_content = lf_content x, im_type = lf_content_type x, im_public = public\<rparr>"

definition find_asset :: "db \<Rightarrow> int \<Rightarrow> uploaded_asset result" where
  "find_asset d aid =
    (case find_by as_id aid (assets d) of None \<Rightarrow> Inl (HTTPException 404 ''no image'') | Some a \<Rightarrow> Inr a)"

definition serve_file ::
  "config \<Rightarrow> obs_client \<Rightarrow> time \<Rightarrow> disk \<Rightarrow> uploaded_asset \<Rightarrow> bool \<Rightarrow> image_reply result" where
  "serve_file c client now fs a public =
    map_sum id (\<lambda>x. reply x public)
      (load_upload_bytes_with_fallback c client now fs (as_object_key a) (as_storage a))"

text \<open>A thumbnail comes from its cache file; a new one is written there.\<close>

definition serve_thumb ::
  "config \<Rightarrow> obs_client \<Rightarrow> (bytes \<Rightarrow> bytes option) \<Rightarrow> time \<Rightarrow> disk \<Rightarrow> string \<Rightarrow> uploaded_asset \<Rightarrow> bool
    \<Rightarrow> image_reply result \<times> disk" where
  "serve_thumb c client thumb now fs cache_file a public =
    (case fs cache_file of
       Some content \<Rightarrow> (Inr \<lparr>im_content = content, im_type = ''image/jpeg'', im_public = public\<rparr>, fs)
     | None \<Rightarrow>
         (case load_upload_bytes_with_fallback c client now fs (as_object_key a) (as_storage a) of
            Inl e \<Rightarrow> (Inl e, fs)
          | Inr x \<Rightarrow>
              (case thumb (lf_content x) of
                 None \<Rightarrow> (Inr (reply x public), fs)
               | Some [] \<Rightarrow> (Inr (reply x public), fs)
               | Some t \<Rightarrow> (Inr \<lparr>im_content = t, im_type = ''image/jpeg'', im_public = public\<rparr>, fs(cache_file \<mapsto> t)))))"

definition thumb_file :: "int \<Rightarrow> string" where
  "thumb_file aid = ''.thumb-cache/'' @ str_int aid @ ''.jpg''"

definition object_thumb_file :: "string \<Rightarrow> string" where
  "object_thumb_file object_key = ''.thumb-cache/objects/'' @ sha256_hex object_key @ ''.jpg''"

definition public_asset_file ::
  "config \<Rightarrow> obs_client \<Rightarrow> time \<Rightarrow> disk \<Rightarrow> db \<Rightarrow> int \<Rightarrow> string \<Rightarrow> string \<Rightarrow> image_reply result" where
  "public_asset_file c client now fs d aid authorization token =
    (case find_asset d aid of
       Inl e \<Rightarrow> Inl e
     | Inr a \<Rightarrow>
         (case authorize_asset c now d a authorization ''file'' token of
            Inl e \<Rightarrow> Inl e | Inr public \<Rightarrow> serve_file c client now fs a public))"

definition public_asset_thumb ::
  "config \<Rightarrow> obs_client \<Rightarrow> (bytes \<Rightarrow> bytes option) \<Rightarrow> time \<Rightarrow> disk \<Rightarrow> db \<Rightarrow> int \<Rightarrow> string \<Rightarrow> string
    \<Rightarrow> image_reply result \<times> disk" where
  "public_asset_thumb c client thumb now fs d aid authorization token =
    (case find_asset d aid of
       Inl e \<Rightarrow> (Inl e, fs)
     | Inr a \<Rightarrow>
         (case authorize_asset c now d a authorization ''thumb'' token of
            Inl e \<Rightarrow> (Inl e, fs)
          | Inr public \<Rightarrow> serve_thumb c client thumb now fs (thumb_file aid) a public))"

definition object_suffix :: "string \<Rightarrow> string" where
  "object_suffix key = (if CHR ''.'' \<in> set key then to_lower (last (split_on CHR ''.'' key)) else [])"

definition check_object :: "db \<Rightarrow> string \<Rightarrow> uploaded_asset result" where
  "check_object d key =
    (if object_suffix key \<notin> {''jpg'', ''jpeg'', ''png'', ''gif'', ''webp'', ''mp4'', ''webm'', ''mov'', ''m4v''}
     then Inl (HTTPException 400 ''format'') else get_asset_by_object_key d key)"

definition public_asset_object_thumb ::
  "config \<Rightarrow> obs_client \<Rightarrow> (bytes \<Rightarrow> bytes option) \<Rightarrow> time \<Rightarrow> disk \<Rightarrow> db \<Rightarrow> string \<Rightarrow> string \<Rightarrow> string
    \<Rightarrow> image_reply result \<times> disk" where
  "public_asset_object_thumb c client thumb now fs d key authorization token =
    (case check_object d key of
       Inl e \<Rightarrow> (Inl e, fs)
     | Inr a \<Rightarrow>
         (case authorize_asset c now d a authorization ''object-thumb'' token of
            Inl e \<Rightarrow> (Inl e, fs)
          | Inr public \<Rightarrow> serve_thumb c client thumb now fs (object_thumb_file key) a public))"

definition public_asset_object ::
  "config \<Rightarrow> obs_client \<Rightarrow> time \<Rightarrow> disk \<Rightarrow> db \<Rightarrow> string \<Rightarrow> string \<Rightarrow> string \<Rightarrow> image_reply result" where
  "public_asset_object c client now fs d key authorization token =
    (case check_object d key of
       Inl e \<Rightarrow> Inl e
     | Inr a \<Rightarrow>
         (case authorize_asset c now d a authorization ''object'' token of
            Inl e \<Rightarrow> Inl e | Inr public \<Rightarrow> serve_file c client now fs a public))"


section \<open>The administrator's files\<close>

definition platform_asset :: "string \<Rightarrow> stored_file \<Rightarrow> string \<Rightarrow> string \<Rightarrow> int \<Rightarrow> uploaded_asset" where
  "platform_asset source stored original mime nbytes =
    \<lparr>as_id = 0, as_source = source, as_storage = sf_storage stored, as_bucket = sf_bucket stored,
     as_object_key = sf_object_key stored, as_path = sf_path stored, as_url = sf_url stored,
     as_filename = last_component (sf_object_key stored), as_original_name = original, as_mime_type = mime,
     as_size = nbytes, as_uploader_role = ''admin'', as_user_id = None, as_conversation_id = []\<rparr>"

definition image_suffixes :: "string list" where
  "image_suffixes = [''.jpg'', ''.jpeg'', ''.png'', ''.gif'', ''.webp'']"

definition video_suffixes :: "string list" where
  "video_suffixes = [''.mp4'', ''.webm'', ''.mov'', ''.m4v'']"

definition keep_upload ::
  "config \<Rightarrow> obs_client \<Rightarrow> time \<Rightarrow> disk \<times> db \<Rightarrow> string \<Rightarrow> string \<Rightarrow> string \<Rightarrow> upload
    \<Rightarrow> (int \<times> string \<times> disk \<times> db) result" where
  "keep_upload c client now st source folder mime file =
    (case save_upload_bytes c client now (up_content file) (up_filename file) (up_content_type file) folder st of
       Inl e \<Rightarrow> Inl e
     | Inr (stored, fs1, d1) \<Rightarrow>
         (case add_asset (platform_asset source stored (opt_text (up_filename file)) mime
                  (int (length (up_content file)))) d1 of
            (aid, d2) \<Rightarrow> Inr (aid, asset_api_url c aid, fs1, d2)))"

definition upload_article_image ::
  "config \<Rightarrow> obs_client \<Rightarrow> time \<Rightarrow> disk \<times> db \<Rightarrow> upload \<Rightarrow> (int \<times> string \<times> disk \<times> db) result" where
  "upload_article_image c client now st file =
    (let sfx = str_or (to_lower (path_suffix (opt_text (up_filename file)))) ''.jpg'' in
     case check_image image_suffixes sfx (snd (get_upload_setting (snd st))) (up_content file) of
       Inl e \<Rightarrow> Inl e
     | Inr _ \<Rightarrow> keep_upload c client now st ''article'' ''articles'' (opt_text (up_content_type file)) file)"

text \<open>A video is checked by its suffix and its size only.\<close>

definition check_common :: "db \<Rightarrow> string \<Rightarrow> upload \<Rightarrow> bool result" where
  "check_common d kind file =
    (let sfx = to_lower (path_suffix (opt_text (up_filename file)));
         video = (kind = ''video'' \<or> List.member video_suffixes sfx) in
     if video then
       (if \<not> List.member video_suffixes sfx then Inl (HTTPException 400 ''video type'')
        else if 200 * 1024 * 1024 < length (up_content file) then Inl (HTTPException 400 ''video size'')
        else Inr True)
     else map_sum id (\<lambda>_. False)
       (check_image image_suffixes sfx (snd (get_upload_setting d)) (up_content file)))"

definition upload_common_asset ::
  "config \<Rightarrow> obs_client \<Rightarrow> time \<Rightarrow> disk \<times> db \<Rightarrow> string \<Rightarrow> upload \<Rightarrow> (int \<times> string \<times> disk \<times> db) result" where
  "upload_common_asset c client now st kind file =
    (case check_common (snd st) kind file of
       Inl e \<Rightarrow> Inl e
     | Inr video \<Rightarrow>
         keep_upload c client now st ''common'' ''common''
           (str_or (opt_text (up_content_type file)) (if video then ''video/mp4'' else ''image/jpeg'')) file)"

text \<open>
  The registration of pictures found under the upload directory. \<open>files\<close> lists the files of
  the directory, at any depth, as their paths below it; the source follows from the folder.
\<close>

definition starts_with :: "string \<Rightarrow> string \<Rightarrow> bool" where
  "starts_with p s \<longleftrightarrow> take (length p) s = p"

definition source_of_key :: "string \<Rightarrow> string" where
  "source_of_key key =
    (if starts_with ''graduation/'' key then ''student_card''
     else if starts_with ''support-thumbs/'' key then ''support_thumb''
     else if starts_with ''support/'' key then ''support''
     else if starts_with ''contracts/'' key then ''contract_signature''
     else if starts_with ''travel-reviews/'' key then ''travel_review''
     else ''common'')"

definition mime_of_suffix :: "string \<Rightarrow> string" where
  "mime_of_suffix sfx =
    (case map_of [(''.jpg'', ''image/jpeg''), (''.jpeg'', ''image/jpeg''), (''.png'', ''image/png''),
                  (''.gif'', ''image/gif''), (''.webp'', ''image/webp'')] sfx of
       Some m \<Rightarrow> m | None \<Rightarrow> ''image/*'')"

definition found_asset :: "disk \<Rightarrow> string \<Rightarrow> uploaded_asset" where
  "found_asset fs key =
    \<lparr>as_id = 0, as_source = source_of_key key, as_storage = ''local'', as_bucket = [], as_object_key = key,
     as_path = ''/uploads/'' @ key, as_url = ''/uploads/'' @ key, as_filename = last_component key,
     as_original_name = last_component key, as_mime_type = mime_of_suffix (to_lower (path_suffix key)),
     as_size = (case fs key of Some content \<Rightarrow> int (length content) | None \<Rightarrow> 0),
     as_uploader_role = ''system'', as_user_id = None, as_conversation_id = []\<rparr>"

definition backfill_local_image_assets :: "disk \<Rightarrow> string list \<Rightarrow> db \<Rightarrow> db" where
  "backfill_local_image_assets fs files d =
    (let known = map as_object_key (filter (\<lambda>a. as_storage a = ''local'') (assets d)) in
     fold (\<lambda>key d1. snd (add_asset (found_asset fs key) d1))
       (filter (\<lambda>key. List.member image_suffixes (to_lower (path_suffix key)) \<and> \<not> List.member known key) files) d)"

definition storage_url :: "config \<Rightarrow> uploaded_asset \<Rightarrow> string" where
  "storage_url c a =
    (if as_storage a = ''obs'' \<and> as_bucket a \<noteq> [] \<and> as_object_key a \<noteq> []
     then ''https://'' @ as_bucket a @ ''.'' @ obs_endpoint_of c @ ''/'' @ url_quote (as_object_key a)
     else str_or (as_path a) (as_url a))"

definition image_assets ::
  "config \<Rightarrow> disk \<Rightarrow> string list \<Rightarrow> string \<Rightarrow> string \<Rightarrow> db \<Rightarrow> (uploaded_asset \<times> string) list \<times> db" where
  "image_assets c fs files source storage d =
    (let d1 = backfill_local_image_assets fs files d in
     (map (\<lambda>a. (a, storage_url c a))
        (sort_key (\<lambda>a. - as_id a)
          (filter (\<lambda>a. (source = [] \<or> as_source a = source) \<and> (storage = [] \<or> as_storage a = storage)) (assets d1))), d1))"

end
