(* ===== verification/Support.thy ===== *)
theory Support
  imports Schools Media
begin

text \<open>
  \<open>app/api/support.py\<close>: conversations between a user, the platform and a school, their
  messages over web sockets, the presence flags and the images of a conversation. A socket
  is a number; \<open>alive s\<close> says whether sending to it works. The frames a step sends are
  returned with the socket they go to, in the order of sending.
\<close>

section \<open>Links in messages\<close>

definition hex_nat :: "char \<Rightarrow> nat option" where
  "hex_nat c = map_of (zip ''0123456789abcdefABCDEF'' ([0..<16] @ [10..<16])) c"

text \<open>\<open>unquote_plus\<close> to bytes and \<open>quote_plus\<close>; escaped bytes are taken to be valid UTF-8.\<close>

fun unquote_plus :: "string \<Rightarrow> nat list" where
  "unquote_plus [] = []"
| "unquote_plus (c # cs) =
     (if c = CHR ''+'' then 32 # unquote_plus cs
      else if c = CHR 0x25 then
        (case cs of
           a # b # rest \<Rightarrow>
             (case (hex_nat a, hex_nat b) of
                (Some x, Some y) \<Rightarrow> (16 * x + y) # unquote_plus rest
              | _ \<Rightarrow> utf8 [c] @ unquote_plus cs)
         | _ \<Rightarrow> utf8 [c] @ unquote_plus cs)
      else utf8 [c] @ unquote_plus cs)"

definition quote_plus :: "nat list \<Rightarrow> string" where
  "quote_plus bs = concat (map (\<lambda>n. if n = 32 then ''+'' else if n = 47 then ''%2F'' else quote_byte n) bs)"

definition query_pair :: "string \<Rightarrow> nat list \<times> nat list" where
  "query_pair s =
    (case split_at (\<lambda>c. c = CHR ''='') s of
       (k, v) \<Rightarrow> (unquote_plus k, unquote_plus (case v of Some t \<Rightarrow> t | None \<Rightarrow> [])))"

definition parse_query :: "string \<Rightarrow> (nat list \<times> nat list) list" where
  "parse_query q =
    fold (\<lambda>s. case query_pair s of (k, v) \<Rightarrow> AList.update k v) (filter (\<lambda>s. s \<noteq> []) (split_on CHR ''&'' q)) []"

definition urlencode :: "(nat list \<times> nat list) list \<Rightarrow> string" where
  "urlencode kvs =
    concat (case map (\<lambda>(k, v). quote_plus k @ ''='' @ quote_plus v) kvs of
      [] \<Rightarrow> [] | t # ts \<Rightarrow> t # map (\<lambda>u. ''&'' @ u) ts)"

definition sign_asset_url :: "config \<Rightarrow> time \<Rightarrow> string \<Rightarrow> string" where
  "sign_asset_url c now url =
    (case extract_asset_reference c url of
       None \<Rightarrow> url
     | Some (aid, variant) \<Rightarrow>
         (case split_at (\<lambda>x. x = CHR ''#'') url of
            (main, fragment) \<Rightarrow>
              (case split_at (\<lambda>x. x = CHR ''?'') main of
                 (path, query) \<Rightarrow>
                   path @ ''?'' @
                   urlencode (AList.update (utf8 ''asset_token'') (utf8 (create_asset_access_token c now aid variant None))
                     (parse_query (case query of Some q \<Rightarrow> q | None \<Rightarrow> []))) @
                   (case fragment of Some (x # xs) \<Rightarrow> CHR ''#'' # x # xs | _ \<Rightarrow> []))))"

text \<open>A message as it is sent; \<open>parse\<close> is \<open>json.loads\<close>, \<open>None\<close> its error.\<close>

definition shown_message ::
  "(string \<Rightarrow> json option) \<Rightarrow> config \<Rightarrow> time \<Rightarrow> support_message \<Rightarrow> support_message" where
  "shown_message parse c now m =
    m\<lparr>sg_extra :=
        (let extra = json_or (sg_extra m) (JObj []) in
         if sg_message_type m = ''order_card'' \<and> \<not> truthy extra \<and> sg_content m \<noteq> []
         then (case parse (sg_content m) of Some (JObj kvs) \<Rightarrow> JObj kvs | _ \<Rightarrow> JObj []) else extra),
      sg_image_url := sign_asset_url c now (sg_image_url m),
      sg_image_thumb_url := sign_asset_url c now (sg_image_thumb_url m)\<rparr>"

section \<open>Connections\<close>

datatype side = User | Admin | Merchant

text \<open>The rooms that have been opened, with the sockets of each side.\<close>

type_synonym room = "side \<Rightarrow> nat list"
type_synonym hub = "(string \<times> room) list"

definition empty_room :: room where "empty_room = (\<lambda>s. [])"

definition room_of :: "hub \<Rightarrow> string \<Rightarrow> room" where
  "room_of h cid = (case map_of h cid of Some r \<Rightarrow> r | None \<Rightarrow> empty_room)"

definition hub_connect :: "string \<Rightarrow> side \<Rightarrow> nat \<Rightarrow> hub \<Rightarrow> hub" where
  "hub_connect cid s sock h =
    AList.update cid ((room_of h cid)(s := List.insert sock (room_of h cid s))) h"

definition hub_disconnect :: "string \<Rightarrow> side \<Rightarrow> nat \<Rightarrow> hub \<Rightarrow> hub" where
  "hub_disconnect cid s sock h =
    (case map_of h cid of
       None \<Rightarrow> h
     | Some r \<Rightarrow>
         (let r' = r(s := removeAll sock (r s)) in
          if r' User = [] \<and> r' Admin = [] \<and> r' Merchant = [] then AList.delete cid h
          else AList.update cid r' h))"

definition is_online :: "hub \<Rightarrow> string \<Rightarrow> side \<Rightarrow> bool" where
  "is_online h cid s \<longleftrightarrow> room_of h cid s \<noteq> []"

datatype frame =
    Presence side bool
  | Pong
  | Typing side bool
  | Refused string
  | Chat support_message
  | Status string

type_synonym sent = "(nat \<times> frame) list"

definition members :: "hub \<Rightarrow> string \<Rightarrow> (side \<times> nat) list" where
  "members h cid = concat (map (\<lambda>s. map (Pair s) (room_of h cid s)) [User, Admin, Merchant])"

definition broadcast :: "(nat \<Rightarrow> bool) \<Rightarrow> string \<Rightarrow> frame \<Rightarrow> hub \<Rightarrow> sent \<times> hub" where
  "broadcast alive cid f h =
    (map (\<lambda>(s, sock). (sock, f)) (filter (\<lambda>(s, sock). alive sock) (members h cid)),
     fold (\<lambda>(s, sock). hub_disconnect cid s sock) (filter (\<lambda>(s, sock). \<not> alive sock) (members h cid)) h)"

section \<open>Rows\<close>

text \<open>The time of the last change moves when an attribute changes.\<close>

definition saved_conversation :: "time \<Rightarrow> (conversation \<Rightarrow> conversation) \<Rightarrow> conversation \<Rightarrow> conversation" where
  "saved_conversation now f x = (let y = f x in if y = x then x else y\<lparr>cv_updated_at := now\<rparr>)"

definition write_conversation :: "time \<Rightarrow> string \<Rightarrow> (conversation \<Rightarrow> conversation) \<Rightarrow> db \<Rightarrow> db" where
  "write_conversation now cid f d =
    d\<lparr>conversations := update_by cv_id cid (saved_conversation now f) (conversations d)\<rparr>"

definition stamp_if :: "bool \<Rightarrow> time \<Rightarrow> time option \<Rightarrow> time option" where
  "stamp_if b now t = (if b then Some now else t)"

definition present :: "hub \<Rightarrow> string \<Rightarrow> time \<Rightarrow> conversation \<Rightarrow> conversation" where
  "present h cid now x =
    x\<lparr>cv_user_online := is_online h cid User, cv_admin_online := is_online h cid Admin,
      cv_merchant_online := is_online h cid Merchant,
      cv_last_user_online_at := stamp_if (is_online h cid User) now (cv_last_user_online_at x),
      cv_last_admin_online_at := stamp_if (is_online h cid Admin) now (cv_last_admin_online_at x),
      cv_last_merchant_online_at := stamp_if (is_online h cid Merchant) now (cv_last_merchant_online_at x)\<rparr>"

definition sync_presence :: "time \<Rightarrow> hub \<Rightarrow> string \<Rightarrow> db \<Rightarrow> db" where
  "sync_presence now h cid d = write_conversation now cid (present h cid now) d"

definition message_preview :: "string \<Rightarrow> string \<Rightarrow> string" where
  "message_preview content message_type =
    (if message_type = ''image'' then ''[image]''
     else if message_type = ''order_card'' then ''[order card]''
     else take 255 content)"


section \<open>Opening conversations\<close>

definition blank_conversation :: "time \<Rightarrow> string \<Rightarrow> string \<Rightarrow> string \<Rightarrow> string \<Rightarrow> conversation" where
  "blank_conversation now cid uid uname ty =
    \<lparr>cv_id = cid, cv_user_id = uid, cv_user_name = uname, cv_status = ''open'', cv_last_message = [],
     cv_unread_admin = 0, cv_unread_user = 0, cv_unread_merchant = 0, cv_conversation_type = ty,
     cv_order_id = 0, cv_order_no = [], cv_product_id = 0, cv_product_name = [], cv_school_id = 0,
     cv_school_name = [], cv_user_online = False, cv_admin_online = False, cv_merchant_online = False,
     cv_last_user_online_at = None, cv_last_admin_online_at = None, cv_last_merchant_online_at = None,
     cv_updated_at = now\<rparr>"

definition newest_conversations :: "conversation list \<Rightarrow> conversation list" where
  "newest_conversations cs = sort_key (\<lambda>x. - cv_updated_at x) cs"

definition payload_text :: "json \<Rightarrow> string \<Rightarrow> string" where
  "payload_text p k = strip (str_json (json_or (jget p k) (JStr [])))"

definition payload_name :: "json \<Rightarrow> user_account \<Rightarrow> string" where
  "payload_name p u =
    strip (str_json (json_or (jget p ''user_name'') (JStr (str_or (ua_nickname u) (ua_user_no u)))))"

definition stored_conversation :: "string \<Rightarrow> db \<Rightarrow> (conversation \<times> db) result" where
  "stored_conversation cid d =
    (case find_conversation d cid of Some x \<Rightarrow> Inr (x, d) | None \<Rightarrow> Inl (RuntimeError ''InvalidRequestError''))"

definition create_conversation :: "time \<Rightarrow> db \<Rightarrow> json \<Rightarrow> user_account \<Rightarrow> (conversation \<times> db) result" where
  "create_conversation now d p u =
    (let uid = payload_text p ''user_id''; uname = payload_name p u in
     if ua_user_no u \<noteq> uid then Inl (HTTPException 403 ''forbidden'')
     else case newest_conversations (filter (\<lambda>x. cv_user_id x = uid \<and> cv_conversation_type x = ''platform'') (conversations d)) of
       [] \<Rightarrow>
         (case draw_no ''uuid4'' d of
            (cid, d1) \<Rightarrow>
              stored_conversation cid
                (d1\<lparr>conversations := conversations d1 @ [blank_conversation now cid uid uname ''platform'']\<rparr>))
     | x # _ \<Rightarrow>
         stored_conversation (cv_id x)
           (write_conversation now (cv_id x) (\<lambda>y. y\<lparr>cv_user_name := uname, cv_status := ''open''\<rparr>) d))"

text \<open>What a conversation about an order copies from the order.\<close>

record about =
  ab_order_id :: int
  ab_order_no :: string
  ab_product_id :: int
  ab_product_name :: string
  ab_school_id :: int
  ab_payment_status :: payment_status

definition about_study :: "study_order \<Rightarrow> about" where
  "about_study o1 =
    \<lparr>ab_order_id = so_id o1, ab_order_no = so_order_no o1, ab_product_id = so_product_id o1,
     ab_product_name = so_product_name o1, ab_school_id = so_school_id o1, ab_payment_status = so_payment_status o1\<rparr>"

definition about_standard :: "db \<Rightarrow> commerce_order \<Rightarrow> about" where
  "about_standard d o1 =
    (let first = (case get_order_items d (co_id o1) of i # _ \<Rightarrow> Some i | [] \<Rightarrow> None) in
     \<lparr>ab_order_id = co_id o1, ab_order_no = co_order_no o1,
      ab_product_id = (case first of Some i \<Rightarrow> oi_product_id i | None \<Rightarrow> 0),
      ab_product_name = (case first of Some i \<Rightarrow> oi_product_name i | None \<Rightarrow> ''study order''),
      ab_school_id = int_or (co_school_id o1) (case first of Some i \<Rightarrow> oi_school_id i | None \<Rightarrow> 0),
      ab_payment_status = co_payment_status o1\<rparr>)"

text \<open>The study order with that id or number comes before the standard order.\<close>

definition find_about :: "db \<Rightarrow> int \<Rightarrow> int \<Rightarrow> string \<Rightarrow> about option" where
  "find_about d uid order_id order_no =
    (case List.find (\<lambda>o1. so_user_id o1 = uid \<and>
         (if order_id \<noteq> 0 then so_id o1 = order_id else so_order_no o1 = order_no)) (study_orders d) of
       Some o1 \<Rightarrow> Some (about_study o1)
     | None \<Rightarrow>
         map_option (about_standard d)
           (List.find (\<lambda>o1. co_user_id o1 = uid \<and>
              (if order_id \<noteq> 0 then co_id o1 = order_id else co_order_no o1 = order_no)) (orders d)))"

definition order_conversation :: "db \<Rightarrow> string \<Rightarrow> about \<Rightarrow> conversation option" where
  "order_conversation d uid a =
    List.find (\<lambda>x. cv_conversation_type x = ''study_order'' \<and> cv_order_id x = ab_order_id a \<and>
      cv_order_no x = ab_order_no a \<and> cv_user_id x = uid) (conversations d)"

definition create_order_conversation :: "time \<Rightarrow> db \<Rightarrow> json \<Rightarrow> user_account \<Rightarrow> (conversation \<times> db) result" where
  "create_order_conversation now d p u =
    (let uid = payload_text p ''user_id''; uname = payload_name p u; order_no = payload_text p ''order_no'' in
     case json_int (json_or (jget p ''order_id'') (JInt 0)) of
       None \<Rightarrow> Inl (RuntimeError ''ValueError'')
     | Some order_id \<Rightarrow>
         if ua_user_no u \<noteq> uid then Inl (HTTPException 403 ''forbidden'')
         else if order_id = 0 \<and> order_no = [] then Inl (HTTPException 400 ''missing order'')
         else case find_about d (ua_id u) order_id order_no of
           None \<Rightarrow> Inl (HTTPException 404 ''study order not found'')
         | Some a \<Rightarrow>
             if ab_payment_status a \<noteq> PayPaid then Inl (HTTPException 400 ''paid order required'')
             else case (if ab_school_id a = 0 then None else find_school d (ab_school_id a)) of
               None \<Rightarrow> Inl (HTTPException 400 ''school not bound'')
             | Some s \<Rightarrow>
                 (case order_conversation d uid a of
                    None \<Rightarrow>
                      (case draw_no ''uuid4'' d of
                         (cid, d1) \<Rightarrow>
                           stored_conversation cid
                             (d1\<lparr>conversations := conversations d1 @
                               [(blank_conversation now cid uid uname ''study_order'')
                                \<lparr>cv_order_id := ab_order_id a, cv_order_no := ab_order_no a,
                                 cv_product_id := ab_product_id a, cv_product_name := ab_product_name a,
                                 cv_school_id := ab_school_id a, cv_school_name := sc_name s,
                                 cv_last_message := ''order support conversation created''\<rparr>]\<rparr>))
                  | Some x \<Rightarrow>
                      stored_conversation (cv_id x)
                        (write_conversation now (cv_id x)
                          (\<lambda>y. y\<lparr>cv_user_name := uname, cv_status := ''open'', cv_product_name := ab_product_name a,
                                 cv_school_name := sc_name s\<rparr>) d)))"

section \<open>Reading and closing\<close>

definition no_conversation :: error where "no_conversation = HTTPException 404 ''conversation not found''"

definition messages_of :: "db \<Rightarrow> string \<Rightarrow> support_message list" where
  "messages_of d cid = sort_key sg_id (filter (\<lambda>m. sg_conversation_id m = cid) (messages d))"

definition read_messages ::
  "(string \<Rightarrow> json option) \<Rightarrow> config \<Rightarrow> time \<Rightarrow> db \<Rightarrow> string \<Rightarrow> (conversation \<Rightarrow> bool) \<Rightarrow> (conversation \<Rightarrow> conversation)
    \<Rightarrow> (support_message list \<times> db) result" where
  "read_messages parse c now d cid may seen =
    (case find_conversation d cid of
       None \<Rightarrow> Inl no_conversation
     | Some x \<Rightarrow>
         if \<not> may x then Inl no_conversation
         else Inr (map (shown_message parse c now) (messages_of d cid), write_conversation now cid seen d))"

definition user_messages :: "(string \<Rightarrow> json option) \<Rightarrow> config \<Rightarrow> time \<Rightarrow> db \<Rightarrow> string \<Rightarrow> user_account
    \<Rightarrow> (support_message list \<times> db) result" where
  "user_messages parse c now d cid u =
    read_messages parse c now d cid (\<lambda>x. cv_user_id x = ua_user_no u) (\<lambda>x. x\<lparr>cv_unread_user := 0\<rparr>)"

definition admin_messages :: "(string \<Rightarrow> json option) \<Rightarrow> config \<Rightarrow> time \<Rightarrow> db \<Rightarrow> string
    \<Rightarrow> (support_message list \<times> db) result" where
  "admin_messages parse c now d cid =
    read_messages parse c now d cid (\<lambda>x. True) (\<lambda>x. x\<lparr>cv_unread_admin := 0\<rparr>)"

definition merchant_messages :: "(string \<Rightarrow> json option) \<Rightarrow> config \<Rightarrow> time \<Rightarrow> db \<Rightarrow> string \<Rightarrow> school_site
    \<Rightarrow> (support_message list \<times> db) result" where
  "merchant_messages parse c now d cid school =
    read_messages parse c now d cid (\<lambda>x. cv_school_id x = sc_id school) (\<lambda>x. x\<lparr>cv_unread_merchant := 0\<rparr>)"

definition admin_conversations :: "db \<Rightarrow> conversation list" where
  "admin_conversations d = newest_conversations (conversations d)"

definition merchant_conversations :: "db \<Rightarrow> school_site \<Rightarrow> conversation list" where
  "merchant_conversations d school =
    newest_conversations (filter (\<lambda>x. cv_school_id x = sc_id school \<and> cv_conversation_type x = ''study_order'') (conversations d))"

definition close_conversation ::
  "time \<Rightarrow> (nat \<Rightarrow> bool) \<Rightarrow> string \<Rightarrow> db \<Rightarrow> hub \<Rightarrow> (sent \<times> db) result \<times> hub" where
  "close_conversation now alive cid d h =
    (case find_conversation d cid of
       None \<Rightarrow> (Inl no_conversation, h)
     | Some _ \<Rightarrow>
         (case broadcast alive cid (Status ''closed'') h of
            (out, h1) \<Rightarrow> (Inr (out, write_conversation now cid (\<lambda>x. x\<lparr>cv_status := ''closed''\<rparr>) d), h1)))"


section \<open>Web sockets\<close>

definition authorize_support_websocket :: "time \<Rightarrow> db \<Rightarrow> conversation \<Rightarrow> side \<Rightarrow> string \<Rightarrow> bool \<times> db" where
  "authorize_support_websocket now d x s token =
    (case s of
       Admin \<Rightarrow>
         (case load_session_user_by_token now d token (Some ''admin'') of (u, d1) \<Rightarrow> (u \<noteq> None, d1))
     | User \<Rightarrow>
         (case load_session_user_by_token now d token (Some ''user'') of
            (Some u, d1) \<Rightarrow> (cv_user_id x = ua_user_no u, d1) | (None, d1) \<Rightarrow> (False, d1))
     | Merchant \<Rightarrow>
         (case find_school_session d token of
            None \<Rightarrow> (False, d)
          | Some ses \<Rightarrow>
              if sm_expires_at ses < now \<or> sm_school_id ses \<noteq> cv_school_id x then (False, d)
              else case find_school d (sm_school_id ses) of
                None \<Rightarrow> (False, d)
              | Some school \<Rightarrow>
                  if \<not> sc_status school \<or> sc_review_status school \<noteq> RevApproved then (False, d)
                  else (True, d\<lparr>school_sessions := update_by sm_token token
                    (\<lambda>y. y\<lparr>sm_last_seen_at := Some now\<rparr>) (school_sessions d)\<rparr>)))"

text \<open>
  The token of the protocol header, \<open>bearer.\<close> and the token, comes before the one of the
  query; the first protocol of this form counts.
\<close>

definition bearer_prefix :: string where "bearer_prefix = ''bearer.''"

definition resolved_token :: "string \<Rightarrow> string \<Rightarrow> string" where
  "resolved_token protocols query_token =
    (case filter (starts_with bearer_prefix) (map strip (split_on CHR '','' protocols)) of
       [] \<Rightarrow> query_token
     | p # _ \<Rightarrow> strip (drop (length bearer_prefix) p))"

definition side_of :: "string \<Rightarrow> side option" where
  "side_of role = map_of [(''user'', User), (''admin'', Admin), (''merchant'', Merchant)] role"

text \<open>
  What an endpoint does to the world, the database and the hub: \<open>None\<close> is the refusal with
  code 1008, before the socket joins the room.
\<close>

type_synonym world = "db \<times> hub"

definition ws_connect ::
  "time \<Rightarrow> (nat \<Rightarrow> bool) \<Rightarrow> string \<Rightarrow> string \<Rightarrow> string \<Rightarrow> string \<Rightarrow> nat \<Rightarrow> world \<Rightarrow> sent option \<times> world" where
  "ws_connect now alive cid role protocols token sock w =
    (case w of (d, h) \<Rightarrow>
      case side_of role of
        None \<Rightarrow> (None, d, h)
      | Some s \<Rightarrow>
          (case find_conversation d cid of
             None \<Rightarrow> (None, d, h)
           | Some x \<Rightarrow>
               (case authorize_support_websocket now d x s (resolved_token protocols token) of
                  (ok, d1) \<Rightarrow>
                    if \<not> ok then (None, d1, h)
                    else
                      (let h1 = hub_connect cid s sock h in
                       case broadcast alive cid (Presence s True) h1 of
                         (out, h2) \<Rightarrow> (Some out, sync_presence now h1 cid d1, h2)))))"

definition ws_disconnect :: "time \<Rightarrow> (nat \<Rightarrow> bool) \<Rightarrow> string \<Rightarrow> side \<Rightarrow> nat \<Rightarrow> world \<Rightarrow> sent \<times> world" where
  "ws_disconnect now alive cid s sock w =
    (case w of (d, h) \<Rightarrow>
      let h1 = hub_disconnect cid s sock h in
      case broadcast alive cid (Presence s False) h1 of
        (out, h2) \<Rightarrow> (out, sync_presence now h1 cid d, h2))"

text \<open>Any other exception: the socket leaves without a word to the others.\<close>

definition ws_failed :: "time \<Rightarrow> string \<Rightarrow> side \<Rightarrow> nat \<Rightarrow> world \<Rightarrow> world" where
  "ws_failed now cid s sock w =
    (case w of (d, h) \<Rightarrow> let h1 = hub_disconnect cid s sock h in (sync_presence now h1 cid d, h1))"

section \<open>Messages\<close>

text \<open>The fields of an event of type \<open>message\<close>, before the conversation is looked at.\<close>

record draft_message =
  dm_content :: string
  dm_type :: string
  dm_extra :: json
  dm_image_url :: string
  dm_thumb_url :: string

definition event_text :: "(string \<times> json) list \<Rightarrow> string \<Rightarrow> string \<Rightarrow> string" where
  "event_text kvs k dflt = strip (str_json (jget_or kvs k (JStr dflt)))"

definition draft_of :: "(string \<times> json) list \<Rightarrow> draft_message" where
  "draft_of kvs =
    \<lparr>dm_content = take 2000 (event_text kvs ''content'' []), dm_type = str_or (event_text kvs ''message_type'' ''text'') ''text'',
     dm_extra = (case jget (JObj kvs) ''extra'' of JObj e \<Rightarrow> JObj e | _ \<Rightarrow> JObj []),
     dm_image_url = event_text kvs ''image_url'' [], dm_thumb_url = event_text kvs ''image_thumb_url'' []\<rparr>"

text \<open>An order card may carry its fields as the text.\<close>

definition unfold_card :: "(string \<Rightarrow> json option) \<Rightarrow> draft_message \<Rightarrow> draft_message" where
  "unfold_card parse m =
    (if dm_type m = ''order_card'' \<and> \<not> truthy (dm_extra m) \<and> dm_content m \<noteq> []
     then (case parse (dm_content m) of
         Some (JObj kvs) \<Rightarrow>
           m\<lparr>dm_extra := JObj kvs,
             dm_content := take 2000 (str_json (json_or (jget (JObj kvs) ''title'')
               (json_or (jget (JObj kvs) ''orderNo'') (JStr ''[order card]''))))\<rparr>
       | _ \<Rightarrow> m)
     else m)"

datatype draft_check = Skip | Complain string | Go draft_message

definition check_draft :: "(string \<Rightarrow> json option) \<Rightarrow> draft_message \<Rightarrow> draft_check" where
  "check_draft parse m =
    (if dm_type m = ''image'' \<and> dm_image_url m = [] then Complain ''no image address''
     else if dm_type m = ''text'' \<and> dm_content m = [] then Skip
     else
       (let m1 = unfold_card parse m in
        if dm_type m1 = ''order_card'' \<and> \<not> truthy (dm_extra m1) then Skip else Go m1))"

text \<open>The images of an image message must be uploads of the conversation.\<close>

definition asset_of_url :: "config \<Rightarrow> db \<Rightarrow> string \<Rightarrow> uploaded_asset option" where
  "asset_of_url c d url =
    (case extract_asset_reference c url of None \<Rightarrow> None | Some (aid, _) \<Rightarrow> find_by as_id aid (assets d))"

definition resolve_images :: "config \<Rightarrow> db \<Rightarrow> string \<Rightarrow> draft_message \<Rightarrow> draft_message option" where
  "resolve_images c d cid m =
    (if dm_type m \<noteq> ''image'' then Some m
     else case asset_of_url c d (dm_image_url m) of
       None \<Rightarrow> None
     | Some a \<Rightarrow>
         if as_conversation_id a \<noteq> cid \<or> as_source a \<noteq> ''support'' then None
         else
           (let url = asset_api_url c (as_id a) in
            Some (m\<lparr>dm_image_url := url,
              dm_thumb_url := (case asset_of_url c d (dm_thumb_url m) of
                Some t \<Rightarrow> if as_conversation_id t = cid \<and> as_source t = ''support_thumb''
                  then asset_api_url c (as_id t) else url
              | None \<Rightarrow> url)\<rparr>)))"

definition sender_name :: "side \<Rightarrow> conversation \<Rightarrow> string" where
  "sender_name s x =
    (case s of User \<Rightarrow> cv_user_name x
     | Merchant \<Rightarrow> str_or (cv_school_name x) ''Merchant Support''
     | Admin \<Rightarrow> ''Platform Support'')"

fun side_text :: "side \<Rightarrow> string" where
  "side_text User = ''user''"
| "side_text Admin = ''admin''"
| "side_text Merchant = ''merchant''"

text \<open>Every side but the sender's gets one more unread message.\<close>

definition noted :: "side \<Rightarrow> string \<Rightarrow> conversation \<Rightarrow> conversation" where
  "noted s preview x =
    x\<lparr>cv_last_message := preview,
      cv_unread_user := cv_unread_user x + (if s = User then 0 else 1),
      cv_unread_admin := cv_unread_admin x + (if s = Admin then 0 else 1),
      cv_unread_merchant := cv_unread_merchant x + (if s = Merchant then 0 else 1)\<rparr>"

definition new_message :: "time \<Rightarrow> db \<Rightarrow> string \<Rightarrow> side \<Rightarrow> conversation \<Rightarrow> draft_message \<Rightarrow> support_message" where
  "new_message now d cid s x m =
    \<lparr>sg_id = fresh_id sg_id (messages d), sg_conversation_id = cid, sg_sender_role = side_text s,
     sg_sender_name = sender_name s x, sg_content = dm_content m, sg_message_type = dm_type m,
     sg_extra = dm_extra m, sg_image_url = dm_image_url m, sg_image_thumb_url = dm_thumb_url m,
     sg_created_at = now\<rparr>"

definition post_message ::
  "(string \<Rightarrow> json option) \<Rightarrow> config \<Rightarrow> time \<Rightarrow> (nat \<Rightarrow> bool) \<Rightarrow> string \<Rightarrow> side \<Rightarrow> nat \<Rightarrow> draft_message \<Rightarrow> world
    \<Rightarrow> sent \<times> world" where
  "post_message parse c now alive cid s sock m w =
    (case w of (d, h) \<Rightarrow>
      case find_conversation d cid of
        None \<Rightarrow> ([(sock, Refused ''conversation closed'')], d, h)
      | Some x \<Rightarrow>
          if cv_status x \<noteq> ''open'' then ([(sock, Refused ''conversation closed'')], d, h)
          else case resolve_images c d cid m of
            None \<Rightarrow> ([(sock, Refused ''invalid conversation image'')], d, h)
          | Some m1 \<Rightarrow>
              (let msg = new_message now d cid s x m1;
                   d1 = write_conversation now cid (noted s (message_preview (dm_content m1) (dm_type m1)))
                     (d\<lparr>messages := messages d @ [msg]\<rparr>)
               in case broadcast alive cid (Chat (shown_message parse c now msg)) h of
                 (out, h1) \<Rightarrow> (out, d1, h1)))"

text \<open>One event of an open socket; what is not an object ends the connection.\<close>

definition ws_receive ::
  "(string \<Rightarrow> json option) \<Rightarrow> config \<Rightarrow> time \<Rightarrow> (nat \<Rightarrow> bool) \<Rightarrow> string \<Rightarrow> side \<Rightarrow> nat \<Rightarrow> json \<Rightarrow> world
    \<Rightarrow> sent \<times> world" where
  "ws_receive parse c now alive cid s sock data w =
    (case w of (d, h) \<Rightarrow>
      case data of
        JObj kvs \<Rightarrow>
          (let ty = jget_or kvs ''type'' (JStr ''message'') in
           if ty = JStr ''ping'' then ([(sock, Pong)], d, h)
           else if ty = JStr ''typing'' then
             (case broadcast alive cid (Typing s (truthy (jget data ''typing''))) h of (out, h1) \<Rightarrow> (out, d, h1))
           else if ty \<noteq> JStr ''message'' then ([], d, h)
           else case check_draft parse (draft_of kvs) of
             Skip \<Rightarrow> ([], d, h)
           | Complain text \<Rightarrow> ([(sock, Refused text)], d, h)
           | Go m \<Rightarrow> post_message parse c now alive cid s sock m (d, h))
      | _ \<Rightarrow> ([], ws_failed now cid s sock (d, h)))"


section \<open>Images of a conversation\<close>

definition support_asset ::
  "string \<Rightarrow> string \<Rightarrow> user_account option \<Rightarrow> string \<Rightarrow> stored_file \<Rightarrow> string \<Rightarrow> string \<Rightarrow> int \<Rightarrow> uploaded_asset" where
  "support_asset source role u cid stored original mime nbytes =
    (platform_asset source stored original mime nbytes)
    \<lparr>as_uploader_role := role, as_user_id := map_option ua_id u, as_conversation_id := cid\<rparr>"

text \<open>Who may upload; a school is checked by its session only.\<close>

definition check_uploader ::
  "time \<Rightarrow> db \<Rightarrow> string \<Rightarrow> string \<Rightarrow> string option \<Rightarrow> user_account option \<Rightarrow> db result" where
  "check_uploader now d role cid authorization u =
    (let token = (case extract_bearer_token authorization of Some t \<Rightarrow> t | None \<Rightarrow> []) in
     if role \<notin> {''user'', ''admin'', ''merchant''} then Inl (HTTPException 400 ''unsupported upload role'')
     else case (if role = ''admin'' then load_session_user_by_token now d token (Some ''admin'') else (None, d)) of
       (admin, d1) \<Rightarrow>
         if role = ''admin'' \<and> admin = None then Inl (HTTPException 403 ''admin upload forbidden'')
         else case find_conversation d1 cid of
           None \<Rightarrow> Inl no_conversation
         | Some x \<Rightarrow>
             if role = ''user'' \<and> (case u of None \<Rightarrow> True | Some y \<Rightarrow> cv_user_id x \<noteq> ua_user_no y)
             then Inl (HTTPException 403 ''upload forbidden'')
             else if role = ''merchant'' \<and> (case find_school_session d1 token of
                 None \<Rightarrow> True | Some ses \<Rightarrow> sm_expires_at ses < now \<or> sm_school_id ses \<noteq> cv_school_id x)
             then Inl (HTTPException 403 ''merchant upload forbidden'')
             else Inr d1)"

text \<open>
  \<open>thumb\<close> is \<open>build_image_thumbnail\<close>, \<open>None\<close> for a narrow picture; the answer has the
  signed links of the picture and of its thumbnail.
\<close>

definition upload_support_image ::
  "config \<Rightarrow> obs_client \<Rightarrow> (bytes \<Rightarrow> bytes option) \<Rightarrow> time \<Rightarrow> disk \<times> db \<Rightarrow> string \<Rightarrow> string \<Rightarrow> string option
    \<Rightarrow> user_account option \<Rightarrow> upload \<Rightarrow> (string \<times> string \<times> disk \<times> db) result" where
  "upload_support_image c client thumb now st cid role authorization u file =
    (case st of (fs, d) \<Rightarrow>
      case check_uploader now d role cid authorization u of
        Inl e \<Rightarrow> Inl e
      | Inr d1 \<Rightarrow>
          (case check_image image_suffixes (str_or (to_lower (path_suffix (opt_text (up_filename file)))) ''.jpg'')
                  (snd (get_upload_setting d1)) (up_content file) of
             Inl e \<Rightarrow> Inl e
           | Inr _ \<Rightarrow>
               (case save_upload_bytes c client now (up_content file) (up_filename file) (up_content_type file)
                       ''support'' (fs, d1) of
                  Inl e \<Rightarrow> Inl e
                | Inr (stored, fs1, d2) \<Rightarrow>
                    (case add_asset (support_asset ''support'' role u cid stored (opt_text (up_filename file))
                             (opt_text (up_content_type file)) (int (length (up_content file)))) d2 of
                       (aid, d3) \<Rightarrow>
                         (let url = asset_api_url c aid in
                          case thumb (up_content file) of
                            None \<Rightarrow> Inr (sign_asset_url c now url, sign_asset_url c now url, fs1, d3)
                          | Some [] \<Rightarrow> Inr (sign_asset_url c now url, sign_asset_url c now url, fs1, d3)
                          | Some t \<Rightarrow>
                              (case save_upload_bytes c client now t (Some ''thumb.jpg'') (Some ''image/jpeg'')
                                      ''support-thumbs'' (fs1, d3) of
                                 Inl e \<Rightarrow> Inl e
                               | Inr (stored2, fs2, d4) \<Rightarrow>
                                   (case add_asset (support_asset ''support_thumb'' role u cid stored2
                                            (''thumb-'' @ opt_text (up_filename file)) ''image/jpeg'' (int (length t))) d4 of
                                      (tid, d5) \<Rightarrow>
                                        Inr (sign_asset_url c now url, sign_asset_url c now (asset_api_url c tid),
                                             fs2, d5))))))))"

end
