(* ===== verification/Asset_Props.thy ===== *)
theory Asset_Props
  imports Support Custom Samples
begin

text \<open>
  Signed links: a link that the server signs opens the file it names, for whoever holds it.
  And what follows for the messages of a conversation, whose links are all signed.
\<close>

section \<open>Characters of ids and signatures\<close>

lemma digit_digits: "n < 10 \<Longrightarrow> digit_val (digit n) \<noteq> None"
  by (simp add: digit_val_digit)

lemma show_nat_digits: "c \<in> set (show_nat n) \<Longrightarrow> digit_val c \<noteq> None"
proof (induction n rule: show_nat.induct)
  case (1 n)
  then show ?case
    using digit_digits [of n] digit_digits [of "n mod 10"]
    by (subst (asm) (2) show_nat.simps) (auto split: if_splits)
qed

lemma digit_val_Some: "digit_val c \<noteq> None \<Longrightarrow> c \<in> set ''0123456789''"
  by (auto simp: digit_val_def split: if_splits)

definition safe_char :: "char \<Rightarrow> bool" where
  "safe_char c \<longleftrightarrow> (let n = of_char c :: nat in 48 \<le> n \<and> n \<le> 57 \<or> 97 \<le> n \<and> n \<le> 122 \<or> n \<in> {45, 46, 95})"

lemma quote_safe: "list_all safe_char s \<Longrightarrow> quote_plus (utf8 s) = s"
proof (induction s)
  case (Cons c s)
  then have "utf8_char c = [of_char c]" "quote_plus [of_char c] = [c]"
    by (auto simp: utf8_char_def quote_plus_def quote_byte_def safe_char_def Let_def)
  then show ?case
    using Cons by (simp add: utf8_def quote_plus_def)
qed (simp add: utf8_def quote_plus_def)

lemma digits_safe: "list_all safe_char (show_nat n)"
proof -
  have "list_all safe_char ''0123456789''" by code_simp
  then show ?thesis
    using show_nat_digits digit_val_Some by (fastforce simp: list_all_iff)
qed

lemma hex_digit_safe: "n < 16 \<Longrightarrow> safe_char (hex_digit n)"
proof -
  assume n: "n < 16"
  have "list_all safe_char ''0123456789abcdef''" by code_simp
  moreover have "''0123456789abcdef'' ! n \<in> set ''0123456789abcdef''"
    using n by (intro nth_mem) simp
  ultimately show ?thesis by (simp only: hex_digit_def list_all_iff)
qed

lemma hex_safe: "list_all (\<lambda>b. b < 256) bs \<Longrightarrow> list_all safe_char (hex bs)"
proof (induction bs)
  case (Cons b bs)
  then have "b div 16 < 16" "b mod 16 < 16" by auto
  then show ?case
    using Cons by (simp add: hex_def hex_digit_safe)
qed (simp add: hex_def)

lemma word_bytes_small: "list_all (\<lambda>b. b < 256) (word_bytes w)"
proof -
  have "unat w < 4294967296" using unsigned_less [of w] by simp
  then show ?thesis by (simp add: word_bytes_def Let_def)
qed

lemma sha256_small: "list_all (\<lambda>b. b < 256) (sha256 msg)"
  using word_bytes_small by (simp add: sha256_def Let_def)

lemma token_form:
  "\<exists>h. create_asset_access_token c now aid v e = str_int (int_or (case e of Some x \<Rightarrow> x | None \<Rightarrow> 0)
      (unix_seconds now + asset_url_ttl_seconds c)) @ ''.'' @ h \<and> list_all safe_char h"
  by (auto simp: create_asset_access_token_def Let_def hmac_sha256_def hex_safe sha256_small)

lemma str_int_safe: "list_all safe_char (str_int i)"
  by (simp add: str_int_def digits_safe) (simp add: safe_char_def)

lemma token_safe: "list_all safe_char (create_asset_access_token c now aid v e)"
  using token_form [of c now aid v e] str_int_safe by (auto simp: safe_char_def)

section \<open>A token opens its asset\<close>

lemma split_at_none: "(\<And>c. c \<in> set s \<Longrightarrow> \<not> P c) \<Longrightarrow> split_at P s = (s, None)"
proof -
  assume "\<And>c. c \<in> set s \<Longrightarrow> \<not> P c"
  then have "dropWhile (\<lambda>c. \<not> P c) s = []" by simp
  then show ?thesis by (simp only: split_at_def list.case)
qed

lemma split_at_first:
  "(\<And>c. c \<in> set s \<Longrightarrow> \<not> P c) \<Longrightarrow> P x \<Longrightarrow> split_at P (s @ x # t) = (s, Some t)"
  by (simp add: split_at_def)

lemma str_int_no_dot: "c \<in> set (str_int i) \<Longrightarrow> c \<noteq> CHR ''.''"
  using show_nat_digits digit_val_Some by (fastforce simp: str_int_def split: if_splits)

lemma token_verifies:
  assumes "0 < asset_url_ttl_seconds c" and "0 \<le> now"
  shows "verify_asset_access_token c now aid v (create_asset_access_token c now aid v' None)"
proof -
  define e where "e = unix_seconds now + asset_url_ttl_seconds c"
  have e: "e \<noteq> 0" "unix_seconds now \<le> e"
    using assms by (auto simp: e_def unix_seconds_def)
  obtain h where t: "create_asset_access_token c now aid v' None = str_int e @ ''.'' @ h"
    using token_form [of c now aid v' None] by (auto simp: int_or_def e_def)
  have "create_asset_access_token c now aid v (Some e) = create_asset_access_token c now aid v' None"
    using e(1) by (simp add: create_asset_access_token_def int_or_def e_def Let_def)
  moreover have "split_at (\<lambda>x. x = CHR ''.'') (str_int e @ ''.'' @ h) = (str_int e, Some h)"
    using split_at_first [of "str_int e" "\<lambda>x. x = CHR ''.''" "CHR ''.''" h] str_int_no_dot by auto
  ultimately show ?thesis
    using e t by (simp add: verify_asset_access_token_def)
qed

section \<open>Links of assets\<close>

text \<open>The settings' own prefix of the interface.\<close>

abbreviation asset_path :: "nat \<Rightarrow> string" where
  "asset_path n \<equiv> ''/api/v1/public/assets/'' @ show_nat n @ ''/file''"

lemma show_nat_not: "digit_val x = None \<Longrightarrow> x \<notin> set (show_nat n)"
  using show_nat_digits [of x n] by auto

lemma asset_path_chars: "x \<in> set (asset_path n) \<Longrightarrow> x \<noteq> CHR '':'' \<and> x \<noteq> CHR ''#'' \<and> x \<noteq> CHR ''?''"
  using show_nat_not [of x n] by (auto simp: digit_val_def)

lemma digits_then_path: "digits_then (show_nat n @ ''/file'') = Some (show_nat n, ''file'')"
proof -
  have "takeWhile (\<lambda>c. digit_val c \<noteq> None) (show_nat n @ ''/file'') = show_nat n"
    "dropWhile (\<lambda>c. digit_val c \<noteq> None) (show_nat n @ ''/file'') = ''/file''"
    using show_nat_digits by (simp_all add: digit_val_def)
  then show ?thesis by (simp add: digits_then_def)
qed

lemma asset_path_read:
  assumes "api_prefix c = ''/api/v1''"
  shows "extract_asset_reference c (asset_path n) = Some (int n, ''file'')"
proof -
  have s: "split_at (\<lambda>x. x = CHR '':'') (asset_path n) = (asset_path n, None)"
    by (rule split_at_none) (use asset_path_chars in blast)
  have "takeWhile (\<lambda>x. x \<noteq> CHR 0x3F \<and> x \<noteq> CHR 0x23) (asset_path n) = asset_path n"
    using asset_path_chars by (intro takeWhile_eq_all_conv [THEN iffD2]) auto
  then have u: "url_path (asset_path n) = asset_path n"
    using s by (simp add: url_path_def after_scheme_def)
  have "search_asset ''/api/v1/public/assets/'' (asset_path n) = Some (show_nat n, ''file'')"
    using digits_then_path [of n] by simp
  then show ?thesis
    using assms u by (simp add: extract_asset_reference_def parse_show_nat)
qed

lemma signed_path:
  assumes "api_prefix c = ''/api/v1''"
  shows "sign_asset_url c now (asset_path n) =
    asset_path n @ ''?asset_token='' @ create_asset_access_token c now (int n) ''file'' None"
proof -
  have s: "split_at (\<lambda>x. x = CHR ''#'') (asset_path n) = (asset_path n, None)"
    "split_at (\<lambda>x. x = CHR ''?'') (asset_path n) = (asset_path n, None)"
    by (rule split_at_none, use asset_path_chars in blast)+
  have "quote_plus (utf8 ''asset_token'') = ''asset_token''"
    by code_simp
  then show ?thesis
    using s asset_path_read [OF assms, of n] quote_safe [OF token_safe]
    by (simp add: sign_asset_url_def parse_query_def urlencode_def)
qed

section \<open>Messages\<close>

definition text_with_image :: "string \<Rightarrow> json" where
  "text_with_image url = JObj [(''content'', JStr ''hi''), (''image_url'', JStr url)]"

lemma broadcast_reaches:
  "sock \<in> set (room_of h cid s) \<Longrightarrow> alive sock \<Longrightarrow> (sock, f) \<in> set (fst (broadcast alive cid f h))"
  by (cases s) (force simp: broadcast_def members_def)+

lemma strip_path: "strip (asset_path n) = asset_path n"
  by (simp add: strip_def lstrip_def is_space_def)

lemma text_with_image_goes:
  assumes "strip url = url"
  shows "check_draft parse (draft_of [(''content'', JStr ''hi''), (''image_url'', JStr url)]) =
    Go \<lparr>dm_content = ''hi'', dm_type = ''text'', dm_extra = JObj [], dm_image_url = url, dm_thumb_url = []\<rparr>"
proof -
  have "strip ''hi'' = ''hi''" "strip ''text'' = ''text''" by code_simp+
  then show ?thesis
    using assms
    by (simp add: check_draft_def unfold_card_def draft_of_def event_text_def jget_or_def str_json_def
        str_or_def)
qed

text \<open>
  C31 Only image messages have their links checked; a text message keeps whatever link it comes with,
  and the server signs the links of every message it sends. So whoever may write in one open
  conversation gets, for any private file, a link with a token that opens the file without
  any further authorization.
\<close>

theorem foreign_asset_signed:
  assumes "api_prefix c = ''/api/v1''" "0 < asset_url_ttl_seconds c" "0 \<le> now"
    and x: "find_conversation d cid = Some x" "cv_status x = ''open''"
    and sock: "sock \<in> set (room_of h cid User)" "alive sock"
    and a: "0 \<le> as_id a"
  shows "\<exists>m tok. (sock, Chat m) \<in> set (fst (ws_receive parse c now alive cid User sock
             (text_with_image (asset_api_url c (as_id a))) (d, h))) \<and>
           sg_image_url m = asset_api_url c (as_id a) @ ''?asset_token='' @ tok \<and>
           (\<forall>hdr v. \<exists>b. authorize_asset c now d a hdr v tok = Inr b)"
proof -
  define n where "n = nat (as_id a)"
  define tok where "tok = create_asset_access_token c now (as_id a) ''file'' None"
  have url: "asset_api_url c (as_id a) = asset_path n"
    using assms(1) a by (simp add: asset_api_url_def str_int_def n_def)
  obtain url' where url': "url' = asset_path n" by simp
  have signed: "sign_asset_url c now url' = url' @ ''?asset_token='' @ tok"
    using signed_path [OF assms(1), of now n] a by (simp add: url' tok_def n_def)
  obtain m where sent: "(sock, Chat m) \<in> set (fst (ws_receive parse c now alive cid User sock (text_with_image url') (d, h)))"
    and m: "sg_image_url m = sign_asset_url c now url'"
  proof (rule that)
    let ?m = "\<lparr>dm_content = ''hi'', dm_type = ''text'', dm_extra = JObj [], dm_image_url = url', dm_thumb_url = []\<rparr>"
    let ?msg = "shown_message parse c now (new_message now d cid User x ?m)"
    have "ws_receive parse c now alive cid User sock (text_with_image url') (d, h) =
        post_message parse c now alive cid User sock ?m (d, h)"
      using text_with_image_goes [of url'] strip_path [of n]
      by (simp add: ws_receive_def text_with_image_def url' jget_or_def)
    then show "(sock, Chat ?msg) \<in> set (fst (ws_receive parse c now alive cid User sock (text_with_image url') (d, h)))"
      using x broadcast_reaches [where alive = alive and s = User, OF sock, of "Chat ?msg"]
      by (simp add: post_message_def resolve_images_def Let_def case_prod_beta)
    show "sg_image_url ?msg = sign_asset_url c now url'"
      by (simp add: shown_message_def new_message_def)
  qed
  have "\<exists>b. authorize_asset c now d a hdr v tok = Inr b" for hdr v
    using token_verifies [OF assms(2,3), of "as_id a" v "''file''"] by (auto simp: authorize_asset_def tok_def)
  then show ?thesis
    using sent m signed url url' by auto
qed

definition chat_db :: db where
  "chat_db = empty_db\<lparr>conversations := [blank_conversation 5 ''c1'' ''U1'' ''Li'' ''platform'']\<rparr>"

definition contract_asset :: uploaded_asset where
  "contract_asset = \<lparr>as_id = 9, as_source = ''contract'', as_storage = ''local'', as_bucket = [],
     as_object_key = ''contract/9.pdf'', as_path = [], as_url = [], as_filename = ''9.pdf'', as_original_name = [],
     as_mime_type = [], as_size = 3, as_uploader_role = ''admin'', as_user_id = Some 4,
     as_conversation_id = []\<rparr>"

lemma foreign_asset_signed_witness:
  "\<forall>parse. \<exists>m tok. (3, Chat m) \<in> set (fst (ws_receive parse default_config 1000000 (\<lambda>s. True) ''c1'' User 3
       (text_with_image (asset_api_url default_config 9)) (chat_db, hub_connect ''c1'' User 3 []))) \<and>
     sg_image_url m = asset_api_url default_config 9 @ ''?asset_token='' @ tok \<and>
     (\<forall>hdr v. \<exists>b. authorize_asset default_config 1000000 chat_db contract_asset hdr v tok = Inr b)"
proof
  fix parse
  have "find_conversation chat_db ''c1'' = Some (blank_conversation 5 ''c1'' ''U1'' ''Li'' ''platform'')"
    "cv_status (blank_conversation 5 ''c1'' ''U1'' ''Li'' ''platform'') = ''open''"
    "3 \<in> set (room_of (hub_connect ''c1'' User 3 []) ''c1'' User)"
    "api_prefix default_config = ''/api/v1''" "asset_url_ttl_seconds default_config = 900"
    "as_id contract_asset = 9"
    by code_simp+
  then show "\<exists>m tok. (3, Chat m) \<in> set (fst (ws_receive parse default_config 1000000 (\<lambda>s. True) ''c1'' User 3
       (text_with_image (asset_api_url default_config 9)) (chat_db, hub_connect ''c1'' User 3 []))) \<and>
     sg_image_url m = asset_api_url default_config 9 @ ''?asset_token='' @ tok \<and>
     (\<forall>hdr v. \<exists>b. authorize_asset default_config 1000000 chat_db contract_asset hdr v tok = Inr b)"
    using foreign_asset_signed [of default_config 1000000 chat_db "''c1''" _ 3 "hub_connect ''c1'' User 3 []"
        "\<lambda>s. True" contract_asset parse] by simp
qed

section \<open>Two more findings on uploads\<close>

text \<open>
  A thumbnail that the server caches beside the uploads is registered as a picture of the
  source \<open>common\<close>, which everybody may read, whatever file it is the thumbnail of.
\<close>

lemma cached_thumbnail_public:
  "is_public_asset_source (as_source (found_asset fs (thumb_file aid)))"
proof -
  have "source_of_key (''.thumb-cache/'' @ s) = ''common''" for s
    by (simp add: source_of_key_def starts_with_def)
  moreover have "is_public_asset_source ''common''" by code_simp
  ultimately show ?thesis by (simp add: found_asset_def thumb_file_def)
qed

text \<open>A user's first request for certification always fails.\<close>

lemma first_certification_fails:
  "certification_of d (ua_id u) = None \<Longrightarrow>
    \<exists>e. fst (submit_graduation_certification c client now (fs, d) f file u) = Inl e"
  by (auto simp: submit_graduation_certification_def Let_def insert_draft_def new_draft_def
      split: sum.split prod.split)

end
