(* ===== verification/Chat_Machine.thy ===== *)
theory Chat_Machine
  imports Support
begin

text \<open>
  The conversations, their messages and the open sockets as a state machine over all the
  operations of \<open>app/api/support.py\<close> that change them: what holds in every state it reaches.
\<close>

section \<open>Invariants\<close>

definition unread :: "side \<Rightarrow> conversation \<Rightarrow> int" where
  "unread s x = (case s of User \<Rightarrow> cv_unread_user x | Admin \<Rightarrow> cv_unread_admin x | Merchant \<Rightarrow> cv_unread_merchant x)"

definition online :: "side \<Rightarrow> conversation \<Rightarrow> bool" where
  "online s x = (case s of User \<Rightarrow> cv_user_online x | Admin \<Rightarrow> cv_admin_online x | Merchant \<Rightarrow> cv_merchant_online x)"

definition from_others :: "support_message list \<Rightarrow> string \<Rightarrow> side \<Rightarrow> nat" where
  "from_others ms cid s = length (filter (\<lambda>m. sg_conversation_id m = cid \<and> sg_sender_role m \<noteq> side_text s) ms)"

text \<open>A counter never shows more than the messages that the other sides sent.\<close>

definition counted :: "support_message list \<Rightarrow> conversation \<Rightarrow> bool" where
  "counted ms x \<longleftrightarrow> (\<forall>s. 0 \<le> unread s x \<and> unread s x \<le> int (from_others ms (cv_id x) s))"

definition chats_ok :: "conversation list \<Rightarrow> support_message list \<Rightarrow> bool" where
  "chats_ok cs ms \<longleftrightarrow> distinct (map cv_id cs) \<and> (\<forall>x\<in>set cs. counted ms x) \<and>
     sorted_wrt (<) (map sg_id ms) \<and> sg_conversation_id ` set ms \<subseteq> cv_id ` set cs"

text \<open>Rooms belong to conversations, hold somebody and nobody twice.\<close>

definition hub_ok :: "string set \<Rightarrow> hub \<Rightarrow> bool" where
  "hub_ok cids h \<longleftrightarrow> distinct (map fst h) \<and>
     (\<forall>(cid, r)\<in>set h. cid \<in> cids \<and> r \<noteq> empty_room \<and> (\<forall>s. distinct (r s)))"

definition presence_ok :: "conversation list \<Rightarrow> hub \<Rightarrow> bool" where
  "presence_ok cs h \<longleftrightarrow> (\<forall>x\<in>set cs. \<forall>s. online s x = is_online h (cv_id x) s)"

abbreviation cids :: "db \<Rightarrow> string set" where
  "cids d \<equiv> cv_id ` set (conversations d)"

section \<open>The machine\<close>

text \<open>
  \<open>alive\<close> says which sockets still take frames. A new conversation has an id that no other
  has (\<open>uuid4\<close>). What the rest of the program does leaves the two tables alone.
\<close>

inductive chat_step ::
  "(string \<Rightarrow> json option) \<Rightarrow> config \<Rightarrow> (nat \<Rightarrow> bool) \<Rightarrow> world \<Rightarrow> world \<Rightarrow> bool"
  for parse c alive where
  opened: "create_conversation now d p u = Inr (x, d') \<Longrightarrow> fst (draw_no ''uuid4'' d) \<notin> cids d
    \<Longrightarrow> chat_step parse c alive (d, h) (d', h)"
| opened_order: "create_order_conversation now d p u = Inr (x, d') \<Longrightarrow> fst (draw_no ''uuid4'' d) \<notin> cids d
    \<Longrightarrow> chat_step parse c alive (d, h) (d', h)"
| read_user: "user_messages parse c now d cid u = Inr (ms, d') \<Longrightarrow> chat_step parse c alive (d, h) (d', h)"
| read_admin: "admin_messages parse c now d cid = Inr (ms, d') \<Longrightarrow> chat_step parse c alive (d, h) (d', h)"
| read_merchant: "merchant_messages parse c now d cid school = Inr (ms, d')
    \<Longrightarrow> chat_step parse c alive (d, h) (d', h)"
| closed: "close_conversation now alive cid d h = (Inr (out, d'), h') \<Longrightarrow> chat_step parse c alive (d, h) (d', h')"
| connects: "ws_connect now alive cid role protocols token sock w = (out, w') \<Longrightarrow> chat_step parse c alive w w'"
| receives: "ws_receive parse c now alive cid s sock data w = (out, w') \<Longrightarrow> chat_step parse c alive w w'"
| leaves: "ws_disconnect now alive cid s sock w = (out, w') \<Longrightarrow> chat_step parse c alive w w'"
| breaks: "chat_step parse c alive w (ws_failed now cid s sock w)"
| elsewhere: "conversations d' = conversations d \<Longrightarrow> messages d' = messages d
    \<Longrightarrow> chat_step parse c alive (d, h) (d', h)"

definition chat_init :: "world \<Rightarrow> bool" where
  "chat_init w \<longleftrightarrow> conversations (fst w) = [] \<and> messages (fst w) = [] \<and> snd w = []"

section \<open>Rooms\<close>

lemma side_all: "(\<forall>s. P s) \<longleftrightarrow> P User \<and> P Admin \<and> P Merchant"
  by (metis side.exhaust)

lemma room_ext: "r User = [] \<Longrightarrow> r Admin = [] \<Longrightarrow> r Merchant = [] \<Longrightarrow> r = empty_room"
  by (rule ext) (metis empty_room_def side.exhaust)

lemma room_of_connect:
  "room_of (hub_connect cid s sock h) k =
    (if k = cid then (room_of h cid)(s := List.insert sock (room_of h cid s)) else room_of h k)"
  by (simp add: room_of_def hub_connect_def update_conv')

lemma room_of_disconnect:
  "room_of (hub_disconnect cid s sock h) k =
    (if k = cid then (room_of h cid)(s := removeAll sock (room_of h cid s)) else room_of h k)"
proof (cases "map_of h cid")
  case None
  then show ?thesis by (auto simp: room_of_def hub_disconnect_def empty_room_def)
next
  case (Some r)
  let ?r = "r(s := removeAll sock (r s))"
  have "?r = empty_room" if "?r User = [] \<and> ?r Admin = [] \<and> ?r Merchant = []"
    using that room_ext by blast
  then show ?thesis
    using Some by (auto simp: room_of_def hub_disconnect_def Let_def update_conv' delete_conv' restrict_map_def)
qed

lemma alist_update_mem: "(k, q) \<in> set (AList.update c r h) \<Longrightarrow> (k, q) \<in> set h \<or> k = c \<and> q = r"
  by (induction h) (auto split: if_splits)

lemma hub_ok_update:
  assumes ok: "hub_ok ids h" and r: "cid \<in> ids" "r \<noteq> empty_room" "\<And>s. distinct (r s)"
  shows "hub_ok ids (AList.update cid r h)"
proof -
  have "k \<in> ids \<and> q \<noteq> empty_room \<and> (\<forall>t. distinct (q t))" if "(k, q) \<in> set (AList.update cid r h)" for k q
    using alist_update_mem [OF that] ok r by (auto simp: hub_ok_def)
  then show ?thesis
    using ok by (auto simp: hub_ok_def distinct_update)
qed

lemma room_distinct: "hub_ok ids h \<Longrightarrow> distinct (room_of h cid s)"
  by (cases "map_of h cid") (auto simp: hub_ok_def room_of_def empty_room_def dest: map_of_SomeD)

lemma hub_ok_connect:
  assumes ok: "hub_ok ids h" and cid: "cid \<in> ids"
  shows "hub_ok ids (hub_connect cid s sock h)"
  unfolding hub_connect_def
proof (rule hub_ok_update [OF ok cid])
  let ?r = "(room_of h cid)(s := List.insert sock (room_of h cid s))"
  have "sock \<in> set (?r s)" by simp
  then show "?r \<noteq> empty_room" by (metis empty_iff empty_room_def list.set(1))
  show "distinct (?r t)" for t using room_distinct [OF ok] by simp
qed

lemma hub_ok_disconnect:
  assumes ok: "hub_ok ids h"
  shows "hub_ok ids (hub_disconnect cid s sock h)"
proof (cases "map_of h cid")
  case None
  then show ?thesis using ok by (simp add: hub_disconnect_def)
next
  case (Some r)
  let ?r = "r(s := removeAll sock (r s))"
  have cid: "cid \<in> ids" and d: "distinct (?r t)" for t
    using ok map_of_SomeD [OF Some] by (auto simp: hub_ok_def distinct_removeAll)
  have "hub_ok ids (AList.delete cid h)"
    using ok by (auto simp: hub_ok_def distinct_map_filter AList.delete_eq)
  moreover have "?r \<noteq> empty_room" if "\<not> (?r User = [] \<and> ?r Admin = [] \<and> ?r Merchant = [])"
    using that by (metis empty_room_def)
  ultimately show ?thesis
    using Some hub_ok_update [OF ok cid, of ?r] d by (auto simp: hub_disconnect_def Let_def)
qed

lemma hub_ok_broadcast: "hub_ok ids h \<Longrightarrow> hub_ok ids (snd (broadcast alive cid f h))"
proof -
  have "hub_ok ids (fold (\<lambda>(s, sock). hub_disconnect cid s sock) xs h)" if "hub_ok ids h" for xs
    using that by (induction xs arbitrary: h) (auto simp: hub_ok_disconnect)
  then show "hub_ok ids h \<Longrightarrow> hub_ok ids (snd (broadcast alive cid f h))"
    by (simp add: broadcast_def)
qed

lemma broadcast_alive: "(\<And>s. alive s) \<Longrightarrow> snd (broadcast alive cid f h) = h"
  by (simp add: broadcast_def case_prod_beta)

section \<open>Rows\<close>

lemma saved_fields [simp]:
  "cv_id (saved_conversation now f x) = cv_id (f x)"
  "unread s (saved_conversation now f x) = unread s (f x)"
  "online s (saved_conversation now f x) = online s (f x)"
  by (cases s; simp add: saved_conversation_def unread_def online_def Let_def)+

lemma from_others_more: "from_others ms cid s \<le> from_others (ms @ [m]) cid s"
  by (simp add: from_others_def)

lemma counted_more: "counted ms x \<Longrightarrow> counted (ms @ [m]) x"
  unfolding counted_def by (meson from_others_more of_nat_le_iff order_trans)

definition touches :: "(conversation \<Rightarrow> conversation) \<Rightarrow> bool" where
  "touches f \<longleftrightarrow> (\<forall>x. cv_id (f x) = cv_id x \<and> (\<forall>s. online s (f x) = online s x \<and> unread s (f x) \<in> {unread s x, 0}))"

lemma touched_counted: "touches f \<Longrightarrow> counted ms x \<Longrightarrow> counted ms (saved_conversation now f x)"
  by (auto simp: counted_def touches_def) (metis order_refl of_nat_0_le_iff)+

lemma saved_ids:
  assumes "\<And>x. cv_id (f x) = cv_id x"
  shows "map cv_id (update_by cv_id cid (saved_conversation now f) cs) = map cv_id cs"
  by (rule map_key_update_by) (simp add: assms)

lemma cids_update:
  assumes "\<And>x. cv_id (f x) = cv_id x"
  shows "cv_id ` set (update_by cv_id cid (saved_conversation now f) cs) = cv_id ` set cs"
  using saved_ids [OF assms] by (metis list.set_map)

lemma chats_ok_write:
  assumes "chats_ok cs ms" and f: "\<And>x. cv_id (f x) = cv_id x"
    and "\<And>x. x \<in> set cs \<Longrightarrow> cv_id x = cid \<Longrightarrow> counted ms (saved_conversation now f x)"
  shows "chats_ok (update_by cv_id cid (saved_conversation now f) cs) ms"
  using assms saved_ids [OF f] cids_update [OF f] by (auto simp: chats_ok_def set_update_by)

section \<open>Steps without a socket\<close>

definition chat_inv :: "world \<Rightarrow> bool" where
  "chat_inv w = (case w of (d, h) \<Rightarrow> chats_ok (conversations d) (messages d) \<and> hub_ok (cids d) h)"

definition truthful :: "world \<Rightarrow> bool" where
  "truthful w = (case w of (d, h) \<Rightarrow> presence_ok (conversations d) h)"

text \<open>Nothing, a new conversation, or a row whose counters and flags stay or are reset.\<close>

definition moved :: "db \<Rightarrow> db \<Rightarrow> bool" where
  "moved d d' \<longleftrightarrow> messages d' = messages d \<and>
     (conversations d' = conversations d
      \<or> (\<exists>b. conversations d' = conversations d @ [b] \<and> cv_id b \<notin> cids d \<and>
           (\<forall>s. unread s b = 0 \<and> \<not> online s b))
      \<or> (\<exists>now cid f. touches f \<and>
           conversations d' = update_by cv_id cid (saved_conversation now f) (conversations d)))"

lemma hub_ok_more: "hub_ok ids h \<Longrightarrow> ids \<subseteq> ids' \<Longrightarrow> hub_ok ids' h"
  by (auto simp: hub_ok_def)

lemma moved_inv:
  assumes m: "moved d d'" and inv: "chat_inv (d, h)"
  shows "chat_inv (d', h)"
  using m unfolding moved_def
proof (elim conjE disjE exE)
  fix b assume b: "messages d' = messages d" "conversations d' = conversations d @ [b]" "cv_id b \<notin> cids d"
    "\<forall>s. unread s b = 0 \<and> \<not> online s b"
  have "counted (messages d) b" using b(4) by (simp add: counted_def)
  then show ?thesis
    using inv b by (auto simp: chat_inv_def chats_ok_def intro: hub_ok_more)
next
  fix now cid f assume f: "messages d' = messages d" "touches f"
    "conversations d' = update_by cv_id cid (saved_conversation now f) (conversations d)"
  then have ids: "\<And>x. cv_id (f x) = cv_id x" by (simp add: touches_def)
  moreover have "counted (messages d) x" if "x \<in> set (conversations d)" for x
    using inv that by (auto simp: chat_inv_def chats_ok_def)
  ultimately show ?thesis
    using inv f cids_update [OF ids] chats_ok_write [OF _ ids] touched_counted [OF f(2)]
    by (auto simp: chat_inv_def)
qed (use inv in \<open>simp add: chat_inv_def\<close>)

lemma offline_unknown: "hub_ok ids h \<Longrightarrow> cid \<notin> ids \<Longrightarrow> \<not> is_online h cid s"
  by (cases "map_of h cid") (auto simp: hub_ok_def is_online_def room_of_def empty_room_def dest: map_of_SomeD)

lemma moved_truthful:
  assumes m: "moved d d'" and inv: "chat_inv (d, h)" and t: "truthful (d, h)"
  shows "truthful (d', h)"
  using m unfolding moved_def
proof (elim conjE disjE exE)
  fix b assume b: "messages d' = messages d" "conversations d' = conversations d @ [b]" "cv_id b \<notin> cids d"
    "\<forall>s. unread s b = 0 \<and> \<not> online s b"
  have "\<not> is_online h (cv_id b) s" for s
    using inv b(3) offline_unknown by (auto simp: chat_inv_def)
  then show ?thesis
    using t b by (auto simp: truthful_def presence_ok_def)
next
  fix now cid f assume f: "messages d' = messages d" "touches f"
    "conversations d' = update_by cv_id cid (saved_conversation now f) (conversations d)"
  then show ?thesis
    using t by (auto simp: truthful_def presence_ok_def set_update_by touches_def)
qed (use t in \<open>simp add: truthful_def\<close>)

lemma blank_fields [simp]:
  "cv_id (blank_conversation now cid uid uname ty) = cid"
  "unread s (blank_conversation now cid uid uname ty) = 0"
  "\<not> online s (blank_conversation now cid uid uname ty)"
  by (cases s; simp add: blank_conversation_def unread_def online_def)+

lemma moved_write: "touches f \<Longrightarrow> moved d (write_conversation now cid f d)"
  by (auto simp: moved_def write_conversation_def)

lemma stored_moved: "stored_conversation cid d1 = Inr (x, d') \<Longrightarrow> moved d d1 \<Longrightarrow> moved d d'"
  by (auto simp: stored_conversation_def split: option.splits)

lemma moved_new:
  assumes "draw_no ''uuid4'' d = (cid, d1)" "cid \<notin> cids d" "cv_id b = cid" "\<forall>s. unread s b = 0 \<and> \<not> online s b"
  shows "moved d (d1\<lparr>conversations := conversations d1 @ [b]\<rparr>)"
  using assms by (auto simp: moved_def draw_no_def)

lemma touches_plain:
  assumes "\<And>x. cv_id (f x) = cv_id x \<and> cv_user_online (f x) = cv_user_online x \<and>
      cv_admin_online (f x) = cv_admin_online x \<and> cv_merchant_online (f x) = cv_merchant_online x \<and>
      cv_unread_user (f x) \<in> {cv_unread_user x, 0} \<and> cv_unread_admin (f x) \<in> {cv_unread_admin x, 0} \<and>
      cv_unread_merchant (f x) \<in> {cv_unread_merchant x, 0}"
  shows "touches f"
  using assms by (auto simp: touches_def unread_def online_def split: side.split)

lemma opened_moved:
  assumes "create_conversation now d p u = Inr (x, d')" "fst (draw_no ''uuid4'' d) \<notin> cids d"
  shows "moved d d'"
proof -
  let ?uid = "payload_text p ''user_id''" and ?uname = "payload_name p u"
  let ?cs = "newest_conversations (filter (\<lambda>x. cv_user_id x = ?uid \<and> cv_conversation_type x = ''platform'') (conversations d))"
  obtain cid d1 where draw: "draw_no ''uuid4'' d = (cid, d1)" by fastforce
  show ?thesis
  proof (cases ?cs)
    case Nil
    then have "stored_conversation cid
        (d1\<lparr>conversations := conversations d1 @ [blank_conversation now cid ?uid ?uname ''platform'']\<rparr>) = Inr (x, d')"
      using assms draw by (simp add: create_conversation_def Let_def split: if_splits)
    then show ?thesis
      by (rule stored_moved) (rule moved_new [OF draw], use assms(2) draw in auto)
  next
    case (Cons y ys)
    then have "stored_conversation (cv_id y)
        (write_conversation now (cv_id y) (\<lambda>y. y\<lparr>cv_user_name := ?uname, cv_status := ''open''\<rparr>) d) = Inr (x, d')"
      using assms by (simp add: create_conversation_def Let_def split: if_splits)
    then show ?thesis
      by (rule stored_moved) (intro moved_write touches_plain, simp)
  qed
qed

lemma opened_order_moved:
  assumes c: "create_order_conversation now d p u = Inr (x, d')" and new: "fst (draw_no ''uuid4'' d) \<notin> cids d"
  shows "moved d d'"
proof -
  let ?uid = "payload_text p ''user_id''" and ?uname = "payload_name p u"
  obtain oid a s where rest: "find_about d (ua_id u) oid (payload_text p ''order_no'') = Some a"
      "find_school d (ab_school_id a) = Some s" "json_int (json_or (jget p ''order_id'') (JInt 0)) = Some oid"
    using c unfolding create_order_conversation_def Let_def by (auto split: option.splits if_splits)
  obtain cid d1 where draw: "draw_no ''uuid4'' d = (cid, d1)" by fastforce
  show ?thesis
  proof (cases "order_conversation d ?uid a")
    case None
    then have "stored_conversation cid (d1\<lparr>conversations := conversations d1 @
          [(blank_conversation now cid ?uid ?uname ''study_order'')
             \<lparr>cv_order_id := ab_order_id a, cv_order_no := ab_order_no a,
              cv_product_id := ab_product_id a, cv_product_name := ab_product_name a,
              cv_school_id := ab_school_id a, cv_school_name := sc_name s,
              cv_last_message := ''order support conversation created''\<rparr>]\<rparr>) = Inr (x, d')"
      using c rest draw by (simp add: create_order_conversation_def Let_def split: if_splits)
    then show ?thesis
      by (rule stored_moved)
        (rule moved_new [OF draw], use new draw in
          \<open>auto simp: blank_conversation_def unread_def online_def split: side.split\<close>)
  next
    case (Some y)
    then have "stored_conversation (cv_id y) (write_conversation now (cv_id y)
        (\<lambda>y. y\<lparr>cv_user_name := ?uname, cv_status := ''open'', cv_product_name := ab_product_name a,
               cv_school_name := sc_name s\<rparr>) d) = Inr (x, d')"
      using c rest by (simp add: create_order_conversation_def Let_def split: if_splits)
    then show ?thesis
      by (rule stored_moved) (intro moved_write touches_plain, simp)
  qed
qed

lemma read_moved:
  assumes "read_messages parse c now d cid may seen = Inr (ms, d')" "touches seen"
  shows "moved d d'"
  using assms moved_write [OF assms(2)] by (auto simp: read_messages_def split: option.splits if_splits)

section \<open>Steps of a socket\<close>

lemma authorize_frame:
  "authorize_support_websocket now d x s token = (ok, d1) \<Longrightarrow> conversations d1 = conversations d \<and> messages d1 = messages d"
  by (auto simp: authorize_support_websocket_def load_session_user_by_token_def touch_session_def
      split: side.splits option.splits if_splits prod.splits)

lemma present_fields [simp]:
  "cv_id (present h cid now x) = cv_id x"
  "unread s (present h cid now x) = unread s x"
  "online s (present h cid now x) = is_online h cid s"
  by (cases s; simp add: present_def unread_def online_def)+

lemma sync_inv:
  assumes "chat_inv (d, h)" and "conversations d1 = conversations d" "messages d1 = messages d" and "hub_ok (cids d) h'"
  shows "chat_inv (sync_presence now h1 cid d1, h')"
proof -
  have ok: "chats_ok (conversations d) (messages d)" using assms(1) by (simp add: chat_inv_def)
  then have "counted (messages d) (saved_conversation now (present h1 cid now) x)" if "x \<in> set (conversations d)" for x
    using that by (simp add: chats_ok_def counted_def)
  then have "chats_ok (update_by cv_id cid (saved_conversation now (present h1 cid now)) (conversations d)) (messages d)"
    by (intro chats_ok_write [OF ok]) simp_all
  then show ?thesis
    using assms(2-4) by (simp add: chat_inv_def sync_presence_def write_conversation_def cids_update)
qed

lemma sync_truthful:
  assumes "truthful (d, h)" and "conversations d1 = conversations d"
    and "\<And>k. k \<noteq> cid \<Longrightarrow> room_of h1 k = room_of h k"
  shows "truthful (sync_presence now h1 cid d1, h1)"
  using assms by (auto simp: truthful_def presence_ok_def sync_presence_def write_conversation_def set_update_by is_online_def)

lemma connect_step:
  assumes c: "ws_connect now alive cid role protocols token sock (d, h) = (out, w')" and inv: "chat_inv (d, h)"
  shows "chat_inv w'" and "(\<And>s. alive s) \<Longrightarrow> truthful (d, h) \<Longrightarrow> truthful w'"
proof -
  consider (refused) d1 where "w' = (d1, h)" "conversations d1 = conversations d" "messages d1 = messages d"
    | (joined) d1 s f where "conversations d1 = conversations d" "messages d1 = messages d" "cid \<in> cids d"
        "w' = (sync_presence now (hub_connect cid s sock h) cid d1, snd (broadcast alive cid f (hub_connect cid s sock h)))"
  proof (cases "side_of role = None \<or> find_conversation d cid = None")
    case True
    then show thesis using c refused by (auto simp: ws_connect_def split: option.splits)
  next
    case False
    then obtain s x where s: "side_of role = Some s" "find_conversation d cid = Some x" by auto
    obtain ok d1 where a: "authorize_support_websocket now d x s (resolved_token protocols token) = (ok, d1)"
      by fastforce
    have "cid \<in> cids d" using s(2) by (force simp: find_conversation_def dest: find_by_SomeD)
    then show thesis
      using c s a refused joined authorize_frame [OF a]
      by (cases ok) (auto simp: ws_connect_def Let_def case_prod_beta)
  qed
  note cases = this
  show "chat_inv w'"
    using cases
  proof cases
    case refused
    then show ?thesis using inv by (simp add: chat_inv_def)
  next
    case joined
    have "hub_ok (cids d) (hub_connect cid s sock h)"
      using inv joined(3) by (intro hub_ok_connect) (simp_all add: chat_inv_def)
    then show ?thesis
      unfolding joined(4) using sync_inv [OF inv joined(1,2) hub_ok_broadcast] by blast
  qed
  show "truthful w'" if "\<And>s. alive s" "truthful (d, h)"
    using cases
  proof cases
    case refused
    then show ?thesis using that by (simp add: truthful_def)
  next
    case joined
    then show ?thesis
      using sync_truthful [OF that(2) joined(1)] broadcast_alive [OF that(1)] by (simp add: room_of_connect)
  qed
qed

lemma leave_step:
  assumes inv: "chat_inv (d, h)"
  shows "chat_inv (sync_presence now (hub_disconnect cid s sock h) cid d, snd (broadcast alive cid f (hub_disconnect cid s sock h)))"
    and "chat_inv (ws_failed now cid s sock (d, h))"
    and "truthful (d, h) \<Longrightarrow> truthful (ws_failed now cid s sock (d, h))"
proof -
  have h1: "hub_ok (cids d) (hub_disconnect cid s sock h)"
    using inv by (simp add: chat_inv_def hub_ok_disconnect)
  show "chat_inv (sync_presence now (hub_disconnect cid s sock h) cid d, snd (broadcast alive cid f (hub_disconnect cid s sock h)))"
    by (rule sync_inv [OF inv _ _ hub_ok_broadcast [OF h1]]) simp_all
  show "chat_inv (ws_failed now cid s sock (d, h))"
    unfolding ws_failed_def prod.case Let_def by (rule sync_inv [OF inv _ _ h1]) simp_all
  show "truthful (ws_failed now cid s sock (d, h))" if "truthful (d, h)"
    unfolding ws_failed_def prod.case Let_def by (rule sync_truthful [OF that]) (simp_all add: room_of_disconnect)
qed

section \<open>Messages\<close>

lemma noted_fields [simp]:
  "cv_id (noted s p x) = cv_id x"
  "unread t (noted s p x) = unread t x + (if t = s then 0 else 1)"
  "online t (noted s p x) = online t x"
  by (cases t; simp add: noted_def unread_def online_def)+

lemma side_text_eq [simp]: "side_text s = side_text t \<longleftrightarrow> s = t"
  by (cases s; cases t) simp_all

lemma sorted_fresh:
  "sorted_wrt (<) (map sg_id ms) \<Longrightarrow> sg_id m = fresh_id sg_id ms \<Longrightarrow> sorted_wrt (<) (map sg_id (ms @ [m]))"
  by (simp add: sorted_wrt_append fresh_id_above)

definition posted :: "time \<Rightarrow> string \<Rightarrow> side \<Rightarrow> conversation \<Rightarrow> draft_message \<Rightarrow> db \<Rightarrow> db" where
  "posted now cid s x m d =
    write_conversation now cid (noted s (message_preview (dm_content m) (dm_type m)))
      (d\<lparr>messages := messages d @ [new_message now d cid s x m]\<rparr>)"

lemma posted_inv:
  assumes inv: "chat_inv (d, h)" and x: "find_conversation d cid = Some x"
  shows "chat_inv (posted now cid s x m d, h)"
proof -
  let ?msg = "new_message now d cid s x m" and ?f = "noted s (message_preview (dm_content m) (dm_type m))"
  have ok: "chats_ok (conversations d) (messages d)" using inv by (simp add: chat_inv_def)
  have "cid \<in> cids d" using x by (force simp: find_conversation_def dest: find_by_SomeD)
  then have more: "chats_ok (conversations d) (messages d @ [?msg])"
    using ok sorted_fresh [of "messages d" ?msg]
    by (auto simp: chats_ok_def new_message_def intro: counted_more)
  have "counted (messages d @ [?msg]) (saved_conversation now ?f y)" if "y \<in> set (conversations d)" "cv_id y = cid" for y
    using ok that by (auto simp: chats_ok_def counted_def from_others_def new_message_def)
  then show ?thesis
    using inv chats_ok_write [OF more, of ?f cid now]
    by (simp add: chat_inv_def posted_def write_conversation_def cids_update)
qed

lemma posted_truthful: "truthful (d, h) \<Longrightarrow> truthful (posted now cid s x m d, h)"
  by (auto simp: truthful_def presence_ok_def posted_def write_conversation_def set_update_by)

lemma receive_cases:
  assumes r: "ws_receive parse c now alive cid s sock data (d, h) = (out, w')"
  obtains (kept) "w' = (d, h)"
  | (heard) f where "w' = (d, snd (broadcast alive cid f h))"
  | (spoken) x m f m0 where "find_conversation d cid = Some x" "cv_status x = ''open''"
      "resolve_images c d cid m0 = Some m"
      "w' = (posted now cid s x m d, snd (broadcast alive cid f h))"
  | (failed) "w' = ws_failed now cid s sock (d, h)"
proof (cases "\<exists>kvs. data = JObj kvs")
  case False
  then show thesis using r failed by (cases data) (auto simp: ws_receive_def)
next
  case True
  then obtain kvs where data: "data = JObj kvs" by blast
  let ?ty = "jget_or kvs ''type'' (JStr ''message'')"
  consider (quiet) "?ty = JStr ''ping'' \<or> ?ty \<notin> {JStr ''ping'', JStr ''typing'', JStr ''message''}"
    | (typing) "?ty = JStr ''typing''" | (message) "?ty = JStr ''message''" by blast
  then show thesis
  proof cases
    case quiet
    then show thesis using r data kept by (auto simp: ws_receive_def)
  next
    case typing
    then show thesis using r data heard by (auto simp: ws_receive_def case_prod_beta)
  next
    case message
    show thesis
    proof (cases "check_draft parse (draft_of kvs)")
      case (Go m)
      then have p: "post_message parse c now alive cid s sock m (d, h) = (out, w')"
        using r data message by (simp add: ws_receive_def)
      show thesis
      proof (cases "\<exists>x m1. find_conversation d cid = Some x \<and> cv_status x = ''open'' \<and> resolve_images c d cid m = Some m1")
        case True
        then show thesis using p spoken by (auto simp: post_message_def posted_def Let_def case_prod_beta)
      next
        case False
        then show thesis using p kept by (auto simp: post_message_def split: option.splits if_splits)
      qed
    qed (use r data message kept in \<open>simp_all add: ws_receive_def\<close>)
  qed
qed

lemma hear_inv: "chat_inv (d, h) \<Longrightarrow> chat_inv (d, snd (broadcast alive cid f h))"
  by (simp add: chat_inv_def hub_ok_broadcast)

lemma receive_step:
  assumes r: "ws_receive parse c now alive cid s sock data (d, h) = (out, w')" and inv: "chat_inv (d, h)"
  shows "chat_inv w'" and "(\<And>s. alive s) \<Longrightarrow> truthful (d, h) \<Longrightarrow> truthful w'"
proof -
  show "chat_inv w'"
    using r
  proof (cases rule: receive_cases)
    case (spoken x m f m0)
    then show ?thesis using hear_inv [OF posted_inv [OF inv spoken(1)]] by simp
  qed (use inv hear_inv [OF inv] leave_step(2) [OF inv] in auto)
  show "truthful w'" if a: "\<And>s. alive s" and t: "truthful (d, h)"
    using r
  proof (cases rule: receive_cases)
    case (spoken x m f m0)
    then show ?thesis using posted_truthful [OF t] broadcast_alive [OF a] by simp
  qed (use t broadcast_alive [OF a] leave_step(3) [OF inv t] in auto)
qed

section \<open>Every reachable state\<close>

lemma step_moved:
  "moved d d' \<Longrightarrow> chat_inv (d, h) \<Longrightarrow> chat_inv (d', h) \<and> ((\<forall>s. alive s) \<longrightarrow> truthful (d, h) \<longrightarrow> truthful (d', h))"
  by (blast intro: moved_inv moved_truthful)

lemma chat_step_inv:
  assumes "chat_step parse c alive w w'" and "chat_inv w"
  shows "chat_inv w' \<and> ((\<forall>s. alive s) \<longrightarrow> truthful w \<longrightarrow> truthful w')"
  using assms
proof (cases rule: chat_step.cases)
  case (opened now d p u x d' h)
  then show ?thesis using assms(2) step_moved [OF opened_moved [OF opened(3,4)]] by simp
next
  case (opened_order now d p u x d' h)
  then show ?thesis using assms(2) step_moved [OF opened_order_moved [OF opened_order(3,4)]] by simp
next
  case (read_user now d cid u ms d' h)
  have "moved d d'"
    using read_user(3) unfolding user_messages_def by (rule read_moved) (simp add: touches_plain)
  then show ?thesis using assms(2) read_user(1,2) step_moved by blast
next
  case (read_admin now d cid ms d' h)
  have "moved d d'"
    using read_admin(3) unfolding admin_messages_def by (rule read_moved) (simp add: touches_plain)
  then show ?thesis using assms(2) read_admin(1,2) step_moved by blast
next
  case (read_merchant now d cid school ms d' h)
  have "moved d d'"
    using read_merchant(3) unfolding merchant_messages_def by (rule read_moved) (simp add: touches_plain)
  then show ?thesis using assms(2) read_merchant(1,2) step_moved by blast
next
  case (closed now cid d h out d' h')
  then have d': "d' = write_conversation now cid (\<lambda>x. x\<lparr>cv_status := ''closed''\<rparr>) d"
    and h': "h' = snd (broadcast alive cid (Status ''closed'') h)"
    by (auto simp: close_conversation_def case_prod_beta split: option.splits)
  have "moved d d'" unfolding d' by (intro moved_write touches_plain) simp
  then show ?thesis
    using assms(2) closed(1,2) h' step_moved [of d d' h] hear_inv broadcast_alive by fastforce
next
  case (connects now cid role protocols token sock out)
  obtain d h where w: "w = (d, h)" by fastforce
  show ?thesis
    using connect_step [OF connects [unfolded w] assms(2) [unfolded w]] by (simp add: w)
next
  case (receives now cid s sock data out)
  obtain d h where w: "w = (d, h)" by fastforce
  show ?thesis
    using receive_step [OF receives [unfolded w] assms(2) [unfolded w]] by (simp add: w)
next
  case (leaves now cid s sock out)
  obtain d h where w: "w = (d, h)" by fastforce
  let ?h = "hub_disconnect cid s sock h"
  have w': "w' = (sync_presence now ?h cid d, snd (broadcast alive cid (Presence s False) ?h))"
    using leaves by (simp add: w ws_disconnect_def Let_def case_prod_beta)
  have "truthful w'" if "\<forall>s. alive s" "truthful w"
    using leave_step(3) [of d h now cid s sock] assms(2) that broadcast_alive [of alive cid "Presence s False" ?h]
    by (simp add: w w' ws_failed_def Let_def)
  then show ?thesis using leave_step(1) assms(2) by (simp add: w w')
next
  case (breaks now cid s sock)
  then show ?thesis using assms(2) leave_step(2,3) by (cases w) blast
next
  case (elsewhere d' d h)
  then show ?thesis using assms(2) step_moved [of d d' h alive] by (simp add: moved_def)
qed

definition chat_good :: "(nat \<Rightarrow> bool) \<Rightarrow> world \<Rightarrow> bool" where
  "chat_good alive w \<longleftrightarrow> chat_inv w \<and> ((\<forall>s. alive s) \<longrightarrow> truthful w)"

interpretation chat: machine chat_init "chat_step parse c alive" "chat_good alive" for parse c alive
proof
  show "chat_init w \<Longrightarrow> chat_good alive w" for w
    by (cases w) (simp add: chat_init_def chat_good_def chat_inv_def chats_ok_def hub_ok_def truthful_def presence_ok_def)
  show "chat_good alive w \<Longrightarrow> chat_step parse c alive w w' \<Longrightarrow> chat_good alive w'" for w w'
    using chat_step_inv by (auto simp: chat_good_def)
qed

end
