(* ===== verification/Chat_Props.thy ===== *)
theory Chat_Props
  imports Chat_Machine Samples
begin

text \<open>
  What holds of the conversations in every reachable state, and what a frame may write.
\<close>

section \<open>Messages and rooms\<close>

lemma messages_in_order:
  "sorted_wrt (<) (map sg_id (messages d)) \<Longrightarrow> messages_of d cid = filter (\<lambda>m. sg_conversation_id m = cid) (messages d)"
proof -
  assume "sorted_wrt (<) (map sg_id (messages d))"
  then have "sorted (map sg_id (messages d))"
    by (rule sorted_wrt_mono_rel [rotated]) simp
  then have "sort_key sg_id (messages d) = messages d" by (rule sort_key_id_if_sorted)
  then show ?thesis by (simp add: messages_of_def filter_sort [symmetric])
qed

text \<open>
  C29 In every state that the support service reaches by opening, reading and closing conversations, by
  sockets that come, speak, leave or fail, and whatever the rest of the program does between: no
  two conversations have an id in common and none shows a side more unread messages than the
  other sides sent, nor less than zero; every message belongs to a conversation, their ids grow
  and reading shows them in the order of sending; the rooms of the hub belong to
  conversations, and none is empty or has a socket twice. As long as sending to a socket
  never fails, the online flags of a conversation tell for each side whether it has a socket
  in the room; a socket that fails leaves the room without the flags being written.
\<close>

theorem chats_reachable_ok:
  assumes "chat_init w" and "runs (chat_step parse c alive) w (d, h)"
  shows "chats_ok (conversations d) (messages d) \<and> hub_ok (cids d) h \<and>
    (\<forall>cid. messages_of d cid = filter (\<lambda>m. sg_conversation_id m = cid) (messages d)) \<and>
    ((\<forall>s. alive s) \<longrightarrow> presence_ok (conversations d) h)"
proof -
  have "chat_inv (d, h)" "(\<forall>s. alive s) \<longrightarrow> truthful (d, h)" using chat.reachable_inv [OF assms] by (simp_all add: chat_good_def)
  then show ?thesis using messages_in_order by (auto simp: chat_inv_def chats_ok_def truthful_def)
qed

text \<open>A user opens a conversation and the platform writes to it.\<close>

definition chat_start_db :: db where
  "chat_start_db = empty_db\<lparr>numbers := (\<lambda>p n. ''c1'')\<rparr>"

definition chat_opening :: "(conversation \<times> db) result" where
  "chat_opening = create_conversation 5 chat_start_db (JObj [(''user_id'', JStr ''U7'')])
     ((sample_user 7 0 0)\<lparr>ua_user_no := ''U7''\<rparr>)"

definition chat_opened_db :: db where
  "chat_opened_db = after_run chat_start_db chat_opening"

definition chat_spoken :: world where
  "chat_spoken = snd (ws_receive (\<lambda>s. None) default_config 6 (\<lambda>s. True) ''c1'' Admin 3
     (JObj [(''content'', JStr ''hi'')]) (chat_opened_db, []))"

lemma chat_spoken_reached:
  "chat_init (chat_start_db, [])"
  "runs (chat_step (\<lambda>s. None) default_config (\<lambda>s. True)) (chat_start_db, []) chat_spoken"
proof -
  have "\<not> isl chat_opening" by code_simp
  then obtain x where "chat_opening = Inr (x, chat_opened_db)"
    using not_isl_ex by (metis after_run_def chat_opened_db_def old.prod.case old.sum.simps(6))
  moreover show init: "chat_init (chat_start_db, [])"
    by (simp add: chat_init_def chat_start_db_def empty_db_def)
  ultimately have "chat_step (\<lambda>s. None) default_config (\<lambda>s. True) (chat_start_db, []) (chat_opened_db, [])"
    by (intro opened) (auto simp: chat_opening_def chat_init_def)
  then have "runs (chat_step (\<lambda>s. None) default_config (\<lambda>s. True)) (chat_start_db, []) (chat_opened_db, [])"
    by (rule runs_step [OF runs_refl])
  moreover have "chat_step (\<lambda>s. None) default_config (\<lambda>s. True) (chat_opened_db, []) chat_spoken"
    by (rule receives) (simp add: chat_spoken_def prod_eq_iff)
  ultimately show "runs (chat_step (\<lambda>s. None) default_config (\<lambda>s. True)) (chat_start_db, []) chat_spoken"
    by (rule runs_step)
qed

lemma chats_reachable_ok_witness:
  "chats_ok (conversations (fst chat_spoken)) (messages (fst chat_spoken)) \<and>
   map cv_unread_user (conversations (fst chat_spoken)) = [1] \<and>
   map cv_unread_admin (conversations (fst chat_spoken)) = [0] \<and>
   presence_ok (conversations (fst chat_spoken)) (snd chat_spoken)"
proof -
  have "map cv_unread_user (conversations (fst chat_spoken)) = [1]"
    "map cv_unread_admin (conversations (fst chat_spoken)) = [0]" by code_simp+
  then show ?thesis
    using chats_reachable_ok [OF chat_spoken_reached(1), of "\<lambda>s. None" default_config "\<lambda>s. True"
        "fst chat_spoken" "snd chat_spoken"] chat_spoken_reached(2) by simp
qed

text \<open>
  A socket that fails while a message is sent to the room leaves it, but its side is still
  shown as online.
\<close>

definition both_sides :: hub where
  "both_sides = hub_connect ''c1'' Admin 4 (hub_connect ''c1'' User 3 [])"

definition after_failed_socket :: world where
  "after_failed_socket = snd (ws_receive (\<lambda>s. None) default_config 6 (\<lambda>s. s \<noteq> 4) ''c1'' User 3
     (JObj [(''content'', JStr ''hi'')]) (sync_presence 6 both_sides ''c1'' chat_opened_db, both_sides))"

lemma failed_socket_shown_online:
  "map cv_admin_online (conversations (fst after_failed_socket)) = [True] \<and>
   \<not> is_online (snd after_failed_socket) ''c1'' Admin"
  by code_simp

section \<open>What a frame may write\<close>

lemma resolved_image:
  assumes "resolve_images c d cid m0 = Some m" and "dm_type m = ''image''"
  shows "\<exists>a\<in>set (assets d). as_conversation_id a = cid \<and> as_source a = ''support'' \<and>
    dm_image_url m = asset_api_url c (as_id a)"
proof -
  obtain a where "asset_of_url c d (dm_image_url m0) = Some a" "as_conversation_id a = cid" "as_source a = ''support''"
      "dm_image_url m = asset_api_url c (as_id a)"
    using assms by (auto simp: resolve_images_def Let_def split: if_splits option.splits)
  moreover from this have "a \<in> set (assets d)"
    by (auto simp: asset_of_url_def split: option.splits dest: find_by_mem)
  ultimately show ?thesis by blast
qed

text \<open>
  C30 A frame that adds to the messages does so in an open conversation, and adds one message: it
  belongs to the socket's conversation and names the socket's side as its sender, and if it
  is an image, then its picture is a file that was uploaded to this very conversation.
\<close>

theorem message_accounted:
  assumes r: "ws_receive parse c now alive cid s sock data (d, h) = (out, d', h')"
    and new: "messages d' \<noteq> messages d"
  shows "\<exists>x m. find_conversation d cid = Some x \<and> cv_status x = ''open'' \<and>
    messages d' = messages d @ [m] \<and> sg_conversation_id m = cid \<and> sg_sender_role m = side_text s \<and>
    (sg_message_type m = ''image'' \<longrightarrow> (\<exists>a\<in>set (assets d). as_conversation_id a = cid \<and>
       as_source a = ''support'' \<and> sg_image_url m = asset_api_url c (as_id a)))"
  using r
proof (cases rule: receive_cases)
  case (spoken x m f m0)
  then have "messages d' = messages d @ [new_message now d cid s x m]"
    by (simp add: posted_def write_conversation_def)
  then show ?thesis
    using spoken(1,2) resolved_image [OF spoken(3)] by (auto simp: new_message_def)
qed (use new in \<open>auto simp: ws_failed_def Let_def sync_presence_def write_conversation_def\<close>)

lemma message_accounted_witness:
  "\<exists>x m. find_conversation chat_opened_db ''c1'' = Some x \<and> cv_status x = ''open'' \<and>
    messages (fst chat_spoken) = messages chat_opened_db @ [m] \<and> sg_conversation_id m = ''c1'' \<and>
    sg_sender_role m = ''admin''"
proof -
  have "length (messages (fst chat_spoken)) = 1" "length (messages chat_opened_db) = 0" by code_simp+
  then have "messages (fst chat_spoken) \<noteq> messages chat_opened_db" by force
  then show ?thesis
    using message_accounted [of "\<lambda>s. None" default_config 6 "\<lambda>s. True" "''c1''" Admin 3
        "JObj [(''content'', JStr ''hi'')]" chat_opened_db "[]" _ "fst chat_spoken" "snd chat_spoken"]
    by (auto simp: chat_spoken_def prod_eq_iff)
qed

end
