(* ===== verification/Schema.thy ===== *)
theory Schema
  imports Py_Text
begin

text \<open>
  The database as the schema migrations see it: tables with their columns, keys and rows,
  and the statements \<open>alembic.op\<close> sends to it. The statements follow MySQL, the database
  of the deployment (\<open>mysql+pymysql\<close>, strict mode): a unique constraint is a unique key, a
  schema statement commits at once and cannot be rolled back, a data statement is rolled
  back when a later statement of the same transaction fails.
\<close>

named_theorems schema_simps
  "effect of a schema statement on tables, columns and keys"

section \<open>Cells, columns, keys and tables\<close>

datatype sql_type =
    SqlInteger
  | SqlString nat
  | SqlText
  | SqlMediumText
  | SqlNumeric nat nat
  | SqlBoolean
  | SqlDateTime
  | SqlJSON

datatype cell =
    Null
  | IntCell int
  | BoolCell bool
  | DecCell int
  | StrCell string
  | TimeCell time
  | JsonCell json

datatype server_default =
    NoServerDefault
  | ServerDefault cell
  | CurrentTimestamp

record sql_column =
  c_name :: string
  c_type :: sql_type
  c_nullable :: bool
  c_default :: server_default

record sql_key =
  k_name :: string
  k_columns :: "string list"
  k_unique :: bool

type_synonym row = "string \<Rightarrow> cell"

record sql_table =
  t_name :: string
  t_columns :: "sql_column list"
  t_primary :: "string list"
  t_keys :: "sql_key list"
  t_rows :: "row list"

record database =
  tables :: "sql_table list"
  clock :: time

datatype db_error =
    TableExists string
  | NoSuchTable string
  | DuplicateColumn string
  | UnknownColumn string
  | DuplicateKeyName string
  | NoSuchKey string
  | DuplicateEntry string
  | InvalidNull string
  | DataTooLong string
  | IncorrectValue string
  | LegacySchemaError string
  | Refused string

definition mk_column :: "string \<Rightarrow> sql_type \<Rightarrow> bool \<Rightarrow> server_default \<Rightarrow> sql_column" where
  "mk_column n ty nl sd = \<lparr>c_name = n, c_type = ty, c_nullable = nl, c_default = sd\<rparr>"

definition mk_key :: "string \<Rightarrow> string list \<Rightarrow> bool \<Rightarrow> sql_key" where
  "mk_key n cs u = \<lparr>k_name = n, k_columns = cs, k_unique = u\<rparr>"

section \<open>What the inspector reports\<close>

definition find_table :: "string \<Rightarrow> database \<Rightarrow> sql_table option" where
  "find_table n d = find_by t_name n (tables d)"

definition has_table :: "string \<Rightarrow> database \<Rightarrow> bool" where
  "has_table n d \<longleftrightarrow> n \<in> set (map t_name (tables d))"

definition column_names :: "sql_table \<Rightarrow> string list" where
  "column_names t = map c_name (t_columns t)"

definition key_names :: "sql_table \<Rightarrow> string list" where
  "key_names t = map k_name (t_keys t)"

definition has_column :: "string \<Rightarrow> string \<Rightarrow> database \<Rightarrow> bool" where
  "has_column n c d \<longleftrightarrow> (case find_table n d of None \<Rightarrow> False | Some t \<Rightarrow> c \<in> set (column_names t))"

definition has_key :: "string \<Rightarrow> string \<Rightarrow> database \<Rightarrow> bool" where
  "has_key n k d \<longleftrightarrow> (case find_table n d of None \<Rightarrow> False | Some t \<Rightarrow> k \<in> set (key_names t))"

definition table_rows :: "string \<Rightarrow> database \<Rightarrow> row list" where
  "table_rows n d = (case find_table n d of None \<Rightarrow> [] | Some t \<Rightarrow> t_rows t)"

section \<open>What a table accepts\<close>

text \<open>A value in a column: its type, its length and the range of a 32-bit \<open>INT\<close>.\<close>

fun fits :: "sql_type \<Rightarrow> cell \<Rightarrow> bool" where
  "fits (SqlString n) (StrCell s) = (length s \<le> n)"
| "fits SqlInteger (IntCell i) = (- (2 ^ 31) \<le> i \<and> i < 2 ^ 31)"
| "fits (SqlNumeric p s) (DecCell i) = (\<bar>i\<bar> < 10 ^ p)"
| "fits _ _ = True"

text \<open>Two rows are in conflict on a unique key when they agree on it and none of its cells is null.\<close>

definition key_value :: "string list \<Rightarrow> row \<Rightarrow> cell list" where
  "key_value cs r = map r cs"

definition unique_values :: "string list \<Rightarrow> row list \<Rightarrow> bool" where
  "unique_values cs rs = distinct (filter (\<lambda>v. Null \<notin> set v) (map (key_value cs) rs))"

definition unique_columns :: "sql_table \<Rightarrow> string list list" where
  "unique_columns t = t_primary t # map k_columns (filter k_unique (t_keys t))"

definition keys_hold :: "sql_table \<Rightarrow> row list \<Rightarrow> bool" where
  "keys_hold t rs = list_all (\<lambda>cs. unique_values cs rs) (unique_columns t)"

fun row_error :: "sql_column list \<Rightarrow> row \<Rightarrow> db_error option" where
  "row_error [] r = None"
| "row_error (c # cs) r =
    (if r (c_name c) = Null \<and> \<not> c_nullable c then Some (InvalidNull (c_name c))
     else if \<not> fits (c_type c) (r (c_name c)) then Some (DataTooLong (c_name c))
     else row_error cs r)"

fun first_error :: "sql_column list \<Rightarrow> row list \<Rightarrow> db_error option" where
  "first_error cs [] = None"
| "first_error cs (r # rs) = (case row_error cs r of Some e \<Rightarrow> Some e | None \<Rightarrow> first_error cs rs)"

section \<open>Schema statements\<close>

text \<open>The value the existing rows get in a new column.\<close>

definition initial_cell :: "time \<Rightarrow> sql_column \<Rightarrow> cell" where
  "initial_cell now c =
    (case c_default c of
       ServerDefault v \<Rightarrow> v
     | CurrentTimestamp \<Rightarrow> TimeCell now
     | NoServerDefault \<Rightarrow>
         (if c_nullable c then Null
          else (case c_type c of
                  SqlInteger \<Rightarrow> IntCell 0 | SqlBoolean \<Rightarrow> BoolCell False | SqlNumeric p s \<Rightarrow> DecCell 0
                | SqlDateTime \<Rightarrow> TimeCell 0 | SqlJSON \<Rightarrow> JsonCell JNull | _ \<Rightarrow> StrCell [])))"

definition in_table :: "string \<Rightarrow> (sql_table \<Rightarrow> db_error + sql_table) \<Rightarrow> database \<Rightarrow> db_error + database" where
  "in_table n f d =
    (case find_table n d of
       None \<Rightarrow> Inl (NoSuchTable n)
     | Some t \<Rightarrow>
        (case f t of
           Inl e \<Rightarrow> Inl e
         | Inr t' \<Rightarrow> Inr (d\<lparr>tables := update_by t_name n (\<lambda>_. t'\<lparr>t_name := n\<rparr>) (tables d)\<rparr>)))"

definition create_table ::
  "string \<Rightarrow> sql_column list \<Rightarrow> string list \<Rightarrow> sql_key list \<Rightarrow> database \<Rightarrow> db_error + database" where
  "create_table n cs pk ks d =
    (if has_table n d then Inl (TableExists n)
     else Inr (d\<lparr>tables :=
            \<lparr>t_name = n, t_columns = cs, t_primary = pk, t_keys = ks, t_rows = []\<rparr> # tables d\<rparr>))"

definition drop_table :: "string \<Rightarrow> database \<Rightarrow> db_error + database" where
  "drop_table n d =
    (if has_table n d then Inr (d\<lparr>tables := filter (\<lambda>t. t_name t \<noteq> n) (tables d)\<rparr>)
     else Inl (NoSuchTable n))"

definition add_column :: "string \<Rightarrow> sql_column \<Rightarrow> database \<Rightarrow> db_error + database" where
  "add_column n c d =
    in_table n (\<lambda>t.
      if c_name c \<in> set (column_names t) then Inl (DuplicateColumn (c_name c))
      else Inr (t\<lparr>t_columns := t_columns t @ [c],
                  t_rows := map (\<lambda>r. r(c_name c := initial_cell (clock d) c)) (t_rows t)\<rparr>)) d"

definition without_column :: "string \<Rightarrow> sql_key list \<Rightarrow> sql_key list" where
  "without_column c ks =
    filter (\<lambda>k. k_columns k \<noteq> []) (map (\<lambda>k. k\<lparr>k_columns := filter (\<lambda>x. x \<noteq> c) (k_columns k)\<rparr>) ks)"

definition drop_column :: "string \<Rightarrow> string \<Rightarrow> database \<Rightarrow> db_error + database" where
  "drop_column n c d =
    in_table n (\<lambda>t.
      if c \<notin> set (column_names t) then Inl (UnknownColumn c)
      else Inr (t\<lparr>t_columns := filter (\<lambda>x. c_name x \<noteq> c) (t_columns t),
                  t_keys := without_column c (t_keys t),
                  t_rows := map (\<lambda>r. r(c := Null)) (t_rows t)\<rparr>)) d"

definition alter_nullable :: "string \<Rightarrow> string \<Rightarrow> bool \<Rightarrow> database \<Rightarrow> db_error + database" where
  "alter_nullable n c nl d =
    in_table n (\<lambda>t.
      if c \<notin> set (column_names t) then Inl (UnknownColumn c)
      else if \<not> nl \<and> list_ex (\<lambda>r. r c = Null) (t_rows t) then Inl (InvalidNull c)
      else Inr (t\<lparr>t_columns := update_by c_name c (\<lambda>x. x\<lparr>c_nullable := nl\<rparr>) (t_columns t)\<rparr>)) d"

definition create_index :: "string \<Rightarrow> string \<Rightarrow> string list \<Rightarrow> bool \<Rightarrow> database \<Rightarrow> db_error + database" where
  "create_index k n cs u d =
    in_table n (\<lambda>t.
      if k \<in> set (key_names t) then Inl (DuplicateKeyName k)
      else if \<not> list_all (\<lambda>c. c \<in> set (column_names t)) cs then Inl (UnknownColumn k)
      else if u \<and> \<not> unique_values cs (t_rows t) then Inl (DuplicateEntry k)
      else Inr (t\<lparr>t_keys := t_keys t @ [mk_key k cs u]\<rparr>)) d"

definition create_unique_constraint :: "string \<Rightarrow> string \<Rightarrow> string list \<Rightarrow> database \<Rightarrow> db_error + database" where
  "create_unique_constraint k n cs = create_index k n cs True"

definition drop_index :: "string \<Rightarrow> string \<Rightarrow> database \<Rightarrow> db_error + database" where
  "drop_index k n d =
    in_table n (\<lambda>t.
      if k \<notin> set (key_names t) then Inl (NoSuchKey k)
      else Inr (t\<lparr>t_keys := filter (\<lambda>x. k_name x \<noteq> k) (t_keys t)\<rparr>)) d"

section \<open>Data statements\<close>

text \<open>
  \<open>UPDATE n SET ... WHERE ...\<close>: the rows that satisfy the condition are rewritten; one
  value that does not fit, or a conflict on a unique key, fails the whole statement.
\<close>

fun rewrite_rows :: "(row \<Rightarrow> bool) \<Rightarrow> (row \<Rightarrow> db_error + row) \<Rightarrow> row list \<Rightarrow> db_error + row list" where
  "rewrite_rows p f [] = Inr []"
| "rewrite_rows p f (r # rs) =
    (case (if p r then f r else Inr r) of
       Inl e \<Rightarrow> Inl e
     | Inr r' \<Rightarrow> (case rewrite_rows p f rs of Inl e \<Rightarrow> Inl e | Inr rs' \<Rightarrow> Inr (r' # rs')))"

definition update_rows ::
  "string \<Rightarrow> (row \<Rightarrow> bool) \<Rightarrow> (row \<Rightarrow> db_error + row) \<Rightarrow> database \<Rightarrow> db_error + database" where
  "update_rows n p f d =
    in_table n (\<lambda>t.
      case rewrite_rows p f (t_rows t) of
        Inl e \<Rightarrow> Inl e
      | Inr rs \<Rightarrow>
         (case first_error (t_columns t) (map snd (filter (\<lambda>(r, r'). p r) (zip (t_rows t) rs))) of
            Some e \<Rightarrow> Inl e
          | None \<Rightarrow> if keys_hold t rs then Inr (t\<lparr>t_rows := rs\<rparr>) else Inl (DuplicateEntry n))) d"

definition delete_rows :: "string \<Rightarrow> (row \<Rightarrow> bool) \<Rightarrow> database \<Rightarrow> db_error + database" where
  "delete_rows n p = in_table n (\<lambda>t. Inr (t\<lparr>t_rows := filter (\<lambda>r. \<not> p r) (t_rows t)\<rparr>))"

text \<open>
  \<open>INSERT INTO n (...) VALUES (...)\<close>: a column that is not named gets its default, the
  integer key \<open>id\<close> the next number.
\<close>

definition cell_int :: "cell \<Rightarrow> int" where
  "cell_int v = (case v of IntCell i \<Rightarrow> i | _ \<Rightarrow> 0)"

definition next_row_id :: "row list \<Rightarrow> int" where
  "next_row_id rs = fresh_id (\<lambda>r. cell_int (r ''id'')) rs"

definition insert_cell :: "time \<Rightarrow> sql_column \<Rightarrow> cell" where
  "insert_cell now c =
    (case c_default c of ServerDefault v \<Rightarrow> v | CurrentTimestamp \<Rightarrow> TimeCell now | NoServerDefault \<Rightarrow> Null)"

definition default_row :: "time \<Rightarrow> sql_table \<Rightarrow> row" where
  "default_row now t =
    fold (\<lambda>c r. r(c_name c :=
        if c_name c = ''id'' then IntCell (next_row_id (t_rows t)) else insert_cell now c))
      (t_columns t) (\<lambda>_. Null)"

definition filled_row :: "time \<Rightarrow> sql_table \<Rightarrow> (string \<times> cell) list \<Rightarrow> row" where
  "filled_row now t vs = fold (\<lambda>(c, v) r. r(c := v)) vs (default_row now t)"

definition insert_row :: "string \<Rightarrow> (string \<times> cell) list \<Rightarrow> database \<Rightarrow> db_error + database" where
  "insert_row n vs d =
    in_table n (\<lambda>t.
      case List.find (\<lambda>c. c \<notin> set (column_names t)) (map fst vs) of
        Some c \<Rightarrow> Inl (UnknownColumn c)
      | None \<Rightarrow>
         (let r = filled_row (clock d) t vs in
          case row_error (t_columns t) r of
            Some e \<Rightarrow> Inl e
          | None \<Rightarrow> if keys_hold t (t_rows t @ [r]) then Inr (t\<lparr>t_rows := t_rows t @ [r]\<rparr>)
                    else Inl (DuplicateEntry n))) d"

text \<open>\<open>INSERT IGNORE\<close> leaves out the rows that are in conflict on a unique key.\<close>

fun insert_ignored :: "time \<Rightarrow> sql_table \<Rightarrow> (string \<times> cell) list list \<Rightarrow> sql_table" where
  "insert_ignored now t [] = t"
| "insert_ignored now t (vs # rest) =
    (let r = filled_row now t vs in
     insert_ignored now
       (if keys_hold t (t_rows t @ [r]) then t\<lparr>t_rows := t_rows t @ [r]\<rparr> else t) rest)"

definition insert_ignore :: "string \<Rightarrow> (string \<times> cell) list list \<Rightarrow> database \<Rightarrow> db_error + database" where
  "insert_ignore n vss d =
    in_table n (\<lambda>t.
      case List.find (\<lambda>c. c \<notin> set (column_names t)) (concat (map (map fst) vss)) of
        Some c \<Rightarrow> Inl (UnknownColumn c)
      | None \<Rightarrow> Inr (insert_ignored (clock d) t vss)) d"

section \<open>Migration steps\<close>

text \<open>
  A step works on the open transaction: \<open>work\<close> is what its statements see, \<open>saved\<close> what
  a failure leaves behind. A schema statement commits what came before it, whether it
  succeeds or not; a data statement waits for the next commit.
\<close>

record session =
  work :: database
  saved :: database

type_synonym step = "session \<Rightarrow> (db_error \<times> session) + session"

definition ddl :: "(database \<Rightarrow> db_error + database) \<Rightarrow> step" where
  "ddl f s =
    (case f (work s) of
       Inl e \<Rightarrow> Inl (e, s\<lparr>saved := work s\<rparr>)
     | Inr d \<Rightarrow> Inr \<lparr>work = d, saved = d\<rparr>)"

definition dml :: "(database \<Rightarrow> db_error + database) \<Rightarrow> step" where
  "dml f s = (case f (work s) of Inl e \<Rightarrow> Inl (e, s) | Inr d \<Rightarrow> Inr (s\<lparr>work := d\<rparr>))"

fun run_steps :: "step list \<Rightarrow> step" where
  "run_steps [] s = Inr s"
| "run_steps (m # ms) s = (case m s of Inl e \<Rightarrow> Inl e | Inr s' \<Rightarrow> run_steps ms s')"

definition unless :: "(database \<Rightarrow> bool) \<Rightarrow> step \<Rightarrow> step" where
  "unless p m s = (if p (work s) then Inr s else m s)"

text \<open>The operations of \<open>alembic.op\<close> as steps.\<close>

definition op_create_table :: "string \<Rightarrow> sql_column list \<Rightarrow> string list \<Rightarrow> sql_key list \<Rightarrow> step" where
  "op_create_table n cs pk ks = ddl (create_table n cs pk ks)"

definition op_drop_table :: "string \<Rightarrow> step" where
  "op_drop_table n = ddl (drop_table n)"

definition op_add_column :: "string \<Rightarrow> sql_column \<Rightarrow> step" where
  "op_add_column n c = ddl (add_column n c)"

definition op_drop_column :: "string \<Rightarrow> string \<Rightarrow> step" where
  "op_drop_column n c = ddl (drop_column n c)"

definition op_alter_nullable :: "string \<Rightarrow> string \<Rightarrow> bool \<Rightarrow> step" where
  "op_alter_nullable n c nl = ddl (alter_nullable n c nl)"

definition op_create_index :: "string \<Rightarrow> string \<Rightarrow> string list \<Rightarrow> bool \<Rightarrow> step" where
  "op_create_index k n cs u = ddl (create_index k n cs u)"

definition op_create_unique_constraint :: "string \<Rightarrow> string \<Rightarrow> string list \<Rightarrow> step" where
  "op_create_unique_constraint k n cs = ddl (create_unique_constraint k n cs)"

definition op_drop_index :: "string \<Rightarrow> string \<Rightarrow> step" where
  "op_drop_index k n = ddl (drop_index k n)"

definition transaction :: "database \<Rightarrow> step \<Rightarrow> (db_error \<times> database) + database" where
  "transaction d m =
    (case m \<lparr>work = d, saved = d\<rparr> of
       Inl (e, s) \<Rightarrow> Inl (e, saved s)
     | Inr s \<Rightarrow> Inr (work s))"

end
