(* ===== verification/Baseline.thy ===== *)
theory Baseline
  imports Schema
begin

text \<open>
  The first revision, \<open>migrations/versions/aa1a7986f555_baseline_schema.py\<close>: one group
  of steps per table, in the order of the file, with the table's columns, its key
  constraints and its indexes.
\<close>

section \<open>Upgrade\<close>

definition commerce_order_items_steps :: "step list" where
  "commerce_order_items_steps =
   [op_create_table ''commerce_order_items''
     [mk_column ''id'' SqlInteger False NoServerDefault,
      mk_column ''order_id'' SqlInteger False NoServerDefault,
      mk_column ''order_no'' (SqlString 40) False NoServerDefault,
      mk_column ''product_id'' SqlInteger False NoServerDefault,
      mk_column ''product_name'' (SqlString 160) False NoServerDefault,
      mk_column ''product_type'' (SqlString 30) False NoServerDefault,
      mk_column ''school_id'' SqlInteger False NoServerDefault,
      mk_column ''unit_price'' (SqlNumeric 10 2) False NoServerDefault,
      mk_column ''quantity'' SqlInteger False NoServerDefault,
      mk_column ''total_amount'' (SqlNumeric 10 2) False NoServerDefault,
      mk_column ''installment_count'' SqlInteger False NoServerDefault,
      mk_column ''stock_deducted'' SqlBoolean False NoServerDefault,
      mk_column ''status'' (SqlString 20) False NoServerDefault,
      mk_column ''created_at'' SqlDateTime False CurrentTimestamp,
      mk_column ''updated_at'' SqlDateTime False CurrentTimestamp]
     [''id''] [],
    op_create_index ''ix_commerce_order_items_order_id'' ''commerce_order_items'' [''order_id''] False,
    op_create_index ''ix_commerce_order_items_order_no'' ''commerce_order_items'' [''order_no''] False,
    op_create_index ''ix_commerce_order_items_order_product'' ''commerce_order_items'' [''order_id'', ''product_id''] False,
    op_create_index ''ix_commerce_order_items_product_id'' ''commerce_order_items'' [''product_id''] False,
    op_create_index ''ix_commerce_order_items_product_status'' ''commerce_order_items'' [''product_id'', ''status''] False,
    op_create_index ''ix_commerce_order_items_product_type'' ''commerce_order_items'' [''product_type''] False,
    op_create_index ''ix_commerce_order_items_school_id'' ''commerce_order_items'' [''school_id''] False,
    op_create_index ''ix_commerce_order_items_status'' ''commerce_order_items'' [''status''] False,
    op_create_index ''ix_commerce_order_items_stock_deducted'' ''commerce_order_items'' [''stock_deducted''] False]"

definition commerce_orders_steps :: "step list" where
  "commerce_orders_steps =
   [op_create_table ''commerce_orders''
     [mk_column ''id'' SqlInteger False NoServerDefault,
      mk_column ''order_no'' (SqlString 40) False NoServerDefault,
      mk_column ''user_id'' SqlInteger False NoServerDefault,
      mk_column ''school_id'' SqlInteger False NoServerDefault,
      mk_column ''total_amount'' (SqlNumeric 10 2) False NoServerDefault,
      mk_column ''payable_amount'' (SqlNumeric 10 2) False NoServerDefault,
      mk_column ''payment_method'' (SqlString 20) False NoServerDefault,
      mk_column ''payment_status'' (SqlString 20) False NoServerDefault,
      mk_column ''status'' (SqlString 20) False NoServerDefault,
      mk_column ''idempotency_key'' (SqlString 120) False NoServerDefault,
      mk_column ''transaction_id'' (SqlString 100) False NoServerDefault,
      mk_column ''paid_at'' SqlDateTime True NoServerDefault,
      mk_column ''canceled_at'' SqlDateTime True NoServerDefault,
      mk_column ''cancel_reason'' (SqlString 255) False NoServerDefault,
      mk_column ''created_at'' SqlDateTime False CurrentTimestamp,
      mk_column ''updated_at'' SqlDateTime False CurrentTimestamp]
     [''id''] [mk_key ''uq_commerce_orders_user_idempotency'' [''user_id'', ''idempotency_key''] True],
    op_create_index ''ix_commerce_orders_idempotency_key'' ''commerce_orders'' [''idempotency_key''] False,
    op_create_index ''ix_commerce_orders_order_no'' ''commerce_orders'' [''order_no''] True,
    op_create_index ''ix_commerce_orders_payment_method'' ''commerce_orders'' [''payment_method''] False,
    op_create_index ''ix_commerce_orders_payment_status'' ''commerce_orders'' [''payment_status''] False,
    op_create_index ''ix_commerce_orders_payment_status_created'' ''commerce_orders'' [''payment_status'', ''created_at''] False,
    op_create_index ''ix_commerce_orders_school_id'' ''commerce_orders'' [''school_id''] False,
    op_create_index ''ix_commerce_orders_status'' ''commerce_orders'' [''status''] False,
    op_create_index ''ix_commerce_orders_user_id'' ''commerce_orders'' [''user_id''] False,
    op_create_index ''ix_commerce_orders_user_status_created'' ''commerce_orders'' [''user_id'', ''status'', ''created_at''] False]"

definition content_articles_steps :: "step list" where
  "content_articles_steps =
   [op_create_table ''content_articles''
     [mk_column ''id'' SqlInteger False NoServerDefault,
      mk_column ''title'' (SqlString 160) False NoServerDefault,
      mk_column ''slug'' (SqlString 80) False NoServerDefault,
      mk_column ''summary'' (SqlString 255) False NoServerDefault,
      mk_column ''content'' SqlText False NoServerDefault,
      mk_column ''category'' (SqlString 40) False NoServerDefault,
      mk_column ''cover'' SqlText False NoServerDefault,
      mk_column ''pinned'' SqlBoolean False NoServerDefault,
      mk_column ''status'' SqlBoolean False NoServerDefault,
      mk_column ''sort_order'' SqlInteger False NoServerDefault,
      mk_column ''published_at'' SqlDateTime True NoServerDefault,
      mk_column ''created_at'' SqlDateTime False CurrentTimestamp,
      mk_column ''updated_at'' SqlDateTime False CurrentTimestamp]
     [''id''] [],
    op_create_index ''ix_content_articles_category'' ''content_articles'' [''category''] False,
    op_create_index ''ix_content_articles_pinned'' ''content_articles'' [''pinned''] False,
    op_create_index ''ix_content_articles_published_at'' ''content_articles'' [''published_at''] False,
    op_create_index ''ix_content_articles_slug'' ''content_articles'' [''slug''] True,
    op_create_index ''ix_content_articles_sort_order'' ''content_articles'' [''sort_order''] False,
    op_create_index ''ix_content_articles_status'' ''content_articles'' [''status''] False,
    op_create_index ''ix_content_articles_title'' ''content_articles'' [''title''] False]"

definition contract_template_snapshots_steps :: "step list" where
  "contract_template_snapshots_steps =
   [op_create_table ''contract_template_snapshots''
     [mk_column ''id'' SqlInteger False NoServerDefault,
      mk_column ''version'' SqlInteger False NoServerDefault,
      mk_column ''title'' (SqlString 120) False NoServerDefault,
      mk_column ''content'' SqlText False NoServerDefault,
      mk_column ''travel_date_days'' SqlInteger False NoServerDefault,
      mk_column ''content_hash'' (SqlString 64) False NoServerDefault,
      mk_column ''created_at'' SqlDateTime False CurrentTimestamp,
      mk_column ''updated_at'' SqlDateTime False CurrentTimestamp]
     [''id''] [],
    op_create_index ''ix_contract_template_snapshots_content_hash'' ''contract_template_snapshots'' [''content_hash''] False,
    op_create_index ''ix_contract_template_snapshots_version'' ''contract_template_snapshots'' [''version''] True]"

definition custom_travel_requests_steps :: "step list" where
  "custom_travel_requests_steps =
   [op_create_table ''custom_travel_requests''
     [mk_column ''id'' SqlInteger False NoServerDefault,
      mk_column ''request_no'' (SqlString 40) False NoServerDefault,
      mk_column ''user_id'' SqlInteger False NoServerDefault,
      mk_column ''user_no'' (SqlString 64) False NoServerDefault,
      mk_column ''user_name'' (SqlString 60) False NoServerDefault,
      mk_column ''phone'' (SqlString 30) False NoServerDefault,
      mk_column ''destination'' (SqlString 160) False NoServerDefault,
      mk_column ''travel_time'' (SqlString 80) False NoServerDefault,
      mk_column ''days'' (SqlString 40) False NoServerDefault,
      mk_column ''budget'' (SqlString 80) False NoServerDefault,
      mk_column ''people_count'' (SqlString 40) False NoServerDefault,
      mk_column ''special_tags'' SqlJSON False NoServerDefault,
      mk_column ''note'' SqlText False NoServerDefault,
      mk_column ''status'' (SqlString 20) False NoServerDefault,
      mk_column ''reject_reason'' (SqlString 255) False NoServerDefault,
      mk_column ''plan_title'' (SqlString 160) False NoServerDefault,
      mk_column ''plan_summary'' SqlText False NoServerDefault,
      mk_column ''plan_price'' (SqlString 80) False NoServerDefault,
      mk_column ''plan_itinerary'' SqlJSON False NoServerDefault,
      mk_column ''plan_includes'' SqlJSON False NoServerDefault,
      mk_column ''plan_tips'' SqlText False NoServerDefault,
      mk_column ''reviewed_at'' SqlDateTime True NoServerDefault,
      mk_column ''reviewed_by'' SqlInteger True NoServerDefault,
      mk_column ''created_at'' SqlDateTime False CurrentTimestamp,
      mk_column ''updated_at'' SqlDateTime False CurrentTimestamp]
     [''id''] [],
    op_create_index ''ix_custom_travel_requests_request_no'' ''custom_travel_requests'' [''request_no''] True,
    op_create_index ''ix_custom_travel_requests_status'' ''custom_travel_requests'' [''status''] False,
    op_create_index ''ix_custom_travel_requests_user_id'' ''custom_travel_requests'' [''user_id''] False,
    op_create_index ''ix_custom_travel_requests_user_no'' ''custom_travel_requests'' [''user_no''] False,
    op_create_index ''ix_custom_travel_status_created'' ''custom_travel_requests'' [''status'', ''created_at''] False,
    op_create_index ''ix_custom_travel_user_status'' ''custom_travel_requests'' [''user_id'', ''status''] False]"

definition decoration_configs_steps :: "step list" where
  "decoration_configs_steps =
   [op_create_table ''decoration_configs''
     [mk_column ''id'' SqlInteger False NoServerDefault,
      mk_column ''status'' (SqlString 20) False NoServerDefault,
      mk_column ''version'' SqlInteger False NoServerDefault,
      mk_column ''content'' SqlJSON False NoServerDefault,
      mk_column ''published_at'' SqlDateTime True NoServerDefault,
      mk_column ''created_at'' SqlDateTime False CurrentTimestamp,
      mk_column ''updated_at'' SqlDateTime False CurrentTimestamp]
     [''id''] [],
    op_create_index ''ix_decoration_configs_status'' ''decoration_configs'' [''status''] False]"

definition graduation_certifications_steps :: "step list" where
  "graduation_certifications_steps =
   [op_create_table ''graduation_certifications''
     [mk_column ''id'' SqlInteger False NoServerDefault,
      mk_column ''user_id'' SqlInteger False NoServerDefault,
      mk_column ''real_name'' (SqlString 60) False NoServerDefault,
      mk_column ''school_name'' (SqlString 120) False NoServerDefault,
      mk_column ''major_name'' (SqlString 120) False NoServerDefault,
      mk_column ''graduation_date'' (SqlString 20) False NoServerDefault,
      mk_column ''certificate_no'' (SqlString 80) False NoServerDefault,
      mk_column ''certificate_image'' SqlText False NoServerDefault,
      mk_column ''status'' (SqlString 20) False NoServerDefault,
      mk_column ''reject_reason'' (SqlString 255) False NoServerDefault,
      mk_column ''reviewed_by'' SqlInteger True NoServerDefault,
      mk_column ''reviewed_at'' SqlDateTime True NoServerDefault,
      mk_column ''created_at'' SqlDateTime False CurrentTimestamp,
      mk_column ''updated_at'' SqlDateTime False CurrentTimestamp]
     [''id''] [],
    op_create_index ''ix_graduation_certifications_status'' ''graduation_certifications'' [''status''] False,
    op_create_index ''ix_graduation_certifications_user_id'' ''graduation_certifications'' [''user_id''] True]"

definition invite_relations_steps :: "step list" where
  "invite_relations_steps =
   [op_create_table ''invite_relations''
     [mk_column ''id'' SqlInteger False NoServerDefault,
      mk_column ''inviter_id'' (SqlString 40) False NoServerDefault,
      mk_column ''invitee_phone'' (SqlString 30) False NoServerDefault,
      mk_column ''device_id'' (SqlString 100) False NoServerDefault,
      mk_column ''score_granted'' SqlBoolean False NoServerDefault,
      mk_column ''abnormal'' SqlBoolean False NoServerDefault,
      mk_column ''frozen'' SqlBoolean False NoServerDefault,
      mk_column ''created_at'' SqlDateTime False CurrentTimestamp,
      mk_column ''updated_at'' SqlDateTime False CurrentTimestamp]
     [''id''] [],
    op_create_index ''ix_invite_relations_abnormal'' ''invite_relations'' [''abnormal''] False,
    op_create_index ''ix_invite_relations_device_id'' ''invite_relations'' [''device_id''] False,
    op_create_index ''ix_invite_relations_invitee_phone'' ''invite_relations'' [''invitee_phone''] False,
    op_create_index ''ix_invite_relations_inviter_id'' ''invite_relations'' [''inviter_id''] False]"

definition learning_profiles_steps :: "step list" where
  "learning_profiles_steps =
   [op_create_table ''learning_profiles''
     [mk_column ''id'' SqlInteger False NoServerDefault,
      mk_column ''user_id'' SqlInteger False NoServerDefault,
      mk_column ''target_exam'' (SqlString 80) False NoServerDefault,
      mk_column ''current_stage'' (SqlString 80) False NoServerDefault,
      mk_column ''total_minutes'' SqlInteger False NoServerDefault,
      mk_column ''checkin_days'' SqlInteger False NoServerDefault,
      mk_column ''last_checkin_at'' SqlDateTime True NoServerDefault,
      mk_column ''advisor_notes'' SqlText False NoServerDefault,
      mk_column ''created_at'' SqlDateTime False CurrentTimestamp,
      mk_column ''updated_at'' SqlDateTime False CurrentTimestamp]
     [''id''] [],
    op_create_index ''ix_learning_profiles_user_id'' ''learning_profiles'' [''user_id''] True]"

definition platform_announcements_steps :: "step list" where
  "platform_announcements_steps =
   [op_create_table ''platform_announcements''
     [mk_column ''id'' SqlInteger False NoServerDefault,
      mk_column ''title'' (SqlString 160) False NoServerDefault,
      mk_column ''summary'' (SqlString 255) False NoServerDefault,
      mk_column ''content'' SqlText False NoServerDefault,
      mk_column ''tag'' (SqlString 40) False NoServerDefault,
      mk_column ''pinned'' SqlBoolean False NoServerDefault,
      mk_column ''status'' SqlBoolean False NoServerDefault,
      mk_column ''published_at'' SqlDateTime True NoServerDefault,
      mk_column ''start_at'' SqlDateTime True NoServerDefault,
      mk_column ''end_at'' SqlDateTime True NoServerDefault,
      mk_column ''created_at'' SqlDateTime False CurrentTimestamp,
      mk_column ''updated_at'' SqlDateTime False CurrentTimestamp]
     [''id''] [],
    op_create_index ''ix_platform_announcements_pinned'' ''platform_announcements'' [''pinned''] False,
    op_create_index ''ix_platform_announcements_published_at'' ''platform_announcements'' [''published_at''] False,
    op_create_index ''ix_platform_announcements_status'' ''platform_announcements'' [''status''] False,
    op_create_index ''ix_platform_announcements_title'' ''platform_announcements'' [''title''] False]"

definition point_rules_steps :: "step list" where
  "point_rules_steps =
   [op_create_table ''point_rules''
     [mk_column ''id'' SqlInteger False NoServerDefault,
      mk_column ''invite_score'' SqlInteger False NoServerDefault,
      mk_column ''exchange_score'' SqlInteger False NoServerDefault,
      mk_column ''valid_days'' SqlInteger False NoServerDefault,
      mk_column ''yearly_limit'' SqlInteger False NoServerDefault,
      mk_column ''monthly_stock'' SqlInteger False NoServerDefault,
      mk_column ''enabled'' SqlBoolean False NoServerDefault,
      mk_column ''created_at'' SqlDateTime False CurrentTimestamp,
      mk_column ''updated_at'' SqlDateTime False CurrentTimestamp]
     [''id''] []]"

definition preference_events_steps :: "step list" where
  "preference_events_steps =
   [op_create_table ''preference_events''
     [mk_column ''id'' SqlInteger False NoServerDefault,
      mk_column ''user_id'' (SqlString 64) False NoServerDefault,
      mk_column ''user_name'' (SqlString 60) False NoServerDefault,
      mk_column ''preference_type'' (SqlString 20) False NoServerDefault,
      mk_column ''target_key'' (SqlString 120) False NoServerDefault,
      mk_column ''target_name'' (SqlString 160) False NoServerDefault,
      mk_column ''action'' (SqlString 30) False NoServerDefault,
      mk_column ''score'' SqlInteger False NoServerDefault,
      mk_column ''created_at'' SqlDateTime False CurrentTimestamp,
      mk_column ''updated_at'' SqlDateTime False CurrentTimestamp]
     [''id''] [],
    op_create_index ''ix_preference_events_action'' ''preference_events'' [''action''] False,
    op_create_index ''ix_preference_events_preference_type'' ''preference_events'' [''preference_type''] False,
    op_create_index ''ix_preference_events_target_key'' ''preference_events'' [''target_key''] False,
    op_create_index ''ix_preference_events_user_id'' ''preference_events'' [''user_id''] False]"

definition school_merchant_sessions_steps :: "step list" where
  "school_merchant_sessions_steps =
   [op_create_table ''school_merchant_sessions''
     [mk_column ''token'' (SqlString 128) False NoServerDefault,
      mk_column ''school_id'' SqlInteger False NoServerDefault,
      mk_column ''created_at'' SqlDateTime False CurrentTimestamp,
      mk_column ''expires_at'' SqlDateTime False NoServerDefault,
      mk_column ''last_seen_at'' SqlDateTime True NoServerDefault]
     [''token''] [],
    op_create_index ''ix_school_merchant_sessions_expires_at'' ''school_merchant_sessions'' [''expires_at''] False,
    op_create_index ''ix_school_merchant_sessions_school_id'' ''school_merchant_sessions'' [''school_id''] False]"

definition school_sites_steps :: "step list" where
  "school_sites_steps =
   [op_create_table ''school_sites''
     [mk_column ''id'' SqlInteger False NoServerDefault,
      mk_column ''name'' (SqlString 160) False NoServerDefault,
      mk_column ''short_name'' (SqlString 80) False NoServerDefault,
      mk_column ''city'' (SqlString 60) False NoServerDefault,
      mk_column ''district'' (SqlString 60) False NoServerDefault,
      mk_column ''logo'' SqlText False NoServerDefault,
      mk_column ''status'' SqlBoolean False NoServerDefault,
      mk_column ''is_current'' SqlBoolean False NoServerDefault,
      mk_column ''review_status'' (SqlString 20) False NoServerDefault,
      mk_column ''reject_reason'' (SqlString 255) False NoServerDefault,
      mk_column ''merchant_account'' (SqlString 60) False NoServerDefault,
      mk_column ''merchant_password_hash'' (SqlString 255) False NoServerDefault,
      mk_column ''display_weight'' SqlInteger False NoServerDefault,
      mk_column ''sort_order'' SqlInteger False NoServerDefault,
      mk_column ''description'' SqlText False NoServerDefault,
      mk_column ''created_at'' SqlDateTime False CurrentTimestamp,
      mk_column ''updated_at'' SqlDateTime False CurrentTimestamp]
     [''id''] [],
    op_create_index ''ix_school_sites_display_weight'' ''school_sites'' [''display_weight''] False,
    op_create_index ''ix_school_sites_is_current'' ''school_sites'' [''is_current''] False,
    op_create_index ''ix_school_sites_merchant_account'' ''school_sites'' [''merchant_account''] False,
    op_create_index ''ix_school_sites_name'' ''school_sites'' [''name''] False,
    op_create_index ''ix_school_sites_review_status'' ''school_sites'' [''review_status''] False,
    op_create_index ''ix_school_sites_sort_order'' ''school_sites'' [''sort_order''] False,
    op_create_index ''ix_school_sites_status'' ''school_sites'' [''status''] False]"

definition study_contents_steps :: "step list" where
  "study_contents_steps =
   [op_create_table ''study_contents''
     [mk_column ''id'' SqlInteger False NoServerDefault,
      mk_column ''product_id'' SqlInteger False NoServerDefault,
      mk_column ''title'' (SqlString 160) False NoServerDefault,
      mk_column ''content_type'' (SqlString 30) False NoServerDefault,
      mk_column ''summary'' (SqlString 255) False NoServerDefault,
      mk_column ''resource_url'' SqlText False NoServerDefault,
      mk_column ''duration_minutes'' SqlInteger False NoServerDefault,
      mk_column ''preview'' SqlBoolean False NoServerDefault,
      mk_column ''sort_order'' SqlInteger False NoServerDefault,
      mk_column ''status'' SqlBoolean False NoServerDefault,
      mk_column ''created_at'' SqlDateTime False CurrentTimestamp,
      mk_column ''updated_at'' SqlDateTime False CurrentTimestamp]
     [''id''] [],
    op_create_index ''ix_study_contents_product_id'' ''study_contents'' [''product_id''] False]"

definition study_orders_steps :: "step list" where
  "study_orders_steps =
   [op_create_table ''study_orders''
     [mk_column ''id'' SqlInteger False NoServerDefault,
      mk_column ''order_no'' (SqlString 40) False NoServerDefault,
      mk_column ''user_id'' SqlInteger False NoServerDefault,
      mk_column ''school_id'' SqlInteger False NoServerDefault,
      mk_column ''product_id'' SqlInteger False NoServerDefault,
      mk_column ''product_name'' (SqlString 160) False NoServerDefault,
      mk_column ''product_type'' (SqlString 30) False NoServerDefault,
      mk_column ''amount'' (SqlNumeric 10 2) False NoServerDefault,
      mk_column ''payment_method'' (SqlString 20) False NoServerDefault,
      mk_column ''payment_status'' (SqlString 20) False NoServerDefault,
      mk_column ''transaction_id'' (SqlString 80) False NoServerDefault,
      mk_column ''installment_no'' SqlInteger False NoServerDefault,
      mk_column ''installment_count'' SqlInteger False NoServerDefault,
      mk_column ''paid_at'' SqlDateTime True NoServerDefault,
      mk_column ''created_at'' SqlDateTime False CurrentTimestamp,
      mk_column ''updated_at'' SqlDateTime False CurrentTimestamp]
     [''id''] [],
    op_create_index ''ix_study_orders_order_no'' ''study_orders'' [''order_no''] True,
    op_create_index ''ix_study_orders_payment_status'' ''study_orders'' [''payment_status''] False,
    op_create_index ''ix_study_orders_product_id'' ''study_orders'' [''product_id''] False,
    op_create_index ''ix_study_orders_product_type'' ''study_orders'' [''product_type''] False,
    op_create_index ''ix_study_orders_school_id'' ''study_orders'' [''school_id''] False,
    op_create_index ''ix_study_orders_user_id'' ''study_orders'' [''user_id''] False]"

definition study_products_steps :: "step list" where
  "study_products_steps =
   [op_create_table ''study_products''
     [mk_column ''id'' SqlInteger False NoServerDefault,
      mk_column ''school_id'' SqlInteger False NoServerDefault,
      mk_column ''name'' (SqlString 160) False NoServerDefault,
      mk_column ''product_type'' (SqlString 30) False NoServerDefault,
      mk_column ''subtitle'' (SqlString 255) False NoServerDefault,
      mk_column ''description'' SqlText False NoServerDefault,
      mk_column ''price'' (SqlNumeric 10 2) False NoServerDefault,
      mk_column ''original_price'' (SqlNumeric 10 2) False NoServerDefault,
      mk_column ''billing_cycle'' (SqlString 30) False NoServerDefault,
      mk_column ''cover'' SqlText False NoServerDefault,
      mk_column ''benefits'' SqlJSON False NoServerDefault,
      mk_column ''trial_minutes'' SqlInteger False NoServerDefault,
      mk_column ''stock'' SqlInteger False NoServerDefault,
      mk_column ''sales'' SqlInteger False NoServerDefault,
      mk_column ''featured'' SqlBoolean False NoServerDefault,
      mk_column ''installment_enabled'' SqlBoolean False NoServerDefault,
      mk_column ''installment_count'' SqlInteger False NoServerDefault,
      mk_column ''status'' SqlBoolean False NoServerDefault,
      mk_column ''review_status'' (SqlString 20) False NoServerDefault,
      mk_column ''reject_reason'' (SqlString 255) False NoServerDefault,
      mk_column ''created_at'' SqlDateTime False CurrentTimestamp,
      mk_column ''updated_at'' SqlDateTime False CurrentTimestamp]
     [''id''] [],
    op_create_index ''ix_study_products_featured'' ''study_products'' [''featured''] False,
    op_create_index ''ix_study_products_name'' ''study_products'' [''name''] False,
    op_create_index ''ix_study_products_product_type'' ''study_products'' [''product_type''] False,
    op_create_index ''ix_study_products_review_status'' ''study_products'' [''review_status''] False,
    op_create_index ''ix_study_products_school_id'' ''study_products'' [''school_id''] False,
    op_create_index ''ix_study_products_status'' ''study_products'' [''status''] False]"

definition support_conversations_steps :: "step list" where
  "support_conversations_steps =
   [op_create_table ''support_conversations''
     [mk_column ''id'' (SqlString 36) False NoServerDefault,
      mk_column ''user_id'' (SqlString 64) False NoServerDefault,
      mk_column ''user_name'' (SqlString 60) False NoServerDefault,
      mk_column ''status'' (SqlString 20) False NoServerDefault,
      mk_column ''last_message'' (SqlString 255) False NoServerDefault,
      mk_column ''unread_admin'' SqlInteger False NoServerDefault,
      mk_column ''unread_user'' SqlInteger False NoServerDefault,
      mk_column ''unread_merchant'' SqlInteger False NoServerDefault,
      mk_column ''conversation_type'' (SqlString 30) False NoServerDefault,
      mk_column ''order_id'' SqlInteger False NoServerDefault,
      mk_column ''order_no'' (SqlString 40) False NoServerDefault,
      mk_column ''product_id'' SqlInteger False NoServerDefault,
      mk_column ''product_name'' (SqlString 160) False NoServerDefault,
      mk_column ''school_id'' SqlInteger False NoServerDefault,
      mk_column ''school_name'' (SqlString 160) False NoServerDefault,
      mk_column ''user_online'' SqlBoolean False NoServerDefault,
      mk_column ''admin_online'' SqlBoolean False NoServerDefault,
      mk_column ''merchant_online'' SqlBoolean False NoServerDefault,
      mk_column ''last_user_online_at'' SqlDateTime True NoServerDefault,
      mk_column ''last_admin_online_at'' SqlDateTime True NoServerDefault,
      mk_column ''last_merchant_online_at'' SqlDateTime True NoServerDefault,
      mk_column ''created_at'' SqlDateTime False CurrentTimestamp,
      mk_column ''updated_at'' SqlDateTime False CurrentTimestamp]
     [''id''] [],
    op_create_index ''ix_support_conversations_admin_online'' ''support_conversations'' [''admin_online''] False,
    op_create_index ''ix_support_conversations_conversation_type'' ''support_conversations'' [''conversation_type''] False,
    op_create_index ''ix_support_conversations_merchant_online'' ''support_conversations'' [''merchant_online''] False,
    op_create_index ''ix_support_conversations_order_id'' ''support_conversations'' [''order_id''] False,
    op_create_index ''ix_support_conversations_order_no'' ''support_conversations'' [''order_no''] False,
    op_create_index ''ix_support_conversations_product_id'' ''support_conversations'' [''product_id''] False,
    op_create_index ''ix_support_conversations_school_id'' ''support_conversations'' [''school_id''] False,
    op_create_index ''ix_support_conversations_status'' ''support_conversations'' [''status''] False,
    op_create_index ''ix_support_conversations_user_id'' ''support_conversations'' [''user_id''] False,
    op_create_index ''ix_support_conversations_user_online'' ''support_conversations'' [''user_online''] False]"

definition support_messages_steps :: "step list" where
  "support_messages_steps =
   [op_create_table ''support_messages''
     [mk_column ''id'' SqlInteger False NoServerDefault,
      mk_column ''conversation_id'' (SqlString 36) False NoServerDefault,
      mk_column ''sender_role'' (SqlString 20) False NoServerDefault,
      mk_column ''sender_name'' (SqlString 60) False NoServerDefault,
      mk_column ''content'' SqlText False NoServerDefault,
      mk_column ''message_type'' (SqlString 20) False NoServerDefault,
      mk_column ''extra'' SqlJSON True NoServerDefault,
      mk_column ''image_url'' SqlText False NoServerDefault,
      mk_column ''image_thumb_url'' SqlText True NoServerDefault,
      mk_column ''created_at'' SqlDateTime False CurrentTimestamp]
     [''id''] [],
    op_create_index ''ix_support_messages_conversation_id'' ''support_messages'' [''conversation_id''] False,
    op_create_index ''ix_support_messages_created_at'' ''support_messages'' [''created_at''] False,
    op_create_index ''ix_support_messages_sender_role'' ''support_messages'' [''sender_role''] False]"

definition system_settings_steps :: "step list" where
  "system_settings_steps =
   [op_create_table ''system_settings''
     [mk_column ''key'' (SqlString 80) False NoServerDefault,
      mk_column ''value'' SqlJSON False NoServerDefault,
      mk_column ''remark'' (SqlString 255) False NoServerDefault,
      mk_column ''created_at'' SqlDateTime False CurrentTimestamp,
      mk_column ''updated_at'' SqlDateTime False CurrentTimestamp]
     [''key''] []]"

definition travel_orders_steps :: "step list" where
  "travel_orders_steps =
   [op_create_table ''travel_orders''
     [mk_column ''id'' SqlInteger False NoServerDefault,
      mk_column ''order_no'' (SqlString 40) False NoServerDefault,
      mk_column ''user_id'' SqlInteger False NoServerDefault,
      mk_column ''user_no'' (SqlString 64) False NoServerDefault,
      mk_column ''route_id'' SqlInteger False NoServerDefault,
      mk_column ''order_type'' (SqlString 30) False NoServerDefault,
      mk_column ''title'' (SqlString 160) False NoServerDefault,
      mk_column ''user_name'' (SqlString 60) False NoServerDefault,
      mk_column ''phone'' (SqlString 30) False NoServerDefault,
      mk_column ''travel_date'' (SqlString 30) False NoServerDefault,
      mk_column ''agency'' (SqlString 120) False NoServerDefault,
      mk_column ''amount_text'' (SqlString 60) False NoServerDefault,
      mk_column ''cover'' SqlText True NoServerDefault,
      mk_column ''status'' SqlInteger False NoServerDefault,
      mk_column ''reject_reason'' (SqlString 255) False NoServerDefault,
      mk_column ''contract_status'' (SqlString 20) False NoServerDefault,
      mk_column ''contract_signer_name'' (SqlString 60) False NoServerDefault,
      mk_column ''contract_signer_phone'' (SqlString 30) False NoServerDefault,
      mk_column ''contract_id_no'' (SqlString 40) False NoServerDefault,
      mk_column ''contract_template_version'' SqlInteger False NoServerDefault,
      mk_column ''contract_template_snapshot_id'' SqlInteger False NoServerDefault,
      mk_column ''contract_signature_data'' SqlMediumText True NoServerDefault,
      mk_column ''contract_signature_url'' SqlText True NoServerDefault,
      mk_column ''contract_signed_at'' SqlDateTime True NoServerDefault,
      mk_column ''contract_reviewed_at'' SqlDateTime True NoServerDefault,
      mk_column ''contract_reject_reason'' (SqlString 255) False NoServerDefault,
      mk_column ''fulfillment_status'' (SqlString 30) False NoServerDefault,
      mk_column ''pickup_address'' (SqlString 255) False NoServerDefault,
      mk_column ''pickup_detail'' (SqlString 255) False NoServerDefault,
      mk_column ''traveler_count'' SqlInteger False NoServerDefault,
      mk_column ''emergency_contact'' (SqlString 60) False NoServerDefault,
      mk_column ''emergency_phone'' (SqlString 30) False NoServerDefault,
      mk_column ''luggage_count'' SqlInteger False NoServerDefault,
      mk_column ''pickup_note'' (SqlString 500) False NoServerDefault,
      mk_column ''pickup_time'' (SqlString 60) False NoServerDefault,
      mk_column ''pickup_location'' (SqlString 255) False NoServerDefault,
      mk_column ''driver_name'' (SqlString 60) False NoServerDefault,
      mk_column ''driver_phone'' (SqlString 30) False NoServerDefault,
      mk_column ''vehicle_no'' (SqlString 40) False NoServerDefault,
      mk_column ''pickup_notice'' (SqlString 500) False NoServerDefault,
      mk_column ''pickup_confirmed_at'' SqlDateTime True NoServerDefault,
      mk_column ''qr_token'' (SqlString 80) False NoServerDefault,
      mk_column ''qr_issued_at'' SqlDateTime True NoServerDefault,
      mk_column ''checked_in_at'' SqlDateTime True NoServerDefault,
      mk_column ''completed_at'' SqlDateTime True NoServerDefault,
      mk_column ''exception_reason'' (SqlString 255) False NoServerDefault,
      mk_column ''created_at'' SqlDateTime False CurrentTimestamp,
      mk_column ''updated_at'' SqlDateTime False CurrentTimestamp]
     [''id''] [],
    op_create_index ''ix_travel_orders_contract_status'' ''travel_orders'' [''contract_status''] False,
    op_create_index ''ix_travel_orders_contract_template_snapshot_id'' ''travel_orders'' [''contract_template_snapshot_id''] False,
    op_create_index ''ix_travel_orders_contract_template_version'' ''travel_orders'' [''contract_template_version''] False,
    op_create_index ''ix_travel_orders_fulfillment_status'' ''travel_orders'' [''fulfillment_status''] False,
    op_create_index ''ix_travel_orders_order_no'' ''travel_orders'' [''order_no''] True,
    op_create_index ''ix_travel_orders_order_type'' ''travel_orders'' [''order_type''] False,
    op_create_index ''ix_travel_orders_qr_token'' ''travel_orders'' [''qr_token''] False,
    op_create_index ''ix_travel_orders_route_id'' ''travel_orders'' [''route_id''] False,
    op_create_index ''ix_travel_orders_status'' ''travel_orders'' [''status''] False,
    op_create_index ''ix_travel_orders_user_id'' ''travel_orders'' [''user_id''] False,
    op_create_index ''ix_travel_orders_user_no'' ''travel_orders'' [''user_no''] False]"

definition travel_route_reviews_steps :: "step list" where
  "travel_route_reviews_steps =
   [op_create_table ''travel_route_reviews''
     [mk_column ''id'' SqlInteger False NoServerDefault,
      mk_column ''route_id'' SqlInteger False NoServerDefault,
      mk_column ''order_id'' SqlInteger False NoServerDefault,
      mk_column ''order_no'' (SqlString 40) False NoServerDefault,
      mk_column ''user_id'' SqlInteger False NoServerDefault,
      mk_column ''user_no'' (SqlString 64) False NoServerDefault,
      mk_column ''user_name'' (SqlString 60) False NoServerDefault,
      mk_column ''rating'' SqlInteger False NoServerDefault,
      mk_column ''content'' SqlText False NoServerDefault,
      mk_column ''images'' SqlJSON False NoServerDefault,
      mk_column ''status'' (SqlString 20) False NoServerDefault,
      mk_column ''created_at'' SqlDateTime False CurrentTimestamp,
      mk_column ''updated_at'' SqlDateTime False CurrentTimestamp]
     [''id''] [mk_key ''uq_travel_route_reviews_order'' [''order_id''] True],
    op_create_index ''ix_travel_route_reviews_order_id'' ''travel_route_reviews'' [''order_id''] False,
    op_create_index ''ix_travel_route_reviews_order_no'' ''travel_route_reviews'' [''order_no''] False,
    op_create_index ''ix_travel_route_reviews_rating'' ''travel_route_reviews'' [''rating''] False,
    op_create_index ''ix_travel_route_reviews_route_id'' ''travel_route_reviews'' [''route_id''] False,
    op_create_index ''ix_travel_route_reviews_route_status_created'' ''travel_route_reviews'' [''route_id'', ''status'', ''created_at''] False,
    op_create_index ''ix_travel_route_reviews_status'' ''travel_route_reviews'' [''status''] False,
    op_create_index ''ix_travel_route_reviews_user_id'' ''travel_route_reviews'' [''user_id''] False,
    op_create_index ''ix_travel_route_reviews_user_no'' ''travel_route_reviews'' [''user_no''] False,
    op_create_index ''ix_travel_route_reviews_user_route'' ''travel_route_reviews'' [''user_id'', ''route_id''] False]"

definition travel_routes_steps :: "step list" where
  "travel_routes_steps =
   [op_create_table ''travel_routes''
     [mk_column ''id'' SqlInteger False NoServerDefault,
      mk_column ''school_id'' SqlInteger False NoServerDefault,
      mk_column ''name'' (SqlString 120) False NoServerDefault,
      mk_column ''category'' (SqlString 40) False NoServerDefault,
      mk_column ''days'' (SqlString 30) False NoServerDefault,
      mk_column ''price'' (SqlNumeric 10 2) False NoServerDefault,
      mk_column ''stock'' SqlInteger False NoServerDefault,
      mk_column ''agency'' (SqlString 120) False NoServerDefault,
      mk_column ''image'' SqlText False NoServerDefault,
      mk_column ''description'' SqlText False NoServerDefault,
      mk_column ''display_weight'' SqlInteger False NoServerDefault,
      mk_column ''review_status'' (SqlString 20) False NoServerDefault,
      mk_column ''reject_reason'' (SqlString 255) False NoServerDefault,
      mk_column ''status'' SqlBoolean False NoServerDefault,
      mk_column ''created_at'' SqlDateTime False CurrentTimestamp,
      mk_column ''updated_at'' SqlDateTime False CurrentTimestamp]
     [''id''] [],
    op_create_index ''ix_travel_routes_display_weight'' ''travel_routes'' [''display_weight''] False,
    op_create_index ''ix_travel_routes_name'' ''travel_routes'' [''name''] False,
    op_create_index ''ix_travel_routes_review_status'' ''travel_routes'' [''review_status''] False,
    op_create_index ''ix_travel_routes_school_id'' ''travel_routes'' [''school_id''] False,
    op_create_index ''ix_travel_routes_status'' ''travel_routes'' [''status''] False]"

definition uploaded_assets_steps :: "step list" where
  "uploaded_assets_steps =
   [op_create_table ''uploaded_assets''
     [mk_column ''id'' SqlInteger False NoServerDefault,
      mk_column ''source'' (SqlString 40) False NoServerDefault,
      mk_column ''storage'' (SqlString 20) False NoServerDefault,
      mk_column ''bucket'' (SqlString 120) False NoServerDefault,
      mk_column ''object_key'' (SqlString 500) False NoServerDefault,
      mk_column ''path'' SqlText False NoServerDefault,
      mk_column ''url'' SqlText False NoServerDefault,
      mk_column ''filename'' (SqlString 180) False NoServerDefault,
      mk_column ''original_name'' (SqlString 255) False NoServerDefault,
      mk_column ''mime_type'' (SqlString 120) False NoServerDefault,
      mk_column ''size'' SqlInteger False NoServerDefault,
      mk_column ''uploader_role'' (SqlString 20) False NoServerDefault,
      mk_column ''user_id'' SqlInteger True NoServerDefault,
      mk_column ''conversation_id'' (SqlString 64) False NoServerDefault,
      mk_column ''created_at'' SqlDateTime False CurrentTimestamp,
      mk_column ''updated_at'' SqlDateTime False CurrentTimestamp]
     [''id''] [],
    op_create_index ''ix_uploaded_assets_conversation_id'' ''uploaded_assets'' [''conversation_id''] False,
    op_create_index ''ix_uploaded_assets_source'' ''uploaded_assets'' [''source''] False,
    op_create_index ''ix_uploaded_assets_storage'' ''uploaded_assets'' [''storage''] False,
    op_create_index ''ix_uploaded_assets_uploader_role'' ''uploaded_assets'' [''uploader_role''] False,
    op_create_index ''ix_uploaded_assets_user_id'' ''uploaded_assets'' [''user_id''] False]"

definition user_accounts_steps :: "step list" where
  "user_accounts_steps =
   [op_create_table ''user_accounts''
     [mk_column ''id'' SqlInteger False NoServerDefault,
      mk_column ''user_no'' (SqlString 64) False NoServerDefault,
      mk_column ''phone'' (SqlString 30) False NoServerDefault,
      mk_column ''nickname'' (SqlString 60) False NoServerDefault,
      mk_column ''password_hash'' (SqlString 255) False NoServerDefault,
      mk_column ''role'' (SqlString 20) False NoServerDefault,
      mk_column ''status'' (SqlString 20) False NoServerDefault,
      mk_column ''avatar'' SqlText False NoServerDefault,
      mk_column ''points'' SqlInteger False NoServerDefault,
      mk_column ''balance'' (SqlNumeric 10 2) False NoServerDefault,
      mk_column ''exam_status'' (SqlString 20) False NoServerDefault,
      mk_column ''is_registered'' SqlBoolean False NoServerDefault,
      mk_column ''last_login_at'' SqlDateTime True NoServerDefault,
      mk_column ''created_at'' SqlDateTime False CurrentTimestamp,
      mk_column ''updated_at'' SqlDateTime False CurrentTimestamp]
     [''id''] [],
    op_create_index ''ix_user_accounts_is_registered'' ''user_accounts'' [''is_registered''] False,
    op_create_index ''ix_user_accounts_phone'' ''user_accounts'' [''phone''] True,
    op_create_index ''ix_user_accounts_role'' ''user_accounts'' [''role''] False,
    op_create_index ''ix_user_accounts_status'' ''user_accounts'' [''status''] False,
    op_create_index ''ix_user_accounts_user_no'' ''user_accounts'' [''user_no''] True]"

definition user_entitlements_steps :: "step list" where
  "user_entitlements_steps =
   [op_create_table ''user_entitlements''
     [mk_column ''id'' SqlInteger False NoServerDefault,
      mk_column ''user_id'' SqlInteger False NoServerDefault,
      mk_column ''product_id'' SqlInteger False NoServerDefault,
      mk_column ''order_id'' SqlInteger False NoServerDefault,
      mk_column ''entitlement_type'' (SqlString 30) False NoServerDefault,
      mk_column ''starts_at'' SqlDateTime False NoServerDefault,
      mk_column ''expires_at'' SqlDateTime True NoServerDefault,
      mk_column ''progress'' SqlInteger False NoServerDefault,
      mk_column ''status'' (SqlString 20) False NoServerDefault,
      mk_column ''created_at'' SqlDateTime False CurrentTimestamp,
      mk_column ''updated_at'' SqlDateTime False CurrentTimestamp]
     [''id''] [],
    op_create_index ''ix_user_entitlements_entitlement_type'' ''user_entitlements'' [''entitlement_type''] False,
    op_create_index ''ix_user_entitlements_order_id'' ''user_entitlements'' [''order_id''] False,
    op_create_index ''ix_user_entitlements_product_id'' ''user_entitlements'' [''product_id''] False,
    op_create_index ''ix_user_entitlements_status'' ''user_entitlements'' [''status''] False,
    op_create_index ''ix_user_entitlements_user_id'' ''user_entitlements'' [''user_id''] False]"

definition user_sessions_steps :: "step list" where
  "user_sessions_steps =
   [op_create_table ''user_sessions''
     [mk_column ''token'' (SqlString 128) False NoServerDefault,
      mk_column ''user_id'' SqlInteger False NoServerDefault,
      mk_column ''role'' (SqlString 20) False NoServerDefault,
      mk_column ''created_at'' SqlDateTime False CurrentTimestamp,
      mk_column ''expires_at'' SqlDateTime False NoServerDefault,
      mk_column ''last_seen_at'' SqlDateTime True NoServerDefault]
     [''token''] [],
    op_create_index ''ix_user_sessions_expires_at'' ''user_sessions'' [''expires_at''] False,
    op_create_index ''ix_user_sessions_role'' ''user_sessions'' [''role''] False,
    op_create_index ''ix_user_sessions_user_id'' ''user_sessions'' [''user_id''] False]"

definition wallet_transactions_steps :: "step list" where
  "wallet_transactions_steps =
   [op_create_table ''wallet_transactions''
     [mk_column ''id'' SqlInteger False NoServerDefault,
      mk_column ''user_id'' SqlInteger False NoServerDefault,
      mk_column ''user_no'' (SqlString 64) False NoServerDefault,
      mk_column ''transaction_no'' (SqlString 50) False NoServerDefault,
      mk_column ''direction'' (SqlString 20) False NoServerDefault,
      mk_column ''amount'' (SqlNumeric 10 2) False NoServerDefault,
      mk_column ''balance_before'' (SqlNumeric 10 2) False NoServerDefault,
      mk_column ''balance_after'' (SqlNumeric 10 2) False NoServerDefault,
      mk_column ''biz_type'' (SqlString 30) False NoServerDefault,
      mk_column ''biz_id'' SqlInteger False NoServerDefault,
      mk_column ''biz_no'' (SqlString 80) False NoServerDefault,
      mk_column ''remark'' (SqlString 255) False NoServerDefault,
      mk_column ''created_at'' SqlDateTime False CurrentTimestamp,
      mk_column ''updated_at'' SqlDateTime False CurrentTimestamp]
     [''id''] [],
    op_create_index ''ix_wallet_transactions_biz'' ''wallet_transactions'' [''biz_type'', ''biz_no''] False,
    op_create_index ''ix_wallet_transactions_biz_id'' ''wallet_transactions'' [''biz_id''] False,
    op_create_index ''ix_wallet_transactions_biz_no'' ''wallet_transactions'' [''biz_no''] False,
    op_create_index ''ix_wallet_transactions_biz_type'' ''wallet_transactions'' [''biz_type''] False,
    op_create_index ''ix_wallet_transactions_direction'' ''wallet_transactions'' [''direction''] False,
    op_create_index ''ix_wallet_transactions_transaction_no'' ''wallet_transactions'' [''transaction_no''] True,
    op_create_index ''ix_wallet_transactions_user_created'' ''wallet_transactions'' [''user_id'', ''created_at''] False,
    op_create_index ''ix_wallet_transactions_user_id'' ''wallet_transactions'' [''user_id''] False,
    op_create_index ''ix_wallet_transactions_user_no'' ''wallet_transactions'' [''user_no''] False]"

text \<open>\<open>upgrade()\<close>.\<close>

definition baseline_upgrade :: step where
  "baseline_upgrade = run_steps (concat
   [commerce_order_items_steps,
    commerce_orders_steps,
    content_articles_steps,
    contract_template_snapshots_steps,
    custom_travel_requests_steps,
    decoration_configs_steps,
    graduation_certifications_steps,
    invite_relations_steps,
    learning_profiles_steps,
    platform_announcements_steps,
    point_rules_steps,
    preference_events_steps,
    school_merchant_sessions_steps,
    school_sites_steps,
    study_contents_steps,
    study_orders_steps,
    study_products_steps,
    support_conversations_steps,
    support_messages_steps,
    system_settings_steps,
    travel_orders_steps,
    travel_route_reviews_steps,
    travel_routes_steps,
    uploaded_assets_steps,
    user_accounts_steps,
    user_entitlements_steps,
    user_sessions_steps,
    wallet_transactions_steps])"

section \<open>Downgrade\<close>

definition wallet_transactions_drops :: "step list" where
  "wallet_transactions_drops =
   [op_drop_index ''ix_wallet_transactions_user_no'' ''wallet_transactions'',
    op_drop_index ''ix_wallet_transactions_user_id'' ''wallet_transactions'',
    op_drop_index ''ix_wallet_transactions_user_created'' ''wallet_transactions'',
    op_drop_index ''ix_wallet_transactions_transaction_no'' ''wallet_transactions'',
    op_drop_index ''ix_wallet_transactions_direction'' ''wallet_transactions'',
    op_drop_index ''ix_wallet_transactions_biz_type'' ''wallet_transactions'',
    op_drop_index ''ix_wallet_transactions_biz_no'' ''wallet_transactions'',
    op_drop_index ''ix_wallet_transactions_biz_id'' ''wallet_transactions'',
    op_drop_index ''ix_wallet_transactions_biz'' ''wallet_transactions'',
    op_drop_table ''wallet_transactions'']"

definition user_sessions_drops :: "step list" where
  "user_sessions_drops =
   [op_drop_index ''ix_user_sessions_user_id'' ''user_sessions'',
    op_drop_index ''ix_user_sessions_role'' ''user_sessions'',
    op_drop_index ''ix_user_sessions_expires_at'' ''user_sessions'',
    op_drop_table ''user_sessions'']"

definition user_entitlements_drops :: "step list" where
  "user_entitlements_drops =
   [op_drop_index ''ix_user_entitlements_user_id'' ''user_entitlements'',
    op_drop_index ''ix_user_entitlements_status'' ''user_entitlements'',
    op_drop_index ''ix_user_entitlements_product_id'' ''user_entitlements'',
    op_drop_index ''ix_user_entitlements_order_id'' ''user_entitlements'',
    op_drop_index ''ix_user_entitlements_entitlement_type'' ''user_entitlements'',
    op_drop_table ''user_entitlements'']"

definition user_accounts_drops :: "step list" where
  "user_accounts_drops =
   [op_drop_index ''ix_user_accounts_user_no'' ''user_accounts'',
    op_drop_index ''ix_user_accounts_status'' ''user_accounts'',
    op_drop_index ''ix_user_accounts_role'' ''user_accounts'',
    op_drop_index ''ix_user_accounts_phone'' ''user_accounts'',
    op_drop_index ''ix_user_accounts_is_registered'' ''user_accounts'',
    op_drop_table ''user_accounts'']"

definition uploaded_assets_drops :: "step list" where
  "uploaded_assets_drops =
   [op_drop_index ''ix_uploaded_assets_user_id'' ''uploaded_assets'',
    op_drop_index ''ix_uploaded_assets_uploader_role'' ''uploaded_assets'',
    op_drop_index ''ix_uploaded_assets_storage'' ''uploaded_assets'',
    op_drop_index ''ix_uploaded_assets_source'' ''uploaded_assets'',
    op_drop_index ''ix_uploaded_assets_conversation_id'' ''uploaded_assets'',
    op_drop_table ''uploaded_assets'']"

definition travel_routes_drops :: "step list" where
  "travel_routes_drops =
   [op_drop_index ''ix_travel_routes_status'' ''travel_routes'',
    op_drop_index ''ix_travel_routes_school_id'' ''travel_routes'',
    op_drop_index ''ix_travel_routes_review_status'' ''travel_routes'',
    op_drop_index ''ix_travel_routes_name'' ''travel_routes'',
    op_drop_index ''ix_travel_routes_display_weight'' ''travel_routes'',
    op_drop_table ''travel_routes'']"

definition travel_route_reviews_drops :: "step list" where
  "travel_route_reviews_drops =
   [op_drop_index ''ix_travel_route_reviews_user_route'' ''travel_route_reviews'',
    op_drop_index ''ix_travel_route_reviews_user_no'' ''travel_route_reviews'',
    op_drop_index ''ix_travel_route_reviews_user_id'' ''travel_route_reviews'',
    op_drop_index ''ix_travel_route_reviews_status'' ''travel_route_reviews'',
    op_drop_index ''ix_travel_route_reviews_route_status_created'' ''travel_route_reviews'',
    op_drop_index ''ix_travel_route_reviews_route_id'' ''travel_route_reviews'',
    op_drop_index ''ix_travel_route_reviews_rating'' ''travel_route_reviews'',
    op_drop_index ''ix_travel_route_reviews_order_no'' ''travel_route_reviews'',
    op_drop_index ''ix_travel_route_reviews_order_id'' ''travel_route_reviews'',
    op_drop_table ''travel_route_reviews'']"

definition travel_orders_drops :: "step list" where
  "travel_orders_drops =
   [op_drop_index ''ix_travel_orders_user_no'' ''travel_orders'',
    op_drop_index ''ix_travel_orders_user_id'' ''travel_orders'',
    op_drop_index ''ix_travel_orders_status'' ''travel_orders'',
    op_drop_index ''ix_travel_orders_route_id'' ''travel_orders'',
    op_drop_index ''ix_travel_orders_qr_token'' ''travel_orders'',
    op_drop_index ''ix_travel_orders_order_type'' ''travel_orders'',
    op_drop_index ''ix_travel_orders_order_no'' ''travel_orders'',
    op_drop_index ''ix_travel_orders_fulfillment_status'' ''travel_orders'',
    op_drop_index ''ix_travel_orders_contract_template_version'' ''travel_orders'',
    op_drop_index ''ix_travel_orders_contract_template_snapshot_id'' ''travel_orders'',
    op_drop_index ''ix_travel_orders_contract_status'' ''travel_orders'',
    op_drop_table ''travel_orders'']"

definition system_settings_drops :: "step list" where
  "system_settings_drops =
   [op_drop_table ''system_settings'']"

definition support_messages_drops :: "step list" where
  "support_messages_drops =
   [op_drop_index ''ix_support_messages_sender_role'' ''support_messages'',
    op_drop_index ''ix_support_messages_created_at'' ''support_messages'',
    op_drop_index ''ix_support_messages_conversation_id'' ''support_messages'',
    op_drop_table ''support_messages'']"

definition support_conversations_drops :: "step list" where
  "support_conversations_drops =
   [op_drop_index ''ix_support_conversations_user_online'' ''support_conversations'',
    op_drop_index ''ix_support_conversations_user_id'' ''support_conversations'',
    op_drop_index ''ix_support_conversations_status'' ''support_conversations'',
    op_drop_index ''ix_support_conversations_school_id'' ''support_conversations'',
    op_drop_index ''ix_support_conversations_product_id'' ''support_conversations'',
    op_drop_index ''ix_support_conversations_order_no'' ''support_conversations'',
    op_drop_index ''ix_support_conversations_order_id'' ''support_conversations'',
    op_drop_index ''ix_support_conversations_merchant_online'' ''support_conversations'',
    op_drop_index ''ix_support_conversations_conversation_type'' ''support_conversations'',
    op_drop_index ''ix_support_conversations_admin_online'' ''support_conversations'',
    op_drop_table ''support_conversations'']"

definition study_products_drops :: "step list" where
  "study_products_drops =
   [op_drop_index ''ix_study_products_status'' ''study_products'',
    op_drop_index ''ix_study_products_school_id'' ''study_products'',
    op_drop_index ''ix_study_products_review_status'' ''study_products'',
    op_drop_index ''ix_study_products_product_type'' ''study_products'',
    op_drop_index ''ix_study_products_name'' ''study_products'',
    op_drop_index ''ix_study_products_featured'' ''study_products'',
    op_drop_table ''study_products'']"

definition study_orders_drops :: "step list" where
  "study_orders_drops =
   [op_drop_index ''ix_study_orders_user_id'' ''study_orders'',
    op_drop_index ''ix_study_orders_school_id'' ''study_orders'',
    op_drop_index ''ix_study_orders_product_type'' ''study_orders'',
    op_drop_index ''ix_study_orders_product_id'' ''study_orders'',
    op_drop_index ''ix_study_orders_payment_status'' ''study_orders'',
    op_drop_index ''ix_study_orders_order_no'' ''study_orders'',
    op_drop_table ''study_orders'']"

definition study_contents_drops :: "step list" where
  "study_contents_drops =
   [op_drop_index ''ix_study_contents_product_id'' ''study_contents'',
    op_drop_table ''study_contents'']"

definition school_sites_drops :: "step list" where
  "school_sites_drops =
   [op_drop_index ''ix_school_sites_status'' ''school_sites'',
    op_drop_index ''ix_school_sites_sort_order'' ''school_sites'',
    op_drop_index ''ix_school_sites_review_status'' ''school_sites'',
    op_drop_index ''ix_school_sites_name'' ''school_sites'',
    op_drop_index ''ix_school_sites_merchant_account'' ''school_sites'',
    op_drop_index ''ix_school_sites_is_current'' ''school_sites'',
    op_drop_index ''ix_school_sites_display_weight'' ''school_sites'',
    op_drop_table ''school_sites'']"

definition school_merchant_sessions_drops :: "step list" where
  "school_merchant_sessions_drops =
   [op_drop_index ''ix_school_merchant_sessions_school_id'' ''school_merchant_sessions'',
    op_drop_index ''ix_school_merchant_sessions_expires_at'' ''school_merchant_sessions'',
    op_drop_table ''school_merchant_sessions'']"

definition preference_events_drops :: "step list" where
  "preference_events_drops =
   [op_drop_index ''ix_preference_events_user_id'' ''preference_events'',
    op_drop_index ''ix_preference_events_target_key'' ''preference_events'',
    op_drop_index ''ix_preference_events_preference_type'' ''preference_events'',
    op_drop_index ''ix_preference_events_action'' ''preference_events'',
    op_drop_table ''preference_events'']"

definition point_rules_drops :: "step list" where
  "point_rules_drops =
   [op_drop_table ''point_rules'']"

definition platform_announcements_drops :: "step list" where
  "platform_announcements_drops =
   [op_drop_index ''ix_platform_announcements_title'' ''platform_announcements'',
    op_drop_index ''ix_platform_announcements_status'' ''platform_announcements'',
    op_drop_index ''ix_platform_announcements_published_at'' ''platform_announcements'',
    op_drop_index ''ix_platform_announcements_pinned'' ''platform_announcements'',
    op_drop_table ''platform_announcements'']"

definition learning_profiles_drops :: "step list" where
  "learning_profiles_drops =
   [op_drop_index ''ix_learning_profiles_user_id'' ''learning_profiles'',
    op_drop_table ''learning_profiles'']"

definition invite_relations_drops :: "step list" where
  "invite_relations_drops =
   [op_drop_index ''ix_invite_relations_inviter_id'' ''invite_relations'',
    op_drop_index ''ix_invite_relations_invitee_phone'' ''invite_relations'',
    op_drop_index ''ix_invite_relations_device_id'' ''invite_relations'',
    op_drop_index ''ix_invite_relations_abnormal'' ''invite_relations'',
    op_drop_table ''invite_relations'']"

definition graduation_certifications_drops :: "step list" where
  "graduation_certifications_drops =
   [op_drop_index ''ix_graduation_certifications_user_id'' ''graduation_certifications'',
    op_drop_index ''ix_graduation_certifications_status'' ''graduation_certifications'',
    op_drop_table ''graduation_certifications'']"

definition decoration_configs_drops :: "step list" where
  "decoration_configs_drops =
   [op_drop_index ''ix_decoration_configs_status'' ''decoration_configs'',
    op_drop_table ''decoration_configs'']"

definition custom_travel_requests_drops :: "step list" where
  "custom_travel_requests_drops =
   [op_drop_index ''ix_custom_travel_user_status'' ''custom_travel_requests'',
    op_drop_index ''ix_custom_travel_status_created'' ''custom_travel_requests'',
    op_drop_index ''ix_custom_travel_requests_user_no'' ''custom_travel_requests'',
    op_drop_index ''ix_custom_travel_requests_user_id'' ''custom_travel_requests'',
    op_drop_index ''ix_custom_travel_requests_status'' ''custom_travel_requests'',
    op_drop_index ''ix_custom_travel_requests_request_no'' ''custom_travel_requests'',
    op_drop_table ''custom_travel_requests'']"

definition contract_template_snapshots_drops :: "step list" where
  "contract_template_snapshots_drops =
   [op_drop_index ''ix_contract_template_snapshots_version'' ''contract_template_snapshots'',
    op_drop_index ''ix_contract_template_snapshots_content_hash'' ''contract_template_snapshots'',
    op_drop_table ''contract_template_snapshots'']"

definition content_articles_drops :: "step list" where
  "content_articles_drops =
   [op_drop_index ''ix_content_articles_title'' ''content_articles'',
    op_drop_index ''ix_content_articles_status'' ''content_articles'',
    op_drop_index ''ix_content_articles_sort_order'' ''content_articles'',
    op_drop_index ''ix_content_articles_slug'' ''content_articles'',
    op_drop_index ''ix_content_articles_published_at'' ''content_articles'',
    op_drop_index ''ix_content_articles_pinned'' ''content_articles'',
    op_drop_index ''ix_content_articles_category'' ''content_articles'',
    op_drop_table ''content_articles'']"

definition commerce_orders_drops :: "step list" where
  "commerce_orders_drops =
   [op_drop_index ''ix_commerce_orders_user_status_created'' ''commerce_orders'',
    op_drop_index ''ix_commerce_orders_user_id'' ''commerce_orders'',
    op_drop_index ''ix_commerce_orders_status'' ''commerce_orders'',
    op_drop_index ''ix_commerce_orders_school_id'' ''commerce_orders'',
    op_drop_index ''ix_commerce_orders_payment_status_created'' ''commerce_orders'',
    op_drop_index ''ix_commerce_orders_payment_status'' ''commerce_orders'',
    op_drop_index ''ix_commerce_orders_payment_method'' ''commerce_orders'',
    op_drop_index ''ix_commerce_orders_order_no'' ''commerce_orders'',
    op_drop_index ''ix_commerce_orders_idempotency_key'' ''commerce_orders'',
    op_drop_table ''commerce_orders'']"

definition commerce_order_items_drops :: "step list" where
  "commerce_order_items_drops =
   [op_drop_index ''ix_commerce_order_items_stock_deducted'' ''commerce_order_items'',
    op_drop_index ''ix_commerce_order_items_status'' ''commerce_order_items'',
    op_drop_index ''ix_commerce_order_items_school_id'' ''commerce_order_items'',
    op_drop_index ''ix_commerce_order_items_product_type'' ''commerce_order_items'',
    op_drop_index ''ix_commerce_order_items_product_status'' ''commerce_order_items'',
    op_drop_index ''ix_commerce_order_items_product_id'' ''commerce_order_items'',
    op_drop_index ''ix_commerce_order_items_order_product'' ''commerce_order_items'',
    op_drop_index ''ix_commerce_order_items_order_no'' ''commerce_order_items'',
    op_drop_index ''ix_commerce_order_items_order_id'' ''commerce_order_items'',
    op_drop_table ''commerce_order_items'']"

text \<open>\<open>downgrade()\<close>.\<close>

definition baseline_downgrade :: step where
  "baseline_downgrade = run_steps (concat
   [wallet_transactions_drops,
    user_sessions_drops,
    user_entitlements_drops,
    user_accounts_drops,
    uploaded_assets_drops,
    travel_routes_drops,
    travel_route_reviews_drops,
    travel_orders_drops,
    system_settings_drops,
    support_messages_drops,
    support_conversations_drops,
    study_products_drops,
    study_orders_drops,
    study_contents_drops,
    school_sites_drops,
    school_merchant_sessions_drops,
    preference_events_drops,
    point_rules_drops,
    platform_announcements_drops,
    learning_profiles_drops,
    invite_relations_drops,
    graduation_certifications_drops,
    decoration_configs_drops,
    custom_travel_requests_drops,
    contract_template_snapshots_drops,
    content_articles_drops,
    commerce_orders_drops,
    commerce_order_items_drops])"

end
