(* ===== verification/Migrations.thy ===== *)
theory Migrations
  imports Baseline
begin

text \<open>
  The revisions after the baseline, \<open>migrations/versions/*.py\<close>: their \<open>upgrade\<close> and
  \<open>downgrade\<close> as steps, in the order of the chain. The inspector's guards are read from
  the open transaction. Data statements are those of the \<open>mysql\<close> dialect. Texts for
  display are ASCII stand-ins.
\<close>

section \<open>Guards of the business integrity revision\<close>

text \<open>\<open>_add_column\<close>, \<open>_add_index\<close> and \<open>_make_nullable\<close> of \<open>b7f2c8d9e410\<close>.\<close>

definition add_missing_column :: "string \<Rightarrow> sql_column \<Rightarrow> step" where
  "add_missing_column n c = unless (has_column n (c_name c)) (op_add_column n c)"

definition add_missing_index :: "string \<Rightarrow> string \<times> string list \<Rightarrow> step" where
  "add_missing_index n = (\<lambda>(k, cs). unless (has_key n k) (op_create_index k n cs False))"

definition find_column :: "string \<Rightarrow> string \<Rightarrow> database \<Rightarrow> sql_column option" where
  "find_column n c d = (case find_table n d of None \<Rightarrow> None | Some t \<Rightarrow> find_by c_name c (t_columns t))"

definition make_nullable :: "string \<Rightarrow> string \<Rightarrow> step" where
  "make_nullable n c s =
    (case find_column n c (work s) of
       None \<Rightarrow> Inl (UnknownColumn c, s)
     | Some x \<Rightarrow> if c_nullable x then Inr s else op_alter_nullable n c True s)"

definition drop_if_present :: "(database \<Rightarrow> bool) \<Rightarrow> step \<Rightarrow> step" where
  "drop_if_present p m = unless (\<lambda>d. \<not> p d) m"

section \<open>b7f2c8d9e410: point ledger and travel lifecycle audit\<close>

definition legacy_indexes :: "(string \<times> (string \<times> string list) list) list" where
  "legacy_indexes =
   [(''school_sites'',
      [(''ix_school_sites_display_weight'', [''display_weight'']),
       (''ix_school_sites_merchant_account'', [''merchant_account'']),
       (''ix_school_sites_review_status'', [''review_status''])]),
    (''study_orders'', [(''ix_study_orders_school_id'', [''school_id''])]),
    (''study_products'',
      [(''ix_study_products_review_status'', [''review_status'']),
       (''ix_study_products_school_id'', [''school_id''])]),
    (''support_conversations'',
      [(''ix_support_conversations_conversation_type'', [''conversation_type'']),
       (''ix_support_conversations_merchant_online'', [''merchant_online'']),
       (''ix_support_conversations_order_id'', [''order_id'']),
       (''ix_support_conversations_order_no'', [''order_no'']),
       (''ix_support_conversations_product_id'', [''product_id'']),
       (''ix_support_conversations_school_id'', [''school_id''])]),
    (''travel_orders'',
      [(''ix_travel_orders_contract_status'', [''contract_status'']),
       (''ix_travel_orders_contract_template_snapshot_id'', [''contract_template_snapshot_id'']),
       (''ix_travel_orders_contract_template_version'', [''contract_template_version'']),
       (''ix_travel_orders_fulfillment_status'', [''fulfillment_status'']),
       (''ix_travel_orders_qr_token'', [''qr_token'']),
       (''ix_travel_orders_user_id'', [''user_id'']),
       (''ix_travel_orders_user_no'', [''user_no''])]),
    (''travel_routes'',
      [(''ix_travel_routes_display_weight'', [''display_weight'']),
       (''ix_travel_routes_review_status'', [''review_status'']),
       (''ix_travel_routes_school_id'', [''school_id''])])]"

definition add_legacy_indexes :: "step list" where
  "add_legacy_indexes =
    concat (map (\<lambda>(n, ixs). map (add_missing_index n) ixs) legacy_indexes)"

definition point_ledgers_steps :: "step list" where
  "point_ledgers_steps =
   [op_create_table ''point_ledgers''
     [mk_column ''id'' SqlInteger False NoServerDefault,
      mk_column ''transaction_no'' (SqlString 50) False NoServerDefault,
      mk_column ''user_id'' SqlInteger False NoServerDefault,
      mk_column ''user_no'' (SqlString 64) False (ServerDefault (StrCell [])),
      mk_column ''direction'' (SqlString 20) False NoServerDefault,
      mk_column ''amount'' SqlInteger False NoServerDefault,
      mk_column ''balance_before'' SqlInteger False NoServerDefault,
      mk_column ''balance_after'' SqlInteger False NoServerDefault,
      mk_column ''biz_type'' (SqlString 40) False NoServerDefault,
      mk_column ''biz_id'' SqlInteger False (ServerDefault (IntCell 0)),
      mk_column ''biz_no'' (SqlString 80) False (ServerDefault (StrCell [])),
      mk_column ''idempotency_key'' (SqlString 160) False NoServerDefault,
      mk_column ''remark'' (SqlString 255) False (ServerDefault (StrCell [])),
      mk_column ''created_at'' SqlDateTime False CurrentTimestamp]
     [''id''] [mk_key ''uq_point_ledgers_user_idempotency'' [''user_id'', ''idempotency_key''] True],
    op_create_index ''ix_point_ledgers_transaction_no'' ''point_ledgers'' [''transaction_no''] True,
    op_create_index ''ix_point_ledgers_user_id'' ''point_ledgers'' [''user_id''] False,
    op_create_index ''ix_point_ledgers_user_no'' ''point_ledgers'' [''user_no''] False,
    op_create_index ''ix_point_ledgers_direction'' ''point_ledgers'' [''direction''] False,
    op_create_index ''ix_point_ledgers_biz_type'' ''point_ledgers'' [''biz_type''] False,
    op_create_index ''ix_point_ledgers_biz_id'' ''point_ledgers'' [''biz_id''] False,
    op_create_index ''ix_point_ledgers_biz_no'' ''point_ledgers'' [''biz_no''] False,
    op_create_index ''ix_point_ledgers_created_at'' ''point_ledgers'' [''created_at''] False,
    op_create_index ''ix_point_ledgers_user_created'' ''point_ledgers'' [''user_id'', ''created_at''] False,
    op_create_index ''ix_point_ledgers_business'' ''point_ledgers'' [''biz_type'', ''biz_no''] False]"

definition point_lots_steps :: "step list" where
  "point_lots_steps =
   [op_create_table ''point_lots''
     [mk_column ''id'' SqlInteger False NoServerDefault,
      mk_column ''user_id'' SqlInteger False NoServerDefault,
      mk_column ''source_ledger_id'' SqlInteger False NoServerDefault,
      mk_column ''original_amount'' SqlInteger False NoServerDefault,
      mk_column ''remaining_amount'' SqlInteger False NoServerDefault,
      mk_column ''expires_at'' SqlDateTime True NoServerDefault,
      mk_column ''status'' (SqlString 20) False (ServerDefault (StrCell ''active'')),
      mk_column ''created_at'' SqlDateTime False CurrentTimestamp]
     [''id''] [mk_key ''uq_point_lots_source_ledger'' [''source_ledger_id''] True],
    op_create_index ''ix_point_lots_user_id'' ''point_lots'' [''user_id''] False,
    op_create_index ''ix_point_lots_source_ledger_id'' ''point_lots'' [''source_ledger_id''] False,
    op_create_index ''ix_point_lots_expires_at'' ''point_lots'' [''expires_at''] False,
    op_create_index ''ix_point_lots_status'' ''point_lots'' [''status''] False,
    op_create_index ''ix_point_lots_user_expiry'' ''point_lots'' [''user_id'', ''expires_at''] False]"

definition point_lot_allocations_steps :: "step list" where
  "point_lot_allocations_steps =
   [op_create_table ''point_lot_allocations''
     [mk_column ''id'' SqlInteger False NoServerDefault,
      mk_column ''expense_ledger_id'' SqlInteger False NoServerDefault,
      mk_column ''lot_id'' SqlInteger False NoServerDefault,
      mk_column ''amount'' SqlInteger False NoServerDefault,
      mk_column ''restored_amount'' SqlInteger False (ServerDefault (IntCell 0)),
      mk_column ''created_at'' SqlDateTime False CurrentTimestamp]
     [''id''] [mk_key ''uq_point_lot_allocations_expense_lot'' [''expense_ledger_id'', ''lot_id''] True],
    op_create_index ''ix_point_lot_allocations_expense_ledger_id'' ''point_lot_allocations'' [''expense_ledger_id''] False,
    op_create_index ''ix_point_lot_allocations_lot_id'' ''point_lot_allocations'' [''lot_id''] False]"

definition create_point_tables :: "step list" where
  "create_point_tables =
   [unless (has_table ''point_ledgers'') (run_steps point_ledgers_steps),
    unless (has_table ''point_lots'') (run_steps point_lots_steps),
    unless (has_table ''point_lot_allocations'') (run_steps point_lot_allocations_steps)]"

definition travel_order_audit_logs_steps :: "step list" where
  "travel_order_audit_logs_steps =
    op_create_table ''travel_order_audit_logs''
     [mk_column ''id'' SqlInteger False NoServerDefault,
      mk_column ''order_id'' SqlInteger False NoServerDefault,
      mk_column ''order_no'' (SqlString 40) False NoServerDefault,
      mk_column ''event_type'' (SqlString 40) False NoServerDefault,
      mk_column ''from_status'' (SqlString 40) False (ServerDefault (StrCell [])),
      mk_column ''to_status'' (SqlString 40) False (ServerDefault (StrCell [])),
      mk_column ''actor_role'' (SqlString 20) False (ServerDefault (StrCell ''system'')),
      mk_column ''actor_id'' SqlInteger False (ServerDefault (IntCell 0)),
      mk_column ''actor_name'' (SqlString 60) False (ServerDefault (StrCell [])),
      mk_column ''reason'' (SqlString 255) False (ServerDefault (StrCell [])),
      mk_column ''evidence'' SqlJSON True NoServerDefault,
      mk_column ''created_at'' SqlDateTime False CurrentTimestamp]
     [''id''] [] #
    map (\<lambda>(k, cs). op_create_index k ''travel_order_audit_logs'' cs False)
     [(''ix_travel_order_audit_logs_order_id'', [''order_id'']),
      (''ix_travel_order_audit_logs_order_no'', [''order_no'']),
      (''ix_travel_order_audit_logs_event_type'', [''event_type'']),
      (''ix_travel_order_audit_logs_actor_role'', [''actor_role'']),
      (''ix_travel_order_audit_logs_actor_id'', [''actor_id'']),
      (''ix_travel_order_audit_logs_created_at'', [''created_at'']),
      (''ix_travel_order_audit_order_created'', [''order_id'', ''created_at'']),
      (''ix_travel_order_audit_event_created'', [''event_type'', ''created_at''])]"

definition travel_verification_records_steps :: "step list" where
  "travel_verification_records_steps =
    op_create_table ''travel_verification_records''
     [mk_column ''id'' SqlInteger False NoServerDefault,
      mk_column ''order_id'' SqlInteger False NoServerDefault,
      mk_column ''order_no'' (SqlString 40) False NoServerDefault,
      mk_column ''action'' (SqlString 30) False NoServerDefault,
      mk_column ''token_hash'' (SqlString 64) False (ServerDefault (StrCell [])),
      mk_column ''result'' (SqlString 20) False NoServerDefault,
      mk_column ''operator_role'' (SqlString 20) False (ServerDefault (StrCell ''system'')),
      mk_column ''operator_id'' SqlInteger False (ServerDefault (IntCell 0)),
      mk_column ''operator_name'' (SqlString 60) False (ServerDefault (StrCell [])),
      mk_column ''device'' (SqlString 255) False (ServerDefault (StrCell [])),
      mk_column ''location'' (SqlString 255) False (ServerDefault (StrCell [])),
      mk_column ''reason'' (SqlString 255) False (ServerDefault (StrCell [])),
      mk_column ''created_at'' SqlDateTime False CurrentTimestamp]
     [''id''] [] #
    map (\<lambda>(k, cs). op_create_index k ''travel_verification_records'' cs False)
     [(''ix_travel_verification_records_order_id'', [''order_id'']),
      (''ix_travel_verification_records_order_no'', [''order_no'']),
      (''ix_travel_verification_records_action'', [''action'']),
      (''ix_travel_verification_records_token_hash'', [''token_hash'']),
      (''ix_travel_verification_records_result'', [''result'']),
      (''ix_travel_verification_records_operator_role'', [''operator_role'']),
      (''ix_travel_verification_records_operator_id'', [''operator_id'']),
      (''ix_travel_verification_records_created_at'', [''created_at'']),
      (''ix_travel_verification_order_created'', [''order_id'', ''created_at'']),
      (''ix_travel_verification_token_result'', [''token_hash'', ''result''])]"

definition create_travel_audit_tables :: "step list" where
  "create_travel_audit_tables =
   [unless (has_table ''travel_order_audit_logs'') (run_steps travel_order_audit_logs_steps),
    unless (has_table ''travel_verification_records'') (run_steps travel_verification_records_steps)]"

text \<open>
  \<open>_backfill_legacy_points\<close>: an opening ledger entry for every account with points, and a
  lot without expiry for every opening entry.
\<close>

definition str_cell :: "cell \<Rightarrow> string" where
  "str_cell v = (case v of StrCell s \<Rightarrow> s | _ \<Rightarrow> [])"

definition opening_ledger :: "row \<Rightarrow> (string \<times> cell) list" where
  "opening_ledger u =
    (let i = str_int (cell_int (u ''id'')) in
     [(''transaction_no'', StrCell (''PL-OPEN-'' @ i)), (''user_id'', u ''id''), (''user_no'', u ''user_no''),
      (''direction'', StrCell ''income''), (''amount'', u ''points''), (''balance_before'', IntCell 0),
      (''balance_after'', u ''points''), (''biz_type'', StrCell ''legacy_opening''), (''biz_id'', u ''id''),
      (''biz_no'', u ''user_no''), (''idempotency_key'', StrCell (''legacy-opening:'' @ i)),
      (''remark'', StrCell ''opening balance of earlier points'')])"

definition opening_lot :: "row \<Rightarrow> (string \<times> cell) list" where
  "opening_lot l =
    [(''user_id'', l ''user_id''), (''source_ledger_id'', l ''id''), (''original_amount'', l ''amount''),
     (''remaining_amount'', l ''amount''), (''expires_at'', Null), (''status'', StrCell ''active'')]"

definition has_points :: "row \<Rightarrow> bool" where
  "has_points u \<longleftrightarrow> 0 < cell_int (u ''points'')"

definition opens_books :: "row \<Rightarrow> bool" where
  "opens_books l \<longleftrightarrow> l ''biz_type'' = StrCell ''legacy_opening''"

text \<open>\<open>INSERT IGNORE INTO n ... SELECT ... FROM src WHERE ...\<close>.\<close>

definition insert_selected ::
  "string \<Rightarrow> string \<Rightarrow> (row \<Rightarrow> bool) \<Rightarrow> (row \<Rightarrow> (string \<times> cell) list) \<Rightarrow> database \<Rightarrow> db_error + database" where
  "insert_selected n src p g d =
    (case find_table src d of
       None \<Rightarrow> Inl (NoSuchTable src)
     | Some t \<Rightarrow> insert_ignore n (map g (filter p (t_rows t))) d)"

definition backfill_ledgers :: "database \<Rightarrow> db_error + database" where
  "backfill_ledgers = insert_selected ''point_ledgers'' ''user_accounts'' has_points opening_ledger"

definition backfill_lots :: "database \<Rightarrow> db_error + database" where
  "backfill_lots = insert_selected ''point_lots'' ''point_ledgers'' opens_books opening_lot"

definition backfill_legacy_points :: "step list" where
  "backfill_legacy_points = [dml backfill_ledgers, dml backfill_lots]"

text \<open>
  The two updates of \<open>travel_orders\<close>. \<open>CAST(... AS UNSIGNED)\<close> of a word that is not a
  number fails the statement in strict mode.
\<close>

definition set_legacy_key :: "row \<Rightarrow> db_error + row" where
  "set_legacy_key r = Inr (r(''idempotency_key'' := StrCell (''legacy:'' @ str_cell (r ''order_no''))))"

definition first_word :: "string \<Rightarrow> string" where
  "first_word s = takeWhile (\<lambda>c. c \<noteq> CHR '' '') s"

definition set_points_cost :: "row \<Rightarrow> db_error + row" where
  "set_points_cost r =
    (case parse_nat (first_word (str_cell (r ''amount_text''))) of
       None \<Rightarrow> Inl (IncorrectValue ''amount_text'')
     | Some n \<Rightarrow> Inr (r(''points_cost'' := IntCell (int n))))"

definition backfill_travel_orders :: "step list" where
  "backfill_travel_orders =
   [dml (update_rows ''travel_orders'' (\<lambda>r. r ''idempotency_key'' = StrCell []) set_legacy_key),
    dml (update_rows ''travel_orders''
      (\<lambda>r. r ''order_type'' = StrCell ''points_exchange'' \<and> r ''points_cost'' = IntCell 0) set_points_cost)]"

definition business_integrity_upgrade :: step where
  "business_integrity_upgrade = run_steps
   (add_legacy_indexes @
    [make_nullable ''support_messages'' ''image_thumb_url'',
     make_nullable ''travel_orders'' ''contract_signature_data'',
     make_nullable ''travel_orders'' ''contract_signature_url'',
     add_missing_column ''travel_orders'' (mk_column ''idempotency_key'' (SqlString 120) False (ServerDefault (StrCell []))),
     add_missing_column ''travel_orders'' (mk_column ''points_cost'' SqlInteger False (ServerDefault (IntCell 0))),
     add_missing_column ''travel_orders'' (mk_column ''points_refunded'' SqlBoolean False (ServerDefault (BoolCell False))),
     add_missing_column ''travel_orders'' (mk_column ''stock_restored'' SqlBoolean False (ServerDefault (BoolCell False))),
     add_missing_column ''travel_orders'' (mk_column ''qr_expires_at'' SqlDateTime True NoServerDefault),
     add_missing_column ''travel_orders'' (mk_column ''cancelled_at'' SqlDateTime True NoServerDefault),
     add_missing_column ''travel_orders'' (mk_column ''cancel_reason'' (SqlString 255) False (ServerDefault (StrCell [])))] @
    backfill_travel_orders @
    [unless (has_key ''travel_orders'' ''uq_travel_orders_user_idempotency'')
       (op_create_unique_constraint ''uq_travel_orders_user_idempotency'' ''travel_orders'' [''user_id'', ''idempotency_key''])] @
    map (add_missing_index ''travel_orders'')
     [(''ix_travel_orders_points_refunded'', [''points_refunded'']),
      (''ix_travel_orders_stock_restored'', [''stock_restored'']),
      (''ix_travel_orders_qr_expires_at'', [''qr_expires_at'']),
      (''ix_travel_orders_cancelled_at'', [''cancelled_at'']),
      (''ix_travel_orders_user_status_created'', [''user_id'', ''fulfillment_status'', ''created_at''])] @
    create_point_tables @ create_travel_audit_tables @ backfill_legacy_points)"

definition business_integrity_downgrade :: step where
  "business_integrity_downgrade = run_steps
   (drop_if_present (has_key ''travel_orders'' ''uq_travel_orders_user_idempotency'')
      (op_drop_index ''uq_travel_orders_user_idempotency'' ''travel_orders'') #
    map (\<lambda>k. drop_if_present (has_key ''travel_orders'' k) (op_drop_index k ''travel_orders''))
     [''ix_travel_orders_points_refunded'', ''ix_travel_orders_stock_restored'',
      ''ix_travel_orders_qr_expires_at'', ''ix_travel_orders_cancelled_at'',
      ''ix_travel_orders_user_status_created''] @
    map (\<lambda>n. drop_if_present (has_table n) (op_drop_table n))
     [''travel_verification_records'', ''travel_order_audit_logs'', ''point_lot_allocations'',
      ''point_lots'', ''point_ledgers''] @
    map (\<lambda>c. drop_if_present (has_column ''travel_orders'' c) (op_drop_column ''travel_orders'' c))
     [''cancel_reason'', ''cancelled_at'', ''qr_expires_at'', ''stock_restored'', ''points_refunded'',
      ''points_cost'', ''idempotency_key''])"

section \<open>c8e3d4f5a621: learning onboarding\<close>

definition learning_onboarding_upgrade :: step where
  "learning_onboarding_upgrade = run_steps (map (add_missing_column ''learning_profiles'')
   [mk_column ''school_major_status'' (SqlString 80) False (ServerDefault (StrCell [])),
    mk_column ''interest_tags'' SqlJSON True NoServerDefault,
    mk_column ''onboarding_version'' SqlInteger False (ServerDefault (IntCell 0)),
    mk_column ''onboarding_answers'' SqlJSON True NoServerDefault,
    mk_column ''onboarding_completed_at'' SqlDateTime True NoServerDefault])"

definition learning_onboarding_downgrade :: step where
  "learning_onboarding_downgrade = run_steps
   (map (\<lambda>c. drop_if_present (has_column ''learning_profiles'' c) (op_drop_column ''learning_profiles'' c))
     [''onboarding_completed_at'', ''onboarding_answers'', ''onboarding_version'', ''interest_tags'',
      ''school_major_status''])"

section \<open>d9a7c3e2b114: learning check-in records\<close>

definition checkin_records_upgrade :: step where
  "checkin_records_upgrade = run_steps
   [op_create_table ''learning_checkin_records''
     [mk_column ''id'' SqlInteger False NoServerDefault,
      mk_column ''user_id'' SqlInteger False NoServerDefault,
      mk_column ''checkin_date'' (SqlString 10) False NoServerDefault,
      mk_column ''checkin_at'' SqlDateTime False NoServerDefault,
      mk_column ''checkin_days'' SqlInteger False (ServerDefault (IntCell 1)),
      mk_column ''note'' (SqlString 160) False (ServerDefault (StrCell [])),
      mk_column ''created_at'' SqlDateTime False CurrentTimestamp,
      mk_column ''updated_at'' SqlDateTime False CurrentTimestamp]
     [''id''] [],
    op_create_index ''ix_learning_checkin_records_user_id'' ''learning_checkin_records'' [''user_id''] False,
    op_create_index ''ix_learning_checkin_records_checkin_date'' ''learning_checkin_records'' [''checkin_date''] False,
    op_create_index ''ix_learning_checkin_records_checkin_at'' ''learning_checkin_records'' [''checkin_at''] False,
    op_create_index ''uq_learning_checkin_records_user_date'' ''learning_checkin_records''
      [''user_id'', ''checkin_date''] True]"

definition checkin_records_downgrade :: step where
  "checkin_records_downgrade = run_steps
   [op_drop_index ''uq_learning_checkin_records_user_date'' ''learning_checkin_records'',
    op_drop_index ''ix_learning_checkin_records_checkin_at'' ''learning_checkin_records'',
    op_drop_index ''ix_learning_checkin_records_checkin_date'' ''learning_checkin_records'',
    op_drop_index ''ix_learning_checkin_records_user_id'' ''learning_checkin_records'',
    op_drop_table ''learning_checkin_records'']"

section \<open>e4a9b2c7d018: point reward channels\<close>

definition reward_channels_upgrade :: step where
  "reward_channels_upgrade = run_steps (map (op_add_column ''point_rules'')
   [mk_column ''checkin_score'' SqlInteger False (ServerDefault (IntCell 1)),
    mk_column ''purchase_score'' SqlInteger False (ServerDefault (IntCell 5)),
    mk_column ''invite_enabled'' SqlBoolean False (ServerDefault (BoolCell True)),
    mk_column ''checkin_enabled'' SqlBoolean False (ServerDefault (BoolCell True)),
    mk_column ''purchase_enabled'' SqlBoolean False (ServerDefault (BoolCell True))])"

definition reward_channels_downgrade :: step where
  "reward_channels_downgrade = run_steps (map (op_drop_column ''point_rules'')
   [''purchase_enabled'', ''checkin_enabled'', ''invite_enabled'', ''purchase_score'', ''checkin_score''])"

section \<open>f5c2d8a9e731: WeChat mini program login\<close>

definition mini_login_upgrade :: step where
  "mini_login_upgrade = run_steps
   [op_add_column ''user_accounts'' (mk_column ''wechat_openid'' (SqlString 64) True NoServerDefault),
    op_create_index ''ix_user_accounts_wechat_openid'' ''user_accounts'' [''wechat_openid''] True]"

definition mini_login_downgrade :: step where
  "mini_login_downgrade = run_steps
   [op_drop_index ''ix_user_accounts_wechat_openid'' ''user_accounts'',
    op_drop_column ''user_accounts'' ''wechat_openid'']"

section \<open>f6a3b4c5d602: stock sync and unique constraints\<close>

text \<open>
  \<open>_dedupe_school_sites\<close>: in each group of schools with the same value the one with the
  smallest \<open>id\<close> keeps it, the later ones get a suffix with their own \<open>id\<close>.
  Values are compared as texts, as in a collation that distinguishes case.
\<close>

definition later_duplicate :: "string list \<Rightarrow> row list \<Rightarrow> row \<Rightarrow> bool" where
  "later_duplicate cs rs r =
    (let grp = filter (\<lambda>x. key_value cs x = key_value cs r) rs in
     1 < length grp \<and> cell_int (r ''id'') \<noteq> Min (set (map (\<lambda>x. cell_int (x ''id'')) grp)))"

definition has_account :: "row \<Rightarrow> bool" where
  "has_account r \<longleftrightarrow> r ''merchant_account'' \<noteq> Null \<and> r ''merchant_account'' \<noteq> StrCell []"

definition suffix_account :: "row \<Rightarrow> row" where
  "suffix_account r = r(''merchant_account'' := StrCell
     (take 50 (str_cell (r ''merchant_account'')) @ ''-dup-'' @ str_int (cell_int (r ''id''))))"

definition suffix_name :: "row \<Rightarrow> row" where
  "suffix_name r = r(''name'' := StrCell
     (take 140 (str_cell (r ''name'')) @ '' (duplicate-'' @ str_int (cell_int (r ''id'')) @ '')''))"

definition dedupe_accounts :: "database \<Rightarrow> db_error + database" where
  "dedupe_accounts d =
    update_rows ''school_sites''
      (\<lambda>r. has_account r \<and> later_duplicate [''merchant_account''] (table_rows ''school_sites'' d) r)
      (\<lambda>r. Inr (suffix_account r)) d"

definition dedupe_names :: "database \<Rightarrow> db_error + database" where
  "dedupe_names d =
    update_rows ''school_sites''
      (\<lambda>r. Null \<notin> set (key_value [''name'', ''city''] r) \<and>
           later_duplicate [''name'', ''city''] (table_rows ''school_sites'' d) r)
      (\<lambda>r. Inr (suffix_name r)) d"

definition dedupe_school_sites :: "step list" where
  "dedupe_school_sites = [dml dedupe_accounts, dml dedupe_names]"

definition clear_empty_accounts :: "database \<Rightarrow> db_error + database" where
  "clear_empty_accounts =
    update_rows ''school_sites'' (\<lambda>r. r ''merchant_account'' = StrCell [])
      (\<lambda>r. Inr (r(''merchant_account'' := Null)))"

definition stock_sync_upgrade :: step where
  "stock_sync_upgrade = run_steps
   ([unless (has_column ''commerce_orders'' ''timeout_job_scheduled'')
       (op_add_column ''commerce_orders''
         (mk_column ''timeout_job_scheduled'' SqlBoolean False (ServerDefault (BoolCell True)))),
     unless (has_key ''commerce_orders'' ''ix_commerce_orders_timeout_job_scheduled'')
       (op_create_index ''ix_commerce_orders_timeout_job_scheduled'' ''commerce_orders''
         [''timeout_job_scheduled''] False),
     op_alter_nullable ''school_sites'' ''merchant_account'' True,
     dml clear_empty_accounts] @
    dedupe_school_sites @
    [unless (has_key ''school_sites'' ''uq_school_sites_merchant_account'')
       (op_create_unique_constraint ''uq_school_sites_merchant_account'' ''school_sites'' [''merchant_account'']),
     unless (has_key ''school_sites'' ''uq_school_sites_name_city'')
       (op_create_unique_constraint ''uq_school_sites_name_city'' ''school_sites'' [''name'', ''city''])])"

definition stock_sync_downgrade :: step where
  "stock_sync_downgrade = run_steps
   [op_drop_index ''uq_school_sites_name_city'' ''school_sites'',
    op_drop_index ''uq_school_sites_merchant_account'' ''school_sites'',
    op_drop_index ''ix_commerce_orders_timeout_job_scheduled'' ''commerce_orders'',
    op_drop_column ''commerce_orders'' ''timeout_job_scheduled'']"

section \<open>a7b8c9d0e124 and b8c9d0e1f235: refunds\<close>

definition refund_status_upgrade :: step where
  "refund_status_upgrade = run_steps
   [op_add_column ''commerce_orders'' (mk_column ''refund_no'' (SqlString 64) True NoServerDefault),
    op_add_column ''commerce_orders'' (mk_column ''refund_id'' (SqlString 100) False (ServerDefault (StrCell []))),
    op_add_column ''commerce_orders'' (mk_column ''refund_status'' (SqlString 20) False (ServerDefault (StrCell []))),
    op_add_column ''commerce_orders'' (mk_column ''refunded_at'' SqlDateTime True NoServerDefault),
    op_create_index ''ix_commerce_orders_refund_no'' ''commerce_orders'' [''refund_no''] True,
    op_create_index ''ix_commerce_orders_refund_status'' ''commerce_orders'' [''refund_status''] False]"

definition refund_status_downgrade :: step where
  "refund_status_downgrade = run_steps
   [op_drop_index ''ix_commerce_orders_refund_status'' ''commerce_orders'',
    op_drop_index ''ix_commerce_orders_refund_no'' ''commerce_orders'',
    op_drop_column ''commerce_orders'' ''refunded_at'',
    op_drop_column ''commerce_orders'' ''refund_status'',
    op_drop_column ''commerce_orders'' ''refund_id'',
    op_drop_column ''commerce_orders'' ''refund_no'']"

definition refund_requests_upgrade :: step where
  "refund_requests_upgrade = run_steps
   [op_add_column ''commerce_orders'' (mk_column ''refund_reason'' (SqlString 255) False (ServerDefault (StrCell []))),
    op_add_column ''commerce_orders'' (mk_column ''refund_requested_at'' SqlDateTime True NoServerDefault)]"

definition refund_requests_downgrade :: step where
  "refund_requests_downgrade = run_steps
   [op_drop_column ''commerce_orders'' ''refund_requested_at'',
    op_drop_column ''commerce_orders'' ''refund_reason'']"

section \<open>a7b8c9d0e125 to a7b8c9d0e129: VIP membership, travel goals and articles\<close>

definition vip_fields_upgrade :: step where
  "vip_fields_upgrade = run_steps
   [op_add_column ''user_accounts'' (mk_column ''vip_enabled'' SqlBoolean False (ServerDefault (BoolCell False))),
    op_add_column ''user_accounts'' (mk_column ''vip_type'' (SqlString 30) False (ServerDefault (StrCell []))),
    op_add_column ''user_accounts'' (mk_column ''vip_started_at'' SqlDateTime True NoServerDefault),
    op_add_column ''user_accounts'' (mk_column ''vip_expires_at'' SqlDateTime True NoServerDefault),
    op_add_column ''user_accounts'' (mk_column ''vip_remark'' (SqlString 255) False (ServerDefault (StrCell []))),
    op_create_index ''ix_user_accounts_vip_enabled'' ''user_accounts'' [''vip_enabled''] False,
    op_create_index ''ix_user_accounts_vip_expires_at'' ''user_accounts'' [''vip_expires_at''] False]"

definition vip_fields_downgrade :: step where
  "vip_fields_downgrade = run_steps
   [op_drop_index ''ix_user_accounts_vip_expires_at'' ''user_accounts'',
    op_drop_index ''ix_user_accounts_vip_enabled'' ''user_accounts'',
    op_drop_column ''user_accounts'' ''vip_remark'',
    op_drop_column ''user_accounts'' ''vip_expires_at'',
    op_drop_column ''user_accounts'' ''vip_started_at'',
    op_drop_column ''user_accounts'' ''vip_type'',
    op_drop_column ''user_accounts'' ''vip_enabled'']"

definition vip_point_rule_upgrade :: step where
  "vip_point_rule_upgrade = run_steps
   [op_add_column ''point_rules'' (mk_column ''vip_purchase_score'' SqlInteger False (ServerDefault (IntCell 10))),
    op_add_column ''point_rules'' (mk_column ''vip_purchase_enabled'' SqlBoolean False (ServerDefault (BoolCell True)))]"

definition vip_point_rule_downgrade :: step where
  "vip_point_rule_downgrade = run_steps
   [op_drop_column ''point_rules'' ''vip_purchase_enabled'',
    op_drop_column ''point_rules'' ''vip_purchase_score'']"

definition goal_history_upgrade :: step where
  "goal_history_upgrade = run_steps
   [op_create_table ''travel_goal_histories''
     [mk_column ''id'' SqlInteger False NoServerDefault,
      mk_column ''user_id'' SqlInteger False NoServerDefault,
      mk_column ''request_key'' (SqlString 80) False NoServerDefault,
      mk_column ''title'' (SqlString 160) False (ServerDefault (StrCell ''travel goal'')),
      mk_column ''location'' (SqlString 120) False (ServerDefault (StrCell [])),
      mk_column ''place_count'' SqlInteger False (ServerDefault (IntCell 0)),
      mk_column ''criteria'' SqlJSON False NoServerDefault,
      mk_column ''result_snapshot'' SqlJSON False NoServerDefault,
      mk_column ''created_at'' SqlDateTime False CurrentTimestamp,
      mk_column ''updated_at'' SqlDateTime False CurrentTimestamp]
     [''id''] [mk_key ''uq_travel_goal_user_request'' [''user_id'', ''request_key''] True],
    op_create_index ''ix_travel_goal_histories_user_id'' ''travel_goal_histories'' [''user_id''] False,
    op_create_index ''ix_travel_goal_histories_request_key'' ''travel_goal_histories'' [''request_key''] False]"

definition goal_history_downgrade :: step where
  "goal_history_downgrade = run_steps
   [op_drop_index ''ix_travel_goal_histories_request_key'' ''travel_goal_histories'',
    op_drop_index ''ix_travel_goal_histories_user_id'' ''travel_goal_histories'',
    op_drop_table ''travel_goal_histories'']"

definition article_vip_upgrade :: step where
  "article_vip_upgrade = run_steps
   [op_add_column ''content_articles'' (mk_column ''vip_only'' SqlBoolean False (ServerDefault (BoolCell False))),
    op_create_index ''ix_content_articles_vip_only'' ''content_articles'' [''vip_only''] False]"

definition article_vip_downgrade :: step where
  "article_vip_downgrade = run_steps
   [op_drop_index ''ix_content_articles_vip_only'' ''content_articles'',
    op_drop_column ''content_articles'' ''vip_only'']"

definition agreement_slug :: string where "agreement_slug = ''vip-service-agreement''"

definition agreement_article :: "time \<Rightarrow> (string \<times> cell) list" where
  "agreement_article now =
   [(''title'', StrCell ''VIP service agreement''), (''slug'', StrCell agreement_slug),
    (''summary'', StrCell ''rules of opening, renewal, use and refund''),
    (''content'', StrCell ''VIP service agreement''), (''category'', StrCell ''member services''),
    (''cover'', StrCell []), (''pinned'', BoolCell False), (''vip_only'', BoolCell False),
    (''status'', BoolCell True), (''sort_order'', IntCell 20), (''published_at'', TimeCell now),
    (''start_at'', Null), (''end_at'', Null), (''created_at'', TimeCell now), (''updated_at'', TimeCell now)]"

definition seed_agreement :: "database \<Rightarrow> db_error + database" where
  "seed_agreement d =
    (case find_table ''content_articles'' d of
       None \<Rightarrow> Inl (NoSuchTable ''content_articles'')
     | Some t \<Rightarrow>
        if list_ex (\<lambda>r. r ''slug'' = StrCell agreement_slug) (t_rows t) then Inr d
        else insert_row ''content_articles'' (agreement_article (clock d)) d)"

definition agreement_upgrade :: step where
  "agreement_upgrade = dml seed_agreement"

definition agreement_downgrade :: step where
  "agreement_downgrade = dml (delete_rows ''content_articles'' (\<lambda>r. r ''slug'' = StrCell agreement_slug))"

section \<open>The chain of revisions\<close>

record revision =
  rev_id :: string
  rev_down :: "string option"
  rev_upgrade :: step
  rev_downgrade :: step

definition revisions :: "revision list" where
  "revisions =
   [\<lparr>rev_id = ''aa1a7986f555'', rev_down = None,
     rev_upgrade = baseline_upgrade, rev_downgrade = baseline_downgrade\<rparr>,
    \<lparr>rev_id = ''b7f2c8d9e410'', rev_down = Some ''aa1a7986f555'',
     rev_upgrade = business_integrity_upgrade, rev_downgrade = business_integrity_downgrade\<rparr>,
    \<lparr>rev_id = ''c8e3d4f5a621'', rev_down = Some ''b7f2c8d9e410'',
     rev_upgrade = learning_onboarding_upgrade, rev_downgrade = learning_onboarding_downgrade\<rparr>,
    \<lparr>rev_id = ''d9a7c3e2b114'', rev_down = Some ''c8e3d4f5a621'',
     rev_upgrade = checkin_records_upgrade, rev_downgrade = checkin_records_downgrade\<rparr>,
    \<lparr>rev_id = ''e4a9b2c7d018'', rev_down = Some ''d9a7c3e2b114'',
     rev_upgrade = reward_channels_upgrade, rev_downgrade = reward_channels_downgrade\<rparr>,
    \<lparr>rev_id = ''f5c2d8a9e731'', rev_down = Some ''e4a9b2c7d018'',
     rev_upgrade = mini_login_upgrade, rev_downgrade = mini_login_downgrade\<rparr>,
    \<lparr>rev_id = ''f6a3b4c5d602'', rev_down = Some ''f5c2d8a9e731'',
     rev_upgrade = stock_sync_upgrade, rev_downgrade = stock_sync_downgrade\<rparr>,
    \<lparr>rev_id = ''a7b8c9d0e124'', rev_down = Some ''f6a3b4c5d602'',
     rev_upgrade = refund_status_upgrade, rev_downgrade = refund_status_downgrade\<rparr>,
    \<lparr>rev_id = ''b8c9d0e1f235'', rev_down = Some ''a7b8c9d0e124'',
     rev_upgrade = refund_requests_upgrade, rev_downgrade = refund_requests_downgrade\<rparr>,
    \<lparr>rev_id = ''a7b8c9d0e125'', rev_down = Some ''b8c9d0e1f235'',
     rev_upgrade = vip_fields_upgrade, rev_downgrade = vip_fields_downgrade\<rparr>,
    \<lparr>rev_id = ''a7b8c9d0e126'', rev_down = Some ''a7b8c9d0e125'',
     rev_upgrade = vip_point_rule_upgrade, rev_downgrade = vip_point_rule_downgrade\<rparr>,
    \<lparr>rev_id = ''a7b8c9d0e127'', rev_down = Some ''a7b8c9d0e126'',
     rev_upgrade = goal_history_upgrade, rev_downgrade = goal_history_downgrade\<rparr>,
    \<lparr>rev_id = ''a7b8c9d0e128'', rev_down = Some ''a7b8c9d0e127'',
     rev_upgrade = article_vip_upgrade, rev_downgrade = article_vip_downgrade\<rparr>,
    \<lparr>rev_id = ''a7b8c9d0e129'', rev_down = Some ''a7b8c9d0e128'',
     rev_upgrade = agreement_upgrade, rev_downgrade = agreement_downgrade\<rparr>]"

end
