(* ===== verification/Models_Meta.thy ===== *)
theory Models_Meta
  imports Schema
begin

text \<open>
  \<open>Base.metadata\<close>: what \<open>app/models/entities.py\<close> says about its tables. One
  definition per mapped class, with its columns (name, type, nullability, server default
  and the Python default), its primary key, its unique constraints and its indexes in the
  order of the class. \<open>unique=True, index=True\<close> is one unique index.
\<close>

datatype model_default = NoDefault | Scalar cell | EmptyList | EmptyDict | CurrentTime

record model_column = sql_column +
  c_model_default :: model_default

record model_table =
  m_name :: string
  m_columns :: "model_column list"
  m_primary :: "string list"
  m_uniques :: "sql_key list"
  m_indexes :: "sql_key list"

definition mapped_column ::
  "string \<Rightarrow> sql_type \<Rightarrow> bool \<Rightarrow> server_default \<Rightarrow> model_default \<Rightarrow> model_column" where
  "mapped_column n ty nl sd dv =
    \<lparr>c_name = n, c_type = ty, c_nullable = nl, c_default = sd, c_model_default = dv\<rparr>"

text \<open>\<open>TimestampMixin\<close>.\<close>

definition timestamp_columns :: "model_column list" where
  "timestamp_columns =
   [mapped_column ''created_at'' SqlDateTime False CurrentTimestamp NoDefault,
    mapped_column ''updated_at'' SqlDateTime False CurrentTimestamp NoDefault]"

definition user_accounts_model :: model_table where
  "user_accounts_model =
   \<lparr>m_name = ''user_accounts'',
    m_columns =
     [mapped_column ''id'' SqlInteger False NoServerDefault NoDefault,
      mapped_column ''user_no'' (SqlString 64) False NoServerDefault NoDefault,
      mapped_column ''phone'' (SqlString 30) False NoServerDefault NoDefault,
      mapped_column ''wechat_openid'' (SqlString 64) True NoServerDefault NoDefault,
      mapped_column ''nickname'' (SqlString 60) False NoServerDefault (Scalar (StrCell ''traveller'')),
      mapped_column ''password_hash'' (SqlString 255) False NoServerDefault NoDefault,
      mapped_column ''role'' (SqlString 20) False NoServerDefault (Scalar (StrCell ''user'')),
      mapped_column ''status'' (SqlString 20) False NoServerDefault (Scalar (StrCell ''active'')),
      mapped_column ''avatar'' SqlText False NoServerDefault (Scalar (StrCell [])),
      mapped_column ''points'' SqlInteger False NoServerDefault (Scalar (IntCell 0)),
      mapped_column ''balance'' (SqlNumeric 10 2) False NoServerDefault (Scalar (DecCell 0)),
      mapped_column ''exam_status'' (SqlString 20) False NoServerDefault (Scalar (StrCell ''student'')),
      mapped_column ''vip_enabled'' SqlBoolean False NoServerDefault (Scalar (BoolCell False)),
      mapped_column ''vip_type'' (SqlString 30) False NoServerDefault (Scalar (StrCell [])),
      mapped_column ''vip_started_at'' SqlDateTime True NoServerDefault NoDefault,
      mapped_column ''vip_expires_at'' SqlDateTime True NoServerDefault NoDefault,
      mapped_column ''vip_remark'' (SqlString 255) False NoServerDefault (Scalar (StrCell [])),
      mapped_column ''is_registered'' SqlBoolean False NoServerDefault (Scalar (BoolCell True)),
      mapped_column ''last_login_at'' SqlDateTime True NoServerDefault NoDefault] @ timestamp_columns,
    m_primary = [''id''],
    m_uniques = [],
    m_indexes =
     [mk_key ''ix_user_accounts_user_no'' [''user_no''] True,
      mk_key ''ix_user_accounts_phone'' [''phone''] True,
      mk_key ''ix_user_accounts_wechat_openid'' [''wechat_openid''] True,
      mk_key ''ix_user_accounts_role'' [''role''] False,
      mk_key ''ix_user_accounts_status'' [''status''] False,
      mk_key ''ix_user_accounts_vip_enabled'' [''vip_enabled''] False,
      mk_key ''ix_user_accounts_vip_expires_at'' [''vip_expires_at''] False,
      mk_key ''ix_user_accounts_is_registered'' [''is_registered''] False]\<rparr>"

definition user_sessions_model :: model_table where
  "user_sessions_model =
   \<lparr>m_name = ''user_sessions'',
    m_columns =
     [mapped_column ''token'' (SqlString 128) False NoServerDefault NoDefault,
      mapped_column ''user_id'' SqlInteger False NoServerDefault NoDefault,
      mapped_column ''role'' (SqlString 20) False NoServerDefault (Scalar (StrCell ''user'')),
      mapped_column ''created_at'' SqlDateTime False CurrentTimestamp NoDefault,
      mapped_column ''expires_at'' SqlDateTime False NoServerDefault NoDefault,
      mapped_column ''last_seen_at'' SqlDateTime True NoServerDefault NoDefault],
    m_primary = [''token''],
    m_uniques = [],
    m_indexes =
     [mk_key ''ix_user_sessions_user_id'' [''user_id''] False,
      mk_key ''ix_user_sessions_role'' [''role''] False,
      mk_key ''ix_user_sessions_expires_at'' [''expires_at''] False]\<rparr>"

definition wallet_transactions_model :: model_table where
  "wallet_transactions_model =
   \<lparr>m_name = ''wallet_transactions'',
    m_columns =
     [mapped_column ''id'' SqlInteger False NoServerDefault NoDefault,
      mapped_column ''user_id'' SqlInteger False NoServerDefault NoDefault,
      mapped_column ''user_no'' (SqlString 64) False NoServerDefault NoDefault,
      mapped_column ''transaction_no'' (SqlString 50) False NoServerDefault NoDefault,
      mapped_column ''direction'' (SqlString 20) False NoServerDefault NoDefault,
      mapped_column ''amount'' (SqlNumeric 10 2) False NoServerDefault (Scalar (DecCell 0)),
      mapped_column ''balance_before'' (SqlNumeric 10 2) False NoServerDefault (Scalar (DecCell 0)),
      mapped_column ''balance_after'' (SqlNumeric 10 2) False NoServerDefault (Scalar (DecCell 0)),
      mapped_column ''biz_type'' (SqlString 30) False NoServerDefault (Scalar (StrCell [])),
      mapped_column ''biz_id'' SqlInteger False NoServerDefault (Scalar (IntCell 0)),
      mapped_column ''biz_no'' (SqlString 80) False NoServerDefault (Scalar (StrCell [])),
      mapped_column ''remark'' (SqlString 255) False NoServerDefault (Scalar (StrCell []))] @ timestamp_columns,
    m_primary = [''id''],
    m_uniques = [],
    m_indexes =
     [mk_key ''ix_wallet_transactions_user_created'' [''user_id'', ''created_at''] False,
      mk_key ''ix_wallet_transactions_biz'' [''biz_type'', ''biz_no''] False,
      mk_key ''ix_wallet_transactions_user_id'' [''user_id''] False,
      mk_key ''ix_wallet_transactions_user_no'' [''user_no''] False,
      mk_key ''ix_wallet_transactions_transaction_no'' [''transaction_no''] True,
      mk_key ''ix_wallet_transactions_direction'' [''direction''] False,
      mk_key ''ix_wallet_transactions_biz_type'' [''biz_type''] False,
      mk_key ''ix_wallet_transactions_biz_id'' [''biz_id''] False,
      mk_key ''ix_wallet_transactions_biz_no'' [''biz_no''] False]\<rparr>"

definition decoration_configs_model :: model_table where
  "decoration_configs_model =
   \<lparr>m_name = ''decoration_configs'',
    m_columns =
     [mapped_column ''id'' SqlInteger False NoServerDefault NoDefault,
      mapped_column ''status'' (SqlString 20) False NoServerDefault (Scalar (StrCell ''draft'')),
      mapped_column ''version'' SqlInteger False NoServerDefault (Scalar (IntCell 1)),
      mapped_column ''content'' SqlJSON False NoServerDefault NoDefault,
      mapped_column ''published_at'' SqlDateTime True NoServerDefault NoDefault] @ timestamp_columns,
    m_primary = [''id''],
    m_uniques = [],
    m_indexes =
     [mk_key ''ix_decoration_configs_status'' [''status''] False]\<rparr>"

definition travel_routes_model :: model_table where
  "travel_routes_model =
   \<lparr>m_name = ''travel_routes'',
    m_columns =
     [mapped_column ''id'' SqlInteger False NoServerDefault NoDefault,
      mapped_column ''school_id'' SqlInteger False NoServerDefault (Scalar (IntCell 0)),
      mapped_column ''name'' (SqlString 120) False NoServerDefault NoDefault,
      mapped_column ''category'' (SqlString 40) False NoServerDefault (Scalar (StrCell ''outdoor'')),
      mapped_column ''days'' (SqlString 30) False NoServerDefault (Scalar (StrCell ''3 days'')),
      mapped_column ''price'' (SqlNumeric 10 2) False NoServerDefault (Scalar (DecCell 0)),
      mapped_column ''stock'' SqlInteger False NoServerDefault (Scalar (IntCell 0)),
      mapped_column ''agency'' (SqlString 120) False NoServerDefault (Scalar (StrCell [])),
      mapped_column ''image'' SqlText False NoServerDefault (Scalar (StrCell [])),
      mapped_column ''description'' SqlText False NoServerDefault (Scalar (StrCell [])),
      mapped_column ''display_weight'' SqlInteger False NoServerDefault (Scalar (IntCell 0)),
      mapped_column ''review_status'' (SqlString 20) False NoServerDefault (Scalar (StrCell ''approved'')),
      mapped_column ''reject_reason'' (SqlString 255) False NoServerDefault (Scalar (StrCell [])),
      mapped_column ''status'' SqlBoolean False NoServerDefault (Scalar (BoolCell True))] @ timestamp_columns,
    m_primary = [''id''],
    m_uniques = [],
    m_indexes =
     [mk_key ''ix_travel_routes_school_id'' [''school_id''] False,
      mk_key ''ix_travel_routes_name'' [''name''] False,
      mk_key ''ix_travel_routes_display_weight'' [''display_weight''] False,
      mk_key ''ix_travel_routes_review_status'' [''review_status''] False,
      mk_key ''ix_travel_routes_status'' [''status''] False]\<rparr>"

definition travel_route_reviews_model :: model_table where
  "travel_route_reviews_model =
   \<lparr>m_name = ''travel_route_reviews'',
    m_columns =
     [mapped_column ''id'' SqlInteger False NoServerDefault NoDefault,
      mapped_column ''route_id'' SqlInteger False NoServerDefault NoDefault,
      mapped_column ''order_id'' SqlInteger False NoServerDefault NoDefault,
      mapped_column ''order_no'' (SqlString 40) False NoServerDefault (Scalar (StrCell [])),
      mapped_column ''user_id'' SqlInteger False NoServerDefault NoDefault,
      mapped_column ''user_no'' (SqlString 64) False NoServerDefault (Scalar (StrCell [])),
      mapped_column ''user_name'' (SqlString 60) False NoServerDefault (Scalar (StrCell [])),
      mapped_column ''rating'' SqlInteger False NoServerDefault (Scalar (IntCell 5)),
      mapped_column ''content'' SqlText False NoServerDefault (Scalar (StrCell [])),
      mapped_column ''images'' SqlJSON False NoServerDefault EmptyList,
      mapped_column ''status'' (SqlString 20) False NoServerDefault (Scalar (StrCell ''published''))] @ timestamp_columns,
    m_primary = [''id''],
    m_uniques = [mk_key ''uq_travel_route_reviews_order'' [''order_id''] True],
    m_indexes =
     [mk_key ''ix_travel_route_reviews_route_status_created'' [''route_id'', ''status'', ''created_at''] False,
      mk_key ''ix_travel_route_reviews_user_route'' [''user_id'', ''route_id''] False,
      mk_key ''ix_travel_route_reviews_route_id'' [''route_id''] False,
      mk_key ''ix_travel_route_reviews_order_id'' [''order_id''] False,
      mk_key ''ix_travel_route_reviews_order_no'' [''order_no''] False,
      mk_key ''ix_travel_route_reviews_user_id'' [''user_id''] False,
      mk_key ''ix_travel_route_reviews_user_no'' [''user_no''] False,
      mk_key ''ix_travel_route_reviews_rating'' [''rating''] False,
      mk_key ''ix_travel_route_reviews_status'' [''status''] False]\<rparr>"

definition point_rules_model :: model_table where
  "point_rules_model =
   \<lparr>m_name = ''point_rules'',
    m_columns =
     [mapped_column ''id'' SqlInteger False NoServerDefault (Scalar (IntCell 1)),
      mapped_column ''invite_score'' SqlInteger False NoServerDefault (Scalar (IntCell 1)),
      mapped_column ''checkin_score'' SqlInteger False NoServerDefault (Scalar (IntCell 1)),
      mapped_column ''purchase_score'' SqlInteger False NoServerDefault (Scalar (IntCell 5)),
      mapped_column ''vip_purchase_score'' SqlInteger False NoServerDefault (Scalar (IntCell 10)),
      mapped_column ''exchange_score'' SqlInteger False NoServerDefault (Scalar (IntCell 100)),
      mapped_column ''valid_days'' SqlInteger False NoServerDefault (Scalar (IntCell 365)),
      mapped_column ''yearly_limit'' SqlInteger False NoServerDefault (Scalar (IntCell 1)),
      mapped_column ''monthly_stock'' SqlInteger False NoServerDefault (Scalar (IntCell 50)),
      mapped_column ''invite_enabled'' SqlBoolean False NoServerDefault (Scalar (BoolCell True)),
      mapped_column ''checkin_enabled'' SqlBoolean False NoServerDefault (Scalar (BoolCell True)),
      mapped_column ''purchase_enabled'' SqlBoolean False NoServerDefault (Scalar (BoolCell True)),
      mapped_column ''vip_purchase_enabled'' SqlBoolean False NoServerDefault (Scalar (BoolCell True)),
      mapped_column ''enabled'' SqlBoolean False NoServerDefault (Scalar (BoolCell True))] @ timestamp_columns,
    m_primary = [''id''],
    m_uniques = [],
    m_indexes =
     []\<rparr>"

definition point_ledgers_model :: model_table where
  "point_ledgers_model =
   \<lparr>m_name = ''point_ledgers'',
    m_columns =
     [mapped_column ''id'' SqlInteger False NoServerDefault NoDefault,
      mapped_column ''transaction_no'' (SqlString 50) False NoServerDefault NoDefault,
      mapped_column ''user_id'' SqlInteger False NoServerDefault NoDefault,
      mapped_column ''user_no'' (SqlString 64) False NoServerDefault (Scalar (StrCell [])),
      mapped_column ''direction'' (SqlString 20) False NoServerDefault NoDefault,
      mapped_column ''amount'' SqlInteger False NoServerDefault NoDefault,
      mapped_column ''balance_before'' SqlInteger False NoServerDefault NoDefault,
      mapped_column ''balance_after'' SqlInteger False NoServerDefault NoDefault,
      mapped_column ''biz_type'' (SqlString 40) False NoServerDefault NoDefault,
      mapped_column ''biz_id'' SqlInteger False NoServerDefault (Scalar (IntCell 0)),
      mapped_column ''biz_no'' (SqlString 80) False NoServerDefault (Scalar (StrCell [])),
      mapped_column ''idempotency_key'' (SqlString 160) False NoServerDefault NoDefault,
      mapped_column ''remark'' (SqlString 255) False NoServerDefault (Scalar (StrCell [])),
      mapped_column ''created_at'' SqlDateTime False CurrentTimestamp NoDefault],
    m_primary = [''id''],
    m_uniques = [mk_key ''uq_point_ledgers_user_idempotency'' [''user_id'', ''idempotency_key''] True],
    m_indexes =
     [mk_key ''ix_point_ledgers_user_created'' [''user_id'', ''created_at''] False,
      mk_key ''ix_point_ledgers_business'' [''biz_type'', ''biz_no''] False,
      mk_key ''ix_point_ledgers_transaction_no'' [''transaction_no''] True,
      mk_key ''ix_point_ledgers_user_id'' [''user_id''] False,
      mk_key ''ix_point_ledgers_user_no'' [''user_no''] False,
      mk_key ''ix_point_ledgers_direction'' [''direction''] False,
      mk_key ''ix_point_ledgers_biz_type'' [''biz_type''] False,
      mk_key ''ix_point_ledgers_biz_id'' [''biz_id''] False,
      mk_key ''ix_point_ledgers_biz_no'' [''biz_no''] False,
      mk_key ''ix_point_ledgers_created_at'' [''created_at''] False]\<rparr>"

definition point_lots_model :: model_table where
  "point_lots_model =
   \<lparr>m_name = ''point_lots'',
    m_columns =
     [mapped_column ''id'' SqlInteger False NoServerDefault NoDefault,
      mapped_column ''user_id'' SqlInteger False NoServerDefault NoDefault,
      mapped_column ''source_ledger_id'' SqlInteger False NoServerDefault NoDefault,
      mapped_column ''original_amount'' SqlInteger False NoServerDefault NoDefault,
      mapped_column ''remaining_amount'' SqlInteger False NoServerDefault NoDefault,
      mapped_column ''expires_at'' SqlDateTime True NoServerDefault NoDefault,
      mapped_column ''status'' (SqlString 20) False NoServerDefault (Scalar (StrCell ''active'')),
      mapped_column ''created_at'' SqlDateTime False CurrentTimestamp NoDefault],
    m_primary = [''id''],
    m_uniques = [mk_key ''uq_point_lots_source_ledger'' [''source_ledger_id''] True],
    m_indexes =
     [mk_key ''ix_point_lots_user_expiry'' [''user_id'', ''expires_at''] False,
      mk_key ''ix_point_lots_user_id'' [''user_id''] False,
      mk_key ''ix_point_lots_source_ledger_id'' [''source_ledger_id''] False,
      mk_key ''ix_point_lots_expires_at'' [''expires_at''] False,
      mk_key ''ix_point_lots_status'' [''status''] False]\<rparr>"

definition point_lot_allocations_model :: model_table where
  "point_lot_allocations_model =
   \<lparr>m_name = ''point_lot_allocations'',
    m_columns =
     [mapped_column ''id'' SqlInteger False NoServerDefault NoDefault,
      mapped_column ''expense_ledger_id'' SqlInteger False NoServerDefault NoDefault,
      mapped_column ''lot_id'' SqlInteger False NoServerDefault NoDefault,
      mapped_column ''amount'' SqlInteger False NoServerDefault NoDefault,
      mapped_column ''restored_amount'' SqlInteger False NoServerDefault (Scalar (IntCell 0)),
      mapped_column ''created_at'' SqlDateTime False CurrentTimestamp NoDefault],
    m_primary = [''id''],
    m_uniques = [mk_key ''uq_point_lot_allocations_expense_lot'' [''expense_ledger_id'', ''lot_id''] True],
    m_indexes =
     [mk_key ''ix_point_lot_allocations_expense_ledger_id'' [''expense_ledger_id''] False,
      mk_key ''ix_point_lot_allocations_lot_id'' [''lot_id''] False]\<rparr>"

definition travel_orders_model :: model_table where
  "travel_orders_model =
   \<lparr>m_name = ''travel_orders'',
    m_columns =
     [mapped_column ''id'' SqlInteger False NoServerDefault NoDefault,
      mapped_column ''order_no'' (SqlString 40) False NoServerDefault NoDefault,
      mapped_column ''user_id'' SqlInteger False NoServerDefault (Scalar (IntCell 0)),
      mapped_column ''user_no'' (SqlString 64) False NoServerDefault (Scalar (StrCell [])),
      mapped_column ''route_id'' SqlInteger False NoServerDefault (Scalar (IntCell 0)),
      mapped_column ''order_type'' (SqlString 30) False NoServerDefault NoDefault,
      mapped_column ''title'' (SqlString 160) False NoServerDefault NoDefault,
      mapped_column ''user_name'' (SqlString 60) False NoServerDefault NoDefault,
      mapped_column ''phone'' (SqlString 30) False NoServerDefault NoDefault,
      mapped_column ''travel_date'' (SqlString 30) False NoServerDefault (Scalar (StrCell [])),
      mapped_column ''agency'' (SqlString 120) False NoServerDefault (Scalar (StrCell [])),
      mapped_column ''amount_text'' (SqlString 60) False NoServerDefault (Scalar (StrCell [])),
      mapped_column ''cover'' SqlText True NoServerDefault (Scalar (StrCell [])),
      mapped_column ''idempotency_key'' (SqlString 120) False NoServerDefault (Scalar (StrCell [])),
      mapped_column ''points_cost'' SqlInteger False NoServerDefault (Scalar (IntCell 0)),
      mapped_column ''points_refunded'' SqlBoolean False NoServerDefault (Scalar (BoolCell False)),
      mapped_column ''stock_restored'' SqlBoolean False NoServerDefault (Scalar (BoolCell False)),
      mapped_column ''status'' SqlInteger False NoServerDefault (Scalar (IntCell 0)),
      mapped_column ''reject_reason'' (SqlString 255) False NoServerDefault (Scalar (StrCell [])),
      mapped_column ''contract_status'' (SqlString 20) False NoServerDefault (Scalar (StrCell ''unsigned'')),
      mapped_column ''contract_signer_name'' (SqlString 60) False NoServerDefault (Scalar (StrCell [])),
      mapped_column ''contract_signer_phone'' (SqlString 30) False NoServerDefault (Scalar (StrCell [])),
      mapped_column ''contract_id_no'' (SqlString 40) False NoServerDefault (Scalar (StrCell [])),
      mapped_column ''contract_template_version'' SqlInteger False NoServerDefault (Scalar (IntCell 0)),
      mapped_column ''contract_template_snapshot_id'' SqlInteger False NoServerDefault (Scalar (IntCell 0)),
      mapped_column ''contract_signature_data'' SqlMediumText True NoServerDefault (Scalar (StrCell [])),
      mapped_column ''contract_signature_url'' SqlText True NoServerDefault (Scalar (StrCell [])),
      mapped_column ''contract_signed_at'' SqlDateTime True NoServerDefault NoDefault,
      mapped_column ''contract_reviewed_at'' SqlDateTime True NoServerDefault NoDefault,
      mapped_column ''contract_reject_reason'' (SqlString 255) False NoServerDefault (Scalar (StrCell [])),
      mapped_column ''fulfillment_status'' (SqlString 30) False NoServerDefault (Scalar (StrCell ''contract_pending'')),
      mapped_column ''pickup_address'' (SqlString 255) False NoServerDefault (Scalar (StrCell [])),
      mapped_column ''pickup_detail'' (SqlString 255) False NoServerDefault (Scalar (StrCell [])),
      mapped_column ''traveler_count'' SqlInteger False NoServerDefault (Scalar (IntCell 1)),
      mapped_column ''emergency_contact'' (SqlString 60) False NoServerDefault (Scalar (StrCell [])),
      mapped_column ''emergency_phone'' (SqlString 30) False NoServerDefault (Scalar (StrCell [])),
      mapped_column ''luggage_count'' SqlInteger False NoServerDefault (Scalar (IntCell 0)),
      mapped_column ''pickup_note'' (SqlString 500) False NoServerDefault (Scalar (StrCell [])),
      mapped_column ''pickup_time'' (SqlString 60) False NoServerDefault (Scalar (StrCell [])),
      mapped_column ''pickup_location'' (SqlString 255) False NoServerDefault (Scalar (StrCell [])),
      mapped_column ''driver_name'' (SqlString 60) False NoServerDefault (Scalar (StrCell [])),
      mapped_column ''driver_phone'' (SqlString 30) False NoServerDefault (Scalar (StrCell [])),
      mapped_column ''vehicle_no'' (SqlString 40) False NoServerDefault (Scalar (StrCell [])),
      mapped_column ''pickup_notice'' (SqlString 500) False NoServerDefault (Scalar (StrCell [])),
      mapped_column ''pickup_confirmed_at'' SqlDateTime True NoServerDefault NoDefault,
      mapped_column ''qr_token'' (SqlString 80) False NoServerDefault (Scalar (StrCell [])),
      mapped_column ''qr_issued_at'' SqlDateTime True NoServerDefault NoDefault,
      mapped_column ''qr_expires_at'' SqlDateTime True NoServerDefault NoDefault,
      mapped_column ''checked_in_at'' SqlDateTime True NoServerDefault NoDefault,
      mapped_column ''completed_at'' SqlDateTime True NoServerDefault NoDefault,
      mapped_column ''cancelled_at'' SqlDateTime True NoServerDefault NoDefault,
      mapped_column ''cancel_reason'' (SqlString 255) False NoServerDefault (Scalar (StrCell [])),
      mapped_column ''exception_reason'' (SqlString 255) False NoServerDefault (Scalar (StrCell []))] @ timestamp_columns,
    m_primary = [''id''],
    m_uniques = [mk_key ''uq_travel_orders_user_idempotency'' [''user_id'', ''idempotency_key''] True],
    m_indexes =
     [mk_key ''ix_travel_orders_user_status_created'' [''user_id'', ''fulfillment_status'', ''created_at''] False,
      mk_key ''ix_travel_orders_order_no'' [''order_no''] True,
      mk_key ''ix_travel_orders_user_id'' [''user_id''] False,
      mk_key ''ix_travel_orders_user_no'' [''user_no''] False,
      mk_key ''ix_travel_orders_route_id'' [''route_id''] False,
      mk_key ''ix_travel_orders_order_type'' [''order_type''] False,
      mk_key ''ix_travel_orders_points_refunded'' [''points_refunded''] False,
      mk_key ''ix_travel_orders_stock_restored'' [''stock_restored''] False,
      mk_key ''ix_travel_orders_status'' [''status''] False,
      mk_key ''ix_travel_orders_contract_status'' [''contract_status''] False,
      mk_key ''ix_travel_orders_contract_template_version'' [''contract_template_version''] False,
      mk_key ''ix_travel_orders_contract_template_snapshot_id'' [''contract_template_snapshot_id''] False,
      mk_key ''ix_travel_orders_fulfillment_status'' [''fulfillment_status''] False,
      mk_key ''ix_travel_orders_qr_token'' [''qr_token''] False,
      mk_key ''ix_travel_orders_qr_expires_at'' [''qr_expires_at''] False,
      mk_key ''ix_travel_orders_cancelled_at'' [''cancelled_at''] False]\<rparr>"

definition contract_template_snapshots_model :: model_table where
  "contract_template_snapshots_model =
   \<lparr>m_name = ''contract_template_snapshots'',
    m_columns =
     [mapped_column ''id'' SqlInteger False NoServerDefault NoDefault,
      mapped_column ''version'' SqlInteger False NoServerDefault NoDefault,
      mapped_column ''title'' (SqlString 120) False NoServerDefault (Scalar (StrCell [])),
      mapped_column ''content'' SqlText False NoServerDefault (Scalar (StrCell [])),
      mapped_column ''travel_date_days'' SqlInteger False NoServerDefault (Scalar (IntCell 30)),
      mapped_column ''content_hash'' (SqlString 64) False NoServerDefault NoDefault] @ timestamp_columns,
    m_primary = [''id''],
    m_uniques = [],
    m_indexes =
     [mk_key ''ix_contract_template_snapshots_version'' [''version''] True,
      mk_key ''ix_contract_template_snapshots_content_hash'' [''content_hash''] False]\<rparr>"

definition travel_order_audit_logs_model :: model_table where
  "travel_order_audit_logs_model =
   \<lparr>m_name = ''travel_order_audit_logs'',
    m_columns =
     [mapped_column ''id'' SqlInteger False NoServerDefault NoDefault,
      mapped_column ''order_id'' SqlInteger False NoServerDefault NoDefault,
      mapped_column ''order_no'' (SqlString 40) False NoServerDefault NoDefault,
      mapped_column ''event_type'' (SqlString 40) False NoServerDefault NoDefault,
      mapped_column ''from_status'' (SqlString 40) False NoServerDefault (Scalar (StrCell [])),
      mapped_column ''to_status'' (SqlString 40) False NoServerDefault (Scalar (StrCell [])),
      mapped_column ''actor_role'' (SqlString 20) False NoServerDefault (Scalar (StrCell ''system'')),
      mapped_column ''actor_id'' SqlInteger False NoServerDefault (Scalar (IntCell 0)),
      mapped_column ''actor_name'' (SqlString 60) False NoServerDefault (Scalar (StrCell [])),
      mapped_column ''reason'' (SqlString 255) False NoServerDefault (Scalar (StrCell [])),
      mapped_column ''evidence'' SqlJSON True NoServerDefault EmptyDict,
      mapped_column ''created_at'' SqlDateTime False CurrentTimestamp NoDefault],
    m_primary = [''id''],
    m_uniques = [],
    m_indexes =
     [mk_key ''ix_travel_order_audit_order_created'' [''order_id'', ''created_at''] False,
      mk_key ''ix_travel_order_audit_event_created'' [''event_type'', ''created_at''] False,
      mk_key ''ix_travel_order_audit_logs_order_id'' [''order_id''] False,
      mk_key ''ix_travel_order_audit_logs_order_no'' [''order_no''] False,
      mk_key ''ix_travel_order_audit_logs_event_type'' [''event_type''] False,
      mk_key ''ix_travel_order_audit_logs_actor_role'' [''actor_role''] False,
      mk_key ''ix_travel_order_audit_logs_actor_id'' [''actor_id''] False,
      mk_key ''ix_travel_order_audit_logs_created_at'' [''created_at''] False]\<rparr>"

definition travel_verification_records_model :: model_table where
  "travel_verification_records_model =
   \<lparr>m_name = ''travel_verification_records'',
    m_columns =
     [mapped_column ''id'' SqlInteger False NoServerDefault NoDefault,
      mapped_column ''order_id'' SqlInteger False NoServerDefault NoDefault,
      mapped_column ''order_no'' (SqlString 40) False NoServerDefault NoDefault,
      mapped_column ''action'' (SqlString 30) False NoServerDefault NoDefault,
      mapped_column ''token_hash'' (SqlString 64) False NoServerDefault (Scalar (StrCell [])),
      mapped_column ''result'' (SqlString 20) False NoServerDefault NoDefault,
      mapped_column ''operator_role'' (SqlString 20) False NoServerDefault (Scalar (StrCell ''system'')),
      mapped_column ''operator_id'' SqlInteger False NoServerDefault (Scalar (IntCell 0)),
      mapped_column ''operator_name'' (SqlString 60) False NoServerDefault (Scalar (StrCell [])),
      mapped_column ''device'' (SqlString 255) False NoServerDefault (Scalar (StrCell [])),
      mapped_column ''location'' (SqlString 255) False NoServerDefault (Scalar (StrCell [])),
      mapped_column ''reason'' (SqlString 255) False NoServerDefault (Scalar (StrCell [])),
      mapped_column ''created_at'' SqlDateTime False CurrentTimestamp NoDefault],
    m_primary = [''id''],
    m_uniques = [],
    m_indexes =
     [mk_key ''ix_travel_verification_order_created'' [''order_id'', ''created_at''] False,
      mk_key ''ix_travel_verification_token_result'' [''token_hash'', ''result''] False,
      mk_key ''ix_travel_verification_records_order_id'' [''order_id''] False,
      mk_key ''ix_travel_verification_records_order_no'' [''order_no''] False,
      mk_key ''ix_travel_verification_records_action'' [''action''] False,
      mk_key ''ix_travel_verification_records_token_hash'' [''token_hash''] False,
      mk_key ''ix_travel_verification_records_result'' [''result''] False,
      mk_key ''ix_travel_verification_records_operator_role'' [''operator_role''] False,
      mk_key ''ix_travel_verification_records_operator_id'' [''operator_id''] False,
      mk_key ''ix_travel_verification_records_created_at'' [''created_at''] False]\<rparr>"

definition custom_travel_requests_model :: model_table where
  "custom_travel_requests_model =
   \<lparr>m_name = ''custom_travel_requests'',
    m_columns =
     [mapped_column ''id'' SqlInteger False NoServerDefault NoDefault,
      mapped_column ''request_no'' (SqlString 40) False NoServerDefault NoDefault,
      mapped_column ''user_id'' SqlInteger False NoServerDefault NoDefault,
      mapped_column ''user_no'' (SqlString 64) False NoServerDefault NoDefault,
      mapped_column ''user_name'' (SqlString 60) False NoServerDefault (Scalar (StrCell [])),
      mapped_column ''phone'' (SqlString 30) False NoServerDefault (Scalar (StrCell [])),
      mapped_column ''destination'' (SqlString 160) False NoServerDefault (Scalar (StrCell [])),
      mapped_column ''travel_time'' (SqlString 80) False NoServerDefault (Scalar (StrCell [])),
      mapped_column ''days'' (SqlString 40) False NoServerDefault (Scalar (StrCell [])),
      mapped_column ''budget'' (SqlString 80) False NoServerDefault (Scalar (StrCell [])),
      mapped_column ''people_count'' (SqlString 40) False NoServerDefault (Scalar (StrCell [])),
      mapped_column ''special_tags'' SqlJSON False NoServerDefault EmptyList,
      mapped_column ''note'' SqlText False NoServerDefault (Scalar (StrCell [])),
      mapped_column ''status'' (SqlString 20) False NoServerDefault (Scalar (StrCell ''pending'')),
      mapped_column ''reject_reason'' (SqlString 255) False NoServerDefault (Scalar (StrCell [])),
      mapped_column ''plan_title'' (SqlString 160) False NoServerDefault (Scalar (StrCell [])),
      mapped_column ''plan_summary'' SqlText False NoServerDefault (Scalar (StrCell [])),
      mapped_column ''plan_price'' (SqlString 80) False NoServerDefault (Scalar (StrCell [])),
      mapped_column ''plan_itinerary'' SqlJSON False NoServerDefault EmptyList,
      mapped_column ''plan_includes'' SqlJSON False NoServerDefault EmptyList,
      mapped_column ''plan_tips'' SqlText False NoServerDefault (Scalar (StrCell [])),
      mapped_column ''reviewed_at'' SqlDateTime True NoServerDefault NoDefault,
      mapped_column ''reviewed_by'' SqlInteger True NoServerDefault NoDefault] @ timestamp_columns,
    m_primary = [''id''],
    m_uniques = [],
    m_indexes =
     [mk_key ''ix_custom_travel_user_status'' [''user_id'', ''status''] False,
      mk_key ''ix_custom_travel_status_created'' [''status'', ''created_at''] False,
      mk_key ''ix_custom_travel_requests_request_no'' [''request_no''] True,
      mk_key ''ix_custom_travel_requests_user_id'' [''user_id''] False,
      mk_key ''ix_custom_travel_requests_user_no'' [''user_no''] False,
      mk_key ''ix_custom_travel_requests_status'' [''status''] False]\<rparr>"

definition invite_relations_model :: model_table where
  "invite_relations_model =
   \<lparr>m_name = ''invite_relations'',
    m_columns =
     [mapped_column ''id'' SqlInteger False NoServerDefault NoDefault,
      mapped_column ''inviter_id'' (SqlString 40) False NoServerDefault NoDefault,
      mapped_column ''invitee_phone'' (SqlString 30) False NoServerDefault NoDefault,
      mapped_column ''device_id'' (SqlString 100) False NoServerDefault NoDefault,
      mapped_column ''score_granted'' SqlBoolean False NoServerDefault (Scalar (BoolCell True)),
      mapped_column ''abnormal'' SqlBoolean False NoServerDefault (Scalar (BoolCell False)),
      mapped_column ''frozen'' SqlBoolean False NoServerDefault (Scalar (BoolCell False))] @ timestamp_columns,
    m_primary = [''id''],
    m_uniques = [],
    m_indexes =
     [mk_key ''ix_invite_relations_inviter_id'' [''inviter_id''] False,
      mk_key ''ix_invite_relations_invitee_phone'' [''invitee_phone''] False,
      mk_key ''ix_invite_relations_device_id'' [''device_id''] False,
      mk_key ''ix_invite_relations_abnormal'' [''abnormal''] False]\<rparr>"

definition preference_events_model :: model_table where
  "preference_events_model =
   \<lparr>m_name = ''preference_events'',
    m_columns =
     [mapped_column ''id'' SqlInteger False NoServerDefault NoDefault,
      mapped_column ''user_id'' (SqlString 64) False NoServerDefault NoDefault,
      mapped_column ''user_name'' (SqlString 60) False NoServerDefault (Scalar (StrCell ''traveller'')),
      mapped_column ''preference_type'' (SqlString 20) False NoServerDefault NoDefault,
      mapped_column ''target_key'' (SqlString 120) False NoServerDefault NoDefault,
      mapped_column ''target_name'' (SqlString 160) False NoServerDefault NoDefault,
      mapped_column ''action'' (SqlString 30) False NoServerDefault NoDefault,
      mapped_column ''score'' SqlInteger False NoServerDefault (Scalar (IntCell 1))] @ timestamp_columns,
    m_primary = [''id''],
    m_uniques = [],
    m_indexes =
     [mk_key ''ix_preference_events_user_id'' [''user_id''] False,
      mk_key ''ix_preference_events_preference_type'' [''preference_type''] False,
      mk_key ''ix_preference_events_target_key'' [''target_key''] False,
      mk_key ''ix_preference_events_action'' [''action''] False]\<rparr>"

definition platform_announcements_model :: model_table where
  "platform_announcements_model =
   \<lparr>m_name = ''platform_announcements'',
    m_columns =
     [mapped_column ''id'' SqlInteger False NoServerDefault NoDefault,
      mapped_column ''title'' (SqlString 160) False NoServerDefault NoDefault,
      mapped_column ''summary'' (SqlString 255) False NoServerDefault (Scalar (StrCell [])),
      mapped_column ''content'' SqlText False NoServerDefault (Scalar (StrCell [])),
      mapped_column ''tag'' (SqlString 40) False NoServerDefault (Scalar (StrCell ''notice'')),
      mapped_column ''pinned'' SqlBoolean False NoServerDefault (Scalar (BoolCell False)),
      mapped_column ''status'' SqlBoolean False NoServerDefault (Scalar (BoolCell False)),
      mapped_column ''published_at'' SqlDateTime True NoServerDefault NoDefault,
      mapped_column ''start_at'' SqlDateTime True NoServerDefault NoDefault,
      mapped_column ''end_at'' SqlDateTime True NoServerDefault NoDefault] @ timestamp_columns,
    m_primary = [''id''],
    m_uniques = [],
    m_indexes =
     [mk_key ''ix_platform_announcements_title'' [''title''] False,
      mk_key ''ix_platform_announcements_pinned'' [''pinned''] False,
      mk_key ''ix_platform_announcements_status'' [''status''] False,
      mk_key ''ix_platform_announcements_published_at'' [''published_at''] False]\<rparr>"

definition content_articles_model :: model_table where
  "content_articles_model =
   \<lparr>m_name = ''content_articles'',
    m_columns =
     [mapped_column ''id'' SqlInteger False NoServerDefault NoDefault,
      mapped_column ''title'' (SqlString 160) False NoServerDefault NoDefault,
      mapped_column ''slug'' (SqlString 80) False NoServerDefault NoDefault,
      mapped_column ''summary'' (SqlString 255) False NoServerDefault (Scalar (StrCell [])),
      mapped_column ''content'' SqlText False NoServerDefault (Scalar (StrCell [])),
      mapped_column ''category'' (SqlString 40) False NoServerDefault (Scalar (StrCell ''rules'')),
      mapped_column ''cover'' SqlText False NoServerDefault (Scalar (StrCell [])),
      mapped_column ''pinned'' SqlBoolean False NoServerDefault (Scalar (BoolCell False)),
      mapped_column ''vip_only'' SqlBoolean False NoServerDefault (Scalar (BoolCell False)),
      mapped_column ''status'' SqlBoolean False NoServerDefault (Scalar (BoolCell False)),
      mapped_column ''sort_order'' SqlInteger False NoServerDefault (Scalar (IntCell 0)),
      mapped_column ''published_at'' SqlDateTime True NoServerDefault NoDefault] @ timestamp_columns,
    m_primary = [''id''],
    m_uniques = [],
    m_indexes =
     [mk_key ''ix_content_articles_title'' [''title''] False,
      mk_key ''ix_content_articles_slug'' [''slug''] True,
      mk_key ''ix_content_articles_category'' [''category''] False,
      mk_key ''ix_content_articles_pinned'' [''pinned''] False,
      mk_key ''ix_content_articles_vip_only'' [''vip_only''] False,
      mk_key ''ix_content_articles_status'' [''status''] False,
      mk_key ''ix_content_articles_sort_order'' [''sort_order''] False,
      mk_key ''ix_content_articles_published_at'' [''published_at''] False]\<rparr>"

definition school_sites_model :: model_table where
  "school_sites_model =
   \<lparr>m_name = ''school_sites'',
    m_columns =
     [mapped_column ''id'' SqlInteger False NoServerDefault NoDefault,
      mapped_column ''name'' (SqlString 160) False NoServerDefault NoDefault,
      mapped_column ''short_name'' (SqlString 80) False NoServerDefault (Scalar (StrCell [])),
      mapped_column ''city'' (SqlString 60) False NoServerDefault (Scalar (StrCell [])),
      mapped_column ''district'' (SqlString 60) False NoServerDefault (Scalar (StrCell [])),
      mapped_column ''logo'' SqlText False NoServerDefault (Scalar (StrCell [])),
      mapped_column ''status'' SqlBoolean False NoServerDefault (Scalar (BoolCell True)),
      mapped_column ''is_current'' SqlBoolean False NoServerDefault (Scalar (BoolCell False)),
      mapped_column ''review_status'' (SqlString 20) False NoServerDefault (Scalar (StrCell ''pending'')),
      mapped_column ''reject_reason'' (SqlString 255) False NoServerDefault (Scalar (StrCell [])),
      mapped_column ''merchant_account'' (SqlString 60) True NoServerDefault NoDefault,
      mapped_column ''merchant_password_hash'' (SqlString 255) False NoServerDefault (Scalar (StrCell [])),
      mapped_column ''display_weight'' SqlInteger False NoServerDefault (Scalar (IntCell 0)),
      mapped_column ''sort_order'' SqlInteger False NoServerDefault (Scalar (IntCell 0)),
      mapped_column ''description'' SqlText False NoServerDefault (Scalar (StrCell []))] @ timestamp_columns,
    m_primary = [''id''],
    m_uniques = [mk_key ''uq_school_sites_merchant_account'' [''merchant_account''] True, mk_key ''uq_school_sites_name_city'' [''name'', ''city''] True],
    m_indexes =
     [mk_key ''ix_school_sites_name'' [''name''] False,
      mk_key ''ix_school_sites_status'' [''status''] False,
      mk_key ''ix_school_sites_is_current'' [''is_current''] False,
      mk_key ''ix_school_sites_review_status'' [''review_status''] False,
      mk_key ''ix_school_sites_merchant_account'' [''merchant_account''] False,
      mk_key ''ix_school_sites_display_weight'' [''display_weight''] False,
      mk_key ''ix_school_sites_sort_order'' [''sort_order''] False]\<rparr>"

definition school_merchant_sessions_model :: model_table where
  "school_merchant_sessions_model =
   \<lparr>m_name = ''school_merchant_sessions'',
    m_columns =
     [mapped_column ''token'' (SqlString 128) False NoServerDefault NoDefault,
      mapped_column ''school_id'' SqlInteger False NoServerDefault NoDefault,
      mapped_column ''created_at'' SqlDateTime False CurrentTimestamp NoDefault,
      mapped_column ''expires_at'' SqlDateTime False NoServerDefault NoDefault,
      mapped_column ''last_seen_at'' SqlDateTime True NoServerDefault NoDefault],
    m_primary = [''token''],
    m_uniques = [],
    m_indexes =
     [mk_key ''ix_school_merchant_sessions_school_id'' [''school_id''] False,
      mk_key ''ix_school_merchant_sessions_expires_at'' [''expires_at''] False]\<rparr>"

definition support_conversations_model :: model_table where
  "support_conversations_model =
   \<lparr>m_name = ''support_conversations'',
    m_columns =
     [mapped_column ''id'' (SqlString 36) False NoServerDefault NoDefault,
      mapped_column ''user_id'' (SqlString 64) False NoServerDefault NoDefault,
      mapped_column ''user_name'' (SqlString 60) False NoServerDefault (Scalar (StrCell ''traveller'')),
      mapped_column ''status'' (SqlString 20) False NoServerDefault (Scalar (StrCell ''open'')),
      mapped_column ''last_message'' (SqlString 255) False NoServerDefault (Scalar (StrCell [])),
      mapped_column ''unread_admin'' SqlInteger False NoServerDefault (Scalar (IntCell 0)),
      mapped_column ''unread_user'' SqlInteger False NoServerDefault (Scalar (IntCell 0)),
      mapped_column ''unread_merchant'' SqlInteger False NoServerDefault (Scalar (IntCell 0)),
      mapped_column ''conversation_type'' (SqlString 30) False NoServerDefault (Scalar (StrCell ''platform'')),
      mapped_column ''order_id'' SqlInteger False NoServerDefault (Scalar (IntCell 0)),
      mapped_column ''order_no'' (SqlString 40) False NoServerDefault (Scalar (StrCell [])),
      mapped_column ''product_id'' SqlInteger False NoServerDefault (Scalar (IntCell 0)),
      mapped_column ''product_name'' (SqlString 160) False NoServerDefault (Scalar (StrCell [])),
      mapped_column ''school_id'' SqlInteger False NoServerDefault (Scalar (IntCell 0)),
      mapped_column ''school_name'' (SqlString 160) False NoServerDefault (Scalar (StrCell [])),
      mapped_column ''user_online'' SqlBoolean False NoServerDefault (Scalar (BoolCell False)),
      mapped_column ''admin_online'' SqlBoolean False NoServerDefault (Scalar (BoolCell False)),
      mapped_column ''merchant_online'' SqlBoolean False NoServerDefault (Scalar (BoolCell False)),
      mapped_column ''last_user_online_at'' SqlDateTime True NoServerDefault NoDefault,
      mapped_column ''last_admin_online_at'' SqlDateTime True NoServerDefault NoDefault,
      mapped_column ''last_merchant_online_at'' SqlDateTime True NoServerDefault NoDefault] @ timestamp_columns,
    m_primary = [''id''],
    m_uniques = [],
    m_indexes =
     [mk_key ''ix_support_conversations_user_id'' [''user_id''] False,
      mk_key ''ix_support_conversations_status'' [''status''] False,
      mk_key ''ix_support_conversations_conversation_type'' [''conversation_type''] False,
      mk_key ''ix_support_conversations_order_id'' [''order_id''] False,
      mk_key ''ix_support_conversations_order_no'' [''order_no''] False,
      mk_key ''ix_support_conversations_product_id'' [''product_id''] False,
      mk_key ''ix_support_conversations_school_id'' [''school_id''] False,
      mk_key ''ix_support_conversations_user_online'' [''user_online''] False,
      mk_key ''ix_support_conversations_admin_online'' [''admin_online''] False,
      mk_key ''ix_support_conversations_merchant_online'' [''merchant_online''] False]\<rparr>"

definition support_messages_model :: model_table where
  "support_messages_model =
   \<lparr>m_name = ''support_messages'',
    m_columns =
     [mapped_column ''id'' SqlInteger False NoServerDefault NoDefault,
      mapped_column ''conversation_id'' (SqlString 36) False NoServerDefault NoDefault,
      mapped_column ''sender_role'' (SqlString 20) False NoServerDefault NoDefault,
      mapped_column ''sender_name'' (SqlString 60) False NoServerDefault NoDefault,
      mapped_column ''content'' SqlText False NoServerDefault (Scalar (StrCell [])),
      mapped_column ''message_type'' (SqlString 20) False NoServerDefault (Scalar (StrCell ''text'')),
      mapped_column ''extra'' SqlJSON True NoServerDefault EmptyDict,
      mapped_column ''image_url'' SqlText False NoServerDefault (Scalar (StrCell [])),
      mapped_column ''image_thumb_url'' SqlText True NoServerDefault (Scalar (StrCell [])),
      mapped_column ''created_at'' SqlDateTime False CurrentTimestamp NoDefault],
    m_primary = [''id''],
    m_uniques = [],
    m_indexes =
     [mk_key ''ix_support_messages_conversation_id'' [''conversation_id''] False,
      mk_key ''ix_support_messages_sender_role'' [''sender_role''] False,
      mk_key ''ix_support_messages_created_at'' [''created_at''] False]\<rparr>"

definition study_products_model :: model_table where
  "study_products_model =
   \<lparr>m_name = ''study_products'',
    m_columns =
     [mapped_column ''id'' SqlInteger False NoServerDefault NoDefault,
      mapped_column ''school_id'' SqlInteger False NoServerDefault (Scalar (IntCell 0)),
      mapped_column ''name'' (SqlString 160) False NoServerDefault NoDefault,
      mapped_column ''product_type'' (SqlString 30) False NoServerDefault NoDefault,
      mapped_column ''subtitle'' (SqlString 255) False NoServerDefault (Scalar (StrCell [])),
      mapped_column ''description'' SqlText False NoServerDefault (Scalar (StrCell [])),
      mapped_column ''price'' (SqlNumeric 10 2) False NoServerDefault (Scalar (DecCell 0)),
      mapped_column ''original_price'' (SqlNumeric 10 2) False NoServerDefault (Scalar (DecCell 0)),
      mapped_column ''billing_cycle'' (SqlString 30) False NoServerDefault (Scalar (StrCell ''once'')),
      mapped_column ''cover'' SqlText False NoServerDefault (Scalar (StrCell [])),
      mapped_column ''benefits'' SqlJSON False NoServerDefault EmptyList,
      mapped_column ''trial_minutes'' SqlInteger False NoServerDefault (Scalar (IntCell 0)),
      mapped_column ''stock'' SqlInteger False NoServerDefault (Scalar (IntCell (-1))),
      mapped_column ''sales'' SqlInteger False NoServerDefault (Scalar (IntCell 0)),
      mapped_column ''featured'' SqlBoolean False NoServerDefault (Scalar (BoolCell False)),
      mapped_column ''installment_enabled'' SqlBoolean False NoServerDefault (Scalar (BoolCell False)),
      mapped_column ''installment_count'' SqlInteger False NoServerDefault (Scalar (IntCell 1)),
      mapped_column ''status'' SqlBoolean False NoServerDefault (Scalar (BoolCell True)),
      mapped_column ''review_status'' (SqlString 20) False NoServerDefault (Scalar (StrCell ''approved'')),
      mapped_column ''reject_reason'' (SqlString 255) False NoServerDefault (Scalar (StrCell []))] @ timestamp_columns,
    m_primary = [''id''],
    m_uniques = [],
    m_indexes =
     [mk_key ''ix_study_products_school_id'' [''school_id''] False,
      mk_key ''ix_study_products_name'' [''name''] False,
      mk_key ''ix_study_products_product_type'' [''product_type''] False,
      mk_key ''ix_study_products_featured'' [''featured''] False,
      mk_key ''ix_study_products_status'' [''status''] False,
      mk_key ''ix_study_products_review_status'' [''review_status''] False]\<rparr>"

definition study_contents_model :: model_table where
  "study_contents_model =
   \<lparr>m_name = ''study_contents'',
    m_columns =
     [mapped_column ''id'' SqlInteger False NoServerDefault NoDefault,
      mapped_column ''product_id'' SqlInteger False NoServerDefault NoDefault,
      mapped_column ''title'' (SqlString 160) False NoServerDefault NoDefault,
      mapped_column ''content_type'' (SqlString 30) False NoServerDefault (Scalar (StrCell ''lesson'')),
      mapped_column ''summary'' (SqlString 255) False NoServerDefault (Scalar (StrCell [])),
      mapped_column ''resource_url'' SqlText False NoServerDefault (Scalar (StrCell [])),
      mapped_column ''duration_minutes'' SqlInteger False NoServerDefault (Scalar (IntCell 0)),
      mapped_column ''preview'' SqlBoolean False NoServerDefault (Scalar (BoolCell False)),
      mapped_column ''sort_order'' SqlInteger False NoServerDefault (Scalar (IntCell 0)),
      mapped_column ''status'' SqlBoolean False NoServerDefault (Scalar (BoolCell True))] @ timestamp_columns,
    m_primary = [''id''],
    m_uniques = [],
    m_indexes =
     [mk_key ''ix_study_contents_product_id'' [''product_id''] False]\<rparr>"

definition study_orders_model :: model_table where
  "study_orders_model =
   \<lparr>m_name = ''study_orders'',
    m_columns =
     [mapped_column ''id'' SqlInteger False NoServerDefault NoDefault,
      mapped_column ''order_no'' (SqlString 40) False NoServerDefault NoDefault,
      mapped_column ''user_id'' SqlInteger False NoServerDefault NoDefault,
      mapped_column ''school_id'' SqlInteger False NoServerDefault (Scalar (IntCell 0)),
      mapped_column ''product_id'' SqlInteger False NoServerDefault NoDefault,
      mapped_column ''product_name'' (SqlString 160) False NoServerDefault NoDefault,
      mapped_column ''product_type'' (SqlString 30) False NoServerDefault NoDefault,
      mapped_column ''amount'' (SqlNumeric 10 2) False NoServerDefault (Scalar (DecCell 0)),
      mapped_column ''payment_method'' (SqlString 20) False NoServerDefault (Scalar (StrCell ''wechat'')),
      mapped_column ''payment_status'' (SqlString 20) False NoServerDefault (Scalar (StrCell ''pending'')),
      mapped_column ''transaction_id'' (SqlString 80) False NoServerDefault (Scalar (StrCell [])),
      mapped_column ''installment_no'' SqlInteger False NoServerDefault (Scalar (IntCell 1)),
      mapped_column ''installment_count'' SqlInteger False NoServerDefault (Scalar (IntCell 1)),
      mapped_column ''paid_at'' SqlDateTime True NoServerDefault NoDefault] @ timestamp_columns,
    m_primary = [''id''],
    m_uniques = [],
    m_indexes =
     [mk_key ''ix_study_orders_order_no'' [''order_no''] True,
      mk_key ''ix_study_orders_user_id'' [''user_id''] False,
      mk_key ''ix_study_orders_school_id'' [''school_id''] False,
      mk_key ''ix_study_orders_product_id'' [''product_id''] False,
      mk_key ''ix_study_orders_product_type'' [''product_type''] False,
      mk_key ''ix_study_orders_payment_status'' [''payment_status''] False]\<rparr>"

definition commerce_orders_model :: model_table where
  "commerce_orders_model =
   \<lparr>m_name = ''commerce_orders'',
    m_columns =
     [mapped_column ''id'' SqlInteger False NoServerDefault NoDefault,
      mapped_column ''order_no'' (SqlString 40) False NoServerDefault NoDefault,
      mapped_column ''user_id'' SqlInteger False NoServerDefault NoDefault,
      mapped_column ''school_id'' SqlInteger False NoServerDefault (Scalar (IntCell 0)),
      mapped_column ''total_amount'' (SqlNumeric 10 2) False NoServerDefault (Scalar (DecCell 0)),
      mapped_column ''payable_amount'' (SqlNumeric 10 2) False NoServerDefault (Scalar (DecCell 0)),
      mapped_column ''payment_method'' (SqlString 20) False NoServerDefault (Scalar (StrCell ''balance'')),
      mapped_column ''payment_status'' (SqlString 20) False NoServerDefault (Scalar (StrCell ''pending'')),
      mapped_column ''status'' (SqlString 20) False NoServerDefault (Scalar (StrCell ''pending'')),
      mapped_column ''idempotency_key'' (SqlString 120) False NoServerDefault (Scalar (StrCell [])),
      mapped_column ''transaction_id'' (SqlString 100) False NoServerDefault (Scalar (StrCell [])),
      mapped_column ''refund_no'' (SqlString 64) True NoServerDefault NoDefault,
      mapped_column ''refund_id'' (SqlString 100) False NoServerDefault (Scalar (StrCell [])),
      mapped_column ''refund_status'' (SqlString 20) False NoServerDefault (Scalar (StrCell [])),
      mapped_column ''refund_reason'' (SqlString 255) False NoServerDefault (Scalar (StrCell [])),
      mapped_column ''timeout_job_scheduled'' SqlBoolean False NoServerDefault (Scalar (BoolCell True)),
      mapped_column ''paid_at'' SqlDateTime True NoServerDefault NoDefault,
      mapped_column ''refund_requested_at'' SqlDateTime True NoServerDefault NoDefault,
      mapped_column ''refunded_at'' SqlDateTime True NoServerDefault NoDefault,
      mapped_column ''canceled_at'' SqlDateTime True NoServerDefault NoDefault,
      mapped_column ''cancel_reason'' (SqlString 255) False NoServerDefault (Scalar (StrCell []))] @ timestamp_columns,
    m_primary = [''id''],
    m_uniques = [mk_key ''uq_commerce_orders_user_idempotency'' [''user_id'', ''idempotency_key''] True],
    m_indexes =
     [mk_key ''ix_commerce_orders_user_status_created'' [''user_id'', ''status'', ''created_at''] False,
      mk_key ''ix_commerce_orders_payment_status_created'' [''payment_status'', ''created_at''] False,
      mk_key ''ix_commerce_orders_order_no'' [''order_no''] True,
      mk_key ''ix_commerce_orders_user_id'' [''user_id''] False,
      mk_key ''ix_commerce_orders_school_id'' [''school_id''] False,
      mk_key ''ix_commerce_orders_payment_method'' [''payment_method''] False,
      mk_key ''ix_commerce_orders_payment_status'' [''payment_status''] False,
      mk_key ''ix_commerce_orders_status'' [''status''] False,
      mk_key ''ix_commerce_orders_idempotency_key'' [''idempotency_key''] False,
      mk_key ''ix_commerce_orders_refund_no'' [''refund_no''] True,
      mk_key ''ix_commerce_orders_refund_status'' [''refund_status''] False,
      mk_key ''ix_commerce_orders_timeout_job_scheduled'' [''timeout_job_scheduled''] False]\<rparr>"

definition commerce_order_items_model :: model_table where
  "commerce_order_items_model =
   \<lparr>m_name = ''commerce_order_items'',
    m_columns =
     [mapped_column ''id'' SqlInteger False NoServerDefault NoDefault,
      mapped_column ''order_id'' SqlInteger False NoServerDefault NoDefault,
      mapped_column ''order_no'' (SqlString 40) False NoServerDefault NoDefault,
      mapped_column ''product_id'' SqlInteger False NoServerDefault NoDefault,
      mapped_column ''product_name'' (SqlString 160) False NoServerDefault NoDefault,
      mapped_column ''product_type'' (SqlString 30) False NoServerDefault NoDefault,
      mapped_column ''school_id'' SqlInteger False NoServerDefault (Scalar (IntCell 0)),
      mapped_column ''unit_price'' (SqlNumeric 10 2) False NoServerDefault (Scalar (DecCell 0)),
      mapped_column ''quantity'' SqlInteger False NoServerDefault (Scalar (IntCell 1)),
      mapped_column ''total_amount'' (SqlNumeric 10 2) False NoServerDefault (Scalar (DecCell 0)),
      mapped_column ''installment_count'' SqlInteger False NoServerDefault (Scalar (IntCell 1)),
      mapped_column ''stock_deducted'' SqlBoolean False NoServerDefault (Scalar (BoolCell False)),
      mapped_column ''status'' (SqlString 20) False NoServerDefault (Scalar (StrCell ''pending''))] @ timestamp_columns,
    m_primary = [''id''],
    m_uniques = [],
    m_indexes =
     [mk_key ''ix_commerce_order_items_order_product'' [''order_id'', ''product_id''] False,
      mk_key ''ix_commerce_order_items_product_status'' [''product_id'', ''status''] False,
      mk_key ''ix_commerce_order_items_order_id'' [''order_id''] False,
      mk_key ''ix_commerce_order_items_order_no'' [''order_no''] False,
      mk_key ''ix_commerce_order_items_product_id'' [''product_id''] False,
      mk_key ''ix_commerce_order_items_product_type'' [''product_type''] False,
      mk_key ''ix_commerce_order_items_school_id'' [''school_id''] False,
      mk_key ''ix_commerce_order_items_stock_deducted'' [''stock_deducted''] False,
      mk_key ''ix_commerce_order_items_status'' [''status''] False]\<rparr>"

definition user_entitlements_model :: model_table where
  "user_entitlements_model =
   \<lparr>m_name = ''user_entitlements'',
    m_columns =
     [mapped_column ''id'' SqlInteger False NoServerDefault NoDefault,
      mapped_column ''user_id'' SqlInteger False NoServerDefault NoDefault,
      mapped_column ''product_id'' SqlInteger False NoServerDefault NoDefault,
      mapped_column ''order_id'' SqlInteger False NoServerDefault NoDefault,
      mapped_column ''entitlement_type'' (SqlString 30) False NoServerDefault NoDefault,
      mapped_column ''starts_at'' SqlDateTime False NoServerDefault CurrentTime,
      mapped_column ''expires_at'' SqlDateTime True NoServerDefault NoDefault,
      mapped_column ''progress'' SqlInteger False NoServerDefault (Scalar (IntCell 0)),
      mapped_column ''status'' (SqlString 20) False NoServerDefault (Scalar (StrCell ''active''))] @ timestamp_columns,
    m_primary = [''id''],
    m_uniques = [],
    m_indexes =
     [mk_key ''ix_user_entitlements_user_id'' [''user_id''] False,
      mk_key ''ix_user_entitlements_product_id'' [''product_id''] False,
      mk_key ''ix_user_entitlements_order_id'' [''order_id''] False,
      mk_key ''ix_user_entitlements_entitlement_type'' [''entitlement_type''] False,
      mk_key ''ix_user_entitlements_status'' [''status''] False]\<rparr>"

definition learning_profiles_model :: model_table where
  "learning_profiles_model =
   \<lparr>m_name = ''learning_profiles'',
    m_columns =
     [mapped_column ''id'' SqlInteger False NoServerDefault NoDefault,
      mapped_column ''user_id'' SqlInteger False NoServerDefault NoDefault,
      mapped_column ''target_exam'' (SqlString 80) False NoServerDefault (Scalar (StrCell ''pending'')),
      mapped_column ''current_stage'' (SqlString 80) False NoServerDefault (Scalar (StrCell ''basic stage'')),
      mapped_column ''school_major_status'' (SqlString 80) False NoServerDefault (Scalar (StrCell [])),
      mapped_column ''interest_tags'' SqlJSON True NoServerDefault EmptyList,
      mapped_column ''onboarding_version'' SqlInteger False NoServerDefault (Scalar (IntCell 0)),
      mapped_column ''onboarding_answers'' SqlJSON True NoServerDefault EmptyDict,
      mapped_column ''onboarding_completed_at'' SqlDateTime True NoServerDefault NoDefault,
      mapped_column ''total_minutes'' SqlInteger False NoServerDefault (Scalar (IntCell 0)),
      mapped_column ''checkin_days'' SqlInteger False NoServerDefault (Scalar (IntCell 0)),
      mapped_column ''last_checkin_at'' SqlDateTime True NoServerDefault NoDefault,
      mapped_column ''advisor_notes'' SqlText False NoServerDefault (Scalar (StrCell []))] @ timestamp_columns,
    m_primary = [''id''],
    m_uniques = [],
    m_indexes =
     [mk_key ''ix_learning_profiles_user_id'' [''user_id''] True]\<rparr>"

definition learning_checkin_records_model :: model_table where
  "learning_checkin_records_model =
   \<lparr>m_name = ''learning_checkin_records'',
    m_columns =
     [mapped_column ''id'' SqlInteger False NoServerDefault NoDefault,
      mapped_column ''user_id'' SqlInteger False NoServerDefault NoDefault,
      mapped_column ''checkin_date'' (SqlString 10) False NoServerDefault NoDefault,
      mapped_column ''checkin_at'' SqlDateTime False NoServerDefault CurrentTime,
      mapped_column ''checkin_days'' SqlInteger False NoServerDefault (Scalar (IntCell 1)),
      mapped_column ''note'' (SqlString 160) False NoServerDefault (Scalar (StrCell []))] @ timestamp_columns,
    m_primary = [''id''],
    m_uniques = [mk_key ''uq_learning_checkin_records_user_date'' [''user_id'', ''checkin_date''] True],
    m_indexes =
     [mk_key ''ix_learning_checkin_records_user_id'' [''user_id''] False,
      mk_key ''ix_learning_checkin_records_checkin_date'' [''checkin_date''] False,
      mk_key ''ix_learning_checkin_records_checkin_at'' [''checkin_at''] False]\<rparr>"

definition travel_goal_histories_model :: model_table where
  "travel_goal_histories_model =
   \<lparr>m_name = ''travel_goal_histories'',
    m_columns =
     [mapped_column ''id'' SqlInteger False NoServerDefault NoDefault,
      mapped_column ''user_id'' SqlInteger False NoServerDefault NoDefault,
      mapped_column ''request_key'' (SqlString 80) False NoServerDefault NoDefault,
      mapped_column ''title'' (SqlString 160) False NoServerDefault (Scalar (StrCell ''travel goal'')),
      mapped_column ''location'' (SqlString 120) False NoServerDefault (Scalar (StrCell [])),
      mapped_column ''place_count'' SqlInteger False NoServerDefault (Scalar (IntCell 0)),
      mapped_column ''criteria'' SqlJSON False NoServerDefault EmptyDict,
      mapped_column ''result_snapshot'' SqlJSON False NoServerDefault EmptyList] @ timestamp_columns,
    m_primary = [''id''],
    m_uniques = [mk_key ''uq_travel_goal_user_request'' [''user_id'', ''request_key''] True],
    m_indexes =
     [mk_key ''ix_travel_goal_histories_user_id'' [''user_id''] False,
      mk_key ''ix_travel_goal_histories_request_key'' [''request_key''] False]\<rparr>"

definition graduation_certifications_model :: model_table where
  "graduation_certifications_model =
   \<lparr>m_name = ''graduation_certifications'',
    m_columns =
     [mapped_column ''id'' SqlInteger False NoServerDefault NoDefault,
      mapped_column ''user_id'' SqlInteger False NoServerDefault NoDefault,
      mapped_column ''real_name'' (SqlString 60) False NoServerDefault NoDefault,
      mapped_column ''school_name'' (SqlString 120) False NoServerDefault NoDefault,
      mapped_column ''major_name'' (SqlString 120) False NoServerDefault (Scalar (StrCell [])),
      mapped_column ''graduation_date'' (SqlString 20) False NoServerDefault (Scalar (StrCell [])),
      mapped_column ''certificate_no'' (SqlString 80) False NoServerDefault (Scalar (StrCell [])),
      mapped_column ''certificate_image'' SqlText False NoServerDefault NoDefault,
      mapped_column ''status'' (SqlString 20) False NoServerDefault (Scalar (StrCell ''pending'')),
      mapped_column ''reject_reason'' (SqlString 255) False NoServerDefault (Scalar (StrCell [])),
      mapped_column ''reviewed_by'' SqlInteger True NoServerDefault NoDefault,
      mapped_column ''reviewed_at'' SqlDateTime True NoServerDefault NoDefault] @ timestamp_columns,
    m_primary = [''id''],
    m_uniques = [],
    m_indexes =
     [mk_key ''ix_graduation_certifications_user_id'' [''user_id''] True,
      mk_key ''ix_graduation_certifications_status'' [''status''] False]\<rparr>"

definition uploaded_assets_model :: model_table where
  "uploaded_assets_model =
   \<lparr>m_name = ''uploaded_assets'',
    m_columns =
     [mapped_column ''id'' SqlInteger False NoServerDefault NoDefault,
      mapped_column ''source'' (SqlString 40) False NoServerDefault (Scalar (StrCell ''common'')),
      mapped_column ''storage'' (SqlString 20) False NoServerDefault (Scalar (StrCell ''local'')),
      mapped_column ''bucket'' (SqlString 120) False NoServerDefault (Scalar (StrCell [])),
      mapped_column ''object_key'' (SqlString 500) False NoServerDefault (Scalar (StrCell [])),
      mapped_column ''path'' SqlText False NoServerDefault (Scalar (StrCell [])),
      mapped_column ''url'' SqlText False NoServerDefault (Scalar (StrCell [])),
      mapped_column ''filename'' (SqlString 180) False NoServerDefault (Scalar (StrCell [])),
      mapped_column ''original_name'' (SqlString 255) False NoServerDefault (Scalar (StrCell [])),
      mapped_column ''mime_type'' (SqlString 120) False NoServerDefault (Scalar (StrCell [])),
      mapped_column ''size'' SqlInteger False NoServerDefault (Scalar (IntCell 0)),
      mapped_column ''uploader_role'' (SqlString 20) False NoServerDefault (Scalar (StrCell [])),
      mapped_column ''user_id'' SqlInteger True NoServerDefault NoDefault,
      mapped_column ''conversation_id'' (SqlString 64) False NoServerDefault (Scalar (StrCell []))] @ timestamp_columns,
    m_primary = [''id''],
    m_uniques = [],
    m_indexes =
     [mk_key ''ix_uploaded_assets_source'' [''source''] False,
      mk_key ''ix_uploaded_assets_storage'' [''storage''] False,
      mk_key ''ix_uploaded_assets_uploader_role'' [''uploader_role''] False,
      mk_key ''ix_uploaded_assets_user_id'' [''user_id''] False,
      mk_key ''ix_uploaded_assets_conversation_id'' [''conversation_id''] False]\<rparr>"

definition system_settings_model :: model_table where
  "system_settings_model =
   \<lparr>m_name = ''system_settings'',
    m_columns =
     [mapped_column ''key'' (SqlString 80) False NoServerDefault NoDefault,
      mapped_column ''value'' SqlJSON False NoServerDefault NoDefault,
      mapped_column ''remark'' (SqlString 255) False NoServerDefault (Scalar (StrCell []))] @ timestamp_columns,
    m_primary = [''key''],
    m_uniques = [],
    m_indexes =
     []\<rparr>"

definition metadata :: "model_table list" where
  "metadata =
   [user_accounts_model,
    user_sessions_model,
    wallet_transactions_model,
    decoration_configs_model,
    travel_routes_model,
    travel_route_reviews_model,
    point_rules_model,
    point_ledgers_model,
    point_lots_model,
    point_lot_allocations_model,
    travel_orders_model,
    contract_template_snapshots_model,
    travel_order_audit_logs_model,
    travel_verification_records_model,
    custom_travel_requests_model,
    invite_relations_model,
    preference_events_model,
    platform_announcements_model,
    content_articles_model,
    school_sites_model,
    school_merchant_sessions_model,
    support_conversations_model,
    support_messages_model,
    study_products_model,
    study_contents_model,
    study_orders_model,
    commerce_orders_model,
    commerce_order_items_model,
    user_entitlements_model,
    learning_profiles_model,
    learning_checkin_records_model,
    travel_goal_histories_model,
    graduation_certifications_model,
    uploaded_assets_model,
    system_settings_model]"

text \<open>\<open>create_all(checkfirst=True)\<close>: the tables the database lacks, each with its indexes.\<close>

definition create_model_table :: "model_table \<Rightarrow> step" where
  "create_model_table m = run_steps
    (op_create_table (m_name m) (map sql_column.truncate (m_columns m)) (m_primary m) (m_uniques m) #
     map (\<lambda>k. op_create_index (k_name k) (m_name m) (k_columns k) (k_unique k)) (m_indexes m))"

definition create_all :: "model_table list \<Rightarrow> step" where
  "create_all ms = run_steps (map (\<lambda>m. unless (has_table (m_name m)) (create_model_table m)) ms)"

text \<open>
  Agreement of a table with its class, as \<open>alembic check\<close> compares them: the same columns
  with the same type and nullability, the same primary key, the same keys.
\<close>

definition column_found :: "sql_column list \<Rightarrow> model_column \<Rightarrow> bool" where
  "column_found cs m \<longleftrightarrow>
    (case find_by c_name (c_name m) cs of
       None \<Rightarrow> False
     | Some c \<Rightarrow> c_type c = c_type m \<and> c_nullable c = c_nullable m)"

definition columns_found :: "sql_column list \<Rightarrow> model_column list \<Rightarrow> bool" where
  "columns_found cs ms \<longleftrightarrow> length cs = length ms \<and> list_all (column_found cs) ms"

definition keys_found :: "sql_key list \<Rightarrow> sql_key list \<Rightarrow> bool" where
  "keys_found ks ls \<longleftrightarrow>
    length ks = length ls \<and> list_all (\<lambda>l. find_by k_name (k_name l) ks = Some l) ls"

definition model_keys :: "model_table \<Rightarrow> sql_key list" where
  "model_keys m = m_uniques m @ m_indexes m"

definition well_named :: "model_table \<Rightarrow> bool" where
  "well_named m \<longleftrightarrow> distinct (map c_name (m_columns m)) \<and> distinct (map k_name (model_keys m))"

definition columns_agree :: "database \<Rightarrow> model_table \<Rightarrow> bool" where
  "columns_agree d m \<longleftrightarrow>
    (case find_table (m_name m) d of
       None \<Rightarrow> False
     | Some t \<Rightarrow> columns_found (t_columns t) (m_columns m) \<and> t_primary t = m_primary m)"

definition keys_agree :: "database \<Rightarrow> model_table \<Rightarrow> bool" where
  "keys_agree d m \<longleftrightarrow>
    (case find_table (m_name m) d of None \<Rightarrow> False | Some t \<Rightarrow> keys_found (t_keys t) (model_keys m))"

definition agrees :: "database \<Rightarrow> model_table \<Rightarrow> bool" where
  "agrees d m \<longleftrightarrow> well_named m \<and> columns_agree d m \<and> keys_agree d m"

definition schema_current :: "database \<Rightarrow> bool" where
  "schema_current d \<longleftrightarrow>
    distinct (map t_name (tables d)) \<and>
    list_all (\<lambda>t. t_name t \<in> set (map m_name metadata)) (tables d) \<and> list_all (agrees d) metadata"

end
