(* ===== verification/Migrate.thy ===== *)
theory Migrate
  imports Migrations Models_Meta
begin

text \<open>
  Running the revisions: the chain that \<open>command.upgrade(config, "head")\<close> and
  \<open>command.downgrade\<close> follow from the version stored in \<open>alembic_version\<close>, and the
  start-up check of \<open>app/core/migrations.py\<close>. Each revision is one transaction; its
  version number is stored when it has succeeded.
\<close>

record deployment =
  schema :: database
  version :: "string option"

text \<open>\<open>ScriptDirectory.get_heads()\<close>: the revisions no other revision builds on.\<close>

definition expected_database_heads :: "string list" where
  "expected_database_heads =
    filter (\<lambda>r. list_all (\<lambda>q. rev_down q \<noteq> Some r) revisions) (map rev_id revisions)"

definition current_database_heads :: "deployment \<Rightarrow> string list" where
  "current_database_heads p = (case version p of None \<Rightarrow> [] | Some v \<Rightarrow> [v])"

definition ensure_database_current :: "deployment \<Rightarrow> unit result" where
  "ensure_database_current p =
    (if set (current_database_heads p) \<noteq> set expected_database_heads
     then Inl (RuntimeError ''database schema is not current'') else Inr ())"

section \<open>Upgrade and downgrade\<close>

definition apply_revision :: "revision \<Rightarrow> deployment \<Rightarrow> (db_error \<times> deployment) + deployment" where
  "apply_revision r p =
    (case transaction (schema p) (rev_upgrade r) of
       Inl (e, d) \<Rightarrow> Inl (e, p\<lparr>schema := d\<rparr>)
     | Inr d \<Rightarrow> Inr \<lparr>schema = d, version = Some (rev_id r)\<rparr>)"

fun apply_revisions :: "revision list \<Rightarrow> deployment \<Rightarrow> (db_error \<times> deployment) + deployment" where
  "apply_revisions [] p = Inr p"
| "apply_revisions (r # rs) p =
    (case apply_revision r p of Inl e \<Rightarrow> Inl e | Inr q \<Rightarrow> apply_revisions rs q)"

text \<open>The revisions after the stored version; \<open>None\<close> when the version is not in the chain.\<close>

definition pending :: "string option \<Rightarrow> revision list option" where
  "pending v =
    (case v of
       None \<Rightarrow> Some revisions
     | Some i \<Rightarrow>
        (case dropWhile (\<lambda>r. rev_id r \<noteq> i) revisions of [] \<Rightarrow> None | r # rs \<Rightarrow> Some rs))"

definition upgrade_head :: "deployment \<Rightarrow> (db_error \<times> deployment) + deployment" where
  "upgrade_head p =
    (case pending (version p) of
       None \<Rightarrow> Inl (Refused ''unknown revision'', p)
     | Some rs \<Rightarrow> apply_revisions rs p)"

definition revert_revision :: "revision \<Rightarrow> deployment \<Rightarrow> (db_error \<times> deployment) + deployment" where
  "revert_revision r p =
    (case transaction (schema p) (rev_downgrade r) of
       Inl (e, d) \<Rightarrow> Inl (e, p\<lparr>schema := d\<rparr>)
     | Inr d \<Rightarrow> Inr \<lparr>schema = d, version = rev_down r\<rparr>)"

fun revert_revisions :: "revision list \<Rightarrow> deployment \<Rightarrow> (db_error \<times> deployment) + deployment" where
  "revert_revisions [] p = Inr p"
| "revert_revisions (r # rs) p =
    (case revert_revision r p of Inl e \<Rightarrow> Inl e | Inr q \<Rightarrow> revert_revisions rs q)"

definition empty_database :: "time \<Rightarrow> database" where
  "empty_database now = \<lparr>tables = [], clock = now\<rparr>"

end
