(* ===== verification/Schema_Laws.thy ===== *)
theory Schema_Laws
  imports Migrate
begin

text \<open>
  What a migration step can touch. A step is confined to a set of tables when its outcome
  depends on these tables only and it leaves the others as they are. Steps confined to
  disjoint sets do not interfere, so the outcome of a chain of steps on a table is the
  outcome of the steps of its group alone: the schema after the whole chain is
  computed table by table.
\<close>

section \<open>Finding tables after a statement\<close>

lemma find_table_set [schema_simps]:
  "find_table m (d\<lparr>tables := update_by t_name n (\<lambda>_. t\<lparr>t_name := n\<rparr>) (tables d)\<rparr>) =
    (if m = n then map_option (\<lambda>_. t\<lparr>t_name := n\<rparr>) (find_table n d) else find_table m d)"
proof -
  have "find_by t_name m (update_by t_name n (\<lambda>_. t\<lparr>t_name := n\<rparr>) ts) =
      (if m = n then map_option (\<lambda>_. t\<lparr>t_name := n\<rparr>) (find_by t_name n ts) else find_by t_name m ts)" for ts
    by (induction ts) (auto simp: find_by_Cons update_by_Cons)
  then show ?thesis by (simp add: find_table_def)
qed

lemma has_table_find: "has_table n d \<longleftrightarrow> find_table n d \<noteq> None"
  by (simp add: has_table_def find_table_def find_by_None_iff)

definition names :: "database \<Rightarrow> string list" where
  "names d = map t_name (tables d)"

lemma names_set [schema_simps]:
  "names (d\<lparr>tables := update_by t_name n (\<lambda>_. t\<lparr>t_name := n\<rparr>) (tables d)\<rparr>) = names d"
proof -
  have "map t_name (update_by t_name n (\<lambda>_. t\<lparr>t_name := n\<rparr>) ts) = map t_name ts" for ts
    by (induction ts) (auto simp: update_by_Cons)
  then show ?thesis by (simp add: names_def)
qed

section \<open>Confined statements\<close>

text \<open>Two databases that show the same tables of a set.\<close>

definition same_on :: "string set \<Rightarrow> database \<Rightarrow> database \<Rightarrow> bool" where
  "same_on C d e \<longleftrightarrow> clock d = clock e \<and> (\<forall>n\<in>C. find_table n d = find_table n e)"

lemma same_on_refl [simp]: "same_on C d d"
  by (simp add: same_on_def)

lemma same_on_sym: "same_on C d e \<Longrightarrow> same_on C e d"
  by (simp add: same_on_def)

lemma same_on_trans: "same_on C d e \<Longrightarrow> same_on C e f \<Longrightarrow> same_on C d f"
  by (simp add: same_on_def)

lemma same_on_find: "same_on C d e \<Longrightarrow> n \<in> C \<Longrightarrow> find_table n d = find_table n e"
  by (simp add: same_on_def)

text \<open>Agreement of two outcomes: the same error, or databases that show the same tables.\<close>

definition agree_on :: "string set \<Rightarrow> db_error + database \<Rightarrow> db_error + database \<Rightarrow> bool" where
  "agree_on C a b \<longleftrightarrow>
    (case (a, b) of (Inl e, Inl f) \<Rightarrow> e = f | (Inr d, Inr e) \<Rightarrow> same_on C d e | _ \<Rightarrow> False)"

definition confined :: "string set \<Rightarrow> (database \<Rightarrow> db_error + database) \<Rightarrow> bool" where
  "confined C f \<longleftrightarrow>
    (\<forall>d e. same_on C d e \<longrightarrow> agree_on C (f d) (f e)) \<and>
    (\<forall>d d'. f d = Inr d' \<longrightarrow> same_on (- C) d d' \<and> (distinct (names d) \<longrightarrow> distinct (names d')))"

lemma confinedI:
  assumes "\<And>d e. same_on C d e \<Longrightarrow> agree_on C (f d) (f e)"
    and "\<And>d d'. f d = Inr d' \<Longrightarrow> same_on (- C) d d' \<and> (distinct (names d) \<longrightarrow> distinct (names d'))"
  shows "confined C f"
  using assms by (auto simp: confined_def)

lemma confined_in_table:
  assumes "n \<in> C" and "\<And>d e. same_on C d e \<Longrightarrow> g d = g e"
  shows "confined C (\<lambda>d. in_table n (g d) d)"
proof (rule confinedI)
  fix d e assume same: "same_on C d e"
  then have "g d = g e" "find_table n d = find_table n e" "clock d = clock e"
    using assms by (auto simp: same_on_def)
  then show "agree_on C (in_table n (g d) d) (in_table n (g e) e)"
    using same
    by (auto simp: in_table_def agree_on_def same_on_def schema_simps split: option.split sum.split)
next
  fix d d' assume "in_table n (g d) d = Inr d'"
  then show "same_on (- C) d d' \<and> (distinct (names d) \<longrightarrow> distinct (names d'))"
    using assms(1)
    by (auto simp: in_table_def same_on_def schema_simps split: option.splits sum.splits)
qed

lemma confined_in_table_const: "n \<in> C \<Longrightarrow> confined C (in_table n f)"
  using confined_in_table [of n C "\<lambda>_. f"] by simp

lemma clock_same: "same_on C d e \<Longrightarrow> clock d = clock e"
  by (simp add: same_on_def)

named_theorems confined_intros "statements and steps that touch their own table only"

lemma confined_create_table [confined_intros]:
  assumes "n \<in> C"
  shows "confined C (create_table n cs pk ks)"
proof (rule confinedI)
  show "agree_on C (create_table n cs pk ks d) (create_table n cs pk ks e)" if "same_on C d e" for d e
    using that assms
    by (auto simp: create_table_def agree_on_def same_on_def has_table_find find_table_def find_by_Cons)
  show "same_on (- C) d d' \<and> (distinct (names d) \<longrightarrow> distinct (names d'))"
    if "create_table n cs pk ks d = Inr d'" for d d'
    using that assms
    by (auto simp: create_table_def same_on_def has_table_def find_table_def find_by_Cons names_def
        split: if_splits)
qed

lemma find_table_drop: "find_table m (d\<lparr>tables := filter (\<lambda>t. t_name t \<noteq> n) (tables d)\<rparr>) =
    (if m = n then None else find_table m d)"
proof -
  have "find_by t_name m (filter (\<lambda>t. t_name t \<noteq> n) ts) = (if m = n then None else find_by t_name m ts)" for ts
    by (induction ts) (auto simp: find_by_Cons)
  from this [of "tables d"] show ?thesis by (simp add: find_table_def)
qed

lemma confined_drop_table [confined_intros]: "n \<in> C \<Longrightarrow> confined C (drop_table n)"
  by (rule confinedI)
    (auto simp: drop_table_def agree_on_def same_on_def has_table_find find_table_drop names_def
       distinct_map_filter split: if_splits)

lemma confined_statements [confined_intros]:
  assumes "n \<in> C"
  shows "confined C (drop_column n x)" "confined C (alter_nullable n x nl)"
    "confined C (create_index k n xs u)" "confined C (create_unique_constraint k n xs)"
    "confined C (drop_index k n)" "confined C (update_rows n p f)" "confined C (delete_rows n p)"
  unfolding drop_column_def [abs_def] alter_nullable_def [abs_def]
    create_unique_constraint_def [abs_def] create_index_def [abs_def] drop_index_def [abs_def]
    update_rows_def [abs_def] delete_rows_def
  by (rule confined_in_table_const [OF assms])+

lemma confined_timed [confined_intros]:
  assumes "n \<in> C"
  shows "confined C (add_column n c)" "confined C (insert_row n vs)" "confined C (insert_ignore n vss)"
  unfolding add_column_def [abs_def] insert_row_def [abs_def] insert_ignore_def [abs_def]
  by (rule confined_in_table [OF assms], simp only: clock_same)+

lemma confined_Inr [confined_intros]: "confined C Inr"
  by (rule confinedI) (auto simp: agree_on_def)

text \<open>A statement chosen by looking at the tables of the set.\<close>

lemma confined_choice:
  assumes "\<And>d e. same_on C d e \<Longrightarrow> p d = p e" and "\<And>x. confined C (f x)"
  shows "confined C (\<lambda>d. f (p d) d)"
  using assms unfolding confined_def by metis

section \<open>Confined steps\<close>

definition agree_steps :: "string set \<Rightarrow> (db_error \<times> session) + session \<Rightarrow> (db_error \<times> session) + session \<Rightarrow> bool" where
  "agree_steps C a b \<longleftrightarrow>
    (case (a, b) of
       (Inl e, Inl f) \<Rightarrow> fst e = fst f | (Inr s, Inr u) \<Rightarrow> same_on C (work s) (work u) | _ \<Rightarrow> False)"

definition confined_step :: "string set \<Rightarrow> step \<Rightarrow> bool" where
  "confined_step C m \<longleftrightarrow>
    (\<forall>s u. same_on C (work s) (work u) \<longrightarrow> agree_steps C (m s) (m u)) \<and>
    (\<forall>s s'. m s = Inr s' \<longrightarrow> same_on (- C) (work s) (work s') \<and>
       (distinct (names (work s)) \<longrightarrow> distinct (names (work s'))))"

lemma confined_stepI:
  assumes "\<And>s u. same_on C (work s) (work u) \<Longrightarrow> agree_steps C (m s) (m u)"
    and "\<And>s s'. m s = Inr s' \<Longrightarrow> same_on (- C) (work s) (work s') \<and>
       (distinct (names (work s)) \<longrightarrow> distinct (names (work s')))"
  shows "confined_step C m"
  using assms by (auto simp: confined_step_def)

lemma confined_step_agree: "confined_step C m \<Longrightarrow> same_on C (work s) (work u) \<Longrightarrow> agree_steps C (m s) (m u)"
  by (simp add: confined_step_def)

lemma confined_step_frame: "confined_step C m \<Longrightarrow> m s = Inr s' \<Longrightarrow> same_on (- C) (work s) (work s')"
  by (simp add: confined_step_def)

lemma confined_step_distinct:
  "confined_step C m \<Longrightarrow> m s = Inr s' \<Longrightarrow> distinct (names (work s)) \<Longrightarrow> distinct (names (work s'))"
  by (simp add: confined_step_def)

lemma agree_steps_Inr: "agree_steps C (Inr s) b \<longleftrightarrow> (\<exists>u. b = Inr u \<and> same_on C (work s) (work u))"
  by (cases b) (auto simp: agree_steps_def)

lemma agree_steps_Inl: "agree_steps C (Inl a) b \<longleftrightarrow> (\<exists>f. b = Inl f \<and> fst a = fst f)"
  by (cases b) (auto simp: agree_steps_def)

lemma confined_ddl [confined_intros]: "confined C f \<Longrightarrow> confined_step C (ddl f)"
  by (rule confined_stepI)
    (force simp: confined_def agree_on_def agree_steps_def ddl_def split: sum.splits)+

lemma confined_dml [confined_intros]: "confined C f \<Longrightarrow> confined_step C (dml f)"
  by (rule confined_stepI)
    (force simp: confined_def agree_on_def agree_steps_def dml_def split: sum.splits)+

lemma confined_ops [confined_intros]:
  assumes "n \<in> C"
  shows "confined_step C (op_create_table n cs pk ks)" "confined_step C (op_drop_table n)"
    "confined_step C (op_add_column n c)" "confined_step C (op_drop_column n x)"
    "confined_step C (op_alter_nullable n x nl)" "confined_step C (op_create_index k n xs u)"
    "confined_step C (op_create_unique_constraint k n xs)" "confined_step C (op_drop_index k n)"
  unfolding op_create_table_def op_drop_table_def op_add_column_def op_drop_column_def
    op_alter_nullable_def op_create_index_def op_create_unique_constraint_def op_drop_index_def
  by (intro confined_intros assms)+

lemma confined_unless:
  assumes "\<And>d e. same_on C d e \<Longrightarrow> p d = p e" and "confined_step C m"
  shows "confined_step C (unless p m)"
proof (rule confined_stepI)
  show "agree_steps C (unless p m s) (unless p m u)" if "same_on C (work s) (work u)" for s u
    using that assms(1) [OF that] confined_step_agree [OF assms(2) that]
    by (simp add: unless_def agree_steps_Inr)
  show "same_on (- C) (work s) (work s') \<and> (distinct (names (work s)) \<longrightarrow> distinct (names (work s')))"
    if "unless p m s = Inr s'" for s s'
    using that confined_step_frame [OF assms(2)] confined_step_distinct [OF assms(2)]
    by (auto simp: unless_def split: if_splits)
qed

lemma guards_same:
  assumes "n \<in> C" "same_on C d e"
  shows "has_table n d = has_table n e" "has_column n c d = has_column n c e" "has_key n k d = has_key n k e"
    "find_column n c d = find_column n c e"
  using same_on_find [OF assms(2,1)] by (simp_all add: has_table_find has_column_def has_key_def find_column_def)

lemma confined_guarded [confined_intros]:
  assumes "n \<in> C"
  shows "confined_step C m \<Longrightarrow> confined_step C (unless (has_table n) m)"
    and "confined_step C m \<Longrightarrow> confined_step C (unless (has_column n c) m)"
    and "confined_step C m \<Longrightarrow> confined_step C (unless (has_key n k) m)"
    and "confined_step C m \<Longrightarrow> confined_step C (drop_if_present (has_table n) m)"
    and "confined_step C m \<Longrightarrow> confined_step C (drop_if_present (has_column n c) m)"
    and "confined_step C m \<Longrightarrow> confined_step C (drop_if_present (has_key n k) m)"
  unfolding drop_if_present_def
  by (rule confined_unless, simp only: guards_same [OF assms], assumption)+

lemma confined_run_Nil [confined_intros]: "confined_step C (run_steps [])"
  by (rule confined_stepI) (auto simp: agree_steps_Inr)

lemma confined_run_Cons [confined_intros]:
  assumes "confined_step C m" "confined_step C (run_steps ms)"
  shows "confined_step C (run_steps (m # ms))"
proof (rule confined_stepI)
  fix s u :: session assume "same_on C (work s) (work u)"
  from confined_step_agree [OF assms(1) this]
  show "agree_steps C (run_steps (m # ms) s) (run_steps (m # ms) u)"
    using confined_step_agree [OF assms(2)]
    by (cases "m s") (auto simp: agree_steps_Inr agree_steps_Inl)
next
  fix s s' assume "run_steps (m # ms) s = Inr s'"
  then obtain s1 where "m s = Inr s1" "run_steps ms s1 = Inr s'"
    by (auto split: sum.splits)
  then show "same_on (- C) (work s) (work s') \<and> (distinct (names (work s)) \<longrightarrow> distinct (names (work s')))"
    using confined_step_frame [OF assms(1)] confined_step_frame [OF assms(2)]
      confined_step_distinct [OF assms(1)] confined_step_distinct [OF assms(2)]
    by (blast intro: same_on_trans)
qed

lemma confined_run: "\<forall>m\<in>set ms. confined_step C m \<Longrightarrow> confined_step C (run_steps ms)"
  by (induction ms) (simp_all add: confined_run_Nil confined_run_Cons)

lemma confined_missing [confined_intros]:
  assumes "n \<in> C"
  shows "confined_step C (add_missing_column n c)" "confined_step C (add_missing_index n kc)"
  unfolding add_missing_column_def add_missing_index_def case_prod_beta
  by (intro confined_intros assms)+

lemma confined_make_nullable [confined_intros]:
  assumes "n \<in> C"
  shows "confined_step C (make_nullable n c)"
proof (rule confined_stepI)
  note op = confined_ops(5) [OF assms, of c True]
  show "agree_steps C (make_nullable n c s) (make_nullable n c u)" if "same_on C (work s) (work u)" for s u
    using that guards_same(4) [OF assms that, of c] confined_step_agree [OF op that]
    by (simp add: make_nullable_def agree_steps_Inr agree_steps_Inl split: option.split)
  show "same_on (- C) (work s) (work s') \<and> (distinct (names (work s)) \<longrightarrow> distinct (names (work s')))"
    if "make_nullable n c s = Inr s'" for s s'
    using that confined_step_frame [OF op] confined_step_distinct [OF op]
    by (auto simp: make_nullable_def split: option.splits if_splits)
qed

section \<open>Groups of confined steps\<close>

text \<open>
  \<open>cl\<close> puts every table into a group; each element of \<open>gs\<close> is a step with the group it
  is confined to. \<open>story c gs\<close> is what happens to group \<open>c\<close>.
\<close>

definition story :: "'c \<Rightarrow> ('c \<times> step) list \<Rightarrow> step list" where
  "story c gs = map snd (filter (\<lambda>g. fst g = c) gs)"

lemma story_Nil [simp]: "story c [] = []"
  by (simp add: story_def)

lemma story_Cons [simp]: "story c ((c', m) # gs) = (if c' = c then m # story c gs else story c gs)"
  by (simp add: story_def)

lemma story_append [simp]: "story c (gs @ hs) = story c gs @ story c hs"
  by (simp add: story_def)

definition grouped :: "(string \<Rightarrow> 'c) \<Rightarrow> ('c \<times> step) list \<Rightarrow> bool" where
  "grouped cl gs \<longleftrightarrow> (\<forall>g\<in>set gs. confined_step {n. cl n = fst g} (snd g))"

lemma grouped_story: "grouped cl gs \<Longrightarrow> confined_step {n. cl n = c} (run_steps (story c gs))"
  by (rule confined_run) (auto simp: grouped_def story_def)

lemma groups_independent:
  assumes "grouped cl gs" "\<And>c. \<exists>u. run_steps (story c gs) s = Inr u"
  shows "\<exists>s'. run_steps (map snd gs) s = Inr s' \<and>
    (\<forall>c. \<exists>u. run_steps (story c gs) s = Inr u \<and> same_on {n. cl n = c} (work u) (work s'))"
  using assms
proof (induction gs arbitrary: s)
  case Nil
  then show ?case by (simp add: story_def)
next
  case (Cons g gs)
  obtain c m where g: "g = (c, m)" by (cases g)
  have gs: "grouped cl gs" and m: "confined_step {n. cl n = c} m"
    using Cons.prems(1) by (auto simp: grouped_def g)
  obtain s1 where s1: "m s = Inr s1"
    using Cons.prems(2) [of c] by (auto simp: g split: sum.splits)
  have step: "\<exists>u. run_steps (story c' gs) s1 = Inr u \<and>
      (\<forall>v. run_steps (story c' (g # gs)) s = Inr v \<longrightarrow> same_on {n. cl n = c'} (work v) (work u))" for c'
  proof (cases "c' = c")
    case True
    then show ?thesis using Cons.prems(2) [of c] by (auto simp: g s1)
  next
    case False
    have "same_on {n. cl n = c'} (work s) (work s1)"
      using confined_step_frame [OF m s1] False by (auto simp: same_on_def)
    from confined_step_agree [OF grouped_story [OF gs] this]
    show ?thesis using Cons.prems(2) [of c'] False by (auto simp: g agree_steps_Inr)
  qed
  then have "\<And>c'. \<exists>u. run_steps (story c' gs) s1 = Inr u" by blast
  from Cons.IH [OF gs this] obtain s' where run: "run_steps (map snd gs) s1 = Inr s'"
    and each: "\<And>c'. \<exists>u. run_steps (story c' gs) s1 = Inr u \<and> same_on {n. cl n = c'} (work u) (work s')"
    by blast
  have "\<exists>u. run_steps (story c' (g # gs)) s = Inr u \<and> same_on {n. cl n = c'} (work u) (work s')" for c'
  proof -
    obtain v where v: "run_steps (story c' (g # gs)) s = Inr v" using Cons.prems(2) by blast
    obtain u where u: "run_steps (story c' gs) s1 = Inr u" "same_on {n. cl n = c'} (work v) (work u)"
      using step [of c'] v by blast
    then have "same_on {n. cl n = c'} (work v) (work s')"
      using each [of c'] by (auto intro: same_on_trans)
    then show ?thesis using v by blast
  qed
  then show ?case using run by (simp add: g s1)
qed

lemma confined_point_tables:
  "''point_ledgers'' \<in> C \<Longrightarrow> confined_step C (run_steps point_ledgers_steps)"
  "''point_lots'' \<in> C \<Longrightarrow> confined_step C (run_steps point_lots_steps)"
  "''point_lot_allocations'' \<in> C \<Longrightarrow> confined_step C (run_steps point_lot_allocations_steps)"
  unfolding point_ledgers_steps_def point_lots_steps_def point_lot_allocations_steps_def
  by (intro confined_intros; assumption)+

end
