(* ===== verification/Schema_Check.thy ===== *)
theory Schema_Check
  imports Schema_Laws
begin

text \<open>
  The thirteen revisions up to \<open>a7b8c9d0e128\<close> on an empty database, table by table:
  the steps of each revision with the group of tables they are confined to, and for
  each group the check, by evaluation, that its steps succeed and leave its tables as the
  mapped classes of \<open>entities.py\<close> describe them. The points tables form one group with
  the accounts, because the opening balances are copied from these.
\<close>

section \<open>The steps by group\<close>

definition table_group :: "string \<Rightarrow> string" where
  "table_group n = (if n = ''point_ledgers'' \<or> n = ''point_lots'' then ''user_accounts'' else n)"

definition baseline_groups :: "(string \<times> step) list" where
  "baseline_groups =
   [(''commerce_order_items'', run_steps commerce_order_items_steps),
    (''commerce_orders'', run_steps commerce_orders_steps),
    (''content_articles'', run_steps content_articles_steps),
    (''contract_template_snapshots'', run_steps contract_template_snapshots_steps),
    (''custom_travel_requests'', run_steps custom_travel_requests_steps),
    (''decoration_configs'', run_steps decoration_configs_steps),
    (''graduation_certifications'', run_steps graduation_certifications_steps),
    (''invite_relations'', run_steps invite_relations_steps),
    (''learning_profiles'', run_steps learning_profiles_steps),
    (''platform_announcements'', run_steps platform_announcements_steps),
    (''point_rules'', run_steps point_rules_steps),
    (''preference_events'', run_steps preference_events_steps),
    (''school_merchant_sessions'', run_steps school_merchant_sessions_steps),
    (''school_sites'', run_steps school_sites_steps),
    (''study_contents'', run_steps study_contents_steps),
    (''study_orders'', run_steps study_orders_steps),
    (''study_products'', run_steps study_products_steps),
    (''support_conversations'', run_steps support_conversations_steps),
    (''support_messages'', run_steps support_messages_steps),
    (''system_settings'', run_steps system_settings_steps),
    (''travel_orders'', run_steps travel_orders_steps),
    (''travel_route_reviews'', run_steps travel_route_reviews_steps),
    (''travel_routes'', run_steps travel_routes_steps),
    (''uploaded_assets'', run_steps uploaded_assets_steps),
    (''user_accounts'', run_steps user_accounts_steps),
    (''user_entitlements'', run_steps user_entitlements_steps),
    (''user_sessions'', run_steps user_sessions_steps),
    (''wallet_transactions'', run_steps wallet_transactions_steps)]"

definition legacy_index_steps :: "string \<Rightarrow> step list" where
  "legacy_index_steps n =
    (case map_of legacy_indexes n of None \<Rightarrow> [] | Some ixs \<Rightarrow> map (add_missing_index n) ixs)"

definition travel_orders_integrity :: "step list" where
  "travel_orders_integrity =
   [make_nullable ''travel_orders'' ''contract_signature_data'',
    make_nullable ''travel_orders'' ''contract_signature_url'',
    add_missing_column ''travel_orders'' (mk_column ''idempotency_key'' (SqlString 120) False (ServerDefault (StrCell []))),
    add_missing_column ''travel_orders'' (mk_column ''points_cost'' SqlInteger False (ServerDefault (IntCell 0))),
    add_missing_column ''travel_orders'' (mk_column ''points_refunded'' SqlBoolean False (ServerDefault (BoolCell False))),
    add_missing_column ''travel_orders'' (mk_column ''stock_restored'' SqlBoolean False (ServerDefault (BoolCell False))),
    add_missing_column ''travel_orders'' (mk_column ''qr_expires_at'' SqlDateTime True NoServerDefault),
    add_missing_column ''travel_orders'' (mk_column ''cancelled_at'' SqlDateTime True NoServerDefault),
    add_missing_column ''travel_orders'' (mk_column ''cancel_reason'' (SqlString 255) False (ServerDefault (StrCell [])))] @
   backfill_travel_orders @
   [unless (has_key ''travel_orders'' ''uq_travel_orders_user_idempotency'')
      (op_create_unique_constraint ''uq_travel_orders_user_idempotency'' ''travel_orders'' [''user_id'', ''idempotency_key''])] @
   map (add_missing_index ''travel_orders'')
    [(''ix_travel_orders_points_refunded'', [''points_refunded'']),
     (''ix_travel_orders_stock_restored'', [''stock_restored'']),
     (''ix_travel_orders_qr_expires_at'', [''qr_expires_at'']),
     (''ix_travel_orders_cancelled_at'', [''cancelled_at'']),
     (''ix_travel_orders_user_status_created'', [''user_id'', ''fulfillment_status'', ''created_at''])]"

definition image_thumb_nullable :: step where
  "image_thumb_nullable = make_nullable ''support_messages'' ''image_thumb_url''"

definition create_missing_table :: "string \<Rightarrow> step list \<Rightarrow> step" where
  "create_missing_table n ms = unless (has_table n) (run_steps ms)"

definition integrity_table_groups :: "(string \<times> step) list" where
  "integrity_table_groups =
   [(''school_sites'', run_steps (legacy_index_steps ''school_sites'')),
    (''study_orders'', run_steps (legacy_index_steps ''study_orders'')),
    (''study_products'', run_steps (legacy_index_steps ''study_products'')),
    (''support_conversations'', run_steps (legacy_index_steps ''support_conversations'')),
    (''travel_orders'', run_steps (legacy_index_steps ''travel_orders'')),
    (''travel_routes'', run_steps (legacy_index_steps ''travel_routes'')),
    (''support_messages'', image_thumb_nullable),
    (''travel_orders'', run_steps travel_orders_integrity),
    (''user_accounts'', create_missing_table ''point_ledgers'' point_ledgers_steps),
    (''user_accounts'', create_missing_table ''point_lots'' point_lots_steps),
    (''point_lot_allocations'', create_missing_table ''point_lot_allocations'' point_lot_allocations_steps),
    (''travel_order_audit_logs'', create_missing_table ''travel_order_audit_logs'' travel_order_audit_logs_steps),
    (''travel_verification_records'',
       create_missing_table ''travel_verification_records'' travel_verification_records_steps)]"

definition integrity_groups :: "(string \<times> step) list" where
  "integrity_groups = integrity_table_groups @ [(''user_accounts'', run_steps backfill_legacy_points)]"

definition timeout_flag_steps :: "step list" where
  "timeout_flag_steps =
   [unless (has_column ''commerce_orders'' ''timeout_job_scheduled'')
      (op_add_column ''commerce_orders''
        (mk_column ''timeout_job_scheduled'' SqlBoolean False (ServerDefault (BoolCell True)))),
    unless (has_key ''commerce_orders'' ''ix_commerce_orders_timeout_job_scheduled'')
      (op_create_index ''ix_commerce_orders_timeout_job_scheduled'' ''commerce_orders''
        [''timeout_job_scheduled''] False)]"

definition school_unique_steps :: "step list" where
  "school_unique_steps =
   [op_alter_nullable ''school_sites'' ''merchant_account'' True, dml clear_empty_accounts] @
   dedupe_school_sites @
   [unless (has_key ''school_sites'' ''uq_school_sites_merchant_account'')
      (op_create_unique_constraint ''uq_school_sites_merchant_account'' ''school_sites'' [''merchant_account'']),
    unless (has_key ''school_sites'' ''uq_school_sites_name_city'')
      (op_create_unique_constraint ''uq_school_sites_name_city'' ''school_sites'' [''name'', ''city''])]"

definition stock_sync_groups :: "(string \<times> step) list" where
  "stock_sync_groups =
   [(''commerce_orders'', run_steps timeout_flag_steps),
    (''school_sites'', run_steps school_unique_steps)]"

definition revision_groups :: "(string \<times> step) list list" where
  "revision_groups =
   [baseline_groups, integrity_groups,
    [(''learning_profiles'', learning_onboarding_upgrade)],
    [(''learning_checkin_records'', checkin_records_upgrade)],
    [(''point_rules'', reward_channels_upgrade)],
    [(''user_accounts'', mini_login_upgrade)],
    stock_sync_groups,
    [(''commerce_orders'', refund_status_upgrade)],
    [(''commerce_orders'', refund_requests_upgrade)],
    [(''user_accounts'', vip_fields_upgrade)],
    [(''point_rules'', vip_point_rule_upgrade)],
    [(''travel_goal_histories'', goal_history_upgrade)],
    [(''content_articles'', article_vip_upgrade)]]"

definition all_groups :: "(string \<times> step) list" where
  "all_groups = concat revision_groups"

lemmas group_defs =
  all_groups_def revision_groups_def baseline_groups_def integrity_groups_def integrity_table_groups_def stock_sync_groups_def

section \<open>The check of one group\<close>

definition start :: "database \<Rightarrow> session" where
  "start d = \<lparr>work = d, saved = d\<rparr>"

definition check_story :: "time \<Rightarrow> step list \<Rightarrow> (database \<Rightarrow> bool) \<Rightarrow> bool" where
  "check_story now ms p \<longleftrightarrow>
    (case run_steps ms (start (empty_database now)) of Inl _ \<Rightarrow> False | Inr u \<Rightarrow> p (work u))"

text \<open>The columns of a wide table are compared in two parts.\<close>

definition size_agrees :: "database \<Rightarrow> model_table \<Rightarrow> bool" where
  "size_agrees d m \<longleftrightarrow>
    (case find_table (m_name m) d of
       None \<Rightarrow> False
     | Some t \<Rightarrow> length (t_columns t) = length (m_columns m) \<and> t_primary t = m_primary m)"

definition some_columns_agree :: "database \<Rightarrow> model_table \<Rightarrow> model_column list \<Rightarrow> bool" where
  "some_columns_agree d m cs \<longleftrightarrow>
    (case find_table (m_name m) d of None \<Rightarrow> False | Some t \<Rightarrow> list_all (column_found (t_columns t)) cs)"

lemma columns_agree_halves:
  "columns_agree d m \<longleftrightarrow>
    (size_agrees d m \<and> some_columns_agree d m (take k (m_columns m))) \<and>
    some_columns_agree d m (drop k (m_columns m))"
proof -
  have "list_all P (m_columns m) \<longleftrightarrow> list_all P (take k (m_columns m)) \<and> list_all P (drop k (m_columns m))" for P
    by (metis append_take_drop_id list_all_append)
  then show ?thesis
    by (auto simp: columns_agree_def size_agrees_def some_columns_agree_def columns_found_def split: option.split)
qed

lemma check_story_conj:
  "check_story now ms p \<Longrightarrow> check_story now ms q \<Longrightarrow> check_story now ms (\<lambda>d. p d \<and> q d)"
  by (simp add: check_story_def split: sum.splits)

section \<open>Every group passes\<close>

lemma check_user_accounts:
  "check_story now (story ''user_accounts'' all_groups) (\<lambda>d. agrees d user_accounts_model \<and> agrees d point_ledgers_model \<and> agrees d point_lots_model)"
  by (simp add: group_defs del: run_steps.simps, code_simp)

lemma check_user_sessions:
  "check_story now (story ''user_sessions'' all_groups) (\<lambda>d. agrees d user_sessions_model)"
  by (simp add: group_defs del: run_steps.simps, code_simp)

lemma check_wallet_transactions:
  "check_story now (story ''wallet_transactions'' all_groups) (\<lambda>d. agrees d wallet_transactions_model)"
  by (simp add: group_defs del: run_steps.simps, code_simp)

lemma check_decoration_configs:
  "check_story now (story ''decoration_configs'' all_groups) (\<lambda>d. agrees d decoration_configs_model)"
  by (simp add: group_defs del: run_steps.simps, code_simp)

lemma check_travel_routes:
  "check_story now (story ''travel_routes'' all_groups) (\<lambda>d. agrees d travel_routes_model)"
  by (simp add: group_defs del: run_steps.simps, code_simp)

lemma check_travel_route_reviews:
  "check_story now (story ''travel_route_reviews'' all_groups) (\<lambda>d. agrees d travel_route_reviews_model)"
  by (simp add: group_defs del: run_steps.simps, code_simp)

lemma check_point_rules:
  "check_story now (story ''point_rules'' all_groups) (\<lambda>d. agrees d point_rules_model)"
  by (simp add: group_defs del: run_steps.simps, code_simp)

lemma check_point_lot_allocations:
  "check_story now (story ''point_lot_allocations'' all_groups) (\<lambda>d. agrees d point_lot_allocations_model)"
  by (simp add: group_defs del: run_steps.simps, code_simp)

lemma travel_orders_columns_1:
  "check_story now (story ''travel_orders'' all_groups) (\<lambda>d. size_agrees d travel_orders_model \<and>
    some_columns_agree d travel_orders_model (take 28 (m_columns travel_orders_model)))"
  by (simp add: group_defs del: run_steps.simps, code_simp)

lemma travel_orders_columns_2:
  "check_story now (story ''travel_orders'' all_groups) (\<lambda>d. some_columns_agree d travel_orders_model (drop 28 (m_columns travel_orders_model)))"
  by (simp add: group_defs del: run_steps.simps, code_simp)

lemma travel_orders_keys:
  "check_story now (story ''travel_orders'' all_groups) (\<lambda>d. keys_agree d travel_orders_model)"
  by (simp add: group_defs del: run_steps.simps, code_simp)

lemma well_named_travel_orders: "well_named travel_orders_model"
  by code_simp

lemma check_story_with: "q \<Longrightarrow> check_story now ms p \<Longrightarrow> check_story now ms (\<lambda>d. q \<and> p d)"
  by (simp add: check_story_def split: sum.splits)

lemma check_travel_orders:
  "check_story now (story ''travel_orders'' all_groups) (\<lambda>d. agrees d travel_orders_model)"
  unfolding agrees_def columns_agree_halves [of _ _ 28]
  by (rule check_story_with [OF well_named_travel_orders
        check_story_conj [OF
        check_story_conj [OF travel_orders_columns_1 travel_orders_columns_2]
        travel_orders_keys]])

lemma check_contract_template_snapshots:
  "check_story now (story ''contract_template_snapshots'' all_groups) (\<lambda>d. agrees d contract_template_snapshots_model)"
  by (simp add: group_defs del: run_steps.simps, code_simp)

lemma check_travel_order_audit_logs:
  "check_story now (story ''travel_order_audit_logs'' all_groups) (\<lambda>d. agrees d travel_order_audit_logs_model)"
  by (simp add: group_defs del: run_steps.simps, code_simp)

lemma check_travel_verification_records:
  "check_story now (story ''travel_verification_records'' all_groups) (\<lambda>d. agrees d travel_verification_records_model)"
  by (simp add: group_defs del: run_steps.simps, code_simp)

lemma check_custom_travel_requests:
  "check_story now (story ''custom_travel_requests'' all_groups) (\<lambda>d. agrees d custom_travel_requests_model)"
  by (simp add: group_defs del: run_steps.simps, code_simp)

lemma check_invite_relations:
  "check_story now (story ''invite_relations'' all_groups) (\<lambda>d. agrees d invite_relations_model)"
  by (simp add: group_defs del: run_steps.simps, code_simp)

lemma check_preference_events:
  "check_story now (story ''preference_events'' all_groups) (\<lambda>d. agrees d preference_events_model)"
  by (simp add: group_defs del: run_steps.simps, code_simp)

lemma check_platform_announcements:
  "check_story now (story ''platform_announcements'' all_groups) (\<lambda>d. agrees d platform_announcements_model)"
  by (simp add: group_defs del: run_steps.simps, code_simp)

lemma check_content_articles:
  "check_story now (story ''content_articles'' all_groups) (\<lambda>d. agrees d content_articles_model)"
  by (simp add: group_defs del: run_steps.simps, code_simp)

lemma check_school_sites:
  "check_story now (story ''school_sites'' all_groups) (\<lambda>d. agrees d school_sites_model)"
  by (simp add: group_defs del: run_steps.simps, code_simp)

lemma check_school_merchant_sessions:
  "check_story now (story ''school_merchant_sessions'' all_groups) (\<lambda>d. agrees d school_merchant_sessions_model)"
  by (simp add: group_defs del: run_steps.simps, code_simp)

lemma check_support_conversations:
  "check_story now (story ''support_conversations'' all_groups) (\<lambda>d. agrees d support_conversations_model)"
  by (simp add: group_defs del: run_steps.simps, code_simp)

lemma check_support_messages:
  "check_story now (story ''support_messages'' all_groups) (\<lambda>d. agrees d support_messages_model)"
  by (simp add: group_defs del: run_steps.simps, code_simp)

lemma check_study_products:
  "check_story now (story ''study_products'' all_groups) (\<lambda>d. agrees d study_products_model)"
  by (simp add: group_defs del: run_steps.simps, code_simp)

lemma check_study_contents:
  "check_story now (story ''study_contents'' all_groups) (\<lambda>d. agrees d study_contents_model)"
  by (simp add: group_defs del: run_steps.simps, code_simp)

lemma check_study_orders:
  "check_story now (story ''study_orders'' all_groups) (\<lambda>d. agrees d study_orders_model)"
  by (simp add: group_defs del: run_steps.simps, code_simp)

lemma check_commerce_orders:
  "check_story now (story ''commerce_orders'' all_groups) (\<lambda>d. agrees d commerce_orders_model)"
  by (simp add: group_defs del: run_steps.simps, code_simp)

lemma check_commerce_order_items:
  "check_story now (story ''commerce_order_items'' all_groups) (\<lambda>d. agrees d commerce_order_items_model)"
  by (simp add: group_defs del: run_steps.simps, code_simp)

lemma check_user_entitlements:
  "check_story now (story ''user_entitlements'' all_groups) (\<lambda>d. agrees d user_entitlements_model)"
  by (simp add: group_defs del: run_steps.simps, code_simp)

lemma check_learning_profiles:
  "check_story now (story ''learning_profiles'' all_groups) (\<lambda>d. agrees d learning_profiles_model)"
  by (simp add: group_defs del: run_steps.simps, code_simp)

lemma check_learning_checkin_records:
  "check_story now (story ''learning_checkin_records'' all_groups) (\<lambda>d. agrees d learning_checkin_records_model)"
  by (simp add: group_defs del: run_steps.simps, code_simp)

lemma check_travel_goal_histories:
  "check_story now (story ''travel_goal_histories'' all_groups) (\<lambda>d. agrees d travel_goal_histories_model)"
  by (simp add: group_defs del: run_steps.simps, code_simp)

lemma check_graduation_certifications:
  "check_story now (story ''graduation_certifications'' all_groups) (\<lambda>d. agrees d graduation_certifications_model)"
  by (simp add: group_defs del: run_steps.simps, code_simp)

lemma check_uploaded_assets:
  "check_story now (story ''uploaded_assets'' all_groups) (\<lambda>d. agrees d uploaded_assets_model)"
  by (simp add: group_defs del: run_steps.simps, code_simp)

lemma check_system_settings:
  "check_story now (story ''system_settings'' all_groups) (\<lambda>d. agrees d system_settings_model)"
  by (simp add: group_defs del: run_steps.simps, code_simp)

section \<open>Every class\<close>

lemma model_name:
  "m_name user_accounts_model = ''user_accounts''"
  "m_name user_sessions_model = ''user_sessions''"
  "m_name wallet_transactions_model = ''wallet_transactions''"
  "m_name decoration_configs_model = ''decoration_configs''"
  "m_name travel_routes_model = ''travel_routes''"
  "m_name travel_route_reviews_model = ''travel_route_reviews''"
  "m_name point_rules_model = ''point_rules''"
  "m_name point_ledgers_model = ''point_ledgers''"
  "m_name point_lots_model = ''point_lots''"
  "m_name point_lot_allocations_model = ''point_lot_allocations''"
  "m_name travel_orders_model = ''travel_orders''"
  "m_name contract_template_snapshots_model = ''contract_template_snapshots''"
  "m_name travel_order_audit_logs_model = ''travel_order_audit_logs''"
  "m_name travel_verification_records_model = ''travel_verification_records''"
  "m_name custom_travel_requests_model = ''custom_travel_requests''"
  "m_name invite_relations_model = ''invite_relations''"
  "m_name preference_events_model = ''preference_events''"
  "m_name platform_announcements_model = ''platform_announcements''"
  "m_name content_articles_model = ''content_articles''"
  "m_name school_sites_model = ''school_sites''"
  "m_name school_merchant_sessions_model = ''school_merchant_sessions''"
  "m_name support_conversations_model = ''support_conversations''"
  "m_name support_messages_model = ''support_messages''"
  "m_name study_products_model = ''study_products''"
  "m_name study_contents_model = ''study_contents''"
  "m_name study_orders_model = ''study_orders''"
  "m_name commerce_orders_model = ''commerce_orders''"
  "m_name commerce_order_items_model = ''commerce_order_items''"
  "m_name user_entitlements_model = ''user_entitlements''"
  "m_name learning_profiles_model = ''learning_profiles''"
  "m_name learning_checkin_records_model = ''learning_checkin_records''"
  "m_name travel_goal_histories_model = ''travel_goal_histories''"
  "m_name graduation_certifications_model = ''graduation_certifications''"
  "m_name uploaded_assets_model = ''uploaded_assets''"
  "m_name system_settings_model = ''system_settings''"
  by (simp_all add: user_accounts_model_def
      user_sessions_model_def
      wallet_transactions_model_def
      decoration_configs_model_def
      travel_routes_model_def
      travel_route_reviews_model_def
      point_rules_model_def
      point_ledgers_model_def
      point_lots_model_def
      point_lot_allocations_model_def
      travel_orders_model_def
      contract_template_snapshots_model_def
      travel_order_audit_logs_model_def
      travel_verification_records_model_def
      custom_travel_requests_model_def
      invite_relations_model_def
      preference_events_model_def
      platform_announcements_model_def
      content_articles_model_def
      school_sites_model_def
      school_merchant_sessions_model_def
      support_conversations_model_def
      support_messages_model_def
      study_products_model_def
      study_contents_model_def
      study_orders_model_def
      commerce_orders_model_def
      commerce_order_items_model_def
      user_entitlements_model_def
      learning_profiles_model_def
      learning_checkin_records_model_def
      travel_goal_histories_model_def
      graduation_certifications_model_def
      uploaded_assets_model_def
      system_settings_model_def)

lemma model_names: "map m_name metadata =
   [''user_accounts'',
    ''user_sessions'',
    ''wallet_transactions'',
    ''decoration_configs'',
    ''travel_routes'',
    ''travel_route_reviews'',
    ''point_rules'',
    ''point_ledgers'',
    ''point_lots'',
    ''point_lot_allocations'',
    ''travel_orders'',
    ''contract_template_snapshots'',
    ''travel_order_audit_logs'',
    ''travel_verification_records'',
    ''custom_travel_requests'',
    ''invite_relations'',
    ''preference_events'',
    ''platform_announcements'',
    ''content_articles'',
    ''school_sites'',
    ''school_merchant_sessions'',
    ''support_conversations'',
    ''support_messages'',
    ''study_products'',
    ''study_contents'',
    ''study_orders'',
    ''commerce_orders'',
    ''commerce_order_items'',
    ''user_entitlements'',
    ''learning_profiles'',
    ''learning_checkin_records'',
    ''travel_goal_histories'',
    ''graduation_certifications'',
    ''uploaded_assets'',
    ''system_settings'']"
  by (simp add: metadata_def model_name)

lemma table_group_of:
  "table_group ''user_accounts'' = ''user_accounts''"
  "table_group ''point_ledgers'' = ''user_accounts''"
  "table_group ''point_lots'' = ''user_accounts''"
  "table_group ''user_sessions'' = ''user_sessions''"
  "table_group ''wallet_transactions'' = ''wallet_transactions''"
  "table_group ''decoration_configs'' = ''decoration_configs''"
  "table_group ''travel_routes'' = ''travel_routes''"
  "table_group ''travel_route_reviews'' = ''travel_route_reviews''"
  "table_group ''point_rules'' = ''point_rules''"
  "table_group ''point_lot_allocations'' = ''point_lot_allocations''"
  "table_group ''travel_orders'' = ''travel_orders''"
  "table_group ''contract_template_snapshots'' = ''contract_template_snapshots''"
  "table_group ''travel_order_audit_logs'' = ''travel_order_audit_logs''"
  "table_group ''travel_verification_records'' = ''travel_verification_records''"
  "table_group ''custom_travel_requests'' = ''custom_travel_requests''"
  "table_group ''invite_relations'' = ''invite_relations''"
  "table_group ''preference_events'' = ''preference_events''"
  "table_group ''platform_announcements'' = ''platform_announcements''"
  "table_group ''content_articles'' = ''content_articles''"
  "table_group ''school_sites'' = ''school_sites''"
  "table_group ''school_merchant_sessions'' = ''school_merchant_sessions''"
  "table_group ''support_conversations'' = ''support_conversations''"
  "table_group ''support_messages'' = ''support_messages''"
  "table_group ''study_products'' = ''study_products''"
  "table_group ''study_contents'' = ''study_contents''"
  "table_group ''study_orders'' = ''study_orders''"
  "table_group ''commerce_orders'' = ''commerce_orders''"
  "table_group ''commerce_order_items'' = ''commerce_order_items''"
  "table_group ''user_entitlements'' = ''user_entitlements''"
  "table_group ''learning_profiles'' = ''learning_profiles''"
  "table_group ''learning_checkin_records'' = ''learning_checkin_records''"
  "table_group ''travel_goal_histories'' = ''travel_goal_histories''"
  "table_group ''graduation_certifications'' = ''graduation_certifications''"
  "table_group ''uploaded_assets'' = ''uploaded_assets''"
  "table_group ''system_settings'' = ''system_settings''"
  by (simp_all add: table_group_def)

lemma check_story_mono:
  "check_story now ms p \<Longrightarrow> (\<And>d. p d \<Longrightarrow> q d) \<Longrightarrow> check_story now ms q"
  by (simp add: check_story_def split: sum.splits)

lemma check_points_tables:
  "check_story now (story ''user_accounts'' all_groups) (\<lambda>d. agrees d user_accounts_model)"
  "check_story now (story ''user_accounts'' all_groups) (\<lambda>d. agrees d point_ledgers_model)"
  "check_story now (story ''user_accounts'' all_groups) (\<lambda>d. agrees d point_lots_model)"
  by (rule check_story_mono [OF check_user_accounts], simp)+

lemma check_model:
  assumes "m \<in> set metadata"
  shows "check_story now (story (table_group (m_name m)) all_groups) (\<lambda>d. agrees d m)"
  using assms unfolding metadata_def list.set insert_iff empty_iff
  by (elim disjE FalseE; hypsubst)
    (simp_all only: model_name table_group_of check_points_tables

      check_user_sessions
      check_wallet_transactions
      check_decoration_configs
      check_travel_routes
      check_travel_route_reviews
      check_point_rules
      check_point_lot_allocations
      check_travel_orders
      check_contract_template_snapshots
      check_travel_order_audit_logs
      check_travel_verification_records
      check_custom_travel_requests
      check_invite_relations
      check_preference_events
      check_platform_announcements
      check_content_articles
      check_school_sites
      check_school_merchant_sessions
      check_support_conversations
      check_support_messages
      check_study_products
      check_study_contents
      check_study_orders
      check_commerce_orders
      check_commerce_order_items
      check_user_entitlements
      check_learning_profiles
      check_learning_checkin_records
      check_travel_goal_histories
      check_graduation_certifications
      check_uploaded_assets
      check_system_settings)

end
