(* ===== verification/Schema_Confined.thy ===== *)
theory Schema_Confined
  imports Schema_Check
begin

text \<open>
  Each step of the thirteen revisions is confined to its group of tables, so the checks of
  the single groups add up to the whole chain.
\<close>


section \<open>The baseline\<close>

lemma confined_commerce_order_items: "''commerce_order_items'' \<in> C \<Longrightarrow> confined_step C (run_steps commerce_order_items_steps)"
  unfolding commerce_order_items_steps_def by (intro confined_intros)

lemma confined_commerce_orders: "''commerce_orders'' \<in> C \<Longrightarrow> confined_step C (run_steps commerce_orders_steps)"
  unfolding commerce_orders_steps_def by (intro confined_intros)

lemma confined_content_articles: "''content_articles'' \<in> C \<Longrightarrow> confined_step C (run_steps content_articles_steps)"
  unfolding content_articles_steps_def by (intro confined_intros)

lemma confined_contract_template_snapshots: "''contract_template_snapshots'' \<in> C \<Longrightarrow> confined_step C (run_steps contract_template_snapshots_steps)"
  unfolding contract_template_snapshots_steps_def by (intro confined_intros)

lemma confined_custom_travel_requests: "''custom_travel_requests'' \<in> C \<Longrightarrow> confined_step C (run_steps custom_travel_requests_steps)"
  unfolding custom_travel_requests_steps_def by (intro confined_intros)

lemma confined_decoration_configs: "''decoration_configs'' \<in> C \<Longrightarrow> confined_step C (run_steps decoration_configs_steps)"
  unfolding decoration_configs_steps_def by (intro confined_intros)

lemma confined_graduation_certifications: "''graduation_certifications'' \<in> C \<Longrightarrow> confined_step C (run_steps graduation_certifications_steps)"
  unfolding graduation_certifications_steps_def by (intro confined_intros)

lemma confined_invite_relations: "''invite_relations'' \<in> C \<Longrightarrow> confined_step C (run_steps invite_relations_steps)"
  unfolding invite_relations_steps_def by (intro confined_intros)

lemma confined_learning_profiles: "''learning_profiles'' \<in> C \<Longrightarrow> confined_step C (run_steps learning_profiles_steps)"
  unfolding learning_profiles_steps_def by (intro confined_intros)

lemma confined_platform_announcements: "''platform_announcements'' \<in> C \<Longrightarrow> confined_step C (run_steps platform_announcements_steps)"
  unfolding platform_announcements_steps_def by (intro confined_intros)

lemma confined_point_rules: "''point_rules'' \<in> C \<Longrightarrow> confined_step C (run_steps point_rules_steps)"
  unfolding point_rules_steps_def by (intro confined_intros)

lemma confined_preference_events: "''preference_events'' \<in> C \<Longrightarrow> confined_step C (run_steps preference_events_steps)"
  unfolding preference_events_steps_def by (intro confined_intros)

lemma confined_school_merchant_sessions: "''school_merchant_sessions'' \<in> C \<Longrightarrow> confined_step C (run_steps school_merchant_sessions_steps)"
  unfolding school_merchant_sessions_steps_def by (intro confined_intros)

lemma confined_school_sites: "''school_sites'' \<in> C \<Longrightarrow> confined_step C (run_steps school_sites_steps)"
  unfolding school_sites_steps_def by (intro confined_intros)

lemma confined_study_contents: "''study_contents'' \<in> C \<Longrightarrow> confined_step C (run_steps study_contents_steps)"
  unfolding study_contents_steps_def by (intro confined_intros)

lemma confined_study_orders: "''study_orders'' \<in> C \<Longrightarrow> confined_step C (run_steps study_orders_steps)"
  unfolding study_orders_steps_def by (intro confined_intros)

lemma confined_study_products: "''study_products'' \<in> C \<Longrightarrow> confined_step C (run_steps study_products_steps)"
  unfolding study_products_steps_def by (intro confined_intros)

lemma confined_support_conversations: "''support_conversations'' \<in> C \<Longrightarrow> confined_step C (run_steps support_conversations_steps)"
  unfolding support_conversations_steps_def by (intro confined_intros)

lemma confined_support_messages: "''support_messages'' \<in> C \<Longrightarrow> confined_step C (run_steps support_messages_steps)"
  unfolding support_messages_steps_def by (intro confined_intros)

lemma confined_system_settings: "''system_settings'' \<in> C \<Longrightarrow> confined_step C (run_steps system_settings_steps)"
  unfolding system_settings_steps_def by (intro confined_intros)

lemma confined_travel_orders: "''travel_orders'' \<in> C \<Longrightarrow> confined_step C (run_steps travel_orders_steps)"
  unfolding travel_orders_steps_def by (intro confined_intros)

lemma confined_travel_route_reviews: "''travel_route_reviews'' \<in> C \<Longrightarrow> confined_step C (run_steps travel_route_reviews_steps)"
  unfolding travel_route_reviews_steps_def by (intro confined_intros)

lemma confined_travel_routes: "''travel_routes'' \<in> C \<Longrightarrow> confined_step C (run_steps travel_routes_steps)"
  unfolding travel_routes_steps_def by (intro confined_intros)

lemma confined_uploaded_assets: "''uploaded_assets'' \<in> C \<Longrightarrow> confined_step C (run_steps uploaded_assets_steps)"
  unfolding uploaded_assets_steps_def by (intro confined_intros)

lemma confined_user_accounts: "''user_accounts'' \<in> C \<Longrightarrow> confined_step C (run_steps user_accounts_steps)"
  unfolding user_accounts_steps_def by (intro confined_intros)

lemma confined_user_entitlements: "''user_entitlements'' \<in> C \<Longrightarrow> confined_step C (run_steps user_entitlements_steps)"
  unfolding user_entitlements_steps_def by (intro confined_intros)

lemma confined_user_sessions: "''user_sessions'' \<in> C \<Longrightarrow> confined_step C (run_steps user_sessions_steps)"
  unfolding user_sessions_steps_def by (intro confined_intros)

lemma confined_wallet_transactions: "''wallet_transactions'' \<in> C \<Longrightarrow> confined_step C (run_steps wallet_transactions_steps)"
  unfolding wallet_transactions_steps_def by (intro confined_intros)

lemmas confined_baseline =
  confined_commerce_order_items
  confined_commerce_orders
  confined_content_articles
  confined_contract_template_snapshots
  confined_custom_travel_requests
  confined_decoration_configs
  confined_graduation_certifications
  confined_invite_relations
  confined_learning_profiles
  confined_platform_announcements
  confined_point_rules
  confined_preference_events
  confined_school_merchant_sessions
  confined_school_sites
  confined_study_contents
  confined_study_orders
  confined_study_products
  confined_support_conversations
  confined_support_messages
  confined_system_settings
  confined_travel_orders
  confined_travel_route_reviews
  confined_travel_routes
  confined_uploaded_assets
  confined_user_accounts
  confined_user_entitlements
  confined_user_sessions
  confined_wallet_transactions

lemma grouped_Nil: "grouped cl []"
  by (simp add: grouped_def)

lemma grouped_Cons: "cl n = c \<Longrightarrow> (\<And>C. n \<in> C \<Longrightarrow> confined_step C m) \<Longrightarrow> grouped cl gs \<Longrightarrow>
    grouped cl ((c, m) # gs)"
  by (simp add: grouped_def)

lemma grouped_append: "grouped cl gs \<Longrightarrow> grouped cl hs \<Longrightarrow> grouped cl (gs @ hs)"
  by (auto simp: grouped_def)

lemma grouped_concat: "\<forall>gs\<in>set gss. grouped cl gs \<Longrightarrow> grouped cl (concat gss)"
  by (auto simp: grouped_def)

lemma grouped_baseline: "grouped table_group baseline_groups"
  unfolding baseline_groups_def
  by (intro grouped_Nil grouped_Cons confined_baseline; simp add: table_group_def)

section \<open>The later revisions\<close>

lemma confined_legacy_indexes: "n \<in> C \<Longrightarrow> confined_step C (run_steps (legacy_index_steps n))"
  by (rule confined_run) (auto simp: legacy_index_steps_def confined_missing split: option.split)

lemma confined_audit_tables:
  "''travel_order_audit_logs'' \<in> C \<Longrightarrow> confined_step C (run_steps travel_order_audit_logs_steps)"
  "''travel_verification_records'' \<in> C \<Longrightarrow> confined_step C (run_steps travel_verification_records_steps)"
  unfolding travel_order_audit_logs_steps_def travel_verification_records_steps_def list.map prod.case
  by (intro confined_intros; assumption)+

lemma confined_create_missing:
  "n \<in> C \<Longrightarrow> confined_step C (run_steps ms) \<Longrightarrow> confined_step C (create_missing_table n ms)"
  unfolding create_missing_table_def by (rule confined_guarded(1))

lemma confined_image_thumb: "''support_messages'' \<in> C \<Longrightarrow> confined_step C image_thumb_nullable"
  unfolding image_thumb_nullable_def by (rule confined_make_nullable)

lemma confined_travel_orders_integrity:
  "''travel_orders'' \<in> C \<Longrightarrow> confined_step C (run_steps travel_orders_integrity)"
  unfolding travel_orders_integrity_def backfill_travel_orders_def append.simps list.map
  by (intro confined_intros; assumption)

lemma confined_insert_selected:
  assumes "n \<in> C" "src \<in> C"
  shows "confined C (insert_selected n src p g)"
proof -
  let ?f = "\<lambda>x. case x of None \<Rightarrow> \<lambda>_. Inl (NoSuchTable src)
      | Some t \<Rightarrow> insert_ignore n (map g (filter p (t_rows t)))"
  have "confined C (\<lambda>d. ?f (find_table src d) d)"
  proof (rule confined_choice [where p = "find_table src" and f = ?f])
    show "find_table src d = find_table src e" if "same_on C d e" for d e :: database
      using same_on_find [OF that assms(2)] .
    show "confined C (?f x)" for x
      using confined_timed(3) [OF assms(1)] by (cases x) (auto simp: confined_def agree_on_def)
  qed
  moreover have "(\<lambda>d. ?f (find_table src d) d) = insert_selected n src p g"
    by (simp add: fun_eq_iff insert_selected_def split: option.split)
  ultimately show ?thesis by simp
qed

lemma confined_backfill:
  "{''user_accounts'', ''point_ledgers'', ''point_lots''} \<subseteq> C \<Longrightarrow>
    confined_step C (run_steps backfill_legacy_points)"
  unfolding backfill_legacy_points_def backfill_ledgers_def backfill_lots_def
  by (intro confined_intros confined_insert_selected) auto

lemma grouped_integrity: "grouped table_group integrity_groups"
proof -
  have backfill: "grouped table_group [(''user_accounts'', run_steps backfill_legacy_points)]"
    unfolding grouped_def using confined_backfill by (simp add: table_group_def)
  have "grouped table_group integrity_table_groups"
    unfolding integrity_table_groups_def
    by (intro grouped_Nil grouped_Cons confined_create_missing confined_point_tables confined_audit_tables
        confined_legacy_indexes confined_image_thumb confined_travel_orders_integrity;
      simp add: table_group_def)
  then show ?thesis
    unfolding integrity_groups_def by (rule grouped_append [OF _ backfill])
qed

lemma confined_stock_sync:
  "''commerce_orders'' \<in> C \<Longrightarrow> confined_step C (run_steps timeout_flag_steps)"
  "''school_sites'' \<in> C \<Longrightarrow> confined_step C (run_steps school_unique_steps)"
proof -
  show "confined_step C (run_steps timeout_flag_steps)" if "''commerce_orders'' \<in> C"
    unfolding timeout_flag_steps_def by (intro confined_intros that)
next
  assume school: "''school_sites'' \<in> C"
  have "confined C dedupe_accounts" "confined C dedupe_names"
    unfolding dedupe_accounts_def [abs_def] dedupe_names_def [abs_def]
    by (rule confined_choice [where p = "table_rows ''school_sites''"],
        use school in \<open>simp add: table_rows_def same_on_find\<close>, intro confined_intros school)+
  then show "confined_step C (run_steps school_unique_steps)"
    unfolding school_unique_steps_def dedupe_school_sites_def clear_empty_accounts_def append.simps
    by (intro confined_intros school)
qed

lemma confined_later_upgrades:
  "''learning_profiles'' \<in> C \<Longrightarrow> confined_step C learning_onboarding_upgrade"
  "''learning_checkin_records'' \<in> C \<Longrightarrow> confined_step C checkin_records_upgrade"
  "''point_rules'' \<in> C \<Longrightarrow> confined_step C reward_channels_upgrade"
  "''user_accounts'' \<in> C \<Longrightarrow> confined_step C mini_login_upgrade"
  "''commerce_orders'' \<in> C \<Longrightarrow> confined_step C refund_status_upgrade"
  "''commerce_orders'' \<in> C \<Longrightarrow> confined_step C refund_requests_upgrade"
  "''user_accounts'' \<in> C \<Longrightarrow> confined_step C vip_fields_upgrade"
  "''point_rules'' \<in> C \<Longrightarrow> confined_step C vip_point_rule_upgrade"
  "''travel_goal_histories'' \<in> C \<Longrightarrow> confined_step C goal_history_upgrade"
  "''content_articles'' \<in> C \<Longrightarrow> confined_step C article_vip_upgrade"
  unfolding learning_onboarding_upgrade_def checkin_records_upgrade_def reward_channels_upgrade_def
    mini_login_upgrade_def refund_status_upgrade_def refund_requests_upgrade_def vip_fields_upgrade_def
    vip_point_rule_upgrade_def goal_history_upgrade_def article_vip_upgrade_def list.map
  by (intro confined_intros; assumption)+

lemma confined_agreement_upgrade:
  assumes "''content_articles'' \<in> C"
  shows "confined_step C agreement_upgrade"
proof -
  let ?f = "\<lambda>x d. case x of None \<Rightarrow> Inl (NoSuchTable ''content_articles'')
      | Some t \<Rightarrow> if list_ex (\<lambda>r. r ''slug'' = StrCell agreement_slug) (t_rows t) then Inr d
          else insert_row ''content_articles'' (agreement_article (clock d)) d"
  have "confined C (\<lambda>d. ?f (find_table ''content_articles'' d) d)"
  proof (rule confined_choice [where p = "find_table ''content_articles''" and f = ?f])
    show "find_table ''content_articles'' d = find_table ''content_articles'' e" if "same_on C d e"
      for d e :: database using same_on_find [OF that assms] .
    have insert: "confined C (\<lambda>d. insert_row ''content_articles'' (agreement_article (clock d)) d)"
      by (rule confined_choice [where p = clock]) (simp_all add: clock_same confined_timed assms)
    show "confined C (?f x)" for x
      using insert by (cases x) (auto simp: confined_def agree_on_def)
  qed
  then show ?thesis
    unfolding agreement_upgrade_def seed_agreement_def [abs_def] by (rule confined_dml)
qed

lemma grouped_all: "grouped table_group all_groups"
proof -
  have stock: "grouped table_group stock_sync_groups"
    unfolding stock_sync_groups_def
    by (intro grouped_Nil grouped_Cons confined_stock_sync; simp add: table_group_def)
  have single: "grouped table_group [(''learning_profiles'', learning_onboarding_upgrade)]"
    "grouped table_group [(''learning_checkin_records'', checkin_records_upgrade)]"
    "grouped table_group [(''point_rules'', reward_channels_upgrade)]"
    "grouped table_group [(''user_accounts'', mini_login_upgrade)]"
    "grouped table_group [(''commerce_orders'', refund_status_upgrade)]"
    "grouped table_group [(''commerce_orders'', refund_requests_upgrade)]"
    "grouped table_group [(''user_accounts'', vip_fields_upgrade)]"
    "grouped table_group [(''point_rules'', vip_point_rule_upgrade)]"
    "grouped table_group [(''travel_goal_histories'', goal_history_upgrade)]"
    "grouped table_group [(''content_articles'', article_vip_upgrade)]"
    by (intro grouped_Nil grouped_Cons confined_later_upgrades; simp add: table_group_def)+
  show ?thesis
    unfolding all_groups_def revision_groups_def
    by (rule grouped_concat) (simp add: grouped_baseline grouped_integrity stock single)
qed

section \<open>The revisions are their groups\<close>

lemma run_steps_append:
  "run_steps (ms @ ns) s = (case run_steps ms s of Inl e \<Rightarrow> Inl e | Inr s' \<Rightarrow> run_steps ns s')"
  by (induction ms arbitrary: s) (auto split: sum.split)

lemma run_steps_nested: "run_steps (run_steps ms # ns) = run_steps (ms @ ns)"
  by (simp add: fun_eq_iff run_steps_append)

lemma run_steps_single: "run_steps [m] = m"
  by (simp add: fun_eq_iff split: sum.split)

lemma run_steps_concat: "run_steps (concat mss) = run_steps (map run_steps mss)"
proof (induction mss)
  case (Cons ms mss)
  then show ?case by (simp add: fun_eq_iff run_steps_append split: sum.split)
qed simp

lemma baseline_as_groups: "baseline_upgrade = run_steps (map snd baseline_groups)"
  unfolding baseline_upgrade_def baseline_groups_def run_steps_concat by simp

lemma integrity_as_groups: "business_integrity_upgrade = run_steps (map snd integrity_groups)"
proof -
  have legacy: "add_legacy_indexes = concat (map legacy_index_steps
      [''school_sites'', ''study_orders'', ''study_products'', ''support_conversations'',
       ''travel_orders'', ''travel_routes''])"
    by (simp add: add_legacy_indexes_def legacy_index_steps_def legacy_indexes_def)
  have "business_integrity_upgrade = run_steps (concat
     (map legacy_index_steps
       [''school_sites'', ''study_orders'', ''study_products'', ''support_conversations'',
        ''travel_orders'', ''travel_routes''] @
      [[image_thumb_nullable], travel_orders_integrity,
       [create_missing_table ''point_ledgers'' point_ledgers_steps],
       [create_missing_table ''point_lots'' point_lots_steps],
       [create_missing_table ''point_lot_allocations'' point_lot_allocations_steps],
       [create_missing_table ''travel_order_audit_logs'' travel_order_audit_logs_steps],
       [create_missing_table ''travel_verification_records'' travel_verification_records_steps],
       backfill_legacy_points]))"
    unfolding business_integrity_upgrade_def legacy create_missing_table_def create_point_tables_def
      create_travel_audit_tables_def image_thumb_nullable_def travel_orders_integrity_def
    by (simp only: concat_append concat.simps append.simps append_assoc append_Nil2)
  then show ?thesis
    by (simp only: run_steps_concat map_append list.map run_steps_single integrity_groups_def
        integrity_table_groups_def snd_conv append.simps)
qed

lemma stock_sync_as_groups: "stock_sync_upgrade = run_steps (map snd stock_sync_groups)"
proof -
  have "stock_sync_upgrade = run_steps (concat [timeout_flag_steps, school_unique_steps])"
    unfolding stock_sync_upgrade_def timeout_flag_steps_def school_unique_steps_def
    by (simp only: concat.simps append.simps append_assoc append_Nil2)
  then show ?thesis
    by (simp only: run_steps_concat list.map stock_sync_groups_def snd_conv)
qed

lemma upgrades_as_groups:
  "map rev_upgrade (butlast revisions) = map (\<lambda>gs. run_steps (map snd gs)) revision_groups"
  by (simp add: revisions_def revision_groups_def baseline_as_groups integrity_as_groups
      stock_sync_as_groups run_steps_single del: run_steps.simps)

end
