(* ===== verification/Migrate_Props.thy ===== *)
theory Migrate_Props
  imports Schema_Confined
begin

text \<open>
  What the chain of revisions does to an empty database, and what that means for the start
  of the service.
\<close>

section \<open>Revisions as one run\<close>

lemma confined_UNIV:
  assumes "confined_step C m"
  shows "confined_step UNIV m"
proof (rule confined_stepI)
  fix s u :: session assume same: "same_on UNIV (work s) (work u)"
  then have "same_on C (work s) (work u)" by (simp add: same_on_def)
  from confined_step_agree [OF assms this]
  show "agree_steps UNIV (m s) (m u)"
    using same confined_step_frame [OF assms, of s] confined_step_frame [OF assms, of u]
    by (cases "m s"; cases "m u") (auto simp: agree_steps_def same_on_def)
next
  show "same_on (- UNIV) (work s) (work s') \<and> (distinct (names (work s)) \<longrightarrow> distinct (names (work s')))"
    if "m s = Inr s'" for s s'
    using confined_step_frame [OF assms that] confined_step_distinct [OF assms that]
    by (auto simp: same_on_def)
qed

lemma grouped_UNIV: "grouped cl gs \<Longrightarrow> confined_step UNIV (run_steps (map snd gs))"
  by (rule confined_run) (auto simp: grouped_def intro: confined_UNIV)

lemma apply_groups:
  assumes "map rev_upgrade rs = map (\<lambda>gs. run_steps (map snd gs)) gss"
    and "\<forall>gs\<in>set gss. grouped cl gs"
    and "run_steps (map snd (concat gss)) s = Inr s'"
    and "same_on UNIV (work s) d" "distinct (names d)"
  shows "\<exists>d'. apply_revisions rs \<lparr>schema = d, version = v\<rparr> =
      Inr \<lparr>schema = d', version = (if rs = [] then v else Some (rev_id (last rs)))\<rparr> \<and>
    same_on UNIV (work s') d' \<and> distinct (names d')"
  using assms
proof (induction rs arbitrary: gss s d v)
  case Nil
  then show ?case by simp
next
  case (Cons r rs)
  then obtain gs gss' where gss: "gss = gs # gss'" by (cases gss) auto
  then have up: "rev_upgrade r = run_steps (map snd gs)"
    and rest: "map rev_upgrade rs = map (\<lambda>gs. run_steps (map snd gs)) gss'"
    using Cons.prems(1) by auto
  have conf: "confined_step UNIV (rev_upgrade r)"
    using Cons.prems(2) unfolding up gss by (auto intro: grouped_UNIV)
  obtain s1 where s1: "run_steps (map snd gs) s = Inr s1" "run_steps (map snd (concat gss')) s1 = Inr s'"
    using Cons.prems(3) by (auto simp: gss run_steps_append split: sum.splits)
  have "same_on UNIV (work s) (work (start d))" using Cons.prems(4) by (simp add: start_def)
  from confined_step_agree [OF conf this] s1(1)
  obtain u where u: "rev_upgrade r (start d) = Inr u" "same_on UNIV (work s1) (work u)"
    by (auto simp: up agree_steps_Inr)
  have "distinct (names (work u))"
    using confined_step_distinct [OF conf u(1)] Cons.prems(5) by (simp add: start_def)
  moreover have "apply_revision r \<lparr>schema = d, version = v\<rparr> =
      Inr \<lparr>schema = work u, version = Some (rev_id r)\<rparr>"
    using u(1) by (simp add: apply_revision_def transaction_def start_def)
  ultimately show ?case
    using Cons.IH [OF rest _ s1(2) u(2), of "Some (rev_id r)"] Cons.prems(2)
    by (auto simp: gss)
qed

section \<open>The schema after the thirteenth revision\<close>

lemma check_story_run:
  "check_story now ms p \<Longrightarrow> \<exists>u. run_steps ms (start (empty_database now)) = Inr u \<and> p (work u)"
  by (simp add: check_story_def split: sum.splits)

lemma agrees_same: "same_on UNIV d e \<Longrightarrow> agrees d m = agrees e m"
  by (simp add: agrees_def columns_agree_def keys_agree_def same_on_def)

lemma find_table_empty [simp]: "find_table n (empty_database now) = None"
  by (simp add: find_table_def empty_database_def)

lemma story_other:
  assumes "c \<notin> fst ` set gs"
  shows "story c gs = []"
  using assms by (auto simp: story_def filter_empty_conv)

lemma agrees_on: "same_on {n. table_group n = c} d e \<Longrightarrow> table_group (m_name m) = c \<Longrightarrow> agrees d m = agrees e m"
  by (simp add: agrees_def columns_agree_def keys_agree_def same_on_def)

lemma group_labels: "fst ` set all_groups \<subseteq> set (map m_name metadata)"
  unfolding model_names by (simp add: group_defs del: run_steps.simps)

lemma table_group_named: "table_group n \<in> set (map m_name metadata) \<Longrightarrow> n \<in> set (map m_name metadata)"
  unfolding model_names by (auto simp: table_group_def split: if_splits)

lemma every_story: "\<exists>u. run_steps (story c all_groups) (start (empty_database now)) = Inr u"
proof (cases "c \<in> fst ` set all_groups")
  case True
  then obtain m where m: "m \<in> set metadata" "c = m_name m"
    using group_labels by auto
  have "c = table_group c"
    using True by (auto simp: group_defs table_group_of simp del: run_steps.simps)
  then show ?thesis
    using check_story_run [OF check_model [OF m(1)], of now] unfolding m(2) by auto
next
  case False
  then show ?thesis by (simp add: story_other)
qed

lemma chain_to_128:
  "\<exists>d. apply_revisions (butlast revisions) \<lparr>schema = empty_database now, version = None\<rparr> =
      Inr \<lparr>schema = d, version = Some ''a7b8c9d0e128''\<rparr> \<and> distinct (names d) \<and>
    (\<forall>c. \<exists>u. run_steps (story c all_groups) (start (empty_database now)) = Inr u \<and>
       same_on {n. table_group n = c} (work u) d)"
proof -
  obtain s' where run: "run_steps (map snd all_groups) (start (empty_database now)) = Inr s'"
    and each: "\<And>c. \<exists>u. run_steps (story c all_groups) (start (empty_database now)) = Inr u \<and>
       same_on {n. table_group n = c} (work u) (work s')"
    using groups_independent [OF grouped_all every_story, of now] by blast
  have grouped: "\<forall>gs\<in>set revision_groups. grouped table_group gs"
    using grouped_all by (auto simp: all_groups_def grouped_def)
  have run': "run_steps (map snd (concat revision_groups)) (start (empty_database now)) = Inr s'"
    using run by (simp add: all_groups_def)
  have init: "same_on UNIV (work (start (empty_database now))) (empty_database now)"
    "distinct (names (empty_database now))"
    by (simp_all add: start_def names_def empty_database_def)
  have last: "butlast revisions \<noteq> []" "rev_id (last (butlast revisions)) = ''a7b8c9d0e128''"
    by (simp_all add: revisions_def)
  obtain d where d: "apply_revisions (butlast revisions) \<lparr>schema = empty_database now, version = None\<rparr> =
      Inr \<lparr>schema = d, version = Some ''a7b8c9d0e128''\<rparr>" "same_on UNIV (work s') d" "distinct (names d)"
    using apply_groups [OF upgrades_as_groups grouped run' init, of None] last by auto
  have "\<exists>u. run_steps (story c all_groups) (start (empty_database now)) = Inr u \<and>
      same_on {n. table_group n = c} (work u) d" for c
    using each [of c] d(2) by (auto simp: same_on_def)
  with d(1,3) show ?thesis by blast
qed

lemma current_from_stories:
  assumes "distinct (names d)"
    and each: "\<And>c. \<exists>u. run_steps (story c all_groups) (start (empty_database now)) = Inr u \<and>
       same_on {n. table_group n = c} (work u) d"
  shows "schema_current d"
proof -
  have "agrees d m" if "m \<in> set metadata" for m
  proof -
    obtain u where u: "run_steps (story (table_group (m_name m)) all_groups) (start (empty_database now)) = Inr u"
      "same_on {n. table_group n = table_group (m_name m)} (work u) d"
      using each by blast
    then have "agrees (work u) m"
      using check_story_run [OF check_model [OF that], of now] by auto
    then show ?thesis using agrees_on [OF u(2) refl] by simp
  qed
  moreover have "n \<in> set (map m_name metadata)" if "n \<in> set (names d)" for n
  proof -
    have found: "find_table n d \<noteq> None"
      using that by (simp add: names_def find_table_def find_by_None_iff)
    obtain u where u: "run_steps (story (table_group n) all_groups) (start (empty_database now)) = Inr u"
      "find_table n (work u) = find_table n d"
      using each [of "table_group n"] by (auto simp: same_on_def)
    have "table_group n \<in> fst ` set all_groups"
    proof (rule ccontr)
      assume "table_group n \<notin> fst ` set all_groups"
      then show False using u found by (auto simp: story_other start_def)
    qed
    then show ?thesis using group_labels table_group_named by blast
  qed
  ultimately show ?thesis
    using assms(1) by (auto simp: schema_current_def names_def list_all_iff)
qed

section \<open>A fresh installation\<close>

lemma agreement_story:
  "case run_steps (story ''content_articles'' all_groups @ [agreement_upgrade]) (start (empty_database now)) of
     Inl es \<Rightarrow> fst es = UnknownColumn ''start_at'' | Inr _ \<Rightarrow> False"
  by (simp add: group_defs del: run_steps.simps, code_simp)

lemma transaction_dml: "dml f (start d) = Inl x \<Longrightarrow> transaction d (dml f) = Inl (fst x, d)"
  by (auto simp: transaction_def start_def dml_def split: sum.splits)

lemma agreement_fails:
  assumes "run_steps (story ''content_articles'' all_groups) (start (empty_database now)) = Inr u"
    and "same_on {n. table_group n = ''content_articles''} (work u) d"
  shows "transaction d agreement_upgrade = Inl (UnknownColumn ''start_at'', d)"
proof -
  let ?C = "{n. table_group n = ''content_articles''}"
  obtain g where g: "agreement_upgrade u = Inl g" "fst g = UnknownColumn ''start_at''"
    using agreement_story [of now] assms(1)
    by (auto simp: run_steps_append run_steps_single simp del: run_steps.simps split: sum.splits)
  have "confined_step {n. table_group n = ''content_articles''} agreement_upgrade"
    by (rule confined_agreement_upgrade) (simp add: table_group_of)
  moreover have "same_on ?C (work u) (work (start d))"
    using assms(2) by (simp add: start_def)
  ultimately have "agree_steps ?C (agreement_upgrade u) (agreement_upgrade (start d))"
    by (rule confined_step_agree)
  then obtain f where f: "agreement_upgrade (start d) = Inl f" "fst f = UnknownColumn ''start_at''"
    unfolding g(1) agree_steps_Inl g(2) by auto
  from transaction_dml [of seed_agreement d f] f show ?thesis
    unfolding agreement_upgrade_def by simp
qed

lemma apply_revisions_append:
  "apply_revisions (rs @ qs) p = (case apply_revisions rs p of Inl e \<Rightarrow> Inl e | Inr q \<Rightarrow> apply_revisions qs q)"
  by (induction rs arbitrary: p) (auto split: sum.split)

lemma revisions_split:
  "revisions = butlast revisions @ [\<lparr>rev_id = ''a7b8c9d0e129'', rev_down = Some ''a7b8c9d0e128'',
     rev_upgrade = agreement_upgrade, rev_downgrade = agreement_downgrade\<rparr>]"
  by (simp add: revisions_def)

lemma head_revision: "expected_database_heads = [''a7b8c9d0e129'']"
  by (simp add: expected_database_heads_def revisions_def)

text \<open>
  C33: \<open>alembic upgrade head\<close> on an empty database runs thirteen of the fourteen
  revisions, which leave exactly the tables, columns and keys of the mapped classes, and
  always fails in the last one: it inserts an article with the columns \<open>start_at\<close> and
  \<open>end_at\<close>, which \<open>content_articles\<close> has never had. The version stays at
  \<open>a7b8c9d0e128\<close> and the service refuses to start.
\<close>

theorem fresh_install_stops:
  "\<exists>p. upgrade_head \<lparr>schema = empty_database now, version = None\<rparr> = Inl (UnknownColumn ''start_at'', p) \<and>
     version p = Some ''a7b8c9d0e128'' \<and> schema_current (schema p) \<and>
     ensure_database_current p = Inl (RuntimeError ''database schema is not current'')"
proof -
  obtain d where run: "apply_revisions (butlast revisions) \<lparr>schema = empty_database now, version = None\<rparr> =
      Inr \<lparr>schema = d, version = Some ''a7b8c9d0e128''\<rparr>" and "distinct (names d)"
    and each: "\<And>c. \<exists>u. run_steps (story c all_groups) (start (empty_database now)) = Inr u \<and>
       same_on {n. table_group n = c} (work u) d"
    using chain_to_128 by blast
  let ?p = "\<lparr>schema = d, version = Some ''a7b8c9d0e128''\<rparr>"
  have "transaction d agreement_upgrade = Inl (UnknownColumn ''start_at'', d)"
    using each [of "''content_articles''"] agreement_fails by blast
  then have "apply_revisions revisions \<lparr>schema = empty_database now, version = None\<rparr>
      = Inl (UnknownColumn ''start_at'', ?p)"
    by (subst revisions_split, simp add: apply_revisions_append run apply_revision_def)
  moreover have "schema_current d"
    using current_from_stories [OF \<open>distinct (names d)\<close> each] .
  moreover have "ensure_database_current ?p = Inl (RuntimeError ''database schema is not current'')"
    by (simp add: ensure_database_current_def current_database_heads_def head_revision)
  ultimately show ?thesis
    by (intro exI [of _ ?p]) (simp add: upgrade_head_def pending_def)
qed

end
