(* ===== verification/Legacy_Schema.thy ===== *)
theory Legacy_Schema
  imports Migrate Sha256 Config "HOL-Library.List_Lexorder" "HOL-Library.Char_ord"
begin

text \<open>
  Adopting a database without a version: \<open>app/core/legacy_schema.py\<close> and
  \<open>app/db_migrate.py\<close>. The statements are those of the \<open>mysql\<close> dialect. MySQL's JSON
  functions are not part of the repository; the three that are used are fields of
  \<open>mysql_json\<close>.
\<close>

record mysql_json =
  json_parse :: "string \<Rightarrow> json option"
  json_text :: "json \<Rightarrow> string"
  json_number :: "json \<Rightarrow> int option"

section \<open>Recognising a supported database\<close>

definition baseline_revision :: string where "baseline_revision = ''aa1a7986f555''"

definition legacy_required_columns :: "(string \<times> string list) list" where
  "legacy_required_columns =
   [(''support_conversations'', [''id'', ''user_id'', ''status'', ''last_message'']),
    (''support_messages'', [''id'', ''conversation_id'', ''sender_role'', ''content'']),
    (''travel_orders'', [''id'', ''order_no'', ''order_type'', ''title'', ''status'']),
    (''travel_routes'', [''id'', ''name'', ''price'', ''stock'', ''status''])]"

definition post_baseline_columns :: "string \<Rightarrow> string list" where
  "post_baseline_columns n =
    (if n = ''travel_orders''
     then [''idempotency_key'', ''points_cost'', ''points_refunded'', ''stock_restored'',
           ''qr_expires_at'', ''cancelled_at'', ''cancel_reason'']
     else [])"

definition user_tables :: "database \<Rightarrow> string list" where
  "user_tables d = filter (\<lambda>n. n \<noteq> ''alembic_version'') (map t_name (tables d))"

fun missing_columns :: "database \<Rightarrow> (string \<times> string list) list \<Rightarrow> string option" where
  "missing_columns d [] = None"
| "missing_columns d ((n, cs) # rest) =
    (if list_all (\<lambda>c. has_column n c d) cs then missing_columns d rest else Some n)"

definition validate_legacy_schema :: "database \<Rightarrow> db_error + string list" where
  "validate_legacy_schema d =
    (let ts = user_tables d in
     if ts = [] then Inl (LegacySchemaError ''empty database'')
     else if \<not> list_all (\<lambda>n. n \<in> set (map m_name metadata)) ts then Inl (LegacySchemaError ''unknown tables'')
     else if \<not> list_all (\<lambda>(n, cs). n \<in> set ts) legacy_required_columns
     then Inl (LegacySchemaError ''missing tables'')
     else (case missing_columns d legacy_required_columns of
             Some n \<Rightarrow> Inl (LegacySchemaError n)
           | None \<Rightarrow> Inr ts))"

section \<open>Missing columns\<close>

definition legacy_default :: "time \<Rightarrow> model_column \<Rightarrow> cell" where
  "legacy_default now c =
    (case c_model_default c of
       Scalar v \<Rightarrow> v
     | EmptyList \<Rightarrow> JsonCell (JList [])
     | EmptyDict \<Rightarrow> JsonCell (JObj [])
     | CurrentTime \<Rightarrow> TimeCell now
     | NoDefault \<Rightarrow>
        (case c_type c of
           SqlBoolean \<Rightarrow> BoolCell False
         | SqlInteger \<Rightarrow> IntCell 0
         | SqlNumeric p s \<Rightarrow> DecCell 0
         | SqlJSON \<Rightarrow> JsonCell (JObj [])
         | SqlString n \<Rightarrow> StrCell []
         | SqlText \<Rightarrow> StrCell []
         | SqlMediumText \<Rightarrow> StrCell []
         | SqlDateTime \<Rightarrow> TimeCell now))"

text \<open>A new column is nullable first, then filled, and made \<open>NOT NULL\<close> at the end.\<close>

definition fill_column :: "string \<Rightarrow> model_column \<Rightarrow> database \<Rightarrow> db_error + database" where
  "fill_column n c d =
    update_rows n (\<lambda>r. r (c_name c) = Null)
      (\<lambda>r. Inr (r(c_name c := legacy_default (clock d) c))) d"

definition add_legacy_column :: "string \<Rightarrow> model_column \<Rightarrow> step" where
  "add_legacy_column n c = run_steps
    (op_add_column n (mk_column (c_name c) (c_type c) True NoServerDefault) #
     (if c_nullable c then [] else [dml (fill_column n c)]))"

definition columns_to_add :: "model_table \<Rightarrow> database \<Rightarrow> model_column list" where
  "columns_to_add m d =
    filter (\<lambda>c. \<not> has_column (m_name m) (c_name c) d \<and> c_name c \<notin> set (post_baseline_columns (m_name m)))
      (m_columns m)"

definition find_model :: "string \<Rightarrow> model_table option" where
  "find_model n = find_by m_name n metadata"

definition columns_of_table :: "database \<Rightarrow> string \<Rightarrow> (string \<times> model_column) list" where
  "columns_of_table d n =
    (case find_model n of None \<Rightarrow> [] | Some m \<Rightarrow> map (\<lambda>c. (n, c)) (columns_to_add m d))"

definition add_missing_columns :: "string list \<Rightarrow> step" where
  "add_missing_columns pre s =
    (let cs = concat (map (columns_of_table (work s)) (sort pre)) in
     run_steps
      (map (\<lambda>(n, c). add_legacy_column n c) cs @
       map (\<lambda>(n, c). op_alter_nullable n (c_name c) False) (filter (\<lambda>(n, c). \<not> c_nullable c) cs)) s)"

section \<open>Missing indexes\<close>

definition add_legacy_index :: "string \<Rightarrow> sql_key \<Rightarrow> step" where
  "add_legacy_index n k s =
    (if has_key n (k_name k) (work s) \<or> \<not> list_all (\<lambda>c. has_column n c (work s)) (k_columns k) then Inr s
     else op_create_index (k_name k) n (k_columns k) (k_unique k) s)"

definition create_missing_indexes :: "string list \<Rightarrow> step" where
  "create_missing_indexes pre = run_steps (concat (map
    (\<lambda>n. case find_model n of None \<Rightarrow> [] | Some m \<Rightarrow> map (add_legacy_index n) (m_indexes m)) (sort pre)))"

section \<open>Data of earlier versions\<close>

text \<open>\<open>UPDATE ... JOIN\<close> takes the values of the first row that joins.\<close>

definition join_route_id :: "database \<Rightarrow> db_error + database" where
  "join_route_id d =
    (let routes = table_rows ''travel_routes'' d;
         joined = (\<lambda>r. List.find (\<lambda>x. x ''name'' = r ''title'' \<and> r ''title'' \<noteq> Null) routes) in
     update_rows ''travel_orders'' (\<lambda>r. r ''route_id'' = IntCell 0 \<and> joined r \<noteq> None)
       (\<lambda>r. Inr (r(''route_id'' := the (joined r) ''id''))) d)"

definition join_cover :: "database \<Rightarrow> db_error + database" where
  "join_cover d =
    (let routes = table_rows ''travel_routes'' d;
         joined = (\<lambda>r. List.find (\<lambda>x. x ''id'' = r ''route_id'' \<and>
             x ''image'' \<noteq> StrCell [] \<and> x ''image'' \<noteq> Null) routes) in
     update_rows ''travel_orders'' (\<lambda>r. (r ''cover'' = StrCell [] \<or> r ''cover'' = Null) \<and> joined r \<noteq> None)
       (\<lambda>r. Inr (r(''cover'' := the (joined r) ''image''))) d)"

definition card_content :: "mysql_json \<Rightarrow> row \<Rightarrow> json option" where
  "card_content J r = json_parse J (str_cell (r ''content''))"

definition fill_card_extra :: "mysql_json \<Rightarrow> database \<Rightarrow> db_error + database" where
  "fill_card_extra J =
    update_rows ''support_messages''
      (\<lambda>r. r ''message_type'' = StrCell ''order_card'' \<and>
           (r ''extra'' = Null \<or> r ''extra'' = JsonCell JNull) \<and> card_content J r \<noteq> None)
      (\<lambda>r. Inr (r(''extra'' := JsonCell (the (card_content J r)))))"

text \<open>\<open>JSON_EXTRACT(value, '$.k')\<close> and \<open>JSON_UNQUOTE\<close>.\<close>

fun json_extract :: "cell \<Rightarrow> string \<Rightarrow> json option" where
  "json_extract (JsonCell (JObj kvs)) k = map_of kvs k"
| "json_extract _ k = None"

definition json_unquote :: "mysql_json \<Rightarrow> json \<Rightarrow> string" where
  "json_unquote J v = (case v of JStr s \<Rightarrow> s | _ \<Rightarrow> json_text J v)"

definition first_snapshot :: "mysql_json \<Rightarrow> row \<Rightarrow> db_error + (string \<times> cell) list" where
  "first_snapshot J r =
    (let title = (case json_extract (r ''value'') ''title'' of
                    None \<Rightarrow> ''travel service contract'' | Some v \<Rightarrow> json_unquote J v);
         content = (case json_extract (r ''value'') ''content'' of None \<Rightarrow> [] | Some v \<Rightarrow> json_unquote J v);
         ds = (case json_extract (r ''value'') ''travel_date_days'' of None \<Rightarrow> JInt 30 | Some v \<Rightarrow> v) in
     case json_number J ds of
       None \<Rightarrow> Inl (IncorrectValue ''travel_date_days'')
     | Some n \<Rightarrow> Inr
         [(''version'', IntCell 1), (''title'', StrCell title), (''content'', StrCell content),
          (''travel_date_days'', IntCell n),
          (''content_hash'', StrCell (sha256_hex
             (title @ [CHR 0x0A] @ content @ [CHR 0x0A] @ json_text J ds)))])"

definition first_contract_snapshot :: "mysql_json \<Rightarrow> database \<Rightarrow> db_error + database" where
  "first_contract_snapshot J d =
    (case List.find (\<lambda>r. r ''key'' = StrCell ''travel.contract_template'') (table_rows ''system_settings'' d) of
       None \<Rightarrow> Inr d
     | Some r \<Rightarrow>
        if table_rows ''contract_template_snapshots'' d \<noteq> [] then Inr d
        else (case first_snapshot J r of
                Inl e \<Rightarrow> Inl e
              | Inr vs \<Rightarrow> insert_row ''contract_template_snapshots'' vs d))"

definition link_signed_orders :: "database \<Rightarrow> db_error + database" where
  "link_signed_orders d =
    (case List.find (\<lambda>r. r ''version'' = IntCell 1) (table_rows ''contract_template_snapshots'' d) of
       None \<Rightarrow> Inr d
     | Some t \<Rightarrow>
        update_rows ''travel_orders''
          (\<lambda>r. r ''contract_status'' \<noteq> StrCell ''unsigned'' \<and> r ''contract_status'' \<noteq> Null \<and>
               r ''contract_template_snapshot_id'' = IntCell 0)
          (\<lambda>r. Inr (r(''contract_template_version'' := IntCell 1, ''contract_template_snapshot_id'' := t ''id''))) d)"

definition backfill_legacy_data :: "mysql_json \<Rightarrow> step" where
  "backfill_legacy_data J = run_steps
    [dml join_route_id, dml join_cover, dml (fill_card_extra J), dml (first_contract_snapshot J),
     dml link_signed_orders]"

section \<open>Adoption\<close>

definition adopt_legacy_schema :: "mysql_json \<Rightarrow> step" where
  "adopt_legacy_schema J s =
    (case validate_legacy_schema (work s) of
       Inl e \<Rightarrow> Inl (e, s)
     | Inr pre \<Rightarrow>
        run_steps [create_all metadata, add_missing_columns pre, create_missing_indexes pre,
                   backfill_legacy_data J] s)"

definition legacy_adoption_allowed :: "config \<Rightarrow> bool" where
  "legacy_adoption_allowed c \<longleftrightarrow> allow_legacy_schema_adoption c \<or> \<not> is_production c"

definition migrate_database :: "mysql_json \<Rightarrow> config \<Rightarrow> deployment \<Rightarrow> (db_error \<times> deployment) + deployment" where
  "migrate_database J c p =
    (if version p \<noteq> None \<or> user_tables (schema p) = [] then upgrade_head p
     else if \<not> legacy_adoption_allowed c then Inl (Refused ''unversioned legacy database'', p)
     else (case transaction (schema p) (adopt_legacy_schema J) of
             Inl (e, d) \<Rightarrow> Inl (e, p\<lparr>schema := d\<rparr>)
           | Inr d \<Rightarrow> upgrade_head \<lparr>schema = d, version = Some baseline_revision\<rparr>))"

end
