(* ===== verification/Legacy_Props.thy ===== *)
theory Legacy_Props
  imports Legacy_Schema Schema_Check
begin

text \<open>
  What adoption does to every supported database, and why the upgrade after it never
  completes.
\<close>

section \<open>Steps that only add\<close>

text \<open>No step of an upgrade drops a table or a column.\<close>

definition shape :: "database \<Rightarrow> string set \<times> (string \<times> string) set" where
  "shape d = (set (names d), {(n, c). has_column n c d})"

definition larger :: "database \<Rightarrow> database \<Rightarrow> bool" where
  "larger d e \<longleftrightarrow> fst (shape d) \<subseteq> fst (shape e) \<and> snd (shape d) \<subseteq> snd (shape e)"

lemma larger_refl [simp]: "larger d d"
  by (simp add: larger_def)

lemma larger_trans: "larger d e \<Longrightarrow> larger e f \<Longrightarrow> larger d f"
  by (auto simp: larger_def)

lemma larger_table: "larger d e \<Longrightarrow> has_table n d \<Longrightarrow> has_table n e"
  by (auto simp: larger_def shape_def has_table_def names_def)

lemma larger_column: "larger d e \<Longrightarrow> has_column n c d \<Longrightarrow> has_column n c e"
  by (auto simp: larger_def shape_def)

definition adds :: "step \<Rightarrow> bool" where
  "adds m \<longleftrightarrow> (\<forall>s s'. m s = Inr s' \<longrightarrow> larger (work s) (work s'))"

lemma addsI: "(\<And>s s'. m s = Inr s' \<Longrightarrow> larger (work s) (work s')) \<Longrightarrow> adds m"
  by (simp add: adds_def)

lemma addsD: "adds m \<Longrightarrow> m s = Inr s' \<Longrightarrow> larger (work s) (work s')"
  by (simp add: adds_def)

named_theorems adds_intros "steps that drop nothing"

lemma larger_in_table:
  assumes "in_table n f d = Inr d'"
    and "\<And>t t'. f t = Inr t' \<Longrightarrow> set (column_names t) \<subseteq> set (column_names t')"
  shows "larger d d'"
proof -
  obtain t t' where t: "find_table n d = Some t" "f t = Inr t'"
    and d': "d' = d\<lparr>tables := update_by t_name n (\<lambda>_. t'\<lparr>t_name := n\<rparr>) (tables d)\<rparr>"
    using assms(1) by (auto simp: in_table_def split: option.splits sum.splits)
  have "has_column m c d'" if "has_column m c d" for m c
    using that assms(2) [OF t(2)] t(1)
    by (cases "m = n") (auto simp: d' schema_simps has_column_def column_names_def split: option.splits)
  then show ?thesis
    by (auto simp: larger_def shape_def d' schema_simps)
qed

lemma adds_statement:
  assumes "\<And>d d'. f d = Inr d' \<Longrightarrow> larger d d'"
  shows "adds (ddl f)" "adds (dml f)"
  using assms by (auto simp: adds_def ddl_def dml_def split: sum.splits)

lemma larger_create_table: "create_table n cs pk ks d = Inr d' \<Longrightarrow> larger d d'"
  by (auto simp: create_table_def larger_def shape_def names_def has_column_def find_table_def find_by_Cons
      has_table_def find_by_None_iff split: if_splits option.splits)

lemma column_names_alter [simp]:
  "column_names (t\<lparr>t_columns := update_by c_name c (c_nullable_update f) (t_columns t)\<rparr>) = column_names t"
proof -
  have "map c_name (update_by c_name c (c_nullable_update f) xs) = map c_name xs" for xs
    by (induction xs) (auto simp: update_by_Cons)
  then show ?thesis by (simp add: column_names_def)
qed

lemma column_names_frame [simp]:
  "column_names (t\<lparr>t_keys := ks\<rparr>) = column_names t" "column_names (t\<lparr>t_rows := rs\<rparr>) = column_names t"
  "column_names (t\<lparr>t_columns := t_columns t @ cs\<rparr>) = column_names t @ map c_name cs"
  by (simp_all add: column_names_def)

lemma column_names_set: "x \<in> set (t_columns t) \<Longrightarrow> c_name x \<in> set (column_names t)"
  by (simp add: column_names_def)

lemma larger_statements:
  "add_column n c d = Inr d' \<Longrightarrow> larger d d'"
  "alter_nullable n x nl d = Inr d' \<Longrightarrow> larger d d'"
  "create_index k n xs u d = Inr d' \<Longrightarrow> larger d d'"
  "update_rows n p f d = Inr d' \<Longrightarrow> larger d d'"
  "insert_row n vs d = Inr d' \<Longrightarrow> larger d d'"
  unfolding add_column_def alter_nullable_def create_index_def update_rows_def insert_row_def
  by (erule larger_in_table, auto simp: Let_def column_names_set split: if_splits sum.splits option.splits)+

lemma column_names_insert_ignored [simp]: "column_names (insert_ignored now t vss) = column_names t"
proof (induction vss arbitrary: t)
  case (Cons vs vss)
  then show ?case by (simp add: Let_def column_names_def)
qed simp

lemma larger_insert_ignore: "insert_ignore n vss d = Inr d' \<Longrightarrow> larger d d'"
  unfolding insert_ignore_def by (erule larger_in_table) (auto split: option.splits)

lemma adds_ops [adds_intros]:
  "adds (op_create_table n cs pk ks)" "adds (op_add_column n c)" "adds (op_alter_nullable n x nl)"
  "adds (op_create_index k n xs u)" "adds (op_create_unique_constraint k n xs)"
  unfolding op_create_table_def op_add_column_def op_alter_nullable_def op_create_index_def
    op_create_unique_constraint_def create_unique_constraint_def
  by (auto intro: adds_statement(1) larger_create_table larger_statements)

lemma adds_updates [adds_intros]: "adds (dml (update_rows n p f))" "adds (dml (\<lambda>d. update_rows n (q d) (g d) d))"
  by (auto intro: adds_statement(2) larger_statements)

lemma adds_insert_selected [adds_intros]: "adds (dml (insert_selected n src p g))"
  by (rule adds_statement(2))
    (auto simp: insert_selected_def dest: larger_insert_ignore split: option.splits)

lemma adds_unless [adds_intros]: "adds m \<Longrightarrow> adds (unless p m)"
  by (auto simp: adds_def unless_def)

lemma adds_run [adds_intros]: "\<forall>m\<in>set ms. adds m \<Longrightarrow> adds (run_steps ms)"
proof (induction ms)
  case (Cons m ms)
  show ?case
  proof (rule addsI)
    fix s s' assume "run_steps (m # ms) s = Inr s'"
    then obtain s1 where "m s = Inr s1" "run_steps ms s1 = Inr s'" by (auto split: sum.splits)
    then show "larger (work s) (work s')"
      using Cons addsD larger_trans by (metis list.set_intros)
  qed
qed (simp add: adds_def)

lemma adds_missing [adds_intros]: "adds (add_missing_column n c)" "adds (add_missing_index n kc)"
  by (auto simp: add_missing_column_def add_missing_index_def case_prod_beta intro: adds_intros)

lemma adds_make_nullable [adds_intros]: "adds (make_nullable n c)"
  using adds_ops(3) [of n c True] by (auto simp: adds_def make_nullable_def split: option.splits if_splits)

section \<open>The revisions after the baseline\<close>

lemma adds_legacy_indexes: "m \<in> set add_legacy_indexes \<Longrightarrow> adds m"
  by (auto simp: add_legacy_indexes_def intro: adds_intros)

lemma adds_point_tables: "m \<in> set (create_point_tables @ create_travel_audit_tables) \<Longrightarrow> adds m"
  by (auto simp: create_point_tables_def create_travel_audit_tables_def point_ledgers_steps_def
      point_lots_steps_def point_lot_allocations_steps_def travel_order_audit_logs_steps_def
      travel_verification_records_steps_def intro!: adds_intros)

lemma adds_backfills: "m \<in> set (backfill_travel_orders @ backfill_legacy_points) \<Longrightarrow> adds m"
  by (auto simp: backfill_travel_orders_def backfill_legacy_points_def backfill_ledgers_def
      backfill_lots_def intro: adds_intros)

lemma adds_business_integrity: "adds business_integrity_upgrade"
  unfolding business_integrity_upgrade_def
  using adds_legacy_indexes adds_point_tables adds_backfills by (intro adds_run) (auto intro: adds_intros)

lemma adds_onboarding: "adds learning_onboarding_upgrade"
  unfolding learning_onboarding_upgrade_def by (intro adds_run) (auto intro: adds_intros)

section \<open>Adoption\<close>

lemma adds_create_model_table: "adds (create_model_table m)"
  unfolding create_model_table_def by (intro adds_run) (auto intro: adds_intros)

lemma adds_create_all: "adds (create_all ms)"
  unfolding create_all_def by (intro adds_run) (auto intro: adds_unless adds_create_model_table)

lemma run_steps_ConsE:
  assumes "run_steps (m # ms) s = Inr s'"
  obtains s1 where "m s = Inr s1" "run_steps ms s1 = Inr s'"
  using assms by (auto split: sum.splits)

lemma larger_run: "run_steps ms s = Inr s' \<Longrightarrow> \<forall>m\<in>set ms. adds m \<Longrightarrow> larger (work s) (work s')"
  using addsD [OF adds_run] by blast

lemma run_step_in:
  assumes "run_steps ms s = Inr s'" "m \<in> set ms" "\<forall>m\<in>set ms. adds m"
  obtains a b where "m a = Inr b" "larger (work s) (work a)" "larger (work b) (work s')"
  using assms
proof (induction ms arbitrary: s thesis)
  case (Cons x ms)
  then obtain s1 where s1: "x s = Inr s1" "run_steps ms s1 = Inr s'"
    by (metis run_steps_ConsE)
  show ?case
  proof (cases "m = x")
    case True
    then show ?thesis using Cons.prems(1) [of s s1] s1 Cons.prems(4) larger_run [OF s1(2)] by simp
  next
    case False
    moreover have "larger (work s) (work s1)" using addsD s1(1) Cons.prems(4) by auto
    ultimately show ?thesis
      using Cons.IH [OF _ s1(2)] Cons.prems larger_trans by (metis list.set_intros(2) set_ConsD)
  qed
qed simp

lemma created_model_table:
  assumes "create_model_table m a = Inr b"
  shows "has_table (m_name m) (work b)" "c \<in> set (m_columns m) \<Longrightarrow> has_column (m_name m) (c_name c) (work b)"
proof -
  let ?t = "op_create_table (m_name m) (map sql_column.truncate (m_columns m)) (m_primary m) (m_uniques m)"
  obtain a1 where a1: "?t a = Inr a1" and larger: "larger (work a1) (work b)"
    using assms unfolding create_model_table_def
    by (elim run_steps_ConsE) (auto dest!: larger_run intro: adds_intros)
  have "has_table (m_name m) (work a1)"
    using a1 by (auto simp: op_create_table_def ddl_def create_table_def has_table_def split: sum.splits if_splits)
  moreover have "has_column (m_name m) (c_name c) (work a1)" if "c \<in> set (m_columns m)"
    using a1 that
    by (auto simp: op_create_table_def ddl_def create_table_def has_column_def find_table_def find_by_Cons
        column_names_def sql_column.truncate_def split: sum.splits if_splits)
  ultimately show "has_table (m_name m) (work b)"
    "c \<in> set (m_columns m) \<Longrightarrow> has_column (m_name m) (c_name c) (work b)"
    using larger larger_table larger_column by blast+
qed

lemma confined_create_model_table: "confined_step {m_name m} (create_model_table m)"
  unfolding create_model_table_def by (rule confined_run) (auto intro: confined_ops)

lemma create_all_Cons:
  assumes "create_all (x # ms) s = Inr s'"
  obtains s1 where "unless (has_table (m_name x)) (create_model_table x) s = Inr s1" "create_all ms s1 = Inr s'"
  using assms unfolding create_all_def by (auto split: sum.splits)

lemma created_tables:
  assumes "create_all ms s = Inr s'" "m \<in> set ms"
  shows "has_table (m_name m) (work s')"
  using assms
proof (induction ms arbitrary: s)
  case (Cons x ms)
  obtain s1 where s1: "unless (has_table (m_name x)) (create_model_table x) s = Inr s1" "create_all ms s1 = Inr s'"
    by (rule create_all_Cons [OF Cons.prems(1)])
  have "has_table (m_name x) (work s1)"
    using s1(1) created_model_table(1) by (auto simp: unless_def split: if_splits)
  then have "has_table (m_name x) (work s')"
    using larger_table addsD [OF adds_create_all s1(2)] by blast
  then show ?case using Cons.IH [OF s1(2)] Cons.prems(2) by auto
qed simp

lemma created_columns:
  assumes "create_all ms s = Inr s'" "m \<in> set ms" "distinct (map m_name ms)"
    and "\<not> has_table (m_name m) (work s)" "c \<in> set (m_columns m)"
  shows "has_column (m_name m) (c_name c) (work s')"
  using assms
proof (induction ms arbitrary: s)
  case (Cons x ms)
  obtain s1 where s1: "unless (has_table (m_name x)) (create_model_table x) s = Inr s1" "create_all ms s1 = Inr s'"
    by (rule create_all_Cons [OF Cons.prems(1)])
  show ?case
  proof (cases "m = x")
    case True
    then have "has_column (m_name m) (c_name c) (work s1)"
      using s1(1) Cons.prems(4,5) created_model_table(2) by (auto simp: unless_def)
    then show ?thesis
      using larger_column addsD [OF adds_create_all s1(2)] by blast
  next
    case False
    with Cons.prems(2) have in_ms: "m \<in> set ms" by simp
    moreover from this have "m_name m \<in> m_name ` set ms" by (rule imageI)
    moreover have "m_name x \<notin> m_name ` set ms" using Cons.prems(3) by simp
    ultimately have m: "m \<in> set ms" "m_name m \<noteq> m_name x" by metis+
    then have "same_on (- {m_name x}) (work s) (work s1)"
      using s1(1) confined_step_frame [OF confined_create_model_table]
      by (auto simp: unless_def split: if_splits)
    then have "\<not> has_table (m_name m) (work s1)"
      using Cons.prems(4) m(2) by (simp add: has_table_find same_on_def)
    then show ?thesis
      using Cons.IH [OF s1(2) m(1)] Cons.prems(3,5) by simp
  qed
qed simp

section \<open>Every mapped column after adoption\<close>

lemma adds_add_legacy_column: "adds (add_legacy_column n c)"
  unfolding add_legacy_column_def fill_column_def by (intro adds_run) (auto intro: adds_intros)

lemma adds_add_missing_columns: "adds (add_missing_columns pre)"
proof (rule addsI)
  fix s s' assume "add_missing_columns pre s = Inr s'"
  then show "larger (work s) (work s')"
    unfolding add_missing_columns_def Let_def
    by (rule larger_run) (auto intro: adds_add_legacy_column adds_intros)
qed

lemma adds_create_missing_indexes: "adds (create_missing_indexes pre)"
proof -
  have "adds (add_legacy_index n k)" for n k
    using adds_ops(4) by (auto simp: adds_def add_legacy_index_def split: if_splits)
  then show ?thesis
    unfolding create_missing_indexes_def by (intro adds_run) (auto split: option.splits)
qed

lemma adds_backfill_legacy_data: "adds (backfill_legacy_data J)"
proof -
  have "adds (dml (first_contract_snapshot J))" "adds (dml link_signed_orders)" "adds (dml join_route_id)"
    "adds (dml join_cover)" "adds (dml (fill_card_extra J))"
    by (auto simp: first_contract_snapshot_def link_signed_orders_def join_route_id_def join_cover_def
        fill_card_extra_def Let_def split: option.splits if_splits sum.splits
        intro!: adds_statement(2) dest: larger_statements)
  then show ?thesis
    unfolding backfill_legacy_data_def by (intro adds_run) simp
qed

lemma distinct_metadata: "distinct (map m_name metadata)"
  unfolding model_names by simp

lemma find_model_named: "m \<in> set metadata \<Longrightarrow> find_model (m_name m) = Some m"
  unfolding find_model_def by (rule find_by_distinct [OF distinct_metadata])

lemma column_added:
  assumes "add_legacy_column n c a = Inr b"
  shows "has_column n (c_name c) (work b)"
proof -
  let ?op = "op_add_column n (mk_column (c_name c) (c_type c) True NoServerDefault)"
  obtain a1 where a1: "?op a = Inr a1" and
    rest: "run_steps (if c_nullable c then [] else [dml (fill_column n c)]) a1 = Inr b"
    using assms unfolding add_legacy_column_def by (rule run_steps_ConsE)
  have larger: "larger (work a1) (work b)"
    using rest by (rule larger_run) (auto simp: fill_column_def [abs_def] intro: adds_intros)
  have "has_column n (c_name c) (work a1)"
    using a1
    by (auto simp: op_add_column_def ddl_def add_column_def in_table_def has_column_def mk_column_def
        schema_simps column_names_def split: sum.splits option.splits if_splits)
  then show ?thesis using larger larger_column by blast
qed

lemma missing_columns_added:
  assumes "add_missing_columns pre s = Inr s'" "m_name m \<in> set pre" "m \<in> set metadata"
    and "c \<in> set (m_columns m)" "c_name c \<notin> set (post_baseline_columns (m_name m))"
  shows "has_column (m_name m) (c_name c) (work s')"
proof (cases "has_column (m_name m) (c_name c) (work s)")
  case True
  then show ?thesis
    using addsD [OF adds_add_missing_columns assms(1)] larger_column by blast
next
  case False
  let ?cs = "concat (map (columns_of_table (work s)) (sort pre))"
  let ?steps = "map (\<lambda>(n, c). add_legacy_column n c) ?cs @
    map (\<lambda>(n, c). op_alter_nullable n (c_name c) False) (filter (\<lambda>(n, c). \<not> c_nullable c) ?cs)"
  have "(m_name m, c) \<in> set ?cs"
    using assms(2,4,5) False
    by (auto simp: columns_of_table_def find_model_named [OF assms(3)] columns_to_add_def
        intro!: bexI [of _ "m_name m"])
  then have step: "add_legacy_column (m_name m) c \<in> set ?steps" by force
  have adds: "\<forall>x\<in>set ?steps. adds x" by (auto intro: adds_add_legacy_column adds_intros)
  have run: "run_steps ?steps s = Inr s'"
    using assms(1) by (simp only: add_missing_columns_def Let_def)
  obtain a b where "add_legacy_column (m_name m) c a = Inr b" "larger (work b) (work s')"
    by (rule run_step_in [OF run step adds]) (rule that)
  then show ?thesis using larger_column column_added by blast
qed

lemma adopt_steps:
  assumes "adopt_legacy_schema J s = Inr s'"
  obtains pre s1 s2 where "validate_legacy_schema (work s) = Inr pre" "create_all metadata s = Inr s1"
    "add_missing_columns pre s1 = Inr s2" "larger (work s2) (work s')"
proof -
  obtain pre where pre: "validate_legacy_schema (work s) = Inr pre"
    and run: "run_steps [create_all metadata, add_missing_columns pre, create_missing_indexes pre,
        backfill_legacy_data J] s = Inr s'"
    using assms unfolding adopt_legacy_schema_def by (cases "validate_legacy_schema (work s)") auto
  obtain s1 where s1: "create_all metadata s = Inr s1"
    and run1: "run_steps [add_missing_columns pre, create_missing_indexes pre, backfill_legacy_data J] s1 = Inr s'"
    using run by (rule run_steps_ConsE)
  obtain s2 where s2: "add_missing_columns pre s1 = Inr s2"
    and run2: "run_steps [create_missing_indexes pre, backfill_legacy_data J] s2 = Inr s'"
    using run1 by (rule run_steps_ConsE)
  have "larger (work s2) (work s')"
    using run2 by (rule larger_run) (simp add: adds_create_missing_indexes adds_backfill_legacy_data)
  with pre s1 s2 show ?thesis by (rule that)
qed

lemma adopted_tables:
  assumes "adopt_legacy_schema J s = Inr s'" "m \<in> set metadata"
  shows "has_table (m_name m) (work s')"
proof -
  obtain pre s1 s2 where "create_all metadata s = Inr s1" "add_missing_columns pre s1 = Inr s2"
    "larger (work s2) (work s')"
    using assms(1) by (rule adopt_steps)
  then show ?thesis
    using created_tables assms(2) addsD [OF adds_add_missing_columns] larger_table larger_trans by blast
qed

lemma validated_tables: "validate_legacy_schema d = Inr pre \<Longrightarrow> pre = user_tables d"
  by (auto simp: validate_legacy_schema_def Let_def split: if_splits option.splits)

lemma adopted_columns:
  assumes "adopt_legacy_schema J s = Inr s'" "m \<in> set metadata" "c \<in> set (m_columns m)"
    and "c_name c \<in> set (post_baseline_columns (m_name m)) \<longrightarrow> \<not> has_table (m_name m) (work s)"
    and "m_name m \<noteq> ''alembic_version''"
  shows "has_column (m_name m) (c_name c) (work s')"
proof -
  obtain pre s1 s2 where pre: "validate_legacy_schema (work s) = Inr pre" and
    s: "create_all metadata s = Inr s1" "add_missing_columns pre s1 = Inr s2" "larger (work s2) (work s')"
    using assms(1) by (rule adopt_steps)
  show ?thesis
  proof (cases "has_table (m_name m) (work s)")
    case True
    then have "m_name m \<in> set pre"
      using validated_tables [OF pre] assms(5) by (auto simp: user_tables_def has_table_def)
    then have "has_column (m_name m) (c_name c) (work s2)"
      using missing_columns_added [OF s(2)] assms(2,3,4) True by blast
    then show ?thesis using s(3) larger_column by blast
  next
    case False
    then have "has_column (m_name m) (c_name c) (work s1)"
      using created_columns [OF s(1) assms(2) distinct_metadata _ assms(3)] by blast
    then show ?thesis
      using addsD [OF adds_add_missing_columns s(2)] s(3) larger_column by blast
  qed
qed

section \<open>The upgrade after adoption\<close>

lemma checkin_revision_fails:
  "has_table ''learning_checkin_records'' d \<Longrightarrow>
    transaction d checkin_records_upgrade = Inl (TableExists ''learning_checkin_records'', d)"
  by (simp add: transaction_def checkin_records_upgrade_def op_create_table_def ddl_def create_table_def)

lemma adds_transaction:
  assumes "adds m" "transaction d m = Inr d'"
  shows "larger d d'"
proof -
  obtain s where "m \<lparr>work = d, saved = d\<rparr> = Inr s" "d' = work s"
    using assms(2) by (auto simp: transaction_def split: sum.splits)
  with addsD [OF assms(1) this(1)] show ?thesis by simp
qed

lemma after_baseline:
  "\<exists>rs. pending (Some baseline_revision) =
    Some (\<lparr>rev_id = ''b7f2c8d9e410'', rev_down = Some ''aa1a7986f555'',
       rev_upgrade = business_integrity_upgrade, rev_downgrade = business_integrity_downgrade\<rparr> #
     \<lparr>rev_id = ''c8e3d4f5a621'', rev_down = Some ''b7f2c8d9e410'',
       rev_upgrade = learning_onboarding_upgrade, rev_downgrade = learning_onboarding_downgrade\<rparr> #
     \<lparr>rev_id = ''d9a7c3e2b114'', rev_down = Some ''c8e3d4f5a621'',
       rev_upgrade = checkin_records_upgrade, rev_downgrade = checkin_records_downgrade\<rparr> # rs)"
  by (simp add: pending_def baseline_revision_def revisions_def)

lemma apply_revision_cases:
  "apply_revision r p = Inl (e, q) \<Longrightarrow> version q = version p"
  "apply_revision r p = Inr q \<Longrightarrow> version q = Some (rev_id r) \<and> transaction (schema p) (rev_upgrade r) = Inr (schema q)"
  by (auto simp: apply_revision_def split: sum.splits)

lemma upgrade_of_adopted:
  assumes "has_table ''learning_checkin_records'' d"
  shows "\<exists>e q. upgrade_head \<lparr>schema = d, version = Some baseline_revision\<rparr> = Inl (e, q) \<and>
    (version q = Some ''c8e3d4f5a621'' \<and> e = TableExists ''learning_checkin_records'' \<or>
     version q \<in> {Some ''aa1a7986f555'', Some ''b7f2c8d9e410''})"
proof -
  let ?p = "\<lparr>schema = d, version = Some baseline_revision\<rparr>"
  define b7 where "b7 = \<lparr>rev_id = ''b7f2c8d9e410'', rev_down = Some ''aa1a7986f555'',
       rev_upgrade = business_integrity_upgrade, rev_downgrade = business_integrity_downgrade\<rparr>"
  define c8 where "c8 = \<lparr>rev_id = ''c8e3d4f5a621'', rev_down = Some ''b7f2c8d9e410'',
       rev_upgrade = learning_onboarding_upgrade, rev_downgrade = learning_onboarding_downgrade\<rparr>"
  define d9 where "d9 = \<lparr>rev_id = ''d9a7c3e2b114'', rev_down = Some ''c8e3d4f5a621'',
       rev_upgrade = checkin_records_upgrade, rev_downgrade = checkin_records_downgrade\<rparr>"
  obtain rs where "pending (Some baseline_revision) = Some (b7 # c8 # d9 # rs)"
    unfolding b7_def c8_def d9_def using after_baseline by blast
  then have head: "upgrade_head ?p = apply_revisions (b7 # c8 # d9 # rs) ?p"
    by (simp add: upgrade_head_def)
  show ?thesis
  proof (cases "apply_revision b7 ?p")
    case (Inl a)
    then have "version (snd a) = Some ''aa1a7986f555''"
      using apply_revision_cases(1) [of b7 ?p "fst a" "snd a"] by (simp add: baseline_revision_def)
    then show ?thesis using Inl by (cases a) (simp add: head)
  next
    case p1: (Inr p1)
    then have v1: "version p1 = Some ''b7f2c8d9e410''" and t1: "transaction d business_integrity_upgrade = Inr (schema p1)"
      using apply_revision_cases(2) [OF p1] by (simp_all add: b7_def)
    show ?thesis
    proof (cases "apply_revision c8 p1")
      case (Inl a)
      then have "version (snd a) = Some ''b7f2c8d9e410''"
        using apply_revision_cases(1) [of c8 p1 "fst a" "snd a"] v1 by simp
      then show ?thesis using Inl p1 by (cases a) (simp add: head)
    next
      case p2: (Inr p2)
      then have v2: "version p2 = Some ''c8e3d4f5a621''"
        and t2: "transaction (schema p1) learning_onboarding_upgrade = Inr (schema p2)"
        using apply_revision_cases(2) [OF p2] by (simp_all add: c8_def)
      have "has_table ''learning_checkin_records'' (schema p2)"
        using assms larger_table adds_transaction [OF adds_business_integrity t1]
          adds_transaction [OF adds_onboarding t2] by blast
      from checkin_revision_fails [OF this]
      have "apply_revision d9 p2 = Inl (TableExists ''learning_checkin_records'', p2)"
        by (simp add: apply_revision_def d9_def)
      then show ?thesis using p1 p2 v2 by (simp add: head)
    qed
  qed
qed

lemma checkin_model: "learning_checkin_records_model \<in> set metadata"
  by (simp add: metadata_def)

text \<open>
  C34: \<open>python -m app.db_migrate\<close> never completes on a database without a version
  that has tables, whatever they hold: it is refused, or adoption fails, or adoption creates
  \<open>learning_checkin_records\<close> with the other mapped tables and the upgrade that follows fails
  at the latest in revision \<open>d9a7c3e2b114\<close>, which creates that table again without
  looking.
\<close>

theorem adoption_never_completes:
  assumes "version p = None" "user_tables (schema p) \<noteq> []"
  shows "\<exists>e q. migrate_database J c p = Inl (e, q) \<and>
    (version q = Some ''c8e3d4f5a621'' \<and> e = TableExists ''learning_checkin_records'' \<or>
     version q \<in> {None, Some ''aa1a7986f555'', Some ''b7f2c8d9e410''})"
proof (cases "legacy_adoption_allowed c")
  case False
  then show ?thesis using assms by (simp add: migrate_database_def)
next
  case True
  show ?thesis
  proof (cases "transaction (schema p) (adopt_legacy_schema J)")
    case (Inl a)
    then show ?thesis using assms True by (cases a) (simp add: migrate_database_def)
  next
    case (Inr d)
    then obtain s where s: "adopt_legacy_schema J \<lparr>work = schema p, saved = schema p\<rparr> = Inr s" "d = work s"
      by (auto simp: transaction_def split: sum.splits)
    have "has_table ''learning_checkin_records'' d"
      using adopted_tables [OF s(1) checkin_model] s(2) by (simp add: learning_checkin_records_model_def)
    from upgrade_of_adopted [OF this] show ?thesis
      using assms True Inr by (auto simp: migrate_database_def)
  qed
qed

text \<open>A legacy database with the four required tables.\<close>

definition sample_column :: "string \<Rightarrow> sql_column" where
  "sample_column n = mk_column n (SqlString 255) False NoServerDefault"

definition legacy_sample :: deployment where
  "legacy_sample = \<lparr>schema = \<lparr>tables =
     [\<lparr>t_name = ''travel_orders'', t_columns = map sample_column [''id'', ''order_no'', ''order_type'', ''title'', ''status''], t_primary = [''id''], t_keys = [], t_rows = []\<rparr>,
      \<lparr>t_name = ''travel_routes'', t_columns = map sample_column [''id'', ''name'', ''price'', ''stock'', ''status''], t_primary = [''id''], t_keys = [], t_rows = []\<rparr>,
      \<lparr>t_name = ''support_messages'', t_columns = map sample_column [''id'', ''conversation_id'', ''sender_role'', ''content''], t_primary = [''id''], t_keys = [], t_rows = []\<rparr>,
      \<lparr>t_name = ''support_conversations'', t_columns = map sample_column [''id'', ''user_id'', ''status'', ''last_message''], t_primary = [''id''], t_keys = [], t_rows = []\<rparr>],
     clock = 0\<rparr>, version = None\<rparr>"

theorem adoption_never_completes_witness:
  "\<forall>J c. \<exists>e q. migrate_database J c legacy_sample = Inl (e, q) \<and>
    (version q = Some ''c8e3d4f5a621'' \<and> e = TableExists ''learning_checkin_records'' \<or>
     version q \<in> {None, Some ''aa1a7986f555'', Some ''b7f2c8d9e410''})"
proof (intro allI)
  show "\<exists>e q. migrate_database J c legacy_sample = Inl (e, q) \<and>
    (version q = Some ''c8e3d4f5a621'' \<and> e = TableExists ''learning_checkin_records'' \<or>
     version q \<in> {None, Some ''aa1a7986f555'', Some ''b7f2c8d9e410''})" for J c
    by (rule adoption_never_completes) (simp_all add: legacy_sample_def user_tables_def)
qed

end
