(* ===== verification/Backfill_Props.thy ===== *)
theory Backfill_Props
  imports Points_Laws Schema_Laws
begin

text \<open>
  The opening balances of revision \<open>b7f2c8d9e410\<close>: the rows it writes, read as the
  ledger entries and lots of the points service, are books that service keeps in order.
\<close>

section \<open>Rows of the three tables as records\<close>

definition user_of_row :: "row \<Rightarrow> user_account" where
  "user_of_row r =
    \<lparr>ua_id = cell_int (r ''id''), ua_user_no = str_cell (r ''user_no''), ua_phone = str_cell (r ''phone''),
     ua_wechat_openid = None, ua_nickname = str_cell (r ''nickname''),
     ua_password_hash = str_cell (r ''password_hash''), ua_role = str_cell (r ''role''),
     ua_status = str_cell (r ''status''), ua_avatar = str_cell (r ''avatar''),
     ua_points = cell_int (r ''points''), ua_balance = (case r ''balance'' of DecCell c \<Rightarrow> c | _ \<Rightarrow> 0),
     ua_exam_status = str_cell (r ''exam_status''), ua_vip_enabled = False, ua_vip_type = [],
     ua_vip_started_at = None, ua_vip_expires_at = None, ua_vip_remark = [],
     ua_is_registered = (r ''is_registered'' = BoolCell True), ua_last_login_at = None\<rparr>"

definition ledger_of_row :: "row \<Rightarrow> point_ledger" where
  "ledger_of_row r =
    \<lparr>pl_id = cell_int (r ''id''), pl_transaction_no = str_cell (r ''transaction_no''),
     pl_user_id = cell_int (r ''user_id''), pl_user_no = str_cell (r ''user_no''),
     pl_direction = (if r ''direction'' = StrCell ''income'' then Income else Expense),
     pl_amount = cell_int (r ''amount''), pl_balance_before = cell_int (r ''balance_before''),
     pl_balance_after = cell_int (r ''balance_after''), pl_biz_type = str_cell (r ''biz_type''),
     pl_biz_id = cell_int (r ''biz_id''), pl_biz_no = str_cell (r ''biz_no''),
     pl_idempotency_key = str_cell (r ''idempotency_key''), pl_remark = str_cell (r ''remark'')\<rparr>"

definition status_of_cell :: "cell \<Rightarrow> lot_status" where
  "status_of_cell v =
    (if v = StrCell ''active'' then LotActive else if v = StrCell ''consumed'' then LotConsumed
     else if v = StrCell ''expired'' then LotExpired else LotRevoked)"

definition lot_of_row :: "row \<Rightarrow> point_lot" where
  "lot_of_row r =
    \<lparr>lot_id = cell_int (r ''id''), lot_user_id = cell_int (r ''user_id''),
     lot_source_ledger_id = cell_int (r ''source_ledger_id''),
     lot_original_amount = cell_int (r ''original_amount''),
     lot_remaining_amount = cell_int (r ''remaining_amount''),
     lot_expires_at = (case r ''expires_at'' of TimeCell t \<Rightarrow> Some t | _ \<Rightarrow> None),
     lot_status = status_of_cell (r ''status'')\<rparr>"

definition allocation_of_row :: "row \<Rightarrow> point_allocation" where
  "allocation_of_row r =
    \<lparr>al_id = cell_int (r ''id''), al_expense_ledger_id = cell_int (r ''expense_ledger_id''),
     al_lot_id = cell_int (r ''lot_id''), al_amount = cell_int (r ''amount''),
     al_restored_amount = cell_int (r ''restored_amount'')\<rparr>"

definition books_of :: "db \<Rightarrow> database \<Rightarrow> db" where
  "books_of b d = b\<lparr>users := map user_of_row (table_rows ''user_accounts'' d),
     ledgers := map ledger_of_row (table_rows ''point_ledgers'' d),
     lots := map lot_of_row (table_rows ''point_lots'' d),
     allocations := map allocation_of_row (table_rows ''point_lot_allocations'' d)\<rparr>"

section \<open>Inserted rows\<close>

lemma fold_values:
  "distinct (map fst vs) \<Longrightarrow>
    fold (\<lambda>(c, v) r. r(c := v)) vs f c = (case map_of vs c of Some v \<Rightarrow> v | None \<Rightarrow> f c)"
proof (induction vs arbitrary: f)
  case (Cons x vs)
  obtain k v where x: "x = (k, v)" by (cases x)
  then have "map_of vs k = None" using Cons.prems by (simp add: map_of_eq_None_iff)
  then show ?case using Cons by (simp add: x)
qed simp

lemma fold_columns:
  "fold (\<lambda>c r. r(n c := if n c = x then v else g c)) cs f x = (if x \<in> n ` set cs then v else f x)"
  by (induction cs arbitrary: f) auto

lemma default_id:
  "''id'' \<in> set (column_names t) \<Longrightarrow> default_row now t ''id'' = IntCell (next_row_id (t_rows t))"
  unfolding default_row_def fold_columns by (simp add: column_names_def)

lemma filled_named:
  "distinct (map fst vs) \<Longrightarrow> map_of vs c = Some v \<Longrightarrow> filled_row now t vs c = v"
  by (simp add: filled_row_def fold_values)

lemma filled_id:
  "distinct (map fst vs) \<Longrightarrow> ''id'' \<notin> set (map fst vs) \<Longrightarrow> ''id'' \<in> set (column_names t) \<Longrightarrow>
    filled_row now t vs ''id'' = IntCell (next_row_id (t_rows t))"
  by (simp add: filled_row_def fold_values default_id map_of_eq_None_iff [THEN iffD2])

section \<open>Unique keys\<close>

lemma unique_by_column:
  assumes "c \<in> set cs" "distinct (map (\<lambda>r. r c) rs)"
  shows "unique_values cs rs"
proof -
  have "distinct (map (key_value cs) rs)"
  proof (unfold distinct_map, intro conjI inj_onI)
    show "distinct rs" using assms(2) by (simp add: distinct_map)
    fix r x assume "r \<in> set rs" "x \<in> set rs" "key_value cs r = key_value cs x"
    then have "r c = x c" using assms(1) by (auto simp: key_value_def)
    then show "r = x"
      using assms(2) \<open>r \<in> set rs\<close> \<open>x \<in> set rs\<close> by (auto simp: distinct_map inj_on_def)
  qed
  then show ?thesis by (simp add: unique_values_def)
qed

lemma next_row_id_above: "r \<in> set rs \<Longrightarrow> cell_int (r ''id'') < next_row_id rs"
proof -
  have "r \<in> set rs \<Longrightarrow> cell_int (r ''id'') \<le> foldr (\<lambda>r. max (cell_int (r ''id''))) rs 0"
    by (induction rs) auto
  then show "r \<in> set rs \<Longrightarrow> cell_int (r ''id'') < next_row_id rs"
    by (simp add: next_row_id_def fresh_id_def)
qed

lemma next_row_id_fresh: "IntCell (next_row_id rs) \<notin> (\<lambda>r. r ''id'') ` set rs"
proof
  assume "IntCell (next_row_id rs) \<in> (\<lambda>r. r ''id'') ` set rs"
  then obtain r where "r \<in> set rs" "cell_int (r ''id'') = next_row_id rs"
    by (auto simp: cell_int_def dest: sym)
  then show False using next_row_id_above [of r rs] by simp
qed

text \<open>
  \<open>INSERT IGNORE\<close> keeps every row when each unique key has a column on which the new
  rows differ from each other and from the present ones.
\<close>

lemma insert_all:
  assumes "''id'' \<in> set (column_names t)"
    and "\<And>vs. vs \<in> set vss \<Longrightarrow> distinct (map fst vs) \<and> ''id'' \<notin> set (map fst vs)"
    and "\<And>cs. cs \<in> set (unique_columns t) \<Longrightarrow> ''id'' \<in> set cs \<or>
      (\<exists>c\<in>set cs. (\<forall>vs\<in>set vss. c \<in> set (map fst vs)) \<and>
         distinct (map (\<lambda>r. r c) (t_rows t) @ map (\<lambda>vs. the (map_of vs c)) vss))"
    and "distinct (map (\<lambda>r. r ''id'') (t_rows t))"
  shows "\<exists>rs. insert_ignored now t vss = t\<lparr>t_rows := t_rows t @ rs\<rparr> \<and>
    distinct (map (\<lambda>r. r ''id'') (t_rows t @ rs)) \<and>
    list_all2 (\<lambda>r vs. (\<exists>i>0. r ''id'' = IntCell i) \<and> (\<forall>c v. map_of vs c = Some v \<longrightarrow> r c = v)) rs vss"
  using assms
proof (induction vss arbitrary: t)
  case Nil
  then show ?case by simp
next
  case (Cons vs vss)
  let ?r = "filled_row now t vs"
  let ?t = "t\<lparr>t_rows := t_rows t @ [?r]\<rparr>"
  have vs: "distinct (map fst vs)" "''id'' \<notin> set (map fst vs)" using Cons.prems(2) by auto
  have id: "?r ''id'' = IntCell (next_row_id (t_rows t))"
    using filled_id [OF vs Cons.prems(1)] .
  have named: "?r c = v" if "map_of vs c = Some v" for c v
    using filled_named [OF vs(1) that] .
  have ids: "distinct (map (\<lambda>r. r ''id'') (t_rows ?t))"
    using Cons.prems(4) next_row_id_fresh [of "t_rows t"] by (auto simp: id)
  have the_named: "?r c = the (map_of vs c)" if "c \<in> set (map fst vs)" for c
    using that named by (metis map_of_eq_None_iff option.collapse image_set)
  have "keys_hold t (t_rows ?t)"
    unfolding keys_hold_def list_all_iff
  proof
    fix cs assume "cs \<in> set (unique_columns t)"
    from Cons.prems(3) [OF this]
    show "unique_values cs (t_rows ?t)"
    proof (elim disjE bexE conjE)
      assume "''id'' \<in> set cs"
      then show ?thesis using ids by (rule unique_by_column)
    next
      fix c assume c: "c \<in> set cs" "\<forall>vs\<in>set (vs # vss). c \<in> set (map fst vs)"
        "distinct (map (\<lambda>r. r c) (t_rows t) @ map (\<lambda>vs. the (map_of vs c)) (vs # vss))"
      then have "distinct (map (\<lambda>r. r c) (t_rows ?t))" using the_named [of c] by auto
      with c(1) show ?thesis by (rule unique_by_column)
    qed
  qed
  then have step: "insert_ignored now t (vs # vss) = insert_ignored now ?t vss" by (simp add: Let_def)
  have cols: "column_names ?t = column_names t" "unique_columns ?t = unique_columns t"
    by (simp_all add: column_names_def unique_columns_def)
  have "\<exists>rs. insert_ignored now ?t vss = ?t\<lparr>t_rows := t_rows ?t @ rs\<rparr> \<and>
    distinct (map (\<lambda>r. r ''id'') (t_rows ?t @ rs)) \<and>
    list_all2 (\<lambda>r vs. (\<exists>i>0. r ''id'' = IntCell i) \<and> (\<forall>c v. map_of vs c = Some v \<longrightarrow> r c = v)) rs vss"
  proof (rule Cons.IH)
    show "''id'' \<in> set (column_names ?t)" using Cons.prems(1) by (simp add: cols)
    show "distinct (map (\<lambda>r. r ''id'') (t_rows ?t))" by (rule ids)
    show "distinct (map fst ws) \<and> ''id'' \<notin> set (map fst ws)" if "ws \<in> set vss" for ws
      using Cons.prems(2) that by simp
    fix cs assume "cs \<in> set (unique_columns ?t)"
    then have "cs \<in> set (unique_columns t)" by (simp add: cols)
    from Cons.prems(3) [OF this]
    show "''id'' \<in> set cs \<or> (\<exists>c\<in>set cs. (\<forall>vs\<in>set vss. c \<in> set (map fst vs)) \<and>
         distinct (map (\<lambda>r. r c) (t_rows ?t) @ map (\<lambda>vs. the (map_of vs c)) vss))"
    proof (elim disjE bexE conjE)
      fix c assume c: "c \<in> set cs" "\<forall>vs\<in>set (vs # vss). c \<in> set (map fst vs)"
        "distinct (map (\<lambda>r. r c) (t_rows t) @ map (\<lambda>vs. the (map_of vs c)) (vs # vss))"
      then have "map (\<lambda>r. r c) (t_rows ?t) @ map (\<lambda>vs. the (map_of vs c)) vss =
          map (\<lambda>r. r c) (t_rows t) @ map (\<lambda>vs. the (map_of vs c)) (vs # vss)"
        using the_named [of c] by simp
      then have "distinct (map (\<lambda>r. r c) (t_rows ?t) @ map (\<lambda>vs. the (map_of vs c)) vss)"
        using c(3) by (simp only:)
      moreover have "\<forall>vs\<in>set vss. c \<in> set (map fst vs)" using c(2) by simp
      ultimately show ?thesis using c(1) by blast
    qed (rule disjI1)
  qed
  then obtain rs where rs: "insert_ignored now ?t vss = ?t\<lparr>t_rows := t_rows ?t @ rs\<rparr>"
    "distinct (map (\<lambda>r. r ''id'') (t_rows ?t @ rs))"
    and all: "list_all2 (\<lambda>r vs. (\<exists>i>0. r ''id'' = IntCell i) \<and> (\<forall>c v. map_of vs c = Some v \<longrightarrow> r c = v)) rs vss"
    by blast
  have "0 < next_row_id (t_rows t)"
  proof -
    have "0 \<le> foldr (\<lambda>r. max (cell_int (r ''id''))) rs 0" for rs :: "row list" by (induction rs) auto
    then show ?thesis by (simp add: next_row_id_def fresh_id_def add_nonneg_pos)
  qed
  then have "(\<exists>i>0. ?r ''id'' = IntCell i) \<and> (\<forall>c v. map_of vs c = Some v \<longrightarrow> ?r c = v)"
    using id named by blast
  with all have "list_all2 (\<lambda>r vs. (\<exists>i>0. r ''id'' = IntCell i) \<and> (\<forall>c v. map_of vs c = Some v \<longrightarrow> r c = v))
      (?r # rs) (vs # vss)" by simp
  moreover have "insert_ignored now t (vs # vss) = t\<lparr>t_rows := t_rows t @ ?r # rs\<rparr>"
    using rs(1) unfolding step by simp
  moreover have "distinct (map (\<lambda>r. r ''id'') (t_rows t @ ?r # rs))"
    using rs(2) by simp
  ultimately show ?case by blast
qed

section \<open>The new tables\<close>

definition table_after :: "string \<Rightarrow> step \<Rightarrow> (sql_table \<Rightarrow> bool) \<Rightarrow> time \<Rightarrow> bool" where
  "table_after n m p now \<longleftrightarrow>
    (case m \<lparr>work = empty_database now, saved = empty_database now\<rparr> of
       Inl _ \<Rightarrow> False
     | Inr u \<Rightarrow> (case find_table n (work u) of None \<Rightarrow> False | Some t \<Rightarrow> length (t_rows t) = 0 \<and> p t))"

lemma ledgers_table: "table_after ''point_ledgers'' (run_steps point_ledgers_steps)
    (\<lambda>t. unique_columns t = [[''id''], [''user_id'', ''idempotency_key''], [''transaction_no'']] \<and>
       column_names t = [''id'', ''transaction_no'', ''user_id'', ''user_no'', ''direction'', ''amount'',
         ''balance_before'', ''balance_after'', ''biz_type'', ''biz_id'', ''biz_no'', ''idempotency_key'',
         ''remark'', ''created_at'']) now"
  by code_simp

lemma lots_table: "table_after ''point_lots'' (run_steps point_lots_steps)
    (\<lambda>t. unique_columns t = [[''id''], [''source_ledger_id'']] \<and>
       column_names t = [''id'', ''user_id'', ''source_ledger_id'', ''original_amount'', ''remaining_amount'',
         ''expires_at'', ''status'', ''created_at'']) now"
  by code_simp

lemma allocations_table: "table_after ''point_lot_allocations'' (run_steps point_lot_allocations_steps)
    (\<lambda>t. True) now"
  by code_simp

lemma table_created:
  assumes "table_after n m p (clock (work s))" "confined_step {n} m" "\<not> has_table n (work s)"
  shows "\<exists>s' t. unless (has_table n) m s = Inr s' \<and> find_table n (work s') = Some t \<and> t_rows t = [] \<and> p t \<and>
    (\<forall>k. k \<noteq> n \<longrightarrow> find_table k (work s') = find_table k (work s)) \<and> clock (work s') = clock (work s)"
proof -
  let ?e = "\<lparr>work = empty_database (clock (work s)), saved = empty_database (clock (work s))\<rparr>"
  obtain u t where u: "m ?e = Inr u" "find_table n (work u) = Some t" "t_rows t = []" "p t"
    using assms(1) by (auto simp: table_after_def split: sum.splits option.splits)
  have "same_on {n} (work ?e) (work s)"
    using assms(3) by (simp add: same_on_def has_table_find empty_database_def find_table_def)
  from confined_step_agree [OF assms(2) this] u(1)
  obtain s' where s': "m s = Inr s'" "same_on {n} (work u) (work s')"
    by (auto simp: agree_steps_Inr)
  have "same_on (- {n}) (work s) (work s')" using confined_step_frame [OF assms(2) s'(1)] .
  moreover have "find_table n (work s') = Some t" using u(2) s'(2) by (simp add: same_on_def)
  ultimately show ?thesis
    using u(3,4) s'(1) assms(3) by (intro exI [of _ s'] exI [of _ t]) (simp add: unless_def same_on_def)
qed

lemma has_table_frame:
  "\<forall>k. k \<noteq> n \<longrightarrow> find_table k d' = find_table k d \<Longrightarrow> m \<noteq> n \<Longrightarrow> has_table m d' = has_table m d"
  by (simp add: has_table_find)

text \<open>What the backfill relies on: the three tables are there and empty.\<close>

definition point_tables_ready :: "sql_table option \<Rightarrow> database \<Rightarrow> bool" where
  "point_tables_ready U d \<longleftrightarrow>
    (\<exists>L. find_table ''point_ledgers'' d = Some L \<and> t_rows L = [] \<and>
       unique_columns L = [[''id''], [''user_id'', ''idempotency_key''], [''transaction_no'']] \<and>
       column_names L = [''id'', ''transaction_no'', ''user_id'', ''user_no'', ''direction'', ''amount'',
         ''balance_before'', ''balance_after'', ''biz_type'', ''biz_id'', ''biz_no'', ''idempotency_key'',
         ''remark'', ''created_at'']) \<and>
    (\<exists>M. find_table ''point_lots'' d = Some M \<and> t_rows M = [] \<and>
       unique_columns M = [[''id''], [''source_ledger_id'']] \<and>
       column_names M = [''id'', ''user_id'', ''source_ledger_id'', ''original_amount'', ''remaining_amount'',
         ''expires_at'', ''status'', ''created_at'']) \<and>
    table_rows ''point_lot_allocations'' d = [] \<and> find_table ''user_accounts'' d = U"

lemma point_tables_created:
  assumes "\<not> has_table ''point_ledgers'' d" "\<not> has_table ''point_lots'' d" "\<not> has_table ''point_lot_allocations'' d"
  shows "\<exists>s. run_steps create_point_tables \<lparr>work = d, saved = d\<rparr> = Inr s \<and>
    point_tables_ready (find_table ''user_accounts'' d) (work s)"
proof -
  let ?s = "\<lparr>work = d, saved = d\<rparr>"
  obtain s1 L where s1: "unless (has_table ''point_ledgers'') (run_steps point_ledgers_steps) ?s = Inr s1"
    and L: "find_table ''point_ledgers'' (work s1) = Some L" "t_rows L = []"
      "unique_columns L = [[''id''], [''user_id'', ''idempotency_key''], [''transaction_no'']]"
      "column_names L = [''id'', ''transaction_no'', ''user_id'', ''user_no'', ''direction'', ''amount'',
         ''balance_before'', ''balance_after'', ''biz_type'', ''biz_id'', ''biz_no'', ''idempotency_key'',
         ''remark'', ''created_at'']"
    and f1: "\<forall>k. k \<noteq> ''point_ledgers'' \<longrightarrow> find_table k (work s1) = find_table k (work ?s)"
    using table_created [OF ledgers_table confined_point_tables(1), of ?s] assms(1) by auto
  have n1: "\<not> has_table ''point_lots'' (work s1)" "\<not> has_table ''point_lot_allocations'' (work s1)"
    using has_table_frame [OF f1] assms(2,3) by simp_all
  obtain s2 M where s2: "unless (has_table ''point_lots'') (run_steps point_lots_steps) s1 = Inr s2"
    and M: "find_table ''point_lots'' (work s2) = Some M" "t_rows M = []"
      "unique_columns M = [[''id''], [''source_ledger_id'']]"
      "column_names M = [''id'', ''user_id'', ''source_ledger_id'', ''original_amount'', ''remaining_amount'',
         ''expires_at'', ''status'', ''created_at'']"
    and f2: "\<forall>k. k \<noteq> ''point_lots'' \<longrightarrow> find_table k (work s2) = find_table k (work s1)"
    using table_created [OF lots_table confined_point_tables(2), of s1] n1(1) by auto
  have n2: "\<not> has_table ''point_lot_allocations'' (work s2)"
    using has_table_frame [OF f2] n1(2) by simp
  obtain s3 A where s3: "unless (has_table ''point_lot_allocations'') (run_steps point_lot_allocations_steps) s2 = Inr s3"
    and A: "find_table ''point_lot_allocations'' (work s3) = Some A" "t_rows A = []"
    and f3: "\<forall>k. k \<noteq> ''point_lot_allocations'' \<longrightarrow> find_table k (work s3) = find_table k (work s2)"
    using table_created [OF allocations_table confined_point_tables(3), of s2] n2 by auto
  have "run_steps create_point_tables ?s = Inr s3"
    by (simp add: create_point_tables_def s1 s2 s3)
  moreover have "point_tables_ready (find_table ''user_accounts'' d) (work s3)"
    unfolding point_tables_ready_def using L M A f1 f2 f3 by (simp add: table_rows_def)
  ultimately show ?thesis by blast
qed

section \<open>The opening rows\<close>

definition opens :: "row \<Rightarrow> row \<Rightarrow> bool" where
  "opens r u \<longleftrightarrow> (\<exists>i>0. r ''id'' = IntCell i) \<and> (\<forall>c v. map_of (opening_ledger u) c = Some v \<longrightarrow> r c = v)"

definition lot_for :: "row \<Rightarrow> row \<Rightarrow> bool" where
  "lot_for l r \<longleftrightarrow> (\<exists>i>0. l ''id'' = IntCell i) \<and> (\<forall>c v. map_of (opening_lot r) c = Some v \<longrightarrow> l c = v)"

lemma opensD:
  assumes "opens r u"
  shows "r ''user_id'' = u ''id''" "r ''amount'' = u ''points''" "opens_books r"
    "\<exists>i>0. r ''id'' = IntCell i"
  using assms by (auto simp: opens_def opening_ledger_def Let_def opens_books_def)

lemma lot_forD:
  assumes "lot_for l r"
  shows "l ''user_id'' = r ''user_id''" "l ''source_ledger_id'' = r ''id''" "l ''remaining_amount'' = r ''amount''"
    "l ''status'' = StrCell ''active''" "\<exists>i>0. l ''id'' = IntCell i"
  using assms by (auto simp: lot_for_def opening_lot_def)

lemma list_all2_left: "list_all2 P xs ys \<Longrightarrow> x \<in> set xs \<Longrightarrow> \<exists>y\<in>set ys. P x y"
  by (induction rule: list_all2_induct) auto

lemma find_none_in: "(\<And>x. x \<in> set xs \<Longrightarrow> x \<in> A) \<Longrightarrow> find (\<lambda>c. c \<notin> A) xs = None"
  by (auto simp: find_None_iff)

lemma distinct_map_filter_id: "distinct (map f xs) \<Longrightarrow> distinct (map f (filter p xs))"
  by (rule distinct_map_filter)

lemma ledgers_backfilled:
  assumes L: "t_rows L = []"
      "unique_columns L = [[''id''], [''user_id'', ''idempotency_key''], [''transaction_no'']]"
      "column_names L = [''id'', ''transaction_no'', ''user_id'', ''user_no'', ''direction'', ''amount'',
         ''balance_before'', ''balance_after'', ''biz_type'', ''biz_id'', ''biz_no'', ''idempotency_key'',
         ''remark'', ''created_at'']"
    and ids: "distinct (map (\<lambda>r. r ''id'') us)" "\<forall>r\<in>set us. \<exists>i. r ''id'' = IntCell i"
  shows "\<exists>rs. insert_ignored now L (map opening_ledger us) = L\<lparr>t_rows := rs\<rparr> \<and>
    distinct (map (\<lambda>r. r ''id'') rs) \<and> list_all2 opens rs us"
proof -
  have same: "x ''id'' = y ''id''" if x: "x \<in> set us" and y: "y \<in> set us"
    and eq: "cell_int (x ''id'') = cell_int (y ''id'')" for x y
  proof -
    obtain i j where "x ''id'' = IntCell i" "y ''id'' = IntCell j" using ids(2) x y by blast
    then show ?thesis using eq by (simp add: cell_int_def)
  qed
  have numbers: "distinct (map (\<lambda>u. StrCell (''PL-OPEN-'' @ str_int (cell_int (u ''id'')))) us)"
    using ids(1) same by (auto simp: distinct_map inj_on_def dest!: str_int_inj)
  have "\<exists>rs. insert_ignored now L (map opening_ledger us) = L\<lparr>t_rows := t_rows L @ rs\<rparr> \<and>
    distinct (map (\<lambda>r. r ''id'') (t_rows L @ rs)) \<and>
    list_all2 (\<lambda>r vs. (\<exists>i>0. r ''id'' = IntCell i) \<and> (\<forall>c v. map_of vs c = Some v \<longrightarrow> r c = v)) rs
      (map opening_ledger us)"
  proof (rule insert_all)
    show "distinct (map fst vs) \<and> ''id'' \<notin> set (map fst vs)" if "vs \<in> set (map opening_ledger us)" for vs
      using that by (auto simp: opening_ledger_def Let_def)
    show "''id'' \<in> set cs \<or> (\<exists>c\<in>set cs. (\<forall>vs\<in>set (map opening_ledger us). c \<in> set (map fst vs)) \<and>
        distinct (map (\<lambda>r. r c) (t_rows L) @ map (\<lambda>vs. the (map_of vs c)) (map opening_ledger us)))"
      if "cs \<in> set (unique_columns L)" for cs
    proof -
      have users: "map (\<lambda>vs. the (map_of vs ''user_id'')) (map opening_ledger us) = map (\<lambda>u. u ''id'') us"
        and texts: "map (\<lambda>vs. the (map_of vs ''transaction_no'')) (map opening_ledger us) =
          map (\<lambda>u. StrCell (''PL-OPEN-'' @ str_int (cell_int (u ''id'')))) us"
        by (simp_all add: opening_ledger_def Let_def)
      have named: "\<forall>vs\<in>set (map opening_ledger us). ''user_id'' \<in> set (map fst vs)"
        "\<forall>vs\<in>set (map opening_ledger us). ''transaction_no'' \<in> set (map fst vs)"
        by (simp_all add: opening_ledger_def Let_def)
      have "cs = [''id''] \<or> cs = [''user_id'', ''idempotency_key''] \<or> cs = [''transaction_no'']"
        using that by (simp add: L(2))
      then consider "cs = [''id'']" | "cs = [''user_id'', ''idempotency_key'']" | "cs = [''transaction_no'']" by blast
      then show ?thesis
      proof cases
        case 2
        then show ?thesis
          unfolding L(1) list.map append_Nil using named(1)
          by (intro disjI2 bexI [where x = "''user_id''"] conjI) (simp_all only: users ids list.set_intros)
      next
        case 3
        then show ?thesis
          unfolding L(1) list.map append_Nil using named(2)
          by (intro disjI2 bexI [where x = "''transaction_no''"] conjI)
            (simp_all only: texts numbers list.set_intros)
      qed simp
    qed
  qed (simp_all add: L)
  then obtain rs where rs: "insert_ignored now L (map opening_ledger us) = L\<lparr>t_rows := rs\<rparr>"
    "distinct (map (\<lambda>r. r ''id'') rs)"
    "list_all2 (\<lambda>r u. (\<exists>i>0. r ''id'' = IntCell i) \<and> (\<forall>c v. map_of (opening_ledger u) c = Some v \<longrightarrow> r c = v)) rs us"
    unfolding L(1) append_Nil list_all2_map2 by blast
  have "list_all2 opens rs us"
    by (rule list_all2_mono [OF rs(3)]) (simp add: opens_def)
  with rs(1,2) show ?thesis by blast
qed

lemma lots_backfilled:
  assumes M: "t_rows M = []" "unique_columns M = [[''id''], [''source_ledger_id'']]"
      "column_names M = [''id'', ''user_id'', ''source_ledger_id'', ''original_amount'', ''remaining_amount'',
         ''expires_at'', ''status'', ''created_at'']"
    and ids: "distinct (map (\<lambda>r. r ''id'') rs)"
  shows "\<exists>ls. insert_ignored now M (map opening_lot rs) = M\<lparr>t_rows := ls\<rparr> \<and>
    distinct (map (\<lambda>r. r ''id'') ls) \<and> list_all2 lot_for ls rs"
proof -
  have "\<exists>ls. insert_ignored now M (map opening_lot rs) = M\<lparr>t_rows := t_rows M @ ls\<rparr> \<and>
    distinct (map (\<lambda>r. r ''id'') (t_rows M @ ls)) \<and>
    list_all2 (\<lambda>r vs. (\<exists>i>0. r ''id'' = IntCell i) \<and> (\<forall>c v. map_of vs c = Some v \<longrightarrow> r c = v)) ls
      (map opening_lot rs)"
  proof (rule insert_all)
    show "distinct (map fst vs) \<and> ''id'' \<notin> set (map fst vs)" if "vs \<in> set (map opening_lot rs)" for vs
      using that by (auto simp: opening_lot_def)
    show "''id'' \<in> set cs \<or> (\<exists>c\<in>set cs. (\<forall>vs\<in>set (map opening_lot rs). c \<in> set (map fst vs)) \<and>
        distinct (map (\<lambda>r. r c) (t_rows M) @ map (\<lambda>vs. the (map_of vs c)) (map opening_lot rs)))"
      if "cs \<in> set (unique_columns M)" for cs
    proof (cases "cs = [''id'']")
      case False
      then have cs: "cs = [''source_ledger_id'']" using that by (simp add: M(2))
      have vals: "map (\<lambda>vs. the (map_of vs ''source_ledger_id'')) (map opening_lot rs) = map (\<lambda>r. r ''id'') rs"
        by (simp add: opening_lot_def)
      have "\<forall>vs\<in>set (map opening_lot rs). ''source_ledger_id'' \<in> set (map fst vs)"
        by (simp add: opening_lot_def)
      then show ?thesis
        unfolding M(1) list.map append_Nil cs
        by (intro disjI2 bexI [where x = "''source_ledger_id''"] conjI) (simp_all only: vals ids list.set_intros)
    qed simp
  qed (simp_all add: M)
  then obtain ls where ls: "insert_ignored now M (map opening_lot rs) = M\<lparr>t_rows := ls\<rparr>"
    "distinct (map (\<lambda>r. r ''id'') ls)"
    "list_all2 (\<lambda>l r. (\<exists>i>0. l ''id'' = IntCell i) \<and> (\<forall>c v. map_of (opening_lot r) c = Some v \<longrightarrow> l c = v)) ls rs"
    unfolding M(1) append_Nil list_all2_map2 by blast
  have "list_all2 lot_for ls rs"
    by (rule list_all2_mono [OF ls(3)]) (simp add: lot_for_def)
  with ls(1,2) show ?thesis by blast
qed

lemma find_opening_ledger:
  "column_names L = [''id'', ''transaction_no'', ''user_id'', ''user_no'', ''direction'', ''amount'',
         ''balance_before'', ''balance_after'', ''biz_type'', ''biz_id'', ''biz_no'', ''idempotency_key'',
         ''remark'', ''created_at''] \<Longrightarrow>
    find (\<lambda>c. c \<notin> set (column_names L)) (concat (map (map fst) (map opening_ledger us))) = None"
  by (rule find_none_in) (auto simp: opening_ledger_def Let_def split: if_splits)

lemma find_opening_lot:
  "column_names M = [''id'', ''user_id'', ''source_ledger_id'', ''original_amount'', ''remaining_amount'',
         ''expires_at'', ''status'', ''created_at''] \<Longrightarrow>
    find (\<lambda>c. c \<notin> set (column_names M)) (concat (map (map fst) (map opening_lot rs))) = None"
  by (rule find_none_in) (auto simp: opening_lot_def split: if_splits)

lemma insert_ignore_effect:
  assumes "find_table n d = Some T" "insert_ignored (clock d) T vss = T\<lparr>t_rows := rs\<rparr>"
    and "find (\<lambda>c. c \<notin> set (column_names T)) (concat (map (map fst) vss)) = None"
  shows "\<exists>d'. insert_ignore n vss d = Inr d' \<and> table_rows n d' = rs \<and> clock d' = clock d \<and>
    (\<forall>k. k \<noteq> n \<longrightarrow> find_table k d' = find_table k d) \<and>
    find_table n d' = Some (T\<lparr>t_rows := rs\<rparr>\<lparr>t_name := n\<rparr>)"
  unfolding insert_ignore_def in_table_def assms option.case sum.case
  by (simp add: schema_simps table_rows_def assms(1))

lemma backfill_runs:
  assumes ready: "point_tables_ready (Some U) (work s)"
    and ids: "distinct (map (\<lambda>r. r ''id'') (t_rows U))" "\<forall>r\<in>set (t_rows U). \<exists>i. r ''id'' = IntCell i"
  shows "\<exists>s' rs ls. run_steps backfill_legacy_points s = Inr s' \<and>
    table_rows ''user_accounts'' (work s') = t_rows U \<and> table_rows ''point_ledgers'' (work s') = rs \<and>
    table_rows ''point_lots'' (work s') = ls \<and> table_rows ''point_lot_allocations'' (work s') = [] \<and>
    distinct (map (\<lambda>r. r ''id'') rs) \<and> list_all2 opens rs (filter has_points (t_rows U)) \<and>
    distinct (map (\<lambda>r. r ''id'') ls) \<and> list_all2 lot_for ls rs"
proof -
  let ?d = "work s" and ?us = "filter has_points (t_rows U)"
  from ready obtain L M where L: "find_table ''point_ledgers'' ?d = Some L" "t_rows L = []"
      "unique_columns L = [[''id''], [''user_id'', ''idempotency_key''], [''transaction_no'']]"
      "column_names L = [''id'', ''transaction_no'', ''user_id'', ''user_no'', ''direction'', ''amount'',
         ''balance_before'', ''balance_after'', ''biz_type'', ''biz_id'', ''biz_no'', ''idempotency_key'',
         ''remark'', ''created_at'']"
    and M: "find_table ''point_lots'' ?d = Some M" "t_rows M = []"
      "unique_columns M = [[''id''], [''source_ledger_id'']]"
      "column_names M = [''id'', ''user_id'', ''source_ledger_id'', ''original_amount'', ''remaining_amount'',
         ''expires_at'', ''status'', ''created_at'']"
    and rest: "table_rows ''point_lot_allocations'' ?d = []" "find_table ''user_accounts'' ?d = Some U"
    unfolding point_tables_ready_def by blast
  have us: "distinct (map (\<lambda>r. r ''id'') ?us)" "\<forall>r\<in>set ?us. \<exists>i. r ''id'' = IntCell i"
    using ids by (auto intro: distinct_map_filter_id)
  obtain rs where rs: "insert_ignored (clock ?d) L (map opening_ledger ?us) = L\<lparr>t_rows := rs\<rparr>"
    "distinct (map (\<lambda>r. r ''id'') rs)" "list_all2 opens rs ?us"
    using ledgers_backfilled [OF L(2-4) us, of "clock ?d"] by blast
  obtain d1 where d1: "backfill_ledgers ?d = Inr d1" "table_rows ''point_ledgers'' d1 = rs"
    and f1: "\<And>k. k \<noteq> ''point_ledgers'' \<Longrightarrow> find_table k d1 = find_table k ?d"
    and t1: "find_table ''point_ledgers'' d1 = Some (L\<lparr>t_rows := rs\<rparr>\<lparr>t_name := ''point_ledgers''\<rparr>)"
    using insert_ignore_effect [OF L(1) rs(1) find_opening_ledger [OF L(4)]]
    unfolding backfill_ledgers_def insert_selected_def rest(2) option.case by blast
  have all: "filter opens_books rs = rs"
  proof (rule filter_True)
    show "\<forall>r\<in>set rs. opens_books r"
      using list_all2_left [OF rs(3)] opensD(3) by blast
  qed
  have m1: "find_table ''point_lots'' d1 = Some M" using f1 M(1) by simp
  obtain ls where ls: "insert_ignored (clock d1) M (map opening_lot rs) = M\<lparr>t_rows := ls\<rparr>"
    "distinct (map (\<lambda>r. r ''id'') ls)" "list_all2 lot_for ls rs"
    using lots_backfilled [OF M(2-4) rs(2), of "clock d1"] by blast
  obtain d2 where d2: "insert_ignore ''point_lots'' (map opening_lot rs) d1 = Inr d2"
    and l2: "table_rows ''point_lots'' d2 = ls"
    and f2: "\<And>k. k \<noteq> ''point_lots'' \<Longrightarrow> find_table k d2 = find_table k d1"
    using insert_ignore_effect [OF m1 ls(1) find_opening_lot [OF M(4)]] by blast
  have "backfill_lots d1 = insert_ignore ''point_lots'' (map opening_lot rs) d1"
    by (simp add: backfill_lots_def insert_selected_def t1 all)
  with d1(1) d2 have "run_steps backfill_legacy_points s = Inr (s\<lparr>work := d2\<rparr>)"
    by (simp add: backfill_legacy_points_def dml_def)
  moreover have "table_rows ''user_accounts'' d2 = t_rows U" "table_rows ''point_ledgers'' d2 = rs"
    "table_rows ''point_lot_allocations'' d2 = []"
    using f1 f2 rest d1(2) by (simp_all add: table_rows_def)
  ultimately show ?thesis
    using rs(2,3) ls(2,3) l2
    by (intro exI [of _ "s\<lparr>work := d2\<rparr>"] exI [of _ rs] exI [of _ ls]) simp
qed

section \<open>The books of the points service\<close>

lemma run_steps_appended:
  "run_steps (ms @ ns) s = (case run_steps ms s of Inl e \<Rightarrow> Inl e | Inr s' \<Rightarrow> run_steps ns s')"
  by (induction ms arbitrary: s) (auto split: sum.split)

lemma lot_sum:
  assumes "list_all2 lot_for ls rs" "list_all2 opens rs us"
  shows "sum_where (\<lambda>l. lot_user_id l = uid) lot_remaining_amount (map lot_of_row ls) =
    sum_where (\<lambda>u. cell_int (u ''id'') = uid) (\<lambda>u. cell_int (u ''points'')) us"
  using assms
proof (induction arbitrary: us rule: list_all2_induct)
  case (Cons l ls r rs)
  then obtain u us' where us: "us = u # us'" "opens r u" "list_all2 opens rs us'"
    by (auto simp: list_all2_Cons1)
  then show ?case
    using Cons.IH [OF us(3)] lot_forD(1,3) [OF Cons.hyps(1)] opensD(1,2) [OF us(2)]
    by (simp add: sum_where_def lot_of_row_def)
qed (simp add: sum_where_def)

lemma sum_of_distinct:
  assumes "distinct (map key us)" "\<forall>u\<in>set us. 0 \<le> amount u"
  shows "sum_where (\<lambda>u. key u = k) amount (filter (\<lambda>u. 0 < amount u) us) =
    (case find_by key k us of None \<Rightarrow> 0 | Some u \<Rightarrow> amount u)"
  using assms
proof (induction us)
  case (Cons u us)
  have none: "filter (\<lambda>x. key x = key u) us = []"
    using Cons.prems(1) by (auto simp: filter_empty_conv) (metis imageI)
  have "filter (\<lambda>x. key x = key u) (filter (\<lambda>u. 0 < amount u) us) = []"
    using none by (auto simp: filter_empty_conv)
  then have "sum_where (\<lambda>x. key x = key u) amount (filter (\<lambda>u. 0 < amount u) us) = 0"
    by (simp only: sum_where_def) simp
  then show ?case
    using Cons by (auto simp: find_by_Cons sum_where_def)
qed (simp add: sum_where_def)

lemma find_user_row:
  "find_by ua_id k (map user_of_row us) = map_option user_of_row (find_by (\<lambda>u. cell_int (u ''id'')) k us)"
  by (induction us) (simp_all add: find_by_Cons user_of_row_def)

lemma distinct_numbers:
  assumes "distinct (map (\<lambda>r. r ''id'') rs)" "\<forall>r\<in>set rs. \<exists>i. r ''id'' = IntCell i"
  shows "distinct (map (\<lambda>r. cell_int (r ''id'')) rs)"
proof -
  have "x = y" if x: "x \<in> set rs" and y: "y \<in> set rs" and eq: "cell_int (x ''id'') = cell_int (y ''id'')" for x y
  proof -
    obtain i j where "x ''id'' = IntCell i" "y ''id'' = IntCell j" using assms(2) x y by blast
    then have "x ''id'' = y ''id''" using eq by (simp add: cell_int_def)
    then show ?thesis using assms(1) x y by (auto simp: distinct_map inj_on_def)
  qed
  then show ?thesis using assms(1) by (auto simp: distinct_map inj_on_def)
qed

lemma opened_books_ok:
  assumes rows: "table_rows ''point_ledgers'' d = rs" "table_rows ''point_lots'' d = ls"
      "table_rows ''point_lot_allocations'' d = []"
    and rs: "distinct (map (\<lambda>r. r ''id'') rs)" "list_all2 opens rs (filter has_points us)"
    and ls: "distinct (map (\<lambda>r. r ''id'') ls)" "list_all2 lot_for ls rs"
  shows "books_ok (books_of b d)"
proof -
  have ids: "distinct (map (\<lambda>r. cell_int (r ''id'')) rs)" "distinct (map (\<lambda>r. cell_int (r ''id'')) ls)"
    using distinct_numbers [OF rs(1)] distinct_numbers [OF ls(1)] list_all2_left [OF rs(2)]
      list_all2_left [OF ls(2)] opensD(4) lot_forD(5) by blast+
  have amount: "0 < cell_int (r ''amount'')" if "r \<in> set rs" for r
    using list_all2_left [OF rs(2) that] opensD(2) [of r] by (auto simp: has_points_def)
  have lot: "\<exists>r\<in>set rs. lot_for l r" if "l \<in> set ls" for l
    using list_all2_left [OF ls(2) that] .
  have remaining: "0 \<le> cell_int (l ''remaining_amount'')" if l: "l \<in> set ls" for l
  proof -
    obtain r where "r \<in> set rs" "lot_for l r" using lot [OF l] by blast
    then show ?thesis using amount [of r] lot_forD(3) [of l r] by simp
  qed
  have active: "l ''status'' = StrCell ''active''" if "l \<in> set ls" for l
    using lot [OF that] lot_forD(4) by blast
  have source: "\<exists>r\<in>set rs. cell_int (r ''id'') = cell_int (l ''source_ledger_id'') \<and>
      cell_int (r ''user_id'') = cell_int (l ''user_id'')" if l: "l \<in> set ls" for l
  proof -
    obtain r where "r \<in> set rs" "lot_for l r" using lot [OF l] by blast
    then show ?thesis using lot_forD(1,2) [of l r] by (intro bexI [of _ r]) simp_all
  qed
  show ?thesis
    unfolding books_ok_def
  proof (intro conjI)
    show "lots_ok (books_of b d)"
      using ids(2) remaining active
      by (auto simp: lots_ok_def books_of_def rows lot_of_row_def comp_def status_of_cell_def)
    show "ledgers_ok (books_of b d)"
      using ids(1) amount by (auto simp: ledgers_ok_def books_of_def rows ledger_of_row_def comp_def)
    show "allocs_ok (books_of b d)" by (simp add: allocs_ok_def books_of_def rows)
    show "spent_ok (books_of b d)"
      using amount by (auto simp: spent_ok_def books_of_def rows alloc_total_def sum_where_def
          ledger_of_row_def intro: less_imp_le)
    show "sources_ok (books_of b d)"
      using source by (fastforce simp: sources_ok_def books_of_def rows ledger_of_row_def lot_of_row_def)
  qed
qed

text \<open>
  C32: revision \<open>b7f2c8d9e410\<close> opens the points books: from any accounts with
  distinct ids and no negative points it creates the three tables and writes ledger entries and
  lots that satisfy the invariant of the points service, with every user's points exactly
  covered by the user's lots.
\<close>

theorem legacy_points_opened:
  assumes "\<not> has_table ''point_ledgers'' d" "\<not> has_table ''point_lots'' d"
      "\<not> has_table ''point_lot_allocations'' d"
    and "find_table ''user_accounts'' d = Some U" "distinct (map (\<lambda>r. r ''id'') (t_rows U))"
    and "\<forall>r\<in>set (t_rows U). (\<exists>i. r ''id'' = IntCell i) \<and> 0 \<le> cell_int (r ''points'')"
  shows "\<exists>s. run_steps (create_point_tables @ backfill_legacy_points) \<lparr>work = d, saved = d\<rparr> = Inr s \<and>
    points_ok (books_of b (work s)) \<and>
    (\<forall>uid. lot_total (books_of b (work s)) uid = points_of (books_of b (work s)) uid)"
proof -
  obtain s0 where s0: "run_steps create_point_tables \<lparr>work = d, saved = d\<rparr> = Inr s0"
    "point_tables_ready (Some U) (work s0)"
    using point_tables_created [OF assms(1-3)] assms(4) by auto
  have int: "\<forall>r\<in>set (t_rows U). \<exists>i. r ''id'' = IntCell i" using assms(6) by blast
  obtain s rs ls where s: "run_steps backfill_legacy_points s0 = Inr s"
    and rows: "table_rows ''user_accounts'' (work s) = t_rows U" "table_rows ''point_ledgers'' (work s) = rs"
      "table_rows ''point_lots'' (work s) = ls" "table_rows ''point_lot_allocations'' (work s) = []"
    and rs: "distinct (map (\<lambda>r. r ''id'') rs)" "list_all2 opens rs (filter has_points (t_rows U))"
    and ls: "distinct (map (\<lambda>r. r ''id'') ls)" "list_all2 lot_for ls rs"
    using backfill_runs [OF s0(2) assms(5) int] by blast
  let ?b = "books_of b (work s)"
  have total: "lot_total ?b uid = points_of ?b uid" for uid
  proof -
    have "lot_total ?b uid = sum_where (\<lambda>u. cell_int (u ''id'') = uid) (\<lambda>u. cell_int (u ''points''))
        (filter (\<lambda>u. 0 < cell_int (u ''points'')) (t_rows U))"
      using lot_sum [OF ls(2) rs(2)] by (simp add: lot_total_def books_of_def rows has_points_def [abs_def])
    also have "\<dots> = (case find_by (\<lambda>u. cell_int (u ''id'')) uid (t_rows U) of
        None \<Rightarrow> 0 | Some u \<Rightarrow> cell_int (u ''points''))"
      by (rule sum_of_distinct) (use distinct_numbers [OF assms(5) int] assms(6) in auto)
    also have "\<dots> = points_of ?b uid"
      by (simp add: points_of_def find_user_def books_of_def rows find_user_row user_of_row_def
          split: option.split)
    finally show ?thesis .
  qed
  moreover have "books_ok ?b" using opened_books_ok [OF rows(2-4) rs ls] .
  moreover have "run_steps (create_point_tables @ backfill_legacy_points) \<lparr>work = d, saved = d\<rparr> = Inr s"
    by (simp add: run_steps_appended s0(1) s)
  ultimately show ?thesis by (auto simp: points_ok_def)
qed

text \<open>Two accounts, one of them with points.\<close>

definition account_row :: "int \<Rightarrow> int \<Rightarrow> row" where
  "account_row i p = (\<lambda>_. Null)(''id'' := IntCell i, ''user_no'' := StrCell ''U'', ''points'' := IntCell p)"

definition accounts_sample :: sql_table where
  "accounts_sample = \<lparr>t_name = ''user_accounts'', t_columns = [], t_primary = [''id''], t_keys = [],
     t_rows = [account_row 7 30, account_row 9 0]\<rparr>"

theorem legacy_points_opened_witness:
  "\<forall>b. \<exists>s. run_steps (create_point_tables @ backfill_legacy_points)
      \<lparr>work = \<lparr>tables = [accounts_sample], clock = 0\<rparr>, saved = \<lparr>tables = [accounts_sample], clock = 0\<rparr>\<rparr> = Inr s \<and>
    points_ok (books_of b (work s)) \<and>
    (\<forall>uid. lot_total (books_of b (work s)) uid = points_of (books_of b (work s)) uid)"
proof (intro allI)
  fix b
  let ?d = "\<lparr>tables = [accounts_sample], clock = 0\<rparr>"
  have "find_table ''user_accounts'' ?d = Some accounts_sample"
    by (simp add: find_table_def find_by_Cons accounts_sample_def)
  then show "\<exists>s. run_steps (create_point_tables @ backfill_legacy_points) \<lparr>work = ?d, saved = ?d\<rparr> = Inr s \<and>
    points_ok (books_of b (work s)) \<and>
    (\<forall>uid. lot_total (books_of b (work s)) uid = points_of (books_of b (work s)) uid)"
    using legacy_points_opened [of ?d accounts_sample b]
    by (simp add: has_table_def accounts_sample_def account_row_def cell_int_def)
qed

end
