(* ===== verification/Dedupe_Props.thy ===== *)
theory Dedupe_Props
  imports Schema_Laws
begin

text \<open>
  \<open>_dedupe_school_sites\<close> of revision \<open>f6a3b4c5d602\<close>: when it makes the merchant accounts
  unique, and when it does not.
\<close>

section \<open>Rewritten rows\<close>

lemma rewrite_rows_Inr:
  "rewrite_rows p (\<lambda>r. Inr (f r)) rs = Inr (map (\<lambda>r. if p r then f r else r) rs)"
  by (induction rs) auto

lemma updated_rows:
  assumes "update_rows n p (\<lambda>r. Inr (f r)) d = Inr d'"
  shows "table_rows n d' = map (\<lambda>r. if p r then f r else r) (table_rows n d)"
proof -
  obtain t where t: "find_table n d = Some t"
    using assms by (auto simp: update_rows_def in_table_def split: option.splits)
  let ?rs = "map (\<lambda>r. if p r then f r else r) (t_rows t)"
  have d': "d' = d\<lparr>tables := update_by t_name n (\<lambda>_. t\<lparr>t_rows := ?rs\<rparr>\<lparr>t_name := n\<rparr>) (tables d)\<rparr>"
    using assms by (auto simp: update_rows_def in_table_def t rewrite_rows_Inr split: option.splits if_splits)
  show ?thesis
    using t by (simp add: d' table_rows_def schema_simps)
qed

section \<open>The suffix\<close>

lemma suffix_number:
  assumes "xs @ CHR ''-'' # ys = xs' @ CHR ''-'' # ys'" "CHR ''-'' \<notin> set ys" "CHR ''-'' \<notin> set ys'"
  shows "ys = ys'"
proof -
  have last: "rev (takeWhile (\<lambda>c. c \<noteq> CHR ''-'') (rev (us @ CHR ''-'' # zs))) = zs"
    if "CHR ''-'' \<notin> set zs" for us zs :: string
  proof -
    have "\<forall>c\<in>set (rev zs). c \<noteq> CHR ''-''" using that by auto
    then show ?thesis by (simp add: takeWhile_append)
  qed
  show ?thesis using last [OF assms(2), of xs] last [OF assms(3), of xs'] assms(1) by simp
qed

lemma positive_number_plain: "0 < i \<Longrightarrow> CHR ''-'' \<notin> set (str_int i)"
  by (auto simp: str_int_def dest: show_nat_plain)

definition dup_account :: "string \<Rightarrow> int \<Rightarrow> string" where
  "dup_account a i = take 50 a @ ''-dup-'' @ str_int i"

lemma dup_account_number:
  assumes "dup_account a i = dup_account b j" "0 < i" "0 < j"
  shows "i = j"
proof -
  have "str_int i = str_int j"
    using suffix_number [of "take 50 a @ ''-dup''" "str_int i" "take 50 b @ ''-dup''" "str_int j"]
      assms positive_number_plain by (simp add: dup_account_def)
  then show ?thesis by (rule str_int_inj)
qed

section \<open>Uniqueness\<close>

lemma unique_valuesI:
  assumes "distinct rs"
    and "\<And>r x. r \<in> set rs \<Longrightarrow> x \<in> set rs \<Longrightarrow> Null \<notin> set (key_value cs r) \<Longrightarrow>
      key_value cs r = key_value cs x \<Longrightarrow> r = x"
  shows "unique_values cs rs"
  using assms by (auto simp: unique_values_def filter_map comp_def distinct_map inj_on_def)

lemma account_value: "key_value [''merchant_account''] r = [r ''merchant_account'']"
  by (simp add: key_value_def)

lemma two_in_group:
  assumes "r \<in> set rs" "x \<in> set rs" "r \<noteq> x" "p r" "p x"
  shows "1 < length (filter p rs)"
proof -
  have "{r, x} \<subseteq> set (filter p rs)" using assms by auto
  then have "card {r, x} \<le> length (filter p rs)"
    by (metis card_length card_mono finite_set le_trans)
  then show ?thesis using assms(3) by simp
qed

text \<open>Of two schools with the same account at most one keeps it.\<close>

lemma one_keeps:
  assumes "r \<in> set rs" "x \<in> set rs" "r ''merchant_account'' = x ''merchant_account''"
    and "cell_int (r ''id'') \<noteq> cell_int (x ''id'')"
  shows "later_duplicate [''merchant_account''] rs r \<or> later_duplicate [''merchant_account''] rs x"
proof -
  let ?grp = "\<lambda>y. filter (\<lambda>z. key_value [''merchant_account''] z = key_value [''merchant_account''] y) rs"
  have same: "?grp x = ?grp r" using assms(3) by (simp add: account_value)
  have "r \<noteq> x" using assms(4) by blast
  then have len: "1 < length (?grp r)"
    by (rule two_in_group [OF assms(1,2)]) (simp_all add: account_value assms(3))
  let ?m = "Min (set (map (\<lambda>z. cell_int (z ''id'')) (?grp r)))"
  have "later_duplicate [''merchant_account''] rs r \<longleftrightarrow> cell_int (r ''id'') \<noteq> ?m"
    unfolding later_duplicate_def Let_def using len by blast
  moreover have "later_duplicate [''merchant_account''] rs x \<longleftrightarrow> cell_int (x ''id'') \<noteq> ?m"
    unfolding later_duplicate_def Let_def same using len by blast
  ultimately show ?thesis using assms(4) by metis
qed

text \<open>
  C35: \<open>_dedupe_school_sites\<close> makes the bound merchant accounts unique, so that the
  constraint of the next statement can be created, when no account contains \<open>-dup-\<close>
  already.
\<close>

theorem accounts_deduped:
  assumes "dedupe_accounts d = Inr d'"
    and "distinct (map (\<lambda>r. cell_int (r ''id'')) (table_rows ''school_sites'' d))"
    and "\<forall>r\<in>set (table_rows ''school_sites'' d). 0 < cell_int (r ''id'') \<and> r ''merchant_account'' \<noteq> StrCell [] \<and>
      (\<forall>a b. r ''merchant_account'' \<noteq> StrCell (a @ ''-dup-'' @ b))"
  shows "unique_values [''merchant_account''] (table_rows ''school_sites'' d')"
proof -
  let ?rs = "table_rows ''school_sites'' d"
  let ?p = "\<lambda>r. has_account r \<and> later_duplicate [''merchant_account''] ?rs r"
  let ?g = "\<lambda>r. if ?p r then suffix_account r else r"
  have rows: "table_rows ''school_sites'' d' = map ?g ?rs"
    using assms(1) unfolding dedupe_accounts_def by (rule updated_rows)
  have id: "?g r ''id'' = r ''id''" for r by (simp add: suffix_account_def)
  have changed: "?g r ''merchant_account'' =
      StrCell (dup_account (str_cell (r ''merchant_account'')) (cell_int (r ''id'')))" if "?p r" for r
    using that by (simp add: suffix_account_def dup_account_def)
  have never: "x ''merchant_account'' \<noteq> StrCell (dup_account s i)" if "x \<in> set ?rs" for x s i
    using assms(3) that unfolding dup_account_def by blast
  have eq: "r = x" if r: "r \<in> set ?rs" and x: "x \<in> set ?rs" and bound: "?g r ''merchant_account'' \<noteq> Null"
    and same: "?g r ''merchant_account'' = ?g x ''merchant_account''" for r x
  proof (rule ccontr)
    assume "r \<noteq> x"
    then have ids: "cell_int (r ''id'') \<noteq> cell_int (x ''id'')"
      using assms(2) r x by (auto simp: distinct_map inj_on_def)
    show False
    proof (cases "?p r"; cases "?p x")
      assume p: "?p r" "?p x"
      then have "dup_account (str_cell (r ''merchant_account'')) (cell_int (r ''id'')) =
          dup_account (str_cell (x ''merchant_account'')) (cell_int (x ''id''))"
        using same changed [of r] changed [of x] by (simp only: cell.inject)
      moreover have "0 < cell_int (r ''id'')" "0 < cell_int (x ''id'')" using assms(3) r x by blast+
      ultimately show False using ids dup_account_number by blast
    next
      assume p: "?p r" "\<not> ?p x"
      have h: "?g x = x" using p(2) by (rule if_not_P)
      have "x ''merchant_account'' = ?g r ''merchant_account''" using same unfolding h by (rule sym)
      with never [OF x] show False unfolding changed [OF p(1)] by blast
    next
      assume p: "\<not> ?p r" "?p x"
      have g: "?g r = r" using p(1) by (rule if_not_P)
      have "r ''merchant_account'' = ?g x ''merchant_account''" using same unfolding g .
      with never [OF r] show False unfolding changed [OF p(2)] by blast
    next
      assume p: "\<not> ?p r" "\<not> ?p x"
      have g: "?g r = r" using p(1) by (rule if_not_P)
      have h: "?g x = x" using p(2) by (rule if_not_P)
      have acc: "r ''merchant_account'' = x ''merchant_account''" using same unfolding g h .
      have "r ''merchant_account'' \<noteq> Null" using bound unfolding g .
      then have "has_account r" "has_account x"
        using acc assms(3) r unfolding has_account_def by metis+
      then show False using one_keeps [OF r x acc ids] p by blast
    qed
  qed
  show ?thesis
    unfolding rows
  proof (rule unique_valuesI)
    have "distinct (map (\<lambda>r. cell_int (r ''id'')) (map ?g ?rs))"
      using assms(2) by (simp add: comp_def id)
    then show "distinct (map ?g ?rs)" unfolding distinct_map by (rule conjunct1)
    fix r x assume r: "r \<in> set (map ?g ?rs)" and x: "x \<in> set (map ?g ?rs)"
      and v: "Null \<notin> set (key_value [''merchant_account''] r)"
        "key_value [''merchant_account''] r = key_value [''merchant_account''] x"
    obtain r0 where r0: "r0 \<in> set ?rs" "r = ?g r0" using r unfolding set_map by (rule imageE)
    obtain x0 where x0: "x0 \<in> set ?rs" "x = ?g x0" using x unfolding set_map by (rule imageE)
    have "r ''merchant_account'' \<noteq> Null" "r ''merchant_account'' = x ''merchant_account''"
      using v by (auto simp: account_value)
    then have "r0 = x0" using eq [OF r0(1) x0(1)] unfolding r0(2) x0(2) by blast
    then show "r = x" unfolding r0(2) x0(2) by (rule arg_cong)
  qed
qed

text \<open>A table of schools with only the columns that matter here.\<close>

definition school_row :: "int \<Rightarrow> string \<Rightarrow> row" where
  "school_row i a = (\<lambda>_. Null)(''id'' := IntCell i, ''merchant_account'' := StrCell a)"

definition schools_database :: "row list \<Rightarrow> database" where
  "schools_database rs = \<lparr>tables =
     [\<lparr>t_name = ''school_sites'', t_columns = [mk_column ''id'' SqlInteger False NoServerDefault,
         mk_column ''merchant_account'' (SqlString 60) True NoServerDefault],
       t_primary = [''id''], t_keys = [], t_rows = rs\<rparr>], clock = 0\<rparr>"

abbreviation twin_schools :: "row list" where
  "twin_schools \<equiv> [school_row 1 ''shop'', school_row 2 ''shop'', school_row 3 ''mall'']"

lemma find_schools:
  "find_table ''school_sites'' (schools_database rs) =
    Some (hd (tables (schools_database rs)))"
  by (simp add: schools_database_def find_table_def find_by_Cons)

lemma schools_rows: "table_rows ''school_sites'' (schools_database rs) = rs"
  by (simp add: table_rows_def find_schools) (simp add: schools_database_def)

lemma school_row_simps [simp]:
  "school_row i a ''id'' = IntCell i" "school_row i a ''merchant_account'' = StrCell a"
  "has_account (school_row i a) \<longleftrightarrow> a \<noteq> []"
  "key_value [''merchant_account''] (school_row i a) = [StrCell a]"
  "suffix_account (school_row i a) = school_row i (dup_account a i)"
  by (auto simp: school_row_def has_account_def account_value suffix_account_def dup_account_def
      str_cell_def cell_int_def)

lemma no_row_error:
  "list_all (\<lambda>(i, a). 0 \<le> i \<and> i < 2 ^ 31 \<and> length a \<le> 60) ias \<Longrightarrow> set rs \<subseteq> set (map (case_prod school_row) ias) \<Longrightarrow>
    first_error [mk_column ''id'' SqlInteger False NoServerDefault,
      mk_column ''merchant_account'' (SqlString 60) True NoServerDefault] rs = None"
  by (induction rs) (auto simp: mk_column_def list_all_iff)

lemma ids_unique: "distinct (map fst ias) \<Longrightarrow> unique_values [''id''] (map (case_prod school_row) ias)"
  by (auto simp: unique_values_def key_value_def filter_map comp_def distinct_map inj_on_def case_prod_beta)

lemma dedupe_schools:
  assumes "map (\<lambda>r. if has_account r \<and> later_duplicate [''merchant_account''] rs r then suffix_account r else r) rs =
      map (case_prod school_row) ias"
    and "distinct (map fst ias)" "list_all (\<lambda>(i, a). 0 \<le> i \<and> i < 2 ^ 31 \<and> length a \<le> 60) ias"
  shows "dedupe_accounts (schools_database rs) = Inr (schools_database (map (case_prod school_row) ias))"
proof -
  let ?t = "hd (tables (schools_database rs))" and ?new = "map (case_prod school_row) ias"
  have t: "t_rows ?t = rs" "t_keys ?t = []" "t_primary ?t = [''id'']" "t_columns ?t = [mk_column ''id'' SqlInteger False NoServerDefault,
      mk_column ''merchant_account'' (SqlString 60) True NoServerDefault]"
    by (simp_all add: schools_database_def)
  have keys: "keys_hold ?t ?new"
    using ids_unique [OF assms(2)] by (simp add: keys_hold_def unique_columns_def t)
  have ok: "first_error (t_columns ?t) (map snd (filter q (zip rs ?new))) = None" for q
    unfolding t by (rule no_row_error [OF assms(3)]) (auto dest: set_zip_rightD)
  have rows: "rewrite_rows (\<lambda>r. has_account r \<and> later_duplicate [''merchant_account''] rs r)
      (\<lambda>r. Inr (suffix_account r)) rs = Inr ?new"
    unfolding rewrite_rows_Inr assms(1) ..
  have "dedupe_accounts (schools_database rs) =
      Inr (schools_database rs\<lparr>tables := update_by t_name ''school_sites''
        (\<lambda>_. ?t\<lparr>t_rows := ?new\<rparr>\<lparr>t_name := ''school_sites''\<rparr>) (tables (schools_database rs))\<rparr>)"
    unfolding dedupe_accounts_def update_rows_def in_table_def find_schools schools_rows
    by (simp only: option.case t(1) rows sum.case ok keys if_True)
  then show ?thesis by (simp add: schools_database_def update_by_Cons)
qed

lemma str_small: "str_int 2 = ''2''" "str_int 3 = ''3''"
  by code_simp+

lemma twins_deduped:
  "dedupe_accounts (schools_database twin_schools) =
     Inr (schools_database [school_row 1 ''shop'', school_row 2 ''shop-dup-2'', school_row 3 ''mall''])"
proof -
  let ?ias = "[(1, ''shop''), (2, ''shop-dup-2''), (3, ''mall'')]"
  have "dedupe_accounts (schools_database twin_schools) = Inr (schools_database (map (case_prod school_row) ?ias))"
    by (rule dedupe_schools) (simp_all add: later_duplicate_def dup_account_def cell_int_def str_small)
  then show ?thesis by simp
qed

text \<open>The account a school is given may be that of another one.\<close>

lemma account_taken_again:
  "dedupe_accounts (schools_database [school_row 1 ''shop'', school_row 2 ''shop'', school_row 3 ''shop-dup-2'']) =
     Inr (schools_database [school_row 1 ''shop'', school_row 2 ''shop-dup-2'', school_row 3 ''shop-dup-2''])"
proof -
  let ?ias = "[(1, ''shop''), (2, ''shop-dup-2''), (3, ''shop-dup-2'')]"
  have "dedupe_accounts (schools_database [school_row 1 ''shop'', school_row 2 ''shop'', school_row 3 ''shop-dup-2'']) =
      Inr (schools_database (map (case_prod school_row) ?ias))"
    by (rule dedupe_schools) (simp_all add: later_duplicate_def dup_account_def cell_int_def str_small)
  then show ?thesis by simp
qed

theorem accounts_deduped_witness:
  "unique_values [''merchant_account''] (table_rows ''school_sites''
     (schools_database [school_row 1 ''shop'', school_row 2 ''shop-dup-2'', school_row 3 ''mall'']))"
proof (rule accounts_deduped [OF twins_deduped])
  show "distinct (map (\<lambda>r. cell_int (r ''id'')) (table_rows ''school_sites'' (schools_database twin_schools)))"
    by (simp add: schools_rows cell_int_def)
  have dup: "s \<noteq> a @ ''-dup-'' @ b" if "CHR ''-'' \<notin> set s" for s a b using that by auto
  show "\<forall>r\<in>set (table_rows ''school_sites'' (schools_database twin_schools)).
      0 < cell_int (r ''id'') \<and> r ''merchant_account'' \<noteq> StrCell [] \<and>
      (\<forall>a b. r ''merchant_account'' \<noteq> StrCell (a @ ''-dup-'' @ b))"
    unfolding schools_rows using dup [of "''shop''"] dup [of "''mall''"] by (simp add: cell_int_def)
qed

end
