(* ===== verification/Spec2Isabelle.thy ===== *)
theory Spec2Isabelle
  imports Points_Props Checkout_Props Payment_Props Sweep_Props Grant_Props Snowflake Number_Props Vip Vip_Props Wechat
    Trip_Props Contract_Props Travel_Reviews Config Storage Asset_Access Captcha Accounts Login_Props Schools
    Admin_Users Shop_Api Api_Props Learning Custom Insights Support Asset_Props Chat_Props
    Migrate_Props Legacy_Props Backfill_Props Dedupe_Props
begin

text \<open>
  A verification of the back end of a travel and study shop (\<open>app/\<close>, FastAPI over SQLAlchemy
  and Redis). Users earn points and study products, exchange points for places on routes,
  sign a contract, travel and check in; schools sell products and routes; administrators
  review and refund; everybody talks in support conversations.

  \<^bold>\<open>How the parts work together.\<close> The handlers of \<open>app/api\<close> check who calls (\<open>app/core/security.py\<close>),
  read and write rows, and leave what has to be consistent to three services: the points
  service (lots, ledger and allocations), the order service (stock in Redis and in the
  products table, idempotency keys, payment, refund) and the travel order service (the one
  cancellation, audit rows, codes). Background tasks cancel orders that are not paid.
  Settings of several features share one table of JSON values.

  \<^bold>\<open>How code becomes definitions.\<close> A handler or method is one function; its names are those of
  the source. It takes the time (\<open>now\<close>, microseconds since 1970, read once), the
  database and its arguments and returns a \<open>result\<close>: \<open>Inl\<close> the exception, \<open>Inr\<close> the value with
  the new database. An \<open>Inl\<close> without a state means that the session is rolled back; what
  survives an error (commits before a later raise, Redis, the disk) is returned beside it.
  After a rollback the attributes of the rows are expired, and code that reads one outside a
  query raises \<open>expired_attribute\<close>.
  The database \<open>db\<close> is a record of tables, a table the list of its rows in the order of
  insertion; unique constraints are checks at the flush that inserts the row. Money is an
  integer of cents, points are integers, Python's integers are \<open>int\<close>, strings are \<open>string\<close>.
  Redis is the client of the repository itself (\<open>_MemoryRedis\<close>) behind the wrapper, with a
  list of \<open>faults\<close> that says which of the coming commands fail. Order and transaction
  numbers, tokens and UUIDs are the draws of a function \<open>numbers\<close> in the database; theorems
  that need them to be new say so. What other sessions commit while a handler waits is a
  function \<open>others\<close> on databases. Texts that are shown to users are replaced by ASCII ones.

  Parameters of the model, since their code is not in the repository: the WeChat servers, RSA
  and AES, Argon2, the object store, the image library, \<open>json.loads\<close>, MySQL's functions on JSON. SHA-256 and HMAC are
  defined (theory \<open>Sha256\<close>).
\<close>

section \<open>The library\<close>

text \<open>
  \<^item> \<open>Prelude\<close>: errors, results, tables (\<open>find_by\<close>, \<open>update_by\<close>, \<open>fresh_id\<close>), JSON, Python's
    \<open>or\<close>, \<open>strip\<close> and slices, runs of a step relation with the locale of their invariants.
  \<^item> \<open>Py_Text\<close>, \<open>Py_Decimal\<close>, \<open>Py_Date\<close>, \<open>Sha256\<close>: integers as text and back, \<open>Decimal.quantize\<close>,
    the calendar and ISO dates, hashing.
  \<^item> \<open>Entities\<close>: the rows of \<open>app/models/entities.py\<close> and the database. \<open>Samples\<close>: the databases on
    which the properties are run.
  \<^item> \<open>Cache\<close> (\<open>core/cache.py\<close>): the memory client, the wrapper and the swallowing helpers, with the
    locale \<open>ttl_store\<close> of a map with expiry interpreted on it.
  \<^item> \<open>Snowflake\<close> (\<open>core/snowflake.py\<close>): the ids as Python integers, shifted and joined bit by
    bit (nothing cuts them to 64 bits); an error ends a run of the generator, whose state the
    source leaves as it was. The clock is a list of readings, so the wait for the next millisecond ends with the list or with the answer.
    \<open>Number_Props\<close>: numbers never repeat; the wait ends once a later reading comes.
  \<^item> \<open>Config\<close>, \<open>Settings\<close>, \<open>Vip\<close>, \<open>Order_Status\<close>, \<open>Contract\<close>, \<open>Captcha\<close>, \<open>Storage\<close>,
    \<open>Asset_Access\<close>: the files of \<open>app/core\<close> of these names.
\<close>

section \<open>Points\<close>

text \<open>
  \<open>Points\<close> models \<open>services/point_service.py\<close> operation by operation. \<open>Points_Laws\<close> states what each
  does to the books (every lot, ledger row and allocation fits) and to the balance; the
  locale \<open>machine\<close> of the prelude is interpreted on \<open>points_step\<close>. \<open>Points_Props\<close>: exact effect of
  credit, debit, refund, revocation and expiry, each idempotency key works once, lots that
  expire first (\<open>expires_before\<close>) are spent first, and the books are right in every reachable state. One
  theorem shows a sweep that fails because it would use a ledger key again.
\<close>

section \<open>Orders and payment\<close>

text \<open>
  \<open>Orders\<close> (creation) and \<open>Order_Life\<close> (payment, cancellation, refund, the delayed cancellation)
  model \<open>services/order_service.py\<close>, \<open>schemas/order.py\<close> and \<open>tasks/order_tasks.py\<close>; \<open>Shop_Api\<close>,
  \<open>Catalogue\<close> and \<open>Learning\<close> the handlers of \<open>api/commerce.py\<close>; \<open>Wechat\<close>
  \<open>services/wechat_pay_service.py\<close>. \<open>Order_Laws\<close>, \<open>Order_Stock\<close>, \<open>Order_Release\<close>, \<open>Order_Inv\<close> and
  \<open>Order_Machine\<close> build the invariant that ties both stock stores to the order items; the
  machine's steps are creation, payment, cancellation and refund.
  \<open>Order_Props\<close>: no overselling, the states of orders, unique keys. \<open>Checkout_Props\<close>: what a creation
  adds, what a failed one leaves (nothing), one order for each key. \<open>Payment_Props\<close>: a
  payment moves the price once and the wallet's books balance. \<open>Sweep_Props\<close>: the delayed
  job cancels its pending order and gives the stock back. \<open>Grant_Props\<close>: what a refund takes back. \<open>Api_Props\<close>: the
  lists read with one query equal the single reads. \<open>Vip_Props\<close>: the plans that come out
  of any stored JSON.
\<close>

section \<open>Travel orders\<close>

text \<open>
  \<open>Travel_Service\<close> (\<open>services/travel_order_service.py\<close>), \<open>Travel_Orders\<close> and \<open>Travel_Reviews\<close>
  (\<open>api/travel_orders.py\<close>) and \<open>Travel_Admin\<close> (the travel part of \<open>api/admin.py\<close>) are the code;
  \<open>order_move\<close> in \<open>Travel_Machine\<close> is the specification: the abstract life of one order as a
  table of moves, which every handler refines. \<open>Travel_Laws\<close> holds the frames.
  \<open>Travel_Props\<close> and \<open>Trip_Props\<close>: places are conserved, points and place are taken once and
  given back once, a check-in needs the current code and is recorded, and a cancelled
  order that comes back to life. \<open>Contract_Props\<close>: offered dates can be signed, an accepted
  date that crashes the signature, snapshots numbered once under racing sessions.
\<close>

section \<open>Accounts, content and support\<close>

text \<open>
  \<open>Access\<close> and \<open>Accounts\<close> (\<open>core/security.py\<close>, \<open>core/auth.py\<close>, \<open>core/login_guard.py\<close>,
  \<open>api/auth.py\<close>), \<open>Schools\<close> (\<open>api/merchant.py\<close> and the school part of \<open>api/admin.py\<close>),
  \<open>Admin_Users\<close>, \<open>Content\<close>, \<open>Insights\<close>, \<open>Media\<close>, \<open>Custom\<close> (the rest of \<open>api/admin.py\<close>,
  \<open>api/public.py\<close>, \<open>api/custom_travel.py\<close>, \<open>api/verification.py\<close>) and \<open>Support\<close>
  (\<open>api/support.py\<close>, with the hub of web sockets as a list of rooms).
  \<open>Login_Props\<close>: the lock after refused passwords; a login ends the user's other
  sessions of the same role, and those of another role stay. \<open>Chat_Machine\<close> and
  \<open>Chat_Props\<close>: the conversations as a machine over all steps of handlers and sockets, its
  counters, order of messages, rooms and flags. \<open>Asset_Props\<close>: a signed link opens its file
  for whoever holds it, and messages get links of foreign files signed.
\<close>

section \<open>The schema and its migrations\<close>

text \<open>
  \<open>Schema\<close> is the database as the migrations see it: tables with columns, keys and rows of
  cells, and the statements of MySQL in its strict mode on them (a new column fills the
  rows with its default, a unique key is refused over equal values, an insert names its
  columns, \<open>INSERT IGNORE\<close> skips what does not fit). A statement of the schema commits what was done
  before; \<open>transaction\<close> therefore returns the state that a failure leaves. A step of a
  migration is a function on this state, a revision the list of its steps.
  \<open>Baseline\<close> and \<open>Migrations\<close> are the fourteen files of \<open>migrations/versions\<close>, one definition for
  each table and each function, up and down; \<open>Models_Meta\<close> are the classes of
  \<open>app/models/entities.py\<close> as the tables they map, and what it means that a database agrees
  with them; \<open>Migrate\<close> is \<open>core/migrations.py\<close> with Alembic's walk along the revisions, each in
  its own transaction; \<open>Legacy_Schema\<close> is \<open>core/legacy_schema.py\<close> and \<open>db_migrate.py\<close>.
  \<open>Schema_Laws\<close>: a step that touches one table leaves the others alone, so a migration can
  be run table by table; \<open>Schema_Check\<close> runs each table's part on the kernel, \<open>Schema_Confined\<close> puts
  the parts together. \<open>Migrate_Props\<close>: the schema of a new database is that of the classes, and
  the last revision fails. \<open>Legacy_Props\<close>: steps that only add, and the fate of an adopted
  database. \<open>Backfill_Props\<close>: the books that are opened for old points satisfy the invariant
  of \<open>Points_Laws\<close>. \<open>Dedupe_Props\<close>: the merchant accounts of the schools become unique.
\<close>

section \<open>Bounds and fuel\<close>

text \<open>
  No definition is cut off by fuel: loops are structural recursions on the rows, items,
  characters or clock readings they consume; \<open>show_nat\<close> recurses on the quotient. The only
  finite resources are the list of clock readings (the wait of the id generator), the
  list of Redis faults (empty means healthy) and the number of retries the source itself
  allows when it draws a free user number. Words are used where the source works on
  a width: hashing on 32 bits.
\<close>

section \<open>Not modelled\<close>

text \<open>
  The branches of the migrations for SQLite and \<open>migrations/env.py\<close> (the connection that
  Alembic is given), \<open>seed.py\<close> and \<open>cli.py\<close> (sample rows and command lines), \<open>main.py\<close>,
  \<open>api/router.py\<close> and \<open>core/database.py\<close> (wiring), the response models of \<open>schemas/api.py\<close>
  (they rename columns), the detail page of a user in \<open>api/admin.py\<close> (it lists rows), the
  proxy for the invitation picture in \<open>api/public.py\<close> and the drawing of thumbnails (HTTP
  and the image library). Texts are not translated, log lines are left out, and a lock
  (\<open>with_for_update\<close>) is the assumption that a handler's reads and writes are one step,
  except where \<open>others\<close> says what may come between. The same holds without a lock for handlers that
  only read their row (\<open>check_in_order\<close>) and for the steps of a web socket (connecting, the
  online flags and the broadcast are one step of \<open>Support\<close>), so an interleaving inside them is
  not covered. Texts in unique columns are compared exactly; a collation of MySQL that ignores
  case would find more duplicates.
\<close>

end
